(* ===== verification/Exp_Prelude.thy ===== *)
theory Exp_Prelude
  imports Complex_Main "HOL-Library.Char_ord" "HOL-Library.List_Lexorder" "HOL-Library.Word"
    "HOL-Library.Multiset" "HOL-Library.Code_Target_Nat"
begin

text \<open>
  Shared vocabulary of the development: Go values that HOL has no type for (instants with a zone
  offset, IEEE-754 doubles), the stable sort of Go's package sort, membership tests over Go maps
  used as sets, and the lemma collections the component theories feed.

  Strings are byte lists (\<open>char list\<close>); with Char\_ord and List\_Lexorder the order \<open><\<close> on them is
  Go's bytewise string order.
\<close>

named_theorems go_simps \<open>unfolding rules of the small Go library functions\<close>
named_theorems store_simps \<open>field updates of the operational store\<close>

type_synonym ('e, 'a) result = "'e + 'a"

section \<open>Fallible results\<close>

text \<open>Go's \<open>if err != nil { return err }\<close> as a bind, and an early return on a failed guard.\<close>

definition andThen :: "('e, 'a) result \<Rightarrow> ('a \<Rightarrow> ('e, 'b) result) \<Rightarrow> ('e, 'b) result" where
  "andThen r f = (case r of Inl e \<Rightarrow> Inl e | Inr a \<Rightarrow> f a)"

definition guarded :: "bool \<Rightarrow> 'e \<Rightarrow> ('e, 'a) result \<Rightarrow> ('e, 'a) result" where
  "guarded ok e r = (if ok then r else Inl e)"

lemma andThen_Inr_iff: "andThen r f = Inr x \<longleftrightarrow> (\<exists>a. r = Inr a \<and> f a = Inr x)"
  by (cases r) (auto simp: andThen_def)

lemma andThen_simps [simp]: "andThen (Inr a) f = f a" "andThen (Inl e) f = Inl e"
  by (simp_all add: andThen_def)

lemma guarded_Inr_iff: "guarded c e r = Inr x \<longleftrightarrow> c \<and> r = Inr x"
  by (auto simp: guarded_def)

lemma guarded_simps [simp]: "guarded True e r = r" "guarded False e r = Inl e"
  by (simp_all add: guarded_def)

lemmas result_iffs = andThen_Inr_iff guarded_Inr_iff

section \<open>Instants (time.Time)\<close>

text \<open>
  A \<open>time.Time\<close> is an instant, in nanoseconds since Go's zero time (1 January of year 1, UTC),
  with the offset of its location in seconds. Comparisons look at the instant only.
\<close>

datatype go_time = GoTime (t_instant: int) (t_offset: int)

definition zero_time :: go_time where
  "zero_time = GoTime 0 0"

definition time_is_zero :: "go_time \<Rightarrow> bool" where
  [go_simps]: "time_is_zero t \<longleftrightarrow> t_instant t = 0"

definition time_before :: "go_time \<Rightarrow> go_time \<Rightarrow> bool" where
  [go_simps]: "time_before a b \<longleftrightarrow> t_instant a < t_instant b"

definition time_after :: "go_time \<Rightarrow> go_time \<Rightarrow> bool" where
  [go_simps]: "time_after a b \<longleftrightarrow> t_instant b < t_instant a"

definition time_equal :: "go_time \<Rightarrow> go_time \<Rightarrow> bool" where
  [go_simps]: "time_equal a b \<longleftrightarrow> t_instant a = t_instant b"

section \<open>Doubles (float64)\<close>

text \<open>
  A double is a finite rational, an infinity or NaN (\<open>-0.0\<close> is identified with \<open>0.0\<close>: no modelled
  operation tells them apart). Comparisons with NaN are false. Arithmetic rounds: \<open>rnd\<close> stands
  for the rounding of an exact finite result to the nearest double (overflow gives an infinity).
\<close>

datatype go_float = Fin rat | PosInf | NegInf | NaN

fun f_less :: "go_float \<Rightarrow> go_float \<Rightarrow> bool" where
  "f_less (Fin a) (Fin b) = (a < b)"
| "f_less (Fin _) PosInf = True"
| "f_less NegInf (Fin _) = True"
| "f_less NegInf PosInf = True"
| "f_less _ _ = False"

fun f_eq :: "go_float \<Rightarrow> go_float \<Rightarrow> bool" where
  "f_eq (Fin a) (Fin b) = (a = b)"
| "f_eq PosInf PosInf = True"
| "f_eq NegInf NegInf = True"
| "f_eq _ _ = False"

definition f_le :: "go_float \<Rightarrow> go_float \<Rightarrow> bool" where
  [go_simps]: "f_le a b \<longleftrightarrow> f_less a b \<or> f_eq a b"

fun f_finite :: "go_float \<Rightarrow> bool" where
  "f_finite (Fin _) = True"
| "f_finite _ = False"

definition f_zero :: go_float where [go_simps]: "f_zero = Fin 0"
definition f_one :: go_float where [go_simps]: "f_one = Fin 1"

text \<open>Arithmetic over a rounding function; \<open>f_div\<close> follows Go for zero divisors of positive sign.\<close>

fun f_neg :: "go_float \<Rightarrow> go_float" where
  "f_neg (Fin a) = Fin (- a)"
| "f_neg PosInf = NegInf"
| "f_neg NegInf = PosInf"
| "f_neg NaN = NaN"

fun f_add :: "(rat \<Rightarrow> go_float) \<Rightarrow> go_float \<Rightarrow> go_float \<Rightarrow> go_float" where
  "f_add rnd (Fin a) (Fin b) = rnd (a + b)"
| "f_add rnd NaN _ = NaN"
| "f_add rnd _ NaN = NaN"
| "f_add rnd PosInf NegInf = NaN"
| "f_add rnd NegInf PosInf = NaN"
| "f_add rnd PosInf _ = PosInf"
| "f_add rnd _ PosInf = PosInf"
| "f_add rnd NegInf _ = NegInf"
| "f_add rnd _ NegInf = NegInf"

definition f_sub :: "(rat \<Rightarrow> go_float) \<Rightarrow> go_float \<Rightarrow> go_float \<Rightarrow> go_float" where
  "f_sub rnd x y = f_add rnd x (f_neg y)"

fun f_sgn :: "go_float \<Rightarrow> rat" where
  "f_sgn (Fin a) = sgn a"
| "f_sgn PosInf = 1"
| "f_sgn NegInf = -1"
| "f_sgn NaN = 0"

definition f_inf :: "rat \<Rightarrow> go_float" where
  "f_inf s = (if s = 0 then NaN else if 0 < s then PosInf else NegInf)"

fun f_mul :: "(rat \<Rightarrow> go_float) \<Rightarrow> go_float \<Rightarrow> go_float \<Rightarrow> go_float" where
  "f_mul rnd (Fin a) (Fin b) = rnd (a * b)"
| "f_mul rnd x y = f_inf (f_sgn x * f_sgn y)"

fun f_div :: "(rat \<Rightarrow> go_float) \<Rightarrow> go_float \<Rightarrow> go_float \<Rightarrow> go_float" where
  "f_div rnd (Fin a) (Fin b) = (if b = 0 then f_inf (sgn a) else rnd (a / b))"
| "f_div rnd NaN _ = NaN"
| "f_div rnd _ NaN = NaN"
| "f_div rnd (Fin a) _ = Fin 0"
| "f_div rnd x (Fin b) = f_inf (f_sgn x * (if b < 0 then -1 else 1))"
| "f_div rnd _ _ = NaN"

text \<open>\<open>math.Max\<close> and \<open>math.Min\<close>: NaN is contagious.\<close>

definition f_max :: "go_float \<Rightarrow> go_float \<Rightarrow> go_float" where
  "f_max x y = (if x = PosInf \<or> y = PosInf then PosInf else if x = NaN \<or> y = NaN then NaN
     else if f_less x y then y else x)"

definition f_min :: "go_float \<Rightarrow> go_float \<Rightarrow> go_float" where
  "f_min x y = (if x = NegInf \<or> y = NegInf then NegInf else if x = NaN \<or> y = NaN then NaN
     else if f_less y x then y else x)"

lemma f_finite_iff: "f_finite x \<longleftrightarrow> (\<exists>q. x = Fin q)"
  by (cases x) auto

lemma f_less_irrefl [simp]: "\<not> f_less x x"
  by (cases x) auto

lemma f_less_trans: "f_less x y \<Longrightarrow> f_less y z \<Longrightarrow> f_less x z"
  by (cases x; cases y; cases z) auto

lemma f_less_asym: "f_less x y \<Longrightarrow> \<not> f_less y x"
  using f_less_trans f_less_irrefl by blast

lemma f_eq_iff: "f_eq x y \<longleftrightarrow> x = y \<and> x \<noteq> NaN"
  by (cases x; cases y) auto

lemma f_total: "x \<noteq> NaN \<Longrightarrow> y \<noteq> NaN \<Longrightarrow> f_less x y \<or> x = y \<or> f_less y x"
  by (cases x; cases y) auto

section \<open>Stable sorting (sort.SliceStable)\<close>

text \<open>
  \<open>sort.SliceStable\<close> with a strict weak order \<open>less\<close> has one possible result: the stable sort. It
  is modelled by insertion, each element put before the first one that is not less than it.
\<close>

fun insort_by :: "('a \<Rightarrow> 'a \<Rightarrow> bool) \<Rightarrow> 'a \<Rightarrow> 'a list \<Rightarrow> 'a list" where
  "insort_by lt x [] = [x]"
| "insort_by lt x (y # ys) = (if lt y x then y # insort_by lt x ys else x # y # ys)"

definition stable_sort :: "('a \<Rightarrow> 'a \<Rightarrow> bool) \<Rightarrow> 'a list \<Rightarrow> 'a list" where
  "stable_sort lt xs = foldr (insort_by lt) xs []"

lemma stable_sort_simps [simp]:
  "stable_sort lt [] = []"
  "stable_sort lt (x # xs) = insort_by lt x (stable_sort lt xs)"
  by (simp_all add: stable_sort_def)

lemma mset_insort_by [simp]: "mset (insort_by lt x xs) = add_mset x (mset xs)"
  by (induction xs) auto

lemma mset_stable_sort [simp]: "mset (stable_sort lt xs) = mset xs"
  by (induction xs) auto

lemma set_stable_sort [simp]: "set (stable_sort lt xs) = set xs"
  using mset_stable_sort by (metis set_mset_mset)

lemma length_stable_sort [simp]: "length (stable_sort lt xs) = length xs"
  using mset_stable_sort by (metis size_mset)

lemma set_insort_by [simp]: "set (insort_by lt x xs) = insert x (set xs)"
  by (induction xs) auto

definition no_inversion :: "('a \<Rightarrow> 'a \<Rightarrow> bool) \<Rightarrow> 'a list \<Rightarrow> bool" where
  "no_inversion lt xs \<longleftrightarrow> sorted_wrt (\<lambda>x y. \<not> lt y x) xs"

lemma no_inversion_insort_by:
  assumes "\<And>x y z. x \<in> A \<Longrightarrow> y \<in> A \<Longrightarrow> z \<in> A \<Longrightarrow> \<not> lt y x \<Longrightarrow> \<not> lt z y \<Longrightarrow> \<not> lt z x"
    and "\<And>x y. x \<in> A \<Longrightarrow> y \<in> A \<Longrightarrow> lt x y \<Longrightarrow> \<not> lt y x"
    and "no_inversion lt xs" and "set xs \<subseteq> A" and "x \<in> A"
  shows "no_inversion lt (insort_by lt x xs)"
  using assms(3,4)
proof (induction xs)
  case Nil
  then show ?case by (simp add: no_inversion_def)
next
  case (Cons y ys)
  then have ys: "no_inversion lt (insort_by lt x ys)" and y: "y \<in> A" "set ys \<subseteq> A"
    and yall: "\<forall>z \<in> set ys. \<not> lt z y"
    by (auto simp: no_inversion_def)
  show ?case
  proof (cases "lt y x")
    case True
    then have "\<not> lt x y" using assms(2,5) y by blast
    with True ys yall show ?thesis by (simp add: no_inversion_def)
  next
    case False
    have "\<forall>z \<in> set ys. \<not> lt z x"
      using assms(1) [OF assms(5) y(1) _ False] y(2) yall by blast
    with False Cons.prems(1) show ?thesis by (simp add: no_inversion_def)
  qed
qed

lemma no_inversion_stable_sort:
  assumes trans: "\<And>x y z. x \<in> A \<Longrightarrow> y \<in> A \<Longrightarrow> z \<in> A \<Longrightarrow> \<not> lt y x \<Longrightarrow> \<not> lt z y \<Longrightarrow> \<not> lt z x"
    and asym: "\<And>x y. x \<in> A \<Longrightarrow> y \<in> A \<Longrightarrow> lt x y \<Longrightarrow> \<not> lt y x"
    and sub: "set xs \<subseteq> A"
  shows "no_inversion lt (stable_sort lt xs)"
  using sub
proof (induction xs)
  case Nil
  then show ?case by (simp add: no_inversion_def)
next
  case (Cons x xs)
  then have x: "x \<in> A" "set (stable_sort lt xs) \<subseteq> A" "no_inversion lt (stable_sort lt xs)"
    by simp_all
  have "no_inversion lt (insort_by lt x (stable_sort lt xs))"
    by (rule no_inversion_insort_by [OF trans asym x(3) x(2) x(1)])
  then show ?case by simp
qed

text \<open>A list without inversions of a total order is determined by its elements.\<close>

lemma no_inversion_unique:
  assumes "\<And>x y. x \<in> A \<Longrightarrow> y \<in> A \<Longrightarrow> x \<noteq> y \<Longrightarrow> lt x y \<or> lt y x"
    and "no_inversion lt xs" and "no_inversion lt ys" and "mset xs = mset ys" and "set xs \<subseteq> A"
  shows "xs = ys"
  using assms(2-)
proof (induction xs arbitrary: ys)
  case Nil
  then show ?case by simp
next
  case (Cons x xs)
  then obtain y ys' where ys: "ys = y # ys'" by (cases ys) auto
  have sets: "set (x # xs) = set (y # ys')" using Cons.prems(3) ys by (metis set_mset_mset)
  have "x = y"
  proof (rule ccontr)
    assume "x \<noteq> y"
    with sets have "x \<in> set ys'" "y \<in> set xs" by auto
    with Cons.prems(1,2) ys have "\<not> lt y x" "\<not> lt x y" by (auto simp: no_inversion_def)
    moreover have "x \<in> A" "y \<in> A" using Cons.prems(4) sets by auto
    ultimately show False using assms(1) \<open>x \<noteq> y\<close> by blast
  qed
  with Cons ys show ?case by (simp add: no_inversion_def)
qed

section \<open>Small list facts\<close>

lemma find_Some_mem: "List.find P xs = Some x \<Longrightarrow> x \<in> set xs \<and> P x"
  by (induction xs) (auto split: if_splits)

lemma find_None_iff_all: "List.find P xs = None \<longleftrightarrow> (\<forall>x \<in> set xs. \<not> P x)"
  by (auto simp: find_None_iff)

lemma find_unique:
  assumes "x \<in> set xs" and "P x" and "\<And>y. y \<in> set xs \<Longrightarrow> P y \<Longrightarrow> y = x"
  shows "List.find P xs = Some x"
  using assms
proof (induction xs)
  case Nil
  then show ?case by simp
next
  case (Cons y ys)
  show ?case
  proof (cases "P y")
    case True
    with Cons.prems(3) have "y = x" by simp
    with True show ?thesis by simp
  next
    case False
    with Cons.prems(1,2) have "x \<in> set ys" by auto
    moreover have "\<And>z. z \<in> set ys \<Longrightarrow> P z \<Longrightarrow> z = x" by (rule Cons.prems(3)) simp_all
    ultimately have "List.find P ys = Some x" using Cons.IH Cons.prems(2) by blast
    with False show ?thesis by simp
  qed
qed

lemma sum_list_map_single:
  fixes f g :: "'a \<Rightarrow> 'b :: comm_monoid_add"
  assumes "x \<in> set xs" and "distinct (map k xs)"
    and "\<And>y. y \<in> set xs \<Longrightarrow> k y \<noteq> k x \<Longrightarrow> g y = f y" and "g x = f x + d"
  shows "sum_list (map g xs) = sum_list (map f xs) + d"
  using assms
proof (induction xs)
  case Nil
  then show ?case by simp
next
  case (Cons y ys)
  show ?case
  proof (cases "y = x")
    case True
    with Cons.prems(2) have "\<forall>z \<in> set ys. k z \<noteq> k x" by (metis image_eqI distinct.simps(2) list.simps(9) set_map)
    with Cons.prems(3) have "map g ys = map f ys" by auto
    with True Cons.prems(4) show ?thesis by (simp add: ac_simps cong: map_cong)
  next
    case False
    with Cons.prems have "x \<in> set ys" "distinct (map k ys)" "k y \<noteq> k x" by auto
    with Cons show ?thesis by (simp add: ac_simps)
  qed
qed

end
