(* ===== verification/Exp_Text.thy ===== *)
theory Exp_Text
  imports Exp_Prelude
begin

text \<open>
  The text discipline of canonical records: the parts of Go's strings, unicode/utf8, unicode and
  path packages that \<^verbatim>\<open>internal/research/policy.go\<close> uses, its pattern predicates (slugs, metric
  names, namespaces, digests, Git object names), \<^verbatim>\<open>NormalizeSourceKey\<close> and
  \<^verbatim>\<open>ValidateCommittedPath\<close>.
\<close>

section \<open>Go's strings and utf8 packages\<close>

definition byte :: "char \<Rightarrow> nat" where
  "byte c = of_char c"

definition has_prefix :: "string \<Rightarrow> string \<Rightarrow> bool" where
  "has_prefix s p \<longleftrightarrow> take (length p) s = p"

definition has_suffix :: "string \<Rightarrow> string \<Rightarrow> bool" where
  "has_suffix s p \<longleftrightarrow> length p \<le> length s \<and> drop (length s - length p) s = p"

definition trim_prefix :: "string \<Rightarrow> string \<Rightarrow> string" where
  "trim_prefix s p = (if has_prefix s p then drop (length p) s else s)"

fun contains_str :: "string \<Rightarrow> string \<Rightarrow> bool" where
  "contains_str [] p = (p = [])"
| "contains_str (c # s) p = (has_prefix (c # s) p \<or> contains_str s p)"

text \<open>\<open>strings.Split\<close> on one separator byte; a pattern class splits on any byte of a set.\<close>

fun split_by :: "(char \<Rightarrow> bool) \<Rightarrow> string \<Rightarrow> string list" where
  "split_by P [] = [[]]"
| "split_by P (c # s) = (if P c then [] # split_by P s
     else case split_by P s of [] \<Rightarrow> [[c]] | w # ws \<Rightarrow> (c # w) # ws)"

definition split_on :: "char \<Rightarrow> string \<Rightarrow> string list" where
  "split_on sep s = split_by (\<lambda>c. c = sep) s"

fun join_with :: "char \<Rightarrow> string list \<Rightarrow> string" where
  "join_with sep [] = []"
| "join_with sep [w] = w"
| "join_with sep (w # ws) = w @ sep # join_with sep ws"

text \<open>
  \<open>utf8.DecodeRune\<close>: the code point at the head of a byte list and the number of continuation
  bytes it takes, or None where the encoding is invalid (surrogates and overlong forms included).
\<close>

definition cont :: "nat \<Rightarrow> bool" where
  "cont b \<longleftrightarrow> 128 \<le> b \<and> b < 192"

fun utf8_head :: "nat list \<Rightarrow> (nat \<times> nat) option" where
  "utf8_head [] = None"
| "utf8_head (b # bs) =
    (if b < 128 then Some (b, 0)
     else if 194 \<le> b \<and> b < 224 then
       (case bs of b1 # _ \<Rightarrow> if cont b1 then Some ((b - 192) * 64 + (b1 - 128), 1) else None
        | _ \<Rightarrow> None)
     else if 224 \<le> b \<and> b < 240 then
       (case bs of b1 # b2 # _ \<Rightarrow>
          if cont b1 \<and> cont b2 \<and> (b = 224 \<longrightarrow> 160 \<le> b1) \<and> (b = 237 \<longrightarrow> b1 < 160)
          then Some ((b - 224) * 4096 + (b1 - 128) * 64 + (b2 - 128), 2) else None
        | _ \<Rightarrow> None)
     else if 240 \<le> b \<and> b < 245 then
       (case bs of b1 # b2 # b3 # _ \<Rightarrow>
          if cont b1 \<and> cont b2 \<and> cont b3 \<and> (b = 240 \<longrightarrow> 144 \<le> b1) \<and> (b = 244 \<longrightarrow> b1 < 144)
          then Some ((b - 240) * 262144 + (b1 - 128) * 4096 + (b2 - 128) * 64 + (b3 - 128), 3)
          else None
        | _ \<Rightarrow> None)
     else None)"

text \<open>
  Ranging over a string: each rune with the bytes it spans; an invalid byte is U+FFFD (65533),
  one byte wide, and marked as invalid.
\<close>

datatype rune_chunk = Chunk (ck_valid: bool) (ck_rune: nat) (ck_bytes: string)

fun utf8_chunks :: "string \<Rightarrow> rune_chunk list" where
  "utf8_chunks [] = []"
| "utf8_chunks (c # s) =
    (case utf8_head (byte c # map byte (take 3 s)) of
       None \<Rightarrow> Chunk False 65533 [c] # utf8_chunks s
     | Some (r, n) \<Rightarrow> Chunk True r (c # take n s) # utf8_chunks (drop n s))"

definition runes :: "string \<Rightarrow> nat list" where
  "runes s = map ck_rune (utf8_chunks s)"

definition utf8_valid :: "string \<Rightarrow> bool" where
  "utf8_valid s \<longleftrightarrow> list_all ck_valid (utf8_chunks s)"

text \<open>\<open>unicode.IsSpace\<close> and \<open>unicode.IsControl\<close> (category Cc), by code point.\<close>

definition is_space :: "nat \<Rightarrow> bool" where
  "is_space r \<longleftrightarrow> (9 \<le> r \<and> r \<le> 13) \<or> r = 32 \<or> r = 133 \<or> r = 160 \<or> r = 5760 \<or>
     (8192 \<le> r \<and> r \<le> 8202) \<or> r = 8232 \<or> r = 8233 \<or> r = 8239 \<or> r = 8287 \<or> r = 12288"

definition is_control :: "nat \<Rightarrow> bool" where
  "is_control r \<longleftrightarrow> r < 32 \<or> (127 \<le> r \<and> r < 160)"

definition trim_space :: "string \<Rightarrow> string" where
  "trim_space s = concat (map ck_bytes
     (rev (dropWhile (is_space \<circ> ck_rune) (rev (dropWhile (is_space \<circ> ck_rune) (utf8_chunks s))))))"

text \<open>
  \<open>strings.ToLower\<close>, exact wherever the result is compared with ASCII text, which is all the code
  does with it: ASCII letters, and the two other runes whose lower case is an ASCII letter
  (U+0130, U+212A).
\<close>

definition lower_char :: "char \<Rightarrow> char" where
  "lower_char c = (if 65 \<le> byte c \<and> byte c \<le> 90 then char_of (byte c + 32) else c)"

definition upper_char :: "char \<Rightarrow> char" where
  "upper_char c = (if 97 \<le> byte c \<and> byte c \<le> 122 then char_of (byte c - 32) else c)"

definition lower_chunk :: "rune_chunk \<Rightarrow> string" where
  "lower_chunk ck = (if ck_rune ck = 304 then ''i'' else if ck_rune ck = 8490 then ''k''
     else map lower_char (ck_bytes ck))"

definition to_lower :: "string \<Rightarrow> string" where
  "to_lower s = concat (map lower_chunk (utf8_chunks s))"

text \<open>\<open>strconv.Itoa\<close> of a non-negative number.\<close>

definition digit_char :: "nat \<Rightarrow> char" where
  "digit_char n = char_of (48 + n)"

fun itoa :: "nat \<Rightarrow> string" where
  "itoa n = (if n < 10 then [digit_char n] else itoa (n div 10) @ [digit_char (n mod 10)])"

declare itoa.simps [simp del]

section \<open>Text predicates (policy.go)\<close>

definition nonempty :: "string \<Rightarrow> bool" where
  "nonempty value \<longleftrightarrow> utf8_valid value \<and> CHR 0x00 \<notin> set value \<and> trim_space value \<noteq> []"

definition singleLine :: "string \<Rightarrow> bool" where
  "singleLine value \<longleftrightarrow> nonempty value \<and> value = trim_space value \<and>
     CHR 0x0D \<notin> set value \<and> CHR 0x0A \<notin> set value"

definition hasAnyControl :: "string \<Rightarrow> bool" where
  "hasAnyControl value \<longleftrightarrow> list_ex is_control (runes value)"

definition hasUnsafeTextControl :: "string \<Rightarrow> bool" where
  "hasUnsafeTextControl value \<longleftrightarrow> list_ex (\<lambda>r. is_control r \<and> r \<noteq> 10 \<and> r \<noteq> 9) (runes value)"

definition lower_alnum :: "char \<Rightarrow> bool" where
  "lower_alnum c \<longleftrightarrow> (97 \<le> byte c \<and> byte c \<le> 122) \<or> (48 \<le> byte c \<and> byte c \<le> 57)"

definition lower_hex :: "char \<Rightarrow> bool" where
  "lower_hex c \<longleftrightarrow> (97 \<le> byte c \<and> byte c \<le> 102) \<or> (48 \<le> byte c \<and> byte c \<le> 57)"

definition is_digit :: "char \<Rightarrow> bool" where
  "is_digit c \<longleftrightarrow> 48 \<le> byte c \<and> byte c \<le> 57"

definition word_of :: "(char \<Rightarrow> bool) \<Rightarrow> string \<Rightarrow> bool" where
  "word_of P w \<longleftrightarrow> w \<noteq> [] \<and> list_all P w"

text \<open>The regular expressions \<^verbatim>\<open>slugPattern\<close>, \<^verbatim>\<open>metricPattern\<close>, \<^verbatim>\<open>namespacePattern\<close>,
  \<^verbatim>\<open>digestPattern\<close> and \<^verbatim>\<open>gitCommitPattern\<close> as recognisers.\<close>

definition validSlug :: "string \<Rightarrow> bool" where
  "validSlug value \<longleftrightarrow> list_all (word_of lower_alnum) (split_on CHR ''-'' value)"

definition validMetric :: "string \<Rightarrow> bool" where
  "validMetric value \<longleftrightarrow> list_all (word_of lower_alnum) (split_by (\<lambda>c. c \<in> set ''._-'') value)"

definition namespace_label :: "string \<Rightarrow> bool" where
  "namespace_label w \<longleftrightarrow> word_of (\<lambda>c. lower_alnum c \<or> c = CHR ''-'') w \<and>
     lower_alnum (hd w) \<and> lower_alnum (last w)"

definition validNamespace :: "string \<Rightarrow> bool" where
  "validNamespace value \<longleftrightarrow> (let labels = split_on CHR ''.'' value
     in 2 \<le> length labels \<and> list_all namespace_label labels)"

definition validDigest :: "string \<Rightarrow> bool" where
  "validDigest value \<longleftrightarrow> has_prefix value ''sha256:'' \<and> length value = 71 \<and>
     list_all lower_hex (drop 7 value)"

definition validGitCommit :: "string \<Rightarrow> bool" where
  "validGitCommit value \<longleftrightarrow> (length value = 40 \<or> length value = 64) \<and> list_all lower_hex value"

section \<open>NormalizeSourceKey\<close>

definition MaxSourceKeyBytes :: nat where
  "MaxSourceKeyBytes = 64"

text \<open>One turn of the loop over the runes of the trimmed value (the builder so far and the pending
  separator), and the loop; None is the byte-limit error.\<close>

definition key_step :: "nat \<Rightarrow> string \<Rightarrow> bool \<Rightarrow> string \<times> bool" where
  "key_step r builder separator =
    (let sep = (if separator \<and> builder \<noteq> [] then ''-'' else [])
     in if 65 \<le> r \<and> r \<le> 90 then (builder @ sep @ [char_of (r + 32)], False)
        else if (97 \<le> r \<and> r \<le> 122) \<or> (48 \<le> r \<and> r \<le> 57) then (builder @ sep @ [char_of r], False)
        else (builder, builder \<noteq> []))"

fun key_loop :: "nat list \<Rightarrow> string \<Rightarrow> bool \<Rightarrow> string option" where
  "key_loop [] builder separator = Some builder"
| "key_loop (r # rs) builder separator =
    (case key_step r builder separator of (builder', separator') \<Rightarrow>
       if length builder' > MaxSourceKeyBytes then None else key_loop rs builder' separator')"

definition NormalizeSourceKey :: "string \<Rightarrow> string option" where
  "NormalizeSourceKey value =
    (case key_loop (runes (trim_space value)) [] False of
       None \<Rightarrow> None
     | Some built \<Rightarrow>
         (let key = rev (dropWhile (\<lambda>c. c = CHR ''-'') (rev (dropWhile (\<lambda>c. c = CHR ''-'') built)))
          in if key = [] \<or> \<not> validSlug key then None else Some key))"

section \<open>ValidateCommittedPath\<close>

text \<open>\<open>path.Clean\<close> (Go's path package) on slash-separated text.\<close>

fun clean_parts :: "bool \<Rightarrow> string list \<Rightarrow> string list \<Rightarrow> string list" where
  "clean_parts rooted acc [] = rev acc"
| "clean_parts rooted acc (w # ws) =
    (if w = [] \<or> w = ''.'' then clean_parts rooted acc ws
     else if w = ''..'' then
       (case acc of [] \<Rightarrow> clean_parts rooted (if rooted then [] else [w]) ws
        | a # acc' \<Rightarrow> if a = ''..'' then clean_parts rooted (w # acc) ws else clean_parts rooted acc' ws)
     else clean_parts rooted (w # acc) ws)"

definition path_clean :: "string \<Rightarrow> string" where
  "path_clean p =
    (let rooted = has_prefix p ''/'';
         body = join_with CHR ''/'' (clean_parts rooted [] (split_on CHR ''/'' p))
     in if rooted then ''/'' @ body else if body = [] then ''.'' else body)"

definition ascii_letter :: "char \<Rightarrow> bool" where
  "ascii_letter c \<longleftrightarrow> (97 \<le> byte c \<and> byte c \<le> 122) \<or> (65 \<le> byte c \<and> byte c \<le> 90)"

definition driveQualified :: "string \<Rightarrow> bool" where
  "driveQualified value \<longleftrightarrow> length value \<ge> 2 \<and> value ! 1 = CHR '':'' \<and> ascii_letter (value ! 0)"

text \<open>The loop over the components: the code of the first bad one.\<close>

fun component_code :: "string list \<Rightarrow> string option" where
  "component_code [] = None"
| "component_code (w # ws) =
    (if w = [] \<or> w = ''.'' \<or> w = ''..'' then
       Some (if w = ''..'' then ''path.traversal'' else ''path.unclean'')
     else component_code ws)"

definition ValidateCommittedPath :: "string \<Rightarrow> bool \<Rightarrow> string option" where
  "ValidateCommittedPath value allowDot =
    (if value = [] then Some ''path.empty''
     else if \<not> utf8_valid value then Some ''path.invalid_utf8''
     else if CHR 0x00 \<in> set value then Some ''path.nul''
     else if hasAnyControl value then Some ''path.invalid_text''
     else if CHR 0x5C \<in> set value then Some ''path.not_relative''
     else if has_prefix value ''/'' \<or> driveQualified value then Some ''path.not_relative''
     else if has_prefix (to_lower value) ''file:'' then Some ''path.not_relative''
     else if has_prefix value ''~'' then Some ''path.home''
     else if value = ''.'' then (if allowDot then None else Some ''path.root'')
     else if contains_str value ''//'' then Some ''path.unclean''
     else case component_code (split_on CHR ''/'' value) of
       Some code \<Rightarrow> Some code
     | None \<Rightarrow>
         (let cleaned = path_clean value
          in if cleaned \<noteq> value \<or> cleaned = ''.'' \<or> has_prefix cleaned ''../''
             then Some ''path.unclean'' else None))"

section \<open>Lemmas on splitting and cleaning\<close>

lemma split_by_not_Nil [simp]: "split_by P s \<noteq> []"
  by (induction s) (auto split: list.splits)

lemma split_on_not_Nil [simp]: "split_on sep s \<noteq> []"
  by (simp add: split_on_def)

lemma join_with_Cons: "ws \<noteq> [] \<Longrightarrow> join_with sep (w # ws) = w @ sep # join_with sep ws"
  by (cases ws) auto

lemma join_with_Cons_Cons: "join_with sep ((c # w) # ws) = c # join_with sep (w # ws)"
  by (cases ws) auto

lemma join_split_by: "join_with sep (split_by (\<lambda>c. c = sep) s) = s"
proof (induction s)
  case Nil
  then show ?case by simp
next
  case (Cons c s)
  then show ?case
    by (cases "split_by (\<lambda>c. c = sep) s")
       (auto simp: join_with_Cons join_with_Cons_Cons)
qed

lemma join_split_on [simp]: "join_with sep (split_on sep s) = s"
  by (simp add: split_on_def join_split_by)

text \<open>A component list without empty, current-directory and parent entries is already clean.\<close>

lemma clean_parts_proper:
  assumes "component_code ws = None"
  shows "clean_parts rooted acc ws = rev acc @ ws"
  using assms
  by (induction ws arbitrary: acc) (auto split: if_splits)

lemma component_code_None_iff:
  "component_code ws = None \<longleftrightarrow> (\<forall>w \<in> set ws. w \<noteq> [] \<and> w \<noteq> ''.'' \<and> w \<noteq> ''..'')"
  by (induction ws) auto

lemma component_code_append:
  "component_code (xs @ ys) = None \<longleftrightarrow> component_code xs = None \<and> component_code ys = None"
  by (auto simp: component_code_None_iff)

lemma path_clean_proper:
  assumes "component_code (split_on CHR ''/'' v) = None" and "\<not> has_prefix v ''/''"
  shows "path_clean v = v"
proof -
  have "v \<noteq> []" using assms(1) by (auto simp: split_on_def)
  with assms show ?thesis by (simp add: path_clean_def clean_parts_proper)
qed

lemma has_prefix_dotdot_components:
  assumes "has_prefix v ''../''"
  shows "component_code (split_on CHR ''/'' v) \<noteq> None"
proof -
  obtain r where "v = ''../'' @ r"
    using assms by (metis append_take_drop_id has_prefix_def)
  then show ?thesis by (simp add: split_on_def)
qed

lemma ValidateCommittedPath_None_iff:
  "ValidateCommittedPath value allowDot = None \<longleftrightarrow>
     utf8_valid value \<and> CHR 0x00 \<notin> set value \<and> \<not> hasAnyControl value \<and> CHR 0x5C \<notin> set value \<and>
     \<not> has_prefix value ''/'' \<and> \<not> driveQualified value \<and> \<not> has_prefix (to_lower value) ''file:'' \<and>
     \<not> has_prefix value ''~'' \<and>
     (value = ''.'' \<and> allowDot \<or>
      value \<noteq> ''.'' \<and> value \<noteq> [] \<and> \<not> contains_str value ''//'' \<and>
      component_code (split_on CHR ''/'' value) = None)"
proof (cases "value = []")
  case True
  then show ?thesis by (simp add: ValidateCommittedPath_def)
next
  case False
  show ?thesis
  proof (cases "component_code (split_on CHR ''/'' value)")
    case None
    then show ?thesis
      using path_clean_proper [OF None] has_prefix_dotdot_components [of "value"] False
      by (auto simp: ValidateCommittedPath_def Let_def split: if_splits)
  next
    case (Some code)
    then show ?thesis using False by (simp add: ValidateCommittedPath_def)
  qed
qed

lemma split_by_append_sep:
  "split_on sep (a @ sep # b) = split_on sep a @ split_on sep b"
  unfolding split_on_def
  by (induction a) (auto split: list.splits)

text \<open>No escape: under any clean absolute root, an accepted path is already the cleaned join.\<close>

lemma accepted_path_contained:
  assumes "ValidateCommittedPath v False = None"
    and "component_code (split_on CHR ''/'' r) = None"
  shows "path_clean (''/'' @ r @ ''/'' @ v) = ''/'' @ r @ ''/'' @ v"
proof -
  have v: "component_code (split_on CHR ''/'' v) = None"
    using assms(1) by (simp add: ValidateCommittedPath_None_iff)
  have "split_on CHR ''/'' (''/'' @ r @ ''/'' @ v) =
      [] # split_on CHR ''/'' r @ split_on CHR ''/'' v"
    using split_by_append_sep [of "CHR ''/''" "[]" "r @ CHR ''/'' # v"]
      split_by_append_sep [of "CHR ''/''" r v]
    by (simp add: split_on_def)
  then have "clean_parts True [] (split_on CHR ''/'' (''/'' @ r @ ''/'' @ v)) =
      split_on CHR ''/'' (r @ CHR ''/'' # v)"
    using assms(2) v split_by_append_sep [of "CHR ''/''" r v]
    by (simp add: clean_parts_proper component_code_append)
  then show ?thesis by (simp add: path_clean_def has_prefix_def)
qed

section \<open>ASCII text\<close>

definition ascii :: "string \<Rightarrow> bool" where
  "ascii s \<longleftrightarrow> list_all (\<lambda>c. byte c < 128) s"

lemma ascii_simps [simp]: "ascii []" "ascii (c # s) \<longleftrightarrow> byte c < 128 \<and> ascii s"
  by (simp_all add: ascii_def)

lemma utf8_chunks_ascii: "ascii s \<Longrightarrow> utf8_chunks s = map (\<lambda>c. Chunk True (byte c) [c]) s"
  by (induction s) auto

lemma runes_ascii: "ascii s \<Longrightarrow> runes s = map byte s"
  by (simp add: runes_def utf8_chunks_ascii comp_def)

lemma utf8_valid_ascii: "ascii s \<Longrightarrow> utf8_valid s"
  by (simp add: utf8_valid_def utf8_chunks_ascii list_all_iff)

lemma char_of_byte [simp]: "char_of (byte c) = c"
  by (simp add: byte_def)

lemma concat_map_single: "concat (map (\<lambda>x. [f x]) xs) = map f xs"
  by (induction xs) auto

lemma trim_space_ascii_id:
  assumes "ascii s" and "\<forall>c \<in> set s. \<not> is_space (byte c)"
  shows "trim_space s = s"
proof -
  have "dropWhile (is_space \<circ> ck_rune) (map (\<lambda>c. Chunk True (byte c) [c]) t) =
      map (\<lambda>c. Chunk True (byte c) [c]) t" if "set t \<subseteq> set s" for t
    using that assms(2) by (cases t) auto
  from this [of s] this [of "rev s"] show ?thesis
    using assms(1)
    by (simp add: trim_space_def utf8_chunks_ascii rev_map comp_def concat_map_single)
qed

section \<open>Slugs and Source keys\<close>

definition slug_char :: "char \<Rightarrow> bool" where
  "slug_char c \<longleftrightarrow> lower_alnum c \<or> c = CHR ''-''"

text \<open>A character-by-character reading of the slug pattern: what may follow what.\<close>

fun slug_run :: "bool \<Rightarrow> string \<Rightarrow> bool" where
  "slug_run pend [] = (\<not> pend)"
| "slug_run pend (c # s) = (if c = CHR ''-'' then \<not> pend \<and> slug_run True s
     else lower_alnum c \<and> slug_run False s)"

lemma slug_run_split:
  "slug_run op s \<longleftrightarrow> (case split_on CHR ''-'' s of [] \<Rightarrow> False
     | w # ws \<Rightarrow> (op \<longrightarrow> w \<noteq> []) \<and> list_all lower_alnum w \<and> list_all (word_of lower_alnum) ws)"
proof (induction s arbitrary: op)
  case Nil
  then show ?case by (simp add: split_on_def)
next
  case (Cons c s)
  show ?case
    unfolding slug_run.simps Cons.IH
    by (auto simp: split_on_def word_of_def [abs_def] split: list.splits)
qed

lemma validSlug_run: "validSlug s \<longleftrightarrow> slug_run True s"
  unfolding slug_run_split validSlug_def
  by (auto simp: word_of_def split: list.splits)

lemma slug_run_snoc: "slug_run p b \<Longrightarrow> lower_alnum c \<Longrightarrow> slug_run p (b @ [c])"
  by (induction p b rule: slug_run.induct) (auto simp: lower_alnum_def byte_def split: if_splits)

lemma slug_run_snoc_sep: "slug_run p b \<Longrightarrow> lower_alnum c \<Longrightarrow> slug_run p (b @ [CHR ''-'', c])"
  by (induction p b rule: slug_run.induct) (auto simp: lower_alnum_def byte_def split: if_splits)

lemma slug_run_ends:
  "slug_run p b \<Longrightarrow> b \<noteq> [] \<Longrightarrow> last b \<noteq> CHR ''-'' \<and> (p \<longrightarrow> hd b \<noteq> CHR ''-'')"
  by (induction p b rule: slug_run.induct) (auto split: if_splits)

lemma slug_run_chars: "slug_run p b \<Longrightarrow> c \<in> set b \<Longrightarrow> slug_char c"
  by (induction p b rule: slug_run.induct) (auto simp: slug_char_def split: if_splits)

definition slug_or_empty :: "string \<Rightarrow> bool" where
  "slug_or_empty b \<longleftrightarrow> b = [] \<or> slug_run True b"

lemma byte_char_of: "n < 256 \<Longrightarrow> byte (char_of n) = n"
  by (simp add: byte_def)

lemma slug_or_empty_extend:
  assumes "slug_or_empty b" and "lower_alnum c"
  shows "slug_or_empty (b @ (if sep \<and> b \<noteq> [] then ''-'' else []) @ [c])"
  using assms slug_run_snoc [of True b c] slug_run_snoc_sep [of True b c]
  by (auto simp: slug_or_empty_def lower_alnum_def byte_def)

lemma lower_alnum_key_rune:
  fixes r :: nat
  shows "65 \<le> r \<Longrightarrow> r \<le> 90 \<Longrightarrow> lower_alnum (char_of (r + 32))"
    and "(97 \<le> r \<and> r \<le> 122) \<or> (48 \<le> r \<and> r \<le> 57) \<Longrightarrow> lower_alnum (char_of r)"
  by (auto simp: lower_alnum_def byte_char_of)

lemma key_step_slug: "slug_or_empty b \<Longrightarrow> slug_or_empty (fst (key_step r b sep))"
  using slug_or_empty_extend [of b _ sep] lower_alnum_key_rune [of r]
  by (auto simp: key_step_def Let_def split: if_splits)

lemma key_loop_slug:
  "key_loop rs b sep = Some built \<Longrightarrow> slug_or_empty b \<Longrightarrow> length b \<le> MaxSourceKeyBytes \<Longrightarrow>
   slug_or_empty built \<and> length built \<le> MaxSourceKeyBytes"
proof (induction rs arbitrary: b sep)
  case Nil
  then show ?case by simp
next
  case (Cons r rs)
  obtain b' sep' where step: "key_step r b sep = (b', sep')" by (cases "key_step r b sep")
  moreover have "slug_or_empty b'" using key_step_slug [OF Cons.prems(2), of r sep] step by simp
  ultimately show ?case using Cons.IH [of b' sep'] Cons.prems(1) by (auto split: if_splits)
qed

lemma lower_alnum_byte: "lower_alnum c \<Longrightarrow>
    \<not> (65 \<le> byte c \<and> byte c \<le> 90) \<and> ((97 \<le> byte c \<and> byte c \<le> 122) \<or> (48 \<le> byte c \<and> byte c \<le> 57))"
  by (auto simp: lower_alnum_def)

lemma key_step_alnum: "lower_alnum c \<Longrightarrow>
    key_step (byte c) b sep = (b @ (if sep \<and> b \<noteq> [] then ''-'' else []) @ [c], False)"
  using lower_alnum_byte [of c] by (auto simp: key_step_def Let_def)

lemma key_step_dash: "key_step (byte CHR ''-'') b sep = (b, b \<noteq> [])"
  by (simp add: key_step_def byte_def)

lemma key_loop_fixed:
  assumes "slug_run (sep \<or> b = []) rest" and "sep \<longrightarrow> b \<noteq> []"
    and "length (b @ (if sep then ''-'' else []) @ rest) \<le> MaxSourceKeyBytes"
  shows "key_loop (map byte rest) b sep = Some (b @ (if sep then ''-'' else []) @ rest)"
  using assms
proof (induction rest arbitrary: b sep)
  case Nil
  then show ?case by simp
next
  case (Cons c rest)
  show ?case
  proof (cases "c = CHR ''-''")
    case True
    with Cons.prems have "\<not> sep" "b \<noteq> []" "slug_run True rest" by auto
    with True Cons.prems Cons.IH [of True b] show ?thesis by (simp add: key_step_dash)
  next
    case False
    with Cons.prems have "lower_alnum c" "slug_run False rest" by auto
    with Cons.prems Cons.IH [of False "b @ (if sep then ''-'' else []) @ [c]"] show ?thesis
      by (auto simp: key_step_alnum split: if_splits)
  qed
qed

lemma slug_char_plain: "slug_char c \<Longrightarrow> byte c < 128 \<and> \<not> is_space (byte c)"
  by (auto simp: slug_char_def lower_alnum_def is_space_def byte_def)

lemma slug_run_plain: "slug_run p s \<Longrightarrow> ascii s \<and> (\<forall>c \<in> set s. \<not> is_space (byte c))"
  using slug_run_chars slug_char_plain by (fastforce simp: ascii_def list_all_iff)

lemma trim_dashes_slug:
  assumes "slug_run True s"
  shows "rev (dropWhile (\<lambda>c. c = CHR ''-'') (rev (dropWhile (\<lambda>c. c = CHR ''-'') s))) = s"
proof -
  have drop: "dropWhile P t = t" if "t \<noteq> [] \<Longrightarrow> \<not> P (hd t)" for P and t :: string
    using that by (cases t) auto
  have "s \<noteq> []" using assms by auto
  then show ?thesis
    using slug_run_ends [OF assms] by (simp add: drop hd_rev)
qed

lemma NormalizeSourceKey_Some:
  assumes "NormalizeSourceKey value = Some key"
  shows "validSlug key \<and> length key \<le> MaxSourceKeyBytes"
proof -
  obtain built where built: "key_loop (runes (trim_space value)) [] False = Some built"
    using assms by (auto simp: NormalizeSourceKey_def split: option.splits)
  have "slug_or_empty built" "length built \<le> MaxSourceKeyBytes"
    using key_loop_slug [OF built] by (simp_all add: slug_or_empty_def)
  moreover have "built \<noteq> []"
    using assms built by (auto simp: NormalizeSourceKey_def)
  ultimately show ?thesis
    using assms built trim_dashes_slug [of built]
    by (auto simp: NormalizeSourceKey_def slug_or_empty_def Let_def split: if_splits)
qed

lemma NormalizeSourceKey_slug:
  assumes "validSlug key" and "length key \<le> MaxSourceKeyBytes"
  shows "NormalizeSourceKey key = Some key"
proof -
  have run: "slug_run True key" using assms(1) by (simp add: validSlug_run)
  then have "key \<noteq> []" by auto
  have plain: "ascii key" "\<forall>c \<in> set key. \<not> is_space (byte c)"
    using slug_run_plain [OF run] by auto
  have "key_loop (map byte key) [] False = Some key"
    using key_loop_fixed [of False "[]" key] run assms(2) by simp
  then show ?thesis
    using plain assms(1) trim_dashes_slug [OF run] \<open>key \<noteq> []\<close>
    by (simp add: NormalizeSourceKey_def trim_space_ascii_id runes_ascii)
qed

section \<open>Properties\<close>

text \<open>\<^verbatim>\<open>NormalizeSourceKey\<close> is a normalisation: whatever it returns is a slug within the byte
  limit, and the canonical keys are exactly its fixed points.\<close>

theorem NormalizeSourceKey_canonical:
  assumes "NormalizeSourceKey value = Some key"
  shows "validSlug key \<and> length key \<le> MaxSourceKeyBytes \<and>
    (\<forall>k. NormalizeSourceKey k = Some k \<longleftrightarrow> validSlug k \<and> length k \<le> MaxSourceKeyBytes)"
  using NormalizeSourceKey_Some [OF assms] NormalizeSourceKey_Some NormalizeSourceKey_slug by blast

theorem NormalizeSourceKey_canonical_witness:
  "NormalizeSourceKey '' My_Source 2 '' = Some ''my-source-2'' \<and> NormalizeSourceKey ''my-source-2'' = Some ''my-source-2''"
proof -
  have k: "NormalizeSourceKey '' My_Source 2 '' = Some ''my-source-2''" by code_simp
  show ?thesis using NormalizeSourceKey_canonical [OF k] k by blast
qed

text \<open>C14: no escape from the repository: a path accepted by \<^verbatim>\<open>ValidateCommittedPath\<close> has no empty,
  dot or parent component, is its own \<^verbatim>\<open>path.Clean\<close>, and under any clean absolute root the cleaned
  join is the root followed by the path.\<close>

theorem committed_path_contained:
  assumes "ValidateCommittedPath v False = None" and "component_code (split_on CHR ''/'' r) = None"
  shows "path_clean v = v \<and> (\<forall>w \<in> set (split_on CHR ''/'' v). w \<noteq> [] \<and> w \<noteq> ''.'' \<and> w \<noteq> ''..'') \<and>
    path_clean (''/'' @ r @ ''/'' @ v) = ''/'' @ r @ ''/'' @ v"
proof -
  have v: "component_code (split_on CHR ''/'' v) = None" "\<not> has_prefix v ''/''"
    using assms(1) by (simp_all add: ValidateCommittedPath_None_iff)
  then show ?thesis
    using path_clean_proper [OF v] accepted_path_contained [OF assms] component_code_None_iff by blast
qed

theorem committed_path_contained_witness:
  "path_clean ''/srv/repo/runs/e-01/out.json'' = ''/srv/repo/runs/e-01/out.json''"
proof -
  have "ValidateCommittedPath ''runs/e-01/out.json'' False = None"
    "component_code (split_on CHR ''/'' ''srv/repo'') = None"
    by code_simp+
  from committed_path_contained [OF this] show ?thesis by simp
qed

end
