(* ===== verification/Exp_Kinds.thy ===== *)
theory Exp_Kinds
  imports Exp_Text
begin

text \<open>
  Record kinds, schemas, typed-identifier prefixes and display letters
  (\<^verbatim>\<open>internal/research/kind.go\<close>). Go's string-based enumerations are open: the constructors
  \<open>KindOther\<close> and \<open>SchemaOther\<close> stand for any string that is not one of the declared constants.
\<close>

datatype kind = KindUnknown | KindProject | KindPolicy | KindSource | KindIdea | KindResourcePool | KindQueue | KindQueueAdvice | KindBattle | KindPlan | KindTry | KindExperiment | KindRun | KindAttempt | KindEvaluationSpec | KindEvaluation | KindFinding | KindCandidate | KindRelease | KindPromotionSpec | KindPromotion | KindDecision | KindOther string

datatype schema = SchemaProject | SchemaPolicy | SchemaSource | SchemaIdea | SchemaIdeaV2 | SchemaResourcePool | SchemaQueue | SchemaQueueAdvice | SchemaBattle | SchemaPlan | SchemaPlanV2 | SchemaTry | SchemaExperiment | SchemaExperimentV2 | SchemaRun | SchemaAttempt | SchemaAttemptV2 | SchemaAttemptV3 | SchemaEvaluationSpec | SchemaEvaluation | SchemaEvaluationV2 | SchemaFinding | SchemaCandidate | SchemaCandidateV2 | SchemaRelease | SchemaPromotionSpec | SchemaPromotion | SchemaDecision | SchemaOther string

datatype research_error = ErrInvalidID | ErrWrongIDKind | ErrWrongUUIDVersion | ErrInvalidAlias
  | ErrUnknownKind | ErrUnknownSchema | ErrReferenceNotFound | ErrAmbiguousReference

text \<open>The wire form of a kind (\<^verbatim>\<open>Kind.String\<close>).\<close>

fun kind_string :: "kind \<Rightarrow> string" where
  "kind_string KindUnknown = []"
| "kind_string KindProject = ''project''"
| "kind_string KindPolicy = ''policy''"
| "kind_string KindSource = ''source''"
| "kind_string KindIdea = ''idea''"
| "kind_string KindResourcePool = ''resource_pool''"
| "kind_string KindQueue = ''queue''"
| "kind_string KindQueueAdvice = ''queue_advice''"
| "kind_string KindBattle = ''battle''"
| "kind_string KindPlan = ''plan''"
| "kind_string KindTry = ''try''"
| "kind_string KindExperiment = ''experiment''"
| "kind_string KindRun = ''run''"
| "kind_string KindAttempt = ''attempt''"
| "kind_string KindEvaluationSpec = ''evaluation_spec''"
| "kind_string KindEvaluation = ''evaluation''"
| "kind_string KindFinding = ''finding''"
| "kind_string KindCandidate = ''candidate''"
| "kind_string KindRelease = ''release''"
| "kind_string KindPromotionSpec = ''promotion_spec''"
| "kind_string KindPromotion = ''promotion''"
| "kind_string KindDecision = ''decision''"
| "kind_string (KindOther s) = s"

definition RecordKinds :: "kind list" where
  "RecordKinds = [KindProject, KindPolicy, KindSource, KindIdea, KindResourcePool, KindQueue, KindQueueAdvice, KindBattle, KindPlan, KindTry, KindExperiment, KindRun, KindAttempt, KindEvaluationSpec, KindEvaluation, KindFinding, KindCandidate, KindRelease, KindPromotionSpec, KindPromotion, KindDecision]"

text \<open>\<^verbatim>\<open>Kind.Schema\<close>: the baseline schema of a kind.\<close>

fun kind_schema :: "kind \<Rightarrow> (research_error, schema) result" where
  "kind_schema KindProject = Inr SchemaProject"
| "kind_schema KindPolicy = Inr SchemaPolicy"
| "kind_schema KindSource = Inr SchemaSource"
| "kind_schema KindIdea = Inr SchemaIdea"
| "kind_schema KindResourcePool = Inr SchemaResourcePool"
| "kind_schema KindQueue = Inr SchemaQueue"
| "kind_schema KindQueueAdvice = Inr SchemaQueueAdvice"
| "kind_schema KindBattle = Inr SchemaBattle"
| "kind_schema KindPlan = Inr SchemaPlan"
| "kind_schema KindTry = Inr SchemaTry"
| "kind_schema KindExperiment = Inr SchemaExperiment"
| "kind_schema KindRun = Inr SchemaRun"
| "kind_schema KindAttempt = Inr SchemaAttempt"
| "kind_schema KindEvaluationSpec = Inr SchemaEvaluationSpec"
| "kind_schema KindEvaluation = Inr SchemaEvaluation"
| "kind_schema KindFinding = Inr SchemaFinding"
| "kind_schema KindCandidate = Inr SchemaCandidate"
| "kind_schema KindRelease = Inr SchemaRelease"
| "kind_schema KindPromotionSpec = Inr SchemaPromotionSpec"
| "kind_schema KindPromotion = Inr SchemaPromotion"
| "kind_schema KindDecision = Inr SchemaDecision"
| "kind_schema _ = Inl ErrUnknownKind"

definition kind_valid :: "kind \<Rightarrow> bool" where
  "kind_valid k \<longleftrightarrow> (case kind_schema k of Inr _ \<Rightarrow> True | Inl _ \<Rightarrow> False)"

fun KindForSchema :: "schema \<Rightarrow> (research_error, kind) result" where
  "KindForSchema SchemaProject = Inr KindProject"
| "KindForSchema SchemaPolicy = Inr KindPolicy"
| "KindForSchema SchemaSource = Inr KindSource"
| "KindForSchema SchemaIdea = Inr KindIdea"
| "KindForSchema SchemaIdeaV2 = Inr KindIdea"
| "KindForSchema SchemaResourcePool = Inr KindResourcePool"
| "KindForSchema SchemaQueue = Inr KindQueue"
| "KindForSchema SchemaQueueAdvice = Inr KindQueueAdvice"
| "KindForSchema SchemaBattle = Inr KindBattle"
| "KindForSchema SchemaPlan = Inr KindPlan"
| "KindForSchema SchemaPlanV2 = Inr KindPlan"
| "KindForSchema SchemaTry = Inr KindTry"
| "KindForSchema SchemaExperiment = Inr KindExperiment"
| "KindForSchema SchemaExperimentV2 = Inr KindExperiment"
| "KindForSchema SchemaRun = Inr KindRun"
| "KindForSchema SchemaAttempt = Inr KindAttempt"
| "KindForSchema SchemaAttemptV2 = Inr KindAttempt"
| "KindForSchema SchemaAttemptV3 = Inr KindAttempt"
| "KindForSchema SchemaEvaluationSpec = Inr KindEvaluationSpec"
| "KindForSchema SchemaEvaluation = Inr KindEvaluation"
| "KindForSchema SchemaEvaluationV2 = Inr KindEvaluation"
| "KindForSchema SchemaFinding = Inr KindFinding"
| "KindForSchema SchemaCandidate = Inr KindCandidate"
| "KindForSchema SchemaCandidateV2 = Inr KindCandidate"
| "KindForSchema SchemaRelease = Inr KindRelease"
| "KindForSchema SchemaPromotionSpec = Inr KindPromotionSpec"
| "KindForSchema SchemaPromotion = Inr KindPromotion"
| "KindForSchema SchemaDecision = Inr KindDecision"
| "KindForSchema (SchemaOther _) = Inl ErrUnknownSchema"

fun IDPrefix :: "kind \<Rightarrow> (research_error, string) result" where
  "IDPrefix KindSource = Inr ''src_''"
| "IDPrefix KindIdea = Inr ''idea_''"
| "IDPrefix KindResourcePool = Inr ''pool_''"
| "IDPrefix KindQueue = Inr ''queue_''"
| "IDPrefix KindQueueAdvice = Inr ''advice_''"
| "IDPrefix KindBattle = Inr ''battle_''"
| "IDPrefix KindPlan = Inr ''plan_''"
| "IDPrefix KindTry = Inr ''try_''"
| "IDPrefix KindExperiment = Inr ''exp_''"
| "IDPrefix KindRun = Inr ''run_''"
| "IDPrefix KindAttempt = Inr ''att_''"
| "IDPrefix KindEvaluationSpec = Inr ''evalspec_''"
| "IDPrefix KindEvaluation = Inr ''eval_''"
| "IDPrefix KindFinding = Inr ''fnd_''"
| "IDPrefix KindCandidate = Inr ''cand_''"
| "IDPrefix KindRelease = Inr ''rel_''"
| "IDPrefix KindPromotionSpec = Inr ''promspec_''"
| "IDPrefix KindPromotion = Inr ''prom_''"
| "IDPrefix KindDecision = Inr ''dec_''"
| "IDPrefix _ = Inl ErrUnknownKind"

fun DisplayLetter :: "kind \<Rightarrow> (research_error, char) result" where
  "DisplayLetter KindSource = Inr CHR ''U''"
| "DisplayLetter KindIdea = Inr CHR ''I''"
| "DisplayLetter KindResourcePool = Inr CHR ''O''"
| "DisplayLetter KindQueue = Inr CHR ''Q''"
| "DisplayLetter KindQueueAdvice = Inr CHR ''V''"
| "DisplayLetter KindBattle = Inr CHR ''B''"
| "DisplayLetter KindPlan = Inr CHR ''P''"
| "DisplayLetter KindTry = Inr CHR ''Y''"
| "DisplayLetter KindExperiment = Inr CHR ''E''"
| "DisplayLetter KindRun = Inr CHR ''R''"
| "DisplayLetter KindAttempt = Inr CHR ''A''"
| "DisplayLetter KindEvaluationSpec = Inr CHR ''S''"
| "DisplayLetter KindEvaluation = Inr CHR ''N''"
| "DisplayLetter KindFinding = Inr CHR ''F''"
| "DisplayLetter KindCandidate = Inr CHR ''C''"
| "DisplayLetter KindRelease = Inr CHR ''L''"
| "DisplayLetter KindPromotionSpec = Inr CHR ''T''"
| "DisplayLetter KindPromotion = Inr CHR ''M''"
| "DisplayLetter KindDecision = Inr CHR ''D''"
| "DisplayLetter _ = Inl ErrUnknownKind"

text \<open>\<^verbatim>\<open>KindForDisplayLetter\<close>: the letter is upper-cased first.\<close>

definition KindForDisplayLetter :: "char \<Rightarrow> (research_error, kind) result" where
  "KindForDisplayLetter letter =
    (let u = upper_char letter in
     if u = CHR ''U'' then Inr KindSource
     else if u = CHR ''I'' then Inr KindIdea
     else if u = CHR ''O'' then Inr KindResourcePool
     else if u = CHR ''Q'' then Inr KindQueue
     else if u = CHR ''V'' then Inr KindQueueAdvice
     else if u = CHR ''B'' then Inr KindBattle
     else if u = CHR ''P'' then Inr KindPlan
     else if u = CHR ''Y'' then Inr KindTry
     else if u = CHR ''E'' then Inr KindExperiment
     else if u = CHR ''R'' then Inr KindRun
     else if u = CHR ''A'' then Inr KindAttempt
     else if u = CHR ''S'' then Inr KindEvaluationSpec
     else if u = CHR ''N'' then Inr KindEvaluation
     else if u = CHR ''F'' then Inr KindFinding
     else if u = CHR ''C'' then Inr KindCandidate
     else if u = CHR ''L'' then Inr KindRelease
     else if u = CHR ''T'' then Inr KindPromotionSpec
     else if u = CHR ''M'' then Inr KindPromotion
     else if u = CHR ''D'' then Inr KindDecision
     else Inl ErrUnknownKind)"

section \<open>Properties\<close>

lemmas kind_ops = kind_schema.simps KindForSchema.simps IDPrefix.simps DisplayLetter.simps

text \<open>Kinds that carry a typed identifier: exactly those with a prefix.\<close>

definition id_kind :: "kind \<Rightarrow> bool" where
  "id_kind k \<longleftrightarrow> (case IDPrefix k of Inr _ \<Rightarrow> True | Inl _ \<Rightarrow> False)"

lemma id_kind_cases:
  "id_kind k \<longleftrightarrow> k \<in> set RecordKinds \<and> k \<noteq> KindProject \<and> k \<noteq> KindPolicy"
  by (cases k) (simp_all add: id_kind_def RecordKinds_def)

lemma kind_valid_iff: "kind_valid k \<longleftrightarrow> k \<in> set RecordKinds"
  by (cases k) (simp_all add: kind_valid_def RecordKinds_def)

lemma kind_schema_roundtrip:
  "kind_schema k = Inr s \<Longrightarrow> KindForSchema s = Inr k"
  by (cases k) auto

lemma KindForSchema_valid: "KindForSchema s = Inr k \<Longrightarrow> kind_valid k"
  by (cases s) (auto simp: kind_valid_def)

lemma upper_char_display: "DisplayLetter k = Inr l \<Longrightarrow> upper_char l = l"
  by (cases k) (auto simp: upper_char_def byte_def)

lemma display_letter_roundtrip:
  "DisplayLetter k = Inr l \<Longrightarrow> KindForDisplayLetter l = Inr k"
  using upper_char_display [of k l]
  by (cases k) (clarsimp simp: KindForDisplayLetter_def)+

lemma id_kind_letter: "id_kind k \<longleftrightarrow> (\<exists>l. DisplayLetter k = Inr l)"
  by (cases k) (simp_all add: id_kind_def)

text \<open>
  Typed prefixes are prefix-free: no identifier text of one kind starts with the prefix of another,
  which is what makes the first-match loop of \<^verbatim>\<open>ParseID\<close> deterministic.
\<close>

definition prefix_text :: "kind \<Rightarrow> string" where
  "prefix_text k = (case IDPrefix k of Inr p \<Rightarrow> p | Inl _ \<Rightarrow> [])"

definition mark :: "string \<Rightarrow> string" where
  "mark s = takeWhile (\<lambda>c. c \<noteq> CHR ''_'') s"

lemma IDPrefix_mark: "IDPrefix k = Inr p \<Longrightarrow> p = mark p @ ''_'' \<and> mark (p @ t) = mark p"
  by (cases k) (auto simp: mark_def)

lemma IDPrefix_find_mark:
  "IDPrefix k = Inr p \<Longrightarrow>
   List.find (\<lambda>k'. case IDPrefix k' of Inr q \<Rightarrow> mark q = mark p | Inl _ \<Rightarrow> False) RecordKinds = Some k"
  by (cases k) (clarsimp simp: mark_def RecordKinds_def)+

lemma IDPrefix_mark_inj:
  "IDPrefix k = Inr p \<Longrightarrow> IDPrefix k' = Inr p' \<Longrightarrow> mark p = mark p' \<Longrightarrow> k = k'"
  using IDPrefix_find_mark [of k p] IDPrefix_find_mark [of k' p'] by (metis option.inject)

lemma IDPrefix_free:
  assumes "IDPrefix k = Inr p" and "IDPrefix k' = Inr p'" and "has_prefix (p @ t) p'"
  shows "k' = k"
proof -
  obtain r where r: "p @ t = p' @ r"
    using assms(3) by (metis append_take_drop_id has_prefix_def)
  then have "mark p = mark p'"
    using IDPrefix_mark [OF assms(1), of t] IDPrefix_mark [OF assms(2), of r] by simp
  then show ?thesis using IDPrefix_mark_inj assms(1,2) by blast
qed

end
