(* ===== verification/Exp_Ids.thy ===== *)
theory Exp_Ids
  imports Exp_Kinds
begin

unbundle bit_operations_syntax

text \<open>
  Typed identifiers and their resolution (\<^verbatim>\<open>internal/research/id.go\<close>, \<^verbatim>\<open>resolve.go\<close>). The UUID
  package (github.com/google/uuid) is outside the repository: its four functions are fields of a
  \<open>host\<close> record, its documented behaviour is the locale \<open>uuid_library\<close>, and \<open>std_host\<close> is a
  concrete instance of it.
\<close>

type_synonym uuid = "8 word list"

record host =
  h_uuid_parse :: "string \<Rightarrow> uuid option"
  h_uuid_text :: "uuid \<Rightarrow> string"
  h_uuid_version :: "uuid \<Rightarrow> nat"
  h_uuid_rfc4122 :: "uuid \<Rightarrow> bool"

definition nil_uuid :: uuid where
  "nil_uuid = replicate 16 0"

datatype typed_id = TypedID (id_kind_of: kind) (id_uuid: uuid)

definition zero_id :: typed_id where
  "zero_id = TypedID KindUnknown nil_uuid"

section \<open>Construction and parsing (id.go)\<close>

text \<open>None is Go's nil error.\<close>

definition validateIDKind :: "kind \<Rightarrow> research_error option" where
  "validateIDKind k = (if k = KindProject \<or> k = KindPolicy \<or> k = KindUnknown \<or> \<not> kind_valid k
     then Some ErrInvalidID else None)"

definition validateUUID :: "'h host_scheme \<Rightarrow> uuid \<Rightarrow> nat list \<Rightarrow> research_error option" where
  "validateUUID h u versions =
    (if u = nil_uuid then Some ErrInvalidID
     else if \<not> h_uuid_rfc4122 h u then Some ErrInvalidID
     else if h_uuid_version h u \<in> set versions then None
     else Some ErrWrongUUIDVersion)"

definition newIDWith :: "'h host_scheme \<Rightarrow> nat \<Rightarrow> kind \<Rightarrow> uuid \<Rightarrow> (research_error, typed_id) result" where
  "newIDWith h version k u =
    (case validateIDKind k of Some e \<Rightarrow> Inl e
     | None \<Rightarrow> (case validateUUID h u [version] of Some e \<Rightarrow> Inl e | None \<Rightarrow> Inr (TypedID k u)))"

definition NewID :: "'h host_scheme \<Rightarrow> kind \<Rightarrow> uuid \<Rightarrow> (research_error, typed_id) result" where
  "NewID h k u = newIDWith h 7 k u"

definition NewImportedID :: "'h host_scheme \<Rightarrow> kind \<Rightarrow> uuid \<Rightarrow> (research_error, typed_id) result" where
  "NewImportedID h k u = newIDWith h 5 k u"

text \<open>\<^verbatim>\<open>ParseID\<close>: the first kind of \<open>RecordKinds\<close> whose prefix matches decides.\<close>

fun parse_id_loop :: "'h host_scheme \<Rightarrow> string \<Rightarrow> kind list \<Rightarrow> (research_error, typed_id) result" where
  "parse_id_loop h value [] = Inl ErrInvalidID"
| "parse_id_loop h value (k # ks) =
    (case IDPrefix k of
       Inl _ \<Rightarrow> parse_id_loop h value ks
     | Inr prefix \<Rightarrow>
         if \<not> has_prefix value prefix then parse_id_loop h value ks
         else (let raw = trim_prefix value prefix in
           case h_uuid_parse h raw of
             None \<Rightarrow> Inl ErrInvalidID
           | Some parsed \<Rightarrow>
               if h_uuid_text h parsed \<noteq> raw then Inl ErrInvalidID
               else (case validateUUID h parsed [7, 5] of
                   Some e \<Rightarrow> Inl e
                 | None \<Rightarrow> Inr (TypedID k parsed))))"

definition ParseID :: "'h host_scheme \<Rightarrow> string \<Rightarrow> (research_error, typed_id) result" where
  "ParseID h value = parse_id_loop h value RecordKinds"

definition ParseIDForKind :: "'h host_scheme \<Rightarrow> string \<Rightarrow> kind \<Rightarrow> (research_error, typed_id) result" where
  "ParseIDForKind h value expected =
    (case ParseID h value of Inl e \<Rightarrow> Inl e
     | Inr i \<Rightarrow> if id_kind_of i \<noteq> expected then Inl ErrWrongIDKind else Inr i)"

definition id_is_zero :: "typed_id \<Rightarrow> bool" where
  "id_is_zero i \<longleftrightarrow> id_kind_of i = KindUnknown \<or> id_uuid i = nil_uuid"

definition IsNative :: "'h host_scheme \<Rightarrow> typed_id \<Rightarrow> bool" where
  "IsNative h i \<longleftrightarrow> \<not> id_is_zero i \<and> h_uuid_rfc4122 h (id_uuid i) \<and> h_uuid_version h (id_uuid i) = 7"

definition IsImported :: "'h host_scheme \<Rightarrow> typed_id \<Rightarrow> bool" where
  "IsImported h i \<longleftrightarrow> \<not> id_is_zero i \<and> h_uuid_rfc4122 h (id_uuid i) \<and> h_uuid_version h (id_uuid i) = 5"

definition UUIDHex :: "'h host_scheme \<Rightarrow> typed_id \<Rightarrow> string" where
  "UUIDHex h i = filter (\<lambda>c. c \<noteq> CHR ''-'') (h_uuid_text h (id_uuid i))"

definition id_string :: "'h host_scheme \<Rightarrow> typed_id \<Rightarrow> string" where
  "id_string h i =
    (if id_is_zero i then []
     else case IDPrefix (id_kind_of i) of Inl _ \<Rightarrow> [] | Inr prefix \<Rightarrow> prefix @ h_uuid_text h (id_uuid i))"

text \<open>
  \<^verbatim>\<open>NewUUIDv7\<close>: the entropy reader is None when nil, otherwise a function that yields the requested
  number of bytes or fails. The result is None on any error.
\<close>

definition unix_milli :: "go_time \<Rightarrow> int" where
  "unix_milli t = (t_instant t - 62135596800000000000) div 1000000"

definition be_byte :: "int \<Rightarrow> nat \<Rightarrow> 8 word" where
  "be_byte ms shift = word_of_int (ms div 2 ^ shift)"

definition NewUUIDv7 :: "go_time \<Rightarrow> (nat \<Rightarrow> 8 word list option) option \<Rightarrow> uuid option" where
  "NewUUIDv7 stamp entropy =
    (case entropy of None \<Rightarrow> None
     | Some reader \<Rightarrow>
         (let milliseconds = unix_milli stamp
          in if milliseconds < 0 \<or> milliseconds > 2 ^ 48 - 1 then None
             else case reader 10 of None \<Rightarrow> None
               | Some tail \<Rightarrow>
                   (let v = map (be_byte milliseconds) [40, 32, 24, 16, 8, 0] @ tail;
                        v1 = v[6 := (v ! 6 AND 0x0F) OR 0x70]
                    in Some (v1[8 := (v1 ! 8 AND 0x3F) OR 0x80]))))"

text \<open>\<^verbatim>\<open>ParseLegacyAlias\<close>: \<open>#123\<close> names an Experiment, \<open>F-123\<close> a Finding (three digits or more).\<close>

definition ParseLegacyAlias :: "string \<Rightarrow> (research_error, kind) result" where
  "ParseLegacyAlias value =
    (if has_prefix value ''#'' \<and> length value \<ge> 4 \<and> list_all is_digit (drop 1 value) then Inr KindExperiment
     else if has_prefix value ''F-'' \<and> length value \<ge> 5 \<and> list_all is_digit (drop 2 value) then Inr KindFinding
     else Inl ErrInvalidAlias)"

section \<open>Display codes and resolution (resolve.go)\<close>

record reference_candidate =
  rc_id :: typed_id
  rc_aliases :: "string list"

definition hex_any :: "char \<Rightarrow> bool" where
  "hex_any c \<longleftrightarrow> lower_hex c \<or> (65 \<le> byte c \<and> byte c \<le> 70)"

text \<open>
  The case-insensitive \<^verbatim>\<open>displayPattern\<close>: the first byte of the letter group and the hex group.
  Case folding also lets U+017F (bytes C5 BF) match the letter S.
\<close>

definition display_hex :: "string \<Rightarrow> bool" where
  "display_hex s \<longleftrightarrow> 8 \<le> length s \<and> length s \<le> 32 \<and> list_all hex_any s"

fun display_match :: "string \<Rightarrow> (char \<times> string) option" where
  "display_match (c # d # s) =
    (if d = CHR ''-'' \<and> upper_char c \<in> set ''UIOQVBPYERASNFCLTMD'' \<and> display_hex s then Some (c, s)
     else if c = CHR 0xC5 \<and> d = CHR 0xBF \<and> has_prefix s ''-'' \<and> display_hex (drop 1 s) then Some (c, drop 1 s)
     else None)"
| "display_match _ = None"

definition display_conflict :: "'h host_scheme \<Rightarrow> typed_id \<Rightarrow> string \<Rightarrow> reference_candidate \<Rightarrow> bool" where
  "display_conflict h target prefix c \<longleftrightarrow>
     \<not> (rc_id c = target \<or> id_kind_of (rc_id c) \<noteq> id_kind_of target \<or> id_is_zero (rc_id c)) \<and>
     has_prefix (map upper_char (UUIDHex h (rc_id c))) prefix"

definition DisplayCode :: "'h host_scheme \<Rightarrow> typed_id \<Rightarrow> reference_candidate list \<Rightarrow> (research_error, string) result" where
  "DisplayCode h target candidates =
    (if id_is_zero target then Inl ErrInvalidID
     else case DisplayLetter (id_kind_of target) of
       Inl e \<Rightarrow> Inl e
     | Inr letter \<Rightarrow>
         (let hex = map upper_char (UUIDHex h target)
          in case List.find (\<lambda>n. \<not> list_ex (display_conflict h target (take n hex)) candidates) [8..<Suc (length hex)] of
               Some n \<Rightarrow> Inr (letter # CHR ''-'' # take n hex)
             | None \<Rightarrow> Inl ErrAmbiguousReference))"

definition uniqueMatch :: "kind \<Rightarrow> reference_candidate list \<Rightarrow> (reference_candidate \<Rightarrow> bool) \<Rightarrow> (research_error, typed_id) result" where
  "uniqueMatch k candidates matches =
    (case map rc_id (filter (\<lambda>c. id_kind_of (rc_id c) = k \<and> matches c) candidates) of
       [] \<Rightarrow> Inl ErrReferenceNotFound
     | [i] \<Rightarrow> Inr i
     | _ \<Rightarrow> Inl ErrAmbiguousReference)"

fun typed_prefix_loop :: "string \<Rightarrow> kind list \<Rightarrow> kind option" where
  "typed_prefix_loop query [] = None"
| "typed_prefix_loop query (k # ks) =
    (case IDPrefix k of
       Inl _ \<Rightarrow> typed_prefix_loop query ks
     | Inr prefix \<Rightarrow>
         if \<not> has_prefix query prefix then typed_prefix_loop query ks
         else (let remainder = trim_prefix query prefix
               in if \<not> list_all (\<lambda>c. lower_hex c \<or> c = CHR ''-'') remainder then None
                  else if length (filter lower_hex remainder) < 8 \<or> length remainder > 36 then None
                  else Some k))"

definition parseTypedPrefix :: "string \<Rightarrow> kind option" where
  "parseTypedPrefix query = typed_prefix_loop query RecordKinds"

definition Resolve :: "'h host_scheme \<Rightarrow> string \<Rightarrow> kind \<Rightarrow> reference_candidate list \<Rightarrow> (research_error, typed_id) result" where
  "Resolve h query expected candidates =
    (if query = [] then Inl ErrReferenceNotFound
     else case ParseID h query of
       Inr i \<Rightarrow>
         if expected \<noteq> KindUnknown \<and> id_kind_of i \<noteq> expected then Inl ErrWrongIDKind
         else if list_ex (\<lambda>c. rc_id c = i) candidates then Inr i else Inl ErrReferenceNotFound
     | Inl _ \<Rightarrow>
      (case ParseLegacyAlias query of
         Inr k \<Rightarrow>
           if expected \<noteq> KindUnknown \<and> k \<noteq> expected then Inl ErrWrongIDKind
           else uniqueMatch k candidates (\<lambda>c. query \<in> set (rc_aliases c))
       | Inl _ \<Rightarrow>
        (case display_match query of
           Some (letter, hex) \<Rightarrow>
             (let k = (case KindForDisplayLetter letter of Inr k \<Rightarrow> k | Inl _ \<Rightarrow> KindUnknown)
              in if expected \<noteq> KindUnknown \<and> k \<noteq> expected then Inl ErrWrongIDKind
                 else uniqueMatch k candidates
                   (\<lambda>c. has_prefix (map upper_char (UUIDHex h (rc_id c))) (map upper_char hex)))
         | None \<Rightarrow>
          (case parseTypedPrefix query of
             Some k \<Rightarrow>
               if expected \<noteq> KindUnknown \<and> k \<noteq> expected then Inl ErrWrongIDKind
               else uniqueMatch k candidates (\<lambda>c. has_prefix (id_string h (rc_id c)) query)
           | None \<Rightarrow> Inl ErrReferenceNotFound))))"

section \<open>Hexadecimal text\<close>

lemma byte_inject: "byte x = byte y \<longleftrightarrow> x = y"
  by (simp add: byte_def)

lemma byte_less: "byte c < 256"
  by (simp add: byte_def)

lemma byte_upper_char: "byte (upper_char c) = (if 97 \<le> byte c \<and> byte c \<le> 122 then byte c - 32 else byte c)"
  using byte_less [of c] by (auto simp: upper_char_def byte_char_of)

lemma lower_hex_not_dash: "lower_hex c \<Longrightarrow> c \<noteq> CHR ''-''"
  by (auto simp: lower_hex_def byte_def)

lemma upper_char_inj_hex: "inj_on upper_char {c. lower_hex c}"
proof (rule inj_onI)
  fix x y assume "x \<in> {c. lower_hex c}" "y \<in> {c. lower_hex c}" "upper_char x = upper_char y"
  then have "byte (upper_char x) = byte (upper_char y)" "lower_hex x" "lower_hex y" by simp_all
  then have "byte x = byte y"
    by (auto simp: byte_upper_char lower_hex_def split: if_splits)
  then show "x = y" by (simp add: byte_inject)
qed

section \<open>The UUID library\<close>

locale uuid_library =
  fixes parse :: "string \<Rightarrow> uuid option"
    and text_of :: "uuid \<Rightarrow> string"
    and version :: "uuid \<Rightarrow> nat"
    and rfc4122 :: "uuid \<Rightarrow> bool"
  assumes parse_text: "length u = 16 \<Longrightarrow> parse (text_of u) = Some u"
    and parse_length: "parse s = Some u \<Longrightarrow> length u = 16"
    and text_hex: "length u = 16 \<Longrightarrow> list_all lower_hex (filter (\<lambda>c. c \<noteq> CHR ''-'') (text_of u))"
    and text_hex_length: "length u = 16 \<Longrightarrow> length (filter (\<lambda>c. c \<noteq> CHR ''-'') (text_of u)) = 32"
    and text_hex_inj: "length u = 16 \<Longrightarrow> length v = 16 \<Longrightarrow>
      filter (\<lambda>c. c \<noteq> CHR ''-'') (text_of u) = filter (\<lambda>c. c \<noteq> CHR ''-'') (text_of v) \<Longrightarrow> u = v"
    and version_bits: "length u = 16 \<Longrightarrow> version u = unat (drop_bit 4 (u ! 6))"
    and variant_bits: "length u = 16 \<Longrightarrow> rfc4122 u \<longleftrightarrow> u ! 8 AND 0xC0 = 0x80"
begin

lemma hex_upper_inj:
  assumes "length u = 16" "length v = 16"
    and "map upper_char (filter (\<lambda>c. c \<noteq> CHR ''-'') (text_of u)) =
         map upper_char (filter (\<lambda>c. c \<noteq> CHR ''-'') (text_of v))"
  shows "u = v"
proof -
  have "filter (\<lambda>c. c \<noteq> CHR ''-'') (text_of u) = filter (\<lambda>c. c \<noteq> CHR ''-'') (text_of v)"
    by (rule map_inj_on [OF assms(3)], rule inj_on_subset [OF upper_char_inj_hex])
      (use text_hex assms(1,2) in \<open>auto simp: list_all_iff\<close>)
  then show ?thesis by (rule text_hex_inj [OF assms(1,2)])
qed

end

definition host_uuids :: "'h host_scheme \<Rightarrow> bool" where
  "host_uuids h \<longleftrightarrow> uuid_library (h_uuid_parse h) (h_uuid_text h) (h_uuid_version h) (h_uuid_rfc4122 h)"

text \<open>A reference instance: RFC 9562 text form, 8-4-4-4-12 lower-case hex digits.\<close>

definition hex_digit :: "nat \<Rightarrow> char" where
  "hex_digit n = (if n < 10 then char_of (48 + n) else char_of (87 + n))"

definition unhex :: "char \<Rightarrow> nat" where
  "unhex c = (if is_digit c then byte c - 48 else byte c - 87)"

definition byte_hex :: "8 word \<Rightarrow> string" where
  "byte_hex w = [hex_digit (unat w div 16), hex_digit (unat w mod 16)]"

definition std_text :: "uuid \<Rightarrow> string" where
  "std_text u = (let hx = (\<lambda>i n. concat (map byte_hex (take n (drop i u))))
     in hx 0 4 @ ''-'' @ hx 4 2 @ ''-'' @ hx 6 2 @ ''-'' @ hx 8 2 @ ''-'' @ hx 10 6)"

fun decode_pairs :: "string \<Rightarrow> uuid option" where
  "decode_pairs [] = Some []"
| "decode_pairs (a # b # s) =
    (if lower_hex a \<and> lower_hex b
     then map_option ((#) (word_of_nat (16 * unhex a + unhex b))) (decode_pairs s) else None)"
| "decode_pairs _ = None"

definition std_parse :: "string \<Rightarrow> uuid option" where
  "std_parse s =
    (let digits = filter (\<lambda>c. c \<noteq> CHR ''-'') s
     in if length s = 36 \<and> length digits = 32 \<and> list_all (\<lambda>i. s ! i = CHR ''-'') [8, 13, 18, 23]
        then decode_pairs digits else None)"

definition std_host :: host where
  "std_host = \<lparr>h_uuid_parse = std_parse, h_uuid_text = std_text,
     h_uuid_version = (\<lambda>u. unat (drop_bit 4 (u ! 6))), h_uuid_rfc4122 = (\<lambda>u. u ! 8 AND 0xC0 = 0x80)\<rparr>"

lemma hex_digit_props: "n < 16 \<Longrightarrow> lower_hex (hex_digit n) \<and> unhex (hex_digit n) = n"
  by (auto simp: hex_digit_def lower_hex_def unhex_def is_digit_def byte_char_of)

lemma unat8_less: "unat (w :: 8 word) div 16 < 16" "unat (w :: 8 word) mod 16 < 16"
  using unsigned_less [of w, where ?'a = nat] by auto

lemma decode_pairs_hex: "decode_pairs (concat (map byte_hex u)) = Some u"
proof (induction u)
  case Nil
  then show ?case by simp
next
  case (Cons w u)
  then show ?case
    using hex_digit_props [OF unat8_less(1), of w] hex_digit_props [OF unat8_less(2), of w]
    by (simp add: byte_hex_def)
qed

lemma byte_hex_props:
  "length (byte_hex w) = 2" "list_all lower_hex (byte_hex w)"
  using hex_digit_props [OF unat8_less(1), of w] hex_digit_props [OF unat8_less(2), of w]
  by (simp_all add: byte_hex_def)

lemma length_hex: "length (concat (map byte_hex u)) = 2 * length u"
  by (induction u) (simp_all add: byte_hex_props)

lemma filter_hex: "filter (\<lambda>c. c \<noteq> CHR ''-'') (concat (map byte_hex u)) = concat (map byte_hex u)"
proof -
  have "\<forall>c \<in> set (concat (map byte_hex u)). c \<noteq> CHR ''-''"
    using byte_hex_props(2) lower_hex_not_dash by (fastforce simp: list_all_iff)
  then show ?thesis by simp
qed

lemma uuid_split:
  assumes "length u = 16"
  shows "take 4 u @ take 2 (drop 4 u) @ take 2 (drop 6 u) @ take 2 (drop 8 u) @ take 6 (drop 10 u) = u"
  using assms by (auto simp: numeral_eq_Suc length_Suc_conv)

lemma std_text_digits:
  assumes "length u = 16"
  shows "filter (\<lambda>c. c \<noteq> CHR ''-'') (std_text u) = concat (map byte_hex u)"
proof -
  have "concat (map byte_hex u) = concat (map byte_hex (take 4 u @ take 2 (drop 4 u) @
      take 2 (drop 6 u) @ take 2 (drop 8 u) @ take 6 (drop 10 u)))"
    using uuid_split [OF assms] by simp
  then show ?thesis unfolding map_append concat_append by (simp add: std_text_def Let_def filter_hex)
qed

lemma std_text_shape:
  assumes "length u = 16"
  shows "length (std_text u) = 36 \<and> list_all (\<lambda>i. std_text u ! i = CHR ''-'') [8, 13, 18, 23]"
  using assms by (simp add: std_text_def Let_def length_hex nth_append)

lemma std_parse_text: "length u = 16 \<Longrightarrow> std_parse (std_text u) = Some u"
  using std_text_shape [of u]
  by (simp add: std_parse_def std_text_digits length_hex decode_pairs_hex)

lemma decode_pairs_length: "decode_pairs s = Some u \<Longrightarrow> length s = 2 * length u"
  by (induction s arbitrary: u rule: decode_pairs.induct) (auto split: if_splits)

interpretation std_uuid: uuid_library "h_uuid_parse std_host" "h_uuid_text std_host"
  "h_uuid_version std_host" "h_uuid_rfc4122 std_host"
proof unfold_locales
  fix u :: uuid assume u: "length u = 16"
  show "h_uuid_parse std_host (h_uuid_text std_host u) = Some u"
    using std_parse_text [OF u] by (simp add: std_host_def)
  show "list_all lower_hex (filter (\<lambda>c. c \<noteq> CHR ''-'') (h_uuid_text std_host u))"
    using byte_hex_props(2) by (auto simp: std_host_def std_text_digits u list_all_iff)
  show "length (filter (\<lambda>c. c \<noteq> CHR ''-'') (h_uuid_text std_host u)) = 32"
    by (simp add: std_host_def std_text_digits u length_hex)
next
  fix u v :: uuid assume "length u = 16" "length v = 16"
    "filter (\<lambda>c. c \<noteq> CHR ''-'') (h_uuid_text std_host u) = filter (\<lambda>c. c \<noteq> CHR ''-'') (h_uuid_text std_host v)"
  then have "decode_pairs (concat (map byte_hex u)) = decode_pairs (concat (map byte_hex v))"
    by (simp add: std_host_def std_text_digits)
  then show "u = v" by (simp add: decode_pairs_hex)
next
  fix s u assume "h_uuid_parse std_host s = Some u"
  then show "length u = 16"
    by (auto simp: std_host_def std_parse_def Let_def split: if_splits dest: decode_pairs_length)
qed (simp_all add: std_host_def)

lemma host_uuids_std: "host_uuids std_host"
  by (simp add: host_uuids_def std_uuid.uuid_library_axioms)

section \<open>Identifier lemmas\<close>

definition id_wf :: "'h host_scheme \<Rightarrow> typed_id \<Rightarrow> bool" where
  "id_wf h i \<longleftrightarrow> id_kind (id_kind_of i) \<and> length (id_uuid i) = 16 \<and>
     (IsNative h i \<or> IsImported h i)"

lemma trim_prefix_append [simp]: "trim_prefix (p @ t) p = t"
  by (simp add: trim_prefix_def has_prefix_def)

lemma has_prefix_append [simp]: "has_prefix (p @ t) p"
  by (simp add: has_prefix_def)

lemma parse_id_loop_none:
  "(\<And>k p. k \<in> set ks \<Longrightarrow> IDPrefix k = Inr p \<Longrightarrow> \<not> has_prefix v p) \<Longrightarrow> parse_id_loop h v ks = Inl ErrInvalidID"
proof (induction ks)
  case Nil
  then show ?case by simp
next
  case (Cons k ks)
  have "parse_id_loop h v ks = Inl ErrInvalidID"
    by (rule Cons.IH) (use Cons.prems in auto)
  then show ?case using Cons.prems [of k] by (cases "IDPrefix k") auto
qed

lemma parse_id_loop_text:
  assumes "k \<in> set ks" and "IDPrefix k = Inr p" and "h_uuid_parse h t = Some u"
    and "h_uuid_text h u = t" and "validateUUID h u [7, 5] = None"
  shows "parse_id_loop h (p @ t) ks = Inr (TypedID k u)"
  using assms(1)
proof (induction ks)
  case Nil
  then show ?case by simp
next
  case (Cons k' ks)
  show ?case
  proof (cases "k' = k")
    case True
    then show ?thesis using assms by (simp add: Let_def)
  next
    case False
    then have "\<not> has_prefix (p @ t) p'" if "IDPrefix k' = Inr p'" for p'
      using IDPrefix_free [OF assms(2) that] by blast
    then show ?thesis using Cons False by (cases "IDPrefix k'") auto
  qed
qed

lemma id_kind_prefix: "id_kind k \<Longrightarrow> \<exists>p. IDPrefix k = Inr p"
  by (auto simp: id_kind_def split: sum.splits)

lemma id_wf_valid: "id_wf h i \<Longrightarrow> validateUUID h (id_uuid i) [7, 5] = None \<and> \<not> id_is_zero i"
  by (auto simp: id_wf_def IsNative_def IsImported_def validateUUID_def id_is_zero_def)

lemma ParseID_id_string_aux:
  assumes "host_uuids h" and "id_wf h i"
  shows "ParseID h (id_string h i) = Inr i"
proof -
  obtain p where p: "IDPrefix (id_kind_of i) = Inr p"
    using assms(2) id_kind_prefix by (auto simp: id_wf_def)
  have "h_uuid_parse h (h_uuid_text h (id_uuid i)) = Some (id_uuid i)"
    using assms uuid_library.parse_text unfolding host_uuids_def id_wf_def by blast
  moreover have "id_kind_of i \<in> set RecordKinds"
    using assms(2) by (simp add: id_wf_def id_kind_cases)
  ultimately show ?thesis
    using p id_wf_valid [OF assms(2)] parse_id_loop_text [of "id_kind_of i" RecordKinds p h]
    by (simp add: ParseID_def id_string_def)
qed

lemma validateUUID_None:
  "validateUUID h u vs = None \<longleftrightarrow> u \<noteq> nil_uuid \<and> h_uuid_rfc4122 h u \<and> h_uuid_version h u \<in> set vs"
  by (simp add: validateUUID_def)

lemma parse_id_loop_Inr:
  assumes "parse_id_loop h v ks = Inr i" and "host_uuids h"
  shows "id_kind_of i \<in> set ks \<and> id_wf h i \<and> id_string h i = v"
  using assms(1)
proof (induction ks)
  case Nil
  then show ?case by simp
next
  case (Cons k ks)
  show ?case
  proof (cases "\<exists>p. IDPrefix k = Inr p \<and> has_prefix v p")
    case True
    then obtain p where p: "IDPrefix k = Inr p" "has_prefix v p" by blast
    then have v: "v = p @ trim_prefix v p"
      by (metis append_take_drop_id has_prefix_def trim_prefix_def)
    from Cons.prems p have i: "h_uuid_parse h (trim_prefix v p) = Some (id_uuid i)"
      "h_uuid_text h (id_uuid i) = trim_prefix v p" "validateUUID h (id_uuid i) [7, 5] = None"
      "id_kind_of i = k"
      by (auto simp: Let_def split: option.splits if_splits)
    have "length (id_uuid i) = 16"
      using i(1) assms(2) uuid_library.parse_length unfolding host_uuids_def by blast
    then show ?thesis
      using i p v by (auto simp: id_wf_def id_kind_def id_string_def id_is_zero_def IsNative_def
        IsImported_def validateUUID_None)
  next
    case False
    then show ?thesis using Cons by (cases "IDPrefix k") auto
  qed
qed

text \<open>The version-7 layout written by \<^verbatim>\<open>NewUUIDv7\<close>.\<close>

definition timestamp_of :: "uuid \<Rightarrow> int" where
  "timestamp_of u = foldl (\<lambda>acc b. acc * 256 + uint b) 0 (take 6 u)"

lemma uint_be_byte: "uint (be_byte ms s) = (ms div 2 ^ s) mod 256"
  by (simp add: be_byte_def uint_word_of_int)

lemma be_horner: "(ms div 2 ^ (s + 8)) * 256 + (ms div 2 ^ s) mod 256 = (ms :: int) div 2 ^ s"
proof -
  have "ms div 2 ^ (s + 8) = ms div 2 ^ s div 256"
    by (simp add: power_add zdiv_zmult2_eq)
  then show ?thesis by (simp only: div_mult_mod_eq)
qed

lemma div_top_byte:
  assumes "0 \<le> (m :: int)" and "m < 256 * d" and "0 < d"
  shows "(m div d) mod 256 = m div d"
proof -
  have "d * (m div d) + m mod d = m" "0 \<le> m mod d"
    using assms(3) by (simp_all only: mult_div_mod_eq pos_mod_sign)
  then have "d * (m div d) < d * 256" using assms(2) by linarith
  then have "m div d < 256" using assms(3) by (simp only: mult_less_cancel_left_pos)
  moreover have "0 \<le> m div d" using assms(1,3) by (simp only: pos_imp_zdiv_nonneg_iff)
  ultimately show ?thesis by (simp only: mod_pos_pos_trivial)
qed

lemma foldl_be_bytes:
  assumes "f 40 mod 256 = f 40" and "\<And>s. f (s + 8) * 256 + f s mod 256 = f s" and "\<And>s. uint (g s) = f s mod (256 :: int)"
  shows "foldl (\<lambda>acc b. acc * 256 + uint b) 0 (map g [40, 32, 24, 16, 8, 0]) = f (0 :: nat)"
proof -
  have "f 40 * 256 + f 32 mod 256 = f 32" "f 32 * 256 + f 24 mod 256 = f 24"
    "f 24 * 256 + f 16 mod 256 = f 16" "f 16 * 256 + f 8 mod 256 = f 8" "f 8 * 256 + f 0 mod 256 = f 0"
    using assms(2) [of 32] assms(2) [of 24] assms(2) [of 16] assms(2) [of 8] assms(2) [of 0]
    by (simp_all only: numeral_plus_numeral add_num_simps add_0_left)
  then show ?thesis
    by (simp only: list.map foldl.simps assms(1,3) mult_zero_left add_0_left)
qed

lemma timestamp_be:
  assumes "0 \<le> ms" and "ms < 2 ^ 48"
  shows "foldl (\<lambda>acc b. acc * 256 + uint b) 0 (map (be_byte ms) [40, 32, 24, 16, 8, 0]) = ms"
proof -
  have "(ms div 2 ^ 40) mod 256 = ms div 2 ^ 40"
    by (rule div_top_byte) (use assms in simp_all)
  then have "foldl (\<lambda>acc b. acc * 256 + uint b) 0 (map (be_byte ms) [40, 32, 24, 16, 8, 0]) = ms div 2 ^ 0"
    by (intro foldl_be_bytes [where f = "\<lambda>s. ms div 2 ^ s"] be_horner uint_be_byte)
  then show ?thesis by simp
qed

lemma v7_nibble: "drop_bit 4 ((w AND 0x0F) OR 0x70 :: 8 word) = 7"
proof (rule bit_word_eqI)
  fix n assume "n < LENGTH(8)"
  then have "n \<in> {0, 1, 2, 3, 4, 5, 6, 7}" by auto
  then show "bit (drop_bit 4 ((w AND 0x0F) OR 0x70 :: 8 word)) n = bit (7 :: 8 word) n"
    by (auto simp: bit_simps)
qed

lemma v7_variant: "((w AND 0x3F) OR 0x80 :: 8 word) AND 0xC0 = 0x80"
proof (rule bit_word_eqI)
  fix n assume "n < LENGTH(8)"
  then have "n \<in> {0, 1, 2, 3, 4, 5, 6, 7}" by auto
  then show "bit (((w AND 0x3F) OR 0x80 :: 8 word) AND 0xC0) n = bit (0x80 :: 8 word) n"
    by (auto simp: bit_simps)
qed

lemma NewUUIDv7_shape:
  assumes "NewUUIDv7 stamp (Some reader) = Some u" and "\<And>n bs. reader n = Some bs \<Longrightarrow> length bs = n"
  shows "length u = 16 \<and> unat (drop_bit 4 (u ! 6)) = 7 \<and> u ! 8 AND 0xC0 = 0x80 \<and>
    timestamp_of u = unix_milli stamp"
proof -
  obtain rest where r: "reader 10 = Some rest" and ms: "0 \<le> unix_milli stamp" "unix_milli stamp < 2 ^ 48"
    and u: "u = (let v = map (be_byte (unix_milli stamp)) [40, 32, 24, 16, 8, 0] @ rest;
        v1 = v[6 := (v ! 6 AND 0x0F) OR 0x70] in v1[8 := (v1 ! 8 AND 0x3F) OR 0x80])"
    using assms(1) by (auto simp: NewUUIDv7_def Let_def split: option.splits if_splits)
  have len: "length rest = 10" using assms(2) [OF r] .
  have "take 6 u = map (be_byte (unix_milli stamp)) [40, 32, 24, 16, 8, 0]"
    by (simp add: u Let_def)
  then have "timestamp_of u = unix_milli stamp"
    using timestamp_be [OF ms] by (simp add: timestamp_of_def)
  then show ?thesis using len v7_nibble v7_variant by (simp add: u Let_def)
qed

section \<open>Resolution lemmas\<close>

lemma uniqueMatch_Inr:
  assumes "uniqueMatch k cs f = Inr i"
  shows "(\<exists>c \<in> set cs. rc_id c = i \<and> f c) \<and> id_kind_of i = k"
proof -
  have "map rc_id (filter (\<lambda>c. id_kind_of (rc_id c) = k \<and> f c) cs) = [i]"
    using assms by (auto simp: uniqueMatch_def split: list.splits)
  then have "set (map rc_id (filter (\<lambda>c. id_kind_of (rc_id c) = k \<and> f c) cs)) = {i}" by simp
  then have "i \<in> rc_id ` {c \<in> set cs. id_kind_of (rc_id c) = k \<and> f c}" by simp
  then show ?thesis by auto
qed

lemma uniqueMatch_single:
  assumes "c \<in> set cs" and "f c" and "id_kind_of (rc_id c) = k" and "distinct (map rc_id cs)"
    and "\<And>d. d \<in> set cs \<Longrightarrow> id_kind_of (rc_id d) = k \<Longrightarrow> f d \<Longrightarrow> rc_id d = rc_id c"
  shows "uniqueMatch k cs f = Inr (rc_id c)"
proof -
  let ?m = "map rc_id (filter (\<lambda>c. id_kind_of (rc_id c) = k \<and> f c) cs)"
  have "distinct ?m" using assms(4) by (simp add: distinct_map_filter)
  moreover have "set ?m = {rc_id c}"
  proof
    show "set ?m \<subseteq> {rc_id c}"
    proof
      fix i assume "i \<in> set ?m"
      then obtain d where "d \<in> set cs" "id_kind_of (rc_id d) = k" "f d" "i = rc_id d" by auto
      then show "i \<in> {rc_id c}" using assms(5) [of d] by blast
    qed
    show "{rc_id c} \<subseteq> set ?m" using assms(1-3) by simp
  qed
  ultimately have "mset ?m = {#rc_id c#}" using mset_set_set [of ?m] by simp
  then have "?m = [rc_id c]" by (simp only: mset_single_iff)
  then show ?thesis by (simp add: uniqueMatch_def)
qed

lemma DisplayCode_Inr:
  assumes "DisplayCode h t cs = Inr code"
  shows "\<exists>l n. DisplayLetter (id_kind_of t) = Inr l \<and> 8 \<le> n \<and> n \<le> length (UUIDHex h t) \<and>
    code = l # CHR ''-'' # take n (map upper_char (UUIDHex h t)) \<and>
    (\<forall>c \<in> set cs. \<not> display_conflict h t (take n (map upper_char (UUIDHex h t))) c)"
proof -
  let ?hx = "map upper_char (UUIDHex h t)"
  obtain l n where l: "DisplayLetter (id_kind_of t) = Inr l"
    and f: "List.find (\<lambda>n. \<not> list_ex (display_conflict h t (take n ?hx)) cs) [8..<Suc (length ?hx)] = Some n"
    and c: "code = l # CHR ''-'' # take n ?hx"
    using assms by (auto simp: DisplayCode_def Let_def split: if_splits sum.splits option.splits)
  have "8 \<le> n \<and> n \<le> length (UUIDHex h t) \<and> \<not> list_ex (display_conflict h t (take n ?hx)) cs"
    using find_Some_mem [OF f] by auto
  with l c show ?thesis unfolding list_ex_iff by blast
qed

lemma display_letter_case: "DisplayLetter k = Inr l \<Longrightarrow> IDPrefix k' = Inr p \<Longrightarrow> \<not> has_prefix (l # r) p"
proof -
  assume l: "DisplayLetter k = Inr l" and p: "IDPrefix k' = Inr p"
  have "byte l \<le> 90" using l by (cases k) (auto simp: byte_def)
  moreover have "p \<noteq> [] \<and> 97 \<le> byte (hd p)" using p by (cases k') (auto simp: byte_def)
  ultimately show ?thesis by (cases p) (auto simp: has_prefix_def)
qed

lemma ParseID_display:
  assumes "DisplayLetter k = Inr l"
  shows "ParseID h (l # r) = Inl ErrInvalidID"
  unfolding ParseID_def by (rule parse_id_loop_none) (use display_letter_case [OF assms] in blast)

lemma display_letter_class: "DisplayLetter k = Inr l \<Longrightarrow> upper_char l \<in> set ''UIOQVBPYERASNFCLTMD''"
  using upper_char_display [of k l] by (cases k) auto

lemma UUIDHex_props:
  assumes "host_uuids h" and "length (id_uuid i) = 16"
  shows "length (UUIDHex h i) = 32 \<and> list_all lower_hex (UUIDHex h i)"
  using assms uuid_library.text_hex uuid_library.text_hex_length
  unfolding host_uuids_def UUIDHex_def by blast

lemma hex_any_upper: "lower_hex c \<Longrightarrow> hex_any (upper_char c)"
  using byte_less [of c] by (auto simp: hex_any_def lower_hex_def byte_upper_char)

lemma upper_upper: "upper_char (upper_char c) = upper_char c"
  by (subst byte_inject [symmetric]) (use byte_less [of c] in \<open>auto simp: byte_upper_char\<close>)

lemma display_match_code:
  assumes "DisplayLetter k = Inr l" and "list_all lower_hex x" and "8 \<le> n" and "n \<le> length x" and "length x = 32"
  shows "display_match (l # CHR ''-'' # take n (map upper_char x)) = Some (l, take n (map upper_char x))"
proof -
  have "list_all hex_any (take n (map upper_char x))"
    using assms(2) hex_any_upper by (auto simp: list_all_iff dest!: in_set_takeD)
  then show ?thesis
    using display_letter_class [OF assms(1)] assms(3-5) by (simp add: display_hex_def)
qed

lemma alias_display:
  assumes "DisplayLetter k = Inr l" and "k \<noteq> KindFinding \<or> \<not> list_all is_digit x"
  shows "ParseLegacyAlias (l # CHR ''-'' # x) = Inl ErrInvalidAlias"
proof (cases "k = KindFinding")
  case True
  then show ?thesis using assms by (auto simp: ParseLegacyAlias_def has_prefix_def)
next
  case False
  then have "l \<noteq> CHR ''F'' \<and> l \<noteq> CHR ''#''" using assms(1) by (cases k) auto
  then show ?thesis by (auto simp: ParseLegacyAlias_def has_prefix_def)
qed

definition candidates_wf :: "reference_candidate list \<Rightarrow> bool" where
  "candidates_wf cs \<longleftrightarrow> distinct (map rc_id cs) \<and>
     list_all (\<lambda>c. id_kind (id_kind_of (rc_id c)) \<and> length (id_uuid (rc_id c)) = 16 \<and> \<not> id_is_zero (rc_id c)) cs"

lemma Resolve_display_aux:
  assumes h: "host_uuids h" and wf: "candidates_wf cs" and t: "t \<in> rc_id ` set cs"
    and code: "DisplayCode h t cs = Inr code"
    and noalias: "id_kind_of t \<noteq> KindFinding \<or> \<not> list_all is_digit (drop 2 code)"
  shows "Resolve h code KindUnknown cs = Inr t"
proof -
  obtain c where c: "c \<in> set cs" "rc_id c = t" using t by auto
  define hx where "hx = map upper_char (UUIDHex h t)"
  obtain l n where l: "DisplayLetter (id_kind_of t) = Inr l" and n: "8 \<le> n" "n \<le> length (UUIDHex h t)"
    and cd: "code = l # CHR ''-'' # take n hx"
    and noc: "\<forall>c \<in> set cs. \<not> display_conflict h t (take n hx) c"
    using DisplayCode_Inr [OF code] hx_def by blast
  have t16: "length (id_uuid t) = 16" using wf c by (auto simp: candidates_wf_def list_all_iff)
  have m: "display_match code = Some (l, take n hx)"
    unfolding cd hx_def using display_match_code [OF l] UUIDHex_props [OF h t16] n by simp
  have up: "map upper_char (take n hx) = take n hx"
    by (simp add: hx_def take_map upper_upper)
  have um: "uniqueMatch (id_kind_of t) cs (\<lambda>c. has_prefix (map upper_char (UUIDHex h (rc_id c))) (take n hx)) =
      Inr (rc_id c)"
  proof (rule uniqueMatch_single [OF c(1)])
    show "has_prefix (map upper_char (UUIDHex h (rc_id c))) (take n hx)"
      by (simp add: c(2) hx_def has_prefix_def min_def)
    show "id_kind_of (rc_id c) = id_kind_of t" by (simp add: c)
    show "distinct (map rc_id cs)" using wf by (simp add: candidates_wf_def)
  next
    fix d assume "d \<in> set cs" "id_kind_of (rc_id d) = id_kind_of t"
      "has_prefix (map upper_char (UUIDHex h (rc_id d))) (take n hx)"
    then show "rc_id d = rc_id c"
      using noc wf c(2) by (auto simp: display_conflict_def candidates_wf_def list_all_iff)
  qed
  have "ParseLegacyAlias code = Inl ErrInvalidAlias"
    unfolding cd by (rule alias_display [OF l]) (use noalias cd in simp)
  then show ?thesis
    using ParseID_display [OF l, of h "CHR ''-'' # take n hx"] m up um display_letter_roundtrip [OF l] c(2)
    by (simp add: Resolve_def cd del: display_match.simps)
qed

lemma DisplayCode_total_aux:
  assumes h: "host_uuids h" and wf: "candidates_wf cs" and t: "t \<in> rc_id ` set cs"
  shows "\<exists>code. DisplayCode h t cs = Inr code"
proof -
  have t16: "length (id_uuid t) = 16" "\<not> id_is_zero t" "id_kind (id_kind_of t)"
    using wf t by (auto simp: candidates_wf_def list_all_iff)
  then obtain l where l: "DisplayLetter (id_kind_of t) = Inr l" by (auto simp: id_kind_letter)
  let ?hx = "map upper_char (UUIDHex h t)"
  have len: "length ?hx = 32" using UUIDHex_props [OF h t16(1)] by simp
  have "\<not> display_conflict h t (take 32 ?hx) c" if "c \<in> set cs" for c
  proof
    assume conf: "display_conflict h t (take 32 ?hx) c"
    have c16: "length (id_uuid (rc_id c)) = 16" using wf that by (auto simp: candidates_wf_def list_all_iff)
    then have "map upper_char (UUIDHex h (rc_id c)) = ?hx"
      using conf len UUIDHex_props [OF h c16] by (simp add: display_conflict_def has_prefix_def)
    then have "id_uuid (rc_id c) = id_uuid t"
      using uuid_library.hex_upper_inj [OF h [unfolded host_uuids_def] c16 t16(1)]
      by (simp add: UUIDHex_def)
    then show False using conf by (auto simp: display_conflict_def intro: typed_id.expand)
  qed
  then have "List.find (\<lambda>n. \<not> list_ex (display_conflict h t (take n ?hx)) cs) [8..<Suc (length ?hx)] \<noteq> None"
    using len by (auto simp: find_None_iff list_ex_iff intro!: exI [of _ 32])
  then show ?thesis using l t16(2) by (auto simp: DisplayCode_def Let_def simp del: upt_Suc)
qed

lemma expected_guard:
  "(if expected \<noteq> KindUnknown \<and> k \<noteq> expected then Inl e else r) = Inr i \<longleftrightarrow>
     (expected \<noteq> KindUnknown \<longrightarrow> k = expected) \<and> r = Inr i"
  by auto

lemma Resolve_sound_aux:
  assumes r: "Resolve h q expected cs = Inr i"
  shows "i \<in> rc_id ` set cs \<and> (expected \<noteq> KindUnknown \<longrightarrow> id_kind_of i = expected)"
proof (cases "ParseID h q")
  case (Inr j)
  then show ?thesis using r by (auto simp: Resolve_def expected_guard list_ex_iff split: if_splits)
next
  case parse: (Inl e)
  have nn: "q \<noteq> []" using r by (auto simp: Resolve_def)
  have "\<exists>k f. uniqueMatch k cs f = Inr i \<and> (expected \<noteq> KindUnknown \<longrightarrow> k = expected)"
  proof (cases "ParseLegacyAlias q")
    case (Inr k)
    then show ?thesis using r parse nn by (auto simp: Resolve_def expected_guard)
  next
    case noalias: (Inl e)
    show ?thesis
    proof (cases "display_match q")
      case (Some lx)
      then show ?thesis using r parse nn noalias
        by (cases lx) (auto simp: Resolve_def expected_guard Let_def)
    next
      case None
      then show ?thesis using r parse nn noalias
        by (cases "parseTypedPrefix q") (auto simp: Resolve_def expected_guard)
    qed
  qed
  then show ?thesis using uniqueMatch_Inr by blast
qed

section \<open>Properties\<close>

text \<open>Concrete identifiers for the witnesses: version-7 UUIDs of the reference instance.\<close>

definition sample_uuid :: "8 word \<Rightarrow> uuid" where
  "sample_uuid b = [0x01, 0x23, 0x45, 0x67, b, 0xab, 0x7c, 0xde, 0x8f, 1, 2, 3, 4, 5, 6, 7]"

definition sample_id :: "kind \<Rightarrow> 8 word \<Rightarrow> typed_id" where
  "sample_id k b = TypedID k (sample_uuid b)"

definition sample_candidates :: "kind \<Rightarrow> reference_candidate list" where
  "sample_candidates k = [\<lparr>rc_id = sample_id k 1, rc_aliases = []\<rparr>, \<lparr>rc_id = sample_id k 0xa2, rc_aliases = []\<rparr>]"

lemma sample_not_nil: "sample_uuid b \<noteq> nil_uuid"
proof
  assume "sample_uuid b = nil_uuid"
  then have "sample_uuid b ! 0 = nil_uuid ! 0" by simp
  then show False by (simp add: sample_uuid_def nil_uuid_def)
qed

lemma sample_wf: "id_wf std_host (sample_id KindPlan b)"
  using sample_not_nil [of b]
  by (simp add: id_wf_def id_kind_def sample_id_def IsNative_def std_host_def id_is_zero_def)
    (simp add: sample_uuid_def)

lemma sample_candidates_wf: "id_kind k \<Longrightarrow> candidates_wf (sample_candidates k)"
  using sample_not_nil [of 1] sample_not_nil [of "0xa2"]
  by (auto simp: candidates_wf_def sample_candidates_def sample_id_def id_is_zero_def id_kind_def)
    (simp_all add: sample_uuid_def)

text \<open>C40: parsing and printing typed identifiers are inverse: \<^verbatim>\<open>ParseID\<close> accepts exactly the
  texts that \<^verbatim>\<open>ID.String\<close> prints for well-formed identifiers (a kind with a prefix and a UUID of
  version 7 or 5), and gives the identifier back; no text is read as two kinds.\<close>

theorem ParseID_roundtrip:
  assumes "host_uuids h"
  shows "ParseID h v = Inr i \<longleftrightarrow> id_wf h i \<and> v = id_string h i"
  using ParseID_id_string_aux [OF assms, of i] parse_id_loop_Inr [of h v RecordKinds i] assms
  by (auto simp: ParseID_def)

theorem ParseID_roundtrip_witness:
  "ParseID std_host ''plan_01234567-01ab-7cde-8f01-020304050607'' = Inr (sample_id KindPlan 1)"
proof -
  have "''plan_01234567-01ab-7cde-8f01-020304050607'' = id_string std_host (sample_id KindPlan 1)"
    by code_simp
  then show ?thesis
    using ParseID_roundtrip [OF host_uuids_std, of _ "sample_id KindPlan 1"] sample_wf by simp
qed

text \<open>Every UUID that \<^verbatim>\<open>NewUUIDv7\<close> returns from a reader that honours its contract carries
  version 7 and the RFC 9562 variant whatever the entropy bytes are, so \<^verbatim>\<open>validateUUID\<close> accepts
  it, and its first six bytes are the big-endian Unix millisecond of the clock.\<close>

theorem NewUUIDv7_native:
  assumes "host_uuids h" and "NewUUIDv7 stamp (Some reader) = Some u"
    and "\<And>n bs. reader n = Some bs \<Longrightarrow> length bs = n"
  shows "validateUUID h u [7] = None \<and> timestamp_of u = unix_milli stamp"
proof -
  note sh = NewUUIDv7_shape [OF assms(2,3)]
  have "u \<noteq> nil_uuid" using sh by (auto simp: nil_uuid_def)
  then show ?thesis
    using sh uuid_library.version_bits [OF assms(1) [unfolded host_uuids_def], of u]
      uuid_library.variant_bits [OF assms(1) [unfolded host_uuids_def], of u]
    by (simp add: validateUUID_def)
qed

definition sample_stamp :: go_time where
  "sample_stamp = GoTime 63900000000123000000 0"

theorem NewUUIDv7_native_witness:
  "\<exists>u. NewUUIDv7 sample_stamp (Some (\<lambda>n. Some (replicate n 0xff))) = Some u \<and>
     validateUUID std_host u [7] = None \<and> timestamp_of u = 1764403200123"
proof -
  obtain u where u: "NewUUIDv7 sample_stamp (Some (\<lambda>n. Some (replicate n 0xff))) = Some u"
    by (simp add: NewUUIDv7_def sample_stamp_def unix_milli_def Let_def)
  have "unix_milli sample_stamp = 1764403200123" by (simp add: unix_milli_def sample_stamp_def)
  then show ?thesis using NewUUIDv7_native [OF host_uuids_std u] u by auto
qed

text \<open>Display codes work as references: the code allocated for a candidate resolves back to
  exactly that candidate, provided the code is not shaped like a Finding alias (an \<open>F-\<close> code whose
  digits are all decimal).\<close>

theorem Resolve_display_roundtrip:
  assumes "host_uuids h" and "candidates_wf cs" and "t \<in> rc_id ` set cs"
  shows "\<exists>code. DisplayCode h t cs = Inr code \<and>
    ((id_kind_of t \<noteq> KindFinding \<or> \<not> list_all is_digit (drop 2 code)) \<longrightarrow>
     Resolve h code KindUnknown cs = Inr t)"
  using DisplayCode_total_aux [OF assms] Resolve_display_aux [OF assms] by blast

theorem Resolve_display_roundtrip_witness:
  "DisplayCode std_host (sample_id KindPlan 0xa2) (sample_candidates KindPlan) = Inr ''P-01234567A'' \<and>
   Resolve std_host ''P-01234567A'' KindUnknown (sample_candidates KindPlan) = Inr (sample_id KindPlan 0xa2)"
proof -
  have c: "DisplayCode std_host (sample_id KindPlan 0xa2) (sample_candidates KindPlan) = Inr ''P-01234567A''"
    by code_simp
  have "sample_id KindPlan 0xa2 \<in> rc_id ` set (sample_candidates KindPlan)" "id_kind KindPlan"
    by (simp_all add: sample_candidates_def id_kind_def)
  moreover have "id_kind_of (sample_id KindPlan 0xa2) \<noteq> KindFinding" by (simp add: sample_id_def)
  ultimately show ?thesis
    using Resolve_display_roundtrip [OF host_uuids_std sample_candidates_wf, of KindPlan
        "sample_id KindPlan 0xa2"] c
    by fastforce
qed

text \<open>The exception of the previous property is real. A Finding whose display code has only
  decimal digits is looked up as a harness-v0 alias, so the code resolves only through a record
  that happens to carry it as an alias; with no such record it is not found.\<close>

theorem Resolve_digit_code_is_alias:
  assumes "id_kind_of t = KindFinding" and "DisplayCode h t cs = Inr code"
    and "list_all is_digit (drop 2 code)" and "\<forall>c \<in> set cs. code \<notin> set (rc_aliases c)"
  shows "Resolve h code KindUnknown cs = Inl ErrReferenceNotFound"
proof -
  obtain n where n: "8 \<le> n" "n \<le> length (UUIDHex h t)"
    and code: "code = CHR ''F'' # CHR ''-'' # take n (map upper_char (UUIDHex h t))"
    using DisplayCode_Inr [OF assms(2)] assms(1) by auto
  have "ParseLegacyAlias code = Inr KindFinding"
    using assms(3) n by (simp add: code ParseLegacyAlias_def has_prefix_def)
  moreover have "ParseID h code = Inl ErrInvalidID"
    unfolding code by (rule ParseID_display [of KindFinding]) simp
  moreover have "filter (\<lambda>c. id_kind_of (rc_id c) = KindFinding \<and> code \<in> set (rc_aliases c)) cs = []"
    using assms(4) by (simp add: filter_empty_conv)
  ultimately show ?thesis
    by (simp add: Resolve_def uniqueMatch_def code)
qed

theorem Resolve_digit_code_is_alias_witness:
  "DisplayCode std_host (sample_id KindFinding 1) (sample_candidates KindFinding) = Inr ''F-012345670'' \<and>
   Resolve std_host ''F-012345670'' KindUnknown (sample_candidates KindFinding) = Inl ErrReferenceNotFound"
proof -
  have c: "DisplayCode std_host (sample_id KindFinding 1) (sample_candidates KindFinding) = Inr ''F-012345670''"
    by code_simp
  have "list_all is_digit (drop 2 ''F-012345670'')" by code_simp
  then show ?thesis
    using Resolve_digit_code_is_alias [OF _ c] c by (simp add: sample_id_def sample_candidates_def)
qed

text \<open>Resolution never invents or mistypes a reference: whatever the query, a successful
  \<^verbatim>\<open>Resolve\<close> returns the identifier of one of the candidates, of the expected kind when one is
  given.\<close>

theorem Resolve_sound:
  assumes "Resolve h q expected cs = Inr i"
  shows "i \<in> rc_id ` set cs \<and> (expected \<noteq> KindUnknown \<longrightarrow> id_kind_of i = expected)"
  using Resolve_sound_aux [OF assms] .

theorem Resolve_sound_witness:
  "sample_id KindPlan 1 \<in> rc_id ` set (sample_candidates KindPlan) \<and> id_kind_of (sample_id KindPlan 1) = KindPlan"
proof -
  have "Resolve std_host ''plan_01234567-01'' KindPlan (sample_candidates KindPlan) = Inr (sample_id KindPlan 1)"
    by code_simp
  from Resolve_sound [OF this] show ?thesis by simp
qed

end
