(* ===== verification/Exp_Clock.thy ===== *)
theory Exp_Clock
  imports Exp_Ids
begin

text \<open>
  The clock of the operational store (\<^verbatim>\<open>internal/operation/types.go\<close> \<open>utc\<close>, \<^verbatim>\<open>store_sqlite.go\<close>
  \<open>formatTime\<close>): instants are truncated to microseconds and stored as RFC 3339 text, and the SQL
  statements compare and order that text. The theory models the text exactly (for the years 1 to
  9999) and relates its bytewise order to the order of the instants.
\<close>

section \<open>Times as text\<close>

definition op_utc :: "go_time \<Rightarrow> go_time" where
  "op_utc t = (if time_is_zero t then t else GoTime (t_instant t - t_instant t mod 1000) 0)"

primrec pad :: "nat \<Rightarrow> nat \<Rightarrow> string" where
  "pad 0 n = []"
| "pad (Suc w) n = pad w (n div 10) @ [digit_char (n mod 10)]"

text \<open>Civil date of a day number (day 0 is 1 January of year 1), by 400-, 100-, 4- and 1-year cycles.\<close>

definition cycle_step :: "nat \<Rightarrow> nat \<Rightarrow> nat \<Rightarrow> nat \<times> nat" where
  "cycle_step cap len r = (min cap (r div len), r - min cap (r div len) * len)"

fun single_years :: "nat \<Rightarrow> nat \<times> nat \<Rightarrow> nat \<times> nat" where
  "single_years y (e, r) = (y + e + 1, r)"

fun leap_cycles :: "nat \<Rightarrow> nat \<times> nat \<Rightarrow> nat \<times> nat" where
  "leap_cycles y (c, r) = single_years (y + 4 * c) (cycle_step 3 365 r)"

fun centuries :: "nat \<Rightarrow> nat \<times> nat \<Rightarrow> nat \<times> nat" where
  "centuries y (b, r) = leap_cycles (y + 100 * b) (cycle_step 24 1461 r)"

definition year_day :: "nat \<Rightarrow> nat \<times> nat" where
  "year_day d = centuries (400 * (d div 146097)) (cycle_step 3 36524 (d mod 146097))"

definition leap_year :: "nat \<Rightarrow> bool" where
  "leap_year y \<longleftrightarrow> 4 dvd y \<and> (\<not> 100 dvd y \<or> 400 dvd y)"

definition month_starts :: "bool \<Rightarrow> nat list" where
  "month_starts leap = (if leap then [0, 31, 60, 91, 121, 152, 182, 213, 244, 274, 305, 335]
     else [0, 31, 59, 90, 120, 151, 181, 212, 243, 273, 304, 334])"

definition month_number :: "bool \<Rightarrow> nat \<Rightarrow> nat" where
  "month_number leap yday = length (takeWhile (\<lambda>s. s \<le> yday) (month_starts leap))"

definition month_day :: "bool \<Rightarrow> nat \<Rightarrow> nat \<times> nat" where
  "month_day leap yday =
    (month_number leap yday, yday - month_starts leap ! (month_number leap yday - 1) + 1)"

fun day_text :: "nat \<Rightarrow> nat \<times> nat \<Rightarrow> string" where
  "day_text y (m, md) = pad 4 y @ ''-'' @ pad 2 m @ ''-'' @ pad 2 md"

fun year_text :: "nat \<times> nat \<Rightarrow> string" where
  "year_text (y, yd) = day_text y (month_day (leap_year y) yd)"

definition date_text :: "nat \<Rightarrow> string" where
  "date_text d = year_text (year_day d)"

definition clock_text :: "nat \<Rightarrow> string" where
  "clock_text r = pad 2 (r div 3600) @ '':'' @ pad 2 (r div 60 mod 60) @ '':'' @ pad 2 (r mod 60)"

definition second_text :: "nat \<Rightarrow> string" where
  "second_text s = date_text (s div 86400) @ ''T'' @ clock_text (s mod 86400)"

definition fraction_text :: "nat \<Rightarrow> string" where
  "fraction_text us = (if us = 0 then []
     else ''.'' @ rev (dropWhile (\<lambda>c. c = CHR ''0'') (rev (pad 6 us))))"

definition micros :: "go_time \<Rightarrow> nat" where
  "micros t = nat (t_instant t div 1000)"

definition micros_text :: "nat \<Rightarrow> string" where
  "micros_text us = second_text (us div 1000000) @ fraction_text (us mod 1000000) @ ''Z''"

definition format_time :: "go_time \<Rightarrow> string" where
  "format_time value = micros_text (micros (op_utc value))"

definition time_seconds :: "go_time \<Rightarrow> nat" where
  "time_seconds t = nat (t_instant t div 1000000000)"

text \<open>Instants whose year has four digits.\<close>

definition text_range :: "go_time \<Rightarrow> bool" where
  "text_range t \<longleftrightarrow> 0 \<le> t_instant t \<and> t_instant t < 315537897600 * 1000000000"

section \<open>Lexicographic order of fixed-width text\<close>

lemma lex_append: "length (a :: string) = length b \<Longrightarrow> a < b \<Longrightarrow> a @ x < b @ y"
proof (induction a arbitrary: b)
  case Nil
  then show ?case by simp
next
  case (Cons c a)
  then show ?case by (cases b) auto
qed

lemma lex_same [simp]: "(a :: string) @ x < a @ y \<longleftrightarrow> x < y"
  by (induction a) auto

lemma length_pad [simp]: "length (pad w n) = w"
  by (induction w arbitrary: n) auto

lemma digit_char_less: "m < n \<Longrightarrow> n < 10 \<Longrightarrow> digit_char m < digit_char n"
  by (simp add: digit_char_def less_char_def)

lemma pad_less: "m < n \<Longrightarrow> n < 10 ^ w \<Longrightarrow> pad w m < pad w n"
proof (induction w arbitrary: m n)
  case 0
  then show ?case by simp
next
  case (Suc w)
  show ?case
  proof (cases "m div 10 < n div 10")
    case True
    moreover have "n div 10 < 10 ^ w" using Suc.prems(2) by auto
    ultimately have "pad w (m div 10) < pad w (n div 10)" by (rule Suc.IH)
    then show ?thesis by (simp add: lex_append)
  next
    case False
    then have "m div 10 = n div 10" using Suc.prems(1) by (simp add: div_le_mono le_antisym)
    moreover have "m mod 10 < n mod 10"
      using Suc.prems(1) \<open>m div 10 = n div 10\<close> by (metis div_mult_mod_eq nat_add_left_cancel_less)
    ultimately show ?thesis using digit_char_less by simp
  qed
qed

section \<open>The text order refines whole seconds\<close>

lemma cycle_step_mono:
  assumes "r < r'" and "cycle_step cap len r = (q, t)" and "cycle_step cap len r' = (q', t')"
  shows "q < q' \<or> q = q' \<and> t < t'"
proof -
  have q: "q = min cap (r div len)" "q' = min cap (r' div len)"
    and t: "t = r - q * len" "t' = r' - q' * len"
    using assms(2,3) by (auto simp: cycle_step_def Let_def)
  have "r div len \<le> r' div len" using assms(1) by (simp add: div_le_mono)
  then have "q \<le> q'" using q by auto
  moreover have "q * len \<le> r"
    using q(1) by (metis div_times_less_eq_dividend min.cobounded2 mult_le_mono1 order_trans)
  ultimately show ?thesis
  proof (cases "q = q'")
    case True
    with \<open>q * len \<le> r\<close> assms(1) t have "t < t'" by (metis diff_less_mono)
    with True show ?thesis by simp
  qed simp
qed

lemma cycle_step_cap: "cycle_step cap len r = (q, t) \<Longrightarrow> q \<le> cap"
  by (auto simp: cycle_step_def Let_def)

lemma cycle_step_0 [simp]: "cycle_step cap len 0 = (0, 0)"
  by (simp add: cycle_step_def)

text \<open>Four digits of a mixed-radix number compare like the number.\<close>

lemma year_day_mono:
  assumes less: "d < d'" and y: "year_day d = (y, r)" "year_day d' = (y', r')"
  shows "y < y' \<or> y = y' \<and> r < r'"
proof -
  obtain b r2 where b: "cycle_step 3 36524 (d mod 146097) = (b, r2)" by fastforce
  obtain c r3 where c: "cycle_step 24 1461 r2 = (c, r3)" by fastforce
  obtain e r4 where e: "cycle_step 3 365 r3 = (e, r4)" by fastforce
  obtain b' r2' where b': "cycle_step 3 36524 (d' mod 146097) = (b', r2')" by fastforce
  obtain c' r3' where c': "cycle_step 24 1461 r2' = (c', r3')" by fastforce
  obtain e' r4' where e': "cycle_step 3 365 r3' = (e', r4')" by fastforce
  note caps = cycle_step_cap [OF b] cycle_step_cap [OF c] cycle_step_cap [OF e]
    cycle_step_cap [OF b'] cycle_step_cap [OF c'] cycle_step_cap [OF e']
  have r: "y = 400 * (d div 146097) + 100 * b + 4 * c + e + 1" "r = r4"
    "y' = 400 * (d' div 146097) + 100 * b' + 4 * c' + e' + 1" "r' = r4'"
    using y b c e b' c' e' by (auto simp: year_day_def)
  have "d div 146097 < d' div 146097 \<or> d div 146097 = d' div 146097 \<and> d mod 146097 < d' mod 146097"
    using less by (metis div_le_mono div_mult_mod_eq le_neq_implies_less less_imp_le nat_add_left_cancel_less)
  moreover
  { assume "d mod 146097 < d' mod 146097"
    from cycle_step_mono [OF this b b'] have "b < b' \<or> b = b' \<and> r2 < r2'" .
    moreover have "r2 < r2' \<Longrightarrow> c < c' \<or> c = c' \<and> r3 < r3'" using cycle_step_mono [OF _ c c'] by simp
    moreover have "r3 < r3' \<Longrightarrow> e < e' \<or> e = e' \<and> r4 < r4'" using cycle_step_mono [OF _ e e'] by simp
    ultimately have "b < b' \<or> b = b' \<and> (c < c' \<or> c = c' \<and> (e < e' \<or> e = e' \<and> r4 < r4'))" by blast }
  ultimately show ?thesis unfolding r using caps by linarith
qed

lemma year_day_bounds:
  assumes "year_day d = (y, r)"
  shows "r < 366" and "d < 3652059 \<Longrightarrow> y < 10000"
proof -
  obtain b r2 where b: "cycle_step 3 36524 (d mod 146097) = (b, r2)" by fastforce
  obtain c r3 where c: "cycle_step 24 1461 r2 = (c, r3)" by fastforce
  obtain e r4 where e: "cycle_step 3 365 r3 = (e, r4)" by fastforce
  have step: "snd (cycle_step cap len n) < max len (n - cap * len + 1)" if "0 < len" for cap len n
    using that mod_less_divisor [OF that, of n]
    by (auto simp: cycle_step_def Let_def min_def minus_div_mult_eq_mod less_max_iff_disj)
  have "d mod 146097 < 146097" by simp
  then have "r2 < 36525" using b step [of 36524 3 "d mod 146097"] by simp
  then have "r3 < 1461" using c step [of 1461 24 r2] by simp
  then have "r4 < 366" using e step [of 365 3 r3] by simp
  then show "r < 366" using assms b c e by (auto simp: year_day_def)
  have "year_day 3652059 = (10000, 0)" by (simp add: year_day_def cycle_step_def)
  then show "y < 10000" if "d < 3652059" using year_day_mono [OF that assms] by fastforce
qed

definition civil_less :: "nat \<times> nat \<Rightarrow> nat \<times> nat \<Rightarrow> bool" where
  "civil_less p q \<longleftrightarrow> fst p < fst q \<or> fst p = fst q \<and> snd p < snd q"

lemma length_takeWhile_mono:
  "a \<le> (b :: nat) \<Longrightarrow> length (takeWhile (\<lambda>s. s \<le> a) xs) \<le> length (takeWhile (\<lambda>s. s \<le> b) xs)"
  by (induction xs) auto

lemma month_start_le: "month_starts leap ! (length (takeWhile (\<lambda>s. s \<le> n) (month_starts leap)) - 1) \<le> n"
proof -
  have "takeWhile (\<lambda>s. s \<le> n) (month_starts leap) \<noteq> []" by (simp add: month_starts_def)
  then have k: "length (takeWhile (\<lambda>s. s \<le> n) (month_starts leap)) - 1 < length (takeWhile (\<lambda>s. s \<le> n) (month_starts leap))"
    by simp
  from nth_mem [OF k] show ?thesis
    using takeWhile_nth [OF k] by (metis (no_types, lifting) set_takeWhileD)
qed

lemma month_day_mono: "m < n \<Longrightarrow> civil_less (month_day leap m) (month_day leap n)"
  using length_takeWhile_mono [of m n "month_starts leap"] month_start_le [of leap m]
  by (auto simp: civil_less_def month_day_def month_number_def intro: diff_less_mono)

lemma month_day_bounds: "n < 366 \<Longrightarrow> fst (month_day leap n) < 100 \<and> snd (month_day leap n) < 100"
  by (cases leap) (auto simp: month_day_def month_number_def month_starts_def)

lemma length_date_text: "length (date_text d) = 10"
  by (simp add: date_text_def split: prod.splits) (cases "year_day d"; cases "month_day (leap_year (fst (year_day d))) (snd (year_day d))"; simp add: date_text_def)

lemma date_text_less:
  assumes "d < d'" and "d' < 3652059"
  shows "date_text d < date_text d'"
proof -
  obtain y r y' r' where y: "year_day d = (y, r)" "year_day d' = (y', r')" by fastforce
  obtain m k m' k' where m: "month_day (leap_year y) r = (m, k)" "month_day (leap_year y') r' = (m', k')"
    by fastforce
  note bounds = year_day_bounds [OF y(1)] year_day_bounds [OF y(2)]
  have y4: "y' < 10 ^ 4" using bounds assms by simp
  have m2: "m' < 10 ^ 2" "k' < 10 ^ 2" using month_day_bounds [OF bounds(3), of "leap_year y'"] m by simp_all
  consider "y < y'" | "y = y'" "r < r'" using year_day_mono [OF assms(1) y] by blast
  then show ?thesis
  proof cases
    case 1
    then show ?thesis using y m pad_less [OF _ y4] by (simp add: date_text_def lex_append)
  next
    case 2
    then have "m < m' \<or> m = m' \<and> k < k'"
      using month_day_mono [OF 2(2), of "leap_year y'"] m by (simp add: civil_less_def)
    then show ?thesis
      using y m 2 pad_less [OF _ m2(1)] pad_less [OF _ m2(2)] by (auto simp: date_text_def lex_append)
  qed
qed

lemma div_mod_less: "(m :: nat) < n \<Longrightarrow> m div k < n div k \<or> m div k = n div k \<and> m mod k < n mod k"
  by (metis div_le_mono div_mult_mod_eq le_neq_implies_less less_imp_le nat_add_left_cancel_less)

lemma length_second_text: "length (second_text s) = 19"
  by (simp add: second_text_def clock_text_def length_date_text)

lemma second_text_less:
  assumes "s < s'" and "s' < 315537897600"
  shows "second_text s < second_text s'"
proof (cases "s div 86400 < s' div 86400")
  case True
  have "s' div 86400 < 3652059" using assms(2) by (simp add: less_mult_imp_div_less)
  then show ?thesis unfolding second_text_def
    by (intro lex_append date_text_less True) (simp_all add: length_date_text)
next
  case False
  then have day: "s div 86400 = s' div 86400" using assms(1) by (simp add: div_le_mono le_antisym)
  define a b where ab: "a = s mod 86400" "b = s' mod 86400"
  have "a < b" using assms(1) day ab by (metis div_mult_mod_eq nat_add_left_cancel_less)
  have "b < 86400" using ab by simp
  have h: "a div 3600 \<le> b div 3600" "b div 3600 < 10 ^ 2" using \<open>a < b\<close> \<open>b < 86400\<close> by (auto simp: div_le_mono)
  have minute: "n mod 3600 div 60 = n div 60 mod 60" "n mod 3600 mod 60 = n mod 60" for n :: nat
    using mod_mult2_eq [of n 60 60] by simp_all
  have "a div 3600 < b div 3600 \<or> a div 3600 = b div 3600 \<and>
      (a div 60 mod 60 < b div 60 mod 60 \<or> a div 60 mod 60 = b div 60 mod 60 \<and> a mod 60 < b mod 60)"
    using div_mod_less [OF \<open>a < b\<close>, of 3600] div_mod_less [of "a mod 3600" "b mod 3600" 60]
    unfolding minute by blast
  moreover have m: "b div 60 mod 60 < 10 ^ 2" "b mod 60 < 10 ^ 2" by (auto intro: less_trans [of _ 60])
  ultimately show ?thesis
    using pad_less [OF _ h(2), of "a div 3600"] pad_less [OF _ m(1), of "a div 60 mod 60"]
      pad_less [OF _ m(2), of "a mod 60"]
    by (auto simp: second_text_def clock_text_def day ab [symmetric] lex_append)
qed

lemma micros_utc: "0 \<le> t_instant t \<Longrightarrow> micros (op_utc t) = micros t"
  by (auto simp: micros_def op_utc_def minus_mod_eq_mult_div)

lemma micros_seconds: "0 \<le> t_instant t \<Longrightarrow> micros t div 1000000 = time_seconds t"
proof -
  assume "0 \<le> t_instant t"
  then have "micros t div 1000000 = nat (t_instant t div 1000 div 1000000)"
    by (simp add: micros_def nat_div_distrib)
  then show ?thesis by (simp add: time_seconds_def zdiv_zmult2_eq [symmetric])
qed

lemma format_time_later:
  assumes "text_range a" and "text_range b" and "time_seconds a < time_seconds b"
  shows "format_time a < format_time b"
proof -
  have "time_seconds b < 315537897600"
    using assms(2) by (auto simp: text_range_def time_seconds_def nat_less_iff)
  then show ?thesis
    using second_text_less [OF assms(3)] assms(1,2)
    by (auto simp: format_time_def micros_text_def micros_utc micros_seconds text_range_def
        intro!: lex_append simp: length_second_text)
qed

text \<open>
  The RFC 3339 text the store writes orders times of different whole seconds as the times are
  ordered, for every pair of instants in the years 1 to 9999.
\<close>

theorem format_time_orders_seconds:
  assumes "text_range a" and "text_range b" and "time_seconds a < time_seconds b"
  shows "format_time a < format_time b"
  using assms by (rule format_time_later)

definition sample_second :: int where
  "sample_second = 1000000000"

theorem format_time_orders_seconds_witness:
  "format_time (GoTime (5 * sample_second + 999999000) 0) < format_time (GoTime (6 * sample_second) 0)"
  by (rule format_time_orders_seconds) (simp_all add: text_range_def time_seconds_def sample_second_def)

lemma format_time_whole_last:
  assumes "text_range a" and "text_range b" and "time_before a b" and "time_seconds a = time_seconds b"
    and "micros a mod 1000000 = 0" and "micros a < micros b"
  shows "format_time b < format_time a"
proof -
  have div: "micros a div 1000000 = micros b div 1000000"
    using assms(1,2,4) by (simp add: micros_seconds text_range_def)
  have "micros b mod 1000000 \<noteq> 0"
    using div assms(5,6) by (metis div_mult_mod_eq less_irrefl)
  then obtain fs where "fraction_text (micros b mod 1000000) = CHR ''.'' # fs"
    by (auto simp: fraction_text_def)
  moreover have "fraction_text (micros a mod 1000000) = []" using assms(5) by (simp add: fraction_text_def)
  ultimately show ?thesis
    using assms(1,2) div by (simp add: format_time_def micros_text_def micros_utc text_range_def less_char_def)
qed

text \<open>
  Inside one second the text order is not the order of time: an instant on the whole second is
  written without a fraction, its final Z sorts after the point of every later instant of the
  same second, so each of those compares as earlier.
\<close>

theorem format_time_whole_second_last:
  assumes "text_range a" and "text_range b" and "time_before a b" and "time_seconds a = time_seconds b"
    and "micros a mod 1000000 = 0" and "micros a < micros b"
  shows "format_time b < format_time a"
  using assms by (rule format_time_whole_last)

theorem format_time_whole_second_last_witness:
  "format_time (GoTime (6 * sample_second + 700000000) 0) < format_time (GoTime (6 * sample_second) 0)"
  by (rule format_time_whole_second_last)
    (simp_all add: text_range_def time_seconds_def sample_second_def time_before_def micros_def)

end
