(* ===== verification/Exp_Op_Types.thy ===== *)
theory Exp_Op_Types
  imports Exp_Clock
begin

text \<open>
  The data of the operational store (\<^verbatim>\<open>internal/operation/types.go\<close>): states, inputs, rows, errors,
  the field validators and the fair choice of a lane. A row of a table is the Go value it is
  scanned into; the two columns of \<open>jobs\<close> that no Go struct carries extend the job record.

  What the package calls outside it is a parameter record: the JSON decoder and encoder of
  \<^verbatim>\<open>encoding/json\<close>, SHA-256, and the secret classifier of \<^verbatim>\<open>internal/safex\<close>.
\<close>

section \<open>Errors and states\<close>

text \<open>The sentinel errors; \<open>ErrInvalid\<close> is any validation error, \<open>ErrConstraint\<close> a failed UNIQUE
  constraint reported by the database, \<open>ErrExternal\<close> an error of a callback.\<close>

datatype store_error = ErrNotFound | ErrConflict | ErrLeaseHeld | ErrFenced | ErrPaused
  | ErrInvalid | ErrConstraint | ErrExternal

datatype operation_state = OperationPending | OperationRunning | OperationSucceeded | OperationFailed
  | OperationStale | OperationOther string

definition operation_state_valid :: "operation_state \<Rightarrow> bool" where
  "operation_state_valid state \<longleftrightarrow> state \<in> {OperationPending, OperationRunning, OperationSucceeded,
     OperationFailed, OperationStale}"

datatype job_state = JobQueued | JobRunning | JobSucceeded | JobFailed | JobCancelled | JobUnknown
  | JobOther string

definition job_state_valid :: "job_state \<Rightarrow> bool" where
  "job_state_valid state \<longleftrightarrow> state \<in> {JobQueued, JobRunning, JobSucceeded, JobFailed, JobCancelled, JobUnknown}"

definition job_terminal :: "job_state \<Rightarrow> bool" where
  "job_terminal state \<longleftrightarrow> state = JobSucceeded \<or> state = JobFailed \<or> state = JobCancelled"

datatype outbox_state = OutboxPending | OutboxRunning | OutboxSucceeded | OutboxFailed | OutboxOther string

section \<open>Inputs and rows\<close>

record operation_input =
  op_id :: string
  op_kind :: string
  op_subject :: string
  op_key :: string
  op_snapshot :: string
  op_payload :: string

record operation = operation_input +
  op_state :: operation_state
  op_result :: string
  op_error :: string
  op_created :: go_time
  op_updated :: go_time

record lease =
  le_subject :: string
  le_holder :: string
  le_token :: int
  le_expires :: go_time
  le_updated :: go_time

record job_input =
  j_id :: string
  j_key :: string
  j_kind :: string
  j_role :: string
  j_subject :: string
  j_scope :: string
  j_pool :: string
  j_lane :: string
  j_units :: int
  j_profile :: string
  j_payload :: string
  j_max_attempts :: int

record job = job_input +
  j_state :: job_state
  j_claimed_by :: string
  j_token :: int
  j_attempts :: int
  j_task :: "int option"
  j_mlflow :: string
  j_result :: string
  j_error :: string
  j_created :: go_time
  j_updated :: go_time
  j_expires :: "go_time option"

record job_row = job +
  j_reconciled :: bool
  j_accounted :: bool

record job_authority =
  ja_id :: string
  ja_kind :: string
  ja_role :: string
  ja_subject :: string
  ja_scope :: string
  ja_state :: job_state
  ja_claimed_by :: string
  ja_token :: int
  ja_task :: "int option"

record job_summary =
  js_id :: string
  js_subject :: string
  js_state :: job_state
  js_token :: int
  js_expires :: "go_time option"
  js_updated :: go_time

record allocation =
  al_task :: int
  al_pool :: string
  al_units :: int

record outbox_input =
  o_id :: string
  o_operation :: string
  o_kind :: string
  o_key :: string
  o_payload :: string

record outbox_item = outbox_input +
  o_state :: outbox_state
  o_attempts :: int
  o_next :: go_time
  o_error :: string
  o_created :: go_time
  o_updated :: go_time

record observation_input =
  ob_provider :: string
  ob_context :: string
  ob_subject :: string
  ob_observed :: go_time
  ob_expires :: go_time
  ob_partial :: bool
  ob_payload :: string

record observation = observation_input +
  ob_id :: int
  ob_created :: go_time

record fairness =
  fa_pool :: string
  fa_exploit :: go_float
  fa_explore :: go_float
  fa_updated :: go_time

record runtime_state =
  rs_paused :: bool
  rs_reason :: string
  rs_updated :: go_time

record event =
  ev_id :: string
  ev_type :: string
  ev_aggregate_type :: string
  ev_aggregate_id :: string
  ev_payload :: string
  ev_created :: go_time
  ev_previous :: string
  ev_hash :: string

text \<open>The database: one list of rows per table, in the order of their rowids, the last
  AUTOINCREMENT value of the observations, and the single runtime row.\<close>

record op_store =
  st_operations :: "operation list"
  st_leases :: "lease list"
  st_jobs :: "job_row list"
  st_outbox :: "outbox_item list"
  st_observations :: "observation list"
  st_observation_seq :: int
  st_fairness :: "fairness list"
  st_events :: "event list"
  st_runtime :: runtime_state

section \<open>The environment\<close>

record op_host =
  oh_json :: "string \<Rightarrow> string option"
  oh_sha256 :: "string \<Rightarrow> string"
  oh_lease_json :: "lease \<Rightarrow> string"
  oh_state_json :: "operation_state \<Rightarrow> string \<Rightarrow> string \<Rightarrow> string"
  oh_secret :: "string \<Rightarrow> bool"
  oh_round :: "rat \<Rightarrow> go_float"

text \<open>\<open>hex.EncodeToString\<close>.\<close>

definition hex_char :: "nat \<Rightarrow> char" where
  "hex_char n = (if n < 10 then char_of (48 + n) else char_of (87 + n))"

definition hex_encode :: "string \<Rightarrow> string" where
  "hex_encode s = concat (map (\<lambda>c. [hex_char (byte c div 16), hex_char (byte c mod 16)]) s)"

section \<open>Validators\<close>

definition MaxJSONBytes :: nat where
  "MaxJSONBytes = 2 * 2 ^ 20"

definition normalizeJSON :: "op_host \<Rightarrow> string \<Rightarrow> string option" where
  "normalizeJSON h value =
    (if value = [] then Some ''{}'' else if length value > MaxJSONBytes then None else oh_json h value)"

definition validateIdentifier :: "string \<Rightarrow> bool" where
  "validateIdentifier value \<longleftrightarrow>
     value \<noteq> [] \<and> value = trim_space value \<and> length value \<le> 512 \<and> utf8_valid value \<and>
     list_all (\<lambda>r. \<not> is_control r \<and> r \<noteq> 8232 \<and> r \<noteq> 8233) (runes value)"

definition run_id_rune :: "nat \<Rightarrow> bool" where
  "run_id_rune r \<longleftrightarrow> (97 \<le> r \<and> r \<le> 122) \<or> (65 \<le> r \<and> r \<le> 90) \<or> (48 \<le> r \<and> r \<le> 57) \<or>
     r \<in> {46, 95, 58, 45}"

definition validateMLflowRunID :: "op_host \<Rightarrow> string \<Rightarrow> bool" where
  "validateMLflowRunID h value \<longleftrightarrow>
     value = [] \<or>
     (value = trim_space value \<and> length value \<le> 256 \<and> utf8_valid value \<and> \<not> oh_secret h value \<and>
      list_all run_id_rune (runes value))"

definition validateOperationInput :: "'a operation_input_scheme \<Rightarrow> bool" where
  "validateOperationInput input \<longleftrightarrow>
     list_all validateIdentifier [op_id input, op_kind input, op_subject input, op_key input] \<and>
     (op_snapshot input \<noteq> [] \<longrightarrow> has_prefix (op_snapshot input) ''sha256:'')"

definition validateJobInput :: "'a job_input_scheme \<Rightarrow> bool" where
  "validateJobInput input \<longleftrightarrow>
     list_all validateIdentifier [j_id input, j_key input, j_kind input, j_role input, j_subject input,
       j_pool input, j_lane input, j_profile input] \<and>
     (j_scope input \<noteq> [] \<longrightarrow> validateIdentifier (j_scope input)) \<and>
     (j_lane input = ''exploit'' \<or> j_lane input = ''explore'') \<and>
     0 \<le> j_max_attempts input \<and> j_max_attempts input \<le> 100 \<and>
     0 \<le> j_units input \<and> j_units input \<le> 1000000"

definition validateOutboxInput :: "'a outbox_input_scheme \<Rightarrow> bool" where
  "validateOutboxInput input \<longleftrightarrow>
     list_all validateIdentifier [o_id input, o_operation input, o_kind input, o_key input]"

text \<open>The defaults both enqueueing operations put in place of zero.\<close>

definition default_job_input :: "job_input \<Rightarrow> job_input" where
  "default_job_input input = input\<lparr>
     j_max_attempts := (if j_max_attempts input = 0 then 1 else j_max_attempts input),
     j_units := (if j_units input = 0 then 1 else j_units input)\<rparr>"

definition sameJobInput :: "'a job_input_scheme \<Rightarrow> 'b job_input_scheme \<Rightarrow> bool" where
  "sameJobInput left right \<longleftrightarrow>
     j_id left = j_id right \<and> j_key left = j_key right \<and> j_kind left = j_kind right \<and>
     j_role left = j_role right \<and> j_subject left = j_subject right \<and> j_scope left = j_scope right \<and>
     j_pool left = j_pool right \<and> j_lane left = j_lane right \<and> j_units left = j_units right \<and>
     j_profile left = j_profile right \<and> j_max_attempts left = j_max_attempts right \<and>
     j_payload left = j_payload right"

definition sameOperationInput :: "'a operation_input_scheme \<Rightarrow> 'b operation_input_scheme \<Rightarrow> bool" where
  "sameOperationInput left right \<longleftrightarrow>
     op_id left = op_id right \<and> op_kind left = op_kind right \<and> op_subject left = op_subject right \<and>
     op_key left = op_key right \<and> op_snapshot left = op_snapshot right \<and> op_payload left = op_payload right"

definition sameOutboxInput :: "'a outbox_input_scheme \<Rightarrow> 'b outbox_input_scheme \<Rightarrow> bool" where
  "sameOutboxInput left right \<longleftrightarrow>
     o_id left = o_id right \<and> o_operation left = o_operation right \<and> o_kind left = o_kind right \<and>
     o_key left = o_key right \<and> o_payload left = o_payload right"

section \<open>ChooseLane\<close>

definition ChooseLane ::
  "(rat \<Rightarrow> go_float) \<Rightarrow> fairness \<Rightarrow> bool \<Rightarrow> bool \<Rightarrow> go_float \<Rightarrow> go_float \<Rightarrow> string option" where
  "ChooseLane rnd fair exploitReady exploreReady exploitWeight exploreWeight =
    (if \<not> exploitReady \<and> \<not> exploreReady then None
     else if \<not> exploitReady then Some ''explore''
     else if \<not> exploreReady then Some ''exploit''
     else
       (let (ew, xw) = (if f_le exploitWeight f_zero \<or> f_le exploreWeight f_zero then (Fin 80, Fin 20)
                        else (exploitWeight, exploreWeight))
        in if f_le (f_div rnd (fa_exploit fair) ew) (f_div rnd (fa_explore fair) xw)
           then Some ''exploit'' else Some ''explore''))"

lemma ChooseLane_ready:
  "ChooseLane rnd fair er xr ew xw = Some lane \<Longrightarrow>
     lane = ''exploit'' \<and> er \<or> lane = ''explore'' \<and> xr"
  by (auto simp: ChooseLane_def Let_def split: if_splits prod.splits)

lemma ChooseLane_None: "ChooseLane rnd fair er xr ew xw = None \<longleftrightarrow> \<not> er \<and> \<not> xr"
  by (auto simp: ChooseLane_def Let_def split: if_splits prod.splits)

text \<open>
  The choice of a lane is work-conserving: some lane is chosen exactly when one has ready work,
  and the chosen lane is one that has; when both have, with exact division and positive finite
  weights, the exploit lane runs exactly when its share of weighted service does not exceed the
  other's.
\<close>

theorem ChooseLane_fair:
  "(ChooseLane rnd fair er xr ew xw = None \<longleftrightarrow> \<not> er \<and> \<not> xr) \<and>
   (ChooseLane rnd fair er xr ew xw = Some lane \<longrightarrow> lane = ''exploit'' \<and> er \<or> lane = ''explore'' \<and> xr) \<and>
   (0 < we \<and> 0 < wx \<longrightarrow>
     (ChooseLane Fin \<lparr>fa_pool = p, fa_exploit = Fin e, fa_explore = Fin x, fa_updated = t\<rparr> True True
        (Fin we) (Fin wx) = Some ''exploit'' \<longleftrightarrow> e * wx \<le> x * we))"
proof -
  have div: "e / we \<le> x / wx \<longleftrightarrow> e * wx \<le> x * we" if "0 < we" "0 < wx"
    using that by (simp add: field_simps)
  have "f_le (Fin (e / we)) (Fin (x / wx)) \<longleftrightarrow> e / we \<le> x / wx" by (auto simp: f_le_def)
  with div show ?thesis
    using ChooseLane_ready ChooseLane_None by (auto simp: ChooseLane_def Let_def f_le_def f_zero_def)
qed

theorem ChooseLane_fair_witness:
  "ChooseLane Fin \<lparr>fa_pool = ''gpu'', fa_exploit = Fin 80, fa_explore = Fin 10, fa_updated = zero_time\<rparr>
     True True (Fin 80) (Fin 20) \<noteq> Some ''exploit'' \<and>
   ChooseLane Fin \<lparr>fa_pool = ''gpu'', fa_exploit = Fin 80, fa_explore = Fin 10, fa_updated = zero_time\<rparr>
     True False (Fin 80) (Fin 20) \<noteq> None"
  using ChooseLane_fair [of Fin "\<lparr>fa_pool = ''gpu'', fa_exploit = Fin 80, fa_explore = Fin 10, fa_updated = zero_time\<rparr>"
      True False "Fin 80" "Fin 20" "[]" 80 20 "''gpu''" 80 10 zero_time]
  by simp

end
