(* ===== verification/Exp_Op_Table.thy ===== *)
theory Exp_Op_Table
  imports Exp_Op_Types
begin

text \<open>
  The SQL statements the store is written with, over tables as lists of rows: insertion with
  \<open>ON CONFLICT(key) DO NOTHING\<close>, \<open>UPDATE ... WHERE\<close>, lookup by a unique column and
  \<open>ORDER BY time,id LIMIT n\<close> on the text of the time. A locale states what an update has to
  keep of a row for the table's keys and lookups to survive it; every update of the store is an
  instance.
\<close>

section \<open>Statements\<close>

text \<open>\<open>INSERT ... ON CONFLICT(key) DO NOTHING\<close>: the flag says whether a row was added. A row with
  the key makes the statement do nothing; otherwise a row with the same primary key is an error.\<close>

definition insert_new ::
  "('r \<Rightarrow> string) \<Rightarrow> ('r \<Rightarrow> string) \<Rightarrow> 'r \<Rightarrow> 'r list \<Rightarrow> (store_error, 'r list \<times> bool) result" where
  "insert_new key pk row rows =
    (if list_ex (\<lambda>r. key r = key row) rows then Inr (rows, False)
     else if list_ex (\<lambda>r. pk r = pk row) rows then Inl ErrConstraint
     else Inr (rows @ [row], True))"

definition update_where :: "('r \<Rightarrow> bool) \<Rightarrow> ('r \<Rightarrow> 'r) \<Rightarrow> 'r list \<Rightarrow> 'r list" where
  "update_where p f rows = map (\<lambda>r. if p r then f r else r) rows"

definition rows_affected :: "('r \<Rightarrow> bool) \<Rightarrow> 'r list \<Rightarrow> nat" where
  "rows_affected p rows = length (filter p rows)"

definition lookup_row :: "('r \<Rightarrow> 'k) \<Rightarrow> 'k \<Rightarrow> 'r list \<Rightarrow> 'r option" where
  "lookup_row key k rows = List.find (\<lambda>r. key r = k) rows"

text \<open>\<open>ORDER BY time,id\<close> compares the stored texts bytewise.\<close>

definition text_before :: "('r \<Rightarrow> go_time) \<Rightarrow> ('r \<Rightarrow> string) \<Rightarrow> 'r \<Rightarrow> 'r \<Rightarrow> bool" where
  "text_before time pk a b \<longleftrightarrow>
     format_time (time a) < format_time (time b) \<or>
     format_time (time a) = format_time (time b) \<and> pk a < pk b"

definition order_rows :: "('r \<Rightarrow> go_time) \<Rightarrow> ('r \<Rightarrow> string) \<Rightarrow> 'r list \<Rightarrow> 'r list" where
  "order_rows time pk rows = stable_sort (text_before time pk) rows"

section \<open>Facts about the statements\<close>

lemma insert_new_cases:
  assumes "insert_new key pk row rows = Inr (rows', added)"
  shows "(\<not> added \<and> rows' = rows \<and> (\<exists>r \<in> set rows. key r = key row)) \<or>
         (added \<and> rows' = rows @ [row] \<and> (\<forall>r \<in> set rows. key r \<noteq> key row \<and> pk r \<noteq> pk row))"
  using assms by (auto simp: insert_new_def list_ex_iff split: if_splits)

lemma insert_new_distinct:
  assumes "insert_new key pk row rows = Inr (rows', added)"
    and "distinct (map key rows)" and "distinct (map pk rows)"
  shows "distinct (map key rows')" and "distinct (map pk rows')"
  using insert_new_cases [OF assms(1)] assms(2,3) by (elim disjE conjE; force)+

lemma insert_new_set:
  "insert_new key pk row rows = Inr (rows', added) \<Longrightarrow> set rows \<subseteq> set rows' \<and> set rows' \<subseteq> insert row (set rows)"
  by (drule insert_new_cases) auto

lemma lookup_row_Some:
  "lookup_row key k rows = Some r \<Longrightarrow> r \<in> set rows \<and> key r = k"
  unfolding lookup_row_def by (drule find_Some_mem) simp

lemma lookup_row_None: "lookup_row key k rows = None \<longleftrightarrow> k \<notin> key ` set rows"
  by (auto simp: lookup_row_def find_None_iff_all)

lemma lookup_row_iff:
  assumes "distinct (map key rows)"
  shows "lookup_row key k rows = Some r \<longleftrightarrow> r \<in> set rows \<and> key r = k"
proof
  assume "lookup_row key k rows = Some r"
  then show "r \<in> set rows \<and> key r = k" by (rule lookup_row_Some)
next
  assume r: "r \<in> set rows \<and> key r = k"
  then show "lookup_row key k rows = Some r"
    unfolding lookup_row_def
    by (intro find_unique) (use assms r in \<open>auto simp: distinct_map inj_on_def\<close>)
qed

lemma lookup_row_append:
  "lookup_row key k (rows @ [row]) =
    (case lookup_row key k rows of Some r \<Rightarrow> Some r | None \<Rightarrow> if key row = k then Some row else None)"
  unfolding lookup_row_def by (induction rows) auto

lemma lookup_insert_new:
  assumes "insert_new key pk row rows = Inr (rows', added)"
  shows "\<exists>r. lookup_row key (key row) rows' = Some r \<and> (added \<longrightarrow> r = row) \<and>
     (\<not> added \<longrightarrow> lookup_row key (key row) rows = Some r)"
  using insert_new_cases [OF assms]
proof (elim disjE conjE)
  assume "added" "rows' = rows @ [row]" "\<forall>r \<in> set rows. key r \<noteq> key row \<and> pk r \<noteq> pk row"
  moreover from this have "lookup_row key (key row) rows = None" by (force simp: lookup_row_None)
  ultimately show ?thesis by (simp add: lookup_row_append)
next
  assume "\<not> added" "rows' = rows" "\<exists>r \<in> set rows. key r = key row"
  moreover from \<open>\<exists>r \<in> set rows. key r = key row\<close> have "lookup_row key (key row) rows \<noteq> None"
    unfolding lookup_row_None by (metis image_eqI)
  ultimately show ?thesis by auto
qed

lemma rows_affected_0: "rows_affected p rows = 0 \<longleftrightarrow> (\<forall>r \<in> set rows. \<not> p r)"
  by (auto simp: rows_affected_def filter_empty_conv)

lemma rows_affected_1:
  assumes "rows_affected p rows = 1"
  obtains r where "r \<in> set rows" and "p r" and "\<And>x. x \<in> set rows \<Longrightarrow> p x \<Longrightarrow> x = r"
proof -
  from assms obtain r where r: "filter p rows = [r]"
    unfolding rows_affected_def by (metis One_nat_def length_0_conv length_Suc_conv)
  then have "set (filter p rows) = {r}" by simp
  with that [of r] show thesis by auto
qed

lemma rows_affected_unique:
  assumes "distinct (map key rows)" and "\<And>x. p x \<Longrightarrow> key x = k" and "r \<in> set rows" and "p r"
  shows "rows_affected p rows = 1"
  using assms
proof (induction rows)
  case Nil
  then show ?case by simp
next
  case (Cons x xs)
  show ?case
  proof (cases "p x")
    case True
    then have "\<forall>y \<in> set xs. \<not> p y" using Cons.prems(1,2) by (metis distinct.simps(2) image_eqI list.simps(9) set_map)
    with True show ?thesis by (simp add: rows_affected_def)
  next
    case False
    with Cons.prems(3,4) have "r \<in> set xs" by auto
    with Cons False show ?thesis by (simp add: rows_affected_def)
  qed
qed

lemma rows_affected_one_iff:
  assumes "distinct (map key rows)" and "\<And>x. p x \<Longrightarrow> key x = k"
  shows "rows_affected p rows = 1 \<longleftrightarrow> (\<exists>r \<in> set rows. p r)"
proof
  assume "rows_affected p rows = 1"
  then show "\<exists>r \<in> set rows. p r" by (rule rows_affected_1) blast
next
  assume "\<exists>r \<in> set rows. p r"
  then obtain r where "r \<in> set rows" "p r" by blast
  then show "rows_affected p rows = 1" using rows_affected_unique [where key = key, OF assms] by blast
qed

lemma update_where_none: "(\<And>r. r \<in> set rows \<Longrightarrow> \<not> p r) \<Longrightarrow> update_where p f rows = rows"
  by (simp add: update_where_def map_idI)

lemma set_update_where: "x \<in> set (update_where p f rows) \<longleftrightarrow>
    (\<exists>r \<in> set rows. x = (if p r then f r else r))"
  by (auto simp: update_where_def)

lemma update_where_ball:
  "Ball (set rows) Q \<Longrightarrow> (\<And>r. p r \<Longrightarrow> Q r \<Longrightarrow> Q (f r)) \<Longrightarrow> Ball (set (update_where p f rows)) Q"
  by (auto simp: set_update_where)

lemma every_some_trans:
  assumes "\<forall>r \<in> set xs. \<exists>r' \<in> set ys. R r r'" and "\<forall>r \<in> set ys. \<exists>r' \<in> set zs. R r r'"
    and "\<And>x y z. y \<in> set ys \<Longrightarrow> R x y \<Longrightarrow> R y z \<Longrightarrow> R x z"
  shows "\<forall>r \<in> set xs. \<exists>r' \<in> set zs. R r r'"
  using assms by blast

lemma update_where_image:
  "r \<in> set rows \<Longrightarrow> (if p r then f r else r) \<in> set (update_where p f rows)"
  by (auto simp: update_where_def)

lemma update_where_related:
  assumes "\<And>r. r \<in> set rows \<Longrightarrow> p r \<Longrightarrow> R r (f r)" and "\<And>r. R r r"
  shows "\<forall>r \<in> set rows. \<exists>r' \<in> set (update_where p f rows). R r r'"
proof
  fix r assume r: "r \<in> set rows"
  have "R r (if p r then f r else r)" using assms r by simp
  with update_where_image [OF r] show "\<exists>r' \<in> set (update_where p f rows). R r r'" by blast
qed

lemma update_where_cong: "(\<And>r. r \<in> set rows \<Longrightarrow> p r = q r) \<Longrightarrow> update_where p f rows = update_where q f rows"
  by (simp add: update_where_def)

lemma text_before_order:
  "text_before time pk a b \<Longrightarrow> \<not> text_before time pk b a"
  "\<not> text_before time pk b a \<Longrightarrow> \<not> text_before time pk c b \<Longrightarrow> \<not> text_before time pk c a"
  unfolding text_before_def by (auto dest: less_trans)

lemma text_before_irrefl [simp]: "\<not> text_before time pk a a"
  by (simp add: text_before_def)

lemma order_rows_sorted: "no_inversion (text_before time pk) (order_rows time pk rows)"
  unfolding order_rows_def
  by (rule no_inversion_stable_sort [where A = UNIV]) (auto dest: text_before_order)

lemma set_order_rows [simp]: "set (order_rows time pk rows) = set rows"
  by (simp add: order_rows_def)

lemma mset_order_rows [simp]: "mset (order_rows time pk rows) = mset rows"
  by (simp add: order_rows_def)

lemma order_rows_Nil [simp]: "order_rows time pk rows = [] \<longleftrightarrow> rows = []"
  by (metis set_empty set_order_rows)

text \<open>The first row in order comes before every other.\<close>

lemma order_rows_first:
  assumes "order_rows time pk rows = r # rs" and "x \<in> set rows"
  shows "r \<in> set rows" and "\<not> text_before time pk x r"
proof -
  have sorted: "no_inversion (text_before time pk) (r # rs)" using order_rows_sorted assms(1) by metis
  have "set (r # rs) = set rows" using assms(1) by (metis set_order_rows)
  then show "r \<in> set rows" by auto
  have "x = r \<or> x \<in> set rs" using \<open>set (r # rs) = set rows\<close> assms(2) by auto
  then show "\<not> text_before time pk x r"
    using sorted by (auto simp: no_inversion_def)
qed

section \<open>Updates that keep the keys\<close>

text \<open>What an update has to promise about a unique column.\<close>

locale keeps_column =
  fixes col :: "'r \<Rightarrow> 'k" and upd :: "'r \<Rightarrow> 'r"
  assumes keeps: "col (upd r) = col r"
begin

lemma columns: "map col (update_where p upd rows) = map col rows"
  by (simp add: update_where_def keeps)

lemma still_distinct: "distinct (map col rows) \<Longrightarrow> distinct (map col (update_where p upd rows))"
  by (simp only: columns)

lemma lookup:
  "lookup_row col k (update_where p upd rows) =
     map_option (\<lambda>r. if p r then upd r else r) (lookup_row col k rows)"
  unfolding lookup_row_def update_where_def by (induction rows) (auto simp: keeps)

lemma lookup_hit:
  "lookup_row col k rows = Some r \<Longrightarrow> p r \<Longrightarrow> lookup_row col k (update_where p upd rows) = Some (upd r)"
  by (simp add: lookup)

end

end
