(* ===== verification/Exp_Op_Store.thy ===== *)
theory Exp_Op_Store
  imports Exp_Op_Table
begin

text \<open>
  The operations of \<^verbatim>\<open>internal/operation/store_sqlite.go\<close> on the event chain, the idempotent
  operations, the leases and the runtime switch. Every operation takes the readings of the clock
  it makes and the database, and returns an error or its value with the new database; an error
  leaves the database as it was, since the transaction is rolled back (and the operations that
  run one bare statement fail with it undone). A value returned beside an error is not kept.
  Failures of the database engine itself (I/O, a cancelled context) are left out.
\<close>

section \<open>Opening and migrating\<close>

definition SchemaVersion :: nat where
  "SchemaVersion = 5"

text \<open>The schema blocks \<^verbatim>\<open>migrate\<close> applies to a database of the given version, one guarded step
  per version, and the version it ends with.\<close>

definition migrate_step :: "nat \<Rightarrow> nat \<times> nat list \<Rightarrow> nat \<times> nat list" where
  "migrate_step n st = (if fst st < n then (n, snd st @ [n]) else st)"

definition migrate :: "nat \<Rightarrow> (store_error, nat \<times> nat list) result" where
  "migrate version =
    (if version > SchemaVersion then Inl ErrInvalid
     else Inr (migrate_step 5 (migrate_step 4 (migrate_step 3 (migrate_step 2 (migrate_step 1 (version, [])))))))"

definition epoch_1970 :: go_time where
  "epoch_1970 = GoTime (62135596800 * 1000000000) 0"

text \<open>The tables a new database has after the migration.\<close>

definition initial_store :: op_store where
  "initial_store = \<lparr>st_operations = [], st_leases = [], st_jobs = [], st_outbox = [],
     st_observations = [], st_observation_seq = 0, st_fairness = [], st_events = [],
     st_runtime = \<lparr>rs_paused = False, rs_reason = [], rs_updated = epoch_1970\<rparr>\<rparr>"

lemma migrate_complete: "v \<le> SchemaVersion \<Longrightarrow> migrate v = Inr (SchemaVersion, [Suc v ..< Suc SchemaVersion])"
proof -
  assume "v \<le> SchemaVersion"
  then have "v \<in> {0, 1, 2, 3, 4, 5}" by (auto simp: SchemaVersion_def)
  then show ?thesis by (elim insertE emptyE) (simp_all add: migrate_def migrate_step_def SchemaVersion_def upt_rec)
qed

section \<open>The event chain\<close>

definition previous_hash :: "op_store \<Rightarrow> string" where
  "previous_hash s = (if st_events s = [] then [] else ev_hash (last (st_events s)))"

definition nul :: string where
  "nul = [CHR 0x00]"

text \<open>The bytes a part of an event contributes to the hash: its length, a NUL and the part.\<close>

definition framed :: "string list \<Rightarrow> string" where
  "framed parts = concat (map (\<lambda>part. itoa (length part) @ nul @ part) parts)"

definition event_identifier ::
  "op_host \<Rightarrow> string \<Rightarrow> go_time \<Rightarrow> string \<Rightarrow> string \<Rightarrow> string \<Rightarrow> string" where
  "event_identifier h prev now ety aid payload =
    ety @ '':'' @ aid @ '':'' @
      hex_encode (take 8 (oh_sha256 h (prev @ nul @ ety @ nul @ aid @ nul @ format_time now @ nul @ payload)))"

definition event_parts ::
  "string \<Rightarrow> string \<Rightarrow> string \<Rightarrow> string \<Rightarrow> string \<Rightarrow> go_time \<Rightarrow> string \<Rightarrow> string list" where
  "event_parts prev eid ety aty aid now payload =
     [''exp-operation-event-v1'', prev, eid, ety, aty, aid, format_time now, payload]"

definition seal_event ::
  "op_host \<Rightarrow> string \<Rightarrow> go_time \<Rightarrow> string \<Rightarrow> string \<Rightarrow> string \<Rightarrow> string \<Rightarrow> string \<Rightarrow> event" where
  "seal_event h prev now ety aty aid payload eid = \<lparr>ev_id = eid, ev_type = ety, ev_aggregate_type = aty,
     ev_aggregate_id = aid, ev_payload = payload, ev_created = now, ev_previous = prev,
     ev_hash = ''sha256:'' @ hex_encode (oh_sha256 h (framed (event_parts prev eid ety aty aid now payload)))\<rparr>"

text \<open>The INSERT, under the UNIQUE constraints of event identifiers and hashes.\<close>

definition store_event :: "event \<Rightarrow> op_store \<Rightarrow> (store_error, op_store) result" where
  "store_event e s =
    guarded (\<not> list_ex (\<lambda>x. ev_id x = ev_id e \<or> ev_hash x = ev_hash e) (st_events s)) ErrConstraint
      (Inr (s\<lparr>st_events := st_events s @ [e]\<rparr>))"

definition appendEventTx ::
  "op_host \<Rightarrow> go_time \<Rightarrow> string \<Rightarrow> string \<Rightarrow> string \<Rightarrow> string \<Rightarrow> op_store \<Rightarrow> (store_error, op_store) result" where
  "appendEventTx h now ety aty aid payload s =
    store_event (seal_event h (previous_hash s) now ety aty aid payload
      (event_identifier h (previous_hash s) now ety aid payload)) s"

section \<open>Operations\<close>

definition new_operation :: "operation_input \<Rightarrow> go_time \<Rightarrow> operation" where
  "new_operation input now = operation_input.extend input
     \<lparr>op_state = OperationPending, op_result = ''{}'', op_error = [], op_created = now, op_updated = now\<rparr>"

definition operationByKey :: "string \<Rightarrow> op_store \<Rightarrow> (store_error, operation) result" where
  "operationByKey key s =
    (case lookup_row op_key key (st_operations s) of None \<Rightarrow> Inl ErrNotFound | Some r \<Rightarrow> Inr r)"

definition operationByID :: "string \<Rightarrow> op_store \<Rightarrow> (store_error, operation) result" where
  "operationByID i s =
    (case lookup_row op_id i (st_operations s) of None \<Rightarrow> Inl ErrNotFound | Some r \<Rightarrow> Inr r)"

definition BeginOperation ::
  "op_host \<Rightarrow> go_time \<Rightarrow> operation_input \<Rightarrow> op_store \<Rightarrow> (store_error, (operation \<times> bool) \<times> op_store) result" where
  "BeginOperation h clock input0 s =
    guarded (validateOperationInput input0) ErrInvalid
     (case normalizeJSON h (op_payload input0) of None \<Rightarrow> Inl ErrInvalid | Some payload \<Rightarrow>
       let input = input0\<lparr>op_payload := payload\<rparr>; now = op_utc clock in
       andThen (insert_new op_key op_id (new_operation input now) (st_operations s)) (\<lambda>(rows, added).
         let s1 = s\<lparr>st_operations := rows\<rparr> in
         andThen (operationByKey (op_key input) s1) (\<lambda>operation.
           guarded (added \<or> sameOperationInput operation input) ErrConflict
            (andThen (if added then appendEventTx h now ''operation.created'' ''operation'' (op_id operation) payload s1
                      else Inr s1)
              (\<lambda>s2. Inr ((operation, \<not> added), s2))))))"

definition operation_update :: "operation_state \<Rightarrow> string \<Rightarrow> string \<Rightarrow> go_time \<Rightarrow> operation \<Rightarrow> operation" where
  "operation_update state res message now r =
     r\<lparr>op_state := state, op_result := res, op_error := message, op_updated := now\<rparr>"

definition SetOperationState ::
  "op_host \<Rightarrow> go_time \<Rightarrow> string \<Rightarrow> operation_state \<Rightarrow> string \<Rightarrow> string \<Rightarrow> op_store \<Rightarrow>
     (store_error, operation \<times> op_store) result" where
  "SetOperationState h clock i state res message s =
    guarded (validateIdentifier i \<and> operation_state_valid state) ErrInvalid
     (case normalizeJSON h res of None \<Rightarrow> Inl ErrInvalid | Some normalized \<Rightarrow>
       let now = op_utc clock;
           s1 = s\<lparr>st_operations := update_where (\<lambda>r. op_id r = i)
                    (operation_update state normalized message now) (st_operations s)\<rparr> in
       guarded (rows_affected (\<lambda>r. op_id r = i) (st_operations s) = 1) ErrNotFound
        (andThen (operationByID i s1) (\<lambda>operation.
          andThen (appendEventTx h now ''operation.state'' ''operation'' i (oh_state_json h state normalized message) s1)
            (\<lambda>s2. Inr (operation, s2)))))"

definition GetOperationByKey :: "string \<Rightarrow> op_store \<Rightarrow> (store_error, operation) result" where
  "GetOperationByKey key s = guarded (validateIdentifier key) ErrInvalid (operationByKey key s)"

section \<open>Leases\<close>

definition time_add :: "go_time \<Rightarrow> int \<Rightarrow> go_time" where
  "time_add t d = GoTime (t_instant t + d) (t_offset t)"

definition write_lease :: "lease \<Rightarrow> lease list \<Rightarrow> lease list" where
  "write_lease l rows =
    (if list_ex (\<lambda>r. le_subject r = le_subject l) rows
     then update_where (\<lambda>r. le_subject r = le_subject l) (\<lambda>_. l) rows else rows @ [l])"

definition AcquireLease ::
  "op_host \<Rightarrow> go_time \<Rightarrow> string \<Rightarrow> string \<Rightarrow> int \<Rightarrow> op_store \<Rightarrow> (store_error, lease \<times> op_store) result" where
  "AcquireLease h clock subject holder ttl s =
    guarded (validateIdentifier subject \<and> validateIdentifier holder \<and> 0 < ttl) ErrInvalid
     (let now = op_utc clock; expires = op_utc (time_add now ttl) in
      andThen (case lookup_row le_subject subject (st_leases s) of
                 None \<Rightarrow> Inr 0
               | Some r \<Rightarrow> guarded (\<not> (time_after (le_expires r) now \<and> le_holder r \<noteq> holder)) ErrLeaseHeld
                             (Inr (le_token r)))
       (\<lambda>token.
         let l = \<lparr>le_subject = subject, le_holder = holder, le_token = token + 1,
                   le_expires = expires, le_updated = now\<rparr> in
         andThen (appendEventTx h now ''lease.acquired'' ''lease'' subject (oh_lease_json h l)
                    (s\<lparr>st_leases := write_lease l (st_leases s)\<rparr>))
           (\<lambda>s2. Inr (l, s2))))"

definition lease_matches :: "lease \<Rightarrow> lease \<Rightarrow> bool" where
  "lease_matches l r \<longleftrightarrow> le_subject r = le_subject l \<and> le_holder r = le_holder l \<and> le_token r = le_token l"

definition lease_renewal :: "go_time \<Rightarrow> go_time \<Rightarrow> lease \<Rightarrow> lease" where
  "lease_renewal expires now r = r\<lparr>le_expires := expires, le_updated := now\<rparr>"

definition RenewLease ::
  "go_time \<Rightarrow> lease \<Rightarrow> int \<Rightarrow> op_store \<Rightarrow> (store_error, lease \<times> op_store) result" where
  "RenewLease clock l ttl s =
    guarded (0 < ttl) ErrInvalid
     (let now = op_utc clock; expires = op_utc (time_add now ttl) in
      guarded (rows_affected (lease_matches l) (st_leases s) = 1) ErrFenced
       (Inr (lease_renewal expires now l,
             s\<lparr>st_leases := update_where (lease_matches l) (lease_renewal expires now) (st_leases s)\<rparr>)))"

text \<open>The UPDATE of the dispatch compares the stored text of the expiry with the text of now.\<close>

definition dispatch_matches :: "lease \<Rightarrow> go_time \<Rightarrow> lease \<Rightarrow> bool" where
  "dispatch_matches l now r \<longleftrightarrow> lease_matches l r \<and> format_time now < format_time (le_expires r)"

text \<open>The action is the one external submission: it takes the outside world to its answer (a task
  number, or None for an error) and the world after it. The world is returned on every path.\<close>

definition WithDispatchLease ::
  "go_time \<Rightarrow> lease \<Rightarrow> int \<Rightarrow> ('w \<Rightarrow> int option \<times> 'w) option \<Rightarrow> op_store \<Rightarrow> 'w \<Rightarrow>
     (store_error, (int \<times> lease) \<times> op_store) result \<times> 'w" where
  "WithDispatchLease clock l ttl action s w =
    (case action of None \<Rightarrow> (Inl ErrInvalid, w) | Some act \<Rightarrow>
      if ttl \<le> 0 then (Inl ErrInvalid, w)
      else
       (let now = op_utc clock; expires = op_utc (time_add now ttl);
            s1 = s\<lparr>st_leases := update_where (dispatch_matches l now) (lease_renewal expires now) (st_leases s)\<rparr> in
        if rows_affected (dispatch_matches l now) (st_leases s) \<noteq> 1 then (Inl ErrFenced, w)
        else if rs_paused (st_runtime s1) then (Inl ErrPaused, w)
        else case act w of
          (None, w') \<Rightarrow> (Inl ErrExternal, w')
        | (Some task, w') \<Rightarrow> (Inr ((task, lease_renewal expires now l), s1), w')))"

definition ReleaseLease :: "lease \<Rightarrow> op_store \<Rightarrow> (store_error, unit \<times> op_store) result" where
  "ReleaseLease l s =
    guarded (rows_affected (lease_matches l) (st_leases s) = 1) ErrFenced
     (Inr ((), s\<lparr>st_leases := filter (\<lambda>r. \<not> lease_matches l r) (st_leases s)\<rparr>))"

section \<open>The runtime switch\<close>

definition SetPaused ::
  "go_time \<Rightarrow> bool \<Rightarrow> string \<Rightarrow> op_store \<Rightarrow> (store_error, runtime_state \<times> op_store) result" where
  "SetPaused clock paused reason s =
    guarded (\<not> (length reason > 4096 \<or> CHR 0x00 \<in> set reason)) ErrInvalid
     (let r = \<lparr>rs_paused = paused, rs_reason = reason, rs_updated = op_utc clock\<rparr>
      in Inr (r, s\<lparr>st_runtime := r\<rparr>))"

definition RuntimeState :: "op_store \<Rightarrow> runtime_state" where
  "RuntimeState s = st_runtime s"

end
