(* ===== verification/Exp_Op_Jobs.thy ===== *)
theory Exp_Op_Jobs
  imports Exp_Op_Store
begin

text \<open>
  The job table, the outbox, the observations and the fairness counters of
  \<^verbatim>\<open>internal/operation/store_sqlite.go\<close>, in the conventions of Exp\_Op\_Store.
\<close>

section \<open>Reading jobs\<close>

definition scanJob :: "'a job_scheme \<Rightarrow> job" where
  "scanJob r = job.truncate r"

definition jobByKey :: "string \<Rightarrow> op_store \<Rightarrow> (store_error, job) result" where
  "jobByKey key s =
    (case lookup_row j_key key (st_jobs s) of None \<Rightarrow> Inl ErrNotFound | Some r \<Rightarrow> Inr (scanJob r))"

definition jobByID :: "string \<Rightarrow> op_store \<Rightarrow> (store_error, job) result" where
  "jobByID i s =
    (case lookup_row j_id i (st_jobs s) of None \<Rightarrow> Inl ErrNotFound | Some r \<Rightarrow> Inr (scanJob r))"

definition GetJob :: "string \<Rightarrow> op_store \<Rightarrow> (store_error, job) result" where
  "GetJob i s = guarded (validateIdentifier i) ErrInvalid (jobByID i s)"

definition GetJobAuthority :: "string \<Rightarrow> op_store \<Rightarrow> (store_error, job_authority) result" where
  "GetJobAuthority i s = guarded (validateIdentifier i) ErrInvalid
     (case lookup_row j_id i (st_jobs s) of None \<Rightarrow> Inl ErrNotFound
      | Some r \<Rightarrow> Inr \<lparr>ja_id = j_id r, ja_kind = j_kind r, ja_role = j_role r, ja_subject = j_subject r,
          ja_scope = j_scope r, ja_state = j_state r, ja_claimed_by = j_claimed_by r,
          ja_token = j_token r, ja_task = j_task r\<rparr>)"

section \<open>Enqueueing and claiming\<close>

definition new_job :: "job_input \<Rightarrow> go_time \<Rightarrow> job_row" where
  "new_job input now = \<lparr>j_id = j_id input, j_key = j_key input, j_kind = j_kind input, j_role = j_role input,
     j_subject = j_subject input, j_scope = j_scope input, j_pool = j_pool input, j_lane = j_lane input,
     j_units = j_units input, j_profile = j_profile input, j_payload = j_payload input,
     j_max_attempts = j_max_attempts input,
     j_state = JobQueued, j_claimed_by = [], j_token = 0, j_attempts = 0, j_task = None, j_mlflow = [],
     j_result = ''{}'', j_error = [], j_created = now, j_updated = now, j_expires = None,
     j_reconciled = False, j_accounted = False\<rparr>"

definition EnqueueJob ::
  "op_host \<Rightarrow> go_time \<Rightarrow> job_input \<Rightarrow> op_store \<Rightarrow> (store_error, (job \<times> bool) \<times> op_store) result" where
  "EnqueueJob h clock input0 s =
    guarded (validateJobInput input0) ErrInvalid
     (case normalizeJSON h (j_payload input0) of None \<Rightarrow> Inl ErrInvalid | Some payload \<Rightarrow>
       let input = default_job_input (input0\<lparr>j_payload := payload\<rparr>); now = op_utc clock in
       andThen (insert_new j_key j_id (new_job input now) (st_jobs s)) (\<lambda>(rows, added).
         let s1 = s\<lparr>st_jobs := rows\<rparr> in
         andThen (jobByKey (j_key input) s1) (\<lambda>job.
           guarded (sameJobInput job input) ErrConflict (Inr ((job, \<not> added), s1)))))"

definition claim_update :: "string \<Rightarrow> go_time \<Rightarrow> go_time \<Rightarrow> job_row \<Rightarrow> job_row" where
  "claim_update holder expires now r =
     r\<lparr>j_state := JobRunning, j_claimed_by := holder, j_token := j_token r + 1,
       j_attempts := j_attempts r + 1, j_expires := Some expires, j_updated := now\<rparr>"

definition claimable :: "job_row \<Rightarrow> bool" where
  "claimable r \<longleftrightarrow> j_state r = JobQueued \<and> j_attempts r < j_max_attempts r"

definition ClaimJob ::
  "go_time \<Rightarrow> string \<Rightarrow> string \<Rightarrow> string \<Rightarrow> int \<Rightarrow> op_store \<Rightarrow> (store_error, job \<times> op_store) result" where
  "ClaimJob clock pool lane holder ttl s =
    guarded (list_all validateIdentifier [pool, lane, holder] \<and> 0 < ttl) ErrInvalid
     (let now = op_utc clock; expires = op_utc (time_add now ttl) in
      case order_rows j_created j_id
             (filter (\<lambda>r. j_pool r = pool \<and> j_lane r = lane \<and> claimable r) (st_jobs s)) of
        [] \<Rightarrow> Inl ErrNotFound
      | first # _ \<Rightarrow>
         (let i = j_id first; hit = (\<lambda>r. j_id r = i \<and> j_state r = JobQueued);
              s1 = s\<lparr>st_jobs := update_where hit (claim_update holder expires now) (st_jobs s)\<rparr> in
          guarded (rows_affected hit (st_jobs s) = 1) ErrConflict
            (andThen (jobByID i s1) (\<lambda>job. Inr (job, s1)))))"

definition claim_one ::
  "string \<Rightarrow> string \<Rightarrow> go_time \<Rightarrow> go_time \<Rightarrow> op_store \<Rightarrow> nat \<times> op_store" where
  "claim_one i holder expires now s =
    (rows_affected (\<lambda>r. j_id r = i \<and> claimable r) (st_jobs s),
     s\<lparr>st_jobs := update_where (\<lambda>r. j_id r = i \<and> claimable r) (claim_update holder expires now) (st_jobs s)\<rparr>)"

definition ClaimJobByID ::
  "go_time \<Rightarrow> string \<Rightarrow> string \<Rightarrow> int \<Rightarrow> op_store \<Rightarrow> (store_error, job \<times> op_store) result" where
  "ClaimJobByID clock i holder ttl s =
    guarded (validateIdentifier i \<and> validateIdentifier holder \<and> 0 < ttl) ErrInvalid
     (let now = op_utc clock; expires = op_utc (time_add now ttl); (rows, s1) = claim_one i holder expires now s in
      if rows \<noteq> 1 then andThen (jobByID i s1) (\<lambda>_. Inl ErrConflict)
      else andThen (jobByID i s1) (\<lambda>job. Inr (job, s1)))"

definition renew_update :: "go_time \<Rightarrow> go_time \<Rightarrow> job_row \<Rightarrow> job_row" where
  "renew_update expires now r = r\<lparr>j_expires := Some expires, j_updated := now\<rparr>"

definition RenewJobClaim ::
  "go_time \<Rightarrow> string \<Rightarrow> int \<Rightarrow> string \<Rightarrow> int \<Rightarrow> op_store \<Rightarrow> (store_error, job \<times> op_store) result" where
  "RenewJobClaim clock i token holder ttl s =
    guarded (validateIdentifier i \<and> 0 < token \<and> validateIdentifier holder \<and> 0 < ttl) ErrInvalid
     (let now = op_utc clock; expires = op_utc (time_add now ttl);
          hit = (\<lambda>r. j_id r = i \<and> j_token r = token \<and> j_claimed_by r = holder \<and> j_state r = JobRunning);
          s1 = s\<lparr>st_jobs := update_where hit (renew_update expires now) (st_jobs s)\<rparr> in
      guarded (rows_affected hit (st_jobs s) = 1) ErrFenced
        (andThen (jobByID i s1) (\<lambda>job. Inr (job, s1))))"

section \<open>The outbox\<close>

definition new_outbox :: "outbox_input \<Rightarrow> go_time \<Rightarrow> go_time \<Rightarrow> outbox_item" where
  "new_outbox input next now = \<lparr>o_id = o_id input, o_operation = o_operation input, o_kind = o_kind input,
     o_key = o_key input, o_payload = o_payload input,
     o_state = OutboxPending, o_attempts = 0, o_next = next, o_error = [], o_created = now, o_updated = now\<rparr>"

definition outboxByKey :: "string \<Rightarrow> op_store \<Rightarrow> (store_error, outbox_item) result" where
  "outboxByKey key s =
    (case lookup_row o_key key (st_outbox s) of None \<Rightarrow> Inl ErrNotFound | Some r \<Rightarrow> Inr r)"

definition AddOutbox ::
  "op_host \<Rightarrow> go_time \<Rightarrow> outbox_input \<Rightarrow> go_time \<Rightarrow> op_store \<Rightarrow>
     (store_error, (outbox_item \<times> bool) \<times> op_store) result" where
  "AddOutbox h clock input0 next0 s =
    guarded (validateOutboxInput input0) ErrInvalid
     (case normalizeJSON h (o_payload input0) of None \<Rightarrow> Inl ErrInvalid | Some payload \<Rightarrow>
       let input = input0\<lparr>o_payload := payload\<rparr>; now = op_utc clock;
           next = (if time_is_zero next0 then now else next0) in
       andThen (insert_new o_key o_id (new_outbox input (op_utc next) now) (st_outbox s)) (\<lambda>(rows, added).
         let s1 = s\<lparr>st_outbox := rows\<rparr> in
         andThen (outboxByKey (o_key input) s1) (\<lambda>item.
           guarded (added \<or> sameOutboxInput item input) ErrConflict (Inr ((item, \<not> added), s1)))))"

definition outbox_limit :: "int \<Rightarrow> nat" where
  "outbox_limit limit = (if limit \<le> 0 \<or> limit > 1000 then 100 else nat limit)"

definition outbox_due :: "go_time \<Rightarrow> outbox_item \<Rightarrow> bool" where
  "outbox_due clock item \<longleftrightarrow> (o_state item = OutboxPending \<or> o_state item = OutboxFailed) \<and>
     format_time (o_next item) \<le> format_time (op_utc clock)"

definition DueOutbox :: "go_time \<Rightarrow> int \<Rightarrow> op_store \<Rightarrow> outbox_item list" where
  "DueOutbox clock limit s =
     take (outbox_limit limit) (order_rows o_created o_id (filter (outbox_due clock) (st_outbox s)))"

definition in_scope :: "string \<Rightarrow> op_store \<Rightarrow> outbox_item \<Rightarrow> bool" where
  "in_scope scope s item \<longleftrightarrow> list_ex (\<lambda>j. j_id j = o_operation item \<and> j_scope j = scope) (st_jobs s)"

definition DueOutboxForScope ::
  "go_time \<Rightarrow> string \<Rightarrow> int \<Rightarrow> op_store \<Rightarrow> (store_error, outbox_item list) result" where
  "DueOutboxForScope clock scope limit s =
    guarded (validateIdentifier scope) ErrInvalid
     (Inr (take (outbox_limit limit)
       (order_rows o_created o_id (filter (\<lambda>item. in_scope scope s item \<and> outbox_due clock item) (st_outbox s)))))"

definition outbox_update :: "outbox_state \<Rightarrow> go_time \<Rightarrow> string \<Rightarrow> go_time \<Rightarrow> outbox_item \<Rightarrow> outbox_item" where
  "outbox_update state retry message now item =
     item\<lparr>o_state := state, o_attempts := o_attempts item + 1, o_next := retry, o_error := message, o_updated := now\<rparr>"

definition SetOutboxState ::
  "go_time \<Rightarrow> string \<Rightarrow> outbox_state \<Rightarrow> go_time \<Rightarrow> string \<Rightarrow> op_store \<Rightarrow> (store_error, unit \<times> op_store) result" where
  "SetOutboxState clock i state retryAt0 message s =
    guarded (state = OutboxRunning \<or> state = OutboxSucceeded \<or> state = OutboxFailed) ErrInvalid
     (let now = op_utc clock; retryAt = (if time_is_zero retryAt0 then now else retryAt0) in
      guarded (rows_affected (\<lambda>item. o_id item = i) (st_outbox s) = 1) ErrNotFound
       (Inr ((), s\<lparr>st_outbox := update_where (\<lambda>item. o_id item = i)
          (outbox_update state (op_utc retryAt) message now) (st_outbox s)\<rparr>)))"

section \<open>PrepareSubmission\<close>

text \<open>The switch on the state of the job that has the key.\<close>

definition claim_for_submission ::
  "string \<Rightarrow> go_time \<Rightarrow> go_time \<Rightarrow> job \<Rightarrow> op_store \<Rightarrow> (store_error, job \<times> op_store) result" where
  "claim_for_submission holder expires now job s =
    (case j_state job of
       JobQueued \<Rightarrow>
        (let (rows, s1) = claim_one (j_id job) holder expires now s in
         guarded (rows = 1) ErrConflict (andThen (jobByID (j_id job) s1) (\<lambda>job'. Inr (job', s1))))
     | JobRunning \<Rightarrow> guarded (0 < j_token job) ErrConflict (Inr (job, s))
     | _ \<Rightarrow> Inl ErrConflict)"

definition publish_intent ::
  "op_host \<Rightarrow> go_time \<Rightarrow> job \<Rightarrow> outbox_input \<Rightarrow> op_store \<Rightarrow>
     (store_error, (outbox_item \<times> bool) \<times> op_store) result" where
  "publish_intent h now job input0 s =
    guarded (validateOutboxInput input0) ErrInvalid
     (case normalizeJSON h (o_payload input0) of None \<Rightarrow> Inl ErrInvalid | Some payload \<Rightarrow>
       let input = input0\<lparr>o_payload := payload\<rparr> in
       andThen (insert_new o_key o_id (new_outbox input now now) (st_outbox s)) (\<lambda>(rows, added).
         let s1 = s\<lparr>st_outbox := rows\<rparr> in
         andThen (outboxByKey (o_key input) s1) (\<lambda>item.
           guarded (o_operation item = j_id job \<and> o_kind item = o_kind input \<and> o_payload item = o_payload input)
             ErrConflict (Inr ((item, added), s1)))))"

definition PrepareSubmission ::
  "op_host \<Rightarrow> go_time \<Rightarrow> job_input \<Rightarrow> string \<Rightarrow> int \<Rightarrow> (job \<Rightarrow> outbox_input option) option \<Rightarrow> op_store \<Rightarrow>
     (store_error, (job \<times> outbox_item \<times> bool) \<times> op_store) result" where
  "PrepareSubmission h clock input0 holder ttl factory s =
    guarded (validateJobInput input0 \<and> validateIdentifier holder \<and> 0 < ttl \<and> factory \<noteq> None) ErrInvalid
     (case normalizeJSON h (j_payload input0) of None \<Rightarrow> Inl ErrInvalid | Some payload \<Rightarrow>
       let input = default_job_input (input0\<lparr>j_payload := payload\<rparr>);
           now = op_utc clock; expires = op_utc (time_add now ttl) in
       andThen (insert_new j_key j_id (new_job input now) (st_jobs s)) (\<lambda>(rows, added).
         let s1 = s\<lparr>st_jobs := rows\<rparr> in
         andThen (jobByKey (j_key input) s1) (\<lambda>job.
           guarded (sameJobInput job input) ErrConflict
            (andThen (claim_for_submission holder expires now job s1) (\<lambda>(job', s2).
              case the factory job' of None \<Rightarrow> Inl ErrExternal
              | Some intent \<Rightarrow>
                 andThen (publish_intent h now job' intent s2) (\<lambda>((item, fresh), s3).
                   Inr ((job', item, \<not> added \<and> \<not> fresh), s3)))))))"

section \<open>Finishing and binding\<close>

definition finish_update :: "job_state \<Rightarrow> string \<Rightarrow> string \<Rightarrow> go_time \<Rightarrow> job_row \<Rightarrow> job_row" where
  "finish_update state res message now r =
     r\<lparr>j_state := state, j_result := res, j_error := message, j_expires := None, j_updated := now\<rparr>"

definition FinishJob ::
  "op_host \<Rightarrow> go_time \<Rightarrow> string \<Rightarrow> int \<Rightarrow> job_state \<Rightarrow> string \<Rightarrow> string \<Rightarrow> op_store \<Rightarrow>
     (store_error, job \<times> op_store) result" where
  "FinishJob h clock i token state res message s =
    guarded (job_terminal state \<or> state = JobUnknown) ErrInvalid
     (case normalizeJSON h res of None \<Rightarrow> Inl ErrInvalid | Some normalized \<Rightarrow>
       let now = op_utc clock;
           hit = (\<lambda>r. j_id r = i \<and> j_token r = token \<and> j_state r = JobRunning);
           s1 = s\<lparr>st_jobs := update_where hit (finish_update state normalized message now) (st_jobs s)\<rparr> in
       if rows_affected hit (st_jobs s) \<noteq> 1 then
         (case jobByID i s1 of
            Inr existing \<Rightarrow>
              if j_token existing = token \<and> j_state existing = state \<and> j_result existing = normalized
              then Inr (existing, s1) else Inl ErrFenced
          | Inl _ \<Rightarrow> Inl ErrFenced)
       else andThen (jobByID i s1) (\<lambda>job. Inr (job, s1)))"

definition refs_update :: "int option \<Rightarrow> string \<Rightarrow> go_time \<Rightarrow> job_row \<Rightarrow> job_row" where
  "refs_update task run now r =
     r\<lparr>j_task := (if task = None then j_task r else task),
       j_mlflow := (if run = [] then j_mlflow r else run), j_updated := now\<rparr>"

definition refs_match :: "string \<Rightarrow> int \<Rightarrow> int option \<Rightarrow> string \<Rightarrow> job_row \<Rightarrow> bool" where
  "refs_match i token task run r \<longleftrightarrow>
     j_id r = i \<and> j_token r = token \<and> (task = None \<or> j_task r = None \<or> j_task r = task) \<and>
     (run = [] \<or> j_mlflow r = [] \<or> j_mlflow r = run)"

text \<open>The unique index on the task numbers, checked when a row would take a new one.\<close>

definition task_taken :: "string \<Rightarrow> int option \<Rightarrow> job_row list \<Rightarrow> bool" where
  "task_taken i task rows \<longleftrightarrow> task \<noteq> None \<and> list_ex (\<lambda>r. j_id r \<noteq> i \<and> j_task r = task) rows"

definition SetJobExternalRefs ::
  "op_host \<Rightarrow> go_time \<Rightarrow> string \<Rightarrow> int \<Rightarrow> int option \<Rightarrow> string \<Rightarrow> op_store \<Rightarrow>
     (store_error, unit \<times> op_store) result" where
  "SetJobExternalRefs h clock i token task run s =
    guarded (validateIdentifier i \<and> (case task of None \<Rightarrow> True | Some t \<Rightarrow> 0 \<le> t) \<and> validateMLflowRunID h run)
      ErrInvalid
     (let hit = refs_match i token task run in
      if rows_affected hit (st_jobs s) \<noteq> 1 then
        (case jobByID i s of
           Inr existing \<Rightarrow> if j_token existing = token then Inl ErrConflict else Inl ErrFenced
         | Inl _ \<Rightarrow> Inl ErrFenced)
      else if task_taken i task (st_jobs s) then Inl ErrConstraint
      else Inr ((), s\<lparr>st_jobs := update_where hit (refs_update task run (op_utc clock)) (st_jobs s)\<rparr>))"

section \<open>Listing\<close>

definition ListJobs :: "job_state list \<Rightarrow> op_store \<Rightarrow> (store_error, job list) result" where
  "ListJobs states s =
    guarded (list_all job_state_valid states) ErrInvalid
     (Inr (map scanJob (order_rows j_created j_id
        (filter (\<lambda>r. states = [] \<or> j_state r \<in> set states) (st_jobs s)))))"

definition ListJobSummaries :: "op_store \<Rightarrow> (store_error, job_summary list) result" where
  "ListJobSummaries s =
    guarded (list_all (\<lambda>r. job_state_valid (j_state r)) (st_jobs s)) ErrInvalid
     (Inr (map (\<lambda>r. \<lparr>js_id = j_id r, js_subject = j_subject r, js_state = j_state r, js_token = j_token r,
                     js_expires = j_expires r, js_updated = j_updated r\<rparr>)
        (order_rows j_created j_id (st_jobs s))))"

definition unreconciled :: "string \<Rightarrow> job_row \<Rightarrow> bool" where
  "unreconciled scope r \<longleftrightarrow> \<not> j_reconciled r \<and> j_scope r = scope \<and> j_kind r = ''experiment.run'' \<and>
     j_role r = ''execute'' \<and> job_terminal (j_state r)"

definition ListUnreconciledTerminalJobs ::
  "string \<Rightarrow> int \<Rightarrow> op_store \<Rightarrow> (store_error, job list) result" where
  "ListUnreconciledTerminalJobs scope limit s =
    guarded (0 < limit \<and> limit \<le> 1000 \<and> (scope = [] \<or> validateIdentifier scope)) ErrInvalid
     (Inr (map scanJob (take (nat limit) (order_rows j_updated j_id (filter (unreconciled scope) (st_jobs s))))))"

definition MarkJobReconciled ::
  "string \<Rightarrow> int \<Rightarrow> op_store \<Rightarrow> (store_error, unit \<times> op_store) result" where
  "MarkJobReconciled i token s =
    guarded (validateIdentifier i) ErrInvalid
     (let hit = (\<lambda>r. j_id r = i \<and> j_token r = token \<and> job_terminal (j_state r)) in
      guarded (rows_affected hit (st_jobs s) = 1) ErrFenced
       (Inr ((), s\<lparr>st_jobs := update_where hit (\<lambda>r. r\<lparr>j_reconciled := True\<rparr>) (st_jobs s)\<rparr>)))"

definition ListActiveAllocations :: "op_store \<Rightarrow> allocation list" where
  "ListActiveAllocations s =
     map (\<lambda>r. \<lparr>al_task = the (j_task r), al_pool = j_pool r, al_units = j_units r\<rparr>)
       (stable_sort (\<lambda>a b. the (j_task a) < the (j_task b))
         (filter (\<lambda>r. (j_state r = JobQueued \<or> j_state r = JobRunning) \<and> j_task r \<noteq> None) (st_jobs s)))"

text \<open>The store may be removed only without active jobs; opening it again starts from an empty one.\<close>

definition RemoveIfEmpty :: "op_store \<Rightarrow> (store_error, unit \<times> op_store) result" where
  "RemoveIfEmpty s =
    andThen (ListJobs [JobQueued, JobRunning] s) (\<lambda>jobs.
      guarded (jobs = []) ErrConflict (Inr ((), initial_store)))"

section \<open>Observations\<close>

definition RecordObservation ::
  "op_host \<Rightarrow> go_time \<Rightarrow> go_time \<Rightarrow> observation_input \<Rightarrow> op_store \<Rightarrow>
     (store_error, observation \<times> op_store) result" where
  "RecordObservation h clock1 clock2 input0 s =
    guarded (list_all validateIdentifier [ob_provider input0, ob_context input0, ob_subject input0]) ErrInvalid
     (case normalizeJSON h (ob_payload input0) of None \<Rightarrow> Inl ErrInvalid | Some payload \<Rightarrow>
       let seen = op_utc (ob_observed input0); observed = (if time_is_zero seen then op_utc clock1 else seen);
           expires = op_utc (ob_expires input0); created = op_utc clock2; i = st_observation_seq s + 1;
           row = \<lparr>ob_provider = ob_provider input0, ob_context = ob_context input0, ob_subject = ob_subject input0,
                  ob_observed = observed, ob_expires = expires, ob_partial = ob_partial input0,
                  ob_payload = payload, ob_id = i, ob_created = created\<rparr> in
       guarded (\<not> time_before expires observed) ErrInvalid
        (Inr (row, s\<lparr>st_observations := st_observations s @ [row], st_observation_seq := i\<rparr>)))"

section \<open>Fairness\<close>

definition Fairness :: "string \<Rightarrow> op_store \<Rightarrow> fairness" where
  "Fairness pool s =
    (case lookup_row fa_pool pool (st_fairness s) of
       None \<Rightarrow> \<lparr>fa_pool = pool, fa_exploit = f_zero, fa_explore = f_zero, fa_updated = zero_time\<rparr>
     | Some r \<Rightarrow> r)"

definition add_units :: "op_host \<Rightarrow> go_float \<Rightarrow> go_float \<Rightarrow> go_time \<Rightarrow> fairness \<Rightarrow> fairness" where
  "add_units h exploit explore now r =
     r\<lparr>fa_exploit := f_add (oh_round h) (fa_exploit r) exploit,
       fa_explore := f_add (oh_round h) (fa_explore r) explore, fa_updated := now\<rparr>"

text \<open>\<open>INSERT ... ON CONFLICT(pool) DO UPDATE\<close> of the dispatched units; SQLite stores NaN as NULL,
  which the columns refuse.\<close>

definition account_units ::
  "op_host \<Rightarrow> string \<Rightarrow> string \<Rightarrow> go_float \<Rightarrow> go_time \<Rightarrow> fairness list \<Rightarrow> fairness list" where
  "account_units h pool lane units now rows =
    (let exploit = (if lane = ''exploit'' then units else f_zero);
         explore = (if lane = ''exploit'' then f_zero else units) in
     if list_ex (\<lambda>r. fa_pool r = pool) rows
     then update_where (\<lambda>r. fa_pool r = pool) (add_units h exploit explore now) rows
     else rows @ [\<lparr>fa_pool = pool, fa_exploit = exploit, fa_explore = explore, fa_updated = now\<rparr>])"

definition RecordDispatch ::
  "op_host \<Rightarrow> go_time \<Rightarrow> string \<Rightarrow> string \<Rightarrow> go_float \<Rightarrow> op_store \<Rightarrow> (store_error, fairness \<times> op_store) result" where
  "RecordDispatch h clock pool lane units s =
    guarded ((lane = ''exploit'' \<or> lane = ''explore'') \<and> \<not> f_le units f_zero) ErrInvalid
     (guarded (units \<noteq> NaN) ErrConstraint
       (let s1 = s\<lparr>st_fairness := account_units h pool lane units (op_utc clock) (st_fairness s)\<rparr>
        in Inr (Fairness pool s1, s1)))"

definition RecordDispatchOnce ::
  "op_host \<Rightarrow> go_time \<Rightarrow> string \<Rightarrow> string \<Rightarrow> string \<Rightarrow> go_float \<Rightarrow> op_store \<Rightarrow>
     (store_error, fairness \<times> op_store) result" where
  "RecordDispatchOnce h clock i pool lane units s =
    guarded (validateIdentifier i \<and> validateIdentifier pool \<and> (lane = ''exploit'' \<or> lane = ''explore'') \<and>
        \<not> f_le units f_zero) ErrInvalid
     (let hit = (\<lambda>r. j_id r = i \<and> \<not> j_accounted r);
          s1 = s\<lparr>st_jobs := update_where hit (\<lambda>r. r\<lparr>j_accounted := True\<rparr>) (st_jobs s)\<rparr> in
      if rows_affected hit (st_jobs s) = 0 then
        (case lookup_row j_id i (st_jobs s1) of
           None \<Rightarrow> Inl ErrNotFound
         | Some r \<Rightarrow> guarded (j_accounted r) ErrConflict (Inr (Fairness pool s1, s1)))
      else guarded (units \<noteq> NaN) ErrConstraint
       (let s2 = s1\<lparr>st_fairness := account_units h pool lane units (op_utc clock) (st_fairness s1)\<rparr>
        in Inr (Fairness pool s2, s2)))"

end
