(* ===== verification/Exp_Controller.thy ===== *)
theory Exp_Controller
  imports Exp_Op_Jobs
begin

text \<open>
  One tick of the scheduling loop (\<^verbatim>\<open>internal/controller/controller.go\<close>, with the replay of a
  durable terminal marker of \<^verbatim>\<open>internal/worker/runner.go\<close>), over the operational store, the
  scheduler and the canonical records.

  The scheduler (Pueue) and the \<open>Canonical\<close> interface are fields of the \<open>controller\<close> record, acting on
  states of their own; the optional interfaces are taken as implemented, as the store and the adapter
  of the program do. The world also counts the readings of the clock and the effects left before a
  crash: an effect after the crash fails and changes nothing, so every prefix of a tick is a
  behaviour of the model. Go's \<open>int\<close> is \<open>int\<close>: the sums are bounded by the capacity of a pool. When a
  tick fails its partial \<open>TickResult\<close>, which its caller drops, is left out, and of the text of a remote
  error kept with a failed intent only the kind is.
\<close>

section \<open>Data\<close>

record pool_config =
  pc_name :: string
  pc_group :: string
  pc_prefix :: string
  pc_capacity :: int
  pc_exploit :: go_float
  pc_explore :: go_float

record selection =
  sn_id :: string
  sn_pool :: string
  sn_lane :: string
  sn_weight :: go_float
  sn_units :: int

record prepared =
  pp_job :: job_input
  pp_priority :: int
  pp_worker :: string
  pp_args :: "string list"
  pp_cwd :: string
  pp_label :: string
  pp_units :: int
  pp_env :: "string list"
  pp_quoted :: bool

record scheduler_task =
  tk_id :: int
  tk_label :: string
  tk_group :: string
  tk_state :: string

record scheduler_snapshot =
  sp_tasks :: "scheduler_task list"
  sp_jobs :: "job list"

record dispatch =
  dp_group :: string
  dp_label :: string
  dp_priority :: int
  dp_dir :: string
  dp_worker :: string
  dp_args :: "string list"
  dp_env :: "string list"
  dp_quoted :: bool

record dispatch_intent =
  di_selection :: selection
  di_prepared :: prepared
  di_dispatch :: dispatch
  di_token :: int

record tick_result =
  ti_paused :: bool
  ti_reconciled :: bool
  ti_dispatched :: "string list"
  ti_recovered :: "string list"
  ti_borrowed :: "string list"

datatype ctl_error = CtlStore store_error | CtlNoWork | CtlBlocked | CtlScheduler | CtlCanonical string | CtlIncomplete
  | CtlScope | CtlAmbiguous | CtlRouting | CtlUnknownJob | CtlNotClaimed | CtlOutbox | CtlMarker | CtlStopped | CtlFuel

text \<open>A durable terminal marker: the state, the result payload and the MLflow run it records.\<close>

record marker =
  mk_state :: job_state
  mk_result :: string
  mk_mlflow :: string

record ('c, 's) controller =
  ct_project :: string
  ct_scope :: string
  ct_markers :: bool
  ct_holder :: string
  ct_ttl :: int
  ct_clock :: "nat \<Rightarrow> go_time"
  ct_new_id :: "nat \<Rightarrow> string"
  ct_host :: op_host
  ct_encode :: "dispatch_intent \<Rightarrow> string option"
  ct_decode :: "string \<Rightarrow> dispatch_intent option"
  ct_marker :: "job \<Rightarrow> 'c \<Rightarrow> (ctl_error, marker option) result"
  ca_pools :: "'c \<Rightarrow> (ctl_error, pool_config list) result \<times> 'c"
  ca_next :: "string \<Rightarrow> string \<Rightarrow> 'c \<Rightarrow> (ctl_error, selection) result \<times> 'c"
  ca_prepare :: "selection \<Rightarrow> 'c \<Rightarrow> (ctl_error, prepared) result \<times> 'c"
  ca_submitted :: "selection \<Rightarrow> job \<Rightarrow> int \<Rightarrow> 'c \<Rightarrow> (ctl_error, unit) result \<times> 'c"
  ca_reconcile :: "scheduler_snapshot \<Rightarrow> 'c \<Rightarrow> (ctl_error, string list) result \<times> 'c"
  ca_revalidate :: "selection \<Rightarrow> job \<Rightarrow> 'c \<Rightarrow> (ctl_error, unit) result \<times> 'c"
  ca_blocked :: "selection \<Rightarrow> job \<Rightarrow> 'c \<Rightarrow> (ctl_error, unit) result \<times> 'c"
  sc_snapshot :: "'s \<Rightarrow> (ctl_error, scheduler_task list) result \<times> 's"
  sc_submit :: "dispatch \<Rightarrow> 's \<Rightarrow> int option \<times> 's"

record ('c, 's) world =
  cw_store :: op_store
  cw_canon :: 'c
  cw_sched :: 's
  cw_time :: nat
  cw_left :: nat

section \<open>Actions\<close>

type_synonym ('c, 's, 'a) ctl = "('c, 's) world \<Rightarrow> (ctl_error, 'a) result \<times> ('c, 's) world"

definition yield :: "'a \<Rightarrow> ('c, 's, 'a) ctl" where
  "yield a w = (Inr a, w)"

definition abort :: "ctl_error \<Rightarrow> ('c, 's, 'a) ctl" where
  "abort e w = (Inl e, w)"

definition bind_ctl :: "('c, 's, 'a) ctl \<Rightarrow> ('a \<Rightarrow> ('c, 's, 'b) ctl) \<Rightarrow> ('c, 's, 'b) ctl" where
  "bind_ctl m f w = (case m w of (Inl e, w') \<Rightarrow> (Inl e, w') | (Inr a, w') \<Rightarrow> f a w')"

definition require_ctl :: "bool \<Rightarrow> ctl_error \<Rightarrow> ('c, 's, 'a) ctl \<Rightarrow> ('c, 's, 'a) ctl" where
  "require_ctl ok e m = (if ok then m else abort e)"

text \<open>An error as a value, and a call whose error is ignored.\<close>

definition outcome :: "('c, 's, 'a) ctl \<Rightarrow> ('c, 's, (ctl_error, 'a) result) ctl" where
  "outcome m w = (case m w of (r, w') \<Rightarrow> (Inr r, w'))"

definition ignore :: "('c, 's, 'a) ctl \<Rightarrow> ('c, 's, unit) ctl" where
  "ignore m w = (Inr (), snd (m w))"

definition working :: "('c, 's, 'a) ctl \<Rightarrow> ('c, 's, 'a) ctl" where
  "working m w = (if cw_left w = 0 then (Inl CtlStopped, w) else m (w\<lparr>cw_left := cw_left w - 1\<rparr>))"

definition read_time :: "('c, 's) controller \<Rightarrow> ('c, 's, go_time) ctl" where
  "read_time c w = (Inr (ct_clock c (cw_time w)), w\<lparr>cw_time := Suc (cw_time w)\<rparr>)"

definition store_call :: "('c, 's) controller \<Rightarrow> (go_time \<Rightarrow> op_store \<Rightarrow> (store_error, 'a \<times> op_store) result) \<Rightarrow> ('c, 's, 'a) ctl" where
  "store_call c f = working (bind_ctl (read_time c) (\<lambda>t w.
     case f t (cw_store w) of Inl e \<Rightarrow> (Inl (CtlStore e), w) | Inr (a, s) \<Rightarrow> (Inr a, w\<lparr>cw_store := s\<rparr>)))"

definition store_query :: "('c, 's) controller \<Rightarrow> (go_time \<Rightarrow> op_store \<Rightarrow> (store_error, 'a) result) \<Rightarrow> ('c, 's, 'a) ctl" where
  "store_query c f = store_call c (\<lambda>t s. andThen (f t s) (\<lambda>a. Inr (a, s)))"

definition canonical_call :: "('c \<Rightarrow> (ctl_error, 'a) result \<times> 'c) \<Rightarrow> ('c, 's, 'a) ctl" where
  "canonical_call f = working (\<lambda>w. case f (cw_canon w) of (r, k) \<Rightarrow> (r, w\<lparr>cw_canon := k\<rparr>))"

definition set_outbox :: "('c, 's) controller \<Rightarrow> string \<Rightarrow> outbox_state \<Rightarrow> go_time \<Rightarrow> string \<Rightarrow> ('c, 's, unit) ctl" where
  "set_outbox c i state retry message = store_call c (\<lambda>t. SetOutboxState t i state retry message)"

fun each_ctl :: "('a \<Rightarrow> 'b \<Rightarrow> ('c, 's, 'b) ctl) \<Rightarrow> 'a list \<Rightarrow> 'b \<Rightarrow> ('c, 's, 'b) ctl" where
  "each_ctl f [] b = yield b"
| "each_ctl f (x # xs) b = bind_ctl (f x b) (each_ctl f xs)"

section \<open>Small functions\<close>

definition schedulerTerminal :: "string \<Rightarrow> bool" where
  "schedulerTerminal state \<longleftrightarrow> state \<in> {''succeeded'', ''failed'', ''cancelled'', ''dependency_failed''}"

definition positiveWeight :: "go_float \<Rightarrow> go_float" where
  "positiveWeight weight = (if f_le weight f_zero then Fin 1 else weight)"

definition in_pool :: "pool_config \<Rightarrow> string \<Rightarrow> string \<Rightarrow> bool" where
  "in_pool p grp label \<longleftrightarrow> grp = pc_group p \<and> (pc_prefix p = [] \<or> has_prefix label (pc_prefix p))"

definition at_least_one :: "int \<Rightarrow> int" where
  "at_least_one units = (if units \<le> 0 then 1 else units)"

definition dispatchFrom :: "prepared \<Rightarrow> pool_config \<Rightarrow> int \<Rightarrow> dispatch" where
  "dispatchFrom p pool token =
    \<lparr>dp_group = pc_group pool, dp_label = pp_label p, dp_priority = pp_priority p, dp_dir = pp_cwd p, dp_worker = pp_worker p,
     dp_args = pp_args p @ [''--fencing-token'', (if token < 0 then CHR ''-'' # itoa (nat (- token)) else itoa (nat token))],
     dp_env = pp_env p, dp_quoted = pp_quoted p\<rparr>"

text \<open>\<open>byTask\<close> keeps the last allocation of a task number.\<close>

definition task_units :: "allocation list \<Rightarrow> pool_config \<Rightarrow> scheduler_task \<Rightarrow> int" where
  "task_units allocations pool t =
    (case map_of (rev (map (\<lambda>a. (al_task a, a)) allocations)) (tk_id t) of
       None \<Rightarrow> pc_capacity pool
     | Some a \<Rightarrow> if al_pool a = pc_name pool \<and> 0 < al_units a then al_units a else pc_capacity pool)"

definition active_units :: "allocation list \<Rightarrow> scheduler_task list \<Rightarrow> pool_config \<Rightarrow> int" where
  "active_units allocations tasks pool =
    sum_list (map (task_units allocations pool) (filter (\<lambda>t. in_pool pool (tk_group t) (tk_label t) \<and> \<not> schedulerTerminal (tk_state t)) tasks))"

definition activeUnitsForPool :: "('c, 's) controller \<Rightarrow> scheduler_task list \<Rightarrow> pool_config \<Rightarrow> ('c, 's, int) ctl" where
  "activeUnitsForPool c tasks pool =
    bind_ctl (store_query c (\<lambda>_ s. Inr (ListActiveAllocations s))) (\<lambda>allocations. yield (active_units allocations tasks pool))"

definition taskByRoute :: "scheduler_task list \<Rightarrow> string \<Rightarrow> string \<Rightarrow> (ctl_error, scheduler_task option) result" where
  "taskByRoute tasks grp label =
    (case filter (\<lambda>t. tk_group t = grp \<and> tk_label t = label) tasks of
       [] \<Rightarrow> Inr None
     | [t] \<Rightarrow> Inr (Some t)
     | _ \<Rightarrow> Inl CtlAmbiguous)"

section \<open>Submission\<close>

text \<open>The lease is renewed when the submission succeeds.\<close>

definition submitAuthorized :: "('c, 's) controller \<Rightarrow> lease \<Rightarrow> dispatch \<Rightarrow> ('c, 's, int \<times> lease) ctl" where
  "submitAuthorized c l d = working (bind_ctl (read_time c) (\<lambda>t w.
     case WithDispatchLease t l (ct_ttl c) (Some (sc_submit c d)) (cw_store w) (cw_sched w) of
       (Inl e, k) \<Rightarrow> (Inl (CtlStore e), w\<lparr>cw_sched := k\<rparr>)
     | (Inr (a, s), k) \<Rightarrow> (Inr a, w\<lparr>cw_store := s, cw_sched := k\<rparr>)))"

definition blockSubmission :: "('c, 's) controller \<Rightarrow> outbox_item \<Rightarrow> selection \<Rightarrow> job \<Rightarrow> ('c, 's, unit) ctl" where
  "blockSubmission c item sn j =
    bind_ctl (store_call c (\<lambda>t. FinishJob (ct_host c) t (j_id j) (j_token j) JobUnknown
        ''{\"schema_version\":\"exp.worker-blocked/v2\",\"reason\":\"runtime_source_unavailable\"}''
        ''runtime Source unavailable before scheduler start'')) (\<lambda>blocked.
    bind_ctl (canonical_call (ca_blocked c sn blocked)) (\<lambda>_.
    set_outbox c (o_id item) OutboxSucceeded zero_time ''submission blocked before scheduler start''))"

text \<open>After the scheduler answered: bind the task, account the units, complete the intent.\<close>

definition deliver :: "('c, 's) controller \<Rightarrow> string \<Rightarrow> string \<Rightarrow> int \<Rightarrow> selection \<Rightarrow> int \<Rightarrow> ('c, 's, unit) ctl" where
  "deliver c item i token sn task =
    bind_ctl (store_call c (\<lambda>t. SetJobExternalRefs (ct_host c) t i token (Some task) [])) (\<lambda>_.
    bind_ctl (store_call c (\<lambda>t. RecordDispatchOnce (ct_host c) t i (sn_pool sn) (sn_lane sn) (positiveWeight (sn_weight sn)))) (\<lambda>_.
    set_outbox c item OutboxSucceeded zero_time []))"

section \<open>Workers that ended\<close>

text \<open>Replaying a durable marker (\<open>Runner.Run\<close> when a marker is found): a refusal by the fencing token is
  ignored, because the job has been settled by someone else.\<close>

definition unless_fenced :: "('c, 's, 'a) ctl \<Rightarrow> ('c, 's, unit) ctl" where
  "unless_fenced m = bind_ctl (outcome m) (\<lambda>r.
     case r of Inr _ \<Rightarrow> yield () | Inl e \<Rightarrow> if e = CtlStore ErrFenced then yield () else abort e)"

definition replay_marker :: "('c, 's) controller \<Rightarrow> job \<Rightarrow> marker \<Rightarrow> ('c, 's, unit) ctl" where
  "replay_marker c j m =
    require_ctl (mk_mlflow m = [] \<or> j_mlflow j = [] \<or> j_mlflow j = mk_mlflow m) CtlMarker
     (bind_ctl (if mk_mlflow m = [] then yield ()
        else unless_fenced (store_call c (\<lambda>t. SetJobExternalRefs (ct_host c) t (j_id j) (j_token j) (j_task j) (mk_mlflow m)))) (\<lambda>_.
      if j_state j = JobRunning then
        unless_fenced (store_call c (\<lambda>t. FinishJob (ct_host c) t (j_id j) (j_token j) (mk_state m) (mk_result m)
          ''recovered from durable terminal marker''))
      else yield ()))"

text \<open>Of two tasks with one number the last counts.\<close>

definition settle_running :: "('c, 's) controller \<Rightarrow> scheduler_task list \<Rightarrow> job \<Rightarrow> unit \<Rightarrow> ('c, 's, unit) ctl" where
  "settle_running c tasks j _ =
    bind_ctl (canonical_call (\<lambda>k. (ct_marker c j k, k))) (\<lambda>found.
      case found of
        Some m \<Rightarrow> replay_marker c j m
      | None \<Rightarrow>
         (case j_task j of
            None \<Rightarrow> yield ()
          | Some n \<Rightarrow>
             (case find (\<lambda>t. tk_id t = n) (rev tasks) of
                None \<Rightarrow> yield ()
              | Some t \<Rightarrow>
                 if schedulerTerminal (tk_state t) then
                   bind_ctl (store_call c (\<lambda>now. FinishJob (ct_host c) now (j_id j) (j_token j) JobUnknown
                     (''{\"scheduler_state\":\"'' @ tk_state t @ ''\"}'') ''scheduler became terminal before a durable worker marker''))
                     (\<lambda>_. yield ())
                 else yield ())))"

definition settle_workers :: "('c, 's) controller \<Rightarrow> scheduler_task list \<Rightarrow> ('c, 's, unit) ctl" where
  "settle_workers c tasks =
    (if \<not> ct_markers c then yield ()
     else bind_ctl (store_query c (\<lambda>_. ListJobs [JobRunning])) (\<lambda>running. each_ctl (settle_running c tasks) running ()))"

definition acknowledge :: "('c, 's) controller \<Rightarrow> job list \<Rightarrow> string \<Rightarrow> unit \<Rightarrow> ('c, 's, unit) ctl" where
  "acknowledge c jobs i _ =
    (case find (\<lambda>j. j_id j = i) (rev jobs) of
       None \<Rightarrow> abort CtlUnknownJob
     | Some j \<Rightarrow> store_call c (\<lambda>_. MarkJobReconciled (j_id j) (j_token j)))"

section \<open>Recovery of the outbox\<close>

record recovery =
  rv_recovered :: "string list"
  rv_tasks :: "scheduler_task list"
  rv_lease :: lease

definition failed_outbox :: "('c, 's) controller \<Rightarrow> outbox_item \<Rightarrow> go_time \<Rightarrow> string \<Rightarrow> recovery \<Rightarrow> ('c, 's, recovery) ctl" where
  "failed_outbox c item retry message st = bind_ctl (ignore (set_outbox c (o_id item) OutboxFailed retry message)) (\<lambda>_. yield st)"

definition second_ns :: int where "second_ns = 10 ^ 9"

definition minutes :: "int \<Rightarrow> go_time \<Rightarrow> go_time" where
  "minutes n t = time_add t (n * 60 * second_ns)"

definition recovered_job :: "string \<Rightarrow> recovery \<Rightarrow> recovery" where
  "recovered_job i st = st\<lparr>rv_recovered := rv_recovered st @ [i]\<rparr>"

text \<open>The end of one item: the pool has room and the intent may be submitted.\<close>

definition resubmit :: "('c, 's) controller \<Rightarrow> go_time \<Rightarrow> outbox_item \<Rightarrow> dispatch_intent \<Rightarrow> job \<Rightarrow> recovery \<Rightarrow> ('c, 's, recovery) ctl" where
  "resubmit c now item i j st =
    bind_ctl (outcome (canonical_call (ca_revalidate c (di_selection i) j))) (\<lambda>valid.
      case valid of
        Inl e \<Rightarrow>
          (if e = CtlBlocked then bind_ctl (blockSubmission c item (di_selection i) j) (\<lambda>_. yield (recovered_job (j_id j) st))
           else failed_outbox c item (minutes 1 now) ''revalidation'' st)
      | Inr _ \<Rightarrow>
          bind_ctl (outcome (submitAuthorized c (rv_lease st) (di_dispatch i))) (\<lambda>answer.
            case answer of
              Inl e \<Rightarrow>
                (if e = CtlStore ErrPaused \<or> e = CtlStore ErrFenced then abort e
                 else failed_outbox c item (minutes 1 now) ''submission'' st)
            | Inr (task, renewed) \<Rightarrow>
                bind_ctl (deliver c (o_id item) (j_id j) (di_token i) (di_selection i) task) (\<lambda>_.
                bind_ctl (canonical_call (ca_submitted c (di_selection i) j task)) (\<lambda>_.
                yield (recovered_job (j_id j)
                  (st\<lparr>rv_tasks := rv_tasks st @ [\<lparr>tk_id = task, tk_label = dp_label (di_dispatch i),
                      tk_group = dp_group (di_dispatch i), tk_state = ''queued''\<rparr>], rv_lease := renewed\<rparr>))))))"

definition recover_unsubmitted :: "('c, 's) controller \<Rightarrow> go_time \<Rightarrow> pool_config list \<Rightarrow> outbox_item \<Rightarrow> dispatch_intent \<Rightarrow> job \<Rightarrow>
    recovery \<Rightarrow> ('c, 's, recovery) ctl" where
  "recover_unsubmitted c now pools item i j st =
    (case find (\<lambda>p. pc_name p = sn_pool (di_selection i)) (rev pools) of
       None \<Rightarrow> failed_outbox c item (minutes 10 now) ''canonical pool is unavailable'' st
     | Some pool \<Rightarrow>
        if pc_capacity pool \<le> 0 then failed_outbox c item (minutes 10 now) ''canonical pool is unavailable'' st
        else
          require_ctl (in_pool pool (dp_group (di_dispatch i)) (dp_label (di_dispatch i))) CtlRouting
           (bind_ctl (activeUnitsForPool c (rv_tasks st) pool) (\<lambda>used.
              let units = at_least_one (if 0 < j_units j then j_units j else pp_units (di_prepared i)) in
              if pc_capacity pool - used < units then failed_outbox c item (minutes 1 now) ''insufficient pool capacity'' st
              else resubmit c now item i j st)))"

definition recover_item :: "('c, 's) controller \<Rightarrow> go_time \<Rightarrow> pool_config list \<Rightarrow> bool \<Rightarrow> outbox_item \<Rightarrow> recovery \<Rightarrow> ('c, 's, recovery) ctl" where
  "recover_item c now pools allowSubmit item st =
    (case ct_decode c (o_payload item) of
       None \<Rightarrow> failed_outbox c item (minutes 60 now) ''invalid dispatch intent'' st
     | Some i \<Rightarrow>
        bind_ctl (store_query c (\<lambda>_. GetJob (j_id (pp_job (di_prepared i))))) (\<lambda>j.
        require_ctl (j_scope j = ct_scope c \<and> j_scope (pp_job (di_prepared i)) = ct_scope c) CtlScope
         (if j_state j = JobUnknown then
            bind_ctl (canonical_call (ca_blocked c (di_selection i) j)) (\<lambda>_.
            bind_ctl (set_outbox c (o_id item) OutboxSucceeded zero_time ''submission blocked before scheduler start'') (\<lambda>_.
            yield (recovered_job (j_id j) st)))
          else case taskByRoute (rv_tasks st) (dp_group (di_dispatch i)) (dp_label (di_dispatch i)) of
            Inl e \<Rightarrow> abort e
          | Inr (Some t) \<Rightarrow>
              bind_ctl (deliver c (o_id item) (j_id j) (di_token i) (di_selection i) (tk_id t)) (\<lambda>_. yield (recovered_job (j_id j) st))
          | Inr None \<Rightarrow> if \<not> allowSubmit then yield st else recover_unsubmitted c now pools item i j st)))"

text \<open>At most 100 pages of 100 items; without permission to submit, one page.\<close>

fun recover_pages :: "('c, 's) controller \<Rightarrow> nat \<Rightarrow> go_time \<Rightarrow> pool_config list \<Rightarrow> bool \<Rightarrow> recovery \<Rightarrow> ('c, 's, recovery) ctl" where
  "recover_pages c 0 now pools allowSubmit st = yield st"
| "recover_pages c (Suc n) now pools allowSubmit st =
    bind_ctl (store_query c (\<lambda>t. DueOutboxForScope t (ct_scope c) 100)) (\<lambda>items.
      if items = [] then yield st
      else bind_ctl (each_ctl (recover_item c now pools allowSubmit) items st) (\<lambda>st'.
        if \<not> allowSubmit then yield st' else recover_pages c n now pools allowSubmit st'))"

definition recoverOutbox :: "('c, 's) controller \<Rightarrow> scheduler_task list \<Rightarrow> go_time \<Rightarrow> pool_config list \<Rightarrow> bool \<Rightarrow> lease \<Rightarrow>
    ('c, 's, recovery) ctl" where
  "recoverOutbox c tasks now pools allowSubmit l =
    recover_pages c 100 now pools allowSubmit \<lparr>rv_recovered = [], rv_tasks = tasks, rv_lease = l\<rparr>"

section \<open>New work\<close>

datatype round = Submitted int | NextPool | Pausing

record progress =
  pg_result :: tick_result
  pg_lease :: lease

text \<open>The lane that runs: the chosen one, or the other one when only that fits.\<close>

definition pick :: "pool_config \<Rightarrow> int \<Rightarrow> string \<Rightarrow> (ctl_error, selection) result \<Rightarrow> (ctl_error, selection) result \<Rightarrow> selection option" where
  "pick pool free lane exploit explore =
    (let first = (if lane = ''explore'' then explore else exploit); other = (if lane = ''explore'' then exploit else explore);
         tagged = (\<lambda>l r. case r of Inl _ \<Rightarrow> None | Inr s \<Rightarrow> Some (s\<lparr>sn_pool := pc_name pool, sn_lane := l\<rparr>));
         other_lane = (if lane = ''exploit'' then ''explore'' else ''exploit'');
         fits = (\<lambda>r. case r of Inl _ \<Rightarrow> False | Inr s \<Rightarrow> at_least_one (sn_units s) \<le> free) in
     if fits first then tagged lane first
     else if fits other then tagged other_lane other
     else None)"

definition outbox_intent :: "('c, 's) controller \<Rightarrow> pool_config \<Rightarrow> selection \<Rightarrow> prepared \<Rightarrow> string \<Rightarrow> job \<Rightarrow> outbox_input option" where
  "outbox_intent c pool sn p i j =
    map_option (\<lambda>payload. \<lparr>o_id = i, o_operation = j_id j, o_kind = ''scheduler.submit'', o_key = ''scheduler.submit:'' @ j_id j,
        o_payload = payload\<rparr>)
      (ct_encode c \<lparr>di_selection = sn, di_prepared = p, di_dispatch = dispatchFrom p pool (j_token j), di_token = j_token j\<rparr>)"

text \<open>The submission of a new intent.\<close>

definition submit_new :: "('c, 's) controller \<Rightarrow> pool_config \<Rightarrow> selection \<Rightarrow> prepared \<Rightarrow> job \<Rightarrow> outbox_item \<Rightarrow> progress \<Rightarrow>
    ('c, 's, round \<times> progress) ctl" where
  "submit_new c pool sn p j item g =
    bind_ctl (outcome (canonical_call (ca_revalidate c sn j))) (\<lambda>valid.
      case valid of
        Inl e \<Rightarrow>
          (if e = CtlBlocked then
             bind_ctl (read_time c) (\<lambda>_. bind_ctl (blockSubmission c item sn j) (\<lambda>_.
             yield (NextPool, g\<lparr>pg_result := (pg_result g)\<lparr>ti_recovered := ti_recovered (pg_result g) @ [j_id j]\<rparr>\<rparr>)))
           else bind_ctl (read_time c) (\<lambda>now. bind_ctl (ignore (set_outbox c (o_id item) OutboxFailed (minutes 1 now) ''revalidation'')) (\<lambda>_. abort e)))
      | Inr _ \<Rightarrow>
          bind_ctl (outcome (submitAuthorized c (pg_lease g) (dispatchFrom p pool (j_token j)))) (\<lambda>answer.
            case answer of
              Inl e \<Rightarrow>
                (if e = CtlStore ErrPaused then yield (Pausing, g)
                 else bind_ctl (read_time c) (\<lambda>now. bind_ctl (ignore (set_outbox c (o_id item) OutboxFailed (minutes 1 now) ''submission'')) (\<lambda>_. abort e)))
            | Inr (task, renewed) \<Rightarrow>
                bind_ctl (deliver c (o_id item) (j_id j) (j_token j) sn task) (\<lambda>_.
                bind_ctl (canonical_call (ca_submitted c sn j task)) (\<lambda>_.
                yield (Submitted (at_least_one (sn_units sn)),
                  g\<lparr>pg_result := (pg_result g)\<lparr>ti_dispatched := ti_dispatched (pg_result g) @ [sn_id sn]\<rparr>, pg_lease := renewed\<rparr>)))))"

text \<open>A selection is prepared; an intent that is not new is left to the recovery.\<close>

definition dispatch_prepared :: "('c, 's) controller \<Rightarrow> pool_config \<Rightarrow> selection \<Rightarrow> prepared \<Rightarrow> progress \<Rightarrow> job \<Rightarrow> outbox_item \<Rightarrow> bool \<Rightarrow>
    ('c, 's, round \<times> progress) ctl" where
  "dispatch_prepared c pool sn p g j item duplicate =
    require_ctl (j_state j = JobRunning \<and> j_id j = j_id (pp_job p)) CtlNotClaimed
     (if duplicate then
        (case j_task j of
           None \<Rightarrow> yield (NextPool, g)
         | Some task \<Rightarrow>
             bind_ctl (canonical_call (ca_submitted c sn j task)) (\<lambda>_.
             yield (NextPool, g\<lparr>pg_result := (pg_result g)\<lparr>ti_recovered := ti_recovered (pg_result g) @ [j_id j]\<rparr>\<rparr>)))
      else require_ctl (o_state item = OutboxPending) CtlOutbox (submit_new c pool sn p j item g))"

definition new_id :: "('c, 's) controller \<Rightarrow> ('c, 's, string) ctl" where
  "new_id c w = (Inr (ct_new_id c (cw_time w)), w\<lparr>cw_time := Suc (cw_time w)\<rparr>)"

definition dispatch_selection :: "('c, 's) controller \<Rightarrow> pool_config \<Rightarrow> selection \<Rightarrow> progress \<Rightarrow> ('c, 's, round \<times> progress) ctl" where
  "dispatch_selection c pool sn g =
    bind_ctl (canonical_call (ca_prepare c sn)) (\<lambda>p.
    bind_ctl (new_id c) (\<lambda>i.
    bind_ctl (store_call c (\<lambda>t. PrepareSubmission (ct_host c) t (pp_job p) (ct_holder c) (ct_ttl c) (Some (outbox_intent c pool sn p i))))
      (\<lambda>(j, item, duplicate). dispatch_prepared c pool sn p g j item duplicate)))"

definition renew_if_old :: "('c, 's) controller \<Rightarrow> lease \<Rightarrow> ('c, 's, lease) ctl" where
  "renew_if_old c l =
    bind_ctl (read_time c) (\<lambda>now.
      if t_instant (le_expires l) - t_instant now < ct_ttl c div 2 then store_call c (\<lambda>t. RenewLease t l (ct_ttl c)) else yield l)"

definition next_selection :: "('c, 's) controller \<Rightarrow> pool_config \<Rightarrow> string \<Rightarrow> ('c, 's, (ctl_error, selection) result) ctl" where
  "next_selection c pool lane = outcome (canonical_call (ca_next c (pc_name pool) lane))"

definition is_ready :: "('e, 'a) result \<Rightarrow> bool" where
  "is_ready r \<longleftrightarrow> (case r of Inl _ \<Rightarrow> False | Inr _ \<Rightarrow> True)"

definition hard_error :: "(ctl_error, 'a) result \<Rightarrow> ctl_error option" where
  "hard_error r = (case r of Inl e \<Rightarrow> if e = CtlNoWork then None else Some e | Inr _ \<Rightarrow> None)"

definition dispatch_round :: "('c, 's) controller \<Rightarrow> pool_config \<Rightarrow> int \<Rightarrow> progress \<Rightarrow> ('c, 's, round \<times> progress) ctl" where
  "dispatch_round c pool used g0 =
    bind_ctl (renew_if_old c (pg_lease g0)) (\<lambda>l. let g = g0\<lparr>pg_lease := l\<rparr> in
    bind_ctl (store_query c (\<lambda>_ s. Inr (RuntimeState s))) (\<lambda>state.
    if rs_paused state then yield (Pausing, g)
    else
      bind_ctl (store_query c (\<lambda>_ s. Inr (Fairness (pc_name pool) s))) (\<lambda>fair.
      bind_ctl (next_selection c pool ''exploit'') (\<lambda>exploit.
      bind_ctl (next_selection c pool ''explore'') (\<lambda>explore.
      case hard_error exploit of Some e \<Rightarrow> abort e | None \<Rightarrow>
      case hard_error explore of Some e \<Rightarrow> abort e | None \<Rightarrow>
      case ChooseLane (oh_round (ct_host c)) fair (is_ready exploit) (is_ready explore) (pc_exploit pool) (pc_explore pool) of
        None \<Rightarrow> yield (NextPool, g)
      | Some lane \<Rightarrow>
         (case pick pool (pc_capacity pool - used) lane exploit explore of
            None \<Rightarrow> yield (NextPool, g)
          | Some sn \<Rightarrow> dispatch_selection c pool sn g))))))"

text \<open>Each round that submits uses at least one unit, so the free capacity is enough fuel.\<close>

fun dispatch_loop :: "('c, 's) controller \<Rightarrow> pool_config \<Rightarrow> nat \<Rightarrow> int \<Rightarrow> progress \<Rightarrow> ('c, 's, bool \<times> int \<times> progress) ctl" where
  "dispatch_loop c pool n used g =
    (if pc_capacity pool \<le> used then yield (False, used, g)
     else case n of
       0 \<Rightarrow> abort CtlFuel
     | Suc m \<Rightarrow>
        bind_ctl (dispatch_round c pool used g) (\<lambda>(r, g').
          case r of
            Submitted units \<Rightarrow> dispatch_loop c pool m (used + units) g'
          | NextPool \<Rightarrow> yield (False, used, g')
          | Pausing \<Rightarrow> yield (True, used, g')))"

declare dispatch_loop.simps [simp del]

definition dispatch_pool :: "('c, 's) controller \<Rightarrow> scheduler_task list \<Rightarrow> pool_config \<Rightarrow> bool \<times> progress \<Rightarrow> ('c, 's, bool \<times> progress) ctl" where
  "dispatch_pool c tasks pool st =
    (if fst st \<or> pc_capacity pool \<le> 0 then yield st
     else bind_ctl (activeUnitsForPool c tasks pool) (\<lambda>used.
       bind_ctl (dispatch_loop c pool (nat (pc_capacity pool - used)) used (snd st)) (\<lambda>(paused, _, g). yield (paused, g))))"

section \<open>The tick\<close>

definition paused_result :: "bool \<Rightarrow> tick_result \<Rightarrow> tick_result" where
  "paused_result p r = (if p then r\<lparr>ti_paused := True\<rparr> else r)"

definition settle_terminal :: "('c, 's) controller \<Rightarrow> scheduler_task list \<Rightarrow> ('c, 's, unit) ctl" where
  "settle_terminal c tasks =
    bind_ctl (store_query c (\<lambda>_. ListUnreconciledTerminalJobs (ct_scope c) 100)) (\<lambda>jobs.
    bind_ctl (canonical_call (ca_reconcile c \<lparr>sp_tasks = tasks, sp_jobs = jobs\<rparr>)) (\<lambda>acknowledged.
    each_ctl (acknowledge c jobs) acknowledged ()))"

definition start_result :: tick_result where
  "start_result = \<lparr>ti_paused = False, ti_reconciled = True, ti_dispatched = [], ti_recovered = [], ti_borrowed = []\<rparr>"

definition admit :: "('c, 's) controller \<Rightarrow> scheduler_task list \<Rightarrow> lease \<Rightarrow> ('c, 's, tick_result) ctl" where
  "admit c tasks l =
    bind_ctl (store_query c (\<lambda>_ s. Inr (RuntimeState s))) (\<lambda>state.
    bind_ctl (if rs_paused state then yield [] else canonical_call (ca_pools c)) (\<lambda>pools.
    bind_ctl (read_time c) (\<lambda>now.
    bind_ctl (outcome (recoverOutbox c tasks now pools (\<not> rs_paused state) l)) (\<lambda>recovered.
      case recovered of
        Inl e \<Rightarrow> if e = CtlStore ErrPaused then yield (paused_result True start_result) else abort e
      | Inr st \<Rightarrow>
         (let r = start_result\<lparr>ti_recovered := rv_recovered st\<rparr> in
          if rs_paused state then yield (paused_result True r)
          else bind_ctl (each_ctl (dispatch_pool c (rv_tasks st)) pools (False, \<lparr>pg_result = r, pg_lease = rv_lease st\<rparr>)) (\<lambda>(paused, g).
            yield (paused_result paused (pg_result g))))))))"

definition scheduler_tasks :: "('c, 's) controller \<Rightarrow> ('c, 's, scheduler_task list) ctl" where
  "scheduler_tasks c = working (\<lambda>w. case sc_snapshot c (cw_sched w) of (r, k) \<Rightarrow> (r, w\<lparr>cw_sched := k\<rparr>))"

definition tick_body :: "('c, 's) controller \<Rightarrow> lease \<Rightarrow> ('c, 's, tick_result) ctl" where
  "tick_body c l =
    bind_ctl (scheduler_tasks c) (\<lambda>tasks.
    bind_ctl (settle_workers c tasks) (\<lambda>_.
    bind_ctl (settle_terminal c tasks) (\<lambda>_.
    admit c tasks l)))"

text \<open>The lease acquired at the start is released at the end, whatever happened.\<close>

definition Tick :: "('c, 's) controller \<Rightarrow> ('c, 's, tick_result) ctl" where
  "Tick c =
    require_ctl (ct_project c \<noteq> [] \<and> ct_scope c \<noteq> [] \<and> ct_holder c \<noteq> []) CtlIncomplete
     (bind_ctl (store_call c (\<lambda>t. AcquireLease (ct_host c) t (''daemon:'' @ ct_project c) (ct_holder c) (ct_ttl c))) (\<lambda>l.
      bind_ctl (outcome (tick_body c l)) (\<lambda>r.
      bind_ctl (ignore (store_call c (\<lambda>_. ReleaseLease l))) (\<lambda>_.
      case r of Inl e \<Rightarrow> abort e | Inr a \<Rightarrow> yield a))))"

text \<open>\<open>Run\<close> repeats the tick until its context ends, here after \<open>n\<close> ticks; another leader is not an error.\<close>

fun Run :: "('c, 's) controller \<Rightarrow> nat \<Rightarrow> ('c, 's, unit) ctl" where
  "Run c 0 = yield ()"
| "Run c (Suc n) = bind_ctl (outcome (Tick c)) (\<lambda>r.
     case r of Inl e \<Rightarrow> if e = CtlStore ErrLeaseHeld then Run c n else abort e | Inr _ \<Rightarrow> Run c n)"

end
