(* ===== verification/Exp_Op_Jobs_Lemmas.thy ===== *)
theory Exp_Op_Jobs_Lemmas
  imports Exp_Op_Jobs
begin

text \<open>
  What every row of the job table satisfies and how it may change: the well-formedness of a row,
  the order of its life, and a locale for the updates of the store, whose laws give the table
  invariant and the order for the whole table. Each UPDATE of \<^verbatim>\<open>store_sqlite.go\<close> on jobs is an
  interpretation.
\<close>

section \<open>A well-formed job and its life\<close>

definition job_finished :: "job_state \<Rightarrow> bool" where
  "job_finished st \<longleftrightarrow> job_terminal st \<or> st = JobUnknown"

definition job_ok :: "job_row \<Rightarrow> bool" where
  "job_ok r \<longleftrightarrow>
     (j_state r = JobQueued \<or> j_state r = JobRunning \<or> job_finished (j_state r)) \<and>
     (j_state r = JobQueued \<longrightarrow> j_token r = 0 \<and> j_attempts r = 0 \<and> j_claimed_by r = []) \<and>
     (j_state r \<noteq> JobQueued \<longrightarrow> j_token r = 1 \<and> j_attempts r = 1 \<and> j_claimed_by r \<noteq> []) \<and>
     (j_state r = JobRunning \<longleftrightarrow> j_expires r \<noteq> None) \<and>
     (\<not> job_finished (j_state r) \<longrightarrow> j_result r = ''{}'' \<and> j_error r = []) \<and>
     (j_reconciled r \<longrightarrow> job_terminal (j_state r)) \<and>
     1 \<le> j_max_attempts r \<and> j_max_attempts r \<le> 100 \<and> 1 \<le> j_units r \<and> j_units r \<le> 1000000 \<and>
     (j_lane r = ''exploit'' \<or> j_lane r = ''explore'') \<and>
     (\<forall>t. j_task r = Some t \<longrightarrow> 0 \<le> t)"

definition state_rank :: "job_state \<Rightarrow> nat" where
  "state_rank st = (if st = JobQueued then 0 else if st = JobRunning then 1 else 2)"

text \<open>\<open>job_le r r'\<close>: the row \<open>r'\<close> is a later stage of the same job.\<close>

definition job_le :: "job_row \<Rightarrow> job_row \<Rightarrow> bool" where
  "job_le r r' \<longleftrightarrow>
     sameJobInput r r' \<and> j_created r' = j_created r \<and> state_rank (j_state r) \<le> state_rank (j_state r') \<and>
     j_token r \<le> j_token r' \<and>
     (j_state r \<noteq> JobQueued \<longrightarrow> j_claimed_by r' = j_claimed_by r \<and> j_token r' = j_token r) \<and>
     (job_finished (j_state r) \<longrightarrow>
        j_state r' = j_state r \<and> j_result r' = j_result r \<and> j_error r' = j_error r) \<and>
     (j_task r \<noteq> None \<longrightarrow> j_task r' = j_task r) \<and> (j_mlflow r \<noteq> [] \<longrightarrow> j_mlflow r' = j_mlflow r) \<and>
     (j_accounted r \<longrightarrow> j_accounted r') \<and> (j_reconciled r \<longrightarrow> j_reconciled r')"

lemma job_finished_simps [simp]:
  "\<not> job_finished JobQueued" "\<not> job_finished JobRunning" "job_finished JobUnknown"
  "job_finished JobSucceeded" "job_finished JobFailed" "job_finished JobCancelled"
  by (simp_all add: job_finished_def job_terminal_def)

lemma job_terminal_simps [simp]:
  "\<not> job_terminal JobQueued" "\<not> job_terminal JobRunning" "\<not> job_terminal JobUnknown"
  by (simp_all add: job_terminal_def)

lemma terminal_finished: "job_terminal st \<Longrightarrow> job_finished st"
  by (simp add: job_finished_def)

lemma finished_neq: "job_finished st \<Longrightarrow> st \<noteq> JobQueued \<and> st \<noteq> JobRunning"
  by (auto simp: job_finished_def job_terminal_def)

lemma job_le_refl [simp]: "job_le r r"
  by (simp add: job_le_def sameJobInput_def)

lemma job_le_trans: "job_ok r' \<Longrightarrow> job_le r r' \<Longrightarrow> job_le r' r'' \<Longrightarrow> job_le r r''"
  unfolding job_le_def sameJobInput_def state_rank_def by (auto split: if_splits)

lemma job_le_id: "job_le r r' \<Longrightarrow> j_id r' = j_id r" "job_le r r' \<Longrightarrow> j_key r' = j_key r"
  by (simp_all add: job_le_def sameJobInput_def)

definition tasks_distinct :: "job_row list \<Rightarrow> bool" where
  "tasks_distinct rows \<longleftrightarrow> (\<forall>r \<in> set rows. \<forall>r' \<in> set rows. j_task r \<noteq> None \<longrightarrow> j_task r = j_task r' \<longrightarrow> j_id r = j_id r')"

definition jobs_ok :: "job_row list \<Rightarrow> bool" where
  "jobs_ok rows \<longleftrightarrow>
     distinct (map j_id rows) \<and> distinct (map j_key rows) \<and> tasks_distinct rows \<and> (\<forall>r \<in> set rows. job_ok r)"

definition jobs_le :: "job_row list \<Rightarrow> job_row list \<Rightarrow> bool" where
  "jobs_le rows rows' \<longleftrightarrow> (\<forall>r \<in> set rows. \<exists>r' \<in> set rows'. job_le r r')"

lemma jobs_ok_row: "jobs_ok rows \<Longrightarrow> r \<in> set rows \<Longrightarrow> job_ok r"
  by (simp add: jobs_ok_def)

lemma jobs_le_refl [simp]: "jobs_le rows rows"
  unfolding jobs_le_def by (meson job_le_refl)

lemma jobs_le_trans: "jobs_ok rows' \<Longrightarrow> jobs_le rows rows' \<Longrightarrow> jobs_le rows' rows'' \<Longrightarrow> jobs_le rows rows''"
  unfolding jobs_le_def
  by (erule (1) every_some_trans) (rule job_le_trans [OF jobs_ok_row])

lemma jobs_le_append: "jobs_le rows (rows @ extra)"
  by (auto simp: jobs_le_def intro: job_le_refl)

lemma jobs_same_id: "jobs_ok rows \<Longrightarrow> r \<in> set rows \<Longrightarrow> r' \<in> set rows \<Longrightarrow> j_id r = j_id r' \<Longrightarrow> r = r'"
  by (auto simp: jobs_ok_def distinct_map inj_on_def)

lemma jobs_lookup_id: "jobs_ok rows \<Longrightarrow> lookup_row j_id i rows = Some r \<longleftrightarrow> r \<in> set rows \<and> j_id r = i"
  by (intro lookup_row_iff) (simp add: jobs_ok_def)

lemma jobs_lookup_key: "jobs_ok rows \<Longrightarrow> lookup_row j_key k rows = Some r \<longleftrightarrow> r \<in> set rows \<and> j_key r = k"
  by (intro lookup_row_iff) (simp add: jobs_ok_def)

section \<open>Updates of the job table\<close>

locale job_update =
  fixes hit :: "job_row \<Rightarrow> bool" and upd :: "job_row \<Rightarrow> job_row"
  assumes stays_ok: "hit r \<Longrightarrow> job_ok r \<Longrightarrow> job_ok (upd r)"
    and advances: "hit r \<Longrightarrow> job_ok r \<Longrightarrow> job_le r (upd r)"
    and keeps_id: "j_id (upd r) = j_id r"
    and keeps_key: "j_key (upd r) = j_key r"
begin

sublocale col_id: keeps_column j_id upd
  by unfold_locales (rule keeps_id)

sublocale col_key: keeps_column j_key upd
  by unfold_locales (rule keeps_key)

lemma rows_ok: "Ball (set rows) job_ok \<Longrightarrow> Ball (set (update_where hit upd rows)) job_ok"
  by (auto simp: set_update_where stays_ok)

lemma table_advances: "jobs_ok rows \<Longrightarrow> jobs_le rows (update_where hit upd rows)"
  unfolding jobs_le_def by (rule update_where_related) (simp_all add: advances jobs_ok_def)

lemma table_ok:
  "jobs_ok rows \<Longrightarrow> tasks_distinct (update_where hit upd rows) \<Longrightarrow> jobs_ok (update_where hit upd rows)"
  unfolding jobs_ok_def by (intro conjI col_id.still_distinct col_key.still_distinct rows_ok) simp_all

end

text \<open>Most updates leave the task number alone.\<close>

locale job_update_same_task = job_update +
  assumes keeps_task: "j_task (upd r) = j_task r"
begin

lemma tasks_stay: "tasks_distinct rows \<Longrightarrow> tasks_distinct (update_where hit upd rows)"
proof -
  have same: "j_task (if hit r then upd r else r) = j_task r" "j_id (if hit r then upd r else r) = j_id r" for r
    by (simp_all add: keeps_task keeps_id)
  assume "tasks_distinct rows"
  then show ?thesis unfolding tasks_distinct_def update_where_def set_map by (simp only: ball_simps same)
qed

lemma table_stays_ok: "jobs_ok rows \<Longrightarrow> jobs_ok (update_where hit upd rows)"
  by (rule table_ok) (auto simp: jobs_ok_def tasks_stay)

end

lemmas job_le_defs = job_le_def sameJobInput_def state_rank_def

interpretation claim: job_update_same_task "\<lambda>r. p r \<and> j_state r = JobQueued \<and> holder \<noteq> []" "claim_update holder expires now"
  for p holder expires now
  by unfold_locales (auto simp: claim_update_def job_ok_def job_le_defs)

interpretation renew: job_update_same_task "\<lambda>r. p r \<and> j_state r = JobRunning" "renew_update expires now"
  for p expires now
  by unfold_locales (auto simp: renew_update_def job_ok_def job_le_defs)

interpretation finish: job_update_same_task "\<lambda>r. p r \<and> j_state r = JobRunning \<and> job_finished state" "finish_update state res message now"
  for p state res message now
  by unfold_locales (use finished_neq [of state] in \<open>auto simp: finish_update_def job_ok_def job_le_defs\<close>)

interpretation bind: job_update "\<lambda>r. refs_match i token task run r \<and> (\<forall>t. task = Some t \<longrightarrow> 0 \<le> t)" "refs_update task run now"
  for i token task run now
  by unfold_locales (auto simp: refs_update_def refs_match_def job_ok_def job_le_defs)

interpretation reconcile: job_update_same_task "\<lambda>r. p r \<and> job_terminal (j_state r)" "\<lambda>r. r\<lparr>j_reconciled := True\<rparr>"
  for p
  by unfold_locales (auto simp: job_ok_def job_le_defs)

interpretation account: job_update_same_task p "\<lambda>r. r\<lparr>j_accounted := True\<rparr>"
  for p
  by unfold_locales (auto simp: job_ok_def job_le_defs)

end
