(* ===== verification/Exp_Op_Invariant.thy ===== *)
theory Exp_Op_Invariant
  imports Exp_Op_Jobs_Lemmas
begin

text \<open>
  The invariant of the operational database and the order in which it may evolve, as the contract
  every operation of \<^verbatim>\<open>store_sqlite.go\<close> is shown to keep: one locale, one interpretation per
  operation. The step relation and the reachable databases are built on it.
\<close>

section \<open>The invariant\<close>

fun chain_from :: "string \<Rightarrow> event list \<Rightarrow> bool" where
  "chain_from prev [] = True"
| "chain_from prev (e # es) = (ev_previous e = prev \<and> chain_from (ev_hash e) es)"

definition event_ok :: "op_host \<Rightarrow> event \<Rightarrow> bool" where
  "event_ok h e \<longleftrightarrow>
     ev_id e = event_identifier h (ev_previous e) (ev_created e) (ev_type e) (ev_aggregate_id e) (ev_payload e) \<and>
     ev_hash e = ''sha256:'' @ hex_encode (oh_sha256 h (framed (event_parts (ev_previous e) (ev_id e) (ev_type e)
       (ev_aggregate_type e) (ev_aggregate_id e) (ev_created e) (ev_payload e))))"

definition events_ok :: "op_host \<Rightarrow> event list \<Rightarrow> bool" where
  "events_ok h es \<longleftrightarrow> chain_from [] es \<and> distinct (map ev_id es) \<and> distinct (map ev_hash es) \<and>
     (\<forall>e \<in> set es. event_ok h e)"

definition operations_ok :: "operation list \<Rightarrow> bool" where
  "operations_ok rows \<longleftrightarrow> distinct (map op_id rows) \<and> distinct (map op_key rows) \<and>
     (\<forall>r \<in> set rows. operation_state_valid (op_state r))"

definition leases_ok :: "lease list \<Rightarrow> bool" where
  "leases_ok rows \<longleftrightarrow> distinct (map le_subject rows) \<and> (\<forall>r \<in> set rows. 1 \<le> le_token r \<and> le_holder r \<noteq> [])"

definition outbox_ok :: "outbox_item list \<Rightarrow> bool" where
  "outbox_ok rows \<longleftrightarrow> distinct (map o_id rows) \<and> distinct (map o_key rows) \<and>
     (\<forall>r \<in> set rows. 0 \<le> o_attempts r \<and> (o_state r = OutboxPending \<longleftrightarrow> o_attempts r = 0))"

definition fairness_ok :: "fairness list \<Rightarrow> bool" where
  "fairness_ok rows \<longleftrightarrow> distinct (map fa_pool rows)"

definition observations_ok :: "int \<Rightarrow> observation list \<Rightarrow> bool" where
  "observations_ok n rows \<longleftrightarrow> n = int (length rows) \<and>
     (\<forall>k < length rows. ob_id (rows ! k) = int k + 1) \<and>
     (\<forall>r \<in> set rows. \<not> time_before (ob_expires r) (ob_observed r))"

definition store_ok :: "op_host \<Rightarrow> op_store \<Rightarrow> bool" where
  "store_ok h s \<longleftrightarrow> events_ok h (st_events s) \<and> operations_ok (st_operations s) \<and> leases_ok (st_leases s) \<and>
     jobs_ok (st_jobs s) \<and> outbox_ok (st_outbox s) \<and> fairness_ok (st_fairness s) \<and>
     observations_ok (st_observation_seq s) (st_observations s)"

text \<open>The order of evolution: nothing recorded is lost, jobs only advance, events are appended.\<close>

definition operations_le :: "operation list \<Rightarrow> operation list \<Rightarrow> bool" where
  "operations_le rows rows' \<longleftrightarrow> (\<forall>r \<in> set rows. \<exists>r' \<in> set rows'. sameOperationInput r r' \<and> op_created r' = op_created r)"

definition outbox_le :: "outbox_item list \<Rightarrow> outbox_item list \<Rightarrow> bool" where
  "outbox_le rows rows' \<longleftrightarrow>
     (\<forall>r \<in> set rows. \<exists>r' \<in> set rows'. sameOutboxInput r r' \<and> o_created r' = o_created r \<and> o_attempts r \<le> o_attempts r')"

definition grows :: "'a list \<Rightarrow> 'a list \<Rightarrow> bool" where
  "grows xs ys \<longleftrightarrow> (\<exists>zs. ys = xs @ zs)"

definition store_le :: "op_store \<Rightarrow> op_store \<Rightarrow> bool" where
  "store_le s s' \<longleftrightarrow> jobs_le (st_jobs s) (st_jobs s') \<and> operations_le (st_operations s) (st_operations s') \<and>
     outbox_le (st_outbox s) (st_outbox s') \<and> grows (st_events s) (st_events s') \<and>
     grows (st_observations s) (st_observations s')"

lemma grows_refl [simp]: "grows xs xs" and grows_append [simp]: "grows xs (xs @ ys)"
  by (simp_all add: grows_def)

lemma grows_trans: "grows xs ys \<Longrightarrow> grows ys zs \<Longrightarrow> grows xs zs"
  by (auto simp: grows_def)

lemma operations_le_refl [simp]: "operations_le rows rows"
  by (auto simp: operations_le_def sameOperationInput_def)

lemma outbox_le_refl [simp]: "outbox_le rows rows"
  by (auto simp: outbox_le_def sameOutboxInput_def)

lemma operations_le_trans: "operations_le a b \<Longrightarrow> operations_le b c \<Longrightarrow> operations_le a c"
  unfolding operations_le_def by (erule (1) every_some_trans) (simp add: sameOperationInput_def)

lemma outbox_le_trans: "outbox_le a b \<Longrightarrow> outbox_le b c \<Longrightarrow> outbox_le a c"
  unfolding outbox_le_def by (erule (1) every_some_trans) (simp add: sameOutboxInput_def)

lemma store_le_refl [simp]: "store_le s s"
  by (simp add: store_le_def)

lemma store_le_trans: "store_ok h s' \<Longrightarrow> store_le s s' \<Longrightarrow> store_le s' s'' \<Longrightarrow> store_le s s''"
  unfolding store_le_def store_ok_def
  by (meson jobs_le_trans operations_le_trans outbox_le_trans grows_trans)

lemma initial_store_ok: "store_ok h initial_store"
  by (simp add: store_ok_def initial_store_def events_ok_def operations_ok_def leases_ok_def jobs_ok_def
      tasks_distinct_def outbox_ok_def fairness_ok_def observations_ok_def)

section \<open>Table facts\<close>

lemma claim_table:
  assumes "holder \<noteq> []" and "jobs_ok rows"
  shows "jobs_ok (update_where (\<lambda>r. p r \<and> j_state r = JobQueued) (claim_update holder expires now) rows)"
    and "jobs_le rows (update_where (\<lambda>r. p r \<and> j_state r = JobQueued) (claim_update holder expires now) rows)"
  using claim.table_stays_ok [OF assms(2), of p holder expires now]
    claim.table_advances [OF assms(2), of p holder expires now] assms(1) by simp_all

lemma claim_one_table:
  assumes "holder \<noteq> []" and "jobs_ok (st_jobs s)" and "claim_one i holder expires now s = (n, s')"
  shows "jobs_ok (st_jobs s')" and "jobs_le (st_jobs s) (st_jobs s')" and "\<exists>rows. s' = s\<lparr>st_jobs := rows\<rparr>"
proof -
  have "update_where (\<lambda>r. j_id r = i \<and> claimable r) (claim_update holder expires now) (st_jobs s) =
    update_where (\<lambda>r. (j_id r = i \<and> j_attempts r < j_max_attempts r) \<and> j_state r = JobQueued)
      (claim_update holder expires now) (st_jobs s)"
    by (rule update_where_cong) (auto simp: claimable_def)
  then show "jobs_ok (st_jobs s')" "jobs_le (st_jobs s) (st_jobs s')"
    using assms(3) claim_table [OF assms(1,2), of "\<lambda>r. j_id r = i \<and> j_attempts r < j_max_attempts r" expires now]
    by (auto simp: claim_one_def)
  show "\<exists>rows. s' = s\<lparr>st_jobs := rows\<rparr>" using assms(3) by (auto simp: claim_one_def)
qed

lemma new_job_fields:
  "j_state (new_job input now) = JobQueued" "j_task (new_job input now) = None"
  "j_lane (new_job input now) = j_lane input" "j_units (new_job input now) = j_units input"
  "j_max_attempts (new_job input now) = j_max_attempts input" "j_token (new_job input now) = 0"
  "j_attempts (new_job input now) = 0" "j_claimed_by (new_job input now) = []"
  "j_expires (new_job input now) = None" "j_result (new_job input now) = ''{}''"
  "j_error (new_job input now) = []" "\<not> j_reconciled (new_job input now)"
  by (simp_all add: new_job_def)

lemma default_job_fields:
  "j_lane (default_job_input input) = j_lane input"
  "0 \<le> j_units input \<Longrightarrow> 1 \<le> j_units (default_job_input input)"
  "j_units input \<le> 1000000 \<Longrightarrow> j_units (default_job_input input) \<le> 1000000"
  "0 \<le> j_max_attempts input \<Longrightarrow> 1 \<le> j_max_attempts (default_job_input input)"
  "j_max_attempts input \<le> 100 \<Longrightarrow> j_max_attempts (default_job_input input) \<le> 100"
  by (simp_all add: default_job_input_def)

lemma new_job_ok:
  "validateJobInput input \<Longrightarrow> job_ok (new_job (default_job_input (input\<lparr>j_payload := payload\<rparr>)) now)"
  unfolding validateJobInput_def job_ok_def new_job_fields by (simp add: default_job_fields new_job_fields)

lemma tasks_distinct_snoc: "tasks_distinct rows \<Longrightarrow> j_task row = None \<Longrightarrow> tasks_distinct (rows @ [row])"
  unfolding tasks_distinct_def
proof (intro ballI impI)
  fix r r'
  assume rows: "\<forall>r \<in> set rows. \<forall>r' \<in> set rows. j_task r \<noteq> None \<longrightarrow> j_task r = j_task r' \<longrightarrow> j_id r = j_id r'"
    and none: "j_task row = None" and r: "r \<in> set (rows @ [row])" "r' \<in> set (rows @ [row])"
    and task: "j_task r \<noteq> None" "j_task r = j_task r'"
  have "r \<noteq> row" "r' \<noteq> row" using none task by metis+
  then have "r \<in> set rows" "r' \<in> set rows" using r by simp_all
  then show "j_id r = j_id r'" using rows task by blast
qed

lemma insert_job_table:
  assumes "insert_new j_key j_id row rows = Inr (rows', added)" and "jobs_ok rows" and "job_ok row" and "j_task row = None"
  shows "jobs_ok rows'" and "jobs_le rows rows'"
proof -
  consider "rows' = rows" | "rows' = rows @ [row]" using insert_new_cases [OF assms(1)] by blast
  then have "tasks_distinct rows' \<and> Ball (set rows') job_ok \<and> jobs_le rows rows'"
  proof cases
    case 1
    with assms(2) show ?thesis by (simp add: jobs_ok_def)
  next
    case 2
    with assms(2-4) show ?thesis
      unfolding jobs_ok_def by (simp add: jobs_le_append tasks_distinct_snoc)
  qed
  then show "jobs_ok rows'" "jobs_le rows rows'"
    using insert_new_distinct [OF assms(1)] assms(2) by (simp_all add: jobs_ok_def)
qed

lemma chain_from_append: "chain_from prev (es @ [e]) \<longleftrightarrow>
    chain_from prev es \<and> ev_previous e = (if es = [] then prev else ev_hash (last es))"
  by (induction es arbitrary: prev) auto

lemma append_event_table:
  assumes "appendEventTx h now ety aty aid payload s = Inr s'" and "events_ok h (st_events s)"
  shows "events_ok h (st_events s')" and "grows (st_events s) (st_events s')"
    and "\<exists>rows. s' = s\<lparr>st_events := rows\<rparr>"
proof -
  obtain e where e: "s' = s\<lparr>st_events := st_events s @ [e]\<rparr>" "ev_previous e = previous_hash s" "event_ok h e"
    "ev_id e \<notin> ev_id ` set (st_events s)" "ev_hash e \<notin> ev_hash ` set (st_events s)"
    using assms(1) unfolding appendEventTx_def
    by (fastforce simp: store_event_def seal_event_def guarded_Inr_iff event_ok_def list_ex_iff)
  show "events_ok h (st_events s')"
    using assms(2) e by (auto simp: events_ok_def chain_from_append previous_hash_def)
  show "grows (st_events s) (st_events s')" "\<exists>rows. s' = s\<lparr>st_events := rows\<rparr>" using e(1) by auto
qed

lemma insert_operation_table:
  assumes "insert_new op_key op_id (new_operation input now) rows = Inr (rows', added)" and "operations_ok rows"
  shows "operations_ok rows'" and "operations_le rows rows'"
  using insert_new_cases [OF assms(1)] insert_new_distinct [OF assms(1)] assms(2)
  by (auto simp: operations_ok_def operations_le_def sameOperationInput_def new_operation_def
      operation_state_valid_def operation_input.defs)

lemma insert_outbox_table:
  assumes "insert_new o_key o_id (new_outbox input next now) rows = Inr (rows', added)" and "outbox_ok rows"
  shows "outbox_ok rows'" and "outbox_le rows rows'"
  using insert_new_cases [OF assms(1)] insert_new_distinct [OF assms(1)] assms(2)
  by (auto simp: outbox_ok_def outbox_le_def sameOutboxInput_def new_outbox_def)

interpretation op_id_kept: keeps_column op_id "operation_update state res message now" for state res message now
  by unfold_locales (simp add: operation_update_def)

interpretation op_key_kept: keeps_column op_key "operation_update state res message now" for state res message now
  by unfold_locales (simp add: operation_update_def)

interpretation lease_kept: keeps_column le_subject "lease_renewal expires now" for expires now
  by unfold_locales (simp add: lease_renewal_def)

interpretation o_id_kept: keeps_column o_id "outbox_update state retry message now" for state retry message now
  by unfold_locales (simp add: outbox_update_def)

interpretation o_key_kept: keeps_column o_key "outbox_update state retry message now" for state retry message now
  by unfold_locales (simp add: outbox_update_def)

interpretation pool_kept: keeps_column fa_pool "add_units h exploit explore now" for h exploit explore now
  by unfold_locales (simp add: add_units_def)

lemma operation_update_table:
  assumes "operations_ok rows" and "operation_state_valid state"
  shows "operations_ok (update_where p (operation_update state res message now) rows)"
    and "operations_le rows (update_where p (operation_update state res message now) rows)"
proof -
  show "operations_ok (update_where p (operation_update state res message now) rows)"
    using assms by (auto simp: operations_ok_def op_id_kept.still_distinct op_key_kept.still_distinct
        set_update_where operation_update_def)
  show "operations_le rows (update_where p (operation_update state res message now) rows)"
    unfolding operations_le_def
    by (rule update_where_related) (simp_all add: operation_update_def sameOperationInput_def)
qed

lemma outbox_update_table:
  assumes "outbox_ok rows" and "state \<noteq> OutboxPending"
  shows "outbox_ok (update_where p (outbox_update state retry message now) rows)"
    and "outbox_le rows (update_where p (outbox_update state retry message now) rows)"
proof -
  show "outbox_ok (update_where p (outbox_update state retry message now) rows)"
    using assms unfolding outbox_ok_def
    by (intro conjI o_id_kept.still_distinct o_key_kept.still_distinct update_where_ball)
      (simp_all add: outbox_update_def)
  show "outbox_le rows (update_where p (outbox_update state retry message now) rows)"
    unfolding outbox_le_def
    by (rule update_where_related) (simp_all add: outbox_update_def sameOutboxInput_def)
qed

lemma lease_renewal_table:
  "leases_ok rows \<Longrightarrow> leases_ok (update_where p (lease_renewal expires now) rows)"
  unfolding leases_ok_def
  by (intro conjI lease_kept.still_distinct update_where_ball) (simp_all add: lease_renewal_def)

lemma write_lease_table:
  assumes "leases_ok rows" and "1 \<le> le_token l" and "le_holder l \<noteq> []"
  shows "leases_ok (write_lease l rows)"
proof -
  have columns: "map le_subject (update_where (\<lambda>r. le_subject r = le_subject l) (\<lambda>_. l) rows) = map le_subject rows"
    by (simp add: update_where_def)
  have ball: "Ball (set rows) (\<lambda>r. 1 \<le> le_token r \<and> le_holder r \<noteq> [])"
    using assms(1) by (simp add: leases_ok_def)
  have "Ball (set (write_lease l rows)) (\<lambda>r. 1 \<le> le_token r \<and> le_holder r \<noteq> [])"
  proof (cases "list_ex (\<lambda>r. le_subject r = le_subject l) rows")
    case True
    then show ?thesis unfolding write_lease_def
      by (simp only: if_True) (rule update_where_ball [OF ball], simp add: assms)
  next
    case False
    then show ?thesis unfolding write_lease_def by (simp only: if_False) (use ball assms in simp)
  qed
  moreover have "distinct (map le_subject (write_lease l rows))"
  proof (cases "list_ex (\<lambda>r. le_subject r = le_subject l) rows")
    case True
    with assms(1) columns show ?thesis unfolding leases_ok_def write_lease_def by (simp only: if_True)
  next
    case False
    then have "le_subject l \<notin> le_subject ` set rows" by (force simp: list_ex_iff)
    then have "distinct (map le_subject (rows @ [l]))" using assms(1) by (simp add: leases_ok_def)
    with False show ?thesis unfolding write_lease_def by (simp only: if_False)
  qed
  ultimately show ?thesis by (simp add: leases_ok_def)
qed

lemma account_units_table: "fairness_ok rows \<Longrightarrow> fairness_ok (account_units h pool lane units now rows)"
proof (cases "list_ex (\<lambda>r. fa_pool r = pool) rows")
  case True
  assume "fairness_ok rows"
  then show ?thesis unfolding fairness_ok_def account_units_def Let_def
    by (simp only: True if_True pool_kept.columns)
next
  case False
  assume "fairness_ok rows"
  moreover have "pool \<notin> fa_pool ` set rows" using False by (auto simp: list_ex_iff)
  ultimately show ?thesis unfolding fairness_ok_def account_units_def Let_def
    by (simp only: False if_False) simp
qed

end
