(* ===== verification/Exp_Op_Steps.thy ===== *)
theory Exp_Op_Steps
  imports Exp_Op_Invariant
begin

text \<open>
  The contract of a store operation, its discharge by every operation of \<^verbatim>\<open>store_sqlite.go\<close> that
  writes, and the executions of the store: a step is one call of one operation, with any clock
  reading and any arguments, by any process.
\<close>

section \<open>The contract\<close>

text \<open>What a caller finds in the database after a call, failed or not.\<close>

definition after :: "(op_store \<Rightarrow> (store_error, 'a \<times> op_store) result) \<Rightarrow> op_store \<Rightarrow> op_store" where
  "after run s = (case run s of Inl _ \<Rightarrow> s | Inr (_, s') \<Rightarrow> s')"

locale store_operation =
  fixes h :: op_host and run :: "op_store \<Rightarrow> (store_error, 'a \<times> op_store) result"
  assumes keeps: "store_ok h s \<Longrightarrow> run s = Inr (v, s') \<Longrightarrow> store_ok h s' \<and> store_le s s'"
begin

lemma keeps_ok: "store_ok h s \<Longrightarrow> store_ok h (after run s)"
  using keeps by (cases "run s") (auto simp: after_def)

lemma evolves: "store_ok h s \<Longrightarrow> store_le s (after run s)"
  using keeps by (cases "run s") (auto simp: after_def)

lemma repeated: "store_ok h s \<Longrightarrow> store_ok h ((after run ^^ n) s) \<and> store_le s ((after run ^^ n) s)"
proof (induction n)
  case 0
  then show ?case by simp
next
  case (Suc n)
  then have n: "store_ok h ((after run ^^ n) s)" "store_le s ((after run ^^ n) s)" by simp_all
  from keeps_ok [OF n(1)] store_le_trans [OF n evolves [OF n(1)]] show ?case by simp
qed

end

lemmas store_fields = store_ok_def store_le_def

lemma validateIdentifier_nonempty: "validateIdentifier x \<Longrightarrow> x \<noteq> []"
  by (simp add: validateIdentifier_def)

text \<open>An operation that writes only the job table.\<close>

lemma jobs_only:
  "store_ok h s \<Longrightarrow> jobs_ok rows \<Longrightarrow> jobs_le (st_jobs s) rows \<Longrightarrow>
     store_ok h (s\<lparr>st_jobs := rows\<rparr>) \<and> store_le s (s\<lparr>st_jobs := rows\<rparr>)"
  by (simp add: store_fields)

lemma events_only:
  "store_ok h s \<Longrightarrow> appendEventTx h now ety aty aid payload s = Inr s' \<Longrightarrow> store_ok h s' \<and> store_le s s'"
  using append_event_table [of h now ety aty aid payload s s'] by (auto simp: store_fields)

lemma then_keeps:
  "store_ok h s1 \<and> store_le s s1 \<Longrightarrow> store_ok h s2 \<and> store_le s1 s2 \<Longrightarrow> store_ok h s2 \<and> store_le s s2"
  using store_le_trans by blast

section \<open>Every operation keeps it\<close>

interpretation begin_op: store_operation h "BeginOperation h clock input" for h clock input
proof
  fix s s' v
  assume ok: "store_ok h s" and run: "BeginOperation h clock input s = Inr (v, s')"
  then obtain payload rows added where
    rows: "insert_new op_key op_id (new_operation (input\<lparr>op_payload := payload\<rparr>) (op_utc clock)) (st_operations s) = Inr (rows, added)"
    and s': "added \<Longrightarrow> \<exists>aid. appendEventTx h (op_utc clock) ''operation.created'' ''operation'' aid payload
        (s\<lparr>st_operations := rows\<rparr>) = Inr s'" "\<not> added \<Longrightarrow> s' = s\<lparr>st_operations := rows\<rparr>"
    unfolding BeginOperation_def Let_def
    by (simp add: result_iffs split: option.splits prod.splits)
      (elim conjE exE, rule that, assumption, auto)
  have "store_ok h (s\<lparr>st_operations := rows\<rparr>) \<and> store_le s (s\<lparr>st_operations := rows\<rparr>)"
    using insert_operation_table [OF rows] ok by (simp add: store_fields)
  moreover have "store_ok h s' \<and> store_le (s\<lparr>st_operations := rows\<rparr>) s'"
    using s' events_only calculation by (cases added) auto
  ultimately show "store_ok h s' \<and> store_le s s'" by (rule then_keeps)
qed

interpretation set_state: store_operation h "SetOperationState h clock i state res message" for h clock i state res message
proof
  fix s s' v
  assume ok: "store_ok h s" and run: "SetOperationState h clock i state res message s = Inr (v, s')"
  then obtain normalized payload where state: "operation_state_valid state"
    and s': "appendEventTx h (op_utc clock) ''operation.state'' ''operation'' i payload
      (s\<lparr>st_operations := update_where (\<lambda>r. op_id r = i)
          (operation_update state normalized message (op_utc clock)) (st_operations s)\<rparr>) = Inr s'"
    unfolding SetOperationState_def Let_def
    by (auto simp: result_iffs split: option.splits)
  define s1 where "s1 = s\<lparr>st_operations := update_where (\<lambda>r. op_id r = i)
          (operation_update state normalized message (op_utc clock)) (st_operations s)\<rparr>"
  have "store_ok h s1 \<and> store_le s s1"
    using operation_update_table [of "st_operations s" state] ok state by (simp add: store_fields s1_def)
  moreover have "store_ok h s' \<and> store_le s1 s'"
    using events_only s' calculation unfolding s1_def by blast
  ultimately show "store_ok h s' \<and> store_le s s'" by (rule then_keeps)
qed

interpretation acquire: store_operation h "AcquireLease h clock subject holder ttl" for h clock subject holder ttl
proof
  fix s s' v
  assume ok: "store_ok h s" and run: "AcquireLease h clock subject holder ttl s = Inr (v, s')"
  obtain token where token: "0 \<le> token" and holder: "holder \<noteq> []"
    and s': "appendEventTx h (op_utc clock) ''lease.acquired'' ''lease'' subject (oh_lease_json h v)
      (s\<lparr>st_leases := write_lease v (st_leases s)\<rparr>) = Inr s'"
    and v: "le_token v = token + 1" "le_holder v = holder"
  proof -
    have "0 \<le> le_token r" if "lookup_row le_subject subject (st_leases s) = Some r" for r
      using ok lookup_row_Some [OF that] by (force simp: store_ok_def leases_ok_def)
    then show thesis
      using run that validateIdentifier_nonempty unfolding AcquireLease_def Let_def
      by (auto simp: result_iffs split: option.splits)
  qed
  have "store_ok h (s\<lparr>st_leases := write_lease v (st_leases s)\<rparr>) \<and>
      store_le s (s\<lparr>st_leases := write_lease v (st_leases s)\<rparr>)"
    using ok write_lease_table [of "st_leases s" v] token holder v by (simp add: store_fields)
  moreover have "store_ok h s' \<and> store_le (s\<lparr>st_leases := write_lease v (st_leases s)\<rparr>) s'"
    using events_only s' calculation by blast
  ultimately show "store_ok h s' \<and> store_le s s'" by (rule then_keeps)
qed

interpretation renew_lease: store_operation h "RenewLease clock l ttl" for h clock l ttl
  by unfold_locales (auto simp: RenewLease_def Let_def result_iffs store_fields lease_renewal_table)

interpretation dispatch: store_operation h "\<lambda>s. fst (WithDispatchLease clock l ttl act s w)" for h clock l ttl act w
  by unfold_locales
    (auto simp: WithDispatchLease_def Let_def store_fields lease_renewal_table split: option.splits if_splits prod.splits)

interpretation release: store_operation h "ReleaseLease l" for h l
  by unfold_locales (auto simp: ReleaseLease_def result_iffs store_fields leases_ok_def distinct_map_filter)

interpretation pause: store_operation h "SetPaused clock paused reason" for h clock paused reason
  by unfold_locales (auto simp: SetPaused_def Let_def result_iffs store_fields)

interpretation enqueue: store_operation h "EnqueueJob h clock input" for h clock input
proof
  fix s s' v
  assume ok: "store_ok h s" and run: "EnqueueJob h clock input s = Inr (v, s')"
  then obtain payload rows added where valid: "validateJobInput input"
    and rows: "insert_new j_key j_id (new_job (default_job_input (input\<lparr>j_payload := payload\<rparr>)) (op_utc clock)) (st_jobs s)
      = Inr (rows, added)" and s': "s' = s\<lparr>st_jobs := rows\<rparr>"
    unfolding EnqueueJob_def Let_def
    by (auto simp: result_iffs split: option.splits prod.splits)
  note table = insert_job_table [OF rows _ new_job_ok [OF valid] new_job_fields(2)]
  show "store_ok h s' \<and> store_le s s'"
    unfolding s' by (rule jobs_only) (use ok table in \<open>simp_all add: store_ok_def\<close>)
qed

interpretation claim_job: store_operation h "ClaimJob clock pool lane holder ttl" for h clock pool lane holder ttl
proof
  fix s s' v
  assume ok: "store_ok h s" and run: "ClaimJob clock pool lane holder ttl s = Inr (v, s')"
  then obtain i where "validateIdentifier holder"
    and s': "s' = s\<lparr>st_jobs := update_where (\<lambda>r. j_id r = i \<and> j_state r = JobQueued)
      (claim_update holder (op_utc (time_add (op_utc clock) ttl)) (op_utc clock)) (st_jobs s)\<rparr>"
    unfolding ClaimJob_def Let_def
    by (auto simp: result_iffs split: list.splits)
  then show "store_ok h s' \<and> store_le s s'"
    unfolding s' using ok by (intro jobs_only claim_table validateIdentifier_nonempty) (simp_all add: store_ok_def)
qed

interpretation claim_id: store_operation h "ClaimJobByID clock i holder ttl" for h clock i holder ttl
proof
  fix s s' v
  assume ok: "store_ok h s" and run: "ClaimJobByID clock i holder ttl s = Inr (v, s')"
  obtain n s1 where one: "claim_one i holder (op_utc (time_add (op_utc clock) ttl)) (op_utc clock) s = (n, s1)"
    by fastforce
  with run have s': "s' = s1" and holder: "holder \<noteq> []"
    using validateIdentifier_nonempty unfolding ClaimJobByID_def Let_def
    by (auto simp: result_iffs split: if_splits)
  have "jobs_ok (st_jobs s)" using ok by (simp add: store_ok_def)
  note table = claim_one_table [OF holder this one]
  with ok jobs_only show "store_ok h s' \<and> store_le s s'" unfolding s' by fastforce
qed

interpretation renew_claim: store_operation h "RenewJobClaim clock i token holder ttl" for h clock i token holder ttl
proof
  fix s s' v
  assume ok: "store_ok h s" and run: "RenewJobClaim clock i token holder ttl s = Inr (v, s')"
  then have s': "s' = s\<lparr>st_jobs := update_where (\<lambda>r. (j_id r = i \<and> j_token r = token \<and> j_claimed_by r = holder) \<and> j_state r = JobRunning)
      (renew_update (op_utc (time_add (op_utc clock) ttl)) (op_utc clock)) (st_jobs s)\<rparr>"
    unfolding RenewJobClaim_def Let_def by (auto simp: result_iffs conj_assoc)
  show "store_ok h s' \<and> store_le s s'"
    unfolding s' using ok by (intro jobs_only renew.table_stays_ok renew.table_advances) (simp_all add: store_ok_def)
qed

interpretation finish_job: store_operation h "FinishJob h clock i token state res message" for h clock i token state res message
proof
  fix s s' v
  assume ok: "store_ok h s" and run: "FinishJob h clock i token state res message s = Inr (v, s')"
  then obtain normalized where
    s': "s' = s\<lparr>st_jobs := update_where (\<lambda>r. (j_id r = i \<and> j_token r = token) \<and> j_state r = JobRunning \<and> job_finished state)
      (finish_update state normalized message (op_utc clock)) (st_jobs s)\<rparr>"
    unfolding FinishJob_def Let_def
    by (auto simp: result_iffs conj_assoc job_finished_def split: option.splits if_splits sum.splits)
  show "store_ok h s' \<and> store_le s s'"
    unfolding s' using ok by (intro jobs_only finish.table_stays_ok finish.table_advances) (simp_all add: store_ok_def)
qed

interpretation mark: store_operation h "MarkJobReconciled i token" for h i token
proof
  fix s s' v
  assume ok: "store_ok h s" and run: "MarkJobReconciled i token s = Inr (v, s')"
  then have s': "s' = s\<lparr>st_jobs := update_where (\<lambda>r. (j_id r = i \<and> j_token r = token) \<and> job_terminal (j_state r))
      (\<lambda>r. r\<lparr>j_reconciled := True\<rparr>) (st_jobs s)\<rparr>"
    unfolding MarkJobReconciled_def Let_def by (auto simp: result_iffs conj_assoc)
  show "store_ok h s' \<and> store_le s s'"
    unfolding s' using ok by (intro jobs_only reconcile.table_stays_ok reconcile.table_advances) (simp_all add: store_ok_def)
qed

interpretation bind_refs: store_operation h "SetJobExternalRefs h clock i token task run" for h clock i token task run
proof
  fix s s' v
  assume ok: "store_ok h s" and call: "SetJobExternalRefs h clock i token task run s = Inr (v, s')"
  define rows where "rows = update_where (\<lambda>r. refs_match i token task run r \<and> (\<forall>t. task = Some t \<longrightarrow> 0 \<le> t))
    (refs_update task run (op_utc clock)) (st_jobs s)"
  from call have nonneg: "\<forall>t. task = Some t \<longrightarrow> 0 \<le> t" and free: "\<not> task_taken i task (st_jobs s)"
    and s': "s' = s\<lparr>st_jobs := update_where (refs_match i token task run) (refs_update task run (op_utc clock)) (st_jobs s)\<rparr>"
    unfolding SetJobExternalRefs_def Let_def
    by (auto simp: result_iffs split: if_splits option.splits sum.splits)
  have jobs: "jobs_ok (st_jobs s)" using ok by (simp add: store_ok_def)
  have "tasks_distinct rows"
    unfolding tasks_distinct_def
  proof (intro ballI impI)
    fix a b
    assume "a \<in> set rows" "b \<in> set rows" and task: "j_task a \<noteq> None" "j_task a = j_task b"
    then obtain r q where r: "r \<in> set (st_jobs s)" "a = (if refs_match i token task run r then refs_update task run (op_utc clock) r else r)"
      and q: "q \<in> set (st_jobs s)" "b = (if refs_match i token task run q then refs_update task run (op_utc clock) q else q)"
      using nonneg by (auto simp: rows_def set_update_where)
    have ids: "j_id a = j_id r" "j_id b = j_id q" using r q by (simp_all add: refs_update_def)
    have new: "j_task a = j_task r \<or> j_id r = i \<and> j_task a = task \<and> task \<noteq> None"
      "j_task b = j_task q \<or> j_id q = i \<and> j_task b = task \<and> task \<noteq> None"
      using r q by (auto simp: refs_update_def refs_match_def)
    have taken: "x \<in> set (st_jobs s) \<Longrightarrow> task \<noteq> None \<Longrightarrow> j_task x = task \<Longrightarrow> j_id x = i" for x
      using free by (auto simp: task_taken_def list_ex_iff)
    have old: "j_task r \<noteq> None \<Longrightarrow> j_task r = j_task q \<Longrightarrow> j_id r = j_id q"
      using jobs r(1) q(1) unfolding jobs_ok_def tasks_distinct_def by blast
    show "j_id a = j_id b"
      unfolding ids using new task taken [OF r(1)] taken [OF q(1)] old by metis
  qed
  then have "store_ok h (s\<lparr>st_jobs := rows\<rparr>) \<and> store_le s (s\<lparr>st_jobs := rows\<rparr>)"
    unfolding rows_def using jobs ok by (intro jobs_only bind.table_ok bind.table_advances)
  then show "store_ok h s' \<and> store_le s s'" using nonneg by (simp add: rows_def s')
qed

interpretation add_outbox: store_operation h "AddOutbox h clock input next" for h clock input "next"
proof
  fix s s' v
  assume ok: "store_ok h s" and run: "AddOutbox h clock input next s = Inr (v, s')"
  then obtain item nxt now rows added where
    rows: "insert_new o_key o_id (new_outbox item nxt now) (st_outbox s) = Inr (rows, added)"
    and s': "s' = s\<lparr>st_outbox := rows\<rparr>"
    unfolding AddOutbox_def Let_def
    by (auto simp: result_iffs split: option.splits prod.splits)
  show "store_ok h s' \<and> store_le s s'"
    unfolding s' using ok insert_outbox_table [OF rows] by (simp add: store_fields)
qed

interpretation set_outbox: store_operation h "SetOutboxState clock i state retryAt message" for h clock i state retryAt message
proof
  fix s s' v
  assume ok: "store_ok h s" and run: "SetOutboxState clock i state retryAt message s = Inr (v, s')"
  then obtain retry now where state: "state \<noteq> OutboxPending"
    and s': "s' = s\<lparr>st_outbox := update_where (\<lambda>r. o_id r = i) (outbox_update state retry message now) (st_outbox s)\<rparr>"
    unfolding SetOutboxState_def Let_def by (auto simp: result_iffs)
  show "store_ok h s' \<and> store_le s s'"
    unfolding s' using ok outbox_update_table [OF _ state, of "st_outbox s"] by (simp add: store_fields)
qed

lemma claim_for_submission_keeps:
  assumes ok: "store_ok h s" and holder: "holder \<noteq> []"
    and run: "claim_for_submission holder expires now job s = Inr (job', s')"
  shows "store_ok h s' \<and> store_le s s' \<and> (\<exists>rows. s' = s\<lparr>st_jobs := rows\<rparr>)"
proof (cases "j_state job = JobQueued")
  case True
  obtain n s1 where one: "claim_one (j_id job) holder expires now s = (n, s1)" by fastforce
  have "jobs_ok (st_jobs s)" using ok by (simp add: store_ok_def)
  note table = claim_one_table [OF holder this one]
  have "s' = s1" using run True one by (auto simp: claim_for_submission_def result_iffs)
  then show ?thesis using table ok jobs_only by fastforce
next
  case False
  then have "s' = s" using run
    by (cases "j_state job") (auto simp: claim_for_submission_def result_iffs)
  then show ?thesis using ok by (auto intro: exI [of _ "st_jobs s"])
qed

lemma publish_intent_keeps:
  assumes ok: "store_ok h s" and run: "publish_intent h now job input s = Inr (v, s')"
  shows "store_ok h s' \<and> store_le s s' \<and> st_jobs s' = st_jobs s"
proof -
  obtain item nxt rows added where
    rows: "insert_new o_key o_id (new_outbox item nxt now) (st_outbox s) = Inr (rows, added)"
    and s': "s' = s\<lparr>st_outbox := rows\<rparr>"
    using run unfolding publish_intent_def Let_def
    by (auto simp: result_iffs split: option.splits prod.splits)
  show ?thesis unfolding s' using ok insert_outbox_table [OF rows] by (simp add: store_fields)
qed

text \<open>The stages of a submission that succeeds.\<close>

lemma PrepareSubmission_stages:
  assumes "PrepareSubmission h clock input holder ttl factory s = Inr (v, s')"
  obtains payload rows added job job' s2 f intent item fresh
  where "validateJobInput input" "holder \<noteq> []" "0 < ttl" "factory = Some f"
    "normalizeJSON h (j_payload input) = Some payload"
    "insert_new j_key j_id (new_job (default_job_input (input\<lparr>j_payload := payload\<rparr>)) (op_utc clock)) (st_jobs s) = Inr (rows, added)"
    "jobByKey (j_key (default_job_input (input\<lparr>j_payload := payload\<rparr>))) (s\<lparr>st_jobs := rows\<rparr>) = Inr job"
    "sameJobInput job (default_job_input (input\<lparr>j_payload := payload\<rparr>))"
    "claim_for_submission holder (op_utc (time_add (op_utc clock) ttl)) (op_utc clock) job (s\<lparr>st_jobs := rows\<rparr>) = Inr (job', s2)"
    "f job' = Some intent" "publish_intent h (op_utc clock) job' intent s2 = Inr ((item, fresh), s')"
    "v = (job', item, \<not> added \<and> \<not> fresh)"
  using assms validateIdentifier_nonempty unfolding PrepareSubmission_def Let_def
  by (auto simp: result_iffs split: option.splits prod.splits)

interpretation submit: store_operation h "PrepareSubmission h clock input holder ttl factory" for h clock input holder ttl factory
proof
  fix s s' v
  assume ok: "store_ok h s" and run: "PrepareSubmission h clock input holder ttl factory s = Inr (v, s')"
  from run show "store_ok h s' \<and> store_le s s'"
  proof (rule PrepareSubmission_stages)
    fix payload rows added job job' s2 f intent item fresh
    assume valid: "validateJobInput input" and holder: "holder \<noteq> []"
      and rows: "insert_new j_key j_id (new_job (default_job_input (input\<lparr>j_payload := payload\<rparr>)) (op_utc clock)) (st_jobs s) = Inr (rows, added)"
      and claim: "claim_for_submission holder (op_utc (time_add (op_utc clock) ttl)) (op_utc clock) job (s\<lparr>st_jobs := rows\<rparr>) = Inr (job', s2)"
      and publish: "publish_intent h (op_utc clock) job' intent s2 = Inr ((item, fresh), s')"
    have "jobs_ok (st_jobs s)" using ok by (simp add: store_ok_def)
    note table = insert_job_table [OF rows this new_job_ok [OF valid] new_job_fields(2)]
    have one: "store_ok h (s\<lparr>st_jobs := rows\<rparr>) \<and> store_le s (s\<lparr>st_jobs := rows\<rparr>)"
      by (rule jobs_only [OF ok table])
    have two: "store_ok h s2 \<and> store_le (s\<lparr>st_jobs := rows\<rparr>) s2"
      using claim_for_submission_keeps [OF _ holder claim] one by blast
    have "store_ok h s2 \<and> store_le s s2" by (rule then_keeps [OF one two])
    moreover have "store_ok h s' \<and> store_le s2 s'" using publish_intent_keeps [OF _ publish] two by blast
    ultimately show ?thesis by (rule then_keeps)
  qed
qed

lemma nth_snoc_iff: "(\<forall>k < Suc (length xs). P k ((xs @ [x]) ! k)) \<longleftrightarrow> (\<forall>k < length xs. P k (xs ! k)) \<and> P (length xs) x"
  by (auto simp: nth_append less_Suc_eq)

interpretation observe: store_operation h "RecordObservation h clock1 clock2 input" for h clock1 clock2 input
proof
  fix s s' v
  assume ok: "store_ok h s" and run: "RecordObservation h clock1 clock2 input s = Inr (v, s')"
  then have "ob_id v = st_observation_seq s + 1" "\<not> time_before (ob_expires v) (ob_observed v)"
    and s': "s' = s\<lparr>st_observations := st_observations s @ [v], st_observation_seq := st_observation_seq s + 1\<rparr>"
    unfolding RecordObservation_def Let_def by (auto simp: result_iffs split: option.splits)
  then show "store_ok h s' \<and> store_le s s'"
    using ok nth_snoc_iff [of "st_observations s" "\<lambda>k r. ob_id r = int k + 1" v]
    by (auto simp: store_fields observations_ok_def)
qed

interpretation count_units: store_operation h "RecordDispatch h clock pool lane units" for h clock pool lane units
  by unfold_locales (auto simp: RecordDispatch_def Let_def result_iffs store_fields account_units_table)

interpretation count_once: store_operation h "RecordDispatchOnce h clock i pool lane units" for h clock i pool lane units
proof
  fix s s' v
  assume ok: "store_ok h s" and run: "RecordDispatchOnce h clock i pool lane units s = Inr (v, s')"
  define s1 where "s1 = s\<lparr>st_jobs := update_where (\<lambda>r. j_id r = i \<and> \<not> j_accounted r) (\<lambda>r. r\<lparr>j_accounted := True\<rparr>) (st_jobs s)\<rparr>"
  have one: "store_ok h s1 \<and> store_le s s1"
    unfolding s1_def using ok
    by (intro jobs_only account.table_stays_ok account.table_advances) (simp_all add: store_ok_def)
  have "s' = s1 \<or> s' = s1\<lparr>st_fairness := account_units h pool lane units (op_utc clock) (st_fairness s1)\<rparr>"
    using run unfolding RecordDispatchOnce_def Let_def s1_def
    by (auto simp: result_iffs split: option.splits if_splits)
  then show "store_ok h s' \<and> store_le s s'"
    using one by (auto simp: store_fields account_units_table)
qed

section \<open>Executions\<close>

inductive store_step :: "op_host \<Rightarrow> op_store \<Rightarrow> op_store \<Rightarrow> bool" for h where
  step_begin: "store_step h s (after (BeginOperation h clock oinput) s)"
| step_set_state: "store_step h s (after (SetOperationState h clock i ostate res message) s)"
| step_acquire: "store_step h s (after (AcquireLease h clock subject holder ttl) s)"
| step_renew_lease: "store_step h s (after (RenewLease clock l ttl) s)"
| step_dispatch: "store_step h s (after (\<lambda>s. fst (WithDispatchLease clock l ttl act s (w :: unit))) s)"
| step_release: "store_step h s (after (ReleaseLease l) s)"
| step_pause: "store_step h s (after (SetPaused clock paused reason) s)"
| step_enqueue: "store_step h s (after (EnqueueJob h clock jinput) s)"
| step_claim: "store_step h s (after (ClaimJob clock pool lane holder ttl) s)"
| step_claim_id: "store_step h s (after (ClaimJobByID clock i holder ttl) s)"
| step_renew_claim: "store_step h s (after (RenewJobClaim clock i token holder ttl) s)"
| step_submit: "store_step h s (after (PrepareSubmission h clock jinput holder ttl factory) s)"
| step_finish: "store_step h s (after (FinishJob h clock i token state res message) s)"
| step_bind: "store_step h s (after (SetJobExternalRefs h clock i token task run) s)"
| step_mark: "store_step h s (after (MarkJobReconciled i token) s)"
| step_add_outbox: "store_step h s (after (AddOutbox h clock xinput retry) s)"
| step_set_outbox: "store_step h s (after (SetOutboxState clock i xstate retry message) s)"
| step_observe: "store_step h s (after (RecordObservation h clock clock2 binput) s)"
| step_record: "store_step h s (after (RecordDispatch h clock pool lane units) s)"
| step_record_once: "store_step h s (after (RecordDispatchOnce h clock i pool lane units) s)"

inductive_cases store_stepE: "store_step h s s'"

abbreviation store_run :: "op_host \<Rightarrow> op_store \<Rightarrow> op_store \<Rightarrow> bool" where
  "store_run h \<equiv> (store_step h)\<^sup>*\<^sup>*"

inductive reachable_store :: "op_host \<Rightarrow> op_store \<Rightarrow> bool" for h where
  reach_initial: "reachable_store h initial_store"
| reach_step: "reachable_store h s \<Longrightarrow> store_step h s s' \<Longrightarrow> reachable_store h s'"

lemma store_step_keeps:
  assumes "store_step h s s'" and "store_ok h s"
  shows "store_ok h s' \<and> store_le s s'"
  using assms
  by (cases rule: store_step.cases)
    (simp_all add: begin_op.keeps_ok begin_op.evolves set_state.keeps_ok set_state.evolves
      acquire.keeps_ok acquire.evolves renew_lease.keeps_ok renew_lease.evolves
      dispatch.keeps_ok dispatch.evolves release.keeps_ok release.evolves pause.keeps_ok pause.evolves
      enqueue.keeps_ok enqueue.evolves claim_job.keeps_ok claim_job.evolves claim_id.keeps_ok claim_id.evolves
      renew_claim.keeps_ok renew_claim.evolves submit.keeps_ok submit.evolves
      finish_job.keeps_ok finish_job.evolves bind_refs.keeps_ok bind_refs.evolves mark.keeps_ok mark.evolves
      add_outbox.keeps_ok add_outbox.evolves set_outbox.keeps_ok set_outbox.evolves
      observe.keeps_ok observe.evolves count_units.keeps_ok count_units.evolves count_once.keeps_ok count_once.evolves)

lemma store_run_keeps: "store_run h s s' \<Longrightarrow> store_ok h s \<Longrightarrow> store_ok h s' \<and> store_le s s'"
proof (induction rule: rtranclp_induct)
  case base
  then show ?case by simp
next
  case (step s1 s2)
  with store_step_keeps then_keeps show ?case by meson
qed

lemma reachable_ok: "reachable_store h s \<Longrightarrow> store_ok h s"
  by (induction rule: reachable_store.induct) (auto simp: initial_store_ok dest: store_step_keeps)

lemma run_job:
  assumes "store_ok h s" and "store_run h s s'" and "r \<in> set (st_jobs s)"
  obtains r' where "r' \<in> set (st_jobs s')" "job_le r r'" "job_ok r" "job_ok r'" "j_id r' = j_id r"
    "lookup_row j_id (j_id r) (st_jobs s') = Some r'"
proof -
  have ok: "store_ok h s'" "store_le s s'" using store_run_keeps [OF assms(2,1)] by simp_all
  then obtain r' where r': "r' \<in> set (st_jobs s')" "job_le r r'"
    using assms(3) unfolding store_le_def jobs_le_def by blast
  have jobs: "jobs_ok (st_jobs s)" "jobs_ok (st_jobs s')" using assms(1) ok(1) by (simp_all add: store_ok_def)
  show thesis
    using that [OF r' jobs_ok_row [OF jobs(1) assms(3)] jobs_ok_row [OF jobs(2) r'(1)] job_le_id(1) [OF r'(2)]]
      jobs_lookup_id [OF jobs(2)] r'(1) job_le_id(1) [OF r'(2)] by blast
qed

end
