(* ===== verification/Exp_Controller_Logic.thy ===== *)
theory Exp_Controller_Logic
  imports Exp_Controller Exp_Op_Steps
begin

text \<open>
  Reasoning about the actions of a tick. A condition speaks of the operational store and of the
  scheduler; \<open>triple P m Q E\<close> says that from a world with \<open>P\<close> the action ends with \<open>Q\<close> of its result or,
  when it fails, with \<open>E\<close>, and \<open>keeps\<close> is the case of an invariant. The operations of the store a tick
  uses share a contract, the locale \<open>quiet_operation\<close>: they keep the intents of the outbox and the
  pause switch.
\<close>

section \<open>Conditions and actions\<close>

type_synonym 's condition = "op_store \<Rightarrow> 's \<Rightarrow> bool"

definition on :: "'s condition \<Rightarrow> ('c, 's) world \<Rightarrow> bool" where
  "on P w \<longleftrightarrow> P (cw_store w) (cw_sched w)"

definition triple :: "'s condition \<Rightarrow> ('c, 's, 'a) ctl \<Rightarrow> ('a \<Rightarrow> 's condition) \<Rightarrow> 's condition \<Rightarrow> bool" where
  "triple P m Q E \<longleftrightarrow> (\<forall>w. on P w \<longrightarrow> (case m w of (Inl _, w') \<Rightarrow> on E w' | (Inr a, w') \<Rightarrow> on (Q a) w'))"

abbreviation keeps :: "'s condition \<Rightarrow> ('c, 's, 'a) ctl \<Rightarrow> bool" where
  "keeps P m \<equiv> triple P m (\<lambda>_. P) P"

named_theorems kept \<open>actions that keep a condition\<close>

lemma tripleI:
  "(\<And>w. on P w \<Longrightarrow> (case m w of (Inl _, w') \<Rightarrow> on E w' | (Inr a, w') \<Rightarrow> on (Q a) w')) \<Longrightarrow> triple P m Q E"
  by (simp add: triple_def)

lemma tripleD:
  assumes "triple P m Q E" and "on P w" and "m w = (r, w')"
  shows "case r of Inl _ \<Rightarrow> on E w' | Inr a \<Rightarrow> on (Q a) w'"
  using assms by (simp add: triple_def) (metis (no_types, lifting) prod.case)

lemma keeps_after: "keeps P m \<Longrightarrow> on P w \<Longrightarrow> on P (snd (m w))"
  by (drule (1) tripleD [OF _ _ prod.collapse [symmetric]]) (simp split: sum.splits)

lemma triple_weaken:
  fixes m :: "('c, 's, 'a) ctl"
  assumes "triple P m Q E" and "\<And>s k. P' s k \<Longrightarrow> P s k" and "\<And>a s k. Q a s k \<Longrightarrow> Q' a s k" and "\<And>s k. E s k \<Longrightarrow> E' s k"
  shows "triple P' m Q' E'"
proof (rule tripleI)
  fix w :: "('c, 's) world"
  assume "on P' w"
  then have "on P w" using assms(2) by (simp add: on_def)
  with assms(1) show "case m w of (Inl _, w') \<Rightarrow> on E' w' | (Inr a, w') \<Rightarrow> on (Q' a) w'"
    using assms(3,4) unfolding triple_def on_def by (fastforce split: prod.splits sum.splits)
qed

lemma triple_bind:
  fixes m :: "('c, 's, 'a) ctl"
  assumes "triple P m R E" and "\<And>a. triple (R a) (f a) Q E"
  shows "triple P (bind_ctl m f) Q E"
proof (rule tripleI)
  fix w :: "('c, 's) world"
  assume w: "on P w"
  obtain r w' where m: "m w = (r, w')" by (cases "m w")
  show "case bind_ctl m f w of (Inl _, w') \<Rightarrow> on E w' | (Inr a, w') \<Rightarrow> on (Q a) w'"
  proof (cases r)
    case (Inl e)
    then show ?thesis using tripleD [OF assms(1) w m] m by (simp add: bind_ctl_def)
  next
    case (Inr a)
    then have "on (R a) w'" using tripleD [OF assms(1) w m] m by simp
    then show ?thesis using assms(2) [of a] m Inr by (simp add: bind_ctl_def triple_def)
  qed
qed

lemma triple_yield: "(\<And>s k. P s k \<Longrightarrow> Q a s k) \<Longrightarrow> triple P (yield a) Q E"
  by (simp add: triple_def yield_def on_def)

lemma triple_abort: "(\<And>s k. P s k \<Longrightarrow> E s k) \<Longrightarrow> triple P (abort e) Q E"
  by (simp add: triple_def abort_def on_def)

lemma triple_outcome:
  assumes "triple P m Q E"
  shows "triple P (outcome m) (\<lambda>r. case r of Inl _ \<Rightarrow> E | Inr a \<Rightarrow> Q a) F"
  using assms unfolding triple_def outcome_def by (fastforce split: prod.splits sum.splits)

lemma triple_working:
  fixes m :: "('c, 's, 'a) ctl"
  assumes "triple P m Q E" and "\<And>s k. P s k \<Longrightarrow> E s k"
  shows "triple P (working m) Q E"
proof (rule tripleI)
  fix w :: "('c, 's) world"
  assume w: "on P w"
  then have "on P (w\<lparr>cw_left := n\<rparr>)" for n by (simp add: on_def)
  then show "case working m w of (Inl _, w') \<Rightarrow> on E w' | (Inr a, w') \<Rightarrow> on (Q a) w'"
    using assms w by (simp add: working_def triple_def on_def)
qed

lemma triple_if:
  "(b \<Longrightarrow> triple P m Q E) \<Longrightarrow> (\<not> b \<Longrightarrow> triple P n Q E) \<Longrightarrow> triple P (if b then m else n) Q E"
  by simp

lemma triple_require: "(b \<Longrightarrow> triple P m Q E) \<Longrightarrow> (\<And>s k. P s k \<Longrightarrow> E s k) \<Longrightarrow> triple P (require_ctl b e m) Q E"
  by (simp add: require_ctl_def triple_abort)

lemma triple_sum:
  "(\<And>e. r = Inl e \<Longrightarrow> triple P (f e) Q E) \<Longrightarrow> (\<And>a. r = Inr a \<Longrightarrow> triple P (g a) Q E) \<Longrightarrow> triple P (case_sum f g r) Q E"
  by (cases r) simp_all

lemma triple_option:
  "(x = None \<Longrightarrow> triple P m Q E) \<Longrightarrow> (\<And>a. x = Some a \<Longrightarrow> triple P (f a) Q E) \<Longrightarrow> triple P (case_option m f x) Q E"
  by (cases x) simp_all

lemma triple_prod: "(\<And>a b. x = (a, b) \<Longrightarrow> triple P (f a b) Q E) \<Longrightarrow> triple P (case_prod f x) Q E"
  by (cases x) simp_all

lemma triple_read_time: "(\<And>t s k. P s k \<Longrightarrow> Q t s k) \<Longrightarrow> triple P (read_time c) Q E"
  by (simp add: triple_def read_time_def on_def)

lemma triple_canonical: "(\<And>a s k. P s k \<Longrightarrow> Q a s k) \<Longrightarrow> (\<And>s k. P s k \<Longrightarrow> E s k) \<Longrightarrow> triple P (canonical_call f) Q E"
  unfolding canonical_call_def
  by (rule triple_working) (auto simp: triple_def on_def split: prod.splits sum.splits)

lemma triple_store:
  assumes "\<And>t s k a s'. P s k \<Longrightarrow> f t s = Inr (a, s') \<Longrightarrow> Q a s' k" and "\<And>s k. P s k \<Longrightarrow> E s k"
  shows "triple P (store_call c f) Q E"
  unfolding store_call_def
proof (rule triple_working [OF triple_bind])
  show "triple P (read_time c) (\<lambda>_. P) E" by (rule triple_read_time)
  show "triple P (\<lambda>w. case f t (cw_store w) of Inl e \<Rightarrow> (Inl (CtlStore e), w) | Inr (a, s) \<Rightarrow> (Inr a, w\<lparr>cw_store := s\<rparr>)) Q E" for t
    using assms by (auto simp: triple_def on_def split: sum.splits prod.splits)
qed (rule assms(2))

lemma triple_query:
  assumes "\<And>t s k a. P s k \<Longrightarrow> f t s = Inr a \<Longrightarrow> Q a s k" and "\<And>s k. P s k \<Longrightarrow> E s k"
  shows "triple P (store_query c f) Q E"
  unfolding store_query_def by (rule triple_store) (use assms in \<open>auto simp: result_iffs\<close>)

lemma triple_each:
  assumes "\<And>x b. x \<in> set xs \<Longrightarrow> triple (I b) (f x b) I E"
  shows "triple (I b) (each_ctl f xs b) I E"
  using assms
proof (induction xs arbitrary: b)
  case Nil
  then show ?case by (simp add: triple_yield)
next
  case (Cons x xs)
  have "triple (I a) (each_ctl f xs a) I E" for a
    by (rule Cons.IH) (simp add: Cons.prems)
  moreover have "triple (I b) (f x b) I E" by (simp add: Cons.prems)
  ultimately show ?case unfolding each_ctl.simps by (rule triple_bind [rotated])
qed

section \<open>Invariants\<close>

lemma keeps_bind [kept]: "keeps P m \<Longrightarrow> (\<And>a. keeps P (f a)) \<Longrightarrow> keeps P (bind_ctl m f)"
  by (rule triple_bind)

lemma keeps_yield [kept]: "keeps P (yield a)" and keeps_abort [kept]: "keeps P (abort e)"
  by (simp_all add: triple_yield triple_abort)

lemma keeps_outcome [kept]: "keeps P m \<Longrightarrow> keeps P (outcome m)"
  by (drule triple_outcome, erule triple_weaken) (auto split: sum.splits)

lemma keeps_ignore [kept]: "keeps P m \<Longrightarrow> keeps P (ignore m)"
  using keeps_after by (auto simp: triple_def ignore_def)

lemma keeps_each [kept]: "(\<And>x b. x \<in> set xs \<Longrightarrow> keeps P (f x b)) \<Longrightarrow> keeps P (each_ctl f xs b)"
  by (rule triple_each [of xs "\<lambda>_. P"])

lemma keeps_canonical [kept]: "keeps P (canonical_call f)" and keeps_query [kept]: "keeps P (store_query c g)"
  and keeps_time [kept]: "keeps P (read_time c)"
  by (auto intro: triple_canonical triple_query triple_read_time)

lemma triple_new_id: "triple P (new_id c) (\<lambda>_. P) E"
  by (simp add: triple_def on_def new_id_def)

lemmas keeps_new_id [kept] = triple_new_id [where E = P and P = P for P]

lemmas keeps_branches [kept] = triple_if [where Q = "\<lambda>_. P" and E = P and P = P for P]
  triple_require [where Q = "\<lambda>_. P" and E = P and P = P for P]
  triple_sum [where Q = "\<lambda>_. P" and E = P and P = P for P]
  triple_option [where Q = "\<lambda>_. P" and E = P and P = P for P]
  triple_prod [where Q = "\<lambda>_. P" and E = P and P = P for P]

section \<open>Quiet operations of the store\<close>

text \<open>What the outbox asks for, whatever became of it.\<close>

definition contents :: "op_store \<Rightarrow> outbox_input list" where
  "contents s = map outbox_input.truncate (st_outbox s)"

definition quiet :: "op_host \<Rightarrow> op_store \<Rightarrow> op_store \<Rightarrow> bool" where
  "quiet h s s' \<longleftrightarrow> store_run h s s' \<and> store_ok h s' \<and> store_le s s' \<and> contents s' = contents s \<and> rs_paused (st_runtime s') = rs_paused (st_runtime s)"

locale quiet_operation = store_operation h run
  for h :: op_host and run :: "op_store \<Rightarrow> (store_error, 'a \<times> op_store) result" +
  assumes stepped: "store_step h s (after run s)"
    and same: "run s = Inr (v, s') \<Longrightarrow> contents s' = contents s \<and> st_runtime s' = st_runtime s"
begin

lemma quietly: "store_ok h s \<Longrightarrow> run s = Inr (v, s') \<Longrightarrow> quiet h s s'"
  using keeps same stepped [of s] by (auto simp: quiet_def after_def)

end

lemma append_event_same: "appendEventTx h now ety aty aid payload s = Inr s' \<Longrightarrow> st_outbox s' = st_outbox s \<and> st_runtime s' = st_runtime s"
  by (auto simp: appendEventTx_def store_event_def Let_def result_iffs split: if_splits option.splits)

interpretation q_acquire: quiet_operation h "AcquireLease h clock subject holder ttl" for h clock subject holder ttl
  by unfold_locales (rule store_step.step_acquire, auto simp: AcquireLease_def Let_def result_iffs contents_def dest!: append_event_same)

interpretation q_renew: quiet_operation h "RenewLease clock l ttl" for h clock l ttl
  by unfold_locales (rule store_step.step_renew_lease, auto simp: RenewLease_def Let_def result_iffs contents_def)

interpretation q_release: quiet_operation h "ReleaseLease l" for h l
  by unfold_locales (rule store_step.step_release, auto simp: ReleaseLease_def result_iffs contents_def)

lemma dispatch_world:
  "fst (WithDispatchLease clock l ttl act s w) = fst (WithDispatchLease clock l ttl (map_option (\<lambda>a _. (fst (a w), ())) act) s ())"
  by (auto simp: WithDispatchLease_def Let_def split: option.splits prod.splits)

lemma dispatch_step: "store_step h s (after (\<lambda>s. fst (WithDispatchLease clock l ttl act s w)) s)"
  using store_step.step_dispatch [of h s clock l ttl "map_option (\<lambda>a _. (fst (a w), ())) act" "()"]
  by (simp add: after_def dispatch_world [of clock l ttl act s w])

interpretation q_dispatch: quiet_operation h "\<lambda>s. fst (WithDispatchLease clock l ttl act s w)" for h clock l ttl act w
  by unfold_locales (rule dispatch_step, auto simp: WithDispatchLease_def Let_def contents_def split: option.splits if_splits prod.splits)

interpretation q_finish: quiet_operation h "FinishJob h clock i token state res message" for h clock i token state res message
  by unfold_locales (rule store_step.step_finish, auto simp: FinishJob_def Let_def result_iffs contents_def split: option.splits if_splits sum.splits)

interpretation q_mark: quiet_operation h "MarkJobReconciled i token" for h i token
  by unfold_locales (rule store_step.step_mark, auto simp: MarkJobReconciled_def Let_def result_iffs contents_def)

interpretation q_bind: quiet_operation h "SetJobExternalRefs h clock i token task run" for h clock i token task run
  by unfold_locales (rule store_step.step_bind, auto simp: SetJobExternalRefs_def Let_def result_iffs contents_def split: if_splits sum.splits)

interpretation q_count: quiet_operation h "RecordDispatchOnce h clock i pool lane units" for h clock i pool lane units
  by unfold_locales (rule store_step.step_record_once, auto simp: RecordDispatchOnce_def Let_def result_iffs contents_def split: if_splits option.splits)

interpretation q_outbox: quiet_operation h "SetOutboxState clock i state retryAt message" for h clock i state retryAt message
  by unfold_locales (rule store_step.step_set_outbox, auto simp: SetOutboxState_def Let_def result_iffs contents_def update_where_def outbox_update_def
      outbox_input.truncate_def split: if_splits)

text \<open>A condition the quiet operations keep.\<close>

definition steady :: "op_host \<Rightarrow> 's condition \<Rightarrow> bool" where
  "steady h P \<longleftrightarrow> (\<forall>s k. P s k \<longrightarrow> store_ok h s) \<and> (\<forall>s s' k. P s k \<longrightarrow> quiet h s s' \<longrightarrow> P s' k)"

lemma steady_store:
  assumes "steady h P" and "\<And>t s v s'. store_ok h s \<Longrightarrow> f t s = Inr (v, s') \<Longrightarrow> quiet h s s'"
  shows "keeps P (store_call c f)"
  using assms by (intro triple_store) (auto simp: steady_def)

lemma steady_calls [kept]:
  assumes "steady (ct_host c) P"
  shows "keeps P (store_call c (\<lambda>t. AcquireLease (ct_host c) t subject holder ttl))"
    and "keeps P (store_call c (\<lambda>t. RenewLease t l ttl))"
    and "keeps P (store_call c (\<lambda>_. ReleaseLease l))"
    and "keeps P (store_call c (\<lambda>t. FinishJob (ct_host c) t i token state res message))"
    and "keeps P (store_call c (\<lambda>_. MarkJobReconciled i token))"
    and "keeps P (store_call c (\<lambda>t. SetJobExternalRefs (ct_host c) t i token task run))"
    and "keeps P (store_call c (\<lambda>t. RecordDispatchOnce (ct_host c) t i pool lane units))"
    and "keeps P (store_call c (\<lambda>t. SetOutboxState t i xstate retry message))"
  by (rule steady_store [OF assms], erule (1) q_acquire.quietly q_renew.quietly q_release.quietly q_finish.quietly
      q_mark.quietly q_bind.quietly q_count.quietly q_outbox.quietly)+

end
