(* ===== verification/Exp_Controller_Steps.thy ===== *)
theory Exp_Controller_Steps
  imports Exp_Controller_Logic
begin

text \<open>
  What every part of a tick keeps. The parts that neither prepare nor send a submission keep every
  \<open>steady\<close> condition; with the two remaining operations the whole tick does (locale
  \<open>tick_invariant\<close>).
\<close>

section \<open>Parts without submissions\<close>

lemma keeps_set_outbox [kept]: "steady (ct_host c) P \<Longrightarrow> keeps P (set_outbox c i state retry message)"
  unfolding set_outbox_def by (rule steady_calls)

lemma keeps_deliver [kept]: "steady (ct_host c) P \<Longrightarrow> keeps P (deliver c item i token sn task)"
  unfolding deliver_def by (intro kept)

lemma keeps_block [kept]: "steady (ct_host c) P \<Longrightarrow> keeps P (blockSubmission c item sn j)"
  unfolding blockSubmission_def by (intro kept)

lemma keeps_unless_fenced [kept]: "keeps P m \<Longrightarrow> keeps P (unless_fenced m)"
  unfolding unless_fenced_def by (intro kept)

lemma keeps_replay [kept]: "steady (ct_host c) P \<Longrightarrow> keeps P (replay_marker c j m)"
  unfolding replay_marker_def by (intro kept)

lemma keeps_settle_running [kept]: "steady (ct_host c) P \<Longrightarrow> keeps P (settle_running c tasks j u)"
  unfolding settle_running_def by (intro kept)

lemma keeps_settle_workers [kept]: "steady (ct_host c) P \<Longrightarrow> keeps P (settle_workers c tasks)"
  unfolding settle_workers_def by (intro kept)

lemma keeps_acknowledge [kept]: "steady (ct_host c) P \<Longrightarrow> keeps P (acknowledge c jobs i u)"
  unfolding acknowledge_def by (intro kept)

lemma keeps_settle_terminal [kept]: "steady (ct_host c) P \<Longrightarrow> keeps P (settle_terminal c tasks)"
  unfolding settle_terminal_def by (intro kept)

lemma keeps_failed [kept]: "steady (ct_host c) P \<Longrightarrow> keeps P (failed_outbox c item retry message st)"
  unfolding failed_outbox_def by (intro kept)

lemma keeps_units [kept]: "keeps P (activeUnitsForPool c tasks pool)"
  unfolding activeUnitsForPool_def by (intro kept)

lemma keeps_renew [kept]: "steady (ct_host c) P \<Longrightarrow> keeps P (renew_if_old c l)"
  unfolding renew_if_old_def by (intro kept)

lemma keeps_next [kept]: "keeps P (next_selection c pool lane)"
  unfolding next_selection_def by (intro kept)

lemma keeps_rounds [kept]:
  "(\<And>u. keeps P (f u)) \<Longrightarrow> keeps P m \<Longrightarrow> keeps P n \<Longrightarrow> keeps P (case r of Submitted u \<Rightarrow> f u | NextPool \<Rightarrow> m | Pausing \<Rightarrow> n)"
  by (simp split: round.split)

section \<open>The whole tick\<close>

locale tick_invariant =
  fixes c :: "('c, 's) controller" and P :: "'s condition"
  assumes steadily: "steady (ct_host c) P"
    and snapshot: "P s k \<Longrightarrow> P s (snd (sc_snapshot c k))"
    and prepares: "P s k \<Longrightarrow> PrepareSubmission (ct_host c) t input (ct_holder c) (ct_ttl c) factory s = Inr (v, s') \<Longrightarrow> P s' k"
    and submits: "keeps P (submitAuthorized c l d)"
begin

lemmas parts = kept submits steadily

lemma keeps_prepare: "keeps P (store_call c (\<lambda>t. PrepareSubmission (ct_host c) t input (ct_holder c) (ct_ttl c) factory))"
  by (rule triple_store) (auto intro: prepares)

lemma keeps_snapshot: "keeps P (scheduler_tasks c)"
  unfolding scheduler_tasks_def
proof (rule triple_working [OF tripleI])
  fix w :: "('c, 's) world"
  assume "on P w"
  then have "P (cw_store w) (snd (sc_snapshot c (cw_sched w)))" using snapshot by (simp add: on_def)
  then show "case (case sc_snapshot c (cw_sched w) of (r, k) \<Rightarrow> (r, w\<lparr>cw_sched := k\<rparr>)) of
      (Inl _, w') \<Rightarrow> on P w' | (Inr a, w') \<Rightarrow> on P w'"
    by (auto simp: on_def split: prod.splits sum.splits)
qed

lemma keeps_resubmit: "keeps P (resubmit c now item i j st)"
  unfolding resubmit_def by (intro parts)

lemma keeps_unsubmitted: "keeps P (recover_unsubmitted c now pools item i j st)"
  unfolding recover_unsubmitted_def Let_def by (intro parts keeps_resubmit)

lemma keeps_item: "keeps P (recover_item c now pools allowed item st)"
  unfolding recover_item_def by (intro parts keeps_unsubmitted)

lemma keeps_pages: "keeps P (recover_pages c n now pools allowed st)"
proof (induction n arbitrary: st)
  case 0
  show ?case by (simp add: kept)
next
  case (Suc n)
  show ?case unfolding recover_pages.simps by (intro parts keeps_item Suc)
qed

lemma keeps_outbox: "keeps P (recoverOutbox c tasks now pools allowed l)"
  unfolding recoverOutbox_def by (rule keeps_pages)

lemma keeps_new: "keeps P (submit_new c pool sn p j item g)"
  unfolding submit_new_def by (intro parts)

lemma keeps_selection: "keeps P (dispatch_selection c pool sn g)"
  unfolding dispatch_selection_def dispatch_prepared_def by (intro parts keeps_new keeps_prepare)

lemma keeps_round: "keeps P (dispatch_round c pool used g)"
  unfolding dispatch_round_def Let_def by (intro parts keeps_selection)

lemma keeps_loop: "keeps P (dispatch_loop c pool n used g)"
proof (induction n arbitrary: used g)
  case 0
  show ?case by (simp add: dispatch_loop.simps [of c pool 0] kept)
next
  case (Suc n)
  show ?case
    by (subst dispatch_loop.simps, simp only: nat.case) (intro parts keeps_round Suc)
qed

lemma keeps_pool: "keeps P (dispatch_pool c tasks pool st)"
  unfolding dispatch_pool_def by (intro parts keeps_loop)

lemma keeps_admit: "keeps P (admit c tasks l)"
  unfolding admit_def Let_def by (intro parts keeps_outbox keeps_pool)

lemma keeps_Tick: "keeps P (Tick c)"
  unfolding Tick_def tick_body_def by (intro parts keeps_snapshot keeps_admit)

lemma after_Tick: "P (cw_store w) (cw_sched w) \<Longrightarrow> P (cw_store (snd (Tick c w))) (cw_sched (snd (Tick c w)))"
  using keeps_after [OF keeps_Tick] by (simp add: on_def)

lemma keeps_Run: "keeps P (Run c n)"
proof (induction n)
  case 0
  show ?case by (simp add: kept)
next
  case (Suc n)
  show ?case unfolding Run.simps by (intro kept keeps_Tick Suc)
qed

lemma after_Run: "P (cw_store w) (cw_sched w) \<Longrightarrow> P (cw_store (snd (Run c n w))) (cw_sched (snd (Run c n w)))"
  using keeps_after [OF keeps_Run] by (simp add: on_def)

end

end
