(* ===== verification/Exp_Op_Job_Theorems.thy ===== *)
theory Exp_Op_Job_Theorems
  imports Exp_Op_Steps
begin

text \<open>
  What the job queue promises: its invariant in every reachable database, the life of a job over
  any execution, exclusive claims, final results, permanent bindings, and submissions that are
  atomic and repeatable.
\<close>

section \<open>Reading a job back\<close>

lemma scanJob_fields [simp]:
  "j_id (scanJob r) = j_id r" "j_key (scanJob r) = j_key r" "j_state (scanJob r) = j_state r"
  "j_token (scanJob r) = j_token r" "j_claimed_by (scanJob r) = j_claimed_by r"
  "j_result (scanJob r) = j_result r" "j_error (scanJob r) = j_error r" "j_pool (scanJob r) = j_pool r"
  "j_lane (scanJob r) = j_lane r" "j_task (scanJob r) = j_task r" "j_mlflow (scanJob r) = j_mlflow r"
  "j_expires (scanJob r) = j_expires r" "j_created (scanJob r) = j_created r" "j_attempts (scanJob r) = j_attempts r"
  by (simp_all add: scanJob_def job.defs)

lemma sameJobInput_scan [simp]: "sameJobInput (scanJob r) q = sameJobInput r q"
  by (simp add: sameJobInput_def scanJob_def job.defs)

lemma ok_jobs: "store_ok h s \<Longrightarrow> jobs_ok (st_jobs s)"
  by (simp add: store_ok_def)

lemma jobByID_iff:
  "jobs_ok (st_jobs s) \<Longrightarrow> jobByID i s = Inr job \<longleftrightarrow> (\<exists>r \<in> set (st_jobs s). j_id r = i \<and> job = scanJob r)"
  by (auto simp: jobByID_def jobs_lookup_id split: option.splits)
    (metis jobs_lookup_id lookup_row_None image_eqI option.inject option.distinct(1))+

lemma claim_update_fields [simp]:
  "j_id (claim_update holder expires now r) = j_id r" "j_state (claim_update holder expires now r) = JobRunning"
  "j_claimed_by (claim_update holder expires now r) = holder" "j_token (claim_update holder expires now r) = j_token r + 1"
  "j_pool (claim_update holder expires now r) = j_pool r" "j_lane (claim_update holder expires now r) = j_lane r"
  "j_key (claim_update holder expires now r) = j_key r"
  by (simp_all add: claim_update_def)

lemma queued_ok: "job_ok r \<Longrightarrow> j_state r = JobQueued \<Longrightarrow> j_token r = 0 \<and> j_attempts r = 0 \<and> claimable r"
  by (simp add: job_ok_def claimable_def)

text \<open>A job that was ever claimed is never queued again.\<close>

lemma never_queued_again: "job_le r r' \<Longrightarrow> j_state r \<noteq> JobQueued \<Longrightarrow> j_state r' \<noteq> JobQueued"
  by (auto simp: job_le_def state_rank_def split: if_splits)

lemma update_one_row:
  assumes "jobs_ok rows" and "r \<in> set rows" and "hit r" and "\<And>x. hit x \<Longrightarrow> j_id x = j_id r"
    and "\<And>x. j_id (upd x) = j_id x"
  shows "rows_affected hit rows = 1" and "lookup_row j_id (j_id r) (update_where hit upd rows) = Some (upd r)"
proof -
  have "distinct (map j_id rows)" using assms(1) by (simp add: jobs_ok_def)
  then show "rows_affected hit rows = 1" using assms(4,2,3) by (rule rows_affected_unique)
  have "lookup_row j_id (j_id r) rows = Some r" using assms(1,2) by (simp add: jobs_lookup_id)
  then show "lookup_row j_id (j_id r) (update_where hit upd rows) = Some (upd r)"
    by (intro keeps_column.lookup_hit [of j_id upd] keeps_column.intro assms(3,5))
qed

section \<open>Claims\<close>

text \<open>The row a successful claim took and what it became.\<close>

lemma ClaimJob_row:
  assumes ok: "jobs_ok (st_jobs s)" and run: "ClaimJob clock pool lane holder ttl s = Inr (job, s1)"
  obtains r where "r \<in> set (st_jobs s)" "j_pool r = pool" "j_lane r = lane" "claimable r" "holder \<noteq> []"
    "\<And>x. x \<in> set (st_jobs s) \<Longrightarrow> j_pool x = pool \<Longrightarrow> j_lane x = lane \<Longrightarrow> claimable x \<Longrightarrow>
        \<not> text_before j_created j_id x r"
    "s1 = s\<lparr>st_jobs := update_where (\<lambda>x. j_id x = j_id r \<and> j_state x = JobQueued)
       (claim_update holder (op_utc (time_add (op_utc clock) ttl)) (op_utc clock)) (st_jobs s)\<rparr>"
    "job = scanJob (claim_update holder (op_utc (time_add (op_utc clock) ttl)) (op_utc clock) r)"
    "lookup_row j_id (j_id r) (st_jobs s1) = Some (claim_update holder (op_utc (time_add (op_utc clock) ttl)) (op_utc clock) r)"
proof -
  define ready where "ready = filter (\<lambda>x. j_pool x = pool \<and> j_lane x = lane \<and> claimable x) (st_jobs s)"
  obtain r rest where order: "order_rows j_created j_id ready = r # rest"
    using run unfolding ClaimJob_def Let_def ready_def by (auto simp: guarded_Inr_iff split: list.splits)
  have "r \<in> set ready" using order set_order_rows [of j_created j_id ready] by auto
  then have r: "r \<in> set (st_jobs s)" "j_pool r = pool" "j_lane r = lane" "claimable r" by (simp_all add: ready_def)
  define upd where "upd = claim_update holder (op_utc (time_add (op_utc clock) ttl)) (op_utc clock)"
  define hit :: "job_row \<Rightarrow> bool" where "hit = (\<lambda>x. j_id x = j_id r \<and> j_state x = JobQueued)"
  have s1: "s1 = s\<lparr>st_jobs := update_where hit upd (st_jobs s)\<rparr>" and holder: "holder \<noteq> []"
    and job: "jobByID (j_id r) s1 = Inr job"
    using run order validateIdentifier_nonempty unfolding ClaimJob_def Let_def ready_def hit_def upd_def
    by (auto simp: result_iffs)
  have "lookup_row j_id (j_id r) (update_where hit upd (st_jobs s)) = Some (upd r)"
    by (rule update_one_row(2) [where hit = hit and upd = upd, OF ok r(1)])
      (use r in \<open>simp_all add: hit_def upd_def claimable_def\<close>)
  then have found: "lookup_row j_id (j_id r) (st_jobs s1) = Some (upd r)" by (simp add: s1)
  then have "job = scanJob (upd r)" using job by (simp add: jobByID_def)
  moreover have "\<not> text_before j_created j_id x r"
    if "x \<in> set (st_jobs s)" "j_pool x = pool" "j_lane x = lane" "claimable x" for x
    using order_rows_first(2) [OF order, of x] that by (simp add: ready_def)
  ultimately show thesis using that r holder s1 found unfolding upd_def hit_def by blast
qed

lemma ClaimJobByID_row:
  assumes ok: "jobs_ok (st_jobs s)" and run: "ClaimJobByID clock i holder ttl s = Inr (job, s1)"
  obtains r where "r \<in> set (st_jobs s)" "j_id r = i" "claimable r" "holder \<noteq> []"
    "job = scanJob (claim_update holder (op_utc (time_add (op_utc clock) ttl)) (op_utc clock) r)"
    "lookup_row j_id i (st_jobs s1) = Some (claim_update holder (op_utc (time_add (op_utc clock) ttl)) (op_utc clock) r)"
proof -
  define upd where "upd = claim_update holder (op_utc (time_add (op_utc clock) ttl)) (op_utc clock)"
  define hit :: "job_row \<Rightarrow> bool" where "hit = (\<lambda>r. j_id r = i \<and> claimable r)"
  have rows: "rows_affected hit (st_jobs s) = 1" and s1: "s1 = s\<lparr>st_jobs := update_where hit upd (st_jobs s)\<rparr>"
    and holder: "holder \<noteq> []" and job: "jobByID i s1 = Inr job"
    using run validateIdentifier_nonempty unfolding ClaimJobByID_def claim_one_def Let_def hit_def upd_def
    by (auto simp: result_iffs split: if_splits)
  from rows obtain r where r: "r \<in> set (st_jobs s)" "hit r" by (rule rows_affected_1)
  have "lookup_row j_id (j_id r) (update_where hit upd (st_jobs s)) = Some (upd r)"
    by (rule update_one_row(2) [where hit = hit and upd = upd, OF ok r]) (use r(2) in \<open>simp_all add: hit_def upd_def\<close>)
  then have found: "lookup_row j_id (j_id r) (st_jobs s1) = Some (upd r)" by (simp add: s1)
  have "j_id r = i" using r(2) by (simp add: hit_def)
  with found job have "job = scanJob (upd r)" by (simp add: jobByID_def)
  with that r holder found \<open>j_id r = i\<close> show thesis unfolding upd_def hit_def by blast
qed

lemma claimed_stays_claimed:
  assumes "store_ok h s" and "lookup_row j_id i (st_jobs s) = Some r" and "j_state r \<noteq> JobQueued"
    and "store_run h s s'"
  obtains r' where "lookup_row j_id i (st_jobs s') = Some r'" "j_state r' \<noteq> JobQueued" "job_le r r'" "job_ok r'"
proof -
  have "r \<in> set (st_jobs s)" "j_id r = i" using lookup_row_Some [OF assms(2)] by simp_all
  from run_job [OF assms(1,4) this(1)] obtain r' where
    "job_le r r'" "job_ok r'" "lookup_row j_id (j_id r) (st_jobs s') = Some r'" by metis
  with that \<open>j_id r = i\<close> never_queued_again assms(3) show thesis by metis
qed

lemma no_second_claim:
  assumes ok: "store_ok h s" and r: "lookup_row j_id i (st_jobs s) = Some r" "j_state r \<noteq> JobQueued"
    and later: "store_run h s s2"
  shows "ClaimJob clock pool lane holder ttl s2 = Inr (job2, s3) \<Longrightarrow> j_id job2 \<noteq> i"
    and "ClaimJobByID clock i holder ttl s2 \<noteq> Inr x"
proof -
  have jobs: "jobs_ok (st_jobs s2)" using store_run_keeps [OF later ok] ok_jobs by blast
  obtain r' where r': "lookup_row j_id i (st_jobs s2) = Some r'" "j_state r' \<noteq> JobQueued"
    using claimed_stays_claimed [OF ok r later] by metis
  have unique: "q = r'" if "q \<in> set (st_jobs s2)" "j_id q = i" for q
    using r'(1) that jobs_lookup_id [OF jobs] by (metis option.inject)
  show "j_id job2 \<noteq> i" if run: "ClaimJob clock pool lane holder ttl s2 = Inr (job2, s3)"
    using ClaimJob_row [OF jobs run] unique r'(2) by (metis claimable_def claim_update_fields(1) scanJob_fields(1))
  show "ClaimJobByID clock i holder ttl s2 \<noteq> Inr x"
    using ClaimJobByID_row [OF jobs] unique r'(2) by (metis claimable_def surj_pair)
qed

section \<open>Finishing\<close>

lemma finish_update_fields [simp]:
  "j_id (finish_update state res message now r) = j_id r" "j_state (finish_update state res message now r) = state"
  "j_token (finish_update state res message now r) = j_token r" "j_result (finish_update state res message now r) = res"
  by (simp_all add: finish_update_def)

text \<open>On a finished job the call compares and writes nothing.\<close>

lemma FinishJob_finished:
  assumes jobs: "jobs_ok (st_jobs s)" and r: "lookup_row j_id i (st_jobs s) = Some r" "job_finished (j_state r)"
  shows "FinishJob h clock i token state res message s =
    guarded (job_finished state) ErrInvalid
     (case normalizeJSON h res of None \<Rightarrow> Inl ErrInvalid
      | Some n \<Rightarrow> guarded (j_token r = token \<and> j_state r = state \<and> j_result r = n) ErrFenced (Inr (scanJob r, s)))"
proof -
  have none: "\<not> (j_id x = i \<and> j_token x = token \<and> j_state x = JobRunning)" if "x \<in> set (st_jobs s)" for x
    using that r jobs_lookup_id [OF jobs] finished_neq by (metis option.inject)
  then have "rows_affected (\<lambda>x. j_id x = i \<and> j_token x = token \<and> j_state x = JobRunning) (st_jobs s) = 0"
    by (simp add: rows_affected_0)
  moreover have "update_where (\<lambda>x. j_id x = i \<and> j_token x = token \<and> j_state x = JobRunning) f (st_jobs s) = st_jobs s" for f
    by (rule update_where_none [OF none])
  ultimately show ?thesis
    using r(1) by (simp add: FinishJob_def Let_def jobByID_def guarded_def job_finished_def split: option.splits)
qed

lemma FinishJob_row:
  assumes jobs: "jobs_ok (st_jobs s)" and run: "FinishJob h clock i token state res message s = Inr (job, s1)"
  obtains r where "lookup_row j_id i (st_jobs s1) = Some r" "job = scanJob r" "j_state r = state" "j_token r = token"
    "normalizeJSON h res = Some (j_result r)" "job_finished state"
proof -
  obtain n where n: "normalizeJSON h res = Some n" and state: "job_finished state"
    using run by (auto simp: FinishJob_def guarded_Inr_iff job_finished_def split: option.splits)
  define hit :: "job_row \<Rightarrow> bool" where "hit = (\<lambda>r. j_id r = i \<and> j_token r = token \<and> j_state r = JobRunning)"
  define upd where "upd = finish_update state n message (op_utc clock)"
  define s2 where "s2 = s\<lparr>st_jobs := update_where hit upd (st_jobs s)\<rparr>"
  have go: "if rows_affected hit (st_jobs s) \<noteq> 1 then
      \<exists>e. jobByID i s2 = Inr e \<and> j_token e = token \<and> j_state e = state \<and> j_result e = n \<and> job = e \<and> s1 = s2
    else jobByID i s2 = Inr job \<and> s1 = s2"
    using run n by (auto simp: FinishJob_def Let_def result_iffs hit_def upd_def s2_def split: sum.splits if_splits)
  show thesis
  proof (cases "rows_affected hit (st_jobs s) = 1")
    case True
    then obtain r where r: "r \<in> set (st_jobs s)" "hit r" by (rule rows_affected_1)
    have "lookup_row j_id (j_id r) (update_where hit upd (st_jobs s)) = Some (upd r)"
      by (rule update_one_row(2) [where hit = hit and upd = upd, OF jobs r(1)])
        (use r in \<open>simp_all add: hit_def upd_def\<close>)
    then have found: "lookup_row j_id i (st_jobs s2) = Some (upd r)" using r(2) by (simp add: s2_def hit_def)
    then have "job = scanJob (upd r)" using go True by (simp add: jobByID_def)
    with that [OF _ this] found go True n state r(2) show thesis by (simp add: upd_def hit_def)
  next
    case False
    with go obtain e where e: "jobByID i s2 = Inr e" "j_token e = token" "j_state e = state" "j_result e = n" "job = e" "s1 = s2"
      by auto
    then obtain r where "lookup_row j_id i (st_jobs s1) = Some r" and "job = scanJob r"
      by (auto simp: jobByID_def split: option.splits)
    have "normalizeJSON h res = Some (j_result r)" using n e(4,5) \<open>job = scanJob r\<close> by auto
    moreover have "j_state r = state" "j_token r = token" using e(2,3,5) \<open>job = scanJob r\<close> by auto
    ultimately show thesis using that \<open>lookup_row j_id i (st_jobs s1) = Some r\<close> \<open>job = scanJob r\<close> state by blast
  qed
qed

section \<open>Submissions\<close>

lemma outbox_lookup_key: "outbox_ok rows \<Longrightarrow> lookup_row o_key k rows = Some r \<longleftrightarrow> r \<in> set rows \<and> o_key r = k"
  by (intro lookup_row_iff) (simp add: outbox_ok_def)

lemma insert_new_present:
  "lookup_row key (key row) rows = Some r \<Longrightarrow> insert_new key pk row rows = Inr (rows, False)"
  by (drule lookup_row_Some) (auto simp: insert_new_def list_ex_iff)

lemma new_job_keys [simp]:
  "j_key (new_job input now) = j_key input" "j_id (new_job input now) = j_id input"
  "o_key (new_outbox xinput next now) = o_key xinput" "o_id (new_outbox xinput next now) = o_id xinput"
  by (simp_all add: new_job_def new_outbox_def)

text \<open>The claimed row after the switch of the submission.\<close>

lemma claim_for_submission_row:
  assumes jobs: "jobs_ok (st_jobs s)" and key: "lookup_row j_key k (st_jobs s) = Some q"
    and run: "claim_for_submission holder expires now (scanJob q) s = Inr (job', s')"
  obtains r where "lookup_row j_key k (st_jobs s') = Some r" "job' = scanJob r" "j_state r = JobRunning" "0 < j_token r"
    "sameJobInput q r"
proof (cases "j_state q = JobQueued")
  case True
  have q: "q \<in> set (st_jobs s)" "j_key q = k" using lookup_row_Some [OF key] by simp_all
  have zero: "j_token q = 0" using jobs_ok_row [OF jobs q(1)] queued_ok True by simp
  define hit :: "job_row \<Rightarrow> bool" where "hit = (\<lambda>r. j_id r = j_id q \<and> claimable r)"
  define upd where "upd = claim_update holder expires now"
  have s': "s' = s\<lparr>st_jobs := update_where hit upd (st_jobs s)\<rparr>"
    and rows: "rows_affected hit (st_jobs s) = 1" and job: "jobByID (j_id q) s' = Inr job'"
    using run True by (auto simp: claim_for_submission_def claim_one_def result_iffs hit_def upd_def)
  from rows obtain r where "r \<in> set (st_jobs s)" "hit r" by (rule rows_affected_1)
  then have hit: "hit q" using jobs_same_id [OF jobs _ q(1)] by (auto simp: hit_def)
  have "lookup_row j_id (j_id q) (update_where hit upd (st_jobs s)) = Some (upd q)"
    by (rule update_one_row(2) [where hit = hit and upd = upd, OF jobs q(1) hit]) (simp_all add: hit_def upd_def)
  then have "job' = scanJob (upd q)" using job s' by (simp add: jobByID_def)
  moreover have "lookup_row j_key k (update_where hit upd (st_jobs s)) = Some (upd q)"
    by (intro keeps_column.lookup_hit [of j_key upd] keeps_column.intro key hit) (simp add: upd_def)
  moreover have "sameJobInput q (upd q)" by (simp add: upd_def claim_update_def sameJobInput_def)
  ultimately show thesis using that [of "upd q"] s' zero by (simp add: upd_def)
next
  case False
  then have "s' = s" "job' = scanJob q" "j_state q = JobRunning" "0 < j_token q"
    using run by (cases "j_state q"; auto simp: claim_for_submission_def result_iffs)+
  with that [of q] key show thesis by (simp add: sameJobInput_def)
qed

lemma publish_intent_item:
  assumes run: "publish_intent h now job input s = Inr ((item, fresh), s')"
  obtains payload where "validateOutboxInput input" "normalizeJSON h (o_payload input) = Some payload"
    "lookup_row o_key (o_key input) (st_outbox s') = Some item" "item \<in> set (st_outbox s')" "o_operation item = j_id job"
    "o_kind item = o_kind input" "o_payload item = payload" "o_key item = o_key input"
proof -
  obtain payload rows where p: "validateOutboxInput input" "normalizeJSON h (o_payload input) = Some payload"
    "s' = s\<lparr>st_outbox := rows\<rparr>" "outboxByKey (o_key input) (s\<lparr>st_outbox := rows\<rparr>) = Inr item"
    "o_operation item = j_id job" "o_kind item = o_kind input" "o_payload item = payload"
    using run unfolding publish_intent_def Let_def
    by (auto simp: result_iffs split: option.splits prod.splits)
  then have found: "lookup_row o_key (o_key input) (st_outbox s') = Some item"
    by (auto simp: outboxByKey_def split: option.splits)
  with that p lookup_row_Some [OF found] show thesis by metis
qed

lemma publish_intent_again:
  assumes run: "publish_intent h now job input s = Inr ((item, fresh), s1)" and same: "st_outbox s2 = st_outbox s1"
  shows "publish_intent h now' job input s2 = Inr ((item, False), s2)"
  using run
proof (rule publish_intent_item)
  fix payload
  assume p: "validateOutboxInput input" "normalizeJSON h (o_payload input) = Some payload"
    "lookup_row o_key (o_key input) (st_outbox s1) = Some item" "o_operation item = j_id job"
    "o_kind item = o_kind input" "o_payload item = payload"
  have "insert_new o_key o_id (new_outbox (input\<lparr>o_payload := payload\<rparr>) now' now') (st_outbox s2) = Inr (st_outbox s2, False)"
    by (rule insert_new_present [where r = item]) (use p same in simp)
  then show ?thesis using p same by (simp add: publish_intent_def Let_def outboxByKey_def)
qed

section \<open>A concrete environment\<close>

definition plain_host :: op_host where
  "plain_host = \<lparr>oh_json = Some, oh_sha256 = (\<lambda>s. [char_of (length s mod 256)]), oh_lease_json = (\<lambda>_. ''{}''),
     oh_state_json = (\<lambda>_ _ _. ''{}''), oh_secret = (\<lambda>_. False), oh_round = Fin\<rparr>"

definition sample_clock :: go_time where
  "sample_clock = GoTime 63000000000000000000 0"

definition sample_job :: job_input where
  "sample_job = \<lparr>j_id = ''job-1'', j_key = ''key-1'', j_kind = ''experiment.run'', j_role = ''execute'',
     j_subject = ''e-1'', j_scope = [], j_pool = ''gpu'', j_lane = ''exploit'', j_units = 0,
     j_profile = ''default'', j_payload = [], j_max_attempts = 0\<rparr>"

definition sample_intent :: "job \<Rightarrow> outbox_input option" where
  "sample_intent job = Some \<lparr>o_id = ''out-1'', o_operation = j_id job, o_kind = ''pueue.submit'',
     o_key = ''out-key-1'', o_payload = []\<rparr>"

definition queued_store :: op_store where
  "queued_store = after (EnqueueJob plain_host sample_clock sample_job) initial_store"

definition running_store :: op_store where
  "running_store = after (ClaimJob sample_clock ''gpu'' ''exploit'' ''worker'' 60000000000) queued_store"

definition finished_store :: op_store where
  "finished_store = after (FinishJob plain_host sample_clock ''job-1'' 1 JobSucceeded [] []) running_store"

lemma queued_reachable: "reachable_store plain_host queued_store"
  unfolding queued_store_def by (intro reach_step [OF reach_initial] step_enqueue)

lemma running_reachable: "reachable_store plain_host running_store"
  unfolding running_store_def by (intro reach_step [OF queued_reachable] step_claim)

lemma finished_later: "store_run plain_host running_store finished_store"
  unfolding finished_store_def by (intro r_into_rtranclp step_finish)

section \<open>Properties\<close>

text \<open>
  C6: every database the operations can reach, from an empty one and in any interleaving of calls,
  satisfies the invariant: identifiers, idempotency keys, task numbers and lease subjects are
  unique; a job is queued with no holder and token 0, or was claimed exactly once; a lease time is
  set exactly while it runs; results exist only on finished jobs; the event chain is linked and
  every hash is the hash of its event.
\<close>

theorem reachable_store_invariant:
  assumes "reachable_store h s"
  shows "store_ok h s"
  using assms by (rule reachable_ok)

theorem reachable_store_invariant_witness:
  "store_ok plain_host running_store \<and> length (st_jobs running_store) = 1"
proof
  show "store_ok plain_host running_store" by (rule reachable_store_invariant) (rule running_reachable)
  show "length (st_jobs running_store) = 1" by code_simp
qed



lemma ClaimJob_first_cases:
  assumes "reachable_store h s"
  shows "ClaimJob clock pool lane holder ttl s = Inr (job, s1) \<Longrightarrow>
      j_state job = JobRunning \<and> j_claimed_by job = holder \<and> j_token job = 1 \<and> jobByID (j_id job) s1 = Inr job \<and>
      (\<exists>r \<in> set (st_jobs s). j_id r = j_id job \<and> j_pool r = pool \<and> j_lane r = lane \<and> claimable r \<and>
        (\<forall>x \<in> set (st_jobs s). j_pool x = pool \<and> j_lane x = lane \<and> claimable x \<longrightarrow> \<not> text_before j_created j_id x r))"
    and "ClaimJob clock pool lane holder ttl s = Inl e \<Longrightarrow> list_all validateIdentifier [pool, lane, holder] \<and> 0 < ttl \<Longrightarrow>
      e = ErrNotFound \<and> (\<forall>x \<in> set (st_jobs s). \<not> (j_pool x = pool \<and> j_lane x = lane \<and> claimable x))"
proof -
  have jobs: "jobs_ok (st_jobs s)" using reachable_ok [OF assms] ok_jobs by blast
  show "j_state job = JobRunning \<and> j_claimed_by job = holder \<and> j_token job = 1 \<and> jobByID (j_id job) s1 = Inr job \<and>
      (\<exists>r \<in> set (st_jobs s). j_id r = j_id job \<and> j_pool r = pool \<and> j_lane r = lane \<and> claimable r \<and>
        (\<forall>x \<in> set (st_jobs s). j_pool x = pool \<and> j_lane x = lane \<and> claimable x \<longrightarrow> \<not> text_before j_created j_id x r))"
    if "ClaimJob clock pool lane holder ttl s = Inr (job, s1)"
    using ClaimJob_row [OF jobs that]
  proof (cases)
    case (1 r)
    have "j_token r = 0" using queued_ok jobs_ok_row [OF jobs 1(1)] 1(4) by (simp add: claimable_def)
    then show ?thesis using 1 by (auto simp: jobByID_def)
  qed
  define ready where "ready = filter (\<lambda>x. j_pool x = pool \<and> j_lane x = lane \<and> claimable x) (st_jobs s)"
  show "e = ErrNotFound \<and> (\<forall>x \<in> set (st_jobs s). \<not> (j_pool x = pool \<and> j_lane x = lane \<and> claimable x))"
    if run: "ClaimJob clock pool lane holder ttl s = Inl e"
      and valid: "list_all validateIdentifier [pool, lane, holder] \<and> 0 < ttl"
  proof (cases "order_rows j_created j_id ready")
    case Nil
    then have "ready = []" by simp
    then have "\<forall>x \<in> set (st_jobs s). \<not> (j_pool x = pool \<and> j_lane x = lane \<and> claimable x)"
      by (simp add: ready_def filter_empty_conv)
    moreover have "e = ErrNotFound" using run valid Nil by (simp add: ClaimJob_def Let_def flip: ready_def)
    ultimately show ?thesis by blast
  next
    case (Cons r rest)
    have "r \<in> set ready" using Cons set_order_rows [of j_created j_id ready] by auto
    then have r: "r \<in> set (st_jobs s)" "claimable r" by (simp_all add: ready_def)
    define hit :: "job_row \<Rightarrow> bool" where "hit = (\<lambda>x. j_id x = j_id r \<and> j_state x = JobQueued)"
    define upd where "upd = claim_update holder (op_utc (time_add (op_utc clock) ttl)) (op_utc clock)"
    have "rows_affected hit (st_jobs s) = 1" "lookup_row j_id (j_id r) (update_where hit upd (st_jobs s)) = Some (upd r)"
      by (rule update_one_row [where hit = hit and upd = upd, OF jobs r(1)];
          use r in \<open>simp add: hit_def upd_def claimable_def\<close>)+
    then have "ClaimJob clock pool lane holder ttl s \<noteq> Inl e"
      using valid Cons by (simp add: ClaimJob_def Let_def jobByID_def hit_def upd_def flip: ready_def)
    with run show ?thesis by contradiction
  qed
qed

text \<open>
  A claim takes the ready job of the pool and lane that is first in stored creation order, and
  returns it running, held by the caller with fencing token 1; with valid arguments the only
  failure is that the lane has no ready job.
\<close>

theorem ClaimJob_takes_first:
  assumes "reachable_store h s"
  shows "case ClaimJob clock pool lane holder ttl s of
      Inr (job, s1) \<Rightarrow>
        j_state job = JobRunning \<and> j_claimed_by job = holder \<and> j_token job = 1 \<and> jobByID (j_id job) s1 = Inr job \<and>
        (\<exists>r \<in> set (st_jobs s). j_id r = j_id job \<and> j_pool r = pool \<and> j_lane r = lane \<and> claimable r \<and>
          (\<forall>x \<in> set (st_jobs s). j_pool x = pool \<and> j_lane x = lane \<and> claimable x \<longrightarrow> \<not> text_before j_created j_id x r))
    | Inl e \<Rightarrow> list_all validateIdentifier [pool, lane, holder] \<and> 0 < ttl \<longrightarrow>
        e = ErrNotFound \<and> (\<forall>x \<in> set (st_jobs s). \<not> (j_pool x = pool \<and> j_lane x = lane \<and> claimable x))"
  using ClaimJob_first_cases [OF assms] by (auto split: sum.splits)

theorem ClaimJob_takes_first_witness:
  "ClaimJob sample_clock ''cpu'' ''exploit'' ''worker'' 60000000000 queued_store = Inl ErrNotFound \<and>
   \<not> list_ex (\<lambda>x. j_pool x = ''cpu'' \<and> j_lane x = ''exploit'' \<and> claimable x) (st_jobs queued_store)"
proof -
  have run: "ClaimJob sample_clock ''cpu'' ''exploit'' ''worker'' 60000000000 queued_store = Inl ErrNotFound"
    by code_simp
  have valid: "list_all validateIdentifier [''cpu'', ''exploit'', ''worker''] \<and> (0 :: int) < 60000000000" by code_simp
  show ?thesis
    using ClaimJob_takes_first [OF queued_reachable, where clock = sample_clock and pool = "''cpu''" and
        lane = "''exploit''" and holder = "''worker''" and ttl = 60000000000]
    unfolding run sum.case list_ex_iff using valid by blast
qed

text \<open>
  C7: a job that was claimed, by lane or by identifier, is never claimed again: over any further
  execution no call of either claim returns it.
\<close>

theorem claims_are_exclusive:
  assumes "reachable_store h s" and "store_run h s1 s2"
    and "ClaimJob clock pool lane holder ttl s = Inr (job, s1) \<or> ClaimJobByID clock i holder ttl s = Inr (job, s1)"
  shows "ClaimJobByID clock2 (j_id job) holder2 ttl2 s2 \<noteq> Inr x \<and>
    (ClaimJob clock2 pool2 lane2 holder2 ttl2 s2 = Inr (job2, s3) \<longrightarrow> j_id job2 \<noteq> j_id job)"
proof -
  have ok: "store_ok h s" using reachable_ok [OF assms(1)] .
  have jobs: "jobs_ok (st_jobs s)" using ok_jobs [OF ok] .
  have ok1: "store_ok h s1" using assms(3) claim_job.keeps [OF ok] claim_id.keeps [OF ok] by blast
  obtain r where "lookup_row j_id (j_id job) (st_jobs s1) = Some r" "j_state r \<noteq> JobQueued"
    using assms(3)
  proof
    assume "ClaimJob clock pool lane holder ttl s = Inr (job, s1)"
    from ClaimJob_row [OF jobs this] that show thesis by force
  next
    assume "ClaimJobByID clock i holder ttl s = Inr (job, s1)"
    from ClaimJobByID_row [OF jobs this] that show thesis by force
  qed
  from no_second_claim [OF ok1 this assms(2)] show ?thesis by blast
qed

theorem claims_are_exclusive_witness:
  "\<forall>x. ClaimJobByID sample_clock ''job-1'' ''other'' 1000000000 finished_store \<noteq> Inr x"
proof -
  define job where "job = (case ClaimJob sample_clock ''gpu'' ''exploit'' ''worker'' 60000000000 queued_store of Inr (j, _) \<Rightarrow> j)"
  have run: "ClaimJob sample_clock ''gpu'' ''exploit'' ''worker'' 60000000000 queued_store = Inr (job, running_store)"
    unfolding job_def by code_simp
  have "j_id job = ''job-1''" unfolding job_def by code_simp
  with claims_are_exclusive [OF queued_reachable finished_later disjI1 [OF run]]
  have "ClaimJobByID sample_clock ''job-1'' ''other'' 1000000000 finished_store \<noteq> Inr x" for x by metis
  then show ?thesis by blast
qed

text \<open>
  C9: finishing is final and repeatable. A finish that succeeds has recorded exactly its state and
  its canonical result under the caller's token; after any further execution the same call succeeds
  again without writing anything, and a call with another state, token or result fails.
\<close>

theorem FinishJob_final:
  assumes "reachable_store h s" and "FinishJob h clock i token state res message s = Inr (job, s1)"
    and "store_run h s1 s2"
  shows "j_id job = i \<and> j_token job = token \<and> j_state job = state \<and> normalizeJSON h res = Some (j_result job) \<and>
    (\<exists>job2. FinishJob h clock2 i token state res message2 s2 = Inr (job2, s2) \<and> j_result job2 = j_result job) \<and>
    (\<forall>token2 state2 res2. token2 \<noteq> token \<or> state2 \<noteq> state \<or> normalizeJSON h res2 \<noteq> normalizeJSON h res \<longrightarrow>
      (\<exists>e. FinishJob h clock2 i token2 state2 res2 message2 s2 = Inl e))"
proof -
  have ok: "store_ok h s" using reachable_ok [OF assms(1)] .
  have ok1: "store_ok h s1" using finish_job.keeps [OF ok assms(2)] by blast
  from FinishJob_row [OF ok_jobs [OF ok] assms(2)] obtain r where
    r: "lookup_row j_id i (st_jobs s1) = Some r" "job = scanJob r" "j_state r = state" "j_token r = token"
      "normalizeJSON h res = Some (j_result r)" "job_finished state" .
  have "j_state r \<noteq> JobQueued" using r(3,6) by auto
  from claimed_stays_claimed [OF ok1 r(1) this assms(3)] obtain q where
    q: "lookup_row j_id i (st_jobs s2) = Some q" "job_le r q" .
  have same: "j_state q = state" "j_token q = token" "j_result q = j_result r"
    using q(2) r(3,4,6) \<open>j_state r \<noteq> JobQueued\<close> by (simp_all add: job_le_def)
  have jobs2: "jobs_ok (st_jobs s2)" using store_run_keeps [OF assms(3) ok1] ok_jobs by blast
  have id: "j_id job = i" using lookup_row_Some [OF r(1)] r(2) by simp
  note again = FinishJob_finished [OF jobs2 q(1), of h clock2]
  show ?thesis
    using r same id again by (auto simp: guarded_def split: option.splits)
qed

theorem FinishJob_final_witness:
  "\<exists>e. FinishJob plain_host sample_clock ''job-1'' 1 JobFailed [] [] finished_store = Inl e"
proof -
  define job where "job = (case FinishJob plain_host sample_clock ''job-1'' 1 JobSucceeded [] [] running_store of Inr (j, _) \<Rightarrow> j)"
  have run: "FinishJob plain_host sample_clock ''job-1'' 1 JobSucceeded [] [] running_store = Inr (job, finished_store)"
    unfolding job_def by code_simp
  from FinishJob_final [OF running_reachable run rtranclp.rtrancl_refl] show ?thesis by blast
qed

end
