(* ===== verification/Exp_Op_Submit_Theorems.thy ===== *)
theory Exp_Op_Submit_Theorems
  imports Exp_Op_Job_Theorems
begin

text \<open>
  The scheduler side of the store: submissions are atomic and repeatable, external bindings are
  permanent and unique, dispatched units are accounted once, and the outbox hands out the due
  intents of one checkout in order.
\<close>

section \<open>Submissions\<close>

lemma insert_present_job:
  "lookup_row j_key (j_key input) rows = Some r \<Longrightarrow> insert_new j_key j_id (new_job input now) rows = Inr (rows, False)"
  using insert_new_present [of j_key "new_job input now" rows r j_id] by simp

lemma sameJobInput_trans: "sameJobInput a b \<Longrightarrow> sameJobInput a c \<Longrightarrow> sameJobInput c b"
  by (simp add: sameJobInput_def)

lemma submission_stored:
  assumes ok: "store_ok h s" and run: "PrepareSubmission h clock input holder ttl (Some f) s = Inr ((job, item, dup), s1)"
  obtains payload r intent
  where "validateJobInput input" "normalizeJSON h (j_payload input) = Some payload"
    "lookup_row j_key (j_key (default_job_input (input\<lparr>j_payload := payload\<rparr>))) (st_jobs s1) = Some r"
    "job = scanJob r" "j_state r = JobRunning" "0 < j_token r"
    "sameJobInput r (default_job_input (input\<lparr>j_payload := payload\<rparr>))"
    "f job = Some intent" "item \<in> set (st_outbox s1)" "o_operation item = j_id job" "o_key item = o_key intent"
    "o_kind item = o_kind intent" "publish_intent h clock2 job intent s1 = Inr ((item, False), s1)"
  using run
proof (rule PrepareSubmission_stages)
  fix payload rows added job0 job' s2 g intent item' fresh
  let ?input = "default_job_input (input\<lparr>j_payload := payload\<rparr>)"
  assume valid: "validateJobInput input" and norm: "normalizeJSON h (j_payload input) = Some payload"
    and g: "Some f = Some g" and rows: "insert_new j_key j_id (new_job ?input (op_utc clock)) (st_jobs s) = Inr (rows, added)"
    and job0: "jobByKey (j_key ?input) (s\<lparr>st_jobs := rows\<rparr>) = Inr job0" and same: "sameJobInput job0 ?input"
    and claim: "claim_for_submission holder (op_utc (time_add (op_utc clock) ttl)) (op_utc clock) job0 (s\<lparr>st_jobs := rows\<rparr>) = Inr (job', s2)"
    and intent: "g job' = Some intent" and publish: "publish_intent h (op_utc clock) job' intent s2 = Inr ((item', fresh), s1)"
    and v: "(job, item, dup) = (job', item', \<not> added \<and> \<not> fresh)"
  have jobs: "jobs_ok rows" using insert_job_table(1) [OF rows ok_jobs [OF ok] new_job_ok [OF valid] new_job_fields(2)] .
  obtain q where q: "lookup_row j_key (j_key ?input) rows = Some q" "job0 = scanJob q"
    using job0 by (auto simp: jobByKey_def split: option.splits)
  have jobs': "jobs_ok (st_jobs (s\<lparr>st_jobs := rows\<rparr>))" and key': "lookup_row j_key (j_key ?input) (st_jobs (s\<lparr>st_jobs := rows\<rparr>)) = Some q"
    using jobs q by simp_all
  from claim_for_submission_row [OF jobs' key' claim [unfolded q(2)]] obtain r where
    r: "lookup_row j_key (j_key ?input) (st_jobs s2) = Some r" "job' = scanJob r" "j_state r = JobRunning" "0 < j_token r"
      "sameJobInput q r" .
  have stays: "st_jobs s1 = st_jobs s2"
    using publish by (auto simp: publish_intent_def Let_def result_iffs split: option.splits prod.splits)
  have "sameJobInput r ?input" using r(5) same q(2) sameJobInput_trans by fastforce
  moreover from publish obtain i where "item' \<in> set (st_outbox s1)" "o_operation item' = j_id job'"
    "o_key item' = o_key intent" "o_kind item' = o_kind intent"
    by (rule publish_intent_item)
  moreover have "publish_intent h clock2 job' intent s1 = Inr ((item', False), s1)"
    using publish_intent_again [OF publish refl] .
  ultimately show thesis using that [OF valid norm] r(1-4) stays g intent v by auto
qed


definition submitted_store :: op_store where
  "submitted_store = after (PrepareSubmission plain_host sample_clock sample_job ''worker'' 60000000000 (Some sample_intent)) initial_store"


section \<open>Bindings\<close>

text \<open>
  A binding call that succeeds has bound what it was given and kept what it was not given; a job
  bound to another task or run makes it fail with a conflict, a stale token with the fencing error,
  and a task number in use by another job is refused; no failure writes anything.
\<close>

theorem SetJobExternalRefs_permanent:
  assumes "reachable_store h s" and "lookup_row j_id i (st_jobs s) = Some r"
    and "validateIdentifier i" and "\<forall>t. task = Some t \<longrightarrow> 0 \<le> t" and "validateMLflowRunID h run"
  shows "case SetJobExternalRefs h clock i token task run s of
      Inr (_, s1) \<Rightarrow> j_token r = token \<and> (\<exists>r1. lookup_row j_id i (st_jobs s1) = Some r1 \<and>
        j_task r1 = (if task = None then j_task r else task) \<and> (j_task r \<noteq> None \<longrightarrow> j_task r1 = j_task r) \<and>
        j_mlflow r1 = (if run = [] then j_mlflow r else run) \<and> (j_mlflow r \<noteq> [] \<longrightarrow> j_mlflow r1 = j_mlflow r))
    | Inl e \<Rightarrow> (e = ErrFenced \<and> j_token r \<noteq> token) \<or>
        (e = ErrConflict \<and> j_token r = token \<and>
          (task \<noteq> None \<and> j_task r \<noteq> None \<and> j_task r \<noteq> task \<or> run \<noteq> [] \<and> j_mlflow r \<noteq> [] \<and> j_mlflow r \<noteq> run)) \<or>
        (e = ErrConstraint \<and> (\<exists>x \<in> set (st_jobs s). j_id x \<noteq> i \<and> task \<noteq> None \<and> j_task x = task))"
proof -
  have jobs: "jobs_ok (st_jobs s)" using reachable_ok [OF assms(1)] ok_jobs by blast
  have r: "r \<in> set (st_jobs s)" "j_id r = i" using lookup_row_Some [OF assms(2)] by simp_all
  have guard: "validateIdentifier i \<and> (case task of None \<Rightarrow> True | Some t \<Rightarrow> 0 \<le> t) \<and> validateMLflowRunID h run"
    using assms(3-5) by (simp split: option.splits)
  have read: "jobByID i s = Inr (scanJob r)" using assms(2) by (simp add: jobByID_def)
  show ?thesis
  proof (cases "refs_match i token task run r")
    case True
    have one: "rows_affected (refs_match i token task run) (st_jobs s) = 1"
      "lookup_row j_id (j_id r) (update_where (refs_match i token task run) (refs_update task run (op_utc clock)) (st_jobs s)) =
        Some (refs_update task run (op_utc clock) r)"
      by (rule update_one_row [where hit = "refs_match i token task run" and upd = "refs_update task run (op_utc clock)",
          OF jobs r(1) True]; use r(2) in \<open>simp add: refs_match_def refs_update_def\<close>)+
    then show ?thesis
      using guard True r(2)
      by (auto simp: SetJobExternalRefs_def refs_match_def refs_update_def task_taken_def list_ex_iff)
  next
    case False
    then have "\<not> refs_match i token task run x" if "x \<in> set (st_jobs s)" for x
      using jobs_same_id [OF jobs that r(1)] r(2) by (auto simp: refs_match_def)
    then have "rows_affected (refs_match i token task run) (st_jobs s) = 0" by (simp add: rows_affected_0)
    then show ?thesis using guard read False r(2)
      by (auto simp: SetJobExternalRefs_def refs_match_def)
  qed
qed

definition bound_store :: op_store where
  "bound_store = after (SetJobExternalRefs plain_host sample_clock ''job-1'' 1 (Some 7) []) running_store"

lemma bound_reachable: "reachable_store plain_host bound_store"
  unfolding bound_store_def by (intro reach_step [OF running_reachable] step_bind)

theorem SetJobExternalRefs_permanent_witness:
  "SetJobExternalRefs plain_host sample_clock ''job-1'' 1 (Some 8) [] bound_store = Inl ErrConflict \<and>
   (\<exists>r. lookup_row j_id ''job-1'' (st_jobs bound_store) = Some r \<and> j_task r = Some 7)"
proof -
  define r where "r = hd (st_jobs bound_store)"
  have r: "lookup_row j_id ''job-1'' (st_jobs bound_store) = Some r" "j_task r = Some 7" "j_token r = 1"
    unfolding r_def by code_simp+
  have "validateIdentifier ''job-1''" "validateMLflowRunID plain_host []" by code_simp+
  note law = SetJobExternalRefs_permanent [OF bound_reachable r(1) this(1) _ this(2), where task = "Some 8" and clock = sample_clock and token = 1]
  have "SetJobExternalRefs plain_host sample_clock ''job-1'' 1 (Some 8) [] bound_store = Inl ErrConflict" by code_simp
  with law r show ?thesis by simp
qed

section \<open>Fair accounting\<close>

definition unaccounted :: "string \<Rightarrow> job_row \<Rightarrow> bool" where
  "unaccounted i r \<longleftrightarrow> j_id r = i \<and> \<not> j_accounted r"

definition account_row :: "job_row \<Rightarrow> job_row" where
  "account_row r = r\<lparr>j_accounted := True\<rparr>"

lemma account_row_fields [simp]: "j_id (account_row r) = j_id r" "j_accounted (account_row r)"
  by (simp_all add: account_row_def)

lemma RecordDispatchOnce_Inr:
  assumes "RecordDispatchOnce h clock i pool lane units s = Inr (f, s')"
  shows "st_jobs s' = update_where (unaccounted i) account_row (st_jobs s)"
    and "\<exists>r \<in> set (st_jobs s). j_id r = i"
    and "rows_affected (unaccounted i) (st_jobs s) = 0 \<Longrightarrow> s' = s"
proof -
  define s1 where "s1 = s\<lparr>st_jobs := update_where (unaccounted i) account_row (st_jobs s)\<rparr>"
  have eqs: "(\<lambda>r. j_id r = i \<and> \<not> j_accounted r) = unaccounted i" "(\<lambda>r. r\<lparr>j_accounted := True\<rparr>) = account_row"
    by (auto simp: unaccounted_def account_row_def)
  have go: "if rows_affected (unaccounted i) (st_jobs s) = 0 then s' = s1 \<and> lookup_row j_id i (st_jobs s1) \<noteq> None
      else \<exists>g. s' = s1\<lparr>st_fairness := g\<rparr>"
    using assms unfolding RecordDispatchOnce_def Let_def eqs s1_def [symmetric]
    by (auto simp: guarded_Inr_iff split: option.splits if_splits)
  then show "st_jobs s' = update_where (unaccounted i) account_row (st_jobs s)" by (auto simp: s1_def split: if_splits)
  show same: "s' = s" if "rows_affected (unaccounted i) (st_jobs s) = 0"
    using go that update_where_none [of "st_jobs s" "unaccounted i"] by (simp add: s1_def rows_affected_0)
  show "\<exists>r \<in> set (st_jobs s). j_id r = i"
  proof (cases "rows_affected (unaccounted i) (st_jobs s) = 0")
    case True
    with go same have "lookup_row j_id i (st_jobs s) \<noteq> None" by simp
    then show ?thesis unfolding lookup_row_None by blast
  next
    case False
    then show ?thesis by (auto simp: rows_affected_0 unaccounted_def)
  qed
qed

lemma account_table: "r \<in> set (update_where (unaccounted i) account_row rows) \<Longrightarrow> j_id r = i \<Longrightarrow> j_accounted r"
proof -
  assume r: "r \<in> set (update_where (unaccounted i) account_row rows)" and id: "j_id r = i"
  then obtain q where q: "r = (if unaccounted i q then account_row q else q)" by (auto simp: set_update_where)
  show "j_accounted r"
  proof (cases "unaccounted i q")
    case True
    with q show ?thesis by simp
  next
    case False
    then have "r = q" using q by simp
    with False id show ?thesis by (simp add: unaccounted_def)
  qed
qed

text \<open>
  A dispatched job is accounted at most once: after a successful accounting, and any further
  execution, every later call for the job, whatever its pool, lane, units or time, leaves the
  database as it finds it.
\<close>

theorem RecordDispatchOnce_at_most_once:
  assumes "reachable_store h s" and "RecordDispatchOnce h clock i pool lane units s = Inr (f1, s1)"
    and "store_run h s1 s2" and "RecordDispatchOnce h clock2 i pool2 lane2 units2 s2 = Inr (f2, s3)"
  shows "s3 = s2"
proof -
  have ok: "store_ok h s" using reachable_ok [OF assms(1)] .
  have ok1: "store_ok h s1" using count_once.keeps [OF ok assms(2)] by blast
  note first = RecordDispatchOnce_Inr [OF assms(2)]
  obtain r where "r \<in> set (st_jobs s)" "j_id r = i" using first(2) by blast
  then have "(if unaccounted i r then account_row r else r) \<in> set (st_jobs s1)"
    "j_id (if unaccounted i r then account_row r else r) = i"
    unfolding first(1) by (simp_all add: update_where_image)
  then obtain r1 where r1: "r1 \<in> set (st_jobs s1)" "j_id r1 = i" by blast
  have "j_accounted r1" using r1 account_table unfolding first(1) by blast
  from run_job [OF ok1 assms(3) r1(1)] obtain r2 where
    r2: "job_le r1 r2" "lookup_row j_id i (st_jobs s2) = Some r2" using r1(2) by metis
  have "j_accounted r2" using r2(1) \<open>j_accounted r1\<close> by (simp add: job_le_def)
  have jobs2: "jobs_ok (st_jobs s2)" using store_run_keeps [OF assms(3) ok1] ok_jobs by blast
  have "\<not> unaccounted i x" if "x \<in> set (st_jobs s2)" for x
    using that r2(2) \<open>j_accounted r2\<close> jobs_lookup_id [OF jobs2] unfolding unaccounted_def by (metis option.inject)
  then have "rows_affected (unaccounted i) (st_jobs s2) = 0" by (simp add: rows_affected_0)
  then show ?thesis using RecordDispatchOnce_Inr(3) [OF assms(4)] by blast
qed

theorem RecordDispatchOnce_at_most_once_witness:
  "after (RecordDispatchOnce plain_host sample_clock ''job-1'' ''cpu'' ''explore'' (Fin 5))
     (after (RecordDispatchOnce plain_host sample_clock ''job-1'' ''gpu'' ''exploit'' (Fin 2)) running_store) =
   after (RecordDispatchOnce plain_host sample_clock ''job-1'' ''gpu'' ''exploit'' (Fin 2)) running_store"
proof -
  define one where "one = after (RecordDispatchOnce plain_host sample_clock ''job-1'' ''gpu'' ''exploit'' (Fin 2)) running_store"
  define two where "two = after (RecordDispatchOnce plain_host sample_clock ''job-1'' ''cpu'' ''explore'' (Fin 5)) one"
  define f1 where "f1 = Fairness ''gpu'' one"
  define f2 where "f2 = Fairness ''cpu'' two"
  have "RecordDispatchOnce plain_host sample_clock ''job-1'' ''gpu'' ''exploit'' (Fin 2) running_store = Inr (f1, one)"
    unfolding f1_def one_def by code_simp
  moreover have "RecordDispatchOnce plain_host sample_clock ''job-1'' ''cpu'' ''explore'' (Fin 5) one = Inr (f2, two)"
    unfolding f2_def two_def one_def by code_simp
  ultimately have "two = one"
    using RecordDispatchOnce_at_most_once [OF running_reachable _ rtranclp.rtrancl_refl] by blast
  then show ?thesis unfolding two_def one_def .
qed

section \<open>The outbox of one checkout\<close>

text \<open>
  The due intents of a scope are pending or failed intents whose retry text has come, of jobs of
  that scope, in stored creation order, at most the limit (100 for a limit out of range); when
  there are fewer than the limit, every such intent is returned, whatever other scopes hold.
\<close>

theorem DueOutboxForScope_exact:
  assumes "DueOutboxForScope clock scope limit s = Inr items"
  shows "(\<forall>x \<in> set items. x \<in> set (st_outbox s) \<and> outbox_due clock x \<and>
      (\<exists>j \<in> set (st_jobs s). j_id j = o_operation x \<and> j_scope j = scope)) \<and>
    sorted_wrt (\<lambda>x y. \<not> text_before o_created o_id y x) items \<and>
    length items \<le> outbox_limit limit \<and>
    (length items < outbox_limit limit \<longrightarrow>
      (\<forall>x \<in> set (st_outbox s). outbox_due clock x \<and> in_scope scope s x \<longrightarrow> x \<in> set items)) \<and>
    (\<forall>x \<in> set (st_outbox s). outbox_due clock x \<and> in_scope scope s x \<and> x \<notin> set items \<longrightarrow>
      (\<forall>y \<in> set items. \<not> text_before o_created o_id x y))"
proof -
  define all where "all = order_rows o_created o_id (filter (\<lambda>item. in_scope scope s item \<and> outbox_due clock item) (st_outbox s))"
  have items: "items = take (outbox_limit limit) all"
    using assms by (simp add: DueOutboxForScope_def guarded_Inr_iff all_def)
  have mem: "x \<in> set all \<longleftrightarrow> x \<in> set (st_outbox s) \<and> in_scope scope s x \<and> outbox_due clock x" for x
    by (simp add: all_def)
  have sorted: "sorted_wrt (\<lambda>x y. \<not> text_before o_created o_id y x) all"
    using order_rows_sorted unfolding no_inversion_def all_def .
  have split: "all = items @ drop (outbox_limit limit) all" by (simp add: items)
  have "sorted_wrt (\<lambda>x y. \<not> text_before o_created o_id y x) items"
    and rest: "\<forall>y \<in> set items. \<forall>x \<in> set (drop (outbox_limit limit) all). \<not> text_before o_created o_id x y"
    using sorted unfolding items by (metis append_take_drop_id sorted_wrt_append)+
  moreover have "set items \<subseteq> set all" unfolding items by (rule set_take_subset)
  moreover have "x \<in> set items \<or> x \<in> set (drop (outbox_limit limit) all)" if "x \<in> set all" for x
    using that split by (metis Un_iff set_append)
  moreover have "length items < outbox_limit limit \<Longrightarrow> drop (outbox_limit limit) all = []" by (simp add: items)
  ultimately show ?thesis
    unfolding items [symmetric] using mem
    by (auto simp: in_scope_def list_ex_iff items) (force simp: items)+
qed

definition scoped_store :: op_store where
  "scoped_store = after (PrepareSubmission plain_host sample_clock (sample_job\<lparr>j_scope := ''scope-1''\<rparr>) ''worker''
     60000000000 (Some sample_intent)) initial_store"

theorem DueOutboxForScope_exact_witness:
  "\<exists>x. DueOutboxForScope sample_clock ''scope-1'' 10 scoped_store = Inr [x] \<and>
     (\<exists>j \<in> set (st_jobs scoped_store). j_id j = o_operation x \<and> j_scope j = ''scope-1'')"
proof -
  define x where "x = hd (st_outbox scoped_store)"
  have "st_outbox scoped_store = [x]" "in_scope ''scope-1'' scoped_store x" "validateIdentifier ''scope-1''"
    "outbox_limit 10 = 10" "o_state x = OutboxPending" "o_next x = op_utc sample_clock" unfolding x_def by code_simp+
  then have run: "DueOutboxForScope sample_clock ''scope-1'' 10 scoped_store = Inr [x]"
    by (simp add: DueOutboxForScope_def outbox_due_def order_rows_def)
  have "x \<in> set [x]" by simp
  with conjunct1 [OF DueOutboxForScope_exact [OF run]]
  have "\<exists>j \<in> set (st_jobs scoped_store). j_id j = o_operation x \<and> j_scope j = ''scope-1''" by blast
  with run show ?thesis by blast
qed

end
