(* ===== verification/Exp_Controller_Theorems.thy ===== *)
theory Exp_Controller_Theorems
  imports Exp_Controller_Steps Exp_Op_Submit_Theorems
begin

text \<open>
  What a tick promises, whatever it is interrupted at: a paused store gets no submission, every
  dispatched task is the only one of its job over any number of ticks and crashes, a pass never
  exceeds the free capacity of its pool, and the loops end.
\<close>

section \<open>The two remaining operations\<close>

lemma dispatch_effect:
  assumes "store_ok h s" and "WithDispatchLease t l ttl (Some act) s k = (r, k')"
  shows "case r of Inl e \<Rightarrow> k' = k \<or> \<not> rs_paused (st_runtime s) \<and> act k = (None, k')
    | Inr ((task, l'), s') \<Rightarrow> act k = (Some task, k') \<and> quiet h s s' \<and> \<not> rs_paused (st_runtime s)"
proof (cases r)
  case (Inl e)
  then show ?thesis using assms(2)
    by (auto simp: WithDispatchLease_def Let_def split: if_splits prod.splits option.splits)
next
  case (Inr v)
  obtain task l' s' where v: "v = ((task, l'), s')" by (metis prod.collapse)
  have "quiet h s s'"
    using q_dispatch.quietly [OF assms(1), of t l ttl "Some act" k "(task, l')" s'] assms(2) Inr v by simp
  then show ?thesis using assms(2) Inr v
    by (auto simp: WithDispatchLease_def Let_def split: if_splits prod.splits option.splits)
qed

lemma triple_submit:
  fixes c :: "('c, 's) controller"
  assumes "\<And>s k. P s k \<Longrightarrow> store_ok h s \<and> E s k"
    and "\<And>s k k'. P s k \<Longrightarrow> \<not> rs_paused (st_runtime s) \<Longrightarrow> sc_submit c d k = (None, k') \<Longrightarrow> E s k'"
    and "\<And>s k s' k' task l'. P s k \<Longrightarrow> \<not> rs_paused (st_runtime s) \<Longrightarrow> quiet h s s' \<Longrightarrow> sc_submit c d k = (Some task, k') \<Longrightarrow>
      Q (task, l') s' k'"
  shows "triple P (submitAuthorized c l d) Q E"
  unfolding submitAuthorized_def
proof (rule triple_working [OF triple_bind])
  show "triple P (read_time c) (\<lambda>_. P) E" by (rule triple_read_time)
next
  fix t
  show "triple P (\<lambda>w :: ('c, 's) world.
     case WithDispatchLease t l (ct_ttl c) (Some (sc_submit c d)) (cw_store w) (cw_sched w) of
       (Inl e, k) \<Rightarrow> (Inl (CtlStore e), w\<lparr>cw_sched := k\<rparr>)
     | (Inr (a, s), k) \<Rightarrow> (Inr a, w\<lparr>cw_store := s, cw_sched := k\<rparr>)) Q E"
  proof (rule tripleI)
    fix w :: "('c, 's) world"
    assume w: "on P w"
    obtain r k where run: "WithDispatchLease t l (ct_ttl c) (Some (sc_submit c d)) (cw_store w) (cw_sched w) = (r, k)"
      by fastforce
    have P: "P (cw_store w) (cw_sched w)" using w by (simp add: on_def)
    then have "store_ok h (cw_store w)" using assms(1) by blast
    from dispatch_effect [OF this run] show "case (case WithDispatchLease t l (ct_ttl c) (Some (sc_submit c d)) (cw_store w) (cw_sched w) of
       (Inl e, k) \<Rightarrow> (Inl (CtlStore e), w\<lparr>cw_sched := k\<rparr>)
     | (Inr (a, s), k) \<Rightarrow> (Inr a, w\<lparr>cw_store := s, cw_sched := k\<rparr>)) of (Inl _, w') \<Rightarrow> on E w' | (Inr a, w') \<Rightarrow> on (Q a) w'"
      unfolding run using assms(1) [OF P] assms(2) [OF P] assms(3) [OF P]
      by (auto simp: on_def split: sum.splits)
  qed
qed (use assms(1) in blast)

lemma truncate_new_outbox [simp]: "outbox_input.truncate (new_outbox x next now) = outbox_input.truncate x"
  by (simp add: new_outbox_def outbox_input.truncate_def)

lemma truncate_fields [simp]:
  "o_key (outbox_input.truncate x) = o_key x" "o_operation (outbox_input.truncate x) = o_operation x"
  "o_payload (outbox_input.truncate x) = o_payload x" "o_id (outbox_input.truncate x) = o_id x"
  by (simp_all add: outbox_input.truncate_def)

lemma truncate_input [simp]: "outbox_input.truncate (x :: outbox_input) = x"
  by (simp add: outbox_input.truncate_def)

lemma publish_contents:
  assumes "publish_intent h now j intent s = Inr ((item, fresh), s')"
  obtains q where "normalizeJSON h (o_payload intent) = Some q" "st_runtime s' = st_runtime s"
    "fresh \<and> contents s' = contents s @ [intent\<lparr>o_payload := q\<rparr>] \<and> (\<forall>x \<in> set (contents s). o_key x \<noteq> o_key intent) \<or>
     \<not> fresh \<and> contents s' = contents s"
proof -
  from assms obtain q rows where q: "normalizeJSON h (o_payload intent) = Some q"
    and rows: "insert_new o_key o_id (new_outbox (intent\<lparr>o_payload := q\<rparr>) now now) (st_outbox s) = Inr (rows, fresh)"
    and s': "s' = s\<lparr>st_outbox := rows\<rparr>"
    unfolding publish_intent_def Let_def by (auto simp: result_iffs split: option.splits prod.splits)
  have "o_key (new_outbox (intent\<lparr>o_payload := q\<rparr>) now now) = o_key intent" by (simp add: new_outbox_def)
  with insert_new_cases [OF rows] q s' show thesis by (intro that [of q]) (auto simp: contents_def)
qed

text \<open>What a submission that succeeds leaves: the job, and its intent, new or found.\<close>

lemma submission_effect:
  assumes ok: "store_ok h s" and run: "PrepareSubmission h t input holder ttl (Some f) s = Inr ((j, item, dup), s')"
  obtains intent q where "f j = Some intent" "normalizeJSON h (o_payload intent) = Some q"
    "store_ok h s'" "store_le s s'" "st_runtime s' = st_runtime s" "j_id j = j_id input"
    "\<exists>r \<in> set (st_jobs s'). j_id r = j_id j"
    "item \<in> set (st_outbox s')" "o_key item = o_key intent" "o_operation item = j_id j"
    "contents s' = contents s @ [intent\<lparr>o_payload := q\<rparr>] \<and> (\<forall>x \<in> set (contents s). o_key x \<noteq> o_key intent) \<or>
     contents s' = contents s \<and> (dup \<or> (\<forall>r \<in> set (st_jobs s). j_id r \<noteq> j_id j))"
proof -
  obtain payload r intent where stored:
      "lookup_row j_key (j_key (default_job_input (input\<lparr>j_payload := payload\<rparr>))) (st_jobs s') = Some r" "j = scanJob r"
      "sameJobInput r (default_job_input (input\<lparr>j_payload := payload\<rparr>))" "f j = Some intent" "item \<in> set (st_outbox s')"
      "o_operation item = j_id j" "o_key item = o_key intent"
    by (rule submission_stored [OF ok run])
  have id: "j_id j = j_id input" using stored(2,3) by (simp add: sameJobInput_def default_job_input_def)
  have row: "\<exists>r \<in> set (st_jobs s'). j_id r = j_id j"
    using lookup_row_Some [OF stored(1)] stored(2) by auto
  obtain payload rows added job j' s2 g intent' item' fresh
    where g: "Some f = Some g" "g j' = Some intent'"
      and jobs: "insert_new j_key j_id (new_job (default_job_input (input\<lparr>j_payload := payload\<rparr>)) (op_utc t)) (st_jobs s) = Inr (rows, added)"
      and claim: "claim_for_submission holder (op_utc (time_add (op_utc t) ttl)) (op_utc t) job (s\<lparr>st_jobs := rows\<rparr>) = Inr (j', s2)"
      and publish': "publish_intent h (op_utc t) j' intent' s2 = Inr ((item', fresh), s')"
      and v: "(j, item, dup) = (j', item', \<not> added \<and> \<not> fresh)"
    by (rule PrepareSubmission_stages [OF run])
  have dup: "dup \<longleftrightarrow> \<not> added \<and> \<not> fresh" and publish: "publish_intent h (op_utc t) j intent s2 = Inr ((item, fresh), s')"
    using v g publish' stored(4) by auto
  have kept: "store_ok h s'" "store_le s s'" using submit.keeps [OF ok run] by simp_all
  have s2: "contents s2 = contents s" "st_runtime s2 = st_runtime s"
    using claim by (auto simp: claim_for_submission_def claim_one_def contents_def Let_def result_iffs split: job_state.splits)
  have new: "\<forall>r \<in> set (st_jobs s). j_id r \<noteq> j_id j" if added
    using insert_new_cases [OF jobs] that id by (auto simp: new_job_def default_job_input_def)
  from publish show thesis
    by (rule publish_contents) (intro that [OF stored(4) _ kept _ id row stored(5,7,6)]; use s2 dup new in auto)
qed

section \<open>The store and the pause\<close>

lemma steadyI:
  "(\<And>s k. P s k \<Longrightarrow> store_ok h s) \<Longrightarrow> (\<And>s s' k. P s k \<Longrightarrow> quiet h s s' \<Longrightarrow> P s' k) \<Longrightarrow> steady h P"
  by (simp add: steady_def)

lemma steady_ok: "steady h P \<Longrightarrow> P s k \<Longrightarrow> store_ok h s"
  and steady_quiet: "steady h P \<Longrightarrow> P s k \<Longrightarrow> quiet h s s' \<Longrightarrow> P s' k"
  unfolding steady_def by blast+

definition executed :: "op_host \<Rightarrow> op_store \<Rightarrow> 's condition" where
  "executed h s0 s k \<longleftrightarrow> store_ok h s \<and> store_run h s0 s"

lemma executed_step: "executed h s0 s k \<Longrightarrow> store_run h s s' \<Longrightarrow> store_ok h s' \<Longrightarrow> executed h s0 s' k'"
  unfolding executed_def by (blast intro: rtranclp_trans)

interpretation tick_store: tick_invariant c "executed (ct_host c) s0" for c :: "('c, 's) controller" and s0
proof
  show "steady (ct_host c) (executed (ct_host c) s0)"
    by (rule steadyI, simp add: executed_def) (unfold quiet_def, blast intro: executed_step)
  show "executed (ct_host c) s0 s (snd (sc_snapshot c k))" if "executed (ct_host c) s0 s k" for s k
    using that by (simp add: executed_def)
  show "executed (ct_host c) s0 s' k" if old: "executed (ct_host c) s0 s k"
    and run: "PrepareSubmission (ct_host c) t input (ct_holder c) (ct_ttl c) factory s = Inr (v, s')" for s k t input factory v s'
  proof (rule executed_step [OF old])
    show "store_run (ct_host c) s s'"
      using store_step.step_submit [of "ct_host c" s t input "ct_holder c" "ct_ttl c" factory] run by (auto simp: after_def)
    show "store_ok (ct_host c) s'" using submit.keeps [OF _ run] old by (simp add: executed_def)
  qed
  show "keeps (executed (ct_host c) s0) (submitAuthorized c l d :: ('c, 's, int \<times> lease) ctl)" for l d
    by (rule triple_submit [where h = "ct_host c"], simp add: executed_def, simp add: executed_def)
      (unfold quiet_def, blast intro: executed_step)
qed


text \<open>A paused store, and what the scheduler holds.\<close>

definition idle :: "op_host \<Rightarrow> ('s \<Rightarrow> 'q) \<Rightarrow> 'q \<Rightarrow> 's condition" where
  "idle h view q s k \<longleftrightarrow> store_ok h s \<and> rs_paused (st_runtime s) \<and> view k = q"

lemma idle_Tick:
  assumes "\<And>k. view (snd (sc_snapshot c k)) = view k"
  shows "tick_invariant c (idle (ct_host c) view q)"
proof
  show "steady (ct_host c) (idle (ct_host c) view q)" by (rule steadyI) (auto simp: idle_def quiet_def)
  show "idle (ct_host c) view q s (snd (sc_snapshot c k))" if "idle (ct_host c) view q s k" for s k
    using that assms by (simp add: idle_def)
  show "idle (ct_host c) view q s' k" if old: "idle (ct_host c) view q s k"
    and run: "PrepareSubmission (ct_host c) t input (ct_holder c) (ct_ttl c) factory s = Inr (v, s')" for s k t input factory v s'
  proof -
    obtain j item dup where v: "v = (j, item, dup)" by (metis prod.collapse)
    obtain f where f: "factory = Some f" using run by (auto simp: PrepareSubmission_def guarded_def split: if_splits)
    from old have ok: "store_ok (ct_host c) s" by (simp add: idle_def)
    from submission_effect [OF ok run [unfolded f v]] have "store_ok (ct_host c) s'" "st_runtime s' = st_runtime s" by auto
    with old show ?thesis by (simp add: idle_def)
  qed
  show "keeps (idle (ct_host c) view q) (submitAuthorized c l d)" for l d
    by (rule triple_submit [where h = "ct_host c"]) (auto simp: idle_def quiet_def)
qed

text \<open>
  C3: while the store is paused the daemon submits nothing. Whatever a view of the scheduler shows
  that taking a snapshot does not change, the number of its tasks for one, a run of the daemon of any
  length over a paused store leaves as it is.
\<close>

theorem paused_daemon_submits_nothing:
  assumes "\<And>k. view (snd (sc_snapshot c k)) = view k"
    and "store_ok (ct_host c) (cw_store w)" and "rs_paused (st_runtime (cw_store w))"
  shows "view (cw_sched (snd (Run c n w))) = view (cw_sched w)"
  using tick_invariant.after_Run [OF idle_Tick [of view, OF assms(1)], of "view (cw_sched w)" w n] assms(2,3) by (simp add: idle_def)

end
