(* ===== verification/Exp_Controller_Once.thy ===== *)
theory Exp_Controller_Once
  imports Exp_Controller_Theorems
begin

text \<open>
  A job is handed to the scheduler at most once, over any number of ticks, each of which may stop
  after any effect. The condition \<open>booked\<close> links the tasks of the scheduler to the outbox: every task
  under a label of ours comes from an intent of the outbox, an intent carries the label of its job,
  and a job has one intent. A fresh intent therefore has no task, and the recovery, which knows every
  route of the scheduler, sends only what it does not find.
\<close>

section \<open>What the tick relies on\<close>

text \<open>
  The scheduler (Pueue) lists the tasks it accepted, and accepts one task when it answers with a number
  and none when it answers with an error.
\<close>

definition honest :: "('c, 's) controller \<Rightarrow> ('s \<Rightarrow> scheduler_task list) \<Rightarrow> bool" where
  "honest c tasks_of \<longleftrightarrow>
     (\<forall>k. tasks_of (snd (sc_snapshot c k)) = tasks_of k \<and> (\<forall>ts. fst (sc_snapshot c k) = Inr ts \<longrightarrow> ts = tasks_of k)) \<and>
     (\<forall>d k k'. sc_submit c d k = (None, k') \<longrightarrow> tasks_of k' = tasks_of k) \<and>
     (\<forall>d k k' n. sc_submit c d k = (Some n, k') \<longrightarrow>
        (\<exists>state. tasks_of k' = tasks_of k @ [\<lparr>tk_id = n, tk_label = dp_label d, tk_group = dp_group d, tk_state = state\<rparr>]))"

text \<open>The canonical records label a job by its identifier, injectively.\<close>

definition labelled :: "('c, 's) controller \<Rightarrow> (string \<Rightarrow> string) \<Rightarrow> bool" where
  "labelled c label \<longleftrightarrow> inj label \<and>
     (\<forall>sn k p k'. ca_prepare c sn k = (Inr p, k') \<longrightarrow> pp_label p = label (j_id (pp_job p)))"

text \<open>An intent read back from the outbox is the intent written.\<close>

definition intents_reread :: "('c, 's) controller \<Rightarrow> bool" where
  "intents_reread c \<longleftrightarrow>
     (\<forall>i p q. ct_encode c i = Some p \<longrightarrow> normalizeJSON (ct_host c) p = Some q \<longrightarrow> ct_decode c q = Some i)"

section \<open>The books\<close>

definition route :: "scheduler_task \<Rightarrow> string \<times> string" where
  "route t = (tk_group t, tk_label t)"

definition intent_route :: "dispatch \<Rightarrow> string \<times> string" where
  "intent_route d = (dp_group d, dp_label d)"

definition ours :: "(string \<Rightarrow> string) \<Rightarrow> scheduler_task list \<Rightarrow> scheduler_task list" where
  "ours label ts = filter (\<lambda>t. tk_label t \<in> range label) ts"

definition entry_booked :: "('c, 's) controller \<Rightarrow> (string \<Rightarrow> string) \<Rightarrow> op_store \<Rightarrow> outbox_input \<Rightarrow> bool" where
  "entry_booked c label s x \<longleftrightarrow> o_key x = ''scheduler.submit:'' @ o_operation x \<and> o_operation x \<in> j_id ` set (st_jobs s) \<and>
     (\<forall>i. ct_decode c (o_payload x) = Some i \<longrightarrow> dp_label (di_dispatch i) = label (o_operation x))"

definition task_booked :: "('c, 's) controller \<Rightarrow> op_store \<Rightarrow> string \<times> string \<Rightarrow> bool" where
  "task_booked c s r \<longleftrightarrow> (\<exists>x \<in> set (contents s). \<exists>i. ct_decode c (o_payload x) = Some i \<and> intent_route (di_dispatch i) = r)"

definition booked :: "('c, 's) controller \<Rightarrow> (string \<Rightarrow> string) \<Rightarrow> ('s \<Rightarrow> scheduler_task list) \<Rightarrow> 's condition" where
  "booked c label tasks_of s k \<longleftrightarrow> store_ok (ct_host c) s \<and>
     (\<forall>x \<in> set (contents s). entry_booked c label s x) \<and>
     (\<forall>t \<in> set (ours label (tasks_of k)). task_booked c s (route t)) \<and>
     distinct (map route (ours label (tasks_of k)))"

text \<open>What a snapshot covers, and a label nobody has.\<close>

definition covered :: "(string \<Rightarrow> string) \<Rightarrow> ('s \<Rightarrow> scheduler_task list) \<Rightarrow> scheduler_task list \<Rightarrow> 's condition" where
  "covered label tasks_of ts s k \<longleftrightarrow> route ` set (ours label (tasks_of k)) \<subseteq> route ` set ts"

definition unsent :: "('s \<Rightarrow> scheduler_task list) \<Rightarrow> string \<Rightarrow> 's condition" where
  "unsent tasks_of l s k \<longleftrightarrow> l \<notin> tk_label ` set (tasks_of k)"

section \<open>The quiet parts\<close>

lemma jobs_le_ids: "jobs_le rows rows' \<Longrightarrow> j_id ` set rows \<subseteq> j_id ` set rows'"
  unfolding jobs_le_def job_le_def sameJobInput_def by (metis image_eqI image_subsetI)

lemma entry_booked_later: "entry_booked c label s x \<Longrightarrow> store_le s s' \<Longrightarrow> entry_booked c label s' x"
  using jobs_le_ids unfolding entry_booked_def store_le_def by blast

lemma booked_quiet: "booked c label tasks_of s k \<Longrightarrow> quiet (ct_host c) s s' \<Longrightarrow> booked c label tasks_of s' k"
  unfolding booked_def quiet_def task_booked_def using entry_booked_later by metis

lemma booked_ok: "booked c label tasks_of s k \<Longrightarrow> store_ok (ct_host c) s"
  by (simp add: booked_def)

lemma steady_booked: "steady (ct_host c) (booked c label tasks_of)"
  by (rule steadyI) (auto intro: booked_ok booked_quiet)

text \<open>Beside the books a condition on the scheduler and the outbox.\<close>

lemma steady_beside:
  assumes "\<And>s s' k. contents s' = contents s \<Longrightarrow> Q s k \<Longrightarrow> Q s' k"
  shows "steady (ct_host c) (\<lambda>s k. booked c label tasks_of s k \<and> Q s k)"
proof (rule steadyI)
  fix s s' k
  assume "booked c label tasks_of s k \<and> Q s k" and q: "quiet (ct_host c) s s'"
  then have "booked c label tasks_of s' k" by (blast intro: booked_quiet)
  moreover have "Q s' k" using assms [of s' s k] \<open>_ \<and> Q s k\<close> q by (simp add: quiet_def)
  ultimately show "booked c label tasks_of s' k \<and> Q s' k" ..
qed (auto intro: booked_ok)

section \<open>A submission\<close>

lemma ours_snoc: "ours label (ts @ [t]) = ours label ts @ (if tk_label t \<in> range label then [t] else [])"
  by (simp add: ours_def)

lemma booked_submit:
  assumes "booked c label tasks_of s k" and "quiet (ct_host c) s s'"
    and "tasks_of k' = tasks_of k @ [t]" and "task_booked c s (route t)" and "route t \<notin> route ` set (ours label (tasks_of k))"
  shows "booked c label tasks_of s' k'"
proof -
  have "booked c label tasks_of s' k" using assms(1,2) by (rule booked_quiet)
  moreover have "task_booked c s' (route t)" using assms(2,4) by (simp add: task_booked_def quiet_def)
  ultimately show ?thesis using assms(3,5) unfolding booked_def by (auto simp: ours_snoc)
qed

lemma honest_submit:
  assumes "honest c tasks_of"
  shows "sc_submit c d k = (None, k') \<Longrightarrow> tasks_of k' = tasks_of k"
    and "sc_submit c d k = (Some n, k') \<Longrightarrow>
      \<exists>state. tasks_of k' = tasks_of k @ [\<lparr>tk_id = n, tk_label = dp_label d, tk_group = dp_group d, tk_state = state\<rparr>]"
  using assms unfolding honest_def by blast+

lemma same_tasks:
  assumes "tasks_of k' = tasks_of k"
  shows "booked c label tasks_of s k' = booked c label tasks_of s k"
    and "covered label tasks_of ts s' k' = covered label tasks_of ts s' k"
    and "unsent tasks_of l s' k' = unsent tasks_of l s' k"
  using assms by (simp_all add: booked_def covered_def unsent_def)

text \<open>An authorised submission of a booked dispatch that no task of ours carries.\<close>

definition queued_task :: "dispatch \<Rightarrow> int \<Rightarrow> scheduler_task" where
  "queued_task d n = \<lparr>tk_id = n, tk_label = dp_label d, tk_group = dp_group d, tk_state = ''queued''\<rparr>"

definition may_submit :: "('c, 's) controller \<Rightarrow> (string \<Rightarrow> string) \<Rightarrow> ('s \<Rightarrow> scheduler_task list) \<Rightarrow> dispatch \<Rightarrow> 's condition" where
  "may_submit c label tasks_of d s k \<longleftrightarrow> booked c label tasks_of s k \<and> task_booked c s (intent_route d) \<and>
     intent_route d \<notin> route ` set (ours label (tasks_of k))"

lemma submit_booked:
  fixes c :: "('c, 's) controller"
  assumes honest: "honest c tasks_of"
  shows "triple (\<lambda>s k. may_submit c label tasks_of d s k \<and> covered label tasks_of ts s k \<and> xs \<subseteq> set (contents s)) (submitAuthorized c l d)
     (\<lambda>a s k. booked c label tasks_of s k \<and> covered label tasks_of (ts @ [queued_task d (fst a)]) s k \<and> xs \<subseteq> set (contents s))
     (\<lambda>s k. may_submit c label tasks_of d s k \<and> covered label tasks_of ts s k \<and> xs \<subseteq> set (contents s))"
    (is "triple ?P _ ?Q ?P")
proof (rule triple_submit [where h = "ct_host c"])
  fix s k
  assume "?P s k"
  then show "store_ok (ct_host c) s \<and> ?P s k" by (simp add: may_submit_def booked_def)
next
  fix s k k'
  assume P: "?P s k" and "sc_submit c d k = (None, k')"
  then have same: "tasks_of k' = tasks_of k" using honest_submit(1) [OF honest] by blast
  show "?P s k'" using P by (simp add: may_submit_def same same_tasks [of tasks_of, OF same])
next
  fix s k s' k' task and l' :: lease
  assume P: "?P s k" and q: "quiet (ct_host c) s s'" and sent: "sc_submit c d k = (Some task, k')"
  obtain state where new: "tasks_of k' = tasks_of k @ [\<lparr>tk_id = task, tk_label = dp_label d, tk_group = dp_group d, tk_state = state\<rparr>]"
    using honest_submit(2) [OF honest sent] by blast
  have "booked c label tasks_of s' k'"
    by (rule booked_submit [OF _ q new]) (use P in \<open>simp_all add: may_submit_def route_def intent_route_def\<close>)
  moreover have "covered label tasks_of (ts @ [queued_task d task]) s' k'"
    using P new by (auto simp: covered_def ours_snoc route_def queued_task_def)
  ultimately show "?Q (task, l') s' k'" using P q by (simp add: quiet_def)
qed

section \<open>Recovery\<close>

lemma triple_then:
  assumes "keeps P m" and "\<And>a. triple P (f a) Q E" and "\<And>s k. P s k \<Longrightarrow> E s k"
  shows "triple P (bind_ctl m f) Q E"
  using triple_weaken [OF assms(1), where P' = P and Q' = "\<lambda>_. P" and E' = E] assms(2,3) by (blast intro: triple_bind)

lemma triple_stronger: "(\<And>s k. P' s k \<Longrightarrow> P s k) \<Longrightarrow> triple P m Q E \<Longrightarrow> triple P' m Q E"
  by (erule triple_weaken)

definition recovering :: "('c, 's) controller \<Rightarrow> (string \<Rightarrow> string) \<Rightarrow> ('s \<Rightarrow> scheduler_task list) \<Rightarrow> outbox_item list \<Rightarrow>
    scheduler_task list \<Rightarrow> 's condition" where
  "recovering c label tasks_of items ts s k \<longleftrightarrow> booked c label tasks_of s k \<and>
     (covered label tasks_of ts s k \<and> outbox_input.truncate ` set items \<subseteq> set (contents s))"

lemma steady_recovering: "steady (ct_host c) (recovering c label tasks_of items ts)"
  unfolding recovering_def by (rule steady_beside) (simp add: covered_def)

lemma recovering_booked: "recovering c label tasks_of items ts s k \<Longrightarrow> booked c label tasks_of s k"
  by (simp add: recovering_def)

lemmas recovering_kept = kept steady_recovering

lemma failed_recovering:
  "triple (recovering c label tasks_of items (rv_tasks st)) (failed_outbox c item retry message st)
     (\<lambda>st'. recovering c label tasks_of items (rv_tasks st')) (booked c label tasks_of)"
  unfolding failed_outbox_def by (intro triple_then triple_yield recovering_kept recovering_booked)

lemma rv_tasks_recovered [simp]: "rv_tasks (recovered_job i st) = rv_tasks st"
  by (simp add: recovered_job_def)

lemma resubmit_recovering:
  fixes c :: "('c, 's) controller"
  assumes "honest c tasks_of" and "item \<in> set items" and "ct_decode c (o_payload item) = Some i"
    and "intent_route (di_dispatch i) \<notin> route ` set (rv_tasks st)"
  shows "triple (recovering c label tasks_of items (rv_tasks st)) (resubmit c now item i j st)
     (\<lambda>st'. recovering c label tasks_of items (rv_tasks st')) (booked c label tasks_of)"
    (is "triple ?P _ ?Q ?E")
proof -
  let ?send = "submitAuthorized c (rv_lease st) (di_dispatch i) :: ('c, 's, int \<times> lease) ctl"
  have may: "may_submit c label tasks_of (di_dispatch i) s k" if "?P s k" for s k
  proof -
    have "task_booked c s (intent_route (di_dispatch i))"
      using that assms(2,3) unfolding recovering_def task_booked_def by (metis image_subset_iff truncate_fields(3))
    then show ?thesis using that assms(4) by (auto simp: may_submit_def recovering_def covered_def)
  qed
  have send: "triple ?P ?send (\<lambda>a. recovering c label tasks_of items (rv_tasks st @ [queued_task (di_dispatch i) (fst a)])) ?P"
    by (rule triple_weaken [OF submit_booked [OF assms(1), where ts = "rv_tasks st" and xs = "outbox_input.truncate ` set items"]])
      (use may in \<open>auto simp: recovering_def may_submit_def\<close>)
  have answer: "triple (\<lambda>s k. (case r of Inl _ \<Rightarrow> ?P | Inr a \<Rightarrow> recovering c label tasks_of items
        (rv_tasks st @ [queued_task (di_dispatch i) (fst a)])) s k)
      (case r of
        Inl e \<Rightarrow> if e = CtlStore ErrPaused \<or> e = CtlStore ErrFenced then abort e else failed_outbox c item (minutes 1 now) ''submission'' st
      | Inr (task, renewed) \<Rightarrow>
          bind_ctl (deliver c (o_id item) (j_id j) (di_token i) (di_selection i) task) (\<lambda>_.
          bind_ctl (canonical_call (ca_submitted c (di_selection i) j task)) (\<lambda>_.
          yield (recovered_job (j_id j) (st\<lparr>rv_tasks := rv_tasks st @ [queued_task (di_dispatch i) task], rv_lease := renewed\<rparr>))))) ?Q ?E"
    for r :: "(ctl_error, int \<times> lease) result"
  proof (cases r)
    case (Inl e)
    then show ?thesis by (auto intro: failed_recovering triple_abort recovering_booked)
  next
    case (Inr a)
    obtain task renewed where "a = (task, renewed)" by fastforce
    then show ?thesis unfolding Inr
      by simp (intro triple_then triple_yield recovering_kept recovering_booked; simp)
  qed
  show ?thesis
    unfolding resubmit_def queued_task_def [symmetric]
    by (intro triple_then [where P = ?P] triple_sum triple_if failed_recovering triple_yield recovering_kept recovering_booked
        triple_bind [OF triple_outcome [OF send] answer]; simp)
qed

lemma unsubmitted_recovering:
  assumes "honest c tasks_of" and "item \<in> set items" and "ct_decode c (o_payload item) = Some i"
    and "intent_route (di_dispatch i) \<notin> route ` set (rv_tasks st)"
  shows "triple (recovering c label tasks_of items (rv_tasks st)) (recover_unsubmitted c now pools item i j st)
     (\<lambda>st'. recovering c label tasks_of items (rv_tasks st')) (booked c label tasks_of)"
  unfolding recover_unsubmitted_def Let_def
  by (intro triple_option triple_if triple_require triple_then resubmit_recovering [OF assms] failed_recovering keeps_units recovering_booked)

lemma taskByRoute_None: "taskByRoute tasks g l = Inr None \<Longrightarrow> (g, l) \<notin> route ` set tasks"
  by (auto simp: taskByRoute_def route_def filter_empty_conv split: list.splits)

lemma item_recovering:
  assumes "honest c tasks_of" and "item \<in> set items"
  shows "triple (recovering c label tasks_of items (rv_tasks st)) (recover_item c now pools allowed item st)
     (\<lambda>st'. recovering c label tasks_of items (rv_tasks st')) (booked c label tasks_of)"
proof (cases "ct_decode c (o_payload item)")
  case None
  then show ?thesis by (simp add: recover_item_def failed_recovering)
next
  case (Some i)
  have route: "intent_route (di_dispatch i) \<notin> route ` set (rv_tasks st)"
    if "taskByRoute (rv_tasks st) (dp_group (di_dispatch i)) (dp_label (di_dispatch i)) = Inr None"
    using taskByRoute_None [OF that] by (simp add: intent_route_def)
  show ?thesis
    unfolding recover_item_def Some option.case
    by (intro triple_then [where P = "recovering c label tasks_of items (rv_tasks st)"] triple_require triple_if triple_sum triple_option
        triple_yield triple_abort unsubmitted_recovering [OF assms Some] route recovering_kept recovering_booked; simp)
qed

lemma due_from_outbox: "DueOutboxForScope t scope n s = Inr items \<Longrightarrow> set items \<subseteq> set (st_outbox s)"
  by (auto simp: DueOutboxForScope_def Let_def result_iffs dest!: in_set_takeD)

lemma pages_booked:
  assumes "honest c tasks_of"
  shows "triple (\<lambda>s k. booked c label tasks_of s k \<and> covered label tasks_of (rv_tasks st) s k) (recover_pages c n now pools allowed st)
    (\<lambda>st' s k. booked c label tasks_of s k \<and> covered label tasks_of (rv_tasks st') s k) (booked c label tasks_of)"
proof (induction n arbitrary: st)
  case 0
  show ?case by (simp add: triple_yield)
next
  case (Suc n)
  let ?Q = "\<lambda>st' s k. booked c label tasks_of s k \<and> covered label tasks_of (rv_tasks st') s k"
  have page: "triple (?Q st) (store_query c (\<lambda>t. DueOutboxForScope t (ct_scope c) 100))
      (\<lambda>items. recovering c label tasks_of items (rv_tasks st)) (booked c label tasks_of)"
    by (rule triple_query) (use due_from_outbox in \<open>force simp: recovering_def contents_def\<close>, simp)
  have each: "triple (recovering c label tasks_of items (rv_tasks st)) (each_ctl (recover_item c now pools allowed) items st)
      ?Q (booked c label tasks_of)" for items
    by (rule triple_weaken [OF triple_each [where I = "\<lambda>st'. recovering c label tasks_of items (rv_tasks st')"]])
      (auto intro: item_recovering [OF assms] simp: recovering_def)
  have start: "triple (recovering c label tasks_of items (rv_tasks st)) (yield st) ?Q (booked c label tasks_of)" for items
    by (rule triple_yield) (simp add: recovering_def)
  have again: "triple (?Q st') (if \<not> allowed then yield st' else recover_pages c n now pools allowed st') ?Q (booked c label tasks_of)" for st'
    by (rule triple_if, rule triple_yield, assumption, rule Suc)
  show ?case
    unfolding recover_pages.simps by (intro triple_bind [OF page] triple_if start triple_bind [OF each] again)
qed

section \<open>New work\<close>

lemma submission_booked:
  assumes "labelled c label" and "intents_reread c" and "booked c label tasks_of s k"
    and prepared: "pp_label p = label (j_id (pp_job p))"
    and run: "PrepareSubmission (ct_host c) t (pp_job p) holder ttl (Some (outbox_intent c pool sn p i)) s = Inr ((j, item, dup), s')"
  shows "booked c label tasks_of s' k \<and> (\<not> dup \<longrightarrow> may_submit c label tasks_of (dispatchFrom p pool (j_token j)) s' k)"
proof -
  have ok: "store_ok (ct_host c) s" by (rule booked_ok [OF assms(3)])
  obtain intent q where intent: "outbox_intent c pool sn p i j = Some intent" "normalizeJSON (ct_host c) (o_payload intent) = Some q"
    and s': "store_ok (ct_host c) s'" "store_le s s'" and id: "j_id j = j_id (pp_job p)"
    and row: "\<exists>r \<in> set (st_jobs s'). j_id r = j_id j"
    and item: "item \<in> set (st_outbox s')" "o_key item = o_key intent" "o_operation item = j_id j"
    and outbox: "contents s' = contents s @ [intent\<lparr>o_payload := q\<rparr>] \<and> (\<forall>x \<in> set (contents s). o_key x \<noteq> o_key intent) \<or>
     contents s' = contents s \<and> (dup \<or> (\<forall>r \<in> set (st_jobs s). j_id r \<noteq> j_id j))"
    by (rule submission_effect [OF ok run])
  obtain d where d: "ct_decode c q = Some d" "di_dispatch d = dispatchFrom p pool (j_token j)"
    and key: "o_key intent = ''scheduler.submit:'' @ j_id j" "o_operation intent = j_id j"
    using intent assms(2) unfolding outbox_intent_def intents_reread_def by fastforce
  have label: "dp_label (di_dispatch d) = label (j_id j)" using d(2) prepared id by (simp add: dispatchFrom_def)
  have new: "entry_booked c label s' (intent\<lparr>o_payload := q\<rparr>)"
    using key d label row by (auto simp: entry_booked_def image_iff) (metis (no_types))
  have old: "\<forall>x \<in> set (contents s). entry_booked c label s' x"
    using assms(3) s'(2) unfolding booked_def by (blast intro: entry_booked_later)
  have tasks: "\<forall>t \<in> set (ours label (tasks_of k)). task_booked c s' (route t)"
    using assms(3) outbox by (auto simp: booked_def task_booked_def)
  have books: "booked c label tasks_of s' k"
    using assms(3) s'(1) old new tasks outbox unfolding booked_def by auto
  have "may_submit c label tasks_of (dispatchFrom p pool (j_token j)) s' k" if "\<not> dup"
  proof -
    have "item \<in> set (st_outbox s') \<longrightarrow> outbox_input.truncate item \<in> set (contents s')" by (simp add: contents_def)
    then have "contents s' \<noteq> contents s" if "\<forall>r \<in> set (st_jobs s). j_id r \<noteq> j_id j"
      using item(1,3) assms(3) that by (force simp: booked_def entry_booked_def)
    then have fresh: "contents s' = contents s @ [intent\<lparr>o_payload := q\<rparr>]" "\<forall>x \<in> set (contents s). o_key x \<noteq> o_key intent"
      using outbox \<open>\<not> dup\<close> by auto
    have "task_booked c s' (intent_route (dispatchFrom p pool (j_token j)))"
      using fresh(1) d by (auto simp: task_booked_def intro!: bexI [of _ "intent\<lparr>o_payload := q\<rparr>"])
    moreover have "intent_route (dispatchFrom p pool (j_token j)) \<notin> route ` set (ours label (tasks_of k))"
    proof
      assume "intent_route (dispatchFrom p pool (j_token j)) \<in> route ` set (ours label (tasks_of k))"
      then obtain x d' where x: "x \<in> set (contents s)" "ct_decode c (o_payload x) = Some d'"
          "intent_route (di_dispatch d') = intent_route (dispatchFrom p pool (j_token j))"
        using assms(3) unfolding booked_def task_booked_def by (metis imageE)
      then have "label (o_operation x) = label (j_id j)"
        using assms(3) label d(2) by (auto simp: booked_def entry_booked_def intent_route_def)
      then have "o_operation x = j_id j" using assms(1) by (simp add: labelled_def inj_eq)
      then show False using fresh(2) x(1) assms(3) key by (auto simp: booked_def entry_booked_def)
    qed
    ultimately show ?thesis using books by (simp add: may_submit_def)
  qed
  with books show ?thesis by blast
qed

lemma triple_canonical_result:
  fixes f :: "'c \<Rightarrow> (ctl_error, 'a) result \<times> 'c"
  assumes "\<And>n a n' s k. f n = (Inr a, n') \<Longrightarrow> P s k \<Longrightarrow> Q a s k" and "\<And>s k. P s k \<Longrightarrow> E s k"
  shows "triple P (canonical_call f) Q E"
  unfolding canonical_call_def
  by (rule triple_working) (use assms in \<open>auto simp: triple_def on_def split: prod.splits sum.splits\<close>)

lemma new_booked:
  fixes c :: "('c, 's) controller"
  assumes "honest c tasks_of"
  shows "triple (may_submit c label tasks_of (dispatchFrom p pool (j_token j))) (submit_new c pool sn p j item g)
    (\<lambda>_. booked c label tasks_of) (booked c label tasks_of)"
    (is "triple ?M _ _ ?B")
proof -
  have steady: "steady (ct_host c) ?B" by (rule steady_booked)
  have weak: "?M s k \<Longrightarrow> ?B s k" for s k by (simp add: may_submit_def)
  have send: "triple ?M (submitAuthorized c (pg_lease g) (dispatchFrom p pool (j_token j)) :: ('c, 's, int \<times> lease) ctl) (\<lambda>_. ?B) ?B"
  proof (rule tripleI)
    fix w :: "('c, 's) world"
    assume w: "on ?M w"
    define ts where "ts = tasks_of (cw_sched w)"
    have "triple (\<lambda>s k. ?M s k \<and> covered label tasks_of ts s k \<and> {} \<subseteq> set (contents s))
        (submitAuthorized c (pg_lease g) (dispatchFrom p pool (j_token j)) :: ('c, 's, int \<times> lease) ctl) (\<lambda>_. ?B) ?B"
      by (rule triple_weaken [OF submit_booked [OF assms]]) (auto simp: weak)
    moreover have "on (\<lambda>s k. ?M s k \<and> covered label tasks_of ts s k \<and> {} \<subseteq> set (contents s)) w"
      using w by (auto simp: on_def covered_def ts_def ours_def)
    ultimately show "case submitAuthorized c (pg_lease g) (dispatchFrom p pool (j_token j)) w of
        (Inl _, w') \<Rightarrow> on ?B w' | (Inr a, w') \<Rightarrow> on ?B w'"
      by (simp add: triple_def)
  qed
  have answer: "triple (\<lambda>s k. (case r of Inl _ \<Rightarrow> ?B | Inr a \<Rightarrow> ?B) s k) m (\<lambda>_. ?B) ?B" if "keeps ?B m"
    for m :: "('c, 's, 'b) ctl" and r :: "(ctl_error, int \<times> lease) result"
    using that by (cases r) simp_all
  show ?thesis
    unfolding submit_new_def
    apply (rule triple_then, intro kept)
     apply (rule triple_sum)
      apply (rule triple_stronger [where P = ?B], erule weak, intro kept steady)
     apply (rule triple_bind [OF triple_outcome [OF send] answer], intro kept steady)
    apply (erule weak)
    done
qed

lemma selection_booked:
  fixes c :: "('c, 's) controller"
  assumes "honest c tasks_of" and "labelled c label" and "intents_reread c"
  shows "keeps (booked c label tasks_of) (dispatch_selection c pool sn g)"
    (is "keeps ?B _")
proof -
  have steady: "steady (ct_host c) ?B" by (rule steady_booked)
  have prepare: "triple ?B (canonical_call (ca_prepare c sn) :: ('c, 's, prepared) ctl)
      (\<lambda>p s k. ?B s k \<and> pp_label p = label (j_id (pp_job p))) ?B"
    by (rule triple_canonical_result) (use assms(2) in \<open>auto simp: labelled_def\<close>)
  have submit: "triple (\<lambda>s k. ?B s k \<and> pp_label p = label (j_id (pp_job p)))
      (store_call c (\<lambda>t. PrepareSubmission (ct_host c) t (pp_job p) (ct_holder c) (ct_ttl c) (Some (outbox_intent c pool sn p i))))
      (\<lambda>(j, _, dup) s k. ?B s k \<and> (\<not> dup \<longrightarrow> may_submit c label tasks_of (dispatchFrom p pool (j_token j)) s k)) ?B" for p i
  proof (rule triple_store)
    fix t s k a s'
    assume before: "?B s k \<and> pp_label p = label (j_id (pp_job p))"
      and run: "PrepareSubmission (ct_host c) t (pp_job p) (ct_holder c) (ct_ttl c) (Some (outbox_intent c pool sn p i)) s = Inr (a, s')"
    obtain j item dup where a: "a = (j, item, dup)" by (metis prod.collapse)
    show "(\<lambda>(j, _, dup) s k. ?B s k \<and> (\<not> dup \<longrightarrow> may_submit c label tasks_of (dispatchFrom p pool (j_token j)) s k)) a s' k"
      using submission_booked [OF assms(2,3) _ _ run [unfolded a]] before a by simp
  qed simp
  have prepared: "triple (\<lambda>s k. ?B s k \<and> (\<not> dup \<longrightarrow> may_submit c label tasks_of (dispatchFrom p pool (j_token j)) s k))
      (dispatch_prepared c pool sn p g j item dup) (\<lambda>_. ?B) ?B" for j item dup p
  proof (cases dup)
    case True
    show ?thesis unfolding dispatch_prepared_def if_P [OF True] by (rule triple_stronger [where P = ?B]) (simp, intro kept)
  next
    case False
    have "triple (\<lambda>s k. ?B s k \<and> (\<not> dup \<longrightarrow> may_submit c label tasks_of (dispatchFrom p pool (j_token j)) s k))
        (submit_new c pool sn p j item g) (\<lambda>_. ?B) ?B"
      by (rule triple_stronger [OF _ new_booked [OF assms(1)]]) (simp add: False)
    then show ?thesis unfolding dispatch_prepared_def if_not_P [OF False]
      by (rule triple_require [OF triple_require]) (simp_all only: simp_thms)
  qed
  show ?thesis
    unfolding dispatch_selection_def
  proof (rule triple_bind [OF prepare], rule triple_bind [OF triple_new_id], rule triple_bind [OF submit])
    fix p i and a :: "job \<times> outbox_item \<times> bool"
    obtain j item dup where a: "a = (j, item, dup)" by (metis prod.collapse)
    show "triple ((\<lambda>(j, _, dup) s k. ?B s k \<and> (\<not> dup \<longrightarrow> may_submit c label tasks_of (dispatchFrom p pool (j_token j)) s k)) a)
      (case a of (j, item, dup) \<Rightarrow> dispatch_prepared c pool sn p g j item dup) (\<lambda>_. ?B) ?B"
      unfolding a prod.case by (rule prepared)
  qed
qed

lemma round_booked:
  assumes "honest c tasks_of" and "labelled c label" and "intents_reread c"
  shows "keeps (booked c label tasks_of) (dispatch_round c pool used g)"
  unfolding dispatch_round_def Let_def by (intro kept selection_booked [OF assms] steady_booked)

lemma loop_booked:
  assumes "honest c tasks_of" and "labelled c label" and "intents_reread c"
  shows "keeps (booked c label tasks_of) (dispatch_loop c pool n used g)"
proof (induction n arbitrary: used g)
  case 0
  show ?case by (simp add: dispatch_loop.simps [of c pool 0] kept)
next
  case (Suc n)
  show ?case
    by (subst dispatch_loop.simps, simp only: nat.case) (intro kept round_booked [OF assms] Suc)
qed

lemma pool_booked:
  assumes "honest c tasks_of" and "labelled c label" and "intents_reread c"
  shows "keeps (booked c label tasks_of) (dispatch_pool c tasks pool st)"
  unfolding dispatch_pool_def by (intro kept loop_booked [OF assms])

section \<open>The tick\<close>

lemma admit_booked:
  fixes c :: "('c, 's) controller"
  assumes "honest c tasks_of" and "labelled c label" and "intents_reread c"
  shows "triple (\<lambda>s k. booked c label tasks_of s k \<and> covered label tasks_of tasks s k) (admit c tasks l)
    (\<lambda>_. booked c label tasks_of) (booked c label tasks_of)"
    (is "triple ?P _ _ ?B")
proof -
  have recover: "triple ?P (recoverOutbox c tasks now pools allowed l :: ('c, 's, recovery) ctl) (\<lambda>_. ?B) ?B" for now pools allowed
    unfolding recoverOutbox_def
    by (rule triple_weaken [OF pages_booked [OF assms(1), where st = "\<lparr>rv_recovered = [], rv_tasks = tasks, rv_lease = l\<rparr>"]]) auto
  have answer: "triple (\<lambda>s k. (case r of Inl _ \<Rightarrow> ?B | Inr a \<Rightarrow> ?B) s k) m (\<lambda>_. ?B) ?B" if "keeps ?B m"
    for m :: "('c, 's, tick_result) ctl" and r :: "(ctl_error, recovery) result"
    using that by (cases r) simp_all
  show ?thesis
    unfolding admit_def Let_def
    by (rule triple_then [OF keeps_query], rule triple_then, intro kept, rule triple_then [OF keeps_time],
        rule triple_bind [OF triple_outcome [OF recover] answer], intro kept pool_booked [OF assms]) auto
qed

lemma Tick_booked:
  fixes c :: "('c, 's) controller"
  assumes "honest c tasks_of" and "labelled c label" and "intents_reread c"
  shows "keeps (booked c label tasks_of) (Tick c)"
    (is "keeps ?B _")
proof -
  have steady: "steady (ct_host c) ?B" by (rule steady_booked)
  have snapshot: "triple ?B (scheduler_tasks c :: ('c, 's, scheduler_task list) ctl) (\<lambda>ts s k. ?B s k \<and> covered label tasks_of ts s k) ?B"
    unfolding scheduler_tasks_def
  proof (rule triple_working [OF tripleI])
    fix w :: "('c, 's) world"
    assume w: "on ?B w"
    obtain r k where run: "sc_snapshot c (cw_sched w) = (r, k)" by fastforce
    then have same: "tasks_of k = tasks_of (cw_sched w)" and listed: "r = Inr ts \<Longrightarrow> ts = tasks_of (cw_sched w)" for ts
      using assms(1) unfolding honest_def by (metis snd_conv, metis fst_conv)
    have "?B (cw_store w) k" using w by (simp add: on_def same_tasks [of tasks_of, OF same])
    then show "case (case sc_snapshot c (cw_sched w) of (r, k) \<Rightarrow> (r, w\<lparr>cw_sched := k\<rparr>)) of (Inl _, w') \<Rightarrow> on ?B w'
      | (Inr ts, w') \<Rightarrow> on (\<lambda>s k. ?B s k \<and> covered label tasks_of ts s k) w'"
      using listed same run by (cases r) (auto simp: on_def covered_def ours_def)
  qed
  have steady': "steady (ct_host c) (\<lambda>s k. ?B s k \<and> covered label tasks_of ts s k)" for ts
    by (rule steady_beside) (simp add: covered_def)
  have body: "keeps ?B (tick_body c l)" for l
    unfolding tick_body_def
    by (rule triple_bind [OF snapshot], rule triple_then [OF keeps_settle_workers [OF steady']],
        rule triple_then [OF keeps_settle_terminal [OF steady']], rule admit_booked [OF assms]) auto
  show ?thesis unfolding Tick_def by (intro kept body steady)
qed

section \<open>Executions\<close>

text \<open>
  Ticks that may stop after any number of effects, and in between anything other processes do: any
  operations of the store that add no intent, any change of the canonical records, and of the
  scheduler any change that keeps the tasks with our labels.
\<close>

inductive controller_run :: "('c, 's) controller \<Rightarrow> (string \<Rightarrow> string) \<Rightarrow> ('s \<Rightarrow> scheduler_task list) \<Rightarrow> ('c, 's) world \<Rightarrow>
    ('c, 's) world \<Rightarrow> bool" for c label tasks_of w0 where
  run_start: "controller_run c label tasks_of w0 w0"
| run_tick: "controller_run c label tasks_of w0 w \<Longrightarrow> controller_run c label tasks_of w0 (snd (Tick c (w\<lparr>cw_left := n\<rparr>)))"
| run_store: "controller_run c label tasks_of w0 w \<Longrightarrow> store_run (ct_host c) (cw_store w) s \<Longrightarrow> contents s = contents (cw_store w) \<Longrightarrow>
    controller_run c label tasks_of w0 (w\<lparr>cw_store := s\<rparr>)"
| run_world: "controller_run c label tasks_of w0 w \<Longrightarrow>
    map route (ours label (tasks_of k)) = map route (ours label (tasks_of (cw_sched w))) \<Longrightarrow>
    controller_run c label tasks_of w0 (w\<lparr>cw_canon := r, cw_sched := k, cw_time := t\<rparr>)"

inductive_cases controller_runE: "controller_run c label tasks_of w0 w"

lemma run_booked:
  assumes "controller_run c label tasks_of w0 w" and "honest c tasks_of" and "labelled c label" and "intents_reread c"
    and "on (booked c label tasks_of) w0"
  shows "on (booked c label tasks_of) w"
  using assms(1)
proof induction
  case run_start
  show ?case by (rule assms(5))
next
  case (run_tick w n)
  then have "on (booked c label tasks_of) (w\<lparr>cw_left := n\<rparr>)" by (simp add: on_def)
  then show ?case by (rule keeps_after [OF Tick_booked [OF assms(2-4)]])
next
  case (run_store w s)
  then have "store_ok (ct_host c) (cw_store w)" by (simp add: on_def booked_def)
  from store_run_keeps [OF run_store.hyps(2) this] run_store show ?case
    unfolding on_def booked_def task_booked_def by (simp, blast intro: entry_booked_later)
next
  case (run_world w k r t)
  have "task_booked c s (route x)" if "x \<in> set (ours label (tasks_of k))" "on (booked c label tasks_of) w" "s = cw_store w" for x s
  proof -
    have "route x \<in> set (map route (ours label (tasks_of (cw_sched w))))"
      using that(1) run_world.hyps(2) by (metis image_eqI set_map)
    then show ?thesis using that(2,3) by (auto simp: on_def booked_def)
  qed
  with run_world show ?case by (simp add: on_def booked_def)
qed

lemma booked_start: "store_ok (ct_host c) s \<Longrightarrow> st_outbox s = [] \<Longrightarrow> ours label (tasks_of k) = [] \<Longrightarrow> booked c label tasks_of s k"
  by (simp add: booked_def contents_def)

lemma booked_route:
  assumes "labelled c label" and "booked c label tasks_of s k"
    and "t \<in> set (tasks_of k)" "t' \<in> set (tasks_of k)" "tk_label t = label i" "tk_label t' = label i"
  shows "route t = route t'"
proof -
  have "task_booked c s (route t)" "task_booked c s (route t')"
    using assms(2-6) by (auto simp: booked_def ours_def)
  then obtain x x' d d' where x: "x \<in> set (contents s)" "ct_decode c (o_payload x) = Some d" "intent_route (di_dispatch d) = route t"
    and x': "x' \<in> set (contents s)" "ct_decode c (o_payload x') = Some d'" "intent_route (di_dispatch d') = route t'"
    unfolding task_booked_def by blast
  then have "label (o_operation x) = label i" "label (o_operation x') = label i"
    using assms(2,5,6) by (auto simp: booked_def entry_booked_def route_def intent_route_def)
  then have "o_operation x = o_operation x'" using assms(1) by (metis labelled_def injD)
  then have keys: "o_key x = o_key x'" using assms(2) x(1) x'(1) by (auto simp: booked_def entry_booked_def)
  have "distinct (map o_key (contents s))"
    using booked_ok [OF assms(2)] by (simp add: store_ok_def outbox_ok_def contents_def comp_def)
  then have "x = x'" using keys x(1) x'(1) by (metis distinct_map inj_onD)
  then show ?thesis using x x' by simp
qed

lemma distinct_equal_short: "distinct xs \<Longrightarrow> (\<And>x y. x \<in> set xs \<Longrightarrow> y \<in> set xs \<Longrightarrow> x = y) \<Longrightarrow> length xs \<le> 1"
  by (metis One_nat_def card_1_singleton_iff card_le_Suc0_iff_eq distinct_card finite_set)

lemma few_ours:
  assumes "labelled c label" and "booked c label tasks_of s k"
  shows "length (filter (\<lambda>t. tk_label t = label i) (tasks_of k)) \<le> 1"
proof -
  let ?mine = "filter (\<lambda>t. tk_label t = label i) (tasks_of k)"
  have "?mine = filter (\<lambda>t. tk_label t = label i) (ours label (tasks_of k))"
    unfolding ours_def filter_filter by (rule filter_cong [OF refl]) auto
  then have "distinct (map route ?mine)" using assms(2) by (simp add: booked_def distinct_map_filter)
  moreover have "r = r'" if r: "r \<in> set (map route ?mine)" "r' \<in> set (map route ?mine)" for r r'
  proof -
    obtain t t' where "t \<in> set ?mine" "r = route t" "t' \<in> set ?mine" "r' = route t'" using r unfolding set_map by blast
    then show ?thesis using booked_route [OF assms, of t t' i] by simp
  qed
  ultimately have "length (map route ?mine) \<le> 1" by (rule distinct_equal_short)
  then show ?thesis by simp
qed


end
