(* ===== verification/Exp_Controller_Capacity.thy ===== *)
theory Exp_Controller_Capacity
  imports Exp_Controller_Once
begin

text \<open>
  The pass over one pool: it accounts every task it sends, never exceeds the capacity of the pool, and
  ends, because each round that submits uses a unit of the free capacity.
\<close>

section \<open>Counting the tasks\<close>

definition at_most :: "op_host \<Rightarrow> ('s \<Rightarrow> scheduler_task list) \<Rightarrow> nat \<Rightarrow> 's condition" where
  "at_most h tasks_of n s k \<longleftrightarrow> store_ok h s \<and> length (tasks_of k) \<le> n"

lemma at_most_more: "at_most h tasks_of n s k \<Longrightarrow> n \<le> m \<Longrightarrow> at_most h tasks_of m s k"
  by (simp add: at_most_def)

lemma steady_at_most: "steady h (at_most h tasks_of n)"
  by (rule steadyI) (auto simp: at_most_def quiet_def)

lemma submit_counted:
  fixes c :: "('c, 's) controller"
  assumes "honest c tasks_of"
  shows "triple (at_most (ct_host c) tasks_of n) (submitAuthorized c l d :: ('c, 's, int \<times> lease) ctl)
    (\<lambda>_. at_most (ct_host c) tasks_of (Suc n)) (at_most (ct_host c) tasks_of n)"
proof (rule triple_submit [where h = "ct_host c"])
  fix s k k'
  assume "at_most (ct_host c) tasks_of n s k" and "sc_submit c d k = (None, k')"
  then show "at_most (ct_host c) tasks_of n s k'" using honest_submit(1) [OF assms] unfolding at_most_def by metis
next
  fix s k s' k' task l'
  assume "at_most (ct_host c) tasks_of n s k" and "quiet (ct_host c) s s'" and "sc_submit c d k = (Some task, k')"
  then show "at_most (ct_host c) tasks_of (Suc n) s' k'"
    using honest_submit(2) [OF assms] unfolding at_most_def quiet_def by fastforce
qed (simp add: at_most_def)

text \<open>The outcome of a round: one task for a submission of at least one and at most \<open>free\<close> units.\<close>

definition round_counted :: "op_host \<Rightarrow> ('s \<Rightarrow> scheduler_task list) \<Rightarrow> nat \<Rightarrow> int \<Rightarrow> round \<times> progress \<Rightarrow> 's condition" where
  "round_counted h tasks_of n free r s k \<longleftrightarrow> (case fst r of
     Submitted u \<Rightarrow> 1 \<le> u \<and> u \<le> free \<and> at_most h tasks_of (Suc n) s k
   | _ \<Rightarrow> at_most h tasks_of n s k)"

lemma at_least_one_pos [simp]: "1 \<le> at_least_one u"
  by (simp add: at_least_one_def)

lemma new_counted:
  fixes c :: "('c, 's) controller"
  assumes "honest c tasks_of" and "at_least_one (sn_units sn) \<le> free"
  shows "triple (at_most (ct_host c) tasks_of n) (submit_new c pool sn p j item g)
    (round_counted (ct_host c) tasks_of n free) (at_most (ct_host c) tasks_of (Suc n))"
    (is "triple ?P _ ?Q ?E")
proof -
  have steady: "steady (ct_host c) ?P" "steady (ct_host c) ?E" by (rule steady_at_most)+
  have more: "?P s k \<Longrightarrow> ?E s k" for s k by (erule at_most_more) simp
  have still: "?P s k \<Longrightarrow> ?Q (NextPool, g') s k" "?P s k \<Longrightarrow> ?Q (Pausing, g') s k" for s k g'
    by (simp_all add: round_counted_def)
  have one: "?E s k \<Longrightarrow> ?Q (Submitted (at_least_one (sn_units sn)), g') s k" for s k g'
    using assms(2) by (simp add: round_counted_def)
  have answer: "triple (\<lambda>s k. (case r of Inl _ \<Rightarrow> ?P | Inr a \<Rightarrow> ?E) s k)
      (case r of
        Inl e \<Rightarrow> if e = CtlStore ErrPaused then yield (Pausing, g)
          else bind_ctl (read_time c) (\<lambda>now. bind_ctl (ignore (set_outbox c (o_id item) OutboxFailed (minutes 1 now) ''submission'')) (\<lambda>_. abort e))
      | Inr (task, renewed) \<Rightarrow>
          bind_ctl (deliver c (o_id item) (j_id j) (j_token j) sn task) (\<lambda>_.
          bind_ctl (canonical_call (ca_submitted c sn j task)) (\<lambda>_.
          yield (Submitted (at_least_one (sn_units sn)),
            g\<lparr>pg_result := (pg_result g)\<lparr>ti_dispatched := ti_dispatched (pg_result g) @ [sn_id sn]\<rparr>, pg_lease := renewed\<rparr>)))) ?Q ?E"
    for r :: "(ctl_error, int \<times> lease) result"
  proof (cases r)
    case (Inl e)
    then show ?thesis by simp
      (intro conjI impI triple_then [where P = ?P] triple_yield triple_abort still more kept steady)
  next
    case (Inr a)
    obtain task renewed where "a = (task, renewed)" by fastforce
    then show ?thesis unfolding Inr by simp (intro triple_then [where P = ?E] triple_yield one kept steady)
  qed
  show ?thesis
    unfolding submit_new_def
    apply (rule triple_then [where P = ?P], intro kept)
     apply (rule triple_sum)
      apply (intro triple_if triple_then [where P = ?P] triple_yield triple_abort still more kept steady; assumption)
    apply (rule triple_bind [OF triple_outcome [OF submit_counted [OF assms(1)]] answer])
    apply (erule more)
    done
qed

lemma selection_counted:
  fixes c :: "('c, 's) controller"
  assumes "honest c tasks_of" and "at_least_one (sn_units sn) \<le> free"
  shows "triple (at_most (ct_host c) tasks_of n) (dispatch_selection c pool sn g)
    (round_counted (ct_host c) tasks_of n free) (at_most (ct_host c) tasks_of (Suc n))"
    (is "triple ?P _ ?Q ?E")
proof -
  have more: "?P s k \<Longrightarrow> ?E s k" for s k by (erule at_most_more) simp
  have still: "?P s k \<Longrightarrow> ?Q (NextPool, g') s k" for s k g' by (simp add: round_counted_def)
  have prepare: "keeps ?P (store_call c (\<lambda>t. PrepareSubmission (ct_host c) t input (ct_holder c) (ct_ttl c) factory))" for input factory
    by (rule triple_store) (use submit.keeps in \<open>auto simp: at_most_def\<close>)
  show ?thesis
    unfolding dispatch_selection_def dispatch_prepared_def
    by (intro triple_then [where P = ?P] triple_prod triple_require triple_if triple_option triple_yield still more
        new_counted [OF assms] prepare kept)
qed

lemma pick_fits: "pick pool free lane exploit explore = Some sn \<Longrightarrow> at_least_one (sn_units sn) \<le> free"
  by (auto simp: pick_def Let_def split: if_splits sum.splits)

lemma round_free:
  fixes c :: "('c, 's) controller"
  assumes "honest c tasks_of"
  shows "triple (at_most (ct_host c) tasks_of n) (dispatch_round c pool used g)
    (round_counted (ct_host c) tasks_of n (pc_capacity pool - used)) (at_most (ct_host c) tasks_of (Suc n))"
    (is "triple ?P _ ?Q ?E")
proof -
  have steady: "steady (ct_host c) ?P" by (rule steady_at_most)
  have more: "?P s k \<Longrightarrow> ?E s k" for s k by (erule at_most_more) simp
  have still: "?P s k \<Longrightarrow> ?Q (NextPool, g') s k" "?P s k \<Longrightarrow> ?Q (Pausing, g') s k" for s k g'
    by (simp_all add: round_counted_def)
  show ?thesis
    unfolding dispatch_round_def Let_def
    by (intro triple_then [where P = ?P] triple_if triple_option triple_yield triple_abort still more
        selection_counted [OF assms pick_fits] kept steady)
qed

definition pass_counted :: "op_host \<Rightarrow> ('s \<Rightarrow> scheduler_task list) \<Rightarrow> nat \<Rightarrow> int \<Rightarrow> int \<Rightarrow> bool \<times> int \<times> progress \<Rightarrow> 's condition" where
  "pass_counted h tasks_of n used capacity r s k \<longleftrightarrow> used \<le> fst (snd r) \<and> fst (snd r) \<le> max used capacity \<and>
     at_most h tasks_of (n + nat (fst (snd r) - used)) s k"

lemma loop_counted:
  fixes c :: "('c, 's) controller"
  assumes "honest c tasks_of"
  shows "triple (at_most (ct_host c) tasks_of n) (dispatch_loop c pool fuel used g)
    (pass_counted (ct_host c) tasks_of n used (pc_capacity pool)) (at_most (ct_host c) tasks_of (n + nat (pc_capacity pool - used)))"
proof (induction fuel arbitrary: n used g)
  case 0
  show ?case
    by (auto intro!: triple_yield triple_abort simp: dispatch_loop.simps [of c pool 0] pass_counted_def elim: at_most_more)
next
  case (Suc fuel)
  show ?case
  proof (cases "pc_capacity pool \<le> used")
    case True
    then show ?thesis by (auto intro!: triple_yield simp: dispatch_loop.simps pass_counted_def)
  next
    case False
    let ?E = "at_most (ct_host c) tasks_of (n + nat (pc_capacity pool - used))"
    have round: "triple (at_most (ct_host c) tasks_of n) (dispatch_round c pool used g :: ('c, 's, round \<times> progress) ctl)
        (round_counted (ct_host c) tasks_of n (pc_capacity pool - used)) ?E"
      by (rule triple_weaken [OF round_free [OF assms]]) (use False in \<open>auto elim: at_most_more\<close>)
    have rest: "triple (round_counted (ct_host c) tasks_of n (pc_capacity pool - used) a)
        (case a of (r, g') \<Rightarrow> case r of
            Submitted units \<Rightarrow> dispatch_loop c pool fuel (used + units) g'
          | NextPool \<Rightarrow> yield (False, used, g')
          | Pausing \<Rightarrow> yield (True, used, g')) (pass_counted (ct_host c) tasks_of n used (pc_capacity pool)) ?E" for a
    proof (cases a; cases "fst a")
      fix r g' u
      assume a: "a = (r, g')" "fst a = Submitted u"
      show ?thesis
      proof (cases "1 \<le> u \<and> u \<le> pc_capacity pool - used")
        case True
        then show ?thesis using a
          by simp (rule triple_weaken [OF Suc [of "Suc n" "used + u"]];
            auto simp: round_counted_def pass_counted_def elim!: at_most_more)
      next
        case False
        then show ?thesis using a by (auto simp: round_counted_def triple_def on_def)
      qed
    qed (auto intro!: triple_yield simp: round_counted_def pass_counted_def)
    show ?thesis using False by (simp add: dispatch_loop.simps [of c pool "Suc fuel"] triple_bind [OF round rest])
  qed
qed

text \<open>
  C4: a pass over a pool never oversubscribes it. However it ends, it has sent at most as many tasks
  as there were free units; when it returns, the units it accounts cover every task it sent and do not
  exceed the capacity of the pool.
\<close>

theorem pool_pass_within_capacity:
  assumes "honest c tasks_of" and "store_ok (ct_host c) (cw_store w)" and "dispatch_loop c pool n used g w = (r, w')"
  shows "length (tasks_of (cw_sched w')) \<le> length (tasks_of (cw_sched w)) + nat (pc_capacity pool - used) \<and>
    (case r of Inl _ \<Rightarrow> True | Inr (_, used', _) \<Rightarrow> used \<le> used' \<and> used' \<le> max used (pc_capacity pool) \<and>
      length (tasks_of (cw_sched w')) \<le> length (tasks_of (cw_sched w)) + nat (used' - used))"
proof -
  let ?n = "length (tasks_of (cw_sched w))"
  have "on (at_most (ct_host c) tasks_of ?n) w" using assms(2) by (simp add: on_def at_most_def)
  from tripleD [OF loop_counted [OF assms(1)] this assms(3)] show ?thesis
    by (cases r) (auto simp: on_def pass_counted_def at_most_def)
qed

section \<open>The pass ends\<close>

lemma round_units:
  assumes "dispatch_round c pool used g w = (Inr (Submitted u, g'), w')"
  shows "1 \<le> u"
proof -
  let ?T = "\<lambda>_ _. True" and ?Q = "\<lambda>r _ _. case fst r of Submitted u \<Rightarrow> 1 \<le> u | _ \<Rightarrow> True"
  have any: "triple ?T m (\<lambda>_. ?T) ?T" for m :: "('a, 'b, 'd) ctl"
    by (auto simp: triple_def on_def split: prod.splits sum.splits)
  have new: "triple ?T (submit_new c pool sn p j item g :: ('a, 'b, round \<times> progress) ctl) ?Q ?T" for sn p j item g
    unfolding submit_new_def
    by (intro triple_then [where P = ?T, OF any] triple_sum triple_if triple_prod triple_yield triple_abort) simp_all
  have "triple ?T (dispatch_round c pool used g :: ('a, 'b, round \<times> progress) ctl) ?Q ?T"
    unfolding dispatch_round_def dispatch_selection_def dispatch_prepared_def Let_def
    by (intro triple_then [where P = ?T, OF any] triple_sum triple_if triple_prod triple_option triple_require triple_yield triple_abort new)
      simp_all
  from tripleD [OF this _ assms] show ?thesis by (simp add: on_def)
qed

lemma pass_fuel:
  assumes "nat (pc_capacity pool - used) \<le> n" and "nat (pc_capacity pool - used) \<le> m"
  shows "dispatch_loop c pool n used g w = dispatch_loop c pool m used g w"
  using assms
proof (induction n arbitrary: m used g w)
  case 0
  then show ?case by (simp add: dispatch_loop.simps)
next
  case (Suc n)
  show ?case
  proof (cases "pc_capacity pool \<le> used")
    case True
    then show ?thesis by (simp add: dispatch_loop.simps)
  next
    case False
    then obtain k where m: "m = Suc k" using Suc.prems(2) by (cases m) auto
    have "dispatch_loop c pool n (used + u) g' w' = dispatch_loop c pool k (used + u) g' w'"
      if "dispatch_round c pool used g w = (Inr (Submitted u, g'), w')" for u g' w'
      by (rule Suc.IH) (use round_units [OF that] Suc.prems m in linarith)+
    then show ?thesis using False unfolding m
      by (simp add: dispatch_loop.simps [of c pool "Suc _"] bind_ctl_def split: prod.splits sum.splits round.splits)
  qed
qed

text \<open>
  C5: the pass over a pool ends: its loop needs no more rounds than the pool has free units, so with
  that fuel it never runs out, whatever the scheduler, the store and the canonical records answer.
\<close>

theorem pool_pass_ends:
  assumes "nat (pc_capacity pool - used) \<le> n"
  shows "dispatch_loop c pool n used g w = dispatch_loop c pool (nat (pc_capacity pool - used)) used g w"
  by (rule pass_fuel [OF assms order_refl])

end
