(* ===== verification/Exp_Controller_Samples.thy ===== *)
theory Exp_Controller_Samples
  imports Exp_Controller_Capacity
begin

text \<open>
  A small daemon: one pool of two units, one job, a scheduler that is a list of tasks. The first tick is
  killed just after the scheduler accepted the job; the second finds the task by its route and binds it.
\<close>

definition sample_pool :: pool_config where
  "sample_pool = \<lparr>pc_name = ''gpu'', pc_group = ''main'', pc_prefix = ''exp:'', pc_capacity = 2, pc_exploit = Fin 1, pc_explore = Fin 1\<rparr>"

definition sample_selection :: selection where
  "sample_selection = \<lparr>sn_id = ''p-1'', sn_pool = ''gpu'', sn_lane = ''exploit'', sn_weight = Fin 1, sn_units = 1\<rparr>"

definition sample_prepared :: prepared where
  "sample_prepared = \<lparr>pp_job = sample_job\<lparr>j_scope := ''here''\<rparr>, pp_priority = 0, pp_worker = ''worker'', pp_args = [], pp_cwd = ''/'',
     pp_label = ''exp:job-1'', pp_units = 1, pp_env = [], pp_quoted = False\<rparr>"

definition sample_dispatch :: dispatch_intent where
  "sample_dispatch = \<lparr>di_selection = sample_selection, di_prepared = sample_prepared,
     di_dispatch = dispatchFrom sample_prepared sample_pool 1, di_token = 1\<rparr>"

definition sample_label :: "string \<Rightarrow> string" where
  "sample_label i = ''exp:'' @ i"

text \<open>The canonical records offer the job once; the number of offers left is their state.\<close>

definition list_submit :: "dispatch \<Rightarrow> scheduler_task list \<Rightarrow> int option \<times> scheduler_task list" where
  "list_submit d ts = (Some (int (length ts)),
     ts @ [\<lparr>tk_id = int (length ts), tk_label = dp_label d, tk_group = dp_group d, tk_state = ''running''\<rparr>])"

definition sample_controller :: "(nat, scheduler_task list) controller" where
  "sample_controller = \<lparr>ct_project = ''p'', ct_scope = ''here'', ct_markers = False, ct_holder = ''me'', ct_ttl = 120000000000,
     ct_clock = (\<lambda>n. time_add sample_clock (int n * 1000000000)), ct_new_id = (\<lambda>n. ''outbox-'' @ itoa n), ct_host = plain_host,
     ct_encode = (\<lambda>i. if i = sample_dispatch then Some ''{}'' else None),
     ct_decode = (\<lambda>p. if p = ''{}'' then Some sample_dispatch else None),
     ct_marker = (\<lambda>_ _. Inr None),
     ca_pools = (\<lambda>n. (Inr [sample_pool], n)),
     ca_next = (\<lambda>_ lane n. (if n = 0 \<or> lane = ''explore'' then Inl CtlNoWork else Inr sample_selection, n)),
     ca_prepare = (\<lambda>_ n. (Inr sample_prepared, n - 1)),
     ca_submitted = (\<lambda>_ _ _ n. (Inr (), n)),
     ca_reconcile = (\<lambda>_ n. (Inr [], n)),
     ca_revalidate = (\<lambda>_ _ n. (Inr (), n)),
     ca_blocked = (\<lambda>_ _ n. (Inr (), n)),
     sc_snapshot = (\<lambda>ts. (Inr ts, ts)),
     sc_submit = list_submit\<rparr>"

definition sample_world :: "(nat, scheduler_task list) world" where
  "sample_world = \<lparr>cw_store = initial_store, cw_canon = 1, cw_sched = [], cw_time = 0, cw_left = 100\<rparr>"

text \<open>Code equations that wait for the world, so that evaluation does not enter the continuations.\<close>

lemmas applied_code [code] = fun_cong [OF require_ctl_def] fun_cong [OF set_outbox_def] fun_cong [OF each_ctl.simps(1)] fun_cong [OF each_ctl.simps(2)]
  fun_cong [OF activeUnitsForPool_def] fun_cong [OF blockSubmission_def] fun_cong [OF deliver_def]
  fun_cong [OF unless_fenced_def] fun_cong [OF replay_marker_def] fun_cong [OF settle_running_def] fun_cong [OF settle_workers_def]
  fun_cong [OF acknowledge_def] fun_cong [OF failed_outbox_def] fun_cong [OF resubmit_def] fun_cong [OF recover_unsubmitted_def]
  fun_cong [OF recover_item_def] fun_cong [OF recoverOutbox_def] fun_cong [OF submit_new_def] fun_cong [OF dispatch_prepared_def]
  fun_cong [OF dispatch_selection_def] fun_cong [OF renew_if_old_def] fun_cong [OF next_selection_def] fun_cong [OF dispatch_round_def]
  fun_cong [OF dispatch_pool_def] fun_cong [OF settle_terminal_def] fun_cong [OF admit_def]
  fun_cong [OF tick_body_def] fun_cong [OF Tick_def]

lemma effects_code [code]:
  "store_call c f w =
    (if cw_left w = 0 then (Inl CtlStopped, w)
     else let w1 = w\<lparr>cw_time := Suc (cw_time w), cw_left := cw_left w - 1\<rparr> in
       case f (ct_clock c (cw_time w)) (cw_store w) of Inl e \<Rightarrow> (Inl (CtlStore e), w1) | Inr (a, s) \<Rightarrow> (Inr a, w1\<lparr>cw_store := s\<rparr>))"
  "store_query c g w =
    (if cw_left w = 0 then (Inl CtlStopped, w)
     else let w1 = w\<lparr>cw_time := Suc (cw_time w), cw_left := cw_left w - 1\<rparr> in
       case g (ct_clock c (cw_time w)) (cw_store w) of Inl e \<Rightarrow> (Inl (CtlStore e), w1) | Inr a \<Rightarrow> (Inr a, w1))"
  "canonical_call h w =
    (if cw_left w = 0 then (Inl CtlStopped, w)
     else case h (cw_canon w) of (r, k) \<Rightarrow> (r, w\<lparr>cw_canon := k, cw_left := cw_left w - 1\<rparr>))"
  "scheduler_tasks c w =
    (if cw_left w = 0 then (Inl CtlStopped, w)
     else case sc_snapshot c (cw_sched w) of (r, k) \<Rightarrow> (r, w\<lparr>cw_sched := k, cw_left := cw_left w - 1\<rparr>))"
  "submitAuthorized c l d w =
    (if cw_left w = 0 then (Inl CtlStopped, w)
     else let w1 = w\<lparr>cw_time := Suc (cw_time w), cw_left := cw_left w - 1\<rparr> in
       case WithDispatchLease (ct_clock c (cw_time w)) l (ct_ttl c) (Some (sc_submit c d)) (cw_store w) (cw_sched w) of
         (Inl e, k) \<Rightarrow> (Inl (CtlStore e), w1\<lparr>cw_sched := k\<rparr>)
       | (Inr (a, s), k) \<Rightarrow> (Inr a, w1\<lparr>cw_store := s, cw_sched := k\<rparr>))"
  by (simp_all add: store_call_def store_query_def canonical_call_def scheduler_tasks_def submitAuthorized_def working_def bind_ctl_def
      read_time_def andThen_def Let_def split: sum.splits prod.splits)

lemma recover_pages_code [code]:
  "recover_pages c n now pools allowed st w =
    (if n = 0 then yield st w
     else bind_ctl (store_query c (\<lambda>t. DueOutboxForScope t (ct_scope c) 100)) (\<lambda>items.
      if items = [] then yield st
      else bind_ctl (each_ctl (recover_item c now pools allowed) items st) (\<lambda>st'.
        if \<not> allowed then yield st' else recover_pages c (n - 1) now pools allowed st')) w)"
proof (cases n)
  case (Suc m)
  show ?thesis unfolding Suc diff_Suc_1 by simp
qed simp

lemma dispatch_loop_code [code]:
  "dispatch_loop c pool n used g w =
    (if pc_capacity pool \<le> used then yield (False, used, g) w
     else if n = 0 then abort CtlFuel w
     else bind_ctl (dispatch_round c pool used g) (\<lambda>(r, g').
          case r of
            Submitted units \<Rightarrow> dispatch_loop c pool (n - 1) (used + units) g'
          | NextPool \<Rightarrow> yield (False, used, g')
          | Pausing \<Rightarrow> yield (True, used, g')) w)"
proof (cases n)
  case (Suc m)
  show ?thesis unfolding Suc diff_Suc_1 by (simp add: dispatch_loop.simps [of c pool "Suc m"])
qed (simp add: dispatch_loop.simps [of c pool 0])

definition killed_world :: "(nat, scheduler_task list) world" where
  "killed_world = snd (Tick sample_controller (sample_world\<lparr>cw_left := 16\<rparr>))"

definition restarted_world :: "(nat, scheduler_task list) world" where
  "restarted_world = snd (Tick sample_controller (killed_world\<lparr>cw_left := 100\<rparr>))"

text \<open>What the scheduler holds, and the states of the intents and the bindings of the jobs.\<close>

definition report :: "(nat, scheduler_task list) world \<Rightarrow> string list \<times> outbox_state list \<times> int option list" where
  "report w = (map tk_label (cw_sched w), map o_state (st_outbox (cw_store w)), map j_task (st_jobs (cw_store w)))"

lemma killed_after_submission: "report killed_world = ([''exp:job-1''], [OutboxPending], [None])"
  by code_simp

lemma restarted_binds: "report restarted_world = ([''exp:job-1''], [OutboxSucceeded], [Some 0])"
  by code_simp

section \<open>Witnesses\<close>

lemma sample_honest: "honest sample_controller (\<lambda>ts. ts)"
  by (auto simp: honest_def sample_controller_def list_submit_def)

lemma sample_labelled: "labelled sample_controller sample_label"
  by (auto simp: labelled_def sample_controller_def sample_label_def sample_prepared_def sample_job_def inj_def)

lemma sample_reread: "intents_reread sample_controller"
  by (auto simp: intents_reread_def sample_controller_def normalizeJSON_def plain_host_def split: if_splits)

lemma sample_host [simp]: "ct_host sample_controller = plain_host"
  by (simp add: sample_controller_def)

lemma sample_run: "controller_run sample_controller sample_label (\<lambda>ts. ts) sample_world restarted_world"
  unfolding restarted_world_def killed_world_def by (intro run_tick run_start)

lemma no_intents: "st_outbox initial_store = []"
  by (simp add: initial_store_def)



definition paused_world :: "(nat, scheduler_task list) world" where
  "paused_world = sample_world\<lparr>cw_store := initial_store\<lparr>st_runtime :=
     \<lparr>rs_paused = True, rs_reason = ''maintenance'', rs_updated = sample_clock\<rparr>\<rparr>\<rparr>"

theorem paused_daemon_submits_nothing_witness:
  "length (cw_sched (snd (Run sample_controller 3 paused_world))) = length (cw_sched paused_world)"
proof (rule paused_daemon_submits_nothing [where view = length])
  show "store_ok (ct_host sample_controller) (cw_store paused_world)" using initial_store_ok [of plain_host] by (simp add: paused_world_def store_ok_def)
  show "rs_paused (st_runtime (cw_store paused_world))" by (simp add: paused_world_def)
qed (simp add: sample_controller_def)

text \<open>One pass over the pool, with the lease the tick would hold.\<close>

definition sample_lease :: lease where
  "sample_lease = \<lparr>le_subject = ''daemon:p'', le_holder = ''me'', le_token = 1, le_expires = time_add sample_clock 120000000000, le_updated = sample_clock\<rparr>"

definition leased_world :: "(nat, scheduler_task list) world" where
  "leased_world = sample_world\<lparr>cw_store := initial_store\<lparr>st_leases := [sample_lease]\<rparr>\<rparr>"

definition sample_pass :: "nat \<Rightarrow> (ctl_error, bool \<times> int \<times> progress) result \<times> (nat, scheduler_task list) world" where
  "sample_pass n = dispatch_loop sample_controller sample_pool n 0 \<lparr>pg_result = start_result, pg_lease = sample_lease\<rparr> leased_world"

definition pass_report :: "(ctl_error, bool \<times> int \<times> progress) result \<times> (nat, scheduler_task list) world \<Rightarrow> (bool \<times> int) option \<times> nat" where
  "pass_report r = (case fst r of Inl _ \<Rightarrow> None | Inr (paused, used, _) \<Rightarrow> Some (paused, used), length (cw_sched (snd r)))"

lemma sample_pass_sends: "pass_report (sample_pass 2) = (Some (False, 1), 1)"
  by code_simp

lemma leased_ok: "store_ok plain_host (cw_store leased_world)"
  using initial_store_ok [of plain_host]
  by (simp add: leased_world_def store_ok_def leases_ok_def sample_lease_def initial_store_def)

theorem pool_pass_within_capacity_witness:
  "length (cw_sched (snd (sample_pass 2))) = 1 \<and>
   length (cw_sched (snd (sample_pass 2))) \<le> length (cw_sched leased_world) + nat (pc_capacity sample_pool - 0)"
proof
  show "length (cw_sched (snd (sample_pass 2))) = 1" using sample_pass_sends by (simp add: pass_report_def)
  show "length (cw_sched (snd (sample_pass 2))) \<le> length (cw_sched leased_world) + nat (pc_capacity sample_pool - 0)"
    unfolding sample_pass_def
    by (rule pool_pass_within_capacity [OF sample_honest _ prod.collapse [symmetric], THEN conjunct1]) (simp add: leased_ok)
qed

theorem pool_pass_ends_witness: "sample_pass 7 = sample_pass 2"
  using pool_pass_ends [of sample_pool 0 7 sample_controller "\<lparr>pg_result = start_result, pg_lease = sample_lease\<rparr>" leased_world]
  by (simp add: sample_pass_def sample_pool_def)

end
