(* ===== verification/Exp_Records.thy ===== *)
theory Exp_Records
  imports Exp_Ids
begin

text \<open>
  The typed records of the project (\<^verbatim>\<open>internal/research/models.go\<close> and
  \<^verbatim>\<open>control_models.go\<close>). Field names carry a prefix per type. A Go string enumeration is open,
  so each has a constructor for the strings that are not declared constants; a field whose empty
  string means absence, and a pointer, is an option; a slice whose nil is told apart from the empty
  slice is an option of a list; \<open>uint64\<close> is \<open>64 word\<close>.
\<close>

section \<open>Enumerations\<close>

datatype source_kind = SourceGit | SourceKindOther string
datatype source_state = SourceActive | SourceRetired | SourceStateOther string
datatype priority = PriorityP1 | PriorityP2 | PriorityP3 | PriorityUnknown | PriorityOther string
datatype effort = EffortS | EffortM | EffortL | EffortXL | EffortOther string
datatype plan_state = PlanQueued | PlanStarted | PlanCompleted | PlanDropped | PlanStateOther string
datatype try_state = TryOpen | TryConcluded | TryAbandoned | TryAdopted | TryStateOther string
datatype experiment_lifecycle = LifecyclePlanned | LifecycleActive | LifecycleClosed | ExperimentLifecycleOther string
datatype experiment_closure = ClosureConcluded | ClosureAbandoned | ClosureSuperseded | ExperimentClosureOther string
datatype verdict = VerdictSupported | VerdictRefuted | VerdictInconclusive | VerdictInvalid | VerdictUnlisted string
datatype experiment_kind = ExperimentSingleFactor | ExperimentFactorial | ExperimentObservational | ExperimentReplication | ExperimentSweep | ExperimentCombination | ExperimentKindOther string
datatype evidence_disposition = EvidenceIncluded | EvidenceExcluded | EvidenceDispositionOther string
datatype run_role = RunBaseline | RunCandidate | RunValidation | RunBatch | RunRoleOther string
datatype attempt_state = AttemptPlanned | AttemptQueued | AttemptBlocked | AttemptStarting | AttemptRunning | AttemptSucceeded | AttemptFailed | AttemptCancelled | AttemptTimedOut | AttemptPreempted | AttemptOutOfMemory | AttemptUnknown | AttemptStateOther string
datatype external_role = ExternalRunner | ExternalScheduler | ExternalTracker | ExternalArtifact | ExternalRegistry | ExternalRoleOther string
datatype reproducibility = ReproducibilityExact | ReproducibilityBounded | ReproducibilityPartial | ReproducibilityUnknown | ReproducibilityOther string
datatype git_object_format = GitObjectSHA1 | GitObjectSHA256 | GitObjectFormatOther string
datatype snapshot_state = SourceSnapshotClean | SourceSnapshotDirty | SnapshotStateOther string
datatype finding_evidence_kind = FindingEvidenceRun | FindingEvidenceExperiment | FindingEvidenceKindOther string
datatype research_lane = LaneExploit | LaneExplore | ResearchLaneOther string
datatype risk_class = RiskLow | RiskMedium | RiskHigh | RiskClassOther string
datatype horizon_class = HorizonShort | HorizonMedium | HorizonLong | HorizonClassOther string
datatype origin_class = OriginHuman | OriginAgent | OriginHybrid | OriginImported | OriginClassOther string
datatype autonomy_mode = AutonomyManual | AutonomyShadow | AutonomyAssisted | AutonomyLimited | AutonomyModeOther string
datatype tie_policy = QueueTieKeepIncumbent | QueueTieHumanReview | TiePolicyOther string
datatype cluster_state = ClusterOpen | ClusterSaturated | ClusterStateOther string
datatype idea_state = IdeaProposed | IdeaDeveloping | IdeaQualified | IdeaQueued | IdeaDismissed | IdeaMerged | IdeaStateOther string
datatype battle_choice = BattleChooseCandidate | BattleChooseIncumbent | BattleChooseTie | BattleChoiceOther string
datatype battle_outcome = BattleCandidateWins | BattleIncumbentWins | BattleTie | BattleHumanReview | BattleOutcomeOther string
datatype metric_direction = MetricMaximize | MetricMinimize | MetricDirectionOther string
datatype evaluation_purpose = EvaluationScientific | EvaluationPromotion | EvaluationPurposeOther string
datatype evaluation_outcome = EvaluationPassed | EvaluationFailed | EvaluationInvalid | EvaluationOutcomeOther string
datatype release_state = ReleaseDraft | ReleaseValidated | ReleaseRetired | ReleaseStateOther string
datatype promotion_outcome = PromotionAccepted | PromotionRejected | PromotionRolledBack | PromotionOutcomeOther string

section \<open>Extensions\<close>

text \<open>The dynamic values of extension tables and reference metadata, by the Go type the code
  switches on. Maps are association lists, in the order the iteration happens to take.\<close>

datatype open_value = OvNull | OvBool bool | OvInt int | OvUint nat | OvString string | OvFloat go_float
  | OvTime go_time | OvStruct | OvList "open_value list" | OvTable "(string \<times> open_value) list"
  | OvOddMap | OvOther

type_synonym extensions = "(string \<times> (string \<times> open_value) list option) list"

definition MigrationExtension :: string where
  "MigrationExtension = ''io.github.daviddwlee84.exp-cli.harness-v0''"

definition slice :: "'a list option \<Rightarrow> 'a list" where
  "slice xs = (case xs of None \<Rightarrow> [] | Some ys \<Rightarrow> ys)"

lemma slice_simps [simp]: "slice None = []" "slice (Some ys) = ys"
  by (simp_all add: slice_def)

section \<open>Records\<close>

record common =
  c_schema :: schema
  c_id :: typed_id
  c_title :: string
  c_created :: go_time
  c_updated :: go_time
  c_aliases :: "string list"
  c_tags :: "string list"

record project =
  pj_schema :: schema
  pj_id :: uuid
  pj_name :: string
  pj_created :: go_time
  pj_root :: string
  pj_extensions :: extensions

record source_record = common +
  so_key :: string
  so_kind :: source_kind
  so_subdir :: string
  so_locators :: "string list option"
  so_state :: source_state
  so_retired :: "go_time option"
  so_extensions :: extensions

record payoff =
  py_summary :: string
  py_metric :: string
  py_unit :: string
  py_estimate :: "go_float option"

record finding_dependency =
  fd_finding :: typed_id
  fd_revision :: string
  fd_belief :: string

record resource_need =
  rn_pool :: typed_id
  rn_units :: "64 word"
  rn_hours :: go_float

record utility_estimate =
  ut_probability :: go_float
  ut_impact :: go_float
  ut_information :: go_float
  ut_unblock :: go_float
  ut_risk :: go_float

record classification =
  cf_domain :: string
  cf_work :: string
  cf_method :: string
  cf_component :: string
  cf_lane :: research_lane
  cf_risk :: risk_class
  cf_horizon :: horizon_class
  cf_origin :: origin_class

record plan = common +
  pl_priority :: priority
  pl_effort :: effort
  pl_state :: plan_state
  pl_assumptions :: "typed_id list"
  pl_result :: typed_id
  pl_payoff :: payoff
  pl_idea :: typed_id
  pl_cluster :: string
  pl_classification :: "classification option"
  pl_dependencies :: "finding_dependency list"
  pl_resources :: "resource_need list"
  pl_utility :: "utility_estimate option"
  pl_extensions :: extensions

record external_ref =
  er_role :: external_role
  er_provider :: string
  er_context :: string
  er_native_kind :: string
  er_native_id :: string
  er_uri :: string
  er_observed :: "go_time option"
  er_metadata :: "(string \<times> open_value) list"

record try_conclusion =
  tc_concluded :: go_time
  tc_summary :: string
  tc_digests :: "string list"
  tc_refs :: "external_ref list"

record try_abandonment =
  ta_abandoned :: go_time
  ta_reason :: string

record try_record = common +
  ty_state :: try_state
  ty_goal :: string
  ty_sources :: "typed_id list"
  ty_conclusion :: "try_conclusion option"
  ty_abandonment :: "try_abandonment option"
  ty_adopted :: typed_id
  ty_extensions :: extensions

record design =
  de_question :: string
  de_hypothesis :: string
  de_kind :: experiment_kind
  de_primary :: string
  de_secondary :: "string list option"
  de_baseline :: string
  de_comparability :: string
  de_success :: "string list"
  de_rule :: string
  de_locked :: "go_time option"
  de_digest :: string

record amendment =
  am_amended :: go_time
  am_reason :: string
  am_previous :: string
  am_new :: string
  am_changes :: "string list"

record closure_detail =
  cl_reason :: string
  cl_superseded :: typed_id

record conclusion_evidence =
  ce_run :: typed_id
  ce_disposition :: evidence_disposition
  ce_reason :: string

record conclusion =
  cn_concluded :: go_time
  cn_summary :: string
  cn_evidence :: "conclusion_evidence list"

record experiment_record = common +
  ex_lifecycle :: experiment_lifecycle
  ex_closure :: "experiment_closure option"
  ex_verdict :: "verdict option"
  ex_design :: design
  ex_amendments :: "amendment list"
  ex_detail :: "closure_detail option"
  ex_conclusion :: "conclusion option"
  ex_parents :: "typed_id list"
  ex_inputs :: "typed_id list"
  ex_extensions :: extensions

record run_record = common +
  ru_experiment :: typed_id
  ru_role :: run_role
  ru_objective :: string
  ru_config :: string
  ru_data :: string
  ru_seeds :: "int list"
  ru_outputs :: "string list"
  ru_extensions :: extensions

record provenance =
  pv_captured :: go_time
  pv_commit :: string
  pv_dirty :: bool
  pv_dirty_digest :: string
  pv_config :: string
  pv_data :: string
  pv_environment :: string
  pv_reproducibility :: reproducibility

record terminal =
  tm_source :: string
  tm_observed :: go_time
  tm_started :: "go_time option"
  tm_ended :: go_time
  tm_exit :: "int option"
  tm_signal :: string

record source_snapshot =
  ss_source :: typed_id
  ss_subdir :: string
  ss_policy :: string
  ss_captured :: go_time
  ss_format :: git_object_format
  ss_base :: string
  ss_head :: string
  ss_changes :: "string list option"
  ss_state :: snapshot_state
  ss_dirty_digest :: string
  ss_dirty_summary :: string
  ss_digest :: string
  ss_reproducibility :: reproducibility

record attempt = common +
  at_run :: typed_id
  at_try :: typed_id
  at_retry :: typed_id
  at_state :: attempt_state
  at_reason :: string
  at_runner :: string
  at_scheduler :: string
  at_cwd :: string
  at_argv :: "string list"
  at_execution :: typed_id
  at_snapshots :: "source_snapshot list"
  at_refs :: "external_ref list"
  at_provenance :: "provenance option"
  at_terminal :: "terminal option"
  at_pool :: typed_id
  at_queue :: typed_id
  at_queue_revision :: "64 word"
  at_lane :: "research_lane option"
  at_dispatch :: string
  at_base :: string
  at_head :: string
  at_changes :: "string list option"
  at_extensions :: extensions

record finding_evidence =
  fe_kind :: finding_evidence_kind
  fe_ref :: typed_id
  fe_detail :: string

record finding = common +
  fi_statement :: string
  fi_scope :: string
  fi_weakens :: "typed_id list"
  fi_overturns :: "typed_id list"
  fi_evidence :: "finding_evidence list"
  fi_extensions :: extensions

record decision = common +
  dn_statement :: string
  dn_based_on :: "typed_id list"
  dn_action :: string
  dn_effective :: go_time
  dn_supersedes :: "typed_id list"
  dn_extensions :: extensions

record taxonomy =
  tx_domains :: "string list"
  tx_work :: "string list"
  tx_methods :: "string list"
  tx_components :: "string list"

record saturation_policy =
  sa_budget :: go_float
  sa_window :: "64 word"
  sa_improvement :: go_float
  sa_probability :: go_float

record cluster_policy =
  cu_name :: string
  cu_state :: cluster_state
  cu_budget :: go_float
  cu_window :: "64 word"
  cu_improvement :: go_float
  cu_probability :: go_float
  cu_reopen :: string

record policy =
  po_schema :: schema
  po_created :: go_time
  po_updated :: go_time
  po_autonomy :: autonomy_mode
  po_exploit :: go_float
  po_explore :: go_float
  po_formula :: string
  po_tie :: tie_policy
  po_human :: bool
  po_taxonomy :: taxonomy
  po_saturation :: saturation_policy
  po_clusters :: "cluster_policy list"
  po_extensions :: extensions

record idea = common +
  ia_state :: idea_state
  ia_summary :: string
  ia_proposed_by :: string
  ia_cluster :: string
  ia_classification :: classification
  ia_parents :: "typed_id list"
  ia_plan :: typed_id
  ia_merged :: typed_id
  ia_origin :: typed_id
  ia_extensions :: extensions

record resource_pool = common +
  rp_enabled :: bool
  rp_capacity :: "64 word"
  rp_unit :: string
  rp_bottleneck :: string
  rp_cost :: "go_float option"
  rp_extensions :: extensions

record queue_entry =
  qe_plan :: typed_id
  qe_revision :: string
  qe_score :: go_float
  qe_inserted :: go_time
  qe_pinned :: bool

record queue_partition =
  qp_pool :: typed_id
  qp_lane :: research_lane
  qp_entries :: "queue_entry list option"

record queue = common +
  qu_revision :: "64 word"
  qu_paused :: bool
  qu_partitions :: "queue_partition list option"
  qu_extensions :: extensions

record queue_score =
  qs_utility :: go_float
  qs_information :: go_float
  qs_unblock :: go_float
  qs_risk :: go_float
  qs_hours :: go_float
  qs_total :: go_float

record queue_advice = common +
  qa_queue :: typed_id
  qa_queue_revision :: "64 word"
  qa_candidate :: typed_id
  qa_pool :: typed_id
  qa_lane :: research_lane
  qa_position :: "64 word"
  qa_order :: "typed_id list"
  qa_score :: queue_score
  qa_model :: string
  qa_prompt :: string
  qa_rationale :: string
  qa_extensions :: extensions

record battle_record = common +
  bt_queue :: typed_id
  bt_queue_revision :: "64 word"
  bt_advice :: typed_id
  bt_candidate :: typed_id
  bt_incumbent :: typed_id
  bt_pool :: typed_id
  bt_lane :: research_lane
  bt_order_ab :: battle_choice
  bt_order_ba :: battle_choice
  bt_outcome :: battle_outcome
  bt_confidence :: go_float
  bt_rationale :: string
  bt_extensions :: extensions

record metric_spec =
  ms_name :: string
  ms_unit :: string
  ms_direction :: metric_direction
  ms_threshold :: "go_float option"

record evaluation_spec = common +
  es_purpose :: evaluation_purpose
  es_dataset :: string
  es_protocol :: string
  es_metrics :: "metric_spec list"
  es_pool :: typed_id
  es_hours :: go_float
  es_sealed :: "go_time option"
  es_extensions :: extensions

record metric_value =
  mv_name :: string
  mv_value :: go_float
  mv_unit :: string

record evaluation = common +
  el_spec :: typed_id
  el_subject :: typed_id
  el_attempt :: typed_id
  el_outcome :: evaluation_outcome
  el_evaluated :: go_time
  el_metrics :: "metric_value list"
  el_refs :: "external_ref list"
  el_summary :: string
  el_extensions :: extensions

record candidate_source =
  cs_source :: typed_id
  cs_head :: string
  cs_changes :: "string list option"

record candidate_record = common +
  ca_experiment :: typed_id
  ca_evaluation :: typed_id
  ca_parents :: "typed_id list"
  ca_commit :: string
  ca_changes :: "string list option"
  ca_attempt :: typed_id
  ca_sources :: "candidate_source list option"
  ca_refs :: "external_ref list"
  ca_extensions :: extensions

record release_slot =
  sl_name :: string
  sl_candidate :: typed_id

record release = common +
  rl_target :: string
  rl_version :: string
  rl_state :: release_state
  rl_slots :: "release_slot list"
  rl_experiment :: typed_id
  rl_combination :: typed_id
  rl_evaluation :: typed_id
  rl_extensions :: extensions

record promotion_spec = common +
  ps_target :: string
  ps_spec :: typed_id
  ps_sealed :: go_time
  ps_hours :: go_float
  ps_human :: bool
  ps_extensions :: extensions

record promotion = common +
  pr_target :: string
  pr_spec :: typed_id
  pr_challenger :: typed_id
  pr_incumbent :: typed_id
  pr_evaluation :: typed_id
  pr_outcome :: promotion_outcome
  pr_applied :: go_time
  pr_previous :: typed_id
  pr_approved_by :: string
  pr_extensions :: extensions

section \<open>The record interface\<close>

datatype research_record =
    RecProject project
  | RecPolicy policy
  | RecSource source_record
  | RecIdea idea
  | RecResourcePool resource_pool
  | RecQueue queue
  | RecQueueAdvice queue_advice
  | RecBattle battle_record
  | RecPlan plan
  | RecTry try_record
  | RecExperiment experiment_record
  | RecRun run_record
  | RecAttempt attempt
  | RecEvaluationSpec evaluation_spec
  | RecEvaluation evaluation
  | RecFinding finding
  | RecCandidate candidate_record
  | RecRelease release
  | RecPromotionSpec promotion_spec
  | RecPromotion promotion
  | RecDecision decision

definition nonzero :: "typed_id \<Rightarrow> typed_id option" where
  "nonzero i = (if id_is_zero i then None else Some i)"

fun GetSchema :: "research_record \<Rightarrow> schema" where
  "GetSchema (RecProject r) = pj_schema r"
| "GetSchema (RecPolicy r) = po_schema r"
| "GetSchema (RecSource r) = c_schema r"
| "GetSchema (RecIdea r) = c_schema r"
| "GetSchema (RecResourcePool r) = c_schema r"
| "GetSchema (RecQueue r) = c_schema r"
| "GetSchema (RecQueueAdvice r) = c_schema r"
| "GetSchema (RecBattle r) = c_schema r"
| "GetSchema (RecPlan r) = c_schema r"
| "GetSchema (RecTry r) = c_schema r"
| "GetSchema (RecExperiment r) = c_schema r"
| "GetSchema (RecRun r) = c_schema r"
| "GetSchema (RecAttempt r) = c_schema r"
| "GetSchema (RecEvaluationSpec r) = c_schema r"
| "GetSchema (RecEvaluation r) = c_schema r"
| "GetSchema (RecFinding r) = c_schema r"
| "GetSchema (RecCandidate r) = c_schema r"
| "GetSchema (RecRelease r) = c_schema r"
| "GetSchema (RecPromotionSpec r) = c_schema r"
| "GetSchema (RecPromotion r) = c_schema r"
| "GetSchema (RecDecision r) = c_schema r"

fun GetKind :: "research_record \<Rightarrow> kind" where
  "GetKind (RecProject r) = KindProject"
| "GetKind (RecPolicy r) = KindPolicy"
| "GetKind (RecSource r) = KindSource"
| "GetKind (RecIdea r) = KindIdea"
| "GetKind (RecResourcePool r) = KindResourcePool"
| "GetKind (RecQueue r) = KindQueue"
| "GetKind (RecQueueAdvice r) = KindQueueAdvice"
| "GetKind (RecBattle r) = KindBattle"
| "GetKind (RecPlan r) = KindPlan"
| "GetKind (RecTry r) = KindTry"
| "GetKind (RecExperiment r) = KindExperiment"
| "GetKind (RecRun r) = KindRun"
| "GetKind (RecAttempt r) = KindAttempt"
| "GetKind (RecEvaluationSpec r) = KindEvaluationSpec"
| "GetKind (RecEvaluation r) = KindEvaluation"
| "GetKind (RecFinding r) = KindFinding"
| "GetKind (RecCandidate r) = KindCandidate"
| "GetKind (RecRelease r) = KindRelease"
| "GetKind (RecPromotionSpec r) = KindPromotionSpec"
| "GetKind (RecPromotion r) = KindPromotion"
| "GetKind (RecDecision r) = KindDecision"

fun GetID :: "research_record \<Rightarrow> typed_id option" where
  "GetID (RecProject r) = None"
| "GetID (RecPolicy r) = None"
| "GetID (RecSource r) = nonzero (c_id r)"
| "GetID (RecIdea r) = nonzero (c_id r)"
| "GetID (RecResourcePool r) = nonzero (c_id r)"
| "GetID (RecQueue r) = nonzero (c_id r)"
| "GetID (RecQueueAdvice r) = nonzero (c_id r)"
| "GetID (RecBattle r) = nonzero (c_id r)"
| "GetID (RecPlan r) = nonzero (c_id r)"
| "GetID (RecTry r) = nonzero (c_id r)"
| "GetID (RecExperiment r) = nonzero (c_id r)"
| "GetID (RecRun r) = nonzero (c_id r)"
| "GetID (RecAttempt r) = nonzero (c_id r)"
| "GetID (RecEvaluationSpec r) = nonzero (c_id r)"
| "GetID (RecEvaluation r) = nonzero (c_id r)"
| "GetID (RecFinding r) = nonzero (c_id r)"
| "GetID (RecCandidate r) = nonzero (c_id r)"
| "GetID (RecRelease r) = nonzero (c_id r)"
| "GetID (RecPromotionSpec r) = nonzero (c_id r)"
| "GetID (RecPromotion r) = nonzero (c_id r)"
| "GetID (RecDecision r) = nonzero (c_id r)"

fun GetCommon :: "research_record \<Rightarrow> common option" where
  "GetCommon (RecProject r) = None"
| "GetCommon (RecPolicy r) = None"
| "GetCommon (RecSource r) = Some (common.truncate r)"
| "GetCommon (RecIdea r) = Some (common.truncate r)"
| "GetCommon (RecResourcePool r) = Some (common.truncate r)"
| "GetCommon (RecQueue r) = Some (common.truncate r)"
| "GetCommon (RecQueueAdvice r) = Some (common.truncate r)"
| "GetCommon (RecBattle r) = Some (common.truncate r)"
| "GetCommon (RecPlan r) = Some (common.truncate r)"
| "GetCommon (RecTry r) = Some (common.truncate r)"
| "GetCommon (RecExperiment r) = Some (common.truncate r)"
| "GetCommon (RecRun r) = Some (common.truncate r)"
| "GetCommon (RecAttempt r) = Some (common.truncate r)"
| "GetCommon (RecEvaluationSpec r) = Some (common.truncate r)"
| "GetCommon (RecEvaluation r) = Some (common.truncate r)"
| "GetCommon (RecFinding r) = Some (common.truncate r)"
| "GetCommon (RecCandidate r) = Some (common.truncate r)"
| "GetCommon (RecRelease r) = Some (common.truncate r)"
| "GetCommon (RecPromotionSpec r) = Some (common.truncate r)"
| "GetCommon (RecPromotion r) = Some (common.truncate r)"
| "GetCommon (RecDecision r) = Some (common.truncate r)"

fun GetExtensions :: "research_record \<Rightarrow> extensions" where
  "GetExtensions (RecProject r) = pj_extensions r"
| "GetExtensions (RecPolicy r) = po_extensions r"
| "GetExtensions (RecSource r) = so_extensions r"
| "GetExtensions (RecIdea r) = ia_extensions r"
| "GetExtensions (RecResourcePool r) = rp_extensions r"
| "GetExtensions (RecQueue r) = qu_extensions r"
| "GetExtensions (RecQueueAdvice r) = qa_extensions r"
| "GetExtensions (RecBattle r) = bt_extensions r"
| "GetExtensions (RecPlan r) = pl_extensions r"
| "GetExtensions (RecTry r) = ty_extensions r"
| "GetExtensions (RecExperiment r) = ex_extensions r"
| "GetExtensions (RecRun r) = ru_extensions r"
| "GetExtensions (RecAttempt r) = at_extensions r"
| "GetExtensions (RecEvaluationSpec r) = es_extensions r"
| "GetExtensions (RecEvaluation r) = el_extensions r"
| "GetExtensions (RecFinding r) = fi_extensions r"
| "GetExtensions (RecCandidate r) = ca_extensions r"
| "GetExtensions (RecRelease r) = rl_extensions r"
| "GetExtensions (RecPromotionSpec r) = ps_extensions r"
| "GetExtensions (RecPromotion r) = pr_extensions r"
| "GetExtensions (RecDecision r) = dn_extensions r"

definition hasMigrationExtension :: "extensions \<Rightarrow> bool" where
  "hasMigrationExtension e \<longleftrightarrow> MigrationExtension \<in> set (map fst e)"

text \<open>The same record with other extension tables.\<close>

fun with_extensions :: "extensions \<Rightarrow> research_record \<Rightarrow> research_record" where
  "with_extensions e (RecProject r) = RecProject (r\<lparr>pj_extensions := e\<rparr>)"
| "with_extensions e (RecPolicy r) = RecPolicy (r\<lparr>po_extensions := e\<rparr>)"
| "with_extensions e (RecSource r) = RecSource (r\<lparr>so_extensions := e\<rparr>)"
| "with_extensions e (RecIdea r) = RecIdea (r\<lparr>ia_extensions := e\<rparr>)"
| "with_extensions e (RecResourcePool r) = RecResourcePool (r\<lparr>rp_extensions := e\<rparr>)"
| "with_extensions e (RecQueue r) = RecQueue (r\<lparr>qu_extensions := e\<rparr>)"
| "with_extensions e (RecQueueAdvice r) = RecQueueAdvice (r\<lparr>qa_extensions := e\<rparr>)"
| "with_extensions e (RecBattle r) = RecBattle (r\<lparr>bt_extensions := e\<rparr>)"
| "with_extensions e (RecPlan r) = RecPlan (r\<lparr>pl_extensions := e\<rparr>)"
| "with_extensions e (RecTry r) = RecTry (r\<lparr>ty_extensions := e\<rparr>)"
| "with_extensions e (RecExperiment r) = RecExperiment (r\<lparr>ex_extensions := e\<rparr>)"
| "with_extensions e (RecRun r) = RecRun (r\<lparr>ru_extensions := e\<rparr>)"
| "with_extensions e (RecAttempt r) = RecAttempt (r\<lparr>at_extensions := e\<rparr>)"
| "with_extensions e (RecEvaluationSpec r) = RecEvaluationSpec (r\<lparr>es_extensions := e\<rparr>)"
| "with_extensions e (RecEvaluation r) = RecEvaluation (r\<lparr>el_extensions := e\<rparr>)"
| "with_extensions e (RecFinding r) = RecFinding (r\<lparr>fi_extensions := e\<rparr>)"
| "with_extensions e (RecCandidate r) = RecCandidate (r\<lparr>ca_extensions := e\<rparr>)"
| "with_extensions e (RecRelease r) = RecRelease (r\<lparr>rl_extensions := e\<rparr>)"
| "with_extensions e (RecPromotionSpec r) = RecPromotionSpec (r\<lparr>ps_extensions := e\<rparr>)"
| "with_extensions e (RecPromotion r) = RecPromotion (r\<lparr>pr_extensions := e\<rparr>)"
| "with_extensions e (RecDecision r) = RecDecision (r\<lparr>dn_extensions := e\<rparr>)"

lemma GetExtensions_with: "GetExtensions (with_extensions e r) = e"
  by (cases r) simp_all

section \<open>Providers\<close>

definition knownProviderRoles :: "(string \<times> external_role list) list" where
  "knownProviderRoles =
    [(''direct'', [ExternalRunner, ExternalScheduler]),
     (''dvc'', [ExternalRunner, ExternalScheduler, ExternalArtifact]),
     (''jupyter'', [ExternalRunner]),
     (''marimo'', [ExternalRunner]),
     (''mlflow'', [ExternalRunner, ExternalTracker, ExternalArtifact, ExternalRegistry]),
     (''pueue'', [ExternalScheduler]),
     (''slurm'', [ExternalScheduler])]"

definition KnownProviderRoles :: "string \<Rightarrow> external_role list \<times> bool" where
  "KnownProviderRoles provider =
    (case map_of knownProviderRoles provider of None \<Rightarrow> ([], False) | Some roles \<Rightarrow> (roles, True))"

definition KnownProviderSupportsRole :: "string \<Rightarrow> external_role \<Rightarrow> bool \<times> bool" where
  "KnownProviderSupportsRole provider role =
    (let (roles, known) = KnownProviderRoles provider in
     if \<not> known then (False, False) else if role \<in> set roles then (True, True) else (True, False))"

end
