(* ===== verification/Exp_Checks.thy ===== *)
theory Exp_Checks
  imports Exp_Records
begin

text \<open>
  The issue collector and the helpers the record validators share
  (\<^verbatim>\<open>internal/research/issues.go\<close>, the end of \<^verbatim>\<open>validate.go\<close> and of
  \<^verbatim>\<open>control_validate.go\<close>, and the extension and text checks of \<^verbatim>\<open>policy.go\<close>).

  An issue is its code and its field; the prose of its message is left out. A validator returns the
  issues it adds, in the order it adds them. What the validators take from the classifier of
  credentials, from URL parsing and from the digests is in the record \<open>check_host\<close>.
\<close>

record check_host = host +
  ch_text :: "string \<Rightarrow> string option"
  ch_material :: "string \<Rightarrow> bool"
  ch_sensitive :: "string \<Rightarrow> bool"
  ch_argv :: "string list \<Rightarrow> nat list"
  ch_redact :: "string \<Rightarrow> string"
  ch_locator :: "string \<Rightarrow> (string, string) result"
  ch_uri :: "string \<Rightarrow> string option"
  ch_design :: "design \<Rightarrow> string option"
  ch_snapshot :: "source_snapshot \<Rightarrow> string option"
  ch_reference :: "external_ref \<Rightarrow> nat option"

type_synonym issue = "string \<times> string"

section \<open>Collecting issues (issues.go)\<close>

definition need :: "bool \<Rightarrow> string \<Rightarrow> string \<Rightarrow> issue list" where
  "need ok code field = (if ok then [] else [(code, field)])"

definition only :: "bool \<Rightarrow> issue list \<Rightarrow> issue list" where
  "only b is = (if b then is else [])"

lemma need_Nil [simp]: "need ok code field = [] \<longleftrightarrow> ok"
  by (simp add: need_def)

lemma only_Nil [simp]: "only b is = [] \<longleftrightarrow> (b \<longrightarrow> is = [])"
  by (simp add: only_def)

text \<open>The body of an indexed loop sees the elements before it (for the maps of seen values).\<close>

fun each_from :: "'a list \<Rightarrow> ('a list \<Rightarrow> 'a \<Rightarrow> issue list) \<Rightarrow> 'a list \<Rightarrow> issue list" where
  "each_from before f [] = []"
| "each_from before f (x # xs) = f before x @ each_from (before @ [x]) f xs"

definition each :: "('a list \<Rightarrow> 'a \<Rightarrow> issue list) \<Rightarrow> 'a list \<Rightarrow> issue list" where
  "each f xs = each_from [] f xs"

lemma each_from_Nil:
  "each_from before f xs = [] \<longleftrightarrow> (\<forall>i < length xs. f (before @ take i xs) (xs ! i) = [])"
proof (induction xs arbitrary: before)
  case Nil
  then show ?case by simp
next
  case (Cons x xs)
  then show ?case by (simp add: All_less_Suc2)
qed

lemma each_Nil: "each f xs = [] \<longleftrightarrow> (\<forall>i < length xs. f (take i xs) (xs ! i) = [])"
  by (simp add: each_def each_from_Nil)

text \<open>A check that accepts every element, and one that also refuses repeated keys.\<close>

lemma each_Nil_all: "each (\<lambda>before x. g before x @ f x) xs = [] \<Longrightarrow> x \<in> set xs \<Longrightarrow> f x = []"
  by (auto simp: each_Nil in_set_conv_nth)

lemma distinct_by_prefix: "(\<forall>i < length xs. xs ! i \<notin> set (take i xs)) \<longleftrightarrow> distinct xs"
proof (induction xs rule: rev_induct)
  case Nil
  then show ?case by simp
next
  case (snoc x xs)
  have "(\<forall>i < Suc (length xs). (xs @ [x]) ! i \<notin> set (take i (xs @ [x]))) \<longleftrightarrow>
      (\<forall>i < length xs. xs ! i \<notin> set (take i xs)) \<and> x \<notin> set xs"
    by (auto simp: less_Suc_eq nth_append)
  with snoc show ?case by auto
qed

lemma each_distinct:
  assumes "each f xs = []" and "\<And>before x. f before x = [] \<Longrightarrow> k x \<notin> k ` set before"
  shows "distinct (map k xs)"
  unfolding distinct_by_prefix [symmetric]
proof (intro allI impI)
  fix i
  assume i: "i < length (map k xs)"
  with assms(1) have "f (take i xs) (xs ! i) = []" by (simp add: each_Nil)
  from assms(2) [OF this] i show "map k xs ! i \<notin> set (take i (map k xs))" by (simp add: take_map)
qed

definition item_field :: "string \<Rightarrow> 'a list \<Rightarrow> string" where
  "item_field field before = field @ ''['' @ itoa (length before) @ '']''"

definition issue_before :: "issue \<Rightarrow> issue \<Rightarrow> bool" where
  "issue_before a b \<longleftrightarrow> snd a < snd b \<or> snd a = snd b \<and> fst a < fst b"

text \<open>\<^verbatim>\<open>add\<close> redacts the field; \<^verbatim>\<open>err\<close> sorts by field, code and message. The empty list is nil.\<close>

definition collected :: "'h check_host_scheme \<Rightarrow> issue list \<Rightarrow> issue list" where
  "collected h is = stable_sort issue_before (map (\<lambda>(code, field). (code, ch_redact h field)) is)"

lemma collected_Nil [simp]: "collected h is = [] \<longleftrightarrow> is = []"
  by (simp add: collected_def flip: length_0_conv)

section \<open>Text checks (policy.go)\<close>

definition validUTC :: "go_time \<Rightarrow> bool" where
  "validUTC t \<longleftrightarrow> \<not> time_is_zero t \<and> t_offset t = 0"

definition validateCommitSafeString :: "'h check_host_scheme \<Rightarrow> string \<Rightarrow> string \<Rightarrow> issue list" where
  "validateCommitSafeString h value field =
     (case ch_text h value of None \<Rightarrow> [] | Some code \<Rightarrow> [(code, field)])"

definition validateCredentialSensitiveString :: "'h check_host_scheme \<Rightarrow> string \<Rightarrow> string \<Rightarrow> issue list" where
  "validateCredentialSensitiveString h value field =
     (if ch_material h value then [(''privacy.secret'', field)] else validateCommitSafeString h value field)"

definition NormalizeSourceSubdir :: "'h check_host_scheme \<Rightarrow> string \<Rightarrow> (string, string) result" where
  "NormalizeSourceSubdir h value0 =
    (let value = trim_space value0; cleaned = path_clean value in
     if value = [] then Inr ''.''
     else if \<not> utf8_valid value \<or> hasAnyControl value then Inl ''path.invalid_text''
     else if CHR 0x5C \<in> set value \<or> has_prefix value ''/'' \<or> driveQualified value \<or>
       has_prefix value ''~'' \<or> has_prefix (to_lower value) ''file:'' then Inl ''path.not_relative''
     else if ''..'' \<in> set (split_on CHR ''/'' value) then Inl ''path.traversal''
     else if 4096 < length cleaned then Inl ''path.size''
     else case ValidateCommittedPath cleaned True of Some code \<Rightarrow> Inl code
     | None \<Rightarrow> if ch_material h cleaned then Inl ''privacy.secret''
        else case ch_text h cleaned of Some code \<Rightarrow> Inl code | None \<Rightarrow> Inr cleaned)"

section \<open>Extensions (policy.go)\<close>

text \<open>\<^verbatim>\<open>validateOpenValue\<close>, with the loops over a table and over an array as functions of their own.\<close>

fun validateOpenValue :: "'h check_host_scheme \<Rightarrow> nat \<Rightarrow> string \<Rightarrow> open_value \<Rightarrow> issue list"
  and open_table :: "'h check_host_scheme \<Rightarrow> nat \<Rightarrow> string \<Rightarrow> (string \<times> open_value) list \<Rightarrow> issue list"
  and open_list :: "'h check_host_scheme \<Rightarrow> nat \<Rightarrow> string \<Rightarrow> nat \<Rightarrow> open_value list \<Rightarrow> issue list" where
  "validateOpenValue h depth field value =
    (if 32 < depth then [(''extension.depth'', field)]
     else case value of
       OvNull \<Rightarrow> [(''extension.value'', field)]
     | OvString s \<Rightarrow> validateCredentialSensitiveString h s field
     | OvFloat x \<Rightarrow> need (f_finite x) ''extension.number'' field
     | OvTime _ \<Rightarrow> []
     | OvTable kvs \<Rightarrow> open_table h depth field kvs
     | OvList vs \<Rightarrow> open_list h depth field 0 vs
     | OvBool _ \<Rightarrow> []
     | OvInt _ \<Rightarrow> []
     | OvUint _ \<Rightarrow> []
     | OvStruct \<Rightarrow> []
     | OvOddMap \<Rightarrow> [(''extension.value'', field)]
     | OvOther \<Rightarrow> [(''extension.value'', field)])"
| "open_table h depth field [] = []"
| "open_table h depth field ((key, v) # kvs) =
    (let child = field @ ''.'' @ key in
     need (\<not> ch_sensitive h key) ''privacy.secret_field'' child @ validateCommitSafeString h key child @
     validateOpenValue h (Suc depth) child v @ open_table h depth field kvs)"
| "open_list h depth field n [] = []"
| "open_list h depth field n (v # vs) =
    validateOpenValue h (Suc depth) (field @ ''['' @ itoa n @ '']'') v @ open_list h depth field (Suc n) vs"

declare validateOpenValue.simps [simp del]

definition validateExtensions :: "'h check_host_scheme \<Rightarrow> extensions \<Rightarrow> issue list" where
  "validateExtensions h extensions =
    concat (map (\<lambda>(namespace, table).
      let field = ''extensions.'' @ [CHR 0x22] @ namespace @ [CHR 0x22] in
      need (validNamespace namespace) ''extension.namespace'' field @
      (case table of None \<Rightarrow> [(''extension.table'', field)]
       | Some kvs \<Rightarrow> validateOpenValue h 0 field (OvTable kvs))) extensions)"

section \<open>References, sets and lists (validate.go)\<close>

definition validateReferenceKind :: "'h check_host_scheme \<Rightarrow> typed_id \<Rightarrow> kind \<Rightarrow> string \<Rightarrow> issue list" where
  "validateReferenceKind h i expected field =
    (if id_is_zero i then [(''reference.required'', field)]
     else need (id_kind_of i = expected) ''reference.wrong_kind'' field @
       need (IsNative h i) ''reference.id_version'' field)"

definition validateIDSet :: "'h check_host_scheme \<Rightarrow> typed_id list \<Rightarrow> kind \<Rightarrow> string \<Rightarrow> issue list" where
  "validateIDSet h values expected field =
    each (\<lambda>before i. validateReferenceKind h i expected (item_field field before) @
      need (i \<notin> set before) ''reference.duplicate'' (item_field field before)) values"

definition validateStringSet :: "string list \<Rightarrow> string \<Rightarrow> (string \<Rightarrow> bool) \<Rightarrow> issue list" where
  "validateStringSet values field valid =
    each (\<lambda>before value. need (valid value) ''record.set_value'' (item_field field before) @
      need (value \<notin> set before) ''record.set_duplicate'' (item_field field before)) values"

definition validateNonemptyStringList :: "'h check_host_scheme \<Rightarrow> string list \<Rightarrow> string \<Rightarrow> bool \<Rightarrow> issue list" where
  "validateNonemptyStringList h values field required =
    need (\<not> (required \<and> values = [])) ''record.list_required'' field @
    each (\<lambda>before value. need (nonempty value) ''record.list_value'' (item_field field before) @
      validateCommitSafeString h value (item_field field before) @
      need (value \<notin> set before) ''record.list_duplicate'' (item_field field before)) values"

definition validateOptionalDigest :: "string \<Rightarrow> string \<Rightarrow> issue list" where
  "validateOptionalDigest value field = need (value = [] \<or> validDigest value) ''digest.invalid'' field"

definition idsSorted :: "'h host_scheme \<Rightarrow> typed_id list \<Rightarrow> bool" where
  "idsSorted h ids \<longleftrightarrow> successively (<) (map (id_string h) ids)"

section \<open>Helpers of control\_validate.go\<close>

definition positiveFinite :: "go_float \<Rightarrow> bool" where
  "positiveFinite x \<longleftrightarrow> f_finite x \<and> f_less f_zero x"

definition unitInterval :: "go_float \<Rightarrow> bool" where
  "unitInterval x \<longleftrightarrow> f_finite x \<and> f_le f_zero x \<and> f_le x f_one"

definition not_negative :: "go_float \<Rightarrow> bool" where
  "not_negative x \<longleftrightarrow> f_finite x \<and> \<not> f_less x f_zero"

definition validateImmutable :: "'c common_scheme \<Rightarrow> issue list" where
  "validateImmutable c = need (time_equal (c_created c) (c_updated c)) ''record.immutable'' ''updated_at''"

definition validatePathList :: "'h check_host_scheme \<Rightarrow> string list \<Rightarrow> string \<Rightarrow> bool \<Rightarrow> issue list" where
  "validatePathList h values field required =
    need (\<not> (required \<and> values = [])) ''record.list_required'' field @
    each (\<lambda>before value.
      (case ValidateCommittedPath value False of None \<Rightarrow> [] | Some code \<Rightarrow> [(code, item_field field before)]) @
      validateCredentialSensitiveString h value (item_field field before) @
      need (value \<notin> set before) ''record.set_duplicate'' (item_field field before)) values"

definition validateSlugSet :: "string list \<Rightarrow> string \<Rightarrow> bool \<Rightarrow> issue list" where
  "validateSlugSet values field required =
    need (\<not> (required \<and> values = [])) ''record.list_required'' field @ validateStringSet values field validSlug"

fun validateLane :: "research_lane \<Rightarrow> string \<Rightarrow> issue list" where
  "validateLane LaneExploit field = []"
| "validateLane LaneExplore field = []"
| "validateLane (ResearchLaneOther _) field = [(''queue.lane'', field)]"

fun validateBattleChoice :: "battle_choice \<Rightarrow> string \<Rightarrow> issue list" where
  "validateBattleChoice (BattleChoiceOther _) field = [(''battle.choice'', field)]"
| "validateBattleChoice _ field = []"

definition validGitObjectID :: "string \<Rightarrow> nat \<Rightarrow> bool" where
  "validGitObjectID value n \<longleftrightarrow> n \<noteq> 0 \<and> length value = n \<and> value = to_lower value \<and> list_all lower_hex value"

text \<open>A time that must be UTC and lie in the lifetime of its record.\<close>

definition within_lifetime :: "go_time \<Rightarrow> 'c common_scheme \<Rightarrow> string \<Rightarrow> issue list" where
  "within_lifetime t c field =
    (if \<not> validUTC t then [(''timestamp.utc'', field)]
     else need (\<not> (time_before t (c_created c) \<or> time_after t (c_updated c))) ''timestamp.order'' field)"

end
