(* ===== verification/Exp_Validate.thy ===== *)
theory Exp_Validate
  imports Exp_Checks
begin

text \<open>
  The validators of the scientific records (\<^verbatim>\<open>internal/research/validate.go\<close>). A validator is the
  list of the issues it adds; a switch's default is an issue, and Go's early conditions are the
  branches of the definitions. Loops over literal maps are written in one of their orders: the
  collector sorts.
\<close>

section \<open>Project, Source and the common fields\<close>

definition validateProject :: "'h check_host_scheme \<Rightarrow> project \<Rightarrow> issue list" where
  "validateProject h p =
    (if pj_id p = nil_uuid then [(''record.id'', ''project_id'')]
     else need (h_uuid_rfc4122 h (pj_id p) \<and> h_uuid_version h (pj_id p) = 7) ''record.id_version'' ''project_id'') @
    need (singleLine (pj_name p)) ''record.name'' ''name'' @
    validateCommitSafeString h (pj_name p) ''name'' @
    need (validUTC (pj_created p)) ''timestamp.utc'' ''created_at'' @
    need (pj_root p = ''.'') ''project.experiments_root'' ''experiments_root''"

definition MaxSourceLocatorHints :: nat where
  "MaxSourceLocatorHints = 64"

definition validateSource :: "'h check_host_scheme \<Rightarrow> source_record \<Rightarrow> issue list" where
  "validateSource h s =
    need (NormalizeSourceKey (so_key s) = Some (so_key s)) ''source.key'' ''key'' @
    need (so_kind s = SourceGit) ''source.kind'' ''kind'' @
    (case NormalizeSourceSubdir h (so_subdir s) of
       Inl code \<Rightarrow> [(code, ''subdir'')]
     | Inr subdir \<Rightarrow> need (subdir = so_subdir s) ''source.subdir_normalized'' ''subdir'') @
    need (so_locators s \<noteq> None) ''record.list_required'' ''locator_hints'' @
    need (length (slice (so_locators s)) \<le> MaxSourceLocatorHints) ''source.locator_count'' ''locator_hints'' @
    each (\<lambda>before locator.
      (case ch_locator h locator of
         Inl code \<Rightarrow> [(code, item_field ''locator_hints'' before)]
       | Inr normalized \<Rightarrow> need (normalized = locator) ''source.locator_normalized'' (item_field ''locator_hints'' before)) @
      need (locator \<notin> set before) ''record.set_duplicate'' (item_field ''locator_hints'' before)) (slice (so_locators s)) @
    (case so_state s of
       SourceActive \<Rightarrow> need (so_retired s = None) ''source.retired_at'' ''retired_at''
     | SourceRetired \<Rightarrow> (case so_retired s of
          None \<Rightarrow> [(''source.retired_at'', ''retired_at'')]
        | Some t \<Rightarrow> within_lifetime t s ''retired_at'')
     | SourceStateOther _ \<Rightarrow> [(''source.state'', ''state'')])"

definition validateCommon :: "'h check_host_scheme \<Rightarrow> kind \<Rightarrow> extensions \<Rightarrow> 'c common_scheme \<Rightarrow> issue list" where
  "validateCommon h k extensions c =
    (if id_is_zero (c_id c) then [(''record.id'', ''id'')]
     else need (id_kind_of (c_id c) = k) ''record.id_kind'' ''id'' @
       need (IsNative h (c_id c)) ''record.id_version'' ''id'') @
    need (singleLine (c_title c)) ''record.title'' ''title'' @
    validateCommitSafeString h (c_title c) ''title'' @
    need (validUTC (c_created c)) ''timestamp.utc'' ''created_at'' @
    (if \<not> validUTC (c_updated c) then [(''timestamp.utc'', ''updated_at'')]
     else need (\<not> (\<not> time_is_zero (c_created c) \<and> time_before (c_updated c) (c_created c))) ''timestamp.order'' ''updated_at'') @
    validateStringSet (c_tags c) ''tags'' validSlug @
    need (\<not> (c_aliases c \<noteq> [] \<and> \<not> hasMigrationExtension extensions)) ''alias.migration_only'' ''legacy_aliases'' @
    validateStringSet (c_aliases c) ''legacy_aliases'' (\<lambda>value. ParseLegacyAlias value = Inr k) @
    need (\<not> (c_aliases c \<noteq> [] \<and> k \<noteq> KindExperiment \<and> k \<noteq> KindFinding)) ''alias.kind'' ''legacy_aliases''"

section \<open>External references\<close>

definition ValidExternalRefMetadataKey :: "string \<Rightarrow> string \<Rightarrow> bool" where
  "ValidExternalRefMetadataKey provider key \<longleftrightarrow>
     validSlug provider \<and>
     (has_prefix key (provider @ ''.'') \<and> length provider + 1 < length key \<or>
      has_suffix key (''.'' @ provider) \<and> validNamespace key) \<and>
     last key \<noteq> CHR ''.'' \<and>
     list_all (\<lambda>r. (97 \<le> r \<and> r \<le> 122) \<or> (48 \<le> r \<and> r \<le> 57) \<or> r \<in> {46, 45, 95}) (runes key) \<and>
     \<not> contains_str key ''..''"

fun validateExternalMetadataValue :: "'h check_host_scheme \<Rightarrow> nat \<Rightarrow> string \<Rightarrow> open_value \<Rightarrow> issue list"
  and metadata_table :: "'h check_host_scheme \<Rightarrow> nat \<Rightarrow> string \<Rightarrow> (string \<times> open_value) list \<Rightarrow> issue list"
  and metadata_list :: "'h check_host_scheme \<Rightarrow> nat \<Rightarrow> string \<Rightarrow> nat \<Rightarrow> open_value list \<Rightarrow> issue list" where
  "validateExternalMetadataValue h depth field value =
    (if 32 < depth then [(''external_ref.metadata_depth'', field)]
     else case value of
       OvNull \<Rightarrow> [(''external_ref.metadata_value'', field)]
     | OvBool _ \<Rightarrow> []
     | OvInt _ \<Rightarrow> []
     | OvFloat x \<Rightarrow> need (f_finite x) ''external_ref.metadata_number'' field
     | OvString s \<Rightarrow> validateCredentialSensitiveString h s field
     | OvTable kvs \<Rightarrow> metadata_table h depth field kvs
     | OvList vs \<Rightarrow> metadata_list h depth field 0 vs
     | OvUint _ \<Rightarrow> [(''external_ref.metadata_value'', field)]
     | OvTime _ \<Rightarrow> [(''external_ref.metadata_value'', field)]
     | OvStruct \<Rightarrow> [(''external_ref.metadata_value'', field)]
     | OvOddMap \<Rightarrow> [(''external_ref.metadata_value'', field)]
     | OvOther \<Rightarrow> [(''external_ref.metadata_value'', field)])"
| "metadata_table h depth field [] = []"
| "metadata_table h depth field ((key, v) # kvs) =
    (let child = field @ ''.'' @ key in
     need (\<not> ch_sensitive h key) ''privacy.secret_field'' child @ validateCommitSafeString h key child @
     validateExternalMetadataValue h (Suc depth) child v @ metadata_table h depth field kvs)"
| "metadata_list h depth field n [] = []"
| "metadata_list h depth field n (v # vs) =
    validateExternalMetadataValue h (Suc depth) (field @ ''['' @ itoa n @ '']'') v @ metadata_list h depth field (Suc n) vs"

declare validateExternalMetadataValue.simps [simp del]

definition MaxExternalRefBytes :: nat where
  "MaxExternalRefBytes = 32 * 2 ^ 10"

definition role_valid :: "external_role \<Rightarrow> bool" where
  "role_valid role \<longleftrightarrow> (case role of ExternalRoleOther _ \<Rightarrow> False | _ \<Rightarrow> True)"

definition provider_slug :: "string \<Rightarrow> bool" where
  "provider_slug p \<longleftrightarrow> validSlug p \<and> p \<noteq> ''unknown''"

definition supports :: "string \<Rightarrow> external_role \<Rightarrow> bool" where
  "supports provider role \<longleftrightarrow> KnownProviderSupportsRole provider role \<noteq> (True, False)"

definition validateExternalRef :: "'h check_host_scheme \<Rightarrow> external_ref \<Rightarrow> string \<Rightarrow> issue list" where
  "validateExternalRef h r field =
    need (role_valid (er_role r)) ''external_ref.role'' (field @ ''.role'') @
    (if \<not> provider_slug (er_provider r) then [(''external_ref.provider'', field @ ''.provider'')]
     else need (role_valid (er_role r) \<longrightarrow> supports (er_provider r) (er_role r)) ''external_ref.provider_role'' (field @ ''.role'')) @
    need (validSlug (er_context r)) ''external_ref.context'' (field @ ''.context'') @
    need (validSlug (er_native_kind r)) ''external_ref.native_kind'' (field @ ''.native_kind'') @
    need (singleLine (er_native_id r)) ''external_ref.native_id'' (field @ ''.native_id'') @
    validateCredentialSensitiveString h (er_native_id r) (field @ ''.native_id'') @
    (if er_uri r \<noteq> [] then (case ch_uri h (er_uri r) of None \<Rightarrow> [] | Some code \<Rightarrow> [(code, field @ ''.uri'')]) else []) @
    (case er_observed r of None \<Rightarrow> [] | Some t \<Rightarrow> need (validUTC t) ''timestamp.utc'' (field @ ''.observed_at'')) @
    concat (map (\<lambda>(key, v). let mf = field @ ''.metadata.'' @ key in
      need (ValidExternalRefMetadataKey (er_provider r) key) ''external_ref.metadata_key'' mf @
      need (\<not> ch_sensitive h key) ''privacy.secret_field'' mf @
      validateCommitSafeString h key mf @
      validateExternalMetadataValue h 0 mf v) (er_metadata r)) @
    need (case ch_reference h r of None \<Rightarrow> False | Some n \<Rightarrow> n \<le> MaxExternalRefBytes) ''external_ref.size'' field"

definition validate_refs :: "'h check_host_scheme \<Rightarrow> external_ref list \<Rightarrow> string \<Rightarrow> issue list" where
  "validate_refs h refs field = each (\<lambda>before r. validateExternalRef h r (item_field field before)) refs"

section \<open>Try\<close>

definition validateTryConclusion :: "'h check_host_scheme \<Rightarrow> try_record \<Rightarrow> try_conclusion \<Rightarrow> issue list" where
  "validateTryConclusion h v c =
    (if \<not> validUTC (tc_concluded c) then [(''timestamp.utc'', ''conclusion.concluded_at'')]
     else if time_before (tc_concluded c) (c_created v) \<or> time_after (tc_concluded c) (c_updated v)
     then [(''timestamp.order'', ''conclusion.concluded_at'')]
     else need (\<not> (ty_state v = TryConcluded \<and> \<not> time_equal (tc_concluded c) (c_updated v)))
       ''try.lifecycle_time'' ''conclusion.concluded_at'') @
    (if \<not> nonempty (tc_summary c) then [(''try.conclusion'', ''conclusion.summary'')]
     else need (length (tc_summary c) \<le> 32 * 2 ^ 10) ''try.conclusion_size'' ''conclusion.summary'') @
    validateCommitSafeString h (tc_summary c) ''conclusion.summary'' @
    need (length (tc_digests c) \<le> 64) ''try.result_count'' ''conclusion.result_digests'' @
    validateStringSet (tc_digests c) ''conclusion.result_digests'' validDigest @
    need (sorted (tc_digests c)) ''record.set_order'' ''conclusion.result_digests'' @
    need (length (tc_refs c) \<le> 64) ''try.external_ref_count'' ''conclusion.external_refs'' @
    validate_refs h (tc_refs c) ''conclusion.external_refs''"

definition validateTryAbandonment :: "'h check_host_scheme \<Rightarrow> try_record \<Rightarrow> try_abandonment \<Rightarrow> issue list" where
  "validateTryAbandonment h v a =
    (if \<not> validUTC (ta_abandoned a) then [(''timestamp.utc'', ''abandonment.abandoned_at'')]
     else if time_before (ta_abandoned a) (c_created v) \<or> time_after (ta_abandoned a) (c_updated v)
     then [(''timestamp.order'', ''abandonment.abandoned_at'')]
     else need (time_equal (ta_abandoned a) (c_updated v)) ''try.lifecycle_time'' ''abandonment.abandoned_at'') @
    (if \<not> nonempty (ta_reason a) then [(''try.abandonment'', ''abandonment.reason'')]
     else need (length (ta_reason a) \<le> 32 * 2 ^ 10) ''try.abandonment_size'' ''abandonment.reason'') @
    validateCommitSafeString h (ta_reason a) ''abandonment.reason''"

definition validateTry :: "'h check_host_scheme \<Rightarrow> try_record \<Rightarrow> issue list" where
  "validateTry h v =
    need (c_schema v = SchemaTry) ''record.schema'' ''schema'' @
    (if \<not> nonempty (ty_goal v) then [(''try.goal'', ''goal'')]
     else need (length (ty_goal v) \<le> 16 * 2 ^ 10) ''try.goal_size'' ''goal'') @
    validateCommitSafeString h (ty_goal v) ''goal'' @
    need (ty_sources v \<noteq> []) ''try.sources'' ''sources'' @
    validateIDSet h (ty_sources v) KindSource ''sources'' @
    need (idsSorted h (ty_sources v)) ''record.set_order'' ''sources'' @
    (let concluded = ty_conclusion v \<noteq> None; abandoned = ty_abandonment v \<noteq> None;
         adopted = \<not> id_is_zero (ty_adopted v) in
     case ty_state v of
       TryOpen \<Rightarrow> need (\<not> concluded \<and> \<not> abandoned \<and> \<not> adopted) ''try.lifecycle_fields'' ''state'' @
         need (time_equal (c_created v) (c_updated v)) ''try.lifecycle_time'' ''updated_at''
     | TryConcluded \<Rightarrow> need (concluded \<and> \<not> abandoned \<and> \<not> adopted) ''try.lifecycle_fields'' ''state''
     | TryAbandoned \<Rightarrow> need (\<not> concluded \<and> abandoned \<and> \<not> adopted) ''try.lifecycle_fields'' ''state''
     | TryAdopted \<Rightarrow> need (concluded \<and> \<not> abandoned \<and> adopted) ''try.lifecycle_fields'' ''state''
     | TryStateOther _ \<Rightarrow> [(''try.state'', ''state'')]) @
    (case ty_conclusion v of None \<Rightarrow> [] | Some c \<Rightarrow> validateTryConclusion h v c) @
    (case ty_abandonment v of None \<Rightarrow> [] | Some a \<Rightarrow> validateTryAbandonment h v a) @
    only (\<not> id_is_zero (ty_adopted v)) (validateReferenceKind h (ty_adopted v) KindIdea ''adopted_idea'')"

end
