(* ===== verification/Exp_Validate_Work.thy ===== *)
theory Exp_Validate_Work
  imports Exp_Validate
begin

text \<open>
  The validators of Experiments, Runs, Attempts, Findings and Decisions
  (\<^verbatim>\<open>internal/research/validate.go\<close>) and the version rules of Experiments and Attempts
  (\<^verbatim>\<open>control_validate.go\<close>).
\<close>

section \<open>Experiment\<close>

definition validVerdict :: "verdict option \<Rightarrow> bool" where
  "validVerdict v \<longleftrightarrow> v \<in> {Some VerdictSupported, Some VerdictRefuted, Some VerdictInconclusive, Some VerdictInvalid}"

text \<open>The fields a lifecycle allows.\<close>

definition lifecycle_fields :: "experiment_record \<Rightarrow> bool" where
  "lifecycle_fields e =
    (let unverdicted = ex_verdict e = None \<and> ex_conclusion e = None in
     case ex_lifecycle e of
       LifecyclePlanned \<Rightarrow> ex_closure e = None \<and> unverdicted \<and> ex_detail e = None
     | LifecycleActive \<Rightarrow> ex_closure e = None \<and> unverdicted \<and> ex_detail e = None
     | LifecycleClosed \<Rightarrow>
        (case ex_closure e of
           Some ClosureConcluded \<Rightarrow> validVerdict (ex_verdict e) \<and> ex_conclusion e \<noteq> None \<and>
             (case ex_detail e of None \<Rightarrow> True | Some d \<Rightarrow> id_is_zero (cl_superseded d))
         | Some ClosureAbandoned \<Rightarrow> unverdicted \<and>
             (case ex_detail e of None \<Rightarrow> False | Some d \<Rightarrow> nonempty (cl_reason d) \<and> id_is_zero (cl_superseded d))
         | Some ClosureSuperseded \<Rightarrow> unverdicted \<and>
             (case ex_detail e of None \<Rightarrow> False | Some d \<Rightarrow> nonempty (cl_reason d) \<and> \<not> id_is_zero (cl_superseded d))
         | _ \<Rightarrow> False)
     | ExperimentLifecycleOther _ \<Rightarrow> True)"

definition validateConclusion :: "'h check_host_scheme \<Rightarrow> experiment_record \<Rightarrow> conclusion \<Rightarrow> issue list" where
  "validateConclusion h e c =
    within_lifetime (cn_concluded c) e ''conclusion.concluded_at'' @
    need (nonempty (cn_summary c)) ''experiment.conclusion'' ''conclusion.summary'' @
    validateCommitSafeString h (cn_summary c) ''conclusion.summary'' @
    need (cn_evidence c \<noteq> []) ''experiment.evidence'' ''conclusion.evidence'' @
    each (\<lambda>before ev. let field = item_field ''conclusion.evidence'' before; key = id_string h (ce_run ev) in
      validateReferenceKind h (ce_run ev) KindRun (field @ ''.run'') @
      need (\<not> (key \<noteq> [] \<and> key \<in> (\<lambda>x. id_string h (ce_run x)) ` set before)) ''reference.duplicate'' (field @ ''.run'') @
      (case ce_disposition ev of
         EvidenceIncluded \<Rightarrow> []
       | EvidenceExcluded \<Rightarrow> need (nonempty (ce_reason ev)) ''experiment.evidence_reason'' (field @ ''.reason'')
       | EvidenceDispositionOther _ \<Rightarrow> [(''experiment.evidence_disposition'', field @ ''.disposition'')]) @
      validateCommitSafeString h (ce_reason ev) (field @ ''.reason'')) (cn_evidence c) @
    need (\<not> (ex_verdict e \<in> {Some VerdictSupported, Some VerdictRefuted} \<and>
             length (filter (\<lambda>ev. ce_disposition ev = EvidenceIncluded) (cn_evidence c)) = 0))
      ''experiment.evidence'' ''conclusion.evidence''"

text \<open>The loop over the amendments: the time and the new digest of the one before are its state.\<close>

definition amendment_issues ::
  "'h check_host_scheme \<Rightarrow> go_time \<Rightarrow> string \<Rightarrow> bool \<Rightarrow> go_time \<Rightarrow> string \<Rightarrow> amendment \<Rightarrow> issue list" where
  "amendment_issues h updated prefix later previous_time previous_new a =
    (if \<not> validUTC (am_amended a) then [(''timestamp.utc'', prefix @ ''.amended_at'')]
     else need (\<not> (\<not> time_after (am_amended a) previous_time \<or> time_after (am_amended a) updated))
       ''timestamp.order'' (prefix @ ''.amended_at'')) @
    need (nonempty (am_reason a)) ''experiment.amendment'' (prefix @ ''.reason'') @
    validateCommitSafeString h (am_reason a) (prefix @ ''.reason'') @
    need (validDigest (am_previous a) \<and> validDigest (am_new a)) ''digest.invalid'' prefix @
    need (later \<longrightarrow> am_previous a = previous_new) ''experiment.amendment_chain'' (prefix @ ''.previous_digest'') @
    validateNonemptyStringList h (am_changes a) (prefix @ ''.changes'') True"

fun amendment_loop ::
  "'h check_host_scheme \<Rightarrow> go_time \<Rightarrow> nat \<Rightarrow> go_time \<Rightarrow> string \<Rightarrow> amendment list \<Rightarrow> issue list" where
  "amendment_loop h updated n previous_time previous_new [] = []"
| "amendment_loop h updated n previous_time previous_new (a # rest) =
    amendment_issues h updated (''amendments['' @ itoa n @ '']'') (0 < n) previous_time previous_new a @
    amendment_loop h updated (Suc n) (am_amended a) (am_new a) rest"

definition validateExperimentVersion :: "'h check_host_scheme \<Rightarrow> experiment_record \<Rightarrow> issue list" where
  "validateExperimentVersion h e =
    (case c_schema e of
       SchemaExperiment \<Rightarrow> need (\<not> (ex_parents e \<noteq> [] \<or> ex_inputs e \<noteq> [])) ''record.schema_field'' ''schema''
     | SchemaExperimentV2 \<Rightarrow>
        validateIDSet h (ex_parents e) KindExperiment ''parents'' @
        concat (map (\<lambda>parent. need (parent \<noteq> c_id e) ''reference.self'' ''parents'') (ex_parents e)) @
        validateIDSet h (ex_inputs e) KindCandidate ''candidate_inputs'' @
        need (\<not> (de_kind (ex_design e) = ExperimentCombination \<and> length (ex_inputs e) < 2))
          ''experiment.combination_inputs'' ''candidate_inputs'' @
        need (\<not> (de_kind (ex_design e) \<noteq> ExperimentCombination \<and> ex_inputs e \<noteq> []))
          ''experiment.candidate_inputs'' ''candidate_inputs''
     | _ \<Rightarrow> [])"

definition design_texts :: "design \<Rightarrow> (string \<times> string) list" where
  "design_texts d = [(''design.question'', de_question d), (''design.hypothesis'', de_hypothesis d),
     (''design.primary_factor'', de_primary d), (''design.baseline'', de_baseline d),
     (''design.comparability_spec'', de_comparability d), (''design.decision_rule'', de_rule d)]"

definition design_lock_issues :: "'h check_host_scheme \<Rightarrow> experiment_record \<Rightarrow> issue list" where
  "design_lock_issues h e =
    (let d = ex_design e in
     need ((de_locked d \<noteq> None) = (de_digest d \<noteq> [])) ''experiment.design_lock'' ''design'' @
     (case de_locked d of None \<Rightarrow> [] | Some t \<Rightarrow>
        within_lifetime t e ''design.design_locked_at'' @
        (if \<not> validDigest (de_digest d) then [(''digest.invalid'', ''design.design_digest'')]
         else need (ch_design h d = Some (de_digest d)) ''experiment.design_digest'' ''design.design_digest'')))"

definition validateDesign :: "'h check_host_scheme \<Rightarrow> experiment_record \<Rightarrow> issue list" where
  "validateDesign h e =
    (let d = ex_design e in
     concat (map (\<lambda>(field, value). need (nonempty value) ''experiment.design'' field @
       validateCommitSafeString h value field) (design_texts d)) @
     (case de_kind d of
        ExperimentSingleFactor \<Rightarrow> [] | ExperimentFactorial \<Rightarrow> [] | ExperimentObservational \<Rightarrow> []
      | ExperimentKindOther _ \<Rightarrow> [(''experiment.design_kind'', ''design.kind'')]
      | _ \<Rightarrow> need (c_schema e = SchemaExperimentV2) ''record.schema_field'' ''design.kind'') @
     need (de_secondary d \<noteq> None) ''record.list_required'' ''design.secondary_factors'' @
     validateNonemptyStringList h (slice (de_secondary d)) ''design.secondary_factors'' False @
     validateNonemptyStringList h (de_success d) ''design.success_criteria'' True @
     design_lock_issues h e @
     amendment_loop h (c_updated e) 0 (case de_locked d of None \<Rightarrow> c_created e | Some t \<Rightarrow> t) [] (ex_amendments e) @
     only (ex_amendments e \<noteq> [])
       (if de_locked d = None then [(''experiment.amendment_lock'', ''amendments'')]
        else need (am_new (last (ex_amendments e)) = de_digest d) ''experiment.amendment_chain'' ''design.design_digest'') @
     validateExperimentVersion h e)"

definition validateExperiment :: "'h check_host_scheme \<Rightarrow> experiment_record \<Rightarrow> issue list" where
  "validateExperiment h e =
    validateDesign h e @
    (case ex_lifecycle e of
       ExperimentLifecycleOther _ \<Rightarrow> [(''experiment.lifecycle'', ''lifecycle'')]
     | _ \<Rightarrow> need (lifecycle_fields e) ''experiment.lifecycle_fields'' ''lifecycle'') @
    (case ex_detail e of None \<Rightarrow> [] | Some d \<Rightarrow>
       validateCommitSafeString h (cl_reason d) ''closure_detail.reason'' @
       only (\<not> id_is_zero (cl_superseded d))
        (validateReferenceKind h (cl_superseded d) KindExperiment ''closure_detail.superseded_by'' @
         need (cl_superseded d \<noteq> c_id e) ''reference.self'' ''closure_detail.superseded_by'')) @
    (case ex_conclusion e of None \<Rightarrow> [] | Some c \<Rightarrow> validateConclusion h e c)"

section \<open>Run\<close>

definition path_issue :: "string \<Rightarrow> bool \<Rightarrow> string \<Rightarrow> issue list" where
  "path_issue value dot field =
     (case ValidateCommittedPath value dot of None \<Rightarrow> [] | Some code \<Rightarrow> [(code, field)])"

definition validateRun :: "'h check_host_scheme \<Rightarrow> run_record \<Rightarrow> issue list" where
  "validateRun h r =
    validateReferenceKind h (ru_experiment r) KindExperiment ''experiment'' @
    (case ru_role r of RunRoleOther _ \<Rightarrow> [(''run.role'', ''role'')] | _ \<Rightarrow> []) @
    need (nonempty (ru_objective r)) ''run.objective'' ''objective'' @
    validateCommitSafeString h (ru_objective r) ''objective'' @
    validateOptionalDigest (ru_config r) ''config_digest'' @
    validateOptionalDigest (ru_data r) ''data_digest'' @
    validateStringSet (ru_outputs r) ''expected_outputs'' (\<lambda>value. ValidateCommittedPath value False = None) @
    each (\<lambda>before out. path_issue out False (item_field ''expected_outputs'' before) @
      validateCredentialSensitiveString h out (item_field ''expected_outputs'' before)) (ru_outputs r)"

section \<open>Attempt\<close>

definition isTerminalState :: "attempt_state \<Rightarrow> bool" where
  "isTerminalState s \<longleftrightarrow> s \<in> {AttemptSucceeded, AttemptFailed, AttemptCancelled, AttemptTimedOut, AttemptPreempted, AttemptOutOfMemory}"

definition isNonterminalState :: "attempt_state \<Rightarrow> bool" where
  "isNonterminalState s \<longleftrightarrow> s \<in> {AttemptPlanned, AttemptQueued, AttemptBlocked, AttemptStarting, AttemptRunning, AttemptUnknown}"

definition singleArgument :: "string \<Rightarrow> bool" where
  "singleArgument value \<longleftrightarrow> value \<noteq> [] \<and> utf8_valid value \<and> set value \<inter> {CHR 0x00, CHR 0x0D, CHR 0x0A} = {}"

definition validateArgv :: "'h check_host_scheme \<Rightarrow> string list \<Rightarrow> issue list" where
  "validateArgv h argv =
    (if argv = [] then [(''attempt.argv'', ''argv'')]
     else each (\<lambda>before argument. let field = item_field ''argv'' before in
       need (singleArgument argument) ''attempt.argv'' field @
       need (length before \<notin> set (ch_argv h argv)) ''privacy.secret_argument'' field @
       validateCommitSafeString h argument field) argv)"

definition hostAbsoluteCanonicalPath :: "string \<Rightarrow> bool" where
  "hostAbsoluteCanonicalPath value \<longleftrightarrow> value \<noteq> [] \<and>
     (has_prefix value ''/'' \<or> driveQualified value \<or> has_prefix value [CHR 0x5C, CHR 0x5C] \<or>
      has_prefix value ''//'' \<or> has_prefix (to_lower value) ''file:/'')"

text \<open>\<open>strings.Cut(argument, "=")\<close>: what follows the separator, or the argument itself.\<close>

definition attached_value :: "string \<Rightarrow> string" where
  "attached_value argument =
     (if CHR ''='' \<in> set argument then tl (dropWhile (\<lambda>c. c \<noteq> CHR ''='') argument) else argument)"

definition validateTryArgvPaths :: "string list \<Rightarrow> issue list" where
  "validateTryArgvPaths argv =
    each (\<lambda>before argument.
      need (\<not> (hostAbsoluteCanonicalPath argument \<or> hostAbsoluteCanonicalPath (attached_value argument)))
        ''privacy.host_path'' (item_field ''argv'' before)) argv @
    (case argv of [] \<Rightarrow> [] | executable # _ \<Rightarrow>
      if set executable \<inter> {CHR ''/'', CHR 0x5C} = {} then []
      else let relative = trim_prefix executable ''./'' in
        need (\<not> (relative = executable \<and> has_prefix executable ''.'' \<or> ValidateCommittedPath relative False \<noteq> None))
          ''privacy.host_path'' ''argv[0]'')"

definition validateProvenance :: "attempt \<Rightarrow> provenance \<Rightarrow> issue list" where
  "validateProvenance a p =
    within_lifetime (pv_captured p) a ''provenance.captured_at'' @
    need (validGitCommit (pv_commit p)) ''provenance.git_commit'' ''provenance.git_commit'' @
    need (\<not> (\<not> pv_dirty p \<and> pv_dirty_digest p \<noteq> [])) ''provenance.dirty_digest'' ''provenance.dirty_digest'' @
    validateOptionalDigest (pv_dirty_digest p) ''provenance.dirty_digest'' @
    validateOptionalDigest (pv_config p) ''provenance.config_digest'' @
    validateOptionalDigest (pv_data p) ''provenance.data_digest'' @
    validateOptionalDigest (pv_environment p) ''provenance.environment_digest'' @
    (case pv_reproducibility p of
       ReproducibilityOther _ \<Rightarrow> [(''provenance.reproducibility'', ''provenance.reproducibility'')] | _ \<Rightarrow> [])"

definition validateTerminal :: "'h check_host_scheme \<Rightarrow> attempt \<Rightarrow> terminal \<Rightarrow> issue list" where
  "validateTerminal h a t =
    need (validSlug (tm_source t)) ''attempt.terminal_source'' ''terminal.source'' @
    need (validUTC (tm_observed t)) ''timestamp.utc'' ''terminal.observed_at'' @
    need (validUTC (tm_ended t)) ''timestamp.utc'' ''terminal.ended_at'' @
    (case tm_started t of None \<Rightarrow> [] | Some s \<Rightarrow>
       need (validUTC s) ''timestamp.utc'' ''terminal.started_at'' @
       need (\<not> time_before (tm_ended t) s) ''timestamp.order'' ''terminal.ended_at'') @
    need (\<not> time_before (tm_observed t) (tm_ended t)) ''timestamp.order'' ''terminal.observed_at'' @
    (case tm_started t of None \<Rightarrow> [] | Some s \<Rightarrow>
       need (\<not> time_before s (c_created a)) ''timestamp.order'' ''terminal.started_at'') @
    need (\<not> time_before (tm_ended t) (c_created a)) ''timestamp.order'' ''terminal.ended_at'' @
    need (\<not> time_after (tm_observed t) (c_updated a)) ''timestamp.order'' ''terminal.observed_at'' @
    need (tm_signal t = [] \<or> singleLine (tm_signal t)) ''attempt.signal'' ''terminal.signal'' @
    validateCommitSafeString h (tm_signal t) ''terminal.signal''"

end
