(* ===== verification/Exp_Validate_Attempt.thy ===== *)
theory Exp_Validate_Attempt
  imports Exp_Validate_Work
begin

text \<open>
  The validators of Attempts and their Source snapshots, and of Findings and Decisions
  (\<^verbatim>\<open>internal/research/validate.go\<close>, \<^verbatim>\<open>control_validate.go\<close>).
\<close>

section \<open>Source snapshots\<close>

definition object_length :: "git_object_format \<Rightarrow> nat" where
  "object_length f = (case f of GitObjectSHA1 \<Rightarrow> 40 | GitObjectSHA256 \<Rightarrow> 64 | GitObjectFormatOther _ \<Rightarrow> 0)"

definition MaxSourceSnapshotSummaryBytes :: nat where
  "MaxSourceSnapshotSummaryBytes = 32 * 2 ^ 10"

definition snapshot_state_issues :: "'h check_host_scheme \<Rightarrow> source_snapshot \<Rightarrow> string \<Rightarrow> issue list" where
  "snapshot_state_issues h s field =
    (case ss_state s of
       SourceSnapshotClean \<Rightarrow>
         need (\<not> (ss_dirty_digest s \<noteq> [] \<or> ss_dirty_summary s \<noteq> [])) ''source_snapshot.clean_fields'' (field @ ''.state'') @
         need (ss_reproducibility s = ReproducibilityExact) ''source_snapshot.reproducibility'' (field @ ''.reproducibility'')
     | SourceSnapshotDirty \<Rightarrow>
         need (validDigest (ss_dirty_digest s)) ''source_snapshot.dirty_digest'' (field @ ''.dirty_digest'') @
         (if \<not> nonempty (ss_dirty_summary s) then [(''source_snapshot.dirty_summary'', field @ ''.dirty_summary'')]
          else need (length (ss_dirty_summary s) \<le> MaxSourceSnapshotSummaryBytes)
            ''source_snapshot.dirty_summary_size'' (field @ ''.dirty_summary'')) @
         validateCommitSafeString h (ss_dirty_summary s) (field @ ''.dirty_summary'') @
         need (ss_reproducibility s \<in> {ReproducibilityExact, ReproducibilityBounded})
           ''source_snapshot.reproducibility'' (field @ ''.reproducibility'')
     | SnapshotStateOther _ \<Rightarrow> [(''source_snapshot.state'', field @ ''.state'')])"

definition validateSourceSnapshot :: "'h check_host_scheme \<Rightarrow> attempt \<Rightarrow> source_snapshot \<Rightarrow> string \<Rightarrow> issue list" where
  "validateSourceSnapshot h a s field =
    validateReferenceKind h (ss_source s) KindSource (field @ ''.source'') @
    need (NormalizeSourceSubdir h (ss_subdir s) = Inr (ss_subdir s)) ''source_snapshot.subdir'' (field @ ''.subdir'') @
    need (validSlug (ss_policy s)) ''source_snapshot.policy_version'' (field @ ''.policy_version'') @
    within_lifetime (ss_captured s) a (field @ ''.captured_at'') @
    (case ss_format s of
       GitObjectFormatOther _ \<Rightarrow> [(''source_snapshot.git_object_format'', field @ ''.git_object_format'')] | _ \<Rightarrow> []) @
    need (validGitObjectID (ss_base s) (object_length (ss_format s))) ''source_snapshot.base_commit'' (field @ ''.base_commit'') @
    need (validGitObjectID (ss_head s) (object_length (ss_format s))) ''source_snapshot.head_commit'' (field @ ''.head_commit'') @
    need (ss_changes s \<noteq> None) ''record.list_required'' (field @ ''.change_set'') @
    validatePathList h (slice (ss_changes s)) (field @ ''.change_set'') False @
    need (sorted (slice (ss_changes s))) ''record.set_order'' (field @ ''.change_set'') @
    snapshot_state_issues h s field @
    (if \<not> validDigest (ss_digest s) then [(''source_snapshot.digest'', field @ ''.digest'')]
     else need (ch_snapshot h s = Some (ss_digest s)) ''source_snapshot.digest_mismatch'' (field @ ''.digest''))"

text \<open>The loop over the snapshots of an Attempt: the key of the last one in order is its state.\<close>

definition snapshot_issues ::
  "'h check_host_scheme \<Rightarrow> attempt \<Rightarrow> source_snapshot list \<Rightarrow> string \<Rightarrow> source_snapshot \<Rightarrow> issue list" where
  "snapshot_issues h a before previous s =
    (let field = item_field ''source_snapshots'' before in
     validateSourceSnapshot h a s field @
     need (ss_source s \<notin> ss_source ` set before) ''reference.duplicate'' (field @ ''.source'') @
     need (\<not> (previous \<noteq> [] \<and> id_string h (ss_source s) \<le> previous)) ''record.set_order'' ''source_snapshots'' @
     need (\<not> (ss_state s = SourceSnapshotDirty \<and> id_is_zero (at_try a))) ''attempt.dirty_owner'' (field @ ''.state''))"

definition next_key :: "string \<Rightarrow> string \<Rightarrow> string" where
  "next_key previous key = (if previous \<noteq> [] \<and> key \<le> previous then previous else key)"

fun snapshot_loop ::
  "'h check_host_scheme \<Rightarrow> attempt \<Rightarrow> source_snapshot list \<Rightarrow> string \<Rightarrow> source_snapshot list \<Rightarrow> issue list" where
  "snapshot_loop h a before previous [] = []"
| "snapshot_loop h a before previous (s # rest) =
    snapshot_issues h a before previous s @
    snapshot_loop h a (before @ [s]) (next_key previous (id_string h (ss_source s))) rest"

definition validateV3ProvenanceSnapshot :: "attempt \<Rightarrow> issue list" where
  "validateV3ProvenanceSnapshot a =
    (case (List.find (\<lambda>s. ss_source s = at_execution a) (at_snapshots a), at_provenance a) of
       (Some primary, Some p) \<Rightarrow>
         (let dirty = (ss_state primary = SourceSnapshotDirty) in
          need (pv_commit p = ss_head primary) ''attempt.provenance_source'' ''provenance.git_commit'' @
          need (pv_dirty p = dirty) ''attempt.provenance_source'' ''provenance.git_dirty'' @
          need (\<not> (dirty \<and> pv_dirty_digest p \<noteq> ss_dirty_digest primary)) ''attempt.provenance_source'' ''provenance.dirty_digest'' @
          need (pv_reproducibility p = ss_reproducibility primary) ''attempt.provenance_source'' ''provenance.reproducibility'')
     | _ \<Rightarrow> [])"

section \<open>Attempts\<close>

definition optional_lane :: "research_lane option \<Rightarrow> string \<Rightarrow> issue list" where
  "optional_lane l field = (case l of None \<Rightarrow> [(''queue.lane'', field)] | Some lane \<Rightarrow> validateLane lane field)"

definition dispatch_fields :: "attempt \<Rightarrow> bool list" where
  "dispatch_fields a = [\<not> id_is_zero (at_pool a), \<not> id_is_zero (at_queue a), at_queue_revision a \<noteq> 0,
     at_lane a \<noteq> None, at_dispatch a \<noteq> []]"

definition validateAttemptDispatch :: "'h check_host_scheme \<Rightarrow> attempt \<Rightarrow> bool \<Rightarrow> issue list" where
  "validateAttemptDispatch h a required =
    (let has_any = list_ex id (dispatch_fields a); has_all = list_all id (dispatch_fields a) in
     need (\<not> (\<not> required \<and> has_any \<and> \<not> has_all)) ''attempt.dispatch'' ''pool'' @
     only (required \<or> has_any)
      (validateReferenceKind h (at_pool a) KindResourcePool ''pool'' @
       validateReferenceKind h (at_queue a) KindQueue ''queue'' @
       need (at_queue_revision a \<noteq> 0) ''queue.revision'' ''queue_revision'' @
       optional_lane (at_lane a) ''lane'' @
       need (singleLine (at_dispatch a)) ''attempt.dispatch_id'' ''dispatch_id'' @
       validateCommitSafeString h (at_dispatch a) ''dispatch_id''))"

definition attempt_v3_issues :: "'h check_host_scheme \<Rightarrow> attempt \<Rightarrow> issue list" where
  "attempt_v3_issues h a =
    (let execution_found = list_ex (\<lambda>s. ss_source s = at_execution a) (at_snapshots a) in
     only (\<not> id_is_zero (at_retry a))
      (validateReferenceKind h (at_retry a) KindAttempt ''retry_of'' @
       need (at_retry a \<noteq> c_id a) ''reference.self'' ''retry_of'' @
       need (\<not> id_is_zero (at_try a)) ''attempt.retry_owner'' ''retry_of'') @
     need (\<not> (at_base a \<noteq> [] \<or> at_head a \<noteq> [] \<or> at_changes a \<noteq> None)) ''record.schema_field'' ''base_commit'' @
     validateReferenceKind h (at_execution a) KindSource ''execution_source'' @
     need (at_snapshots a \<noteq> []) ''attempt.source_snapshots'' ''source_snapshots'' @
     snapshot_loop h a [] [] (at_snapshots a) @
     need (\<not> (\<not> id_is_zero (at_execution a) \<and> \<not> execution_found)) ''attempt.execution_source'' ''execution_source'' @
     only (execution_found \<and> at_provenance a \<noteq> None) (validateV3ProvenanceSnapshot a) @
     validateAttemptDispatch h a False)"

definition validateAttemptVersion :: "'h check_host_scheme \<Rightarrow> attempt \<Rightarrow> issue list" where
  "validateAttemptVersion h a =
    (let newer = \<not> id_is_zero (at_try a) \<or> \<not> id_is_zero (at_retry a) \<or> \<not> id_is_zero (at_execution a) \<or> at_snapshots a \<noteq> [] in
     case c_schema a of
       SchemaAttempt \<Rightarrow>
         need (\<not> (newer \<or> list_ex id (dispatch_fields a) \<or> at_base a \<noteq> [] \<or> at_head a \<noteq> [] \<or> slice (at_changes a) \<noteq> []))
           ''record.schema_field'' ''schema''
     | SchemaAttemptV2 \<Rightarrow>
         need (\<not> newer) ''record.schema_field'' ''schema'' @
         validateAttemptDispatch h a True @
         need (validGitCommit (at_base a)) ''attempt.base_commit'' ''base_commit'' @
         need (validGitCommit (at_head a)) ''attempt.head_commit'' ''head_commit'' @
         validatePathList h (slice (at_changes a)) ''change_set'' True
     | SchemaAttemptV3 \<Rightarrow> attempt_v3_issues h a
     | _ \<Rightarrow> [])"

definition attempt_owner_issues :: "'h check_host_scheme \<Rightarrow> attempt \<Rightarrow> issue list" where
  "attempt_owner_issues h a =
    (case c_schema a of
       SchemaAttempt \<Rightarrow> validateReferenceKind h (at_run a) KindRun ''run''
     | SchemaAttemptV2 \<Rightarrow> validateReferenceKind h (at_run a) KindRun ''run''
     | SchemaAttemptV3 \<Rightarrow>
         (let has_run = \<not> id_is_zero (at_run a); has_try = \<not> id_is_zero (at_try a) in
          need (has_run \<noteq> has_try) ''attempt.owner'' ''run'' @
          only has_run (validateReferenceKind h (at_run a) KindRun ''run'') @
          only has_try (validateReferenceKind h (at_try a) KindTry ''try''))
     | _ \<Rightarrow> [])"

definition executor_issues :: "string \<Rightarrow> external_role \<Rightarrow> string \<Rightarrow> string \<Rightarrow> issue list" where
  "executor_issues provider role code field =
    (if \<not> provider_slug provider then [(code, field)]
     else need (supports provider role) ''attempt.provider_role'' field)"

definition validateAttempt :: "'h check_host_scheme \<Rightarrow> attempt \<Rightarrow> issue list" where
  "validateAttempt h a =
    attempt_owner_issues h a @
    (let term = isTerminalState (at_state a) in
     need (\<not> (\<not> term \<and> \<not> isNonterminalState (at_state a))) ''attempt.state'' ''state'' @
     need (\<not> (term \<and> at_terminal a = None)) ''attempt.terminal'' ''terminal'' @
     need (\<not> (\<not> term \<and> at_terminal a \<noteq> None)) ''attempt.terminal'' ''terminal'') @
    executor_issues (at_runner a) ExternalRunner ''attempt.runner'' ''runner'' @
    executor_issues (at_scheduler a) ExternalScheduler ''attempt.scheduler'' ''scheduler'' @
    path_issue (at_cwd a) True ''cwd'' @
    validateCredentialSensitiveString h (at_cwd a) ''cwd'' @
    validateArgv h (at_argv a) @
    only (c_schema a = SchemaAttemptV3 \<and> \<not> id_is_zero (at_try a)) (validateTryArgvPaths (at_argv a)) @
    (if at_reason a \<noteq> [] then validateCommitSafeString h (at_reason a) ''state_reason'' else []) @
    validate_refs h (at_refs a) ''external_refs'' @
    (case at_provenance a of None \<Rightarrow> [] | Some p \<Rightarrow> validateProvenance a p) @
    (case at_terminal a of None \<Rightarrow> [] | Some t \<Rightarrow> validateTerminal h a t) @
    validateAttemptVersion h a"

section \<open>Findings and Decisions\<close>

definition evidence_kind_text :: "finding_evidence_kind \<Rightarrow> string" where
  "evidence_kind_text k = (case k of FindingEvidenceRun \<Rightarrow> ''run'' | FindingEvidenceExperiment \<Rightarrow> ''experiment''
     | FindingEvidenceKindOther s \<Rightarrow> s)"

definition evidence_key :: "'h host_scheme \<Rightarrow> finding_evidence \<Rightarrow> string" where
  "evidence_key h ev = evidence_kind_text (fe_kind ev) @ [CHR 0x00] @ id_string h (fe_ref ev)"

definition validateFinding :: "'h check_host_scheme \<Rightarrow> finding \<Rightarrow> issue list" where
  "validateFinding h f =
    need (nonempty (fi_statement f)) ''finding.statement'' ''statement'' @
    validateCommitSafeString h (fi_statement f) ''statement'' @
    need (nonempty (fi_scope f)) ''finding.scope'' ''scope'' @
    validateCommitSafeString h (fi_scope f) ''scope'' @
    need (fi_evidence f \<noteq> []) ''finding.evidence'' ''evidence'' @
    each (\<lambda>before ev. let field = item_field ''evidence'' before in
      (case fe_kind ev of
         FindingEvidenceRun \<Rightarrow> validateReferenceKind h (fe_ref ev) KindRun (field @ ''.ref'')
       | FindingEvidenceExperiment \<Rightarrow>
           need (hasMigrationExtension (fi_extensions f)) ''finding.coarse_evidence'' (field @ ''.kind'') @
           validateReferenceKind h (fe_ref ev) KindExperiment (field @ ''.ref'')
       | FindingEvidenceKindOther _ \<Rightarrow> [(''finding.evidence_kind'', field @ ''.kind'')]) @
      validateCommitSafeString h (fe_detail ev) (field @ ''.detail'') @
      need (evidence_key h ev \<notin> evidence_key h ` set before) ''reference.duplicate'' (field @ ''.ref'')) (fi_evidence f) @
    validateIDSet h (fi_weakens f) KindFinding ''weakens'' @
    validateIDSet h (fi_overturns f) KindFinding ''overturns'' @
    concat (map (\<lambda>target. need (target \<noteq> c_id f) ''reference.self'' ''weakens'') (fi_weakens f)) @
    concat (map (\<lambda>target. need (target \<noteq> c_id f) ''reference.self'' ''overturns'' @
      need (target \<notin> set (fi_weakens f)) ''finding.relation_overlap'' ''overturns'') (fi_overturns f))"

definition validateDecision :: "'h check_host_scheme \<Rightarrow> decision \<Rightarrow> issue list" where
  "validateDecision h d =
    need (nonempty (dn_statement d)) ''decision.statement'' ''statement'' @
    validateCommitSafeString h (dn_statement d) ''statement'' @
    need (dn_based_on d \<noteq> []) ''decision.based_on'' ''based_on'' @
    validateIDSet h (dn_based_on d) KindFinding ''based_on'' @
    (if \<not> nonempty (dn_action d) then [(''decision.action'', ''action'')]
     else validateCommitSafeString h (dn_action d) ''action'') @
    (if \<not> validUTC (dn_effective d) then [(''timestamp.utc'', ''effective_at'')]
     else need (\<not> time_before (dn_effective d) (c_created d)) ''timestamp.order'' ''effective_at'') @
    validateIDSet h (dn_supersedes d) KindDecision ''supersedes'' @
    concat (map (\<lambda>target. need (target \<noteq> c_id d) ''reference.self'' ''supersedes'') (dn_supersedes d))"

end
