(* ===== verification/Exp_Validate_Control.thy ===== *)
theory Exp_Validate_Control
  imports Exp_Validate_Attempt
begin

text \<open>
  The validators of the records that steer the research (\<^verbatim>\<open>internal/research/control_validate.go\<close>):
  Policy, Idea, ResourcePool, Queue, QueueAdvice, Battle, EvaluationSpec, Evaluation, Candidate,
  Release, PromotionSpec, Promotion and the version rules of Plans.
\<close>

section \<open>Shared pieces\<close>

definition validateClassification :: "classification \<Rightarrow> string \<Rightarrow> issue list" where
  "validateClassification c prefix =
    concat (map (\<lambda>(name, value). need (validSlug value) ''classification.value'' (prefix @ ''.'' @ name))
      [(''domain'', cf_domain c), (''work'', cf_work c), (''method'', cf_method c), (''component'', cf_component c)]) @
    validateLane (cf_lane c) (prefix @ ''.lane'') @
    (case cf_risk c of RiskClassOther _ \<Rightarrow> [(''classification.risk'', prefix @ ''.risk'')] | _ \<Rightarrow> []) @
    (case cf_horizon c of HorizonClassOther _ \<Rightarrow> [(''classification.horizon'', prefix @ ''.horizon'')] | _ \<Rightarrow> []) @
    (case cf_origin c of OriginClassOther _ \<Rightarrow> [(''classification.origin'', prefix @ ''.origin'')] | _ \<Rightarrow> [])"

definition validateQueueScore :: "queue_score \<Rightarrow> string \<Rightarrow> issue list" where
  "validateQueueScore s prefix =
    concat (map (\<lambda>(name, value). need (f_finite value) ''queue.score'' (prefix @ ''.'' @ name))
      [(''expected_utility'', qs_utility s), (''information_gain'', qs_information s), (''unblock_value'', qs_unblock s),
       (''risk_penalty'', qs_risk s), (''pool_hours'', qs_hours s), (''total'', qs_total s)]) @
    need (\<not> f_le (qs_hours s) f_zero) ''queue.pool_hours'' (prefix @ ''.pool_hours'')"

definition validateMetricSpecs :: "'h check_host_scheme \<Rightarrow> metric_spec list \<Rightarrow> issue list" where
  "validateMetricSpecs h metrics =
    need (metrics \<noteq> []) ''evaluation_spec.metrics'' ''metrics'' @
    each (\<lambda>before m. let field = item_field ''metrics'' before in
      need (validMetric (ms_name m)) ''evaluation_spec.metric'' (field @ ''.name'') @
      need (ms_name m \<notin> ms_name ` set before) ''record.set_duplicate'' (field @ ''.name'') @
      need (singleLine (ms_unit m)) ''evaluation_spec.unit'' (field @ ''.unit'') @
      validateCommitSafeString h (ms_unit m) (field @ ''.unit'') @
      (case ms_direction m of MetricDirectionOther _ \<Rightarrow> [(''evaluation_spec.direction'', field @ ''.direction'')] | _ \<Rightarrow> []) @
      (case ms_threshold m of None \<Rightarrow> [] | Some t \<Rightarrow> need (f_finite t) ''evaluation_spec.threshold'' (field @ ''.threshold''))) metrics"

text \<open>\<^verbatim>\<open>IsHumanIdentity\<close>.\<close>

definition agent_identity :: "string \<Rightarrow> bool" where
  "agent_identity value \<longleftrightarrow> (let lower = to_lower value in
     has_prefix lower ''agent:'' \<or> has_prefix lower ''bot:'' \<or> has_prefix lower ''model:'')"

definition IsHumanIdentity :: "string \<Rightarrow> bool" where
  "IsHumanIdentity value \<longleftrightarrow> singleLine value \<and> trim_space value = value \<and> \<not> agent_identity value"

section \<open>Policy, Idea and ResourcePool\<close>

text \<open>The shares have to sum to one up to 1e-9; the sum is rounded twice, and so is the bound.\<close>

definition shares_balanced :: "(rat \<Rightarrow> go_float) \<Rightarrow> policy \<Rightarrow> bool" where
  "shares_balanced rnd p \<longleftrightarrow> unitInterval (po_exploit p) \<and> unitInterval (po_explore p) \<and>
    (let deviation = f_sub rnd (f_add rnd (po_exploit p) (po_explore p)) (Fin 1);
         size = (if f_less deviation f_zero then f_neg deviation else deviation)
     in \<not> f_less (rnd (1 / 1000000000)) size)"

definition cluster_issues :: "'h check_host_scheme \<Rightarrow> cluster_policy list \<Rightarrow> cluster_policy \<Rightarrow> issue list" where
  "cluster_issues h before c =
    (let field = item_field ''clusters'' before in
     need (validSlug (cu_name c)) ''policy.cluster'' (field @ ''.name'') @
     need (cu_name c \<notin> cu_name ` set before) ''record.set_duplicate'' (field @ ''.name'') @
     (case cu_state c of ClusterStateOther _ \<Rightarrow> [(''policy.cluster_state'', field @ ''.state'')] | _ \<Rightarrow> []) @
     need (positiveFinite (cu_budget c) \<and> cu_window c \<noteq> 0 \<and> not_negative (cu_improvement c) \<and> unitInterval (cu_probability c))
       ''policy.cluster_threshold'' field @
     need (\<not> (cu_state c = ClusterSaturated \<and> \<not> nonempty (cu_reopen c))) ''policy.reopen_condition'' (field @ ''.reopen_condition'') @
     validateCommitSafeString h (cu_reopen c) (field @ ''.reopen_condition''))"

definition validatePolicy :: "(rat \<Rightarrow> go_float) \<Rightarrow> 'h check_host_scheme \<Rightarrow> policy \<Rightarrow> issue list" where
  "validatePolicy rnd h p =
    need (validUTC (po_created p)) ''timestamp.utc'' ''created_at'' @
    (if \<not> validUTC (po_updated p) then [(''timestamp.utc'', ''updated_at'')]
     else need (\<not> (\<not> time_is_zero (po_created p) \<and> time_before (po_updated p) (po_created p))) ''timestamp.order'' ''updated_at'') @
    (case po_autonomy p of AutonomyModeOther _ \<Rightarrow> [(''policy.autonomy'', ''autonomy'')] | _ \<Rightarrow> []) @
    need (shares_balanced rnd p) ''policy.lane_share'' ''exploit_share'' @
    need (po_formula p = ''utility-v1'') ''policy.score_formula'' ''score_formula'' @
    (case po_tie p of TiePolicyOther _ \<Rightarrow> [(''policy.tie_policy'', ''tie_policy'')] | _ \<Rightarrow> []) @
    need (po_human p) ''policy.promotion_human'' ''promotion_requires_human'' @
    (let t = po_taxonomy p in
     validateSlugSet (tx_domains t) ''taxonomy.domains'' True @
     validateSlugSet (tx_work t) ''taxonomy.work'' True @
     validateSlugSet (tx_methods t) ''taxonomy.methods'' True @
     validateSlugSet (tx_components t) ''taxonomy.components'' True) @
    (let s = po_saturation p in
     need (positiveFinite (sa_budget s)) ''policy.cluster_budget'' ''cluster_saturation.budget_hours'' @
     need (sa_window s \<noteq> 0) ''policy.plateau_window'' ''cluster_saturation.plateau_window'' @
     need (not_negative (sa_improvement s)) ''policy.minimum_improvement'' ''cluster_saturation.minimum_improvement'' @
     need (unitInterval (sa_probability s)) ''policy.minimum_probability'' ''cluster_saturation.minimum_probability'') @
    each (cluster_issues h) (po_clusters p)"

definition idea_plan_states :: "idea \<Rightarrow> issue list" where
  "idea_plan_states i =
    need (\<not> (ia_state i = IdeaMerged \<and> id_is_zero (ia_merged i))) ''idea.merged_into'' ''merged_into'' @
    need (\<not> (ia_state i \<noteq> IdeaMerged \<and> \<not> id_is_zero (ia_merged i))) ''idea.merged_into'' ''merged_into'' @
    need (\<not> (ia_state i \<in> {IdeaQualified, IdeaQueued} \<and> id_is_zero (ia_plan i))) ''idea.resulting_plan'' ''resulting_plan'' @
    need (\<not> (ia_state i \<in> {IdeaProposed, IdeaDeveloping} \<and> \<not> id_is_zero (ia_plan i))) ''idea.resulting_plan'' ''resulting_plan''"

definition validateIdea :: "'h check_host_scheme \<Rightarrow> idea \<Rightarrow> issue list" where
  "validateIdea h i =
    (case ia_state i of IdeaStateOther _ \<Rightarrow> [(''idea.state'', ''state'')] | _ \<Rightarrow> []) @
    need (nonempty (ia_summary i)) ''idea.summary'' ''summary'' @
    validateCommitSafeString h (ia_summary i) ''summary'' @
    need (singleLine (ia_proposed_by i)) ''idea.proposed_by'' ''proposed_by'' @
    validateCommitSafeString h (ia_proposed_by i) ''proposed_by'' @
    need (validSlug (ia_cluster i)) ''classification.cluster'' ''primary_cluster'' @
    validateClassification (ia_classification i) ''classification'' @
    validateIDSet h (ia_parents i) KindIdea ''parents'' @
    concat (map (\<lambda>parent. need (parent \<noteq> c_id i) ''reference.self'' ''parents'') (ia_parents i)) @
    only (\<not> id_is_zero (ia_plan i)) (validateReferenceKind h (ia_plan i) KindPlan ''resulting_plan'') @
    only (\<not> id_is_zero (ia_merged i))
     (validateReferenceKind h (ia_merged i) KindIdea ''merged_into'' @
      need (ia_merged i \<noteq> c_id i) ''reference.self'' ''merged_into'') @
    idea_plan_states i @
    (case c_schema i of
       SchemaIdea \<Rightarrow> need (id_is_zero (ia_origin i)) ''record.schema_field'' ''origin_try''
     | SchemaIdeaV2 \<Rightarrow> only (\<not> id_is_zero (ia_origin i))
         (validateReferenceKind h (ia_origin i) KindTry ''origin_try'' @
          need (IsHumanIdentity (ia_proposed_by i)) ''idea.human_adoption'' ''proposed_by'')
     | _ \<Rightarrow> [])"

definition validateResourcePool :: "'h check_host_scheme \<Rightarrow> resource_pool \<Rightarrow> issue list" where
  "validateResourcePool h p =
    need (rp_capacity p \<noteq> 0) ''pool.capacity'' ''capacity'' @
    need (singleLine (rp_unit p)) ''pool.unit'' ''unit'' @
    validateCommitSafeString h (rp_unit p) ''unit'' @
    need (validSlug (rp_bottleneck p)) ''pool.bottleneck'' ''bottleneck'' @
    (case rp_cost p of None \<Rightarrow> [] | Some c \<Rightarrow> need (not_negative c) ''pool.cost'' ''cost_per_hour'')"

section \<open>Queue, advice and battles\<close>

definition lane_text :: "research_lane \<Rightarrow> string" where
  "lane_text l = (case l of LaneExploit \<Rightarrow> ''exploit'' | LaneExplore \<Rightarrow> ''explore'' | ResearchLaneOther s \<Rightarrow> s)"

definition partition_key :: "'h host_scheme \<Rightarrow> queue_partition \<Rightarrow> string" where
  "partition_key h p = id_string h (qp_pool p) @ [CHR 0x00] @ lane_text (qp_lane p)"

definition entry_issues :: "'h check_host_scheme \<Rightarrow> go_time \<Rightarrow> typed_id set \<Rightarrow> string \<Rightarrow> queue_entry \<Rightarrow> issue list" where
  "entry_issues h updated seen field e =
    validateReferenceKind h (qe_plan e) KindPlan (field @ ''.plan'') @
    need (qe_plan e \<notin> seen) ''queue.plan_duplicate'' (field @ ''.plan'') @
    need (validDigest (qe_revision e)) ''queue.plan_revision'' (field @ ''.plan_revision'') @
    need (f_finite (qe_score e)) ''queue.score'' (field @ ''.score'') @
    (if \<not> validUTC (qe_inserted e) then [(''timestamp.utc'', field @ ''.inserted_at'')]
     else need (\<not> time_after (qe_inserted e) updated) ''timestamp.order'' (field @ ''.inserted_at''))"

definition partition_plans :: "queue_partition \<Rightarrow> typed_id list" where
  "partition_plans p = map qe_plan (slice (qp_entries p))"

text \<open>The partitions before the current one hold the keys and the Plans seen so far.\<close>

definition partition_issues ::
  "'h check_host_scheme \<Rightarrow> go_time \<Rightarrow> queue_partition list \<Rightarrow> queue_partition \<Rightarrow> issue list" where
  "partition_issues h updated before p =
    (let field = item_field ''partitions'' before; seen = set (concat (map partition_plans before)) in
     validateReferenceKind h (qp_pool p) KindResourcePool (field @ ''.pool'') @
     validateLane (qp_lane p) (field @ ''.lane'') @
     need (partition_key h p \<notin> partition_key h ` set before) ''queue.partition_duplicate'' field @
     need (qp_entries p \<noteq> None) ''record.list_required'' (field @ ''.entries'') @
     each (\<lambda>earlier e. entry_issues h updated (seen \<union> qe_plan ` set earlier) (item_field (field @ ''.entries'') earlier) e)
       (slice (qp_entries p)))"

definition validateQueue :: "'h check_host_scheme \<Rightarrow> queue \<Rightarrow> issue list" where
  "validateQueue h q =
    need (qu_revision q \<noteq> 0) ''queue.revision'' ''revision'' @
    need (qu_partitions q \<noteq> None) ''record.list_required'' ''partitions'' @
    each (partition_issues h (c_updated q)) (slice (qu_partitions q))"

definition validateQueueAdvice :: "'h check_host_scheme \<Rightarrow> queue_advice \<Rightarrow> issue list" where
  "validateQueueAdvice h a =
    validateImmutable a @
    validateReferenceKind h (qa_queue a) KindQueue ''queue'' @
    need (qa_queue_revision a \<noteq> 0) ''queue.revision'' ''queue_revision'' @
    validateReferenceKind h (qa_candidate a) KindPlan ''candidate_plan'' @
    validateReferenceKind h (qa_pool a) KindResourcePool ''pool'' @
    validateLane (qa_lane a) ''lane'' @
    validateIDSet h (qa_order a) KindPlan ''listwise_order'' @
    need (qa_order a \<noteq> []) ''advice.order'' ''listwise_order'' @
    need (\<not> (of_nat (length (qa_order a)) \<le> qa_position a \<and> qa_order a \<noteq> [])) ''advice.position'' ''proposed_position'' @
    need (qa_candidate a \<in> set (qa_order a)) ''advice.candidate'' ''listwise_order'' @
    validateQueueScore (qa_score a) ''score'' @
    need (singleLine (qa_model a)) ''advice.model'' ''model'' @
    validateCommitSafeString h (qa_model a) ''model'' @
    need (validDigest (qa_prompt a)) ''advice.prompt_digest'' ''prompt_digest'' @
    need (nonempty (qa_rationale a)) ''advice.rationale'' ''rationale'' @
    validateCommitSafeString h (qa_rationale a) ''rationale''"

definition battle_verdict_issues :: "battle_record \<Rightarrow> issue list" where
  "battle_verdict_issues b =
    (let ab = bt_order_ab b; ba = bt_order_ba b; outcome = bt_outcome b in
     validateBattleChoice ab ''order_ab'' @ validateBattleChoice ba ''order_ba'' @
     (case outcome of BattleOutcomeOther _ \<Rightarrow> [(''battle.outcome'', ''outcome'')] | _ \<Rightarrow> []) @
     need (\<not> (ab \<noteq> ba \<and> outcome \<noteq> BattleHumanReview)) ''battle.disagreement'' ''outcome'' @
     need (\<not> (ab = BattleChooseCandidate \<and> ba = BattleChooseCandidate \<and> outcome \<noteq> BattleCandidateWins)) ''battle.outcome'' ''outcome'' @
     need (\<not> (ab = BattleChooseIncumbent \<and> ba = BattleChooseIncumbent \<and> outcome \<noteq> BattleIncumbentWins)) ''battle.outcome'' ''outcome'' @
     need (\<not> (ab = BattleChooseTie \<and> ba = BattleChooseTie \<and> outcome \<noteq> BattleTie)) ''battle.outcome'' ''outcome'')"

definition validateBattle :: "'h check_host_scheme \<Rightarrow> battle_record \<Rightarrow> issue list" where
  "validateBattle h b =
    validateImmutable b @
    validateReferenceKind h (bt_queue b) KindQueue ''queue'' @
    need (bt_queue_revision b \<noteq> 0) ''queue.revision'' ''queue_revision'' @
    only (\<not> id_is_zero (bt_advice b)) (validateReferenceKind h (bt_advice b) KindQueueAdvice ''advice'') @
    validateReferenceKind h (bt_candidate b) KindPlan ''candidate_plan'' @
    validateReferenceKind h (bt_incumbent b) KindPlan ''incumbent_plan'' @
    need (bt_candidate b \<noteq> bt_incumbent b) ''battle.same_plan'' ''incumbent_plan'' @
    validateReferenceKind h (bt_pool b) KindResourcePool ''pool'' @
    validateLane (bt_lane b) ''lane'' @
    battle_verdict_issues b @
    need (unitInterval (bt_confidence b)) ''battle.confidence'' ''confidence'' @
    need (nonempty (bt_rationale b)) ''battle.rationale'' ''rationale'' @
    validateCommitSafeString h (bt_rationale b) ''rationale''"

end
