(* ===== verification/Exp_Validate_All.thy ===== *)
theory Exp_Validate_All
  imports Exp_Validate_Control
begin

text \<open>
  The validators of Plans, EvaluationSpecs, Evaluations, Candidates, Releases, PromotionSpecs and
  Promotions, the dispatch over the record types (\<^verbatim>\<open>Validate\<close>), its relaxation for migrated
  records (\<^verbatim>\<open>internal/research/imported.go\<close>) and the view order of Plans.
\<close>

section \<open>Plan\<close>

definition dependency_issues :: "'h check_host_scheme \<Rightarrow> finding_dependency list \<Rightarrow> finding_dependency \<Rightarrow> issue list" where
  "dependency_issues h before d =
    (let field = item_field ''dependencies'' before in
     validateReferenceKind h (fd_finding d) KindFinding (field @ ''.finding'') @
     need (fd_finding d \<notin> fd_finding ` set before) ''reference.duplicate'' (field @ ''.finding'') @
     need (validDigest (fd_revision d)) ''plan.dependency_revision'' (field @ ''.revision'') @
     need (validDigest (fd_belief d)) ''plan.belief_digest'' (field @ ''.belief_digest''))"

definition resource_issues :: "'h check_host_scheme \<Rightarrow> resource_need list \<Rightarrow> resource_need \<Rightarrow> issue list" where
  "resource_issues h before r =
    (let field = item_field ''resources'' before in
     validateReferenceKind h (rn_pool r) KindResourcePool (field @ ''.pool'') @
     need (rn_pool r \<notin> rn_pool ` set before) ''reference.duplicate'' (field @ ''.pool'') @
     need (rn_units r \<noteq> 0) ''plan.resource_units'' (field @ ''.units'') @
     need (positiveFinite (rn_hours r)) ''plan.resource_hours'' (field @ ''.estimated_hours''))"

definition utility_issues :: "utility_estimate \<Rightarrow> issue list" where
  "utility_issues u =
    need (unitInterval (ut_probability u)) ''plan.utility_probability'' ''utility.probability'' @
    concat (map (\<lambda>(field, value). need (not_negative value) ''plan.utility_value'' field)
      [(''utility.impact'', ut_impact u), (''utility.information_gain'', ut_information u),
       (''utility.unblock_value'', ut_unblock u), (''utility.risk_penalty'', ut_risk u)])"

definition validatePlanVersion :: "'h check_host_scheme \<Rightarrow> plan \<Rightarrow> issue list" where
  "validatePlanVersion h p =
    (case c_schema p of
       SchemaPlan \<Rightarrow>
         need (\<not> (\<not> id_is_zero (pl_idea p) \<or> pl_cluster p \<noteq> [] \<or> pl_classification p \<noteq> None \<or>
           pl_dependencies p \<noteq> [] \<or> pl_resources p \<noteq> [] \<or> pl_utility p \<noteq> None)) ''record.schema_field'' ''schema''
     | SchemaPlanV2 \<Rightarrow>
         only (\<not> id_is_zero (pl_idea p)) (validateReferenceKind h (pl_idea p) KindIdea ''idea'') @
         need (validSlug (pl_cluster p)) ''classification.cluster'' ''primary_cluster'' @
         (case pl_classification p of None \<Rightarrow> [(''plan.classification'', ''classification'')]
          | Some c \<Rightarrow> validateClassification c ''classification'') @
         each (dependency_issues h) (pl_dependencies p) @
         need (length (pl_resources p) = 1) ''plan.resources'' ''resources'' @
         each (resource_issues h) (pl_resources p) @
         (case pl_utility p of None \<Rightarrow> [(''plan.utility'', ''utility'')] | Some u \<Rightarrow> utility_issues u)
     | _ \<Rightarrow> [])"

definition validatePlan :: "'h check_host_scheme \<Rightarrow> plan \<Rightarrow> issue list" where
  "validatePlan h p =
    (let has_result = \<not> id_is_zero (pl_result p); payoff = pl_payoff p in
     (case pl_priority p of PriorityOther _ \<Rightarrow> [(''plan.priority'', ''priority'')] | _ \<Rightarrow> []) @
     (case pl_effort p of EffortOther _ \<Rightarrow> [(''plan.effort'', ''effort'')] | _ \<Rightarrow> []) @
     (case pl_state p of PlanStateOther _ \<Rightarrow> [(''plan.state'', ''state'')] | _ \<Rightarrow> []) @
     validateIDSet h (pl_assumptions p) KindFinding ''assumptions'' @
     (if pl_state p \<in> {PlanStarted, PlanCompleted} then need has_result ''plan.resulting_experiment'' ''resulting_experiment''
      else need (\<not> has_result) ''plan.resulting_experiment'' ''resulting_experiment'') @
     only has_result (validateReferenceKind h (pl_result p) KindExperiment ''resulting_experiment'') @
     need (nonempty (py_summary payoff)) ''plan.payoff_summary'' ''expected_payoff.summary'' @
     validateCommitSafeString h (py_summary payoff) ''expected_payoff.summary'' @
     need (validMetric (py_metric payoff)) ''plan.payoff_metric'' ''expected_payoff.metric'' @
     need (singleLine (py_unit payoff)) ''plan.payoff_unit'' ''expected_payoff.unit'' @
     validateCommitSafeString h (py_unit payoff) ''expected_payoff.unit'' @
     (case py_estimate payoff of None \<Rightarrow> [] | Some x \<Rightarrow> need (f_finite x) ''plan.payoff_estimate'' ''expected_payoff.estimate'') @
     validatePlanVersion h p)"

section \<open>Evaluations\<close>

definition validateEvaluationSpec :: "'h check_host_scheme \<Rightarrow> evaluation_spec \<Rightarrow> issue list" where
  "validateEvaluationSpec h s =
    (case es_purpose s of EvaluationPurposeOther _ \<Rightarrow> [(''evaluation_spec.purpose'', ''purpose'')] | _ \<Rightarrow> []) @
    need (singleLine (es_dataset s)) ''evaluation_spec.dataset'' ''dataset'' @
    validateCommitSafeString h (es_dataset s) ''dataset'' @
    need (nonempty (es_protocol s)) ''evaluation_spec.protocol'' ''protocol'' @
    validateCommitSafeString h (es_protocol s) ''protocol'' @
    validateMetricSpecs h (es_metrics s) @
    validateReferenceKind h (es_pool s) KindResourcePool ''budget_pool'' @
    need (positiveFinite (es_hours s)) ''evaluation_spec.budget'' ''budget_hours'' @
    (case es_sealed s of None \<Rightarrow> [] | Some t \<Rightarrow> within_lifetime t s ''sealed_at'') @
    need (\<not> (es_purpose s = EvaluationPromotion \<and> es_sealed s = None)) ''evaluation_spec.sealed'' ''sealed_at'' @
    only (es_purpose s = EvaluationPromotion)
      (each (\<lambda>before m. need (ms_threshold m \<noteq> None) ''evaluation_spec.promotion_threshold''
         (item_field ''metrics'' before @ ''.threshold'')) (es_metrics s))"

definition metric_issues :: "metric_value list \<Rightarrow> metric_value \<Rightarrow> issue list" where
  "metric_issues before m =
    (let field = item_field ''metrics'' before in
     need (validMetric (mv_name m)) ''evaluation.metric'' (field @ ''.name'') @
     need (singleLine (mv_unit m)) ''evaluation.unit'' (field @ ''.unit'') @
     need (f_finite (mv_value m)) ''evaluation.value'' (field @ ''.value'') @
     need (mv_name m \<notin> mv_name ` set before) ''record.set_duplicate'' (field @ ''.name''))"

definition validateEvaluation :: "'h check_host_scheme \<Rightarrow> evaluation \<Rightarrow> issue list" where
  "validateEvaluation h e =
    validateImmutable e @
    validateReferenceKind h (el_spec e) KindEvaluationSpec ''spec'' @
    (case c_schema e of
       SchemaEvaluation \<Rightarrow> need (id_is_zero (el_attempt e)) ''record.schema_field'' ''attempt''
     | SchemaEvaluationV2 \<Rightarrow>
         validateReferenceKind h (el_attempt e) KindAttempt ''attempt'' @
         need (id_kind_of (el_subject e) = KindExperiment) ''evaluation.attempt_subject'' ''subject''
     | _ \<Rightarrow> []) @
    (if id_is_zero (el_subject e) then [(''reference.required'', ''subject'')]
     else need (id_kind_of (el_subject e) \<in> {KindExperiment, KindCandidate, KindRelease}) ''reference.wrong_kind'' ''subject'' @
       need (IsNative h (el_subject e)) ''reference.id_version'' ''subject'') @
    (case el_outcome e of EvaluationOutcomeOther _ \<Rightarrow> [(''evaluation.outcome'', ''outcome'')] | _ \<Rightarrow> []) @
    within_lifetime (el_evaluated e) e ''evaluated_at'' @
    need (el_metrics e \<noteq> []) ''evaluation.metrics'' ''metrics'' @
    each metric_issues (el_metrics e) @
    validate_refs h (el_refs e) ''external_refs'' @
    need (nonempty (el_summary e)) ''evaluation.summary'' ''summary'' @
    validateCommitSafeString h (el_summary e) ''summary''"

section \<open>Candidates and releases\<close>

definition candidate_source_issues ::
  "'h check_host_scheme \<Rightarrow> candidate_source list \<Rightarrow> string \<Rightarrow> candidate_source \<Rightarrow> issue list" where
  "candidate_source_issues h before previous s =
    (let field = item_field ''sources'' before in
     validateReferenceKind h (cs_source s) KindSource (field @ ''.source'') @
     need (cs_source s \<notin> cs_source ` set before) ''reference.duplicate'' (field @ ''.source'') @
     need (\<not> (previous \<noteq> [] \<and> id_string h (cs_source s) \<le> previous)) ''record.set_order'' ''sources'' @
     need (validGitCommit (cs_head s)) ''candidate.head_commit'' (field @ ''.head_commit'') @
     need (cs_changes s \<noteq> None) ''record.list_required'' (field @ ''.change_set'') @
     validatePathList h (slice (cs_changes s)) (field @ ''.change_set'') False @
     need (sorted (slice (cs_changes s))) ''record.set_order'' (field @ ''.change_set''))"

fun candidate_source_loop ::
  "'h check_host_scheme \<Rightarrow> candidate_source list \<Rightarrow> string \<Rightarrow> candidate_source list \<Rightarrow> issue list" where
  "candidate_source_loop h before previous [] = []"
| "candidate_source_loop h before previous (s # rest) =
    candidate_source_issues h before previous s @
    candidate_source_loop h (before @ [s]) (next_key previous (id_string h (cs_source s))) rest"

definition validateCandidate :: "'h check_host_scheme \<Rightarrow> candidate_record \<Rightarrow> issue list" where
  "validateCandidate h c =
    validateReferenceKind h (ca_experiment c) KindExperiment ''experiment'' @
    validateReferenceKind h (ca_evaluation c) KindEvaluation ''evaluation'' @
    validateIDSet h (ca_parents c) KindCandidate ''parents'' @
    concat (map (\<lambda>parent. need (parent \<noteq> c_id c) ''reference.self'' ''parents'') (ca_parents c)) @
    (case c_schema c of
       SchemaCandidate \<Rightarrow>
         need (validGitCommit (ca_commit c)) ''candidate.git_commit'' ''git_commit'' @
         validatePathList h (slice (ca_changes c)) ''change_set'' True @
         need (\<not> (\<not> id_is_zero (ca_attempt c) \<or> ca_sources c \<noteq> None)) ''record.schema_field'' ''attempt''
     | SchemaCandidateV2 \<Rightarrow>
         need (\<not> (ca_commit c \<noteq> [] \<or> ca_changes c \<noteq> None)) ''record.schema_field'' ''git_commit'' @
         validateReferenceKind h (ca_attempt c) KindAttempt ''attempt'' @
         need (slice (ca_sources c) \<noteq> []) ''candidate.sources'' ''sources'' @
         candidate_source_loop h [] [] (slice (ca_sources c))
     | _ \<Rightarrow> []) @
    validate_refs h (ca_refs c) ''external_refs''"

definition validateRelease :: "'h check_host_scheme \<Rightarrow> release \<Rightarrow> issue list" where
  "validateRelease h r =
    need (validSlug (rl_target r)) ''release.target'' ''target'' @
    need (singleLine (rl_version r)) ''release.version'' ''version'' @
    validateCommitSafeString h (rl_version r) ''version'' @
    (case rl_state r of ReleaseStateOther _ \<Rightarrow> [(''release.state'', ''state'')] | _ \<Rightarrow> []) @
    need (rl_slots r \<noteq> []) ''release.slots'' ''slots'' @
    each (\<lambda>before s. let field = item_field ''slots'' before in
      need (validSlug (sl_name s)) ''release.slot'' (field @ ''.name'') @
      need (sl_name s \<notin> sl_name ` set before) ''record.set_duplicate'' (field @ ''.name'') @
      validateReferenceKind h (sl_candidate s) KindCandidate (field @ ''.candidate'')) (rl_slots r) @
    need (\<not> (1 < card (sl_candidate ` set (rl_slots r)) \<and> (id_is_zero (rl_experiment r) \<or> id_is_zero (rl_combination r))))
      ''release.combination'' ''combination_experiment'' @
    only (\<not> id_is_zero (rl_experiment r)) (validateReferenceKind h (rl_experiment r) KindExperiment ''combination_experiment'') @
    only (\<not> id_is_zero (rl_combination r)) (validateReferenceKind h (rl_combination r) KindEvaluation ''combination_evaluation'') @
    need (id_is_zero (rl_experiment r) = id_is_zero (rl_combination r)) ''release.combination'' ''combination_evaluation'' @
    need (\<not> (rl_state r = ReleaseValidated \<and> id_is_zero (rl_evaluation r))) ''release.evaluation'' ''evaluation'' @
    only (\<not> id_is_zero (rl_evaluation r)) (validateReferenceKind h (rl_evaluation r) KindEvaluation ''evaluation'')"

definition validatePromotionSpec :: "'h check_host_scheme \<Rightarrow> promotion_spec \<Rightarrow> issue list" where
  "validatePromotionSpec h s =
    need (validSlug (ps_target s)) ''promotion.target'' ''target'' @
    validateReferenceKind h (ps_spec s) KindEvaluationSpec ''evaluation_spec'' @
    within_lifetime (ps_sealed s) s ''sealed_at'' @
    need (positiveFinite (ps_hours s)) ''promotion.holdout_budget'' ''holdout_budget_hours'' @
    need (ps_human s) ''promotion.human_required'' ''human_approval_required''"

definition validatePromotion :: "'h check_host_scheme \<Rightarrow> promotion \<Rightarrow> issue list" where
  "validatePromotion h p =
    validateImmutable p @
    need (validSlug (pr_target p)) ''promotion.target'' ''target'' @
    validateReferenceKind h (pr_spec p) KindPromotionSpec ''spec'' @
    validateReferenceKind h (pr_challenger p) KindRelease ''challenger'' @
    only (\<not> id_is_zero (pr_incumbent p)) (validateReferenceKind h (pr_incumbent p) KindRelease ''incumbent'') @
    need (pr_challenger p \<noteq> pr_incumbent p) ''promotion.same_release'' ''incumbent'' @
    validateReferenceKind h (pr_evaluation p) KindEvaluation ''evaluation'' @
    (case pr_outcome p of PromotionOutcomeOther _ \<Rightarrow> [(''promotion.outcome'', ''outcome'')] | _ \<Rightarrow> []) @
    within_lifetime (pr_applied p) p ''applied_at'' @
    only (\<not> id_is_zero (pr_previous p))
     (validateReferenceKind h (pr_previous p) KindPromotion ''previous'' @
      need (pr_previous p \<noteq> c_id p) ''reference.self'' ''previous'') @
    need (singleLine (pr_approved_by p)) ''promotion.approved_by'' ''approved_by'' @
    need (\<not> agent_identity (pr_approved_by p)) ''promotion.human_approval'' ''approved_by'' @
    validateCommitSafeString h (pr_approved_by p) ''approved_by''"

section \<open>Validate\<close>

definition common_issues :: "'h check_host_scheme \<Rightarrow> research_record \<Rightarrow> issue list" where
  "common_issues h r =
    (case GetCommon r of None \<Rightarrow> [] | Some c \<Rightarrow> validateCommon h (GetKind r) (GetExtensions r) c)"

fun specific_issues :: "(rat \<Rightarrow> go_float) \<Rightarrow> 'h check_host_scheme \<Rightarrow> research_record \<Rightarrow> issue list" where
  "specific_issues rnd h (RecProject r) = validateProject h r"
| "specific_issues rnd h (RecPolicy r) = validatePolicy rnd h r"
| "specific_issues rnd h (RecSource r) = validateSource h r"
| "specific_issues rnd h (RecIdea r) = validateIdea h r"
| "specific_issues rnd h (RecResourcePool r) = validateResourcePool h r"
| "specific_issues rnd h (RecQueue r) = validateQueue h r"
| "specific_issues rnd h (RecQueueAdvice r) = validateQueueAdvice h r"
| "specific_issues rnd h (RecBattle r) = validateBattle h r"
| "specific_issues rnd h (RecPlan r) = validatePlan h r"
| "specific_issues rnd h (RecTry r) = validateTry h r"
| "specific_issues rnd h (RecExperiment r) = validateExperiment h r"
| "specific_issues rnd h (RecRun r) = validateRun h r"
| "specific_issues rnd h (RecAttempt r) = validateAttempt h r"
| "specific_issues rnd h (RecEvaluationSpec r) = validateEvaluationSpec h r"
| "specific_issues rnd h (RecEvaluation r) = validateEvaluation h r"
| "specific_issues rnd h (RecFinding r) = validateFinding h r"
| "specific_issues rnd h (RecCandidate r) = validateCandidate h r"
| "specific_issues rnd h (RecRelease r) = validateRelease h r"
| "specific_issues rnd h (RecPromotionSpec r) = validatePromotionSpec h r"
| "specific_issues rnd h (RecPromotion r) = validatePromotion h r"
| "specific_issues rnd h (RecDecision r) = validateDecision h r"

definition Validate :: "(rat \<Rightarrow> go_float) \<Rightarrow> 'h check_host_scheme \<Rightarrow> research_record option \<Rightarrow> issue list" where
  "Validate rnd h record =
    collected h (case record of
       None \<Rightarrow> [(''record.nil'', [])]
     | Some r \<Rightarrow>
         validateExtensions h (GetExtensions r) @
         need (KindForSchema (GetSchema r) = Inr (GetKind r)) ''record.schema'' ''schema'' @
         common_issues h r @ specific_issues rnd h r)"

section \<open>Migrated records (imported.go)\<close>

definition version_issue :: "issue \<Rightarrow> bool" where
  "version_issue i \<longleftrightarrow> fst i \<in> {''record.id_version'', ''reference.id_version''}"

datatype import_error = Remaining "issue list" | ImportIdentity

definition imported_identity :: "'h check_host_scheme \<Rightarrow> research_record \<Rightarrow> bool" where
  "imported_identity h r =
    (case r of
       RecProject p \<Rightarrow> pj_id p \<noteq> nil_uuid \<and> h_uuid_rfc4122 h (pj_id p) \<and> h_uuid_version h (pj_id p) = 5 \<and>
         hasMigrationExtension (GetExtensions r)
     | _ \<Rightarrow> (case GetID r of None \<Rightarrow> False | Some i \<Rightarrow>
         \<not> (IsImported h i \<and> \<not> hasMigrationExtension (GetExtensions r)) \<and> (IsImported h i \<or> IsNative h i)))"

definition ValidateImported :: "(rat \<Rightarrow> go_float) \<Rightarrow> 'h check_host_scheme \<Rightarrow> research_record option \<Rightarrow> import_error option" where
  "ValidateImported rnd h record =
    (let issues = Validate rnd h record; remaining = filter (\<lambda>i. \<not> version_issue i) issues in
     if issues = [] then None
     else if remaining \<noteq> [] then Some (Remaining remaining)
     else case record of None \<Rightarrow> Some ImportIdentity
       | Some r \<Rightarrow> if imported_identity h r then None else Some ImportIdentity)"

section \<open>The view order of Plans\<close>

definition plan_state_rank :: "plan_state \<Rightarrow> nat" where
  "plan_state_rank s = (case s of PlanQueued \<Rightarrow> 0 | PlanStarted \<Rightarrow> 1 | PlanCompleted \<Rightarrow> 2 | PlanDropped \<Rightarrow> 3 | PlanStateOther _ \<Rightarrow> 0)"

definition priority_rank :: "priority \<Rightarrow> nat" where
  "priority_rank p = (case p of PriorityP1 \<Rightarrow> 0 | PriorityP2 \<Rightarrow> 1 | PriorityP3 \<Rightarrow> 2 | PriorityUnknown \<Rightarrow> 3 | PriorityOther _ \<Rightarrow> 0)"

definition plan_before :: "'h host_scheme \<Rightarrow> plan \<Rightarrow> plan \<Rightarrow> bool" where
  "plan_before h a b \<longleftrightarrow>
    (if plan_state_rank (pl_state a) \<noteq> plan_state_rank (pl_state b)
     then plan_state_rank (pl_state a) < plan_state_rank (pl_state b)
     else if priority_rank (pl_priority a) \<noteq> priority_rank (pl_priority b)
     then priority_rank (pl_priority a) < priority_rank (pl_priority b)
     else id_string h (c_id a) < id_string h (c_id b))"

definition SortPlans :: "'h host_scheme \<Rightarrow> plan list \<Rightarrow> plan list" where
  "SortPlans h plans = stable_sort (plan_before h) plans"

end
