(* ===== verification/Exp_Normalize.thy ===== *)
theory Exp_Normalize
  imports Exp_Validate_All
begin

text \<open>
  The normal form of a record (\<open>Normalize\<close>, \<open>utc\<close>, \<open>sortIDs\<close> and \<open>nilIfEmpty\<close> of
  \<^verbatim>\<open>internal/research/normalize.go\<close>): every time in UTC, every set sorted, every digest in lower
  case. \<open>Clone\<close> copies the record the code then mutates, so here it is the identity. The
  normalisation of a locator is the host's.
\<close>

section \<open>Values\<close>

definition utc :: "go_time \<Rightarrow> go_time" where
  "utc t = (if time_is_zero t then t else GoTime (t_instant t) 0)"

definition by_id :: "'h host_scheme \<Rightarrow> ('a \<Rightarrow> typed_id) \<Rightarrow> 'a \<Rightarrow> 'a \<Rightarrow> bool" where
  "by_id h f x y \<longleftrightarrow> id_string h (f x) < id_string h (f y)"

definition by_text :: "('a \<Rightarrow> string) \<Rightarrow> 'a \<Rightarrow> 'a \<Rightarrow> bool" where
  "by_text f x y \<longleftrightarrow> f x < f y"

definition sortIDs :: "'h host_scheme \<Rightarrow> typed_id list \<Rightarrow> typed_id list" where
  "sortIDs h = stable_sort (by_id h id)"

definition nilIfEmpty :: "'a list option \<Rightarrow> 'a list option" where
  "nilIfEmpty xs = (if slice xs = [] then None else xs)"

definition sort_some :: "string list option \<Rightarrow> string list option" where
  "sort_some = map_option sort"

definition normalizeExternalRefs :: "external_ref list \<Rightarrow> external_ref list" where
  "normalizeExternalRefs = map (\<lambda>r. r\<lparr>er_observed := map_option utc (er_observed r)\<rparr>)"

definition normal_common :: "'c common_scheme \<Rightarrow> 'c common_scheme" where
  "normal_common r = r\<lparr>c_created := utc (c_created r), c_updated := utc (c_updated r),
     c_aliases := sort (c_aliases r), c_tags := sort (c_tags r)\<rparr>"

section \<open>Parts of records\<close>

definition normal_source :: "'h check_host_scheme \<Rightarrow> source_record \<Rightarrow> source_record" where
  "normal_source h r = r\<lparr>
     so_key := (case NormalizeSourceKey (so_key r) of None \<Rightarrow> so_key r | Some key \<Rightarrow> key),
     so_subdir := (case NormalizeSourceSubdir h (so_subdir r) of Inl _ \<Rightarrow> so_subdir r | Inr subdir \<Rightarrow> subdir),
     so_locators := map_option (map (\<lambda>l. case ch_locator h l of Inl _ \<Rightarrow> l | Inr l' \<Rightarrow> l')) (so_locators r),
     so_retired := map_option utc (so_retired r)\<rparr>"

definition partition_before :: "'h host_scheme \<Rightarrow> queue_partition \<Rightarrow> queue_partition \<Rightarrow> bool" where
  "partition_before h p q \<longleftrightarrow>
     (if qp_pool p \<noteq> qp_pool q then id_string h (qp_pool p) < id_string h (qp_pool q)
      else lane_text (qp_lane p) < lane_text (qp_lane q))"

definition normal_entry :: "queue_entry \<Rightarrow> queue_entry" where
  "normal_entry e = e\<lparr>qe_revision := to_lower (qe_revision e), qe_inserted := utc (qe_inserted e)\<rparr>"

definition normal_queue :: "'h host_scheme \<Rightarrow> queue \<Rightarrow> queue" where
  "normal_queue h r = r\<lparr>qu_partitions := map_option (\<lambda>ps.
     map (\<lambda>p. p\<lparr>qp_entries := map_option (map normal_entry) (qp_entries p)\<rparr>) (stable_sort (partition_before h) ps))
       (qu_partitions r)\<rparr>"

definition normal_dependency :: "finding_dependency \<Rightarrow> finding_dependency" where
  "normal_dependency d = d\<lparr>fd_revision := to_lower (fd_revision d), fd_belief := to_lower (fd_belief d)\<rparr>"

definition normal_plan :: "'h host_scheme \<Rightarrow> plan \<Rightarrow> plan" where
  "normal_plan h r = r\<lparr>pl_assumptions := sortIDs h (pl_assumptions r),
     pl_dependencies := map normal_dependency (stable_sort (by_id h fd_finding) (pl_dependencies r)),
     pl_resources := stable_sort (by_id h rn_pool) (pl_resources r)\<rparr>"

definition normal_conclusion :: "try_conclusion \<Rightarrow> try_conclusion" where
  "normal_conclusion c = c\<lparr>tc_concluded := utc (tc_concluded c), tc_digests := sort (tc_digests c),
     tc_refs := normalizeExternalRefs (tc_refs c)\<rparr>"

definition normal_try :: "'h host_scheme \<Rightarrow> try_record \<Rightarrow> try_record" where
  "normal_try h r = r\<lparr>ty_sources := sortIDs h (ty_sources r),
     ty_conclusion := map_option normal_conclusion (ty_conclusion r),
     ty_abandonment := map_option (\<lambda>a. a\<lparr>ta_abandoned := utc (ta_abandoned a)\<rparr>) (ty_abandonment r)\<rparr>"

definition normal_amendment :: "amendment \<Rightarrow> amendment" where
  "normal_amendment a = a\<lparr>am_amended := utc (am_amended a), am_previous := to_lower (am_previous a),
     am_new := to_lower (am_new a)\<rparr>"

definition normal_experiment :: "'h host_scheme \<Rightarrow> experiment_record \<Rightarrow> experiment_record" where
  "normal_experiment h r = r\<lparr>
     ex_design := (ex_design r)\<lparr>de_locked := map_option utc (de_locked (ex_design r)),
       de_digest := to_lower (de_digest (ex_design r))\<rparr>,
     ex_amendments := map normal_amendment (ex_amendments r),
     ex_conclusion := map_option (\<lambda>c. c\<lparr>cn_concluded := utc (cn_concluded c)\<rparr>) (ex_conclusion r),
     ex_parents := sortIDs h (ex_parents r), ex_inputs := sortIDs h (ex_inputs r)\<rparr>"

definition normal_run :: "run_record \<Rightarrow> run_record" where
  "normal_run r = r\<lparr>ru_config := to_lower (ru_config r), ru_data := to_lower (ru_data r), ru_outputs := sort (ru_outputs r)\<rparr>"

definition normal_snapshot :: "source_snapshot \<Rightarrow> source_snapshot" where
  "normal_snapshot s = s\<lparr>ss_captured := utc (ss_captured s), ss_base := to_lower (ss_base s), ss_head := to_lower (ss_head s),
     ss_dirty_digest := to_lower (ss_dirty_digest s), ss_digest := to_lower (ss_digest s),
     ss_changes := Some (sort (slice (ss_changes s)))\<rparr>"

definition normal_provenance :: "provenance \<Rightarrow> provenance" where
  "normal_provenance p = p\<lparr>pv_captured := utc (pv_captured p), pv_dirty_digest := to_lower (pv_dirty_digest p),
     pv_config := to_lower (pv_config p), pv_data := to_lower (pv_data p), pv_environment := to_lower (pv_environment p)\<rparr>"

definition normal_terminal :: "terminal \<Rightarrow> terminal" where
  "normal_terminal t = t\<lparr>tm_observed := utc (tm_observed t), tm_ended := utc (tm_ended t),
     tm_started := map_option utc (tm_started t)\<rparr>"

definition normal_attempt :: "'h host_scheme \<Rightarrow> attempt \<Rightarrow> attempt" where
  "normal_attempt h r = r\<lparr>at_snapshots := map normal_snapshot (stable_sort (by_id h ss_source) (at_snapshots r)),
     at_refs := normalizeExternalRefs (at_refs r),
     at_provenance := map_option normal_provenance (at_provenance r),
     at_terminal := map_option normal_terminal (at_terminal r),
     at_changes := nilIfEmpty (sort_some (at_changes r))\<rparr>"

definition normal_candidate_source :: "candidate_source \<Rightarrow> candidate_source" where
  "normal_candidate_source s = s\<lparr>cs_head := to_lower (cs_head s), cs_changes := Some (sort (slice (cs_changes s)))\<rparr>"

definition normal_candidate :: "'h host_scheme \<Rightarrow> candidate_record \<Rightarrow> candidate_record" where
  "normal_candidate h r = r\<lparr>ca_parents := sortIDs h (ca_parents r), ca_changes := sort_some (ca_changes r),
     ca_sources := map_option (\<lambda>ss. map normal_candidate_source (stable_sort (by_id h cs_source) ss)) (ca_sources r),
     ca_refs := normalizeExternalRefs (ca_refs r)\<rparr>"

definition normal_policy :: "policy \<Rightarrow> policy" where
  "normal_policy r = r\<lparr>po_created := utc (po_created r), po_updated := utc (po_updated r),
     po_taxonomy := \<lparr>tx_domains = sort (tx_domains (po_taxonomy r)), tx_work = sort (tx_work (po_taxonomy r)),
       tx_methods = sort (tx_methods (po_taxonomy r)), tx_components = sort (tx_components (po_taxonomy r))\<rparr>,
     po_clusters := stable_sort (by_text cu_name) (po_clusters r)\<rparr>"

section \<open>Records\<close>

fun Normalize :: "'h check_host_scheme \<Rightarrow> research_record \<Rightarrow> research_record" where
  "Normalize h (RecProject r) = RecProject (r\<lparr>pj_created := utc (pj_created r)\<rparr>)"
| "Normalize h (RecPolicy r) = RecPolicy (normal_policy r)"
| "Normalize h (RecSource r) = RecSource (normal_source h (normal_common r))"
| "Normalize h (RecIdea r) = RecIdea ((normal_common r)\<lparr>ia_parents := sortIDs h (ia_parents r)\<rparr>)"
| "Normalize h (RecResourcePool r) = RecResourcePool (normal_common r)"
| "Normalize h (RecQueue r) = RecQueue (normal_queue h (normal_common r))"
| "Normalize h (RecQueueAdvice r) = RecQueueAdvice ((normal_common r)\<lparr>qa_prompt := to_lower (qa_prompt r)\<rparr>)"
| "Normalize h (RecBattle r) = RecBattle (normal_common r)"
| "Normalize h (RecPlan r) = RecPlan (normal_plan h (normal_common r))"
| "Normalize h (RecTry r) = RecTry (normal_try h (normal_common r))"
| "Normalize h (RecExperiment r) = RecExperiment (normal_experiment h (normal_common r))"
| "Normalize h (RecRun r) = RecRun (normal_run (normal_common r))"
| "Normalize h (RecAttempt r) = RecAttempt (normal_attempt h (normal_common r))"
| "Normalize h (RecEvaluationSpec r) = RecEvaluationSpec ((normal_common r)\<lparr>es_sealed := map_option utc (es_sealed r),
     es_metrics := stable_sort (by_text ms_name) (es_metrics r)\<rparr>)"
| "Normalize h (RecEvaluation r) = RecEvaluation ((normal_common r)\<lparr>el_evaluated := utc (el_evaluated r),
     el_metrics := stable_sort (by_text mv_name) (el_metrics r), el_refs := normalizeExternalRefs (el_refs r)\<rparr>)"
| "Normalize h (RecFinding r) = RecFinding ((normal_common r)\<lparr>fi_weakens := sortIDs h (fi_weakens r),
     fi_overturns := sortIDs h (fi_overturns r)\<rparr>)"
| "Normalize h (RecCandidate r) = RecCandidate (normal_candidate h (normal_common r))"
| "Normalize h (RecRelease r) = RecRelease ((normal_common r)\<lparr>rl_slots := stable_sort (by_text sl_name) (rl_slots r)\<rparr>)"
| "Normalize h (RecPromotionSpec r) = RecPromotionSpec ((normal_common r)\<lparr>ps_sealed := utc (ps_sealed r)\<rparr>)"
| "Normalize h (RecPromotion r) = RecPromotion ((normal_common r)\<lparr>pr_applied := utc (pr_applied r)\<rparr>)"
| "Normalize h (RecDecision r) = RecDecision ((normal_common r)\<lparr>dn_based_on := sortIDs h (dn_based_on r),
     dn_supersedes := sortIDs h (dn_supersedes r), dn_effective := utc (dn_effective r)\<rparr>)"

end
