(* ===== verification/Exp_Layout.thy ===== *)
theory Exp_Layout
  imports Exp_Records
begin

text \<open>
  Documents and the canonical layout of the record tree (\<^verbatim>\<open>internal/record/document.go\<close>,
  \<^verbatim>\<open>layout.go\<close> and the lookups of \<^verbatim>\<open>inventory.go\<close>): which kind and identity a relative path stands
  for, and which path a new record gets. Of a layout error only its presence is kept; every one
  has the code \<^verbatim>\<open>record.invalid_path\<close>.
\<close>

section \<open>Documents (document.go, revision.go)\<close>

record document =
  d_record :: "research_record option"
  d_body :: string
  d_path :: string
  d_revision :: string

definition document_kind :: "document \<Rightarrow> kind" where
  "document_kind d = (case d_record d of None \<Rightarrow> KindUnknown | Some r \<Rightarrow> GetKind r)"

definition document_id :: "document \<Rightarrow> typed_id option" where
  "document_id d = (case d_record d of None \<Rightarrow> None | Some r \<Rightarrow> GetID r)"

definition revisionPrefix :: string where
  "revisionPrefix = ''sha256:''"

definition hex_pairs :: "string \<Rightarrow> bool" where
  "hex_pairs s \<longleftrightarrow> even (length s) \<and> list_all hex_any s"

definition ValidRevision :: "string \<Rightarrow> bool" where
  "ValidRevision value \<longleftrightarrow>
     has_prefix value revisionPrefix \<and> length value = length revisionPrefix + 64 \<and>
     hex_pairs (trim_prefix value revisionPrefix) \<and> value = to_lower value"

section \<open>The layout tables (layout.go)\<close>

definition ProjectFile :: string where "ProjectFile = ''PROJECT.md''"
definition PolicyFile :: string where "PolicyFile = ''POLICY.md''"
definition SourcesDir :: string where "SourcesDir = ''sources''"

definition generatedProjectionNames :: "string list" where
  "generatedProjectionNames = [''README.md'', ''ROADMAP.md'', ''LEDGER.md'', ''DECISIONS.md'']"

definition flatLayouts :: "(string \<times> kind \<times> string) list" where
  "flatLayouts =
    [(''sources'', KindSource, ''src_''), (''ideas'', KindIdea, ''idea_''),
     (''resource-pools'', KindResourcePool, ''pool_''), (''queues'', KindQueue, ''queue_''),
     (''queue-advice'', KindQueueAdvice, ''advice_''), (''battles'', KindBattle, ''battle_''),
     (''plans'', KindPlan, ''plan_''), (''evaluation-specs'', KindEvaluationSpec, ''evalspec_''),
     (''evaluations'', KindEvaluation, ''eval_''), (''findings'', KindFinding, ''fnd_''),
     (''candidates'', KindCandidate, ''cand_''), (''releases'', KindRelease, ''rel_''),
     (''promotion-specs'', KindPromotionSpec, ''promspec_''), (''promotions'', KindPromotion, ''prom_''),
     (''decisions'', KindDecision, ''dec_'')]"

text \<open>The file name patterns: a prefix and 36 characters of a UUID text, then a slug or nothing.\<close>

definition uuid_char :: "char \<Rightarrow> bool" where
  "uuid_char c \<longleftrightarrow> lower_hex c \<or> c = CHR ''-''"

definition name_head :: "string \<Rightarrow> string \<Rightarrow> bool" where
  "name_head prefix head \<longleftrightarrow>
     has_prefix head prefix \<and> length head = length prefix + 36 \<and> list_all uuid_char (drop (length prefix) head)"

definition name_match :: "string \<Rightarrow> string \<Rightarrow> (string \<times> string) option" where
  "name_match prefix name =
    (let n = length prefix + 36; head = take n name; rest = drop n name;
         slug = drop 1 (take (length rest - 3) rest)
     in if name_head prefix head \<and> has_prefix rest ''-'' \<and> has_suffix rest ''.md'' \<and> validSlug slug
        then Some (head, slug) else None)"

definition attempt_name :: "string \<Rightarrow> string option" where
  "attempt_name name =
    (let head = take 40 name in if name_head ''att_'' head \<and> drop 40 name = ''.md'' then Some head else None)"

definition dir_match :: "string \<Rightarrow> string \<Rightarrow> (string \<times> string) option" where
  "dir_match prefix name =
    (if \<not> has_prefix name prefix then None
     else let rest = drop (length prefix) name; hex = takeWhile (\<lambda>c. c \<noteq> CHR ''-'') rest;
              slug = drop (length hex) rest
       in if 8 \<le> length hex \<and> length hex \<le> 32 \<and> list_all lower_hex hex \<and> has_prefix slug ''-'' \<and> validSlug (drop 1 slug)
          then Some (hex, drop 1 slug) else None)"

section \<open>Reading a path\<close>

record location =
  lo_relative :: string
  lo_kind :: kind
  lo_id :: typed_id
  lo_slug :: string
  lo_experiment_dir :: string
  lo_experiment_prefix :: string
  lo_try_dir :: string
  lo_try_prefix :: string

definition no_location :: location where
  "no_location = \<lparr>lo_relative = [], lo_kind = KindUnknown, lo_id = zero_id, lo_slug = [],
     lo_experiment_dir = [], lo_experiment_prefix = [], lo_try_dir = [], lo_try_prefix = []\<rparr>"

datatype classified = Unrelated | Misplaced | Canonical location

definition with_id :: "'h host_scheme \<Rightarrow> string \<Rightarrow> kind \<Rightarrow> location \<Rightarrow> classified" where
  "with_id h text k l =
    (case ParseIDForKind h text k of Inl _ \<Rightarrow> Misplaced | Inr i \<Rightarrow> Canonical (l\<lparr>lo_kind := k, lo_id := i\<rparr>))"

definition classify_flat :: "'h host_scheme \<Rightarrow> string \<Rightarrow> string \<Rightarrow> kind \<Rightarrow> string \<Rightarrow> string \<Rightarrow> classified" where
  "classify_flat h relative dir k prefix name =
    (case name_match prefix name of
       None \<Rightarrow> if dir = SourcesDir then Unrelated else Misplaced
     | Some (text, slug) \<Rightarrow> with_id h text k (no_location\<lparr>lo_relative := relative, lo_slug := slug\<rparr>))"

definition classify_nested :: "'h host_scheme \<Rightarrow> bool \<Rightarrow> location \<Rightarrow> string list \<Rightarrow> classified" where
  "classify_nested h in_experiment base rest =
    (if in_experiment \<and> rest = [''REPORT.md''] then Canonical (base\<lparr>lo_kind := KindExperiment\<rparr>)
     else if \<not> in_experiment \<and> rest = [''TRY.md''] then Canonical (base\<lparr>lo_kind := KindTry\<rparr>)
     else if in_experiment \<and> length rest = 2 \<and> rest ! 0 = ''runs'' then
       (case name_match ''run_'' (rest ! 1) of
          None \<Rightarrow> Misplaced
        | Some (text, slug) \<Rightarrow> with_id h text KindRun (base\<lparr>lo_slug := slug\<rparr>))
     else if length rest = 2 \<and> rest ! 0 = ''attempts'' then
       (case attempt_name (rest ! 1) of None \<Rightarrow> Misplaced | Some text \<Rightarrow> with_id h text KindAttempt base)
     else Misplaced)"

definition classify_owned :: "'h host_scheme \<Rightarrow> string \<Rightarrow> string \<Rightarrow> string list \<Rightarrow> classified" where
  "classify_owned h relative dir rest =
    (case dir_match ''e-'' dir of
       Some (hex, slug) \<Rightarrow>
         classify_nested h True
           (no_location\<lparr>lo_relative := relative, lo_slug := slug, lo_experiment_dir := dir, lo_experiment_prefix := hex\<rparr>) rest
     | None \<Rightarrow>
        (case dir_match ''t-'' dir of
           Some (hex, slug) \<Rightarrow>
             classify_nested h False
               (no_location\<lparr>lo_relative := relative, lo_slug := slug, lo_try_dir := dir, lo_try_prefix := hex\<rparr>) rest
         | None \<Rightarrow> if has_prefix dir ''e-'' then Misplaced else Unrelated))"

definition ClassifyPath :: "'h host_scheme \<Rightarrow> string \<Rightarrow> classified" where
  "ClassifyPath h relative =
    (if relative = ProjectFile then Canonical (no_location\<lparr>lo_relative := relative, lo_kind := KindProject\<rparr>)
     else if relative = PolicyFile then Canonical (no_location\<lparr>lo_relative := relative, lo_kind := KindPolicy\<rparr>)
     else if relative \<in> set generatedProjectionNames then Unrelated
     else if relative = [] \<or> has_prefix relative ''/'' \<or> CHR 0x5C \<in> set relative \<or> path_clean relative \<noteq> relative
     then Misplaced
     else case split_on CHR ''/'' relative of
       [] \<Rightarrow> Unrelated
     | dir # rest \<Rightarrow>
        (case map_of flatLayouts dir of
           Some (k, prefix) \<Rightarrow>
             (case rest of
                [name] \<Rightarrow> classify_flat h relative dir k prefix name
              | _ \<Rightarrow> if dir = SourcesDir then Unrelated else Misplaced)
         | None \<Rightarrow> classify_owned h relative dir rest))"

definition ValidateDocumentPath :: "'h host_scheme \<Rightarrow> location \<Rightarrow> document \<Rightarrow> bool" where
  "ValidateDocumentPath h l d \<longleftrightarrow>
     d_record d \<noteq> None \<and> lo_kind l = document_kind d \<and>
     (lo_kind l \<in> {KindProject, KindPolicy} \<or>
      (case document_id d of
         None \<Rightarrow> False
       | Some i \<Rightarrow>
           if lo_kind l = KindExperiment then has_prefix (UUIDHex h i) (lo_experiment_prefix l)
           else if lo_kind l = KindTry then has_prefix (UUIDHex h i) (lo_try_prefix l)
           else i = lo_id l))"

section \<open>Slugs\<close>

text \<open>The loop over the runes of the lower-cased title: the slug so far, and whether a separator is due.\<close>

definition slug_rune :: "nat \<Rightarrow> bool" where
  "slug_rune r \<longleftrightarrow> 97 \<le> r \<and> r \<le> 122 \<or> 48 \<le> r \<and> r \<le> 57"

definition slug_step :: "nat \<Rightarrow> string \<Rightarrow> bool \<Rightarrow> string \<times> bool" where
  "slug_step r built separator =
    (if slug_rune r
     then ((if separator \<and> built \<noteq> [] then built @ ''-'' else built) @ [char_of r], False)
     else (built, separator \<or> built \<noteq> []))"

fun slug_loop :: "nat list \<Rightarrow> string \<Rightarrow> bool \<Rightarrow> string" where
  "slug_loop [] built separator = built"
| "slug_loop (r # rs) built separator =
    (let (built', separator') = slug_step r built separator
     in if 80 \<le> length built' then built' else slug_loop rs built' separator')"

definition trim_right_dash :: "string \<Rightarrow> string" where
  "trim_right_dash s = rev (dropWhile (\<lambda>c. c = CHR ''-'') (rev s))"

definition Slug :: "string \<Rightarrow> string \<Rightarrow> string" where
  "Slug title fallback =
    (let trimmed = trim_right_dash (dropWhile (\<lambda>c. c = CHR ''-'') (slug_loop (runes (to_lower title)) [] False));
         short = if 80 < length trimmed then trim_right_dash (take 80 trimmed) else trimmed;
         result = if short = [] then fallback else short
     in if \<not> validSlug result then ''record'' else result)"

section \<open>Inventory lookups (inventory.go)\<close>

record inventory =
  in_project :: "document option"
  in_policy :: "document option"
  in_documents :: "document list"
  in_diagnostics :: "(string \<times> string) list"
  in_locations :: "string \<Rightarrow> location option"

definition with_document_id :: "typed_id \<Rightarrow> document list \<Rightarrow> document list" where
  "with_document_id i ds = filter (\<lambda>d. document_id d = Some i) ds"

definition ByID :: "inventory \<Rightarrow> typed_id \<Rightarrow> (research_error, document) result" where
  "ByID v i =
    (case with_document_id i (in_documents v) of
       [] \<Rightarrow> Inl ErrReferenceNotFound
     | [d] \<Rightarrow> Inr d
     | _ \<Rightarrow> Inl ErrAmbiguousReference)"

definition document_text :: "'h host_scheme \<Rightarrow> document \<Rightarrow> string" where
  "document_text h d = (case document_id d of None \<Rightarrow> id_string h zero_id | Some i \<Rightarrow> id_string h i)"

definition OfKind :: "'h host_scheme \<Rightarrow> inventory \<Rightarrow> kind \<Rightarrow> document list" where
  "OfKind h v k =
     stable_sort (\<lambda>a b. document_text h a < document_text h b) (filter (\<lambda>d. document_kind d = k) (in_documents v))"

definition Location :: "inventory \<Rightarrow> document \<Rightarrow> location option" where
  "Location v d = in_locations v (d_path d)"

definition Valid :: "inventory \<Rightarrow> bool" where
  "Valid v \<longleftrightarrow> in_diagnostics v = []"

section \<open>The path of a new record\<close>

definition path_join :: "string list \<Rightarrow> string" where
  "path_join parts =
    (let used = filter (\<lambda>p. p \<noteq> []) parts in if used = [] then [] else path_clean (join_with CHR ''/'' used))"

definition flat_path :: "'h host_scheme \<Rightarrow> string \<Rightarrow> string \<Rightarrow> 'c common_scheme \<Rightarrow> string" where
  "flat_path h dir fallback c =
     path_join [dir, id_string h (c_id c) @ ''-'' @ Slug (c_title c) fallback @ ''.md'']"

definition owner_dir :: "inventory \<Rightarrow> typed_id \<Rightarrow> (location \<Rightarrow> string) \<Rightarrow> string option" where
  "owner_dir v i dir =
    (case ByID v i of
       Inl _ \<Rightarrow> None
     | Inr d \<Rightarrow> (case Location v d of Some l \<Rightarrow> if dir l = [] then None else Some (dir l) | None \<Rightarrow> None))"

definition experiment_code :: "'h host_scheme \<Rightarrow> inventory \<Rightarrow> typed_id \<Rightarrow> string option" where
  "experiment_code h v i =
    (case DisplayCode h i (map (\<lambda>d. \<lparr>rc_id = (case document_id d of None \<Rightarrow> zero_id | Some j \<Rightarrow> j), rc_aliases = []\<rparr>)
        (OfKind h v KindExperiment)) of
       Inl _ \<Rightarrow> None
     | Inr code \<Rightarrow> Some (to_lower (trim_prefix code ''E-'')))"

fun path_of :: "'h host_scheme \<Rightarrow> inventory \<Rightarrow> research_record \<Rightarrow> string option" where
  "path_of h v (RecSource r) = Some (flat_path h SourcesDir ''source'' r)"
| "path_of h v (RecIdea r) = Some (flat_path h ''ideas'' ''idea'' r)"
| "path_of h v (RecResourcePool r) = Some (flat_path h ''resource-pools'' ''pool'' r)"
| "path_of h v (RecQueue r) = Some (flat_path h ''queues'' ''queue'' r)"
| "path_of h v (RecQueueAdvice r) = Some (flat_path h ''queue-advice'' ''advice'' r)"
| "path_of h v (RecBattle r) = Some (flat_path h ''battles'' ''battle'' r)"
| "path_of h v (RecPlan r) = Some (flat_path h ''plans'' ''plan'' r)"
| "path_of h v (RecEvaluationSpec r) = Some (flat_path h ''evaluation-specs'' ''evaluation-spec'' r)"
| "path_of h v (RecEvaluation r) = Some (flat_path h ''evaluations'' ''evaluation'' r)"
| "path_of h v (RecFinding r) = Some (flat_path h ''findings'' ''finding'' r)"
| "path_of h v (RecCandidate r) = Some (flat_path h ''candidates'' ''candidate'' r)"
| "path_of h v (RecRelease r) = Some (flat_path h ''releases'' ''release'' r)"
| "path_of h v (RecPromotionSpec r) = Some (flat_path h ''promotion-specs'' ''promotion-spec'' r)"
| "path_of h v (RecPromotion r) = Some (flat_path h ''promotions'' ''promotion'' r)"
| "path_of h v (RecDecision r) = Some (flat_path h ''decisions'' ''decision'' r)"
| "path_of h v (RecTry r) =
     Some (path_join [''t-'' @ UUIDHex h (c_id r) @ ''-'' @ Slug (c_title r) ''try'', ''TRY.md''])"
| "path_of h v (RecExperiment r) =
     map_option (\<lambda>prefix. path_join [''e-'' @ prefix @ ''-'' @ Slug (c_title r) ''experiment'', ''REPORT.md''])
       (experiment_code h v (c_id r))"
| "path_of h v (RecRun r) =
     map_option (\<lambda>dir. path_join [dir, ''runs'', id_string h (c_id r) @ ''-'' @ Slug (c_title r) ''run'' @ ''.md''])
       (owner_dir v (ru_experiment r) lo_experiment_dir)"
| "path_of h v (RecAttempt r) =
    (if \<not> id_is_zero (at_try r) then
       (if \<not> id_is_zero (at_run r) then None
        else map_option (\<lambda>dir. path_join [dir, ''attempts'', id_string h (c_id r) @ ''.md''])
          (owner_dir v (at_try r) lo_try_dir))
     else if id_is_zero (at_run r) then None
     else map_option (\<lambda>dir. path_join [dir, ''attempts'', id_string h (c_id r) @ ''.md''])
       (owner_dir v (at_run r) lo_experiment_dir))"
| "path_of h v (RecProject r) = Some ProjectFile"
| "path_of h v (RecPolicy r) = Some PolicyFile"

definition PathForNew :: "'h host_scheme \<Rightarrow> inventory \<Rightarrow> research_record option \<Rightarrow> string option" where
  "PathForNew h v value =
    (case value of
       None \<Rightarrow> None
     | Some r \<Rightarrow>
         if GetKind r \<notin> {KindProject, KindPolicy} \<and> GetID r = None then None else path_of h v r)"

end
