(* ===== verification/Exp_Update.thy ===== *)
theory Exp_Update
  imports Exp_Layout Exp_Checks
begin

text \<open>
  The rules for replacing a published record (\<^verbatim>\<open>internal/record/store.go\<close>,
  \<^verbatim>\<open>exploration_update.go\<close>, and \<open>validateTransactionReplacement\<close> and
  \<open>immutableTransactionDelete\<close> of \<^verbatim>\<open>transaction.go\<close>).

  A refusal is the text of its error, without the values formatted into it. \<open>reflect.DeepEqual\<close> on
  records is structural, with tables compared as maps; nil and empty slices, which normalisation
  makes equal in every stored record, are one list. What \<open>encoding/json\<close> makes of a number and of
  the local dates and times of TOML, and \<open>time.Parse\<close>, come from the record \<open>update_host\<close>.
\<close>

section \<open>Deep equality of dynamic values\<close>

fun same_value :: "open_value \<Rightarrow> open_value \<Rightarrow> bool" where
  "same_value (OvList xs) w = (case w of OvList ys \<Rightarrow> list_all2 same_value xs ys | _ \<Rightarrow> False)"
| "same_value (OvTable a) w = (case w of
     OvTable b \<Rightarrow> list_all (\<lambda>(k, v). case map_of b k of None \<Rightarrow> False | Some u \<Rightarrow> same_value v u) a \<and>
       set (map fst b) \<subseteq> set (map fst a)
   | _ \<Rightarrow> False)"
| "same_value (OvFloat x) w = (case w of OvFloat y \<Rightarrow> f_eq x y | _ \<Rightarrow> False)"
| "same_value v w \<longleftrightarrow> v = w"

definition same_map :: "('a \<Rightarrow> 'a \<Rightarrow> bool) \<Rightarrow> (string \<times> 'a) list \<Rightarrow> (string \<times> 'a) list \<Rightarrow> bool" where
  "same_map same a b \<longleftrightarrow>
     list_all (\<lambda>(k, v). case map_of b k of None \<Rightarrow> False | Some w \<Rightarrow> same v w) a \<and> set (map fst b) \<subseteq> set (map fst a)"

type_synonym table = "(string \<times> open_value) list option"

definition same_table :: "table \<Rightarrow> table \<Rightarrow> bool" where
  "same_table a b = (case (a, b) of
     (None, None) \<Rightarrow> True | (Some x, Some y) \<Rightarrow> same_map same_value x y | _ \<Rightarrow> False)"

definition same_extensions :: "extensions \<Rightarrow> extensions \<Rightarrow> bool" where
  "same_extensions a b \<longleftrightarrow> same_map same_table a b"

definition plain_ref :: "external_ref \<Rightarrow> external_ref" where
  "plain_ref r = r\<lparr>er_metadata := []\<rparr>"

definition same_ref :: "external_ref \<Rightarrow> external_ref \<Rightarrow> bool" where
  "same_ref a b \<longleftrightarrow> plain_ref a = plain_ref b \<and> same_map same_value (er_metadata a) (er_metadata b)"

section \<open>Deep equality of records\<close>

fun refs_of :: "research_record \<Rightarrow> external_ref list" where
  "refs_of (RecTry r) = (case ty_conclusion r of None \<Rightarrow> [] | Some c \<Rightarrow> tc_refs c)"
| "refs_of (RecAttempt r) = at_refs r"
| "refs_of (RecEvaluation r) = el_refs r"
| "refs_of (RecCandidate r) = ca_refs r"
| "refs_of _ = []"

fun without_metadata :: "research_record \<Rightarrow> research_record" where
  "without_metadata (RecTry r) =
     RecTry (r\<lparr>ty_conclusion := map_option (\<lambda>c. c\<lparr>tc_refs := map plain_ref (tc_refs c)\<rparr>) (ty_conclusion r)\<rparr>)"
| "without_metadata (RecAttempt r) = RecAttempt (r\<lparr>at_refs := map plain_ref (at_refs r)\<rparr>)"
| "without_metadata (RecEvaluation r) = RecEvaluation (r\<lparr>el_refs := map plain_ref (el_refs r)\<rparr>)"
| "without_metadata (RecCandidate r) = RecCandidate (r\<lparr>ca_refs := map plain_ref (ca_refs r)\<rparr>)"
| "without_metadata r = r"

definition bare :: "research_record \<Rightarrow> research_record" where
  "bare r = without_metadata (with_extensions [] r)"

definition deep_equal :: "research_record \<Rightarrow> research_record \<Rightarrow> bool" where
  "deep_equal r s \<longleftrightarrow>
     bare r = bare s \<and> same_extensions (GetExtensions r) (GetExtensions s) \<and> list_all2 same_ref (refs_of r) (refs_of s)"

section \<open>JSON values (exploration_update.go)\<close>

datatype 'n json = JNull | JBool bool | JNumber 'n | JString string | JArray "'n json list"
  | JObject "(string \<times> 'n json) list"

record update_host = check_host +
  uh_float :: "go_float \<Rightarrow> string option"
  uh_leaf :: "open_value \<Rightarrow> string json option"
  uh_number :: "string \<Rightarrow> go_float"
  uh_time :: "string \<Rightarrow> go_time option"

definition int_text :: "int \<Rightarrow> string" where
  "int_text n = (if n < 0 then CHR ''-'' # itoa (nat (- n)) else itoa (nat n))"

text \<open>\<open>json.Marshal\<close>: the value of the text it writes; object keys are sorted.\<close>

fun all_some :: "'a option list \<Rightarrow> 'a list option" where
  "all_some [] = Some []"
| "all_some (None # xs) = None"
| "all_some (Some x # xs) = map_option ((#) x) (all_some xs)"

definition by_key :: "(string \<times> 'a) \<Rightarrow> (string \<times> 'a) \<Rightarrow> bool" where
  "by_key a b \<longleftrightarrow> fst a < fst b"

fun marshal :: "'h update_host_scheme \<Rightarrow> open_value \<Rightarrow> string json option" where
  "marshal h OvNull = Some JNull"
| "marshal h (OvBool b) = Some (JBool b)"
| "marshal h (OvInt n) = Some (JNumber (int_text n))"
| "marshal h (OvUint n) = Some (JNumber (itoa n))"
| "marshal h (OvString s) = Some (JString s)"
| "marshal h (OvFloat x) = map_option JNumber (uh_float h x)"
| "marshal h (OvList xs) = map_option JArray (all_some (map (marshal h) xs))"
| "marshal h (OvTable kvs) =
     map_option (\<lambda>fs. JObject (stable_sort by_key fs)) (all_some (map (\<lambda>(k, v). map_option (Pair k) (marshal h v)) kvs))"
| "marshal h v = uh_leaf h v"

definition marshal_table :: "'h update_host_scheme \<Rightarrow> table \<Rightarrow> string json option" where
  "marshal_table h t = (case t of None \<Rightarrow> Some JNull | Some kvs \<Rightarrow> marshal h (OvTable kvs))"

definition same_json :: "string json option \<Rightarrow> string json option \<Rightarrow> bool" where
  "same_json a b \<longleftrightarrow> a \<noteq> None \<and> a = b"

definition sameExplorationValue :: "'h update_host_scheme \<Rightarrow> open_value \<Rightarrow> open_value \<Rightarrow> bool" where
  "sameExplorationValue h a b = same_json (marshal h a) (marshal h b)"

definition sameExplorationTable :: "'h update_host_scheme \<Rightarrow> table \<Rightarrow> table \<Rightarrow> bool" where
  "sameExplorationTable h a b = same_json (marshal_table h a) (marshal_table h b)"

text \<open>Indexing a table that may be nil, and the type assertion to a string.\<close>

definition entry :: "table \<Rightarrow> string \<Rightarrow> open_value" where
  "entry t k = (case t of None \<Rightarrow> OvNull | Some kvs \<Rightarrow> (case map_of kvs k of None \<Rightarrow> OvNull | Some v \<Rightarrow> v))"

definition has_entry :: "table \<Rightarrow> string \<Rightarrow> bool" where
  "has_entry t k = (case t of None \<Rightarrow> False | Some kvs \<Rightarrow> map_of kvs k \<noteq> None)"

definition keys_of :: "table \<Rightarrow> string list" where
  "keys_of t = (case t of None \<Rightarrow> [] | Some kvs \<Rightarrow> map fst kvs)"

definition text_of :: "open_value \<Rightarrow> string" where
  "text_of v = (case v of OvString s \<Rightarrow> s | _ \<Rightarrow> [])"

definition namespace :: "extensions \<Rightarrow> string \<Rightarrow> table" where
  "namespace e ns = (case map_of e ns of None \<Rightarrow> None | Some t \<Rightarrow> t)"

definition explorationNamespace :: string where
  "explorationNamespace = ''io.github.daviddwlee84.exp-cli.exploration''"

section \<open>Refusals\<close>

definition refuse :: "bool \<Rightarrow> string \<Rightarrow> string option \<Rightarrow> string option" where
  "refuse b message rest = (if b then Some message else rest)"

lemma refuse_None [simp]: "refuse b m rest = None \<longleftrightarrow> \<not> b \<and> rest = None"
  by (simp add: refuse_def)

definition then_check :: "string option \<Rightarrow> string option \<Rightarrow> string option" where
  "then_check first rest = (case first of None \<Rightarrow> rest | Some m \<Rightarrow> Some m)"

lemma then_check_None [simp]: "then_check a b = None \<longleftrightarrow> a = None \<and> b = None"
  by (simp add: then_check_def split: option.split)

section \<open>Exploration annotations\<close>

definition summary_fields :: "string list" where
  "summary_fields = [''summary'', ''summary_author'', ''summary_at'', ''reviewed'', ''conclusion_author'',
     ''conclusion_reviewed'', ''schema'']"

definition MaxTryConclusionSummaryBytes :: nat where
  "MaxTryConclusionSummaryBytes = 32 * 1024"

definition summary_ok :: "table \<Rightarrow> bool" where
  "summary_ok after \<longleftrightarrow>
     (case entry after ''summary'' of
        OvString text \<Rightarrow>
          text \<noteq> [] \<and> length text \<le> MaxTryConclusionSummaryBytes \<and>
          text_of (entry after ''summary_author'') \<in> {''agent'', ''human''} \<and>
          entry after ''reviewed'' = OvBool (text_of (entry after ''summary_author'') = ''human'')
      | _ \<Rightarrow> False)"

definition summary_time :: "'h update_host_scheme \<Rightarrow> try_record \<Rightarrow> table \<Rightarrow> table \<Rightarrow> string option" where
  "summary_time h current before after =
    (case uh_time h (text_of (entry after ''summary_at'')) of
       None \<Rightarrow> Some ''invalid exploration summary timestamp''
     | Some parsed \<Rightarrow>
         refuse (time_before parsed (c_created current)) ''invalid exploration summary timestamp''
          (let previous = text_of (entry before ''summary_at'') in
           if previous = [] then None
           else case uh_time h previous of
             None \<Rightarrow> Some ''summary timestamp cannot move backwards''
           | Some old \<Rightarrow> refuse (time_before parsed old) ''summary timestamp cannot move backwards'' None))"

definition attribution :: "'h update_host_scheme \<Rightarrow> try_record \<Rightarrow> try_record \<Rightarrow> table \<Rightarrow> table \<Rightarrow> string option" where
  "attribution h current replacement before after =
    (if entry before ''conclusion_author'' \<noteq> OvNull then
       refuse (\<not> sameExplorationValue h (entry before ''conclusion_author'') (entry after ''conclusion_author'') \<or>
           \<not> sameExplorationValue h (entry before ''conclusion_reviewed'') (entry after ''conclusion_reviewed''))
         ''conclusion attribution is immutable'' None
     else if entry after ''conclusion_author'' \<noteq> OvNull then
       refuse (ty_state current \<noteq> TryOpen \<or> ty_state replacement \<noteq> TryConcluded \<or>
           entry after ''conclusion_author'' \<noteq> OvString ''agent'' \<or> entry after ''conclusion_reviewed'' \<noteq> OvBool False)
         ''agent attribution can only accompany an unreviewed Try conclusion'' None
     else None)"

definition validateExplorationTryUpdate :: "'h update_host_scheme \<Rightarrow> try_record \<Rightarrow> try_record \<Rightarrow> string option" where
  "validateExplorationTryUpdate h current replacement =
    (let before = namespace (ty_extensions current) explorationNamespace;
         after = namespace (ty_extensions replacement) explorationNamespace in
     if sameExplorationTable h before after then None
     else
       refuse (ty_state current \<in> {TryAbandoned, TryAdopted}) ''archived/adopted Try annotations are immutable''
      (refuse (after = None \<or> entry after ''schema'' \<noteq> OvString ''exp.exploration-session/v1'')
         ''Try exploration annotations require a versioned session schema''
      (refuse (list_ex (\<lambda>k. k \<notin> set summary_fields \<and> \<not> sameExplorationValue h (entry before k) (entry after k)) (keys_of before))
         ''Try exploration registration is immutable''
      (refuse (list_ex (\<lambda>k. k \<notin> set summary_fields \<and> \<not> has_entry before k) (keys_of after))
         ''cannot add exploration registration fields after Try creation''
      (then_check
        (if has_entry after ''summary''
         then refuse (\<not> summary_ok after) ''invalid attributed exploration summary'' (summary_time h current before after)
         else None)
        (attribution h current replacement before after))))))"

text \<open>\<open>json.Unmarshal\<close> into a list of objects: null is the empty list, a null element the nil object.\<close>

definition unmarshal_files :: "'h update_host_scheme \<Rightarrow> string json option \<Rightarrow> (string \<times> go_float json) list list option" where
  "unmarshal_files h j =
    (case map_option (map_json (uh_number h)) j of
       Some JNull \<Rightarrow> Some []
     | Some (JArray xs) \<Rightarrow> all_some (map (\<lambda>x. case x of JObject fs \<Rightarrow> Some fs | JNull \<Rightarrow> Some [] | _ \<Rightarrow> None) xs)
     | _ \<Rightarrow> None)"

definition member_of :: "(string \<times> 'n json) list \<Rightarrow> string \<Rightarrow> 'n json" where
  "member_of fs k = (case map_of fs k of None \<Rightarrow> JNull | Some v \<Rightarrow> v)"

definition file_changed :: "(string \<times> go_float json) list \<times> (string \<times> go_float json) list \<Rightarrow> string option" where
  "file_changed p =
    (case p of (old, new) \<Rightarrow>
      refuse (list_ex (\<lambda>k. member_of old k \<noteq> member_of new k) [''name'', ''media_type'', ''bytes'', ''digest'', ''storage''])
        ''published artifact content identity is immutable''
     (refuse (member_of old ''run_id'' \<noteq> JNull \<and> member_of old ''run_id'' \<noteq> member_of new ''run_id'')
        ''published MLflow run identity is immutable'' None))"

fun first_refusal :: "('a \<Rightarrow> string option) \<Rightarrow> 'a list \<Rightarrow> string option" where
  "first_refusal f [] = None"
| "first_refusal f (x # xs) = then_check (f x) (first_refusal f xs)"

definition artifact_update :: "'h update_host_scheme \<Rightarrow> table \<Rightarrow> table \<Rightarrow> string option" where
  "artifact_update h before after =
    (case (unmarshal_files h (marshal h (entry before ''artifacts'')), unmarshal_files h (marshal h (entry after ''artifacts''))) of
       (Some old, Some new) \<Rightarrow>
         refuse (old \<noteq> [] \<and> length old \<noteq> length new) ''published artifact list is immutable''
           (first_refusal file_changed (zip old new))
     | _ \<Rightarrow> Some ''invalid artifact manifest'')"

definition terminalAttemptState :: "attempt_state \<Rightarrow> bool" where
  "terminalAttemptState state \<longleftrightarrow>
     state \<in> {AttemptSucceeded, AttemptFailed, AttemptCancelled, AttemptTimedOut, AttemptPreempted, AttemptOutOfMemory}"

definition validateExplorationAttemptUpdate :: "'h update_host_scheme \<Rightarrow> attempt \<Rightarrow> attempt \<Rightarrow> string option" where
  "validateExplorationAttemptUpdate h current replacement =
    (let before = namespace (at_extensions current) explorationNamespace;
         after = namespace (at_extensions replacement) explorationNamespace;
         same = (\<lambda>k. sameExplorationValue h (entry before k) (entry after k)) in
     if sameExplorationTable h before after then None
     else
       refuse (before = None \<or> after = None) ''exploration execution registration cannot be added or removed''
      (refuse (\<not> list_all same [''schema_version'', ''storage'', ''context_digest'', ''inputs''])
         ''exploration input and storage identities are immutable''
      (then_check
        (if entry before ''runner'' \<noteq> OvNull then refuse (\<not> same ''runner'') ''captured runner identity is immutable'' None
         else refuse (entry after ''runner'' \<noteq> OvNull \<and> at_state current \<noteq> AttemptPlanned)
           ''runner identity must be captured before dispatch'' None)
        (if same ''artifacts'' \<and> same ''archive_state'' then None
         else
           refuse (\<not> terminalAttemptState (at_state current)) ''artifacts may only be published after execution is terminal''
          (refuse (entry before ''archive_state'' = OvString ''saved'' \<and> entry after ''archive_state'' \<noteq> OvString ''saved'')
             ''saved artifacts cannot return to pending''
             (artifact_update h before after))))))"

section \<open>Sources, Tries and Ideas\<close>

definition validateSourceUpdate :: "source_record \<Rightarrow> source_record \<Rightarrow> string \<Rightarrow> string \<Rightarrow> string option" where
  "validateSourceUpdate current replacement currentBody replacementBody =
    (let hints = slice (so_locators current); hints' = slice (so_locators replacement);
         appended = length hints' > length hints;
         retired = (so_state current \<noteq> so_state replacement \<and> so_state current = SourceActive \<and> so_state replacement = SourceRetired) in
     refuse (so_key current \<noteq> so_key replacement) ''Source key is immutable''
    (refuse (so_kind current \<noteq> so_kind replacement) ''Source kind is immutable''
    (refuse (so_subdir current \<noteq> so_subdir replacement) ''Source subdir is immutable''
    (refuse (common.truncate current\<lparr>c_updated := zero_time\<rparr> \<noteq> common.truncate replacement\<lparr>c_updated := zero_time\<rparr>)
       ''Source title, tags, aliases, and registration fields are immutable''
    (refuse (currentBody \<noteq> replacementBody) ''Source body is immutable''
    (refuse (\<not> same_extensions (so_extensions current) (so_extensions replacement)) ''Source extensions are immutable''
    (refuse (length hints' < length hints) ''Source locator hints are append-only''
    (refuse (take (length hints) hints' \<noteq> hints) ''Source locator hint is immutable''
    (then_check
      (if so_state current = so_state replacement
       then refuse (so_retired current \<noteq> so_retired replacement) ''Source retired_at is immutable once recorded'' None
       else if so_state current = SourceActive \<and> so_state replacement = SourceRetired
       then refuse (so_retired current \<noteq> None \<or>
              (case so_retired replacement of None \<Rightarrow> True
               | Some t \<Rightarrow> \<not> time_equal t (c_updated replacement) \<or> time_before t (c_updated current)))
            ''retiring a Source requires retired_at equal to the replacement updated_at'' None
       else Some ''Source state cannot transition'')
     (refuse (appended \<and> retired) ''Source locator append and retirement must be separate exact-revision updates''
     (refuse (\<not> appended \<and> \<not> retired \<and> \<not> deep_equal (RecSource current) (RecSource replacement))
        ''Source updates may only append locator hints or retire an active Source'' None)))))))))))"

text \<open>The current Try with the replacement's exploration table.\<close>

fun set_namespace :: "string \<Rightarrow> table \<Rightarrow> extensions \<Rightarrow> extensions" where
  "set_namespace ns t [] = [(ns, t)]"
| "set_namespace ns t ((k, u) # e) = (if k = ns then (k, t) # e else (k, u) # set_namespace ns t e)"

definition annotated :: "try_record \<Rightarrow> try_record \<Rightarrow> try_record" where
  "annotated current replacement =
    (case map_of (ty_extensions replacement) explorationNamespace of
       None \<Rightarrow> current
     | Some t \<Rightarrow> current\<lparr>ty_extensions := set_namespace explorationNamespace t (ty_extensions current)\<rparr>)"

definition try_transition :: "try_record \<Rightarrow> try_record \<Rightarrow> string option" where
  "try_transition current replacement =
    (case ty_state current of
       TryOpen \<Rightarrow>
         refuse (ty_state replacement \<notin> {TryConcluded, TryAbandoned}) ''Try state cannot transition''
        (refuse (ty_conclusion current \<noteq> None \<or> ty_abandonment current \<noteq> None \<or> \<not> id_is_zero (ty_adopted current))
           ''open Try already contains terminal lifecycle data'' None)
     | TryConcluded \<Rightarrow>
         refuse (ty_state replacement \<noteq> TryAdopted) ''Try state cannot transition''
        (refuse (map_option (\<lambda>c. c\<lparr>tc_refs := map plain_ref (tc_refs c)\<rparr>) (ty_conclusion current) \<noteq>
             map_option (\<lambda>c. c\<lparr>tc_refs := map plain_ref (tc_refs c)\<rparr>) (ty_conclusion replacement) \<or>
             \<not> list_all2 same_ref (refs_of (RecTry current)) (refs_of (RecTry replacement)))
           ''Try conclusion is immutable during adoption''
        (refuse (ty_abandonment current \<noteq> None \<or> \<not> id_is_zero (ty_adopted current))
           ''concluded Try already contains incompatible lifecycle data'' None))
     | TryStateOther _ \<Rightarrow> Some ''Try state cannot transition''
     | _ \<Rightarrow> Some ''Try records are immutable'')"

definition validateTryUpdate :: "'h update_host_scheme \<Rightarrow> try_record \<Rightarrow> try_record \<Rightarrow> string \<Rightarrow> string \<Rightarrow> string option" where
  "validateTryUpdate h current0 replacement currentBody replacementBody =
    then_check (validateExplorationTryUpdate h current0 replacement)
    (let current = annotated current0 replacement in
     refuse (c_title current \<noteq> c_title replacement \<or> c_aliases current \<noteq> c_aliases replacement \<or>
         c_tags current \<noteq> c_tags replacement \<or> ty_goal current \<noteq> ty_goal replacement \<or>
         ty_sources current \<noteq> ty_sources replacement \<or> currentBody \<noteq> replacementBody \<or>
         \<not> same_extensions (ty_extensions current) (ty_extensions replacement))
       ''Try registration, goal, Sources, body, and extensions are immutable''
    (if ty_state current = ty_state replacement
     then refuse (\<not> deep_equal (RecTry current) (RecTry replacement)) ''Try records may change only through a lifecycle transition'' None
     else refuse (\<not> time_after (c_updated replacement) (c_updated current))
            ''Try lifecycle transitions require a strictly later updated_at''
            (try_transition current replacement)))"

definition idea_transition :: "idea_state \<Rightarrow> idea_state \<Rightarrow> bool" where
  "idea_transition s t \<longleftrightarrow> s = t \<or>
    (case s of
       IdeaProposed \<Rightarrow> t \<in> {IdeaDeveloping, IdeaQualified, IdeaDismissed, IdeaMerged}
     | IdeaDeveloping \<Rightarrow> t \<in> {IdeaProposed, IdeaQualified, IdeaDismissed, IdeaMerged}
     | IdeaQualified \<Rightarrow> t \<in> {IdeaQueued, IdeaDismissed}
     | IdeaQueued \<Rightarrow> t \<in> {IdeaQualified, IdeaDismissed}
     | _ \<Rightarrow> False)"

definition validateIdeaUpdate :: "idea \<Rightarrow> idea \<Rightarrow> string option" where
  "validateIdeaUpdate current replacement =
     refuse (ia_origin current \<noteq> ia_origin replacement) ''Idea origin_try is immutable''
    (refuse (\<not> id_is_zero (ia_plan current) \<and> ia_plan current \<noteq> ia_plan replacement) ''Idea resulting_plan is immutable once set''
    (refuse (\<not> id_is_zero (ia_merged current) \<and> ia_merged current \<noteq> ia_merged replacement) ''Idea merged_into is immutable once set''
    (if ia_state current \<in> {IdeaDismissed, IdeaMerged}
     then refuse (\<not> deep_equal (RecIdea current) (RecIdea replacement)) ''dismissed and merged Ideas are immutable'' None
     else refuse (\<not> idea_transition (ia_state current) (ia_state replacement)) ''Idea state cannot transition''
      (refuse (ia_state current \<in> {IdeaQualified, IdeaQueued} \<and>
          \<not> deep_equal (RecIdea (current\<lparr>ia_state := IdeaStateOther [], c_updated := zero_time\<rparr>))
              (RecIdea (replacement\<lparr>ia_state := IdeaStateOther [], c_updated := zero_time\<rparr>)))
         ''qualified Idea proposal and lineage fields are immutable'' None))))"

section \<open>Plans\<close>

definition plan_transition :: "plan_state \<Rightarrow> plan_state \<Rightarrow> bool" where
  "plan_transition s t \<longleftrightarrow>
     s = t \<or> s = PlanQueued \<and> t \<in> {PlanStarted, PlanDropped} \<or> s = PlanStarted \<and> t \<in> {PlanCompleted, PlanDropped}"

text \<open>A Plan without its state and time of update, and without its result too.\<close>

definition preregistered :: "plan \<Rightarrow> plan" where
  "preregistered p = p\<lparr>pl_state := PlanStateOther [], c_updated := zero_time\<rparr>"

definition preregistered_unbound :: "plan \<Rightarrow> plan" where
  "preregistered_unbound p = (preregistered p)\<lparr>pl_result := zero_id\<rparr>"

definition validatePlanUpdate :: "plan \<Rightarrow> plan \<Rightarrow> string option" where
  "validatePlanUpdate current replacement =
     refuse (\<not> id_is_zero (pl_result current) \<and> pl_result current \<noteq> pl_result replacement)
       ''Plan resulting_experiment is immutable once set''
    (refuse (\<not> plan_transition (pl_state current) (pl_state replacement)) ''Plan state cannot transition''
    (refuse (pl_state current = PlanStarted \<and>
        \<not> deep_equal (RecPlan (preregistered current)) (RecPlan (preregistered replacement)))
       ''started Plan preregistration fields are immutable''
    (refuse (pl_state current = PlanQueued \<and> pl_state replacement \<noteq> PlanQueued \<and>
        \<not> deep_equal (RecPlan (preregistered_unbound current)) (RecPlan (preregistered_unbound replacement)))
       ''starting or dropping a Plan cannot rewrite its preregistration fields'' None)))"

section \<open>Attempts\<close>

definition terminal_source :: "attempt \<Rightarrow> string option" where
  "terminal_source a = map_option tm_source (at_terminal a)"

definition terminal_refinement :: "attempt \<Rightarrow> attempt \<Rightarrow> bool" where
  "terminal_refinement current replacement \<longleftrightarrow>
     terminal_source current = Some ''pueue'' \<and> terminal_source replacement = Some ''direct'' \<and>
     terminalAttemptState (at_state current) \<and> terminalAttemptState (at_state replacement)"

definition allowedAttemptTransition :: "attempt_state \<Rightarrow> attempt_state \<Rightarrow> bool" where
  "allowedAttemptTransition current replacement \<longleftrightarrow>
     current = replacement \<or>
     \<not> terminalAttemptState current \<and>
     (case current of
        AttemptPlanned \<Rightarrow>
          replacement \<in> {AttemptQueued, AttemptBlocked, AttemptStarting, AttemptRunning, AttemptUnknown} \<or> terminalAttemptState replacement
      | AttemptQueued \<Rightarrow>
          replacement \<in> {AttemptBlocked, AttemptStarting, AttemptRunning, AttemptUnknown} \<or> terminalAttemptState replacement
      | AttemptBlocked \<Rightarrow> replacement \<in> {AttemptPlanned, AttemptQueued, AttemptUnknown, AttemptCancelled}
      | AttemptStarting \<Rightarrow> replacement \<in> {AttemptRunning, AttemptUnknown} \<or> terminalAttemptState replacement
      | AttemptRunning \<Rightarrow>
          replacement \<in> {AttemptQueued, AttemptBlocked, AttemptStarting, AttemptRunning, AttemptUnknown} \<or> terminalAttemptState replacement
      | AttemptUnknown \<Rightarrow>
          replacement \<in> {AttemptQueued, AttemptBlocked, AttemptStarting, AttemptRunning, AttemptUnknown} \<or> terminalAttemptState replacement
      | _ \<Rightarrow> False)"

text \<open>What an Attempt keeps for life: everything but its observations, its times and its schema fields.\<close>

definition registration :: "attempt \<Rightarrow> attempt" where
  "registration a = a\<lparr>c_schema := SchemaAttempt, c_id := zero_id, c_created := zero_time, c_updated := zero_time,
     at_state := AttemptUnknown, at_reason := [], at_refs := [], at_terminal := None, at_extensions := []\<rparr>"

definition extension_kept :: "extensions \<Rightarrow> string \<times> table \<Rightarrow> string option" where
  "extension_kept replacement p =
    (case p of (ns, t) \<Rightarrow>
      if ns = explorationNamespace then None
      else case map_of replacement ns of
        None \<Rightarrow> Some ''Attempt extension namespace is append-only''
      | Some t' \<Rightarrow>
          refuse (list_ex (\<lambda>(k, v). \<not> same_value v (entry t' k)) (slice t)) ''Attempt extension is immutable once recorded'' None)"

definition validateAttemptUpdate :: "'h update_host_scheme \<Rightarrow> attempt \<Rightarrow> attempt \<Rightarrow> string option" where
  "validateAttemptUpdate h current replacement =
    then_check (validateExplorationAttemptUpdate h current replacement)
   (refuse (registration current \<noteq> registration replacement)
      ''Attempt registration, execution, and Git identity fields are immutable''
   (refuse (terminalAttemptState (at_state current) \<and> \<not> terminal_refinement current replacement \<and>
        at_reason current \<noteq> at_reason replacement) ''terminal Attempt state_reason is immutable''
   (refuse (length (at_refs replacement) < length (at_refs current)) ''Attempt external_refs are append-only''
   (refuse (\<not> list_all2 same_ref (at_refs current) (take (length (at_refs current)) (at_refs replacement)))
      ''Attempt external_ref is immutable''
   (then_check (first_refusal (extension_kept (at_extensions replacement)) (at_extensions current))
   (refuse (\<not> allowedAttemptTransition (at_state current) (at_state replacement) \<and> \<not> terminal_refinement current replacement)
      ''Attempt state cannot transition''
   (refuse (at_terminal current \<noteq> None \<and> at_terminal current \<noteq> at_terminal replacement \<and>
        \<not> terminal_refinement current replacement) ''Attempt terminal observation is immutable once recorded'' None)))))))"

section \<open>Experiments\<close>

text \<open>The digest after a run of appended amendments, None when one does not continue.\<close>

fun amendment_chain :: "string \<Rightarrow> amendment list \<Rightarrow> string option" where
  "amendment_chain previous [] = Some previous"
| "amendment_chain previous (a # as) = (if am_previous a \<noteq> previous then None else amendment_chain (am_new a) as)"

definition design_update :: "'h update_host_scheme \<Rightarrow> experiment_record \<Rightarrow> experiment_record \<Rightarrow> string option" where
  "design_update h current replacement =
    (case de_locked (ex_design current) of
       None \<Rightarrow> None
     | Some lock \<Rightarrow>
         refuse (case de_locked (ex_design replacement) of None \<Rightarrow> True | Some t \<Rightarrow> \<not> time_equal t lock)
           ''Experiment design_locked_at is immutable once set''
         (case (ch_design h (ex_design current), ch_design h (ex_design replacement)) of
            (None, _) \<Rightarrow> Some ''compute current Experiment design digest''
          | (_, None) \<Rightarrow> Some ''compute replacement Experiment design digest''
          | (Some digest, Some digest') \<Rightarrow>
              (let appended = drop (length (ex_amendments current)) (ex_amendments replacement) in
               refuse (digest \<noteq> digest' \<and> appended = []) ''a locked Experiment design change requires an appended amendment''
               (case amendment_chain (de_digest (ex_design current)) appended of
                  None \<Rightarrow> Some ''appended Experiment amendment does not continue current digest''
                | Some previous \<Rightarrow>
                    refuse (appended \<noteq> [] \<and> previous \<noteq> de_digest (ex_design replacement))
                      ''appended Experiment amendments do not end at the replacement design digest'' None))))"

definition validateExperimentUpdate :: "'h update_host_scheme \<Rightarrow> experiment_record \<Rightarrow> experiment_record \<Rightarrow> string option" where
  "validateExperimentUpdate h current replacement =
     refuse (c_title current \<noteq> c_title replacement \<or> c_aliases current \<noteq> c_aliases replacement \<or>
         c_tags current \<noteq> c_tags replacement \<or> ex_parents current \<noteq> ex_parents replacement \<or>
         ex_inputs current \<noteq> ex_inputs replacement) ''Experiment registration and lineage fields are immutable''
    (if ex_lifecycle current = LifecycleClosed
     then refuse (\<not> deep_equal (RecExperiment current) (RecExperiment replacement)) ''closed Experiment records are immutable'' None
     else
       refuse (ex_lifecycle current = LifecycleActive \<and> ex_lifecycle replacement = LifecyclePlanned)
         ''Experiment lifecycle cannot move from active back to planned''
      (refuse (length (ex_amendments replacement) < length (ex_amendments current)) ''Experiment amendments are append-only''
      (refuse (take (length (ex_amendments current)) (ex_amendments replacement) \<noteq> ex_amendments current)
         ''Experiment amendment is immutable''
         (design_update h current replacement))))"

section \<open>Any record\<close>

definition immutable_kinds :: "kind list" where
  "immutable_kinds = [KindQueueAdvice, KindBattle, KindEvaluation, KindCandidate, KindPromotionSpec, KindPromotion,
     KindFinding, KindDecision, KindEvaluationSpec, KindRun, KindRelease]"

fun immutable_record :: "research_record \<Rightarrow> bool" where
  "immutable_record (RecPlan p) \<longleftrightarrow> pl_state p \<in> {PlanCompleted, PlanDropped}"
| "immutable_record r \<longleftrightarrow> GetKind r \<in> set immutable_kinds"

fun kind_update :: "'h update_host_scheme \<Rightarrow> research_record \<Rightarrow> research_record \<Rightarrow> string \<Rightarrow> string \<Rightarrow> string option" where
  "kind_update h (RecExperiment e) s b b' =
     (case s of RecExperiment e' \<Rightarrow> validateExperimentUpdate h e e' | _ \<Rightarrow> Some ''Experiment replacement has the wrong record type'')"
| "kind_update h (RecPlan p) s b b' =
     (case s of RecPlan p' \<Rightarrow> validatePlanUpdate p p' | _ \<Rightarrow> Some ''Plan replacement has the wrong record type'')"
| "kind_update h (RecTry t) s b b' =
     (case s of RecTry t' \<Rightarrow> validateTryUpdate h t t' b b' | _ \<Rightarrow> Some ''Try replacement has the wrong record type'')"
| "kind_update h (RecIdea i) s b b' =
     (case s of RecIdea i' \<Rightarrow> validateIdeaUpdate i i' | _ \<Rightarrow> Some ''Idea replacement has the wrong record type'')"
| "kind_update h (RecAttempt a) s b b' =
     (case s of RecAttempt a' \<Rightarrow>
        refuse (terminalAttemptState (at_state a) \<and> b \<noteq> b') ''terminal Attempt body is immutable'' (validateAttemptUpdate h a a')
      | _ \<Rightarrow> Some ''Attempt replacement has the wrong record type'')"
| "kind_update h (RecSource r) s b b' =
     (case s of RecSource r' \<Rightarrow> validateSourceUpdate r r' b b' | _ \<Rightarrow> Some ''Source replacement has the wrong record type'')"
| "kind_update h r s b b' = None"

definition validateImmutableUpdate :: "'h update_host_scheme \<Rightarrow> document \<Rightarrow> document \<Rightarrow> string option" where
  "validateImmutableUpdate h current replacement =
    (case (d_record current, d_record replacement) of
       (Some r, Some s) \<Rightarrow>
         refuse (GetID r = None \<or> GetID s = None \<or> GetID r \<noteq> GetID s) ''record ID is immutable''
        (refuse (GetKind r \<noteq> GetKind s \<or> GetSchema r \<noteq> GetSchema s) ''record kind and schema are immutable''
        (case (GetCommon r, GetCommon s) of
           (Some c, Some c') \<Rightarrow>
             refuse (\<not> time_equal (c_created c) (c_created c')) ''created_at is immutable''
            (refuse (time_before (c_updated c') (c_updated c)) ''updated_at cannot move backwards''
            (refuse (immutable_record r \<and> (\<not> deep_equal r s \<or> d_body current \<noteq> d_body replacement))
               ''records are immutable once published in this state''
               (kind_update h r s (d_body current) (d_body replacement))))
         | _ \<Rightarrow> Some ''created_at is immutable''))
     | _ \<Rightarrow> Some ''record ID is immutable'')"

text \<open>\<open>validateTransactionReplacement\<close> and \<open>immutableTransactionDelete\<close>.\<close>

definition validateTransactionReplacement :: "'h update_host_scheme \<Rightarrow> document \<Rightarrow> document \<Rightarrow> string option" where
  "validateTransactionReplacement h current replacement =
    (case d_record current of
       Some (RecPolicy p) \<Rightarrow>
         (case d_record replacement of
            Some (RecPolicy q) \<Rightarrow>
              refuse (po_schema p \<noteq> po_schema q) ''Policy schema is immutable''
             (refuse (\<not> time_equal (po_created p) (po_created q)) ''Policy created_at is immutable''
             (refuse (time_before (po_updated q) (po_updated p)) ''Policy updated_at cannot move backwards'' None))
          | _ \<Rightarrow> Some ''Policy schema is immutable'')
     | _ \<Rightarrow> validateImmutableUpdate h current replacement)"

definition undeletable_kinds :: "kind list" where
  "undeletable_kinds = [KindSource, KindTry, KindQueueAdvice, KindBattle, KindPlan, KindRun, KindAttempt,
     KindEvaluationSpec, KindEvaluation, KindFinding, KindCandidate, KindPromotionSpec, KindPromotion, KindDecision,
     KindRelease]"

definition immutableTransactionDelete :: "document \<Rightarrow> bool" where
  "immutableTransactionDelete d \<longleftrightarrow>
    (case d_record d of
       None \<Rightarrow> False
     | Some (RecExperiment e) \<Rightarrow> ex_lifecycle e = LifecycleClosed
     | Some r \<Rightarrow> GetKind r \<in> set undeletable_kinds)"

end
