(* ===== verification/Exp_Envelope.thy ===== *)
theory Exp_Envelope
  imports Exp_Normalize Exp_Update
begin

text \<open>
  The envelope of a record file: TOML front matter between two \<^verbatim>\<open>+++\<close> lines, then the Markdown body
  (\<^verbatim>\<open>internal/record/revision.go\<close>, \<open>Split\<close> and the decoder of \<^verbatim>\<open>frontmatter.go\<close>,
  \<^verbatim>\<open>migration_codec.go\<close>, \<open>verifyStagedDocument\<close> of \<^verbatim>\<open>transaction.go\<close>).

  Writing a record as TOML, reading TOML against the closed schema of its kind, and SHA-256 are the
  fields of \<open>codec_host\<close>; \<open>eh_read\<close> covers \<open>decodeRawFrontMatter\<close> to \<open>toml.Decode\<close>. A failure is the
  code of its error.
\<close>

record codec_host = update_host +
  eh_read :: "string \<Rightarrow> (string, research_record) result"
  eh_write :: "research_record \<Rightarrow> string option"
  eh_hash :: "string \<Rightarrow> string"

section \<open>Splitting\<close>

abbreviation newline :: char where "newline \<equiv> CHR 0x0A"

definition Delimiter :: string where "Delimiter = ''+++''"

definition openingDelimiter :: string where "openingDelimiter = Delimiter @ [newline]"

definition closingDelimiter :: string where "closingDelimiter = newline # Delimiter @ [newline]"

text \<open>\<open>bytes.Index\<close>.\<close>

fun index_of :: "string \<Rightarrow> string \<Rightarrow> nat option" where
  "index_of p [] = (if p = [] then Some 0 else None)"
| "index_of p (c # s) = (if has_prefix (c # s) p then Some 0 else map_option Suc (index_of p s))"

definition Split :: "string \<Rightarrow> (string, string \<times> string) result" where
  "Split content =
    guarded (utf8_valid content) ''record.utf8''
   (guarded (CHR 0x0D \<notin> set content) ''record.line_endings''
   (guarded (has_prefix content openingDelimiter) ''record.delimiter''
   (guarded (has_suffix content [newline]) ''record.final_lf''
   (let remainder = drop (length openingDelimiter) content in
    case index_of closingDelimiter remainder of
      None \<Rightarrow> Inl ''record.delimiter''
    | Some i \<Rightarrow>
        (let front = take i remainder; body = drop (i + length closingDelimiter) remainder in
         guarded (trim_space front \<noteq> []) ''record.frontmatter'' (Inr (front, body)))))))"

section \<open>Encoding\<close>

definition final_newline :: "string \<Rightarrow> string" where
  "final_newline s = (if s = [] \<or> last s \<noteq> newline then s @ [newline] else s)"

type_synonym validator = "research_record option \<Rightarrow> bool"

definition encodeWithValidator :: "'h codec_host_scheme \<Rightarrow> validator \<Rightarrow> document \<Rightarrow> (string, string) result" where
  "encodeWithValidator h validate d =
    (case d_record d of
       None \<Rightarrow> Inl ''record.nil''
     | Some r \<Rightarrow>
         guarded (utf8_valid (d_body d) \<and> CHR 0x00 \<notin> set (d_body d)) ''record.body''
        (guarded (CHR 0x0D \<notin> set (d_body d)) ''record.line_endings''
        (guarded (ch_text h (d_body d) = None) ''record.body_privacy''
        (guarded (validate (Some r)) ''record.invalid''
        (let normalized = Normalize h r in
         guarded (validate (Some normalized)) ''record.invalid''
        (case eh_write h normalized of
           None \<Rightarrow> Inl ''record.frontmatter''
         | Some front \<Rightarrow>
             Inr (final_newline (openingDelimiter @ final_newline front @ openingDelimiter @ d_body d))))))))"

definition accepts :: "(rat \<Rightarrow> go_float) \<Rightarrow> 'h codec_host_scheme \<Rightarrow> validator" where
  "accepts rnd h r \<longleftrightarrow> Validate rnd h r = []"

definition accepts_imported :: "(rat \<Rightarrow> go_float) \<Rightarrow> 'h codec_host_scheme \<Rightarrow> validator" where
  "accepts_imported rnd h r \<longleftrightarrow> ValidateImported rnd h r = None"

definition Encode :: "(rat \<Rightarrow> go_float) \<Rightarrow> 'h codec_host_scheme \<Rightarrow> document \<Rightarrow> (string, string) result" where
  "Encode rnd h = encodeWithValidator h (accepts rnd h)"

definition EncodeImported :: "(rat \<Rightarrow> go_float) \<Rightarrow> 'h codec_host_scheme \<Rightarrow> document \<Rightarrow> (string, string) result" where
  "EncodeImported rnd h = encodeWithValidator h (accepts_imported rnd h)"

definition revisionWithEncoder :: "'h codec_host_scheme \<Rightarrow> (document \<Rightarrow> (string, string) result) \<Rightarrow> document \<Rightarrow> (string, string) result" where
  "revisionWithEncoder h encode d = andThen (encode d) (\<lambda>content. Inr (revisionPrefix @ eh_hash h content))"

definition Revision :: "(rat \<Rightarrow> go_float) \<Rightarrow> 'h codec_host_scheme \<Rightarrow> document \<Rightarrow> (string, string) result" where
  "Revision rnd h = revisionWithEncoder h (Encode rnd h)"

section \<open>Decoding\<close>

definition decodeWithValidator :: "'h codec_host_scheme \<Rightarrow> validator \<Rightarrow> string \<Rightarrow> (string, document) result" where
  "decodeWithValidator h validate content =
    andThen (Split content) (\<lambda>(front, body).
    andThen (eh_read h front) (\<lambda>r.
    guarded (validate (Some r)) ''record.invalid''
   (case ch_text h body of
      Some code \<Rightarrow> Inl code
    | None \<Rightarrow>
        (let d = \<lparr>d_record = Some r, d_body = body, d_path = [], d_revision = []\<rparr> in
         andThen (revisionWithEncoder h (encodeWithValidator h validate) d) (\<lambda>revision. Inr (d\<lparr>d_revision := revision\<rparr>))))))"

definition Decode :: "(rat \<Rightarrow> go_float) \<Rightarrow> 'h codec_host_scheme \<Rightarrow> string \<Rightarrow> (string, document) result" where
  "Decode rnd h = decodeWithValidator h (accepts rnd h)"

definition DecodeImported :: "(rat \<Rightarrow> go_float) \<Rightarrow> 'h codec_host_scheme \<Rightarrow> string \<Rightarrow> (string, document) result" where
  "DecodeImported rnd h = decodeWithValidator h (accepts_imported rnd h)"

definition decodeCanonicalDocument :: "(rat \<Rightarrow> go_float) \<Rightarrow> 'h codec_host_scheme \<Rightarrow> string \<Rightarrow> (string, document) result" where
  "decodeCanonicalDocument rnd h content =
    (case Decode rnd h content of Inr d \<Rightarrow> Inr d | Inl _ \<Rightarrow> DecodeImported rnd h content)"

definition MaxRecordBytes :: nat where
  "MaxRecordBytes = 8 * 2 ^ 20"

definition ValidateRecordSize :: "string \<Rightarrow> bool" where
  "ValidateRecordSize content \<longleftrightarrow> length content \<le> MaxRecordBytes"

definition inventoryUsesImportedProject :: "'h host_scheme \<Rightarrow> inventory \<Rightarrow> bool" where
  "inventoryUsesImportedProject h v \<longleftrightarrow>
    (case in_project v of
       Some d \<Rightarrow> (case d_record d of
         Some (RecProject p) \<Rightarrow> pj_id p \<noteq> nil_uuid \<and> h_uuid_rfc4122 h (pj_id p) \<and> h_uuid_version h (pj_id p) = 5
       | _ \<Rightarrow> False)
     | None \<Rightarrow> False)"

definition encodeCandidateForBase ::
    "(rat \<Rightarrow> go_float) \<Rightarrow> 'h codec_host_scheme \<Rightarrow> document \<Rightarrow> inventory \<Rightarrow> (string, string \<times> document) result" where
  "encodeCandidateForBase rnd h d base =
    (let imported = inventoryUsesImportedProject h base in
     andThen (if imported then EncodeImported rnd h d else Encode rnd h d) (\<lambda>content.
     guarded (ValidateRecordSize content) ''record.too_large''
    (andThen (if imported then DecodeImported rnd h content else Decode rnd h content) (\<lambda>normalized.
     Inr (content, normalized)))))"

text \<open>A staged file is the canonical encoding of a document that belongs at its path.\<close>

definition verifyStagedDocument ::
    "(rat \<Rightarrow> go_float) \<Rightarrow> 'h codec_host_scheme \<Rightarrow> string \<Rightarrow> string \<Rightarrow> (string, document) result" where
  "verifyStagedDocument rnd h relative content =
    guarded (ValidateRecordSize content) ''record.too_large''
   (let native = Decode rnd h content;
        decoded = (case native of Inr d \<Rightarrow> Inr d | Inl _ \<Rightarrow> DecodeImported rnd h content);
        encode = (case native of Inr _ \<Rightarrow> Encode rnd h | Inl _ \<Rightarrow> EncodeImported rnd h) in
    andThen decoded (\<lambda>d0.
    (case ClassifyPath h relative of
       Canonical location \<Rightarrow>
         (let d = d0\<lparr>d_path := relative\<rparr> in
          guarded (ValidateDocumentPath h location d) ''record.invalid_path''
         (andThen (encode d) (\<lambda>encoded.
          guarded (encoded = content) ''record.not_canonical'' (Inr d))))
     | _ \<Rightarrow> Inl ''record.invalid_path'')))"

end
