(* ===== verification/Exp_Inventory.thy ===== *)
theory Exp_Inventory
  imports Exp_Envelope
begin

text \<open>
  The canonical inventory (\<^verbatim>\<open>internal/record/inventory.go\<close>, \<open>ComputeBeliefDigest\<close> of
  \<^verbatim>\<open>internal/research/belief.go\<close>, the native branch of \<^verbatim>\<open>migration_provenance.go\<close>): the validation of
  a set of documents as one graph.

  A diagnostic is a path and a code; its message is left out, so two diagnostics that differ in the
  message only are one. The relationship rules of one document are functions that return codes, in
  the order the code adds them; the final list is sorted and without repetitions, as in the code.
  Whether a committed path stays in the work tree on disk, the JSON text under the belief digest and
  the archive checks of an imported project are the fields of \<open>inventory_host\<close>. Scanning directories
  is not modelled; candidate inventories are.
\<close>

type_synonym diagnostic = "string \<times> string"

datatype belief_relation = BeliefWeakens | BeliefOverturns

record belief_influence =
  bi_source :: typed_id
  bi_relation :: belief_relation
  bi_revision :: string

record inventory_host = codec_host +
  ih_contained :: "string \<Rightarrow> bool \<Rightarrow> string option"
  ih_belief :: "typed_id \<Rightarrow> string \<Rightarrow> belief_influence list \<Rightarrow> string option"
  ih_imported :: "document list \<Rightarrow> project \<Rightarrow> diagnostic list"

section \<open>Views\<close>

definition view :: "(research_record \<Rightarrow> 'a option) \<Rightarrow> document \<Rightarrow> 'a option" where
  "view sel d = (case d_record d of None \<Rightarrow> None | Some r \<Rightarrow> sel r)"

fun rec_project :: "research_record \<Rightarrow> project option" where "rec_project (RecProject r) = Some r" | "rec_project _ = None"
fun rec_policy :: "research_record \<Rightarrow> policy option" where "rec_policy (RecPolicy r) = Some r" | "rec_policy _ = None"
fun rec_source :: "research_record \<Rightarrow> source_record option" where "rec_source (RecSource r) = Some r" | "rec_source _ = None"
fun rec_idea :: "research_record \<Rightarrow> idea option" where "rec_idea (RecIdea r) = Some r" | "rec_idea _ = None"
fun rec_pool :: "research_record \<Rightarrow> resource_pool option" where "rec_pool (RecResourcePool r) = Some r" | "rec_pool _ = None"
fun rec_queue :: "research_record \<Rightarrow> queue option" where "rec_queue (RecQueue r) = Some r" | "rec_queue _ = None"
fun rec_advice :: "research_record \<Rightarrow> queue_advice option" where "rec_advice (RecQueueAdvice r) = Some r" | "rec_advice _ = None"
fun rec_plan :: "research_record \<Rightarrow> plan option" where "rec_plan (RecPlan r) = Some r" | "rec_plan _ = None"
fun rec_try :: "research_record \<Rightarrow> try_record option" where "rec_try (RecTry r) = Some r" | "rec_try _ = None"
fun rec_experiment :: "research_record \<Rightarrow> experiment_record option" where
  "rec_experiment (RecExperiment r) = Some r" | "rec_experiment _ = None"
fun rec_run :: "research_record \<Rightarrow> run_record option" where "rec_run (RecRun r) = Some r" | "rec_run _ = None"
fun rec_attempt :: "research_record \<Rightarrow> attempt option" where "rec_attempt (RecAttempt r) = Some r" | "rec_attempt _ = None"
fun rec_spec :: "research_record \<Rightarrow> evaluation_spec option" where "rec_spec (RecEvaluationSpec r) = Some r" | "rec_spec _ = None"
fun rec_evaluation :: "research_record \<Rightarrow> evaluation option" where
  "rec_evaluation (RecEvaluation r) = Some r" | "rec_evaluation _ = None"
fun rec_finding :: "research_record \<Rightarrow> finding option" where "rec_finding (RecFinding r) = Some r" | "rec_finding _ = None"
fun rec_candidate :: "research_record \<Rightarrow> candidate_record option" where
  "rec_candidate (RecCandidate r) = Some r" | "rec_candidate _ = None"
fun rec_release :: "research_record \<Rightarrow> release option" where "rec_release (RecRelease r) = Some r" | "rec_release _ = None"
fun rec_promotion_spec :: "research_record \<Rightarrow> promotion_spec option" where
  "rec_promotion_spec (RecPromotionSpec r) = Some r" | "rec_promotion_spec _ = None"
fun rec_promotion :: "research_record \<Rightarrow> promotion option" where
  "rec_promotion (RecPromotion r) = Some r" | "rec_promotion _ = None"
fun rec_decision :: "research_record \<Rightarrow> decision option" where "rec_decision (RecDecision r) = Some r" | "rec_decision _ = None"

text \<open>The records of a kind in the order of their identifiers, with their documents.\<close>

definition of_kind :: "'h host_scheme \<Rightarrow> inventory \<Rightarrow> kind \<Rightarrow> (research_record \<Rightarrow> 'a option) \<Rightarrow> (document \<times> 'a) list" where
  "of_kind h v k sel = List.map_filter (\<lambda>d. map_option (Pair d) (view sel d)) (OfKind h v k)"

definition unique :: "inventory \<Rightarrow> typed_id \<Rightarrow> document option" where
  "unique v i = (case with_document_id i (in_documents v) of [d] \<Rightarrow> Some d | _ \<Rightarrow> None)"

text \<open>The record a unique identifier stands for, when it has the kind.\<close>

definition the_record :: "inventory \<Rightarrow> typed_id \<Rightarrow> (research_record \<Rightarrow> 'a option) \<Rightarrow> 'a option" where
  "the_record v i sel = (case unique v i of None \<Rightarrow> None | Some d \<Rightarrow> view sel d)"

section \<open>References\<close>

definition flag :: "bool \<Rightarrow> string \<Rightarrow> string list" where
  "flag b code = (if b then [code] else [])"

definition requireAny :: "inventory \<Rightarrow> typed_id \<Rightarrow> kind list \<Rightarrow> string list \<times> document option" where
  "requireAny v i ks =
    (if id_is_zero i then ([], None)
     else if id_kind_of i \<notin> set ks then ([''reference.wrong_kind''], None)
     else case with_document_id i (in_documents v) of
       [] \<Rightarrow> ([''reference.not_found''], None)
     | [d] \<Rightarrow> ([], Some d)
     | _ \<Rightarrow> ([''reference.ambiguous''], None))"

definition require :: "inventory \<Rightarrow> typed_id \<Rightarrow> kind \<Rightarrow> string list \<times> document option" where
  "require v i k = requireAny v i [k]"

text \<open>A reference, and what is asked of its target when there is one.\<close>

definition requires :: "inventory \<Rightarrow> typed_id \<Rightarrow> kind \<Rightarrow> (research_record \<Rightarrow> 'a option) \<Rightarrow> (document \<Rightarrow> 'a \<Rightarrow> string list) \<Rightarrow>
    string list" where
  "requires v i k sel check =
    (case require v i k of (codes, d) \<Rightarrow>
      codes @ (case d of None \<Rightarrow> [] | Some d \<Rightarrow> (case view sel d of None \<Rightarrow> [] | Some r \<Rightarrow> check d r)))"

definition target :: "inventory \<Rightarrow> typed_id \<Rightarrow> kind \<Rightarrow> (research_record \<Rightarrow> 'a option) \<Rightarrow> 'a option" where
  "target v i k sel = (case snd (require v i k) of None \<Rightarrow> None | Some d \<Rightarrow> view sel d)"

definition refers :: "inventory \<Rightarrow> kind \<Rightarrow> typed_id \<Rightarrow> string list" where
  "refers v k i = fst (require v i k)"

section \<open>Policy\<close>

definition the_policy :: "inventory \<Rightarrow> policy option" where
  "the_policy v = (case in_policy v of None \<Rightarrow> None | Some d \<Rightarrow> view rec_policy d)"

definition validateClassificationValues :: "inventory \<Rightarrow> classification \<Rightarrow> string list" where
  "validateClassificationValues v c =
    (case the_policy v of
       None \<Rightarrow> []
     | Some p \<Rightarrow>
        (let t = po_taxonomy p in
         concat (map (\<lambda>(value, allowed). flag (value \<notin> set allowed) ''classification.not_allowed'')
           [(cf_domain c, tx_domains t), (cf_work c, tx_work t), (cf_method c, tx_methods t), (cf_component c, tx_components t)])))"

definition validateClusterValue :: "inventory \<Rightarrow> string \<Rightarrow> string list" where
  "validateClusterValue v cluster =
    (case the_policy v of
       None \<Rightarrow> []
     | Some p \<Rightarrow> flag (po_clusters p \<noteq> [] \<and> cluster \<notin> cu_name ` set (po_clusters p)) ''classification.cluster_not_allowed'')"

definition clusterSaturated :: "inventory \<Rightarrow> string \<Rightarrow> bool" where
  "clusterSaturated v cluster \<longleftrightarrow>
    (case the_policy v of
       None \<Rightarrow> False
     | Some p \<Rightarrow> (case find (\<lambda>c. cu_name c = cluster) (po_clusters p) of None \<Rightarrow> False | Some c \<Rightarrow> cu_state c = ClusterSaturated))"

section \<open>Beliefs\<close>

definition influence_key :: "'h host_scheme \<Rightarrow> belief_influence \<Rightarrow> string \<times> belief_relation" where
  "influence_key h e = (id_string h (bi_source e), bi_relation e)"

definition influence_before :: "'h host_scheme \<Rightarrow> belief_influence \<Rightarrow> belief_influence \<Rightarrow> bool" where
  "influence_before h a b \<longleftrightarrow>
    (if bi_source a \<noteq> bi_source b then id_string h (bi_source a) < id_string h (bi_source b)
     else bi_relation a = BeliefOverturns \<and> bi_relation b = BeliefWeakens)"

definition ComputeBeliefDigest :: "'h inventory_host_scheme \<Rightarrow> typed_id \<Rightarrow> string \<Rightarrow> belief_influence list \<Rightarrow> string option" where
  "ComputeBeliefDigest h finding revision incoming =
    (if id_is_zero finding \<or> id_kind_of finding \<noteq> KindFinding \<or> \<not> validDigest revision then None
     else if list_ex (\<lambda>e. id_is_zero (bi_source e) \<or> id_kind_of (bi_source e) \<noteq> KindFinding \<or> \<not> validDigest (bi_revision e)) incoming then None
     else if \<not> distinct (map (influence_key h) incoming) then None
     else map_option (\<lambda>encoded. ''sha256:'' @ eh_hash h encoded)
       (ih_belief h finding revision (stable_sort (influence_before h) incoming)))"

definition influences :: "'h inventory_host_scheme \<Rightarrow> inventory \<Rightarrow> typed_id \<Rightarrow> belief_influence list" where
  "influences h v i = concat (map (\<lambda>(d, f).
     map (\<lambda>_. \<lparr>bi_source = c_id f, bi_relation = BeliefWeakens, bi_revision = d_revision d\<rparr>) (filter (\<lambda>w. w = i) (fi_weakens f)) @
     map (\<lambda>_. \<lparr>bi_source = c_id f, bi_relation = BeliefOverturns, bi_revision = d_revision d\<rparr>) (filter (\<lambda>w. w = i) (fi_overturns f)))
     (of_kind h v KindFinding rec_finding))"

definition BeliefDigest :: "'h inventory_host_scheme \<Rightarrow> inventory \<Rightarrow> typed_id \<Rightarrow> string option" where
  "BeliefDigest h v i =
    (if id_kind_of i \<noteq> KindFinding then None
     else case unique v i of None \<Rightarrow> None | Some d \<Rightarrow> ComputeBeliefDigest h i (d_revision d) (influences h v i))"

section \<open>Locations\<close>

definition location_of :: "inventory \<Rightarrow> document \<Rightarrow> location option" where
  "location_of v d = in_locations v (d_path d)"

definition validateRunLocation :: "inventory \<Rightarrow> document \<Rightarrow> document \<Rightarrow> string list" where
  "validateRunLocation v run experiment =
    (case (location_of v run, location_of v experiment) of
       (Some r, Some e) \<Rightarrow>
         flag (lo_experiment_dir r \<noteq> [] \<and> lo_experiment_dir e \<noteq> [] \<and> lo_experiment_dir r \<noteq> lo_experiment_dir e) ''relationship.wrong_owner''
     | _ \<Rightarrow> [])"

definition validateAttemptLocation :: "inventory \<Rightarrow> document \<Rightarrow> document \<Rightarrow> string list" where
  "validateAttemptLocation v attempt run =
    (case (location_of v attempt, location_of v run) of
       (Some a, Some r) \<Rightarrow>
         flag (lo_experiment_dir r \<noteq> [] \<and> (lo_experiment_dir a = [] \<or> lo_experiment_dir a \<noteq> lo_experiment_dir r)) ''relationship.wrong_owner''
     | _ \<Rightarrow> [])"

definition validateTryAttemptLocation :: "inventory \<Rightarrow> document \<Rightarrow> document \<Rightarrow> string list" where
  "validateTryAttemptLocation v attempt owner =
    (case (location_of v attempt, location_of v owner) of
       (Some a, Some t) \<Rightarrow>
         flag (lo_try_dir t \<noteq> [] \<and> (lo_try_dir a = [] \<or> lo_try_dir a \<noteq> lo_try_dir t)) ''relationship.wrong_owner''
     | _ \<Rightarrow> [])"

section \<open>MLflow ownership of Evaluations\<close>

text \<open>One pass over the references of an Evaluation: the codes, whether every claim was valid, and
  the owner claimed so far.\<close>

definition owner_subject_ok :: "'h host_scheme \<Rightarrow> evaluation \<Rightarrow> external_ref \<Rightarrow> bool" where
  "owner_subject_ok h e r \<longleftrightarrow>
    (case map_of (er_metadata r) ''mlflow.owner_subject'' of
       None \<Rightarrow> True
     | Some value \<Rightarrow> value = OvString (id_string h (el_subject e)))"

definition owner_claim :: "'h host_scheme \<Rightarrow> external_ref \<Rightarrow> typed_id option option" where
  "owner_claim h r =
    (case map_of (er_metadata r) ''mlflow.owner_attempt'' of
       None \<Rightarrow> None
     | Some (OvString text) \<Rightarrow>
         (if text = [] then Some None
          else case ParseIDForKind h text KindAttempt of Inl _ \<Rightarrow> Some None | Inr i \<Rightarrow> Some (Some i))
     | Some _ \<Rightarrow> Some None)"

fun mlflow_claims :: "'h host_scheme \<Rightarrow> evaluation \<Rightarrow> external_ref list \<Rightarrow> typed_id option \<Rightarrow> string list \<times> typed_id option" where
  "mlflow_claims h e [] owner = ([], owner)"
| "mlflow_claims h e (r # rs) owner =
    (if er_provider r \<noteq> ''mlflow'' \<or> er_role r \<noteq> ExternalTracker then mlflow_claims h e rs owner
     else
      (let subject = flag (\<not> owner_subject_ok h e r) ''evaluation.mlflow_owner_subject'';
           (codes, now) =
             (case owner_claim h r of
                None \<Rightarrow> ([], owner)
              | Some None \<Rightarrow> ([''evaluation.mlflow_owner_invalid''], owner)
              | Some (Some i) \<Rightarrow>
                  (if owner \<noteq> None \<and> owner \<noteq> Some i then ([''evaluation.mlflow_owner_conflict''], owner) else ([], Some i)));
           (rest, final) = mlflow_claims h e rs now
       in (subject @ codes @ rest, final)))"

text \<open>Every code of the pass comes with \<open>valid = false\<close>.\<close>

definition mlflow_owner :: "'h host_scheme \<Rightarrow> evaluation \<Rightarrow> typed_id option" where
  "mlflow_owner h e = (case mlflow_claims h e (el_refs e) None of (codes, owner) \<Rightarrow> if codes = [] then owner else None)"

text \<open>\<open>evaluationMLflowOwners\<close>; the last Evaluation with an identifier sets its entry.\<close>

definition mlflow_owners :: "'h host_scheme \<Rightarrow> inventory \<Rightarrow> typed_id \<Rightarrow> typed_id option" where
  "mlflow_owners h v i =
    map_of (rev (List.map_filter (\<lambda>(d, e). map_option (Pair (c_id e)) (mlflow_owner h e)) (of_kind h v KindEvaluation rec_evaluation))) i"

definition evaluationSubjectIncludesExperiment :: "inventory \<Rightarrow> document \<Rightarrow> typed_id \<Rightarrow> bool" where
  "evaluationSubjectIncludesExperiment v subject i \<longleftrightarrow>
    \<not> id_is_zero i \<and>
    (case d_record subject of
       Some (RecExperiment e) \<Rightarrow> c_id e = i
     | Some (RecCandidate c) \<Rightarrow> ca_experiment c = i
     | Some (RecRelease r) \<Rightarrow>
         (\<not> id_is_zero (rl_experiment r) \<and> rl_experiment r = i) \<or>
         list_ex (\<lambda>s. case the_record v (sl_candidate s) rec_candidate of None \<Rightarrow> False | Some c \<Rightarrow> ca_experiment c = i) (rl_slots r)
     | _ \<Rightarrow> False)"

definition mlflow_provenance :: "'h host_scheme \<Rightarrow> inventory \<Rightarrow> evaluation \<Rightarrow> typed_id \<Rightarrow> string list" where
  "mlflow_provenance h v e owner =
    flag (c_schema e = SchemaEvaluationV2 \<and> el_attempt e \<noteq> owner) ''evaluation.mlflow_owner_attempt'' @
    (case the_record v owner rec_attempt of
       None \<Rightarrow> [''evaluation.mlflow_owner_unresolved'']
     | Some a \<Rightarrow>
        (if at_state a \<noteq> AttemptSucceeded \<or> at_terminal a = None \<or> id_is_zero (at_run a) then [''evaluation.mlflow_owner_provenance'']
         else case the_record v (at_run a) rec_run of
           None \<Rightarrow> [''evaluation.mlflow_owner_provenance'']
         | Some r \<Rightarrow>
            (case unique v (el_subject e) of
               None \<Rightarrow> []
             | Some subject \<Rightarrow>
                 flag (\<not> evaluationSubjectIncludesExperiment v subject (ru_experiment r)) ''evaluation.mlflow_owner_lineage'')))"

definition mlflow_codes :: "'h host_scheme \<Rightarrow> inventory \<Rightarrow> evaluation \<Rightarrow> string list" where
  "mlflow_codes h v e =
    fst (mlflow_claims h e (el_refs e) None) @
    (case mlflow_owner h e of None \<Rightarrow> [] | Some owner \<Rightarrow> mlflow_provenance h v e owner)"

definition at_document :: "document \<Rightarrow> string list \<Rightarrow> diagnostic list" where
  "at_document d codes = map (Pair (d_path d)) codes"

definition validateEvaluationMLflowOwnership :: "'h host_scheme \<Rightarrow> inventory \<Rightarrow> diagnostic list" where
  "validateEvaluationMLflowOwnership h v =
    concat (map (\<lambda>(d, e). at_document d (mlflow_codes h v e)) (of_kind h v KindEvaluation rec_evaluation))"

section \<open>Evidence\<close>

definition runHasSuccessfulDirectAttempt :: "'h host_scheme \<Rightarrow> inventory \<Rightarrow> typed_id \<Rightarrow> bool" where
  "runHasSuccessfulDirectAttempt h v run \<longleftrightarrow>
    list_ex (\<lambda>(d, a). at_run a = run \<and> at_state a = AttemptSucceeded \<and>
      (case at_terminal a of None \<Rightarrow> False | Some t \<Rightarrow> tm_source t = ''direct'')) (of_kind h v KindAttempt rec_attempt)"

definition experimentIncludesRun :: "experiment_record \<Rightarrow> typed_id \<Rightarrow> bool" where
  "experimentIncludesRun e run \<longleftrightarrow>
    (case ex_conclusion e of
       None \<Rightarrow> False
     | Some c \<Rightarrow> list_ex (\<lambda>x. ce_run x = run \<and> ce_disposition x = EvidenceIncluded) (cn_evidence c))"

definition tryClosedAt :: "try_record \<Rightarrow> go_time option" where
  "tryClosedAt t =
    (case ty_conclusion t of
       Some c \<Rightarrow> Some (tc_concluded c)
     | None \<Rightarrow> map_option ta_abandoned (ty_abandonment t))"

definition snapshotSourceIDs :: "source_snapshot list \<Rightarrow> typed_id list" where
  "snapshotSourceIDs snapshots = map ss_source snapshots"

definition idSubset :: "typed_id list \<Rightarrow> typed_id list \<Rightarrow> bool" where
  "idSubset values allowed \<longleftrightarrow> set values \<subseteq> set allowed"

definition candidateSourcesForAttempt :: "attempt \<Rightarrow> candidate_source list" where
  "candidateSourcesForAttempt a =
    map (\<lambda>s. \<lparr>cs_source = ss_source s, cs_head = ss_head s, cs_changes = Some (slice (ss_changes s))\<rparr>) (at_snapshots a)"

text \<open>A v2 Candidate names its Attempt; an earlier one needs some Attempt with its commit and changes.\<close>

definition owner_allows :: "typed_id option \<Rightarrow> attempt \<Rightarrow> bool" where
  "owner_allows owner a \<longleftrightarrow> (case owner of None \<Rightarrow> True | Some i \<Rightarrow> c_id a = i)"

definition backing_attempt :: "inventory \<Rightarrow> candidate_record \<Rightarrow> experiment_record \<Rightarrow> typed_id option \<Rightarrow> attempt \<Rightarrow> bool" where
  "backing_attempt v c e owner a \<longleftrightarrow>
    c_schema a = SchemaAttemptV3 \<and> \<not> id_is_zero (at_run a) \<and> id_is_zero (at_try a) \<and> at_state a = AttemptSucceeded \<and>
    at_snapshots a \<noteq> [] \<and>
    (case (at_terminal a, ex_conclusion e) of
       (Some t, Some cn) \<Rightarrow> \<not> time_after (c_created a) (cn_concluded cn) \<and> \<not> time_after (tm_ended t) (cn_concluded cn)
     | _ \<Rightarrow> False) \<and>
    owner_allows owner a \<and> list_all (\<lambda>s. ss_state s = SourceSnapshotClean) (at_snapshots a) \<and>
    ca_sources c = Some (candidateSourcesForAttempt a) \<and>
    (case the_record v (at_run a) rec_run of None \<Rightarrow> False | Some r \<Rightarrow> ru_experiment r = ca_experiment c) \<and>
    experimentIncludesRun e (at_run a)"

definition matching_attempt :: "inventory \<Rightarrow> candidate_record \<Rightarrow> experiment_record \<Rightarrow> typed_id option \<Rightarrow> attempt \<Rightarrow> bool" where
  "matching_attempt v c e owner a \<longleftrightarrow>
    c_schema a = SchemaAttemptV2 \<and> at_state a = AttemptSucceeded \<and>
    (case at_terminal a of None \<Rightarrow> False | Some t \<Rightarrow> tm_source t = ''direct'') \<and>
    at_head a = ca_commit c \<and> at_changes a = ca_changes c \<and> owner_allows owner a \<and>
    (case the_record v (at_run a) rec_run of None \<Rightarrow> False | Some r \<Rightarrow> ru_experiment r = ca_experiment c) \<and>
    experimentIncludesRun e (at_run a)"

definition candidateHasSuccessfulAttempt :: "'h host_scheme \<Rightarrow> inventory \<Rightarrow> candidate_record \<Rightarrow> experiment_record option \<Rightarrow> bool" where
  "candidateHasSuccessfulAttempt h v c experiment \<longleftrightarrow>
    (case experiment of
       None \<Rightarrow> False
     | Some e \<Rightarrow>
        (let owner = mlflow_owners h v (ca_evaluation c) in
         if c_schema c = SchemaCandidateV2 then
           (case the_record v (ca_attempt c) rec_attempt of None \<Rightarrow> False | Some a \<Rightarrow> backing_attempt v c e owner a)
         else list_ex (\<lambda>(d, a). matching_attempt v c e owner a) (of_kind h v KindAttempt rec_attempt)))"

end
