(* ===== verification/Exp_Relations.thy ===== *)
theory Exp_Relations
  imports Exp_Inventory
begin

text \<open>
  The relationship rules of one document of the inventory (\<open>validateRelationships\<close> of
  \<^verbatim>\<open>internal/record/inventory.go\<close>), one function per kind of record.
\<close>

section \<open>Relationships of one record\<close>

definition retired_by :: "source_record \<Rightarrow> (go_time \<Rightarrow> bool) \<Rightarrow> bool" where
  "retired_by s late \<longleftrightarrow> so_state s = SourceRetired \<and> (case so_retired s of None \<Rightarrow> False | Some t \<Rightarrow> late t)"

definition idea_origins :: "'h host_scheme \<Rightarrow> inventory \<Rightarrow> typed_id \<Rightarrow> document list" where
  "idea_origins h v i =
    map fst (filter (\<lambda>(d, a). \<not> id_is_zero (ia_origin a) \<and> ia_origin a = i) (of_kind h v KindIdea rec_idea))"

definition try_codes :: "'h host_scheme \<Rightarrow> inventory \<Rightarrow> try_record \<Rightarrow> string list" where
  "try_codes h v t =
    concat (map (\<lambda>i. requires v i KindSource rec_source (\<lambda>_ s.
      flag (retired_by s (\<lambda>tm. \<not> time_after tm (c_created t))) ''try.source_retired'')) (ty_sources t)) @
    requires v (ty_adopted t) KindIdea rec_idea (\<lambda>_ a. flag (ia_origin a \<noteq> c_id t) ''try.idea_mismatch'') @
    flag (1 < length (idea_origins h v (c_id t))) ''try.multiple_adoptions''"

definition idea_codes :: "inventory \<Rightarrow> idea \<Rightarrow> string list" where
  "idea_codes v a =
    concat (map (refers v KindIdea) (ia_parents a)) @
    requires v (ia_plan a) KindPlan rec_plan (\<lambda>_ p. flag (pl_idea p \<noteq> c_id a) ''idea.plan_mismatch'') @
    refers v KindIdea (ia_merged a) @
    requires v (ia_origin a) KindTry rec_try (\<lambda>_ t.
      flag (ty_state t \<noteq> TryAdopted \<or> ty_adopted t \<noteq> c_id a) ''idea.try_mismatch'') @
    validateClassificationValues v (ia_classification a) @ validateClusterValue v (ia_cluster a)"

definition queue_entry_codes :: "inventory \<Rightarrow> typed_id \<Rightarrow> queue_entry \<Rightarrow> string list" where
  "queue_entry_codes v pool e =
    requires v (qe_plan e) KindPlan rec_plan (\<lambda>d p.
      flag (c_schema p \<noteq> SchemaPlanV2 \<or> pl_state p \<noteq> PlanQueued) ''queue.plan_state'' @
      flag (map rn_pool (pl_resources p) \<noteq> [pool]) ''queue.plan_pool'' @
      flag (qe_revision e \<noteq> d_revision d) ''queue.plan_stale'' @
      flag (\<not> qe_pinned e \<and> clusterSaturated v (pl_cluster p)) ''queue.cluster_saturated'')"

definition queue_codes :: "inventory \<Rightarrow> queue \<Rightarrow> string list" where
  "queue_codes v q =
    concat (map (\<lambda>p. refers v KindResourcePool (qp_pool p) @
      concat (map (queue_entry_codes v (qp_pool p)) (slice (qp_entries p)))) (slice (qu_partitions q)))"

definition advice_codes :: "inventory \<Rightarrow> queue_advice \<Rightarrow> string list" where
  "advice_codes v a =
    refers v KindQueue (qa_queue a) @ refers v KindPlan (qa_candidate a) @ refers v KindResourcePool (qa_pool a) @
    concat (map (refers v KindPlan) (qa_order a))"

definition battle_codes :: "inventory \<Rightarrow> battle_record \<Rightarrow> string list" where
  "battle_codes v b =
    refers v KindQueue (bt_queue b) @
    requires v (bt_advice b) KindQueueAdvice rec_advice (\<lambda>_ a.
      flag (qa_queue a \<noteq> bt_queue b \<or> qa_queue_revision a \<noteq> bt_queue_revision b \<or> qa_candidate a \<noteq> bt_candidate b \<or>
        qa_pool a \<noteq> bt_pool b \<or> qa_lane a \<noteq> bt_lane b) ''battle.advice_mismatch'') @
    refers v KindPlan (bt_candidate b) @ refers v KindPlan (bt_incumbent b) @ refers v KindResourcePool (bt_pool b)"

definition dependency_codes :: "'h inventory_host_scheme \<Rightarrow> inventory \<Rightarrow> plan \<Rightarrow> finding_dependency \<Rightarrow> string list" where
  "dependency_codes h v p x =
    requires v (fd_finding x) KindFinding rec_finding (\<lambda>d _.
      flag (pl_state p = PlanQueued \<and> fd_revision x \<noteq> d_revision d) ''plan.dependency_stale'' @
      (case BeliefDigest h v (fd_finding x) of
         None \<Rightarrow> []
       | Some digest \<Rightarrow> flag (pl_state p = PlanQueued \<and> digest \<noteq> fd_belief x) ''plan.belief_stale''))"

definition plan_codes :: "'h inventory_host_scheme \<Rightarrow> inventory \<Rightarrow> plan \<Rightarrow> string list" where
  "plan_codes h v p =
    concat (map (refers v KindFinding) (pl_assumptions p)) @
    refers v KindExperiment (pl_result p) @
    (if c_schema p \<noteq> SchemaPlanV2 then []
     else
       requires v (pl_idea p) KindIdea rec_idea (\<lambda>_ a. flag (ia_plan a \<noteq> c_id p) ''plan.idea_mismatch'') @
       (case pl_classification p of None \<Rightarrow> [] | Some c \<Rightarrow> validateClassificationValues v c) @
       validateClusterValue v (pl_cluster p) @
       concat (map (dependency_codes h v p) (pl_dependencies p)) @
       concat (map (\<lambda>n. refers v KindResourcePool (rn_pool n)) (pl_resources p)))"

definition experiment_codes :: "'h host_scheme \<Rightarrow> inventory \<Rightarrow> experiment_record \<Rightarrow> string list" where
  "experiment_codes h v e =
    concat (map (refers v KindExperiment) (ex_parents e)) @
    concat (map (refers v KindCandidate) (ex_inputs e)) @
    (case ex_detail e of None \<Rightarrow> [] | Some d \<Rightarrow> refers v KindExperiment (cl_superseded d)) @
    (case ex_conclusion e of
       None \<Rightarrow> []
     | Some c \<Rightarrow> concat (map (\<lambda>x. requires v (ce_run x) KindRun rec_run (\<lambda>_ r.
         flag (ru_experiment r \<noteq> c_id e) ''reference.wrong_owner'' @
         flag (ce_disposition x = EvidenceIncluded \<and> \<not> runHasSuccessfulDirectAttempt h v (ce_run x)) ''experiment.evidence_unexecuted''))
         (cn_evidence c)))"

definition design_locked :: "attempt \<Rightarrow> experiment_record \<Rightarrow> bool" where
  "design_locked a e \<longleftrightarrow>
    (case de_locked (ex_design e) of None \<Rightarrow> False | Some t \<Rightarrow> de_digest (ex_design e) \<noteq> [] \<and> \<not> time_after t (c_created a))"

definition snapshot_codes :: "inventory \<Rightarrow> source_snapshot \<Rightarrow> string list" where
  "snapshot_codes v x =
    requires v (ss_source x) KindSource rec_source (\<lambda>_ s.
      flag (so_subdir s \<noteq> ss_subdir x) ''source_snapshot.subdir_mismatch'' @
      flag (retired_by s (\<lambda>tm. \<not> time_before (ss_captured x) tm)) ''source_snapshot.retired'')"

definition attempt_codes :: "inventory \<Rightarrow> document \<Rightarrow> attempt \<Rightarrow> string list" where
  "attempt_codes v d a =
    refers v KindAttempt (at_retry a) @
    requires v (at_run a) KindRun rec_run (\<lambda>run r.
      validateAttemptLocation v d run @
      (case the_record v (ru_experiment r) rec_experiment of
         None \<Rightarrow> []
       | Some e \<Rightarrow> flag (\<not> design_locked a e) ''experiment.design_unlocked'')) @
    requires v (at_try a) KindTry rec_try (\<lambda>owner t.
      validateTryAttemptLocation v d owner @
      (case tryClosedAt t of None \<Rightarrow> [] | Some ended \<Rightarrow> flag (time_after (c_created a) ended) ''try.attempt_after_close'') @
      flag (\<not> idSubset (snapshotSourceIDs (at_snapshots a)) (ty_sources t)) ''try.source_mismatch'') @
    (if c_schema a = SchemaAttemptV2 \<or> c_schema a = SchemaAttemptV3 \<and> \<not> id_is_zero (at_pool a)
     then refers v KindResourcePool (at_pool a) @ refers v KindQueue (at_queue a) else []) @
    (if c_schema a = SchemaAttemptV3 then concat (map (snapshot_codes v) (at_snapshots a)) else [])"

text \<open>The metrics of an Evaluation against its specification; of two metrics with one name the last counts.\<close>

definition last_named :: "('a \<Rightarrow> string) \<Rightarrow> 'a list \<Rightarrow> string \<Rightarrow> 'a option" where
  "last_named name xs n = find (\<lambda>x. name x = n) (rev xs)"

definition threshold_results :: "evaluation_spec \<Rightarrow> evaluation \<Rightarrow> bool list" where
  "threshold_results s e = List.map_filter (\<lambda>n.
     case (last_named ms_name (es_metrics s) n, last_named mv_name (el_metrics e) n) of
       (Some m, Some x) \<Rightarrow>
         (case ms_threshold m of
            None \<Rightarrow> None
          | Some limit \<Rightarrow> Some
             (case ms_direction m of
                MetricMaximize \<Rightarrow> f_le limit (mv_value x)
              | MetricMinimize \<Rightarrow> f_le (mv_value x) limit
              | MetricDirectionOther _ \<Rightarrow> True))
     | _ \<Rightarrow> None) (remdups (map ms_name (es_metrics s)))"

definition metric_codes :: "evaluation_spec \<Rightarrow> evaluation \<Rightarrow> string list" where
  "metric_codes s e =
    concat (map (\<lambda>x. flag
      (case last_named ms_name (es_metrics s) (mv_name x) of None \<Rightarrow> True | Some m \<Rightarrow> ms_unit m \<noteq> mv_unit x)
      ''evaluation.metric_mismatch'') (el_metrics e)) @
    flag (length (remdups (map mv_name (el_metrics e))) \<noteq> length (remdups (map ms_name (es_metrics s)))) ''evaluation.metric_incomplete'' @
    (let results = threshold_results s e; passed = list_all id results in
     flag (results \<noteq> [] \<and> el_outcome e \<noteq> EvaluationInvalid \<and>
       (passed \<and> el_outcome e \<noteq> EvaluationPassed \<or> \<not> passed \<and> el_outcome e \<noteq> EvaluationFailed)) ''evaluation.outcome_threshold'')"

definition formal_attempt :: "inventory \<Rightarrow> evaluation \<Rightarrow> attempt \<Rightarrow> string list" where
  "formal_attempt v e a =
    (case at_terminal a of
       None \<Rightarrow> [''evaluation.attempt_provenance'']
     | Some t \<Rightarrow>
        (if c_schema a \<noteq> SchemaAttemptV3 \<or> at_state a \<noteq> AttemptSucceeded \<or> \<not> id_is_zero (at_try a) \<or>
            (case the_record v (at_run a) rec_run of None \<Rightarrow> True | Some r \<Rightarrow> ru_experiment r \<noteq> el_subject e)
         then [''evaluation.attempt_provenance'']
         else flag (time_after (tm_ended t) (el_evaluated e)) ''evaluation.attempt_time''))"

definition evaluation_codes :: "inventory \<Rightarrow> evaluation \<Rightarrow> string list" where
  "evaluation_codes v e =
    (case requireAny v (el_subject e) [KindExperiment, KindCandidate, KindRelease] of (subject_codes, subject) \<Rightarrow>
      refers v KindEvaluationSpec (el_spec e) @ subject_codes @
      (if c_schema e = SchemaEvaluationV2 then
         requires v (el_attempt e) KindAttempt rec_attempt (\<lambda>_ a.
           case subject of
             None \<Rightarrow> []
           | Some s \<Rightarrow> if document_kind s = KindExperiment then formal_attempt v e a else [])
       else []) @
      (case target v (el_spec e) KindEvaluationSpec rec_spec of None \<Rightarrow> [] | Some s \<Rightarrow> metric_codes s e))"

definition evidence_codes :: "'h host_scheme \<Rightarrow> inventory \<Rightarrow> finding_evidence \<Rightarrow> string list" where
  "evidence_codes h v x =
    (if fe_kind x = FindingEvidenceExperiment then refers v KindExperiment (fe_ref x) else refers v KindRun (fe_ref x)) @
    (if fe_kind x = FindingEvidenceRun then
       flag (\<not> runHasSuccessfulDirectAttempt h v (fe_ref x)) ''finding.evidence_unexecuted'' @
       (case target v (fe_ref x) KindRun rec_run of
          None \<Rightarrow> []
        | Some r \<Rightarrow>
           flag (case the_record v (ru_experiment r) rec_experiment of None \<Rightarrow> True | Some e \<Rightarrow> \<not> experimentIncludesRun e (c_id r))
             ''finding.evidence_excluded'')
     else [])"

definition finding_codes :: "'h host_scheme \<Rightarrow> inventory \<Rightarrow> finding \<Rightarrow> string list" where
  "finding_codes h v f =
    concat (map (evidence_codes h v) (fi_evidence f)) @ concat (map (refers v KindFinding) (fi_weakens f)) @
    concat (map (refers v KindFinding) (fi_overturns f))"

definition supported :: "experiment_record \<Rightarrow> bool" where
  "supported e \<longleftrightarrow> ex_lifecycle e = LifecycleClosed \<and> ex_closure e = Some ClosureConcluded \<and> ex_verdict e = Some VerdictSupported"

definition spec_is :: "inventory \<Rightarrow> typed_id \<Rightarrow> (evaluation_spec \<Rightarrow> bool) \<Rightarrow> bool" where
  "spec_is v i good \<longleftrightarrow> (case the_record v i rec_spec of None \<Rightarrow> False | Some s \<Rightarrow> good s)"

definition scientific :: "evaluation_spec \<Rightarrow> bool" where
  "scientific s \<longleftrightarrow> es_purpose s = EvaluationScientific"

definition sealed_promotion :: "evaluation_spec \<Rightarrow> bool" where
  "sealed_promotion s \<longleftrightarrow> es_purpose s = EvaluationPromotion \<and> es_sealed s \<noteq> None"

definition candidate_codes :: "'h host_scheme \<Rightarrow> inventory \<Rightarrow> candidate_record \<Rightarrow> string list" where
  "candidate_codes h v c =
    requires v (ca_experiment c) KindExperiment rec_experiment (\<lambda>_ e. flag (\<not> supported e) ''candidate.experiment_outcome'') @
    requires v (ca_evaluation c) KindEvaluation rec_evaluation (\<lambda>_ e.
      flag (el_subject e \<noteq> ca_experiment c) ''candidate.evaluation_subject'' @
      flag (el_outcome e \<noteq> EvaluationPassed) ''candidate.evaluation_outcome'' @
      flag (\<not> spec_is v (el_spec e) scientific) ''candidate.evaluation_spec'') @
    concat (map (refers v KindCandidate) (ca_parents c)) @
    (if c_schema c = SchemaCandidateV2 then
       refers v KindAttempt (ca_attempt c) @
       (case target v (ca_evaluation c) KindEvaluation rec_evaluation of
          None \<Rightarrow> []
        | Some e \<Rightarrow>
           flag (c_schema e \<noteq> SchemaEvaluationV2 \<or> el_attempt e \<noteq> ca_attempt c) ''candidate.evaluation_attempt'' @
           (case mlflow_owners h v (c_id e) of
              None \<Rightarrow> []
            | Some owner \<Rightarrow> flag (owner \<noteq> ca_attempt c) ''candidate.mlflow_owner_attempt'')) @
       concat (map (\<lambda>s. refers v KindSource (cs_source s)) (slice (ca_sources c)))
     else []) @
    flag (\<not> candidateHasSuccessfulAttempt h v c (target v (ca_experiment c) KindExperiment rec_experiment)) ''candidate.attempt_provenance''"

definition release_codes :: "inventory \<Rightarrow> release \<Rightarrow> string list" where
  "release_codes v r =
    concat (map (\<lambda>s. refers v KindCandidate (sl_candidate s)) (rl_slots r)) @
    requires v (rl_experiment r) KindExperiment rec_experiment (\<lambda>_ e.
      flag (\<not> supported e) ''release.combination_outcome'' @
      flag (de_kind (ex_design e) \<noteq> ExperimentCombination) ''release.combination_kind'' @
      (let wanted = remdups (map sl_candidate (rl_slots r)); actual = remdups (ex_inputs e) in
       flag (length wanted \<noteq> length actual \<or> \<not> set wanted \<subseteq> set actual) ''release.combination_inputs'')) @
    requires v (rl_combination r) KindEvaluation rec_evaluation (\<lambda>_ e.
      flag (case target v (rl_experiment r) KindExperiment rec_experiment of None \<Rightarrow> True | Some x \<Rightarrow> el_subject e \<noteq> c_id x)
        ''release.combination_evaluation_subject'' @
      flag (el_outcome e \<noteq> EvaluationPassed) ''release.combination_evaluation_outcome'' @
      flag (\<not> spec_is v (el_spec e) scientific) ''release.combination_evaluation_spec'') @
    requires v (rl_evaluation r) KindEvaluation rec_evaluation (\<lambda>_ e.
      flag (el_subject e \<noteq> c_id r) ''release.evaluation_subject'' @
      flag (rl_state r = ReleaseValidated \<and> el_outcome e \<noteq> EvaluationPassed) ''release.evaluation_outcome'' @
      flag (rl_state r = ReleaseValidated \<and> \<not> spec_is v (el_spec e) sealed_promotion) ''release.evaluation_spec'')"

definition promotion_spec_codes :: "inventory \<Rightarrow> promotion_spec \<Rightarrow> string list" where
  "promotion_spec_codes v p =
    requires v (ps_spec p) KindEvaluationSpec rec_spec (\<lambda>_ s.
      flag (\<not> sealed_promotion s) ''promotion.evaluation_spec'' @
      flag (f_less (es_hours s) (ps_hours p)) ''promotion.holdout_budget'')"

definition promotion_codes :: "inventory \<Rightarrow> promotion \<Rightarrow> string list" where
  "promotion_codes v p =
    refers v KindPromotionSpec (pr_spec p) @ refers v KindRelease (pr_challenger p) @ refers v KindRelease (pr_incumbent p) @
    refers v KindEvaluation (pr_evaluation p) @ refers v KindPromotion (pr_previous p) @
    (case target v (pr_spec p) KindPromotionSpec rec_promotion_spec of
       None \<Rightarrow> [] | Some s \<Rightarrow> flag (ps_target s \<noteq> pr_target p) ''promotion.target_mismatch'') @
    concat (map (\<lambda>i. case target v i KindRelease rec_release of
       None \<Rightarrow> [] | Some r \<Rightarrow> flag (rl_target r \<noteq> pr_target p) ''promotion.target_mismatch'') [pr_challenger p, pr_incumbent p]) @
    (case target v (pr_evaluation p) KindEvaluation rec_evaluation of
       None \<Rightarrow> []
     | Some e \<Rightarrow>
        flag (el_subject e \<noteq> pr_challenger p) ''promotion.evaluation_subject'' @
        (case target v (pr_spec p) KindPromotionSpec rec_promotion_spec of
           None \<Rightarrow> []
         | Some s \<Rightarrow>
            flag (el_spec e \<noteq> ps_spec s) ''promotion.evaluation_spec'' @
            flag ((pr_outcome p = PromotionAccepted \<or> pr_outcome p = PromotionRolledBack) \<and> el_outcome e \<noteq> EvaluationPassed)
              ''promotion.evaluation_outcome'')) @
    (case target v (pr_previous p) KindPromotion rec_promotion of
       None \<Rightarrow> [] | Some q \<Rightarrow> flag (pr_target q \<noteq> pr_target p) ''promotion.target_mismatch'')"

definition decision_codes :: "inventory \<Rightarrow> decision \<Rightarrow> string list" where
  "decision_codes v x =
    concat (map (refers v KindFinding) (dn_based_on x)) @ concat (map (refers v KindDecision) (dn_supersedes x))"

fun record_codes :: "'h inventory_host_scheme \<Rightarrow> inventory \<Rightarrow> document \<Rightarrow> research_record \<Rightarrow> string list" where
  "record_codes h v d (RecTry t) = try_codes h v t"
| "record_codes h v d (RecIdea a) = idea_codes v a"
| "record_codes h v d (RecQueue q) = queue_codes v q"
| "record_codes h v d (RecQueueAdvice a) = advice_codes v a"
| "record_codes h v d (RecBattle b) = battle_codes v b"
| "record_codes h v d (RecPlan p) = plan_codes h v p"
| "record_codes h v d (RecExperiment e) = experiment_codes h v e"
| "record_codes h v d (RecRun r) = requires v (ru_experiment r) KindExperiment rec_experiment (\<lambda>e _. validateRunLocation v d e)"
| "record_codes h v d (RecAttempt a) = attempt_codes v d a"
| "record_codes h v d (RecEvaluationSpec s) = refers v KindResourcePool (es_pool s)"
| "record_codes h v d (RecEvaluation e) = evaluation_codes v e"
| "record_codes h v d (RecFinding f) = finding_codes h v f"
| "record_codes h v d (RecCandidate c) = candidate_codes h v c"
| "record_codes h v d (RecRelease r) = release_codes v r"
| "record_codes h v d (RecPromotionSpec p) = promotion_spec_codes v p"
| "record_codes h v d (RecPromotion p) = promotion_codes v p"
| "record_codes h v d (RecDecision x) = decision_codes v x"
| "record_codes h v d (RecProject _) = []"
| "record_codes h v d (RecPolicy _) = []"
| "record_codes h v d (RecSource _) = []"
| "record_codes h v d (RecResourcePool _) = []"

end
