(* ===== verification/Exp_Graph.thy ===== *)
theory Exp_Graph
  imports Exp_Relations
begin

text \<open>
  The rules on the whole inventory (\<^verbatim>\<open>internal/record/inventory.go\<close>): duplicates, Queue partitions,
  Try closures and retries, Plans and their Experiments, Promotion chains and champions, cycles.
\<close>

section \<open>Relationships of the whole inventory\<close>

text \<open>A pool/lane partition belongs to one Queue: the loop over the partitions of all Queues, with
  the path that owns each key so far.\<close>

fun partition_owners :: "'h host_scheme \<Rightarrow> (string \<times> string) list \<Rightarrow> (string \<times> string) list \<Rightarrow> diagnostic list" where
  "partition_owners h owned [] = []"
| "partition_owners h owned ((key, path) # rest) =
    (case map_of owned key of
       Some previous \<Rightarrow>
         [(previous, ''queue.partition_global_duplicate''), (path, ''queue.partition_global_duplicate'')] @ partition_owners h owned rest
     | None \<Rightarrow> partition_owners h ((key, path) # owned) rest)"

definition queue_partitions :: "'h host_scheme \<Rightarrow> inventory \<Rightarrow> (string \<times> string) list" where
  "queue_partitions h v = concat (map (\<lambda>(d, q). map (\<lambda>p. (partition_key h p, d_path d)) (slice (qu_partitions q)))
     (of_kind h v KindQueue rec_queue))"

definition validateRelationships :: "'h inventory_host_scheme \<Rightarrow> inventory \<Rightarrow> diagnostic list" where
  "validateRelationships h v =
    partition_owners h [] (queue_partitions h v) @
    concat (map (\<lambda>d. case d_record d of None \<Rightarrow> [] | Some r \<Rightarrow> at_document d (record_codes h v d r)) (in_documents v))"

text \<open>The documents that share a key with another one of the list.\<close>

definition shared :: "(document \<times> 'k) list \<Rightarrow> string \<Rightarrow> diagnostic list" where
  "shared keyed code = concat (map (\<lambda>(d, k). at_document d (flag (2 \<le> length (filter (\<lambda>(_, l). l = k) keyed)) code)) keyed)"

definition alias_keys :: "document \<Rightarrow> (document \<times> (string \<times> string)) list" where
  "alias_keys d =
    (case d_record d of
       None \<Rightarrow> []
     | Some r \<Rightarrow> (case GetCommon r of None \<Rightarrow> [] | Some c \<Rightarrow> map (\<lambda>a. (d, (kind_string (GetKind r), a))) (c_aliases c)))"

definition validateDuplicates :: "inventory \<Rightarrow> diagnostic list" where
  "validateDuplicates v =
    shared (List.map_filter (\<lambda>d. map_option (Pair d) (document_id d)) (in_documents v)) ''record.duplicate_id'' @
    shared (List.map_filter (\<lambda>d. map_option (\<lambda>s. (d, so_key s)) (view rec_source d)) (in_documents v)) ''source.duplicate_key'' @
    shared (concat (map alias_keys (in_documents v))) ''record.duplicate_alias''"

section \<open>Tries\<close>

definition tryflowNamespace :: string where
  "tryflowNamespace = ''io.github.daviddwlee84.exp-cli.tryflow''"

fun inventoryExtensionStrings :: "open_value \<Rightarrow> string list" where
  "inventoryExtensionStrings (OvList items) = List.map_filter (\<lambda>x. case x of OvString t \<Rightarrow> Some t | _ \<Rightarrow> None) items"
| "inventoryExtensionStrings _ = []"

definition result_digests :: "attempt \<Rightarrow> string list" where
  "result_digests a =
    (case map_of (at_extensions a) tryflowNamespace of
       Some (Some t) \<Rightarrow> (case map_of t ''result_digests'' of None \<Rightarrow> [] | Some value \<Rightarrow> inventoryExtensionStrings value)
     | _ \<Rightarrow> [])"

definition closure_codes :: "try_record \<Rightarrow> attempt list \<Rightarrow> string list" where
  "closure_codes t attempts =
    (if ty_state t = TryOpen then []
     else
       concat (map (\<lambda>a. flag (\<not> terminalAttemptState (at_state a)) ''try.nonterminal_attempt'') attempts) @
       (case ty_conclusion t of
          None \<Rightarrow> []
        | Some c \<Rightarrow> concat (map (\<lambda>x. flag (x \<notin> set (concat (map result_digests attempts))) ''try.result_not_owned'') (tc_digests c))))"

definition validateTryClosureSemantics :: "'h host_scheme \<Rightarrow> inventory \<Rightarrow> diagnostic list" where
  "validateTryClosureSemantics h v = concat (map (\<lambda>(d, t). at_document d (closure_codes t
     (filter (\<lambda>a. \<not> id_is_zero (at_try a) \<and> at_try a = c_id t) (map snd (of_kind h v KindAttempt rec_attempt)))))
     (of_kind h v KindTry rec_try))"

definition retry_codes :: "inventory \<Rightarrow> attempt \<Rightarrow> string list" where
  "retry_codes v a =
    (if id_is_zero (at_retry a) then []
     else case the_record v (at_retry a) rec_attempt of
       None \<Rightarrow> []
     | Some q \<Rightarrow>
        flag (id_is_zero (at_try q) \<or> at_try q \<noteq> at_try a) ''attempt.retry_owner'' @
        flag (\<not> terminalAttemptState (at_state q)) ''attempt.retry_nonterminal'' @
        flag (\<not> time_before (c_created q) (c_created a)) ''attempt.retry_order'' @
        flag (at_cwd q \<noteq> at_cwd a \<or> at_argv q \<noteq> at_argv a \<or> at_execution q \<noteq> at_execution a) ''attempt.retry_identity'')"

definition validateTryRetrySemantics :: "'h host_scheme \<Rightarrow> inventory \<Rightarrow> diagnostic list" where
  "validateTryRetrySemantics h v =
    (let attempts = of_kind h v KindAttempt rec_attempt in
     concat (map (\<lambda>(d, a). at_document d (retry_codes v a)) attempts) @
     shared (map (\<lambda>(d, a). (d, at_retry a)) (filter (\<lambda>(d, a). \<not> id_is_zero (at_retry a)) attempts)) ''attempt.retry_duplicate'')"

section \<open>Plans and Experiments\<close>

definition validatePlanExperimentSemantics :: "'h host_scheme \<Rightarrow> inventory \<Rightarrow> diagnostic list" where
  "validatePlanExperimentSemantics h v =
    (let plans = filter (\<lambda>(d, p). \<not> id_is_zero (pl_result p)) (of_kind h v KindPlan rec_plan) in
     concat (map (\<lambda>(d, p). at_document d
       (case the_record v (pl_result p) rec_experiment of
          None \<Rightarrow> []
        | Some e \<Rightarrow>
           flag (pl_state p = PlanStarted \<and> ex_lifecycle e \<noteq> LifecycleActive) ''plan.experiment_state'' @
           flag (pl_state p = PlanCompleted \<and> ex_lifecycle e \<noteq> LifecycleClosed) ''plan.experiment_state'')) plans) @
     shared (map (\<lambda>(d, p). (d, pl_result p)) plans) ''experiment.multiple_origin_plans'')"

section \<open>Promotions\<close>

definition roots_of :: "(document \<times> promotion) list \<Rightarrow> string \<Rightarrow> (document \<times> promotion) list" where
  "roots_of ps t = filter (\<lambda>(d, p). id_is_zero (pr_previous p) \<and> pr_target p = t) ps"

definition followers_of :: "(document \<times> promotion) list \<Rightarrow> typed_id \<Rightarrow> (document \<times> promotion) list" where
  "followers_of ps i = filter (\<lambda>(d, p). \<not> id_is_zero (pr_previous p) \<and> pr_previous p = i) ps"

definition rollback_target :: "promotion option \<Rightarrow> typed_id" where
  "rollback_target setting = (case setting of None \<Rightarrow> zero_id | Some p \<Rightarrow> pr_incumbent p)"

definition champion_codes :: "promotion \<Rightarrow> typed_id \<Rightarrow> promotion option \<Rightarrow> string list" where
  "champion_codes p champion setting =
    flag (pr_incumbent p \<noteq> champion) ''promotion.incumbent_mismatch'' @
    (case pr_outcome p of
       PromotionAccepted \<Rightarrow> flag (pr_challenger p = champion) ''promotion.challenger_is_champion''
     | PromotionRejected \<Rightarrow> flag (pr_challenger p = champion) ''promotion.challenger_is_champion''
     | PromotionRolledBack \<Rightarrow>
         flag (id_is_zero (rollback_target setting) \<or> pr_challenger p \<noteq> rollback_target setting) ''promotion.rollback_incumbent''
     | PromotionOutcomeOther _ \<Rightarrow> [])"

definition crowns :: "promotion \<Rightarrow> bool" where
  "crowns p \<longleftrightarrow> pr_outcome p = PromotionAccepted \<or> pr_outcome p = PromotionRolledBack"

text \<open>The walk along one chain of Promotions; each step visits a new one, so the number of Promotions
  is enough fuel.\<close>

fun champion_walk :: "(document \<times> promotion) list \<Rightarrow> nat \<Rightarrow> typed_id list \<Rightarrow> typed_id \<Rightarrow> promotion option \<Rightarrow> document \<times> promotion \<Rightarrow>
    diagnostic list" where
  "champion_walk ps 0 visited champion setting now = []"
| "champion_walk ps (Suc n) visited champion setting (d, p) =
    (if c_id p \<in> set visited then []
     else
       at_document d (champion_codes p champion setting) @
       (case followers_of ps (c_id p) of
          [next_one] \<Rightarrow> champion_walk ps n (c_id p # visited) (if crowns p then pr_challenger p else champion)
            (if crowns p then Some p else setting) next_one
        | _ \<Rightarrow> []))"

definition promotion_record_codes :: "inventory \<Rightarrow> promotion \<Rightarrow> string list" where
  "promotion_record_codes v p =
    (case the_record v (pr_challenger p) rec_release of
       None \<Rightarrow> [] | Some r \<Rightarrow> flag (rl_state r \<noteq> ReleaseValidated) ''promotion.challenger_state'') @
    (case (the_record v (pr_spec p) rec_promotion_spec, the_record v (pr_evaluation p) rec_evaluation) of
       (Some s, Some e) \<Rightarrow> flag (\<not> time_after (el_evaluated e) (ps_sealed s)) ''promotion.holdout_stale''
     | _ \<Rightarrow> [])"

definition validatePromotionSemantics :: "'h host_scheme \<Rightarrow> inventory \<Rightarrow> diagnostic list" where
  "validatePromotionSemantics h v =
    (let ps = of_kind h v KindPromotion rec_promotion in
     concat (map (\<lambda>(d, p). at_document d (promotion_record_codes v p)) ps) @
     shared (map (\<lambda>(d, p). (d, pr_evaluation p)) (filter (\<lambda>(d, p). \<not> id_is_zero (pr_evaluation p)) ps)) ''promotion.holdout_reused'' @
     concat (map (\<lambda>t. case roots_of ps t of
         [start] \<Rightarrow> champion_walk ps (length ps) [] zero_id None start
       | _ \<Rightarrow> []) (remdups (map (\<lambda>(d, p). pr_target p) (filter (\<lambda>(d, p). id_is_zero (pr_previous p)) ps)))))"

definition validatePromotionForks :: "'h host_scheme \<Rightarrow> inventory \<Rightarrow> diagnostic list" where
  "validatePromotionForks h v =
    (let ps = of_kind h v KindPromotion rec_promotion in
     shared (map (\<lambda>(d, p). (d, pr_previous p)) (filter (\<lambda>(d, p). \<not> id_is_zero (pr_previous p)) ps)) ''promotion.chain_fork'' @
     shared (map (\<lambda>(d, p). (d, pr_target p)) (filter (\<lambda>(d, p). id_is_zero (pr_previous p)) ps)) ''promotion.multiple_roots'')"

section \<open>Cycles\<close>

text \<open>
  The depth-first search of \<open>findCycles\<close>. A node is finished (state 2), on the stack (state 1) or new;
  the stack has its top in front, so the members from the position of a node on the stack are the
  ones in front of it and the node. The pair holds the finished nodes and the members of cycles
  found. The stack never repeats a node, so the number of nodes is enough fuel.
\<close>

definition cycle_members :: "'a list \<Rightarrow> 'a \<Rightarrow> 'a list" where
  "cycle_members stack t = takeWhile (\<lambda>x. x \<noteq> t) stack @ [t]"

fun visit :: "('a \<Rightarrow> 'a list) \<Rightarrow> nat \<Rightarrow> 'a list \<Rightarrow> 'a \<Rightarrow> 'a list \<times> 'a list \<Rightarrow> 'a list \<times> 'a list" where
  "visit g 0 stack x s = s"
| "visit g (Suc n) stack x s =
    (case fold (\<lambda>t (finished, cyclic).
        if t \<in> set finished then (finished, cyclic)
        else if t \<in> set (x # stack) then (finished, cycle_members (x # stack) t @ cyclic)
        else visit g n (x # stack) t (finished, cyclic)) (g x) s of
       (finished, cyclic) \<Rightarrow> (x # finished, cyclic))"

definition cyclic_nodes :: "('a \<Rightarrow> 'a list) \<Rightarrow> 'a list \<Rightarrow> 'a list" where
  "cyclic_nodes g nodes =
    snd (fold (\<lambda>x (finished, cyclic). if x \<in> set finished then (finished, cyclic)
      else visit g (length nodes) [] x (finished, cyclic)) nodes ([], []))"

definition by_text_id :: "'h host_scheme \<Rightarrow> typed_id \<Rightarrow> typed_id \<Rightarrow> bool" where
  "by_text_id h i j \<longleftrightarrow> id_string h i < id_string h j"

definition graph_nodes :: "'h host_scheme \<Rightarrow> inventory \<Rightarrow> kind \<Rightarrow> typed_id list" where
  "graph_nodes h v k = stable_sort (by_text_id h)
     (filter (\<lambda>i. id_kind_of i = k \<and> unique v i \<noteq> None) (remdups (List.map_filter document_id (in_documents v))))"

definition graph_edges :: "'h host_scheme \<Rightarrow> inventory \<Rightarrow> kind \<Rightarrow> (research_record \<Rightarrow> typed_id list) \<Rightarrow> typed_id \<Rightarrow> typed_id list" where
  "graph_edges h v k edges i =
    (case the_record v i Some of
       None \<Rightarrow> []
     | Some r \<Rightarrow> stable_sort (by_text_id h) (filter (\<lambda>t. id_kind_of t = k \<and> unique v t \<noteq> None) (edges r)))"

definition findCycles :: "'h host_scheme \<Rightarrow> inventory \<Rightarrow> kind \<Rightarrow> (research_record \<Rightarrow> typed_id list) \<Rightarrow> diagnostic list" where
  "findCycles h v k edges =
    concat (map (\<lambda>i. case unique v i of None \<Rightarrow> [] | Some d \<Rightarrow> [(d_path d, ''reference.cycle'')])
      (stable_sort (by_text_id h) (remdups (cyclic_nodes (graph_edges h v k edges) (graph_nodes h v k)))))"

definition optional_edge :: "typed_id \<Rightarrow> typed_id list" where
  "optional_edge i = (if id_is_zero i then [] else [i])"

fun kind_edges :: "research_record \<Rightarrow> typed_id list" where
  "kind_edges (RecIdea a) = ia_parents a @ optional_edge (ia_merged a)"
| "kind_edges (RecFinding f) = fi_weakens f @ fi_overturns f"
| "kind_edges (RecDecision x) = dn_supersedes x"
| "kind_edges (RecExperiment e) =
    ex_parents e @ (case ex_detail e of None \<Rightarrow> [] | Some d \<Rightarrow> optional_edge (cl_superseded d))"
| "kind_edges (RecCandidate c) = ca_parents c"
| "kind_edges (RecPromotion p) = optional_edge (pr_previous p)"
| "kind_edges _ = []"

definition cycle_kinds :: "kind list" where
  "cycle_kinds = [KindIdea, KindFinding, KindDecision, KindExperiment, KindCandidate, KindPromotion]"

definition validateCycles :: "'h host_scheme \<Rightarrow> inventory \<Rightarrow> diagnostic list" where
  "validateCycles h v = concat (map (\<lambda>k. findCycles h v k kind_edges) cycle_kinds) @ validatePromotionForks h v"

end
