(* ===== verification/Exp_Candidates.thy ===== *)
theory Exp_Candidates
  imports Exp_Graph
begin

text \<open>
  Building an inventory from candidate documents, its final report, and its lookups
  (\<^verbatim>\<open>internal/record/inventory.go\<close>, \<^verbatim>\<open>migration_codec.go\<close>, the native branch of
  \<^verbatim>\<open>migration_provenance.go\<close>).
\<close>

section \<open>Imported identities\<close>

definition validateImportedProvenance :: "'h inventory_host_scheme \<Rightarrow> inventory \<Rightarrow> diagnostic list" where
  "validateImportedProvenance h v =
    (case in_project v of
       None \<Rightarrow> []
     | Some project \<Rightarrow>
        (if inventoryUsesImportedProject h v
         then (case view rec_project project of None \<Rightarrow> [] | Some p \<Rightarrow> ih_imported h (in_documents v) p)
         else concat (map (\<lambda>d. case document_id d of
           None \<Rightarrow> [] | Some i \<Rightarrow> at_document d (flag (IsImported h i) ''migration.project_identity'')) (in_documents v))))"

section \<open>Building an inventory\<close>

definition diagnostic_before :: "diagnostic \<Rightarrow> diagnostic \<Rightarrow> bool" where
  "diagnostic_before a b \<longleftrightarrow> (if fst a \<noteq> fst b then fst a < fst b else snd a < snd b)"

definition sortDiagnostics :: "diagnostic list \<Rightarrow> diagnostic list" where
  "sortDiagnostics ds = remdups_adj (stable_sort diagnostic_before ds)"

definition by_path :: "document \<Rightarrow> document \<Rightarrow> bool" where
  "by_path a b \<longleftrightarrow> d_path a < d_path b"

definition singleton_diagnostics :: "document list \<Rightarrow> diagnostic list" where
  "singleton_diagnostics ds =
    (let projects = length (filter (\<lambda>d. document_kind d = KindProject) ds);
         policies = length (filter (\<lambda>d. document_kind d = KindPolicy) ds) in
     (if projects = 0 then [(ProjectFile, ''project.missing'')]
      else if 1 < projects then [(ProjectFile, ''project.multiple'')] else []) @
     (if 1 < policies then [(PolicyFile, ''policy.multiple'')] else []))"

definition indexed :: "document list \<Rightarrow> (string \<Rightarrow> location option) \<Rightarrow> inventory" where
  "indexed ds locations =
    \<lparr>in_project = find (\<lambda>d. document_kind d = KindProject) ds, in_policy = find (\<lambda>d. document_kind d = KindPolicy) ds,
     in_documents = ds, in_diagnostics = [], in_locations = locations\<rparr>"

definition problems :: "'h inventory_host_scheme \<Rightarrow> bool \<Rightarrow> inventory \<Rightarrow> diagnostic list" where
  "problems h skipImportedProvenance v =
    singleton_diagnostics (in_documents v) @ validateDuplicates v @
    (if skipImportedProvenance then [] else validateImportedProvenance h v) @
    validateEvaluationMLflowOwnership h v @ validateRelationships h v @ validateTryClosureSemantics h v @
    validateTryRetrySemantics h v @ validatePlanExperimentSemantics h v @ validatePromotionSemantics h v @ validateCycles h v"

definition finalize :: "'h inventory_host_scheme \<Rightarrow> bool \<Rightarrow> document list \<Rightarrow> (string \<Rightarrow> location option) \<Rightarrow> diagnostic list \<Rightarrow> inventory" where
  "finalize h skipImportedProvenance ds locations found =
    (let v = indexed (stable_sort by_path ds) locations in
     v\<lparr>in_diagnostics := sortDiagnostics (found @ problems h skipImportedProvenance v)\<rparr>)"

definition contained :: "'h inventory_host_scheme \<Rightarrow> bool \<Rightarrow> string \<Rightarrow> string list" where
  "contained h allowRoot p = (case ih_contained h p allowRoot of None \<Rightarrow> [] | Some code \<Rightarrow> [code])"

fun containment_codes :: "'h inventory_host_scheme \<Rightarrow> research_record \<Rightarrow> string list" where
  "containment_codes h (RecRun r) = concat (map (contained h False) (ru_outputs r))"
| "containment_codes h (RecAttempt a) =
    (if c_schema a = SchemaAttemptV3 then []
     else contained h True (at_cwd a) @ concat (map (contained h False) (slice (at_changes a))))"
| "containment_codes h (RecCandidate c) =
    (if c_schema c = SchemaCandidate then concat (map (contained h False) (slice (ca_changes c))) else [])"
| "containment_codes h _ = []"

definition validateCommittedPathContainment :: "'h inventory_host_scheme \<Rightarrow> document \<Rightarrow> diagnostic list" where
  "validateCommittedPathContainment h d =
    (case d_record d of None \<Rightarrow> [] | Some r \<Rightarrow> at_document d (containment_codes h r))"

definition validation_codes :: "(rat \<Rightarrow> go_float) \<Rightarrow> 'h inventory_host_scheme \<Rightarrow> bool \<Rightarrow> document \<Rightarrow> string list" where
  "validation_codes rnd h imported d =
    (if imported then (case ValidateImported rnd h (d_record d) of
       None \<Rightarrow> [] | Some (Remaining issues) \<Rightarrow> map fst issues | Some ImportIdentity \<Rightarrow> [''record.io''])
     else map fst (Validate rnd h (d_record d)))"

definition document_revision :: "(rat \<Rightarrow> go_float) \<Rightarrow> 'h inventory_host_scheme \<Rightarrow> bool \<Rightarrow> document \<Rightarrow> (string, string) result" where
  "document_revision rnd h imported d =
    revisionWithEncoder h (if imported then EncodeImported rnd h else Encode rnd h) d"

text \<open>A refusal of the normal form is reported by its issues.\<close>

definition revision_codes :: "(rat \<Rightarrow> go_float) \<Rightarrow> 'h inventory_host_scheme \<Rightarrow> bool \<Rightarrow> document \<Rightarrow> string \<Rightarrow> string list" where
  "revision_codes rnd h imported d code =
    (if code = ''record.invalid'' then validation_codes rnd h imported (d\<lparr>d_record := map_option (Normalize h) (d_record d)\<rparr>) else [code])"

text \<open>One document of a candidate: refused with codes, or kept with its location.\<close>

definition candidate_document :: "(rat \<Rightarrow> go_float) \<Rightarrow> 'h inventory_host_scheme \<Rightarrow> bool \<Rightarrow> document \<Rightarrow>
    diagnostic list \<times> (document \<times> location) option" where
  "candidate_document rnd h imported d =
    (if validation_codes rnd h imported d \<noteq> [] then (at_document d (validation_codes rnd h imported d), None)
     else case ClassifyPath h (d_path d) of
       Canonical location \<Rightarrow>
         (if \<not> ValidateDocumentPath h location d then (at_document d [''record.invalid_path''], None)
          else case document_revision rnd h imported d of
            Inl code \<Rightarrow> (validateCommittedPathContainment h d @ at_document d (revision_codes rnd h imported d code), None)
          | Inr revision \<Rightarrow> (validateCommittedPathContainment h d, Some (d\<lparr>d_revision := revision\<rparr>, location)))
     | _ \<Rightarrow> (at_document d [''record.invalid_path''], None))"

fun first_paths :: "string list \<Rightarrow> document list \<Rightarrow> document list \<times> diagnostic list" where
  "first_paths seen [] = ([], [])"
| "first_paths seen (d # ds) =
    (if d_path d \<in> set seen then
       (case first_paths seen ds of (kept, found) \<Rightarrow> (kept, (d_path d, ''record.duplicate_path'') # found))
     else (case first_paths (d_path d # seen) ds of (kept, found) \<Rightarrow> (d # kept, found)))"

definition inventoryFromDocuments :: "(rat \<Rightarrow> go_float) \<Rightarrow> 'h inventory_host_scheme \<Rightarrow> document list \<Rightarrow> bool \<Rightarrow> inventory" where
  "inventoryFromDocuments rnd h documents imported =
    (case first_paths [] documents of
       (kept, duplicates) \<Rightarrow>
         (let results = map (candidate_document rnd h imported) kept; accepted = List.map_filter snd results in
          finalize h imported (map fst accepted) (map_of (map (\<lambda>(d, l). (d_path d, l)) accepted))
            (duplicates @ concat (map fst results))))"

definition InventoryFromDocuments :: "(rat \<Rightarrow> go_float) \<Rightarrow> 'h inventory_host_scheme \<Rightarrow> document list \<Rightarrow> inventory" where
  "InventoryFromDocuments rnd h documents = inventoryFromDocuments rnd h documents False"

definition InventoryFromMigratedDocuments :: "(rat \<Rightarrow> go_float) \<Rightarrow> 'h inventory_host_scheme \<Rightarrow> document list \<Rightarrow> inventory" where
  "InventoryFromMigratedDocuments rnd h documents = inventoryFromDocuments rnd h documents True"

definition candidateInventoryForBase :: "(rat \<Rightarrow> go_float) \<Rightarrow> 'h inventory_host_scheme \<Rightarrow> document list \<Rightarrow> inventory \<Rightarrow> inventory" where
  "candidateInventoryForBase rnd h documents base =
    (if inventoryUsesImportedProject h base then InventoryFromMigratedDocuments rnd h documents
     else InventoryFromDocuments rnd h documents)"

section \<open>Lookups\<close>

definition BySourceKey :: "inventory \<Rightarrow> string \<Rightarrow> (research_error, document) result" where
  "BySourceKey v key =
    (case filter (\<lambda>d. case view rec_source d of None \<Rightarrow> False | Some s \<Rightarrow> so_key s = key) (in_documents v) of
       [] \<Rightarrow> Inl ErrReferenceNotFound
     | [d] \<Rightarrow> Inr d
     | _ \<Rightarrow> Inl ErrAmbiguousReference)"

definition document_candidate :: "document \<Rightarrow> reference_candidate option" where
  "document_candidate d =
    (case (document_id d, d_record d) of
       (Some i, Some r) \<Rightarrow> Some \<lparr>rc_id = i, rc_aliases = (case GetCommon r of None \<Rightarrow> [] | Some c \<Rightarrow> c_aliases c)\<rparr>
     | _ \<Rightarrow> None)"

definition ResolveDocument :: "'h host_scheme \<Rightarrow> inventory \<Rightarrow> string \<Rightarrow> kind \<Rightarrow> (research_error, document) result" where
  "ResolveDocument h v query expected =
    andThen (Resolve h query expected (List.map_filter document_candidate (in_documents v))) (ByID v)"

definition ResolveSource :: "'h host_scheme \<Rightarrow> inventory \<Rightarrow> string \<Rightarrow> (research_error, document) result" where
  "ResolveSource h v query0 =
    (let query = trim_space query0; direct = ResolveDocument h v query KindSource in
     case direct of
       Inr d \<Rightarrow> Inr d
     | Inl ErrAmbiguousReference \<Rightarrow> direct
     | Inl _ \<Rightarrow>
        (case NormalizeSourceKey query of
           None \<Rightarrow> direct
         | Some key \<Rightarrow>
            (case BySourceKey v key of
               Inr d \<Rightarrow> Inr d
             | Inl ErrAmbiguousReference \<Rightarrow> Inl ErrAmbiguousReference
             | Inl _ \<Rightarrow> direct)))"

end
