(* ===== verification/Exp_Cycle_Theorems.thy ===== *)
theory Exp_Cycle_Theorems
  imports Exp_Graph
begin

text \<open>
  The cycle search reports exactly the graphs that have a cycle, and only nodes that lie on one. The
  stack of the search is a path, the finished nodes are in topological order as long as no cycle was
  found, and the fuel never runs out because the stack does not repeat a node.
\<close>

definition edges_in :: "('a \<Rightarrow> 'a list) \<Rightarrow> 'a set \<Rightarrow> ('a \<times> 'a) set" where
  "edges_in g N = {(x, y). x \<in> N \<and> y \<in> set (g x)}"

definition path_up :: "('a \<Rightarrow> 'a list) \<Rightarrow> 'a list \<Rightarrow> bool" where
  "path_up g stack \<longleftrightarrow> successively (\<lambda>x y. x \<in> set (g y)) stack"

fun topological :: "('a \<Rightarrow> 'a list) \<Rightarrow> 'a list \<Rightarrow> bool" where
  "topological g [] \<longleftrightarrow> True"
| "topological g (x # xs) \<longleftrightarrow> set (g x) \<subseteq> set xs \<and> topological g xs"

definition search_ok :: "('a \<Rightarrow> 'a list) \<Rightarrow> 'a set \<Rightarrow> 'a list \<Rightarrow> 'a list \<times> 'a list \<Rightarrow> bool" where
  "search_ok g N stack s \<longleftrightarrow>
    set (fst s) \<subseteq> N \<and> set (fst s) \<inter> set stack = {} \<and> distinct (fst s) \<and>
    (\<forall>c\<in>set (snd s). (c, c) \<in> (edges_in g N)\<^sup>+) \<and> (snd s = [] \<longrightarrow> topological g (fst s))"

definition extends :: "'a list \<times> 'a list \<Rightarrow> 'a list \<times> 'a list \<Rightarrow> bool" where
  "extends s s' \<longleftrightarrow> set (fst s) \<subseteq> set (fst s') \<and> (snd s' = [] \<longrightarrow> snd s = [])"

lemma extends_refl [simp]: "extends s s"
  by (simp add: extends_def)

lemma extends_trans: "extends s t \<Longrightarrow> extends t u \<Longrightarrow> extends s u"
  by (auto simp: extends_def)

section \<open>The stack is a path\<close>

lemma path_to_top:
  "path_up g stack \<Longrightarrow> set stack \<subseteq> N \<Longrightarrow> c \<in> set stack \<Longrightarrow> (c, hd stack) \<in> (edges_in g N)\<^sup>*"
proof (induction stack)
  case (Cons x stack)
  show ?case
  proof (cases "c = x \<or> stack = []")
    case False
    then obtain y rest where stack: "stack = y # rest" by (cases stack) auto
    with Cons False have "(c, y) \<in> (edges_in g N)\<^sup>*" by (auto simp: path_up_def)
    moreover have "(y, x) \<in> edges_in g N" using Cons.prems(1,2) by (simp add: path_up_def stack edges_in_def)
    ultimately show ?thesis by simp
  qed (use Cons.prems in auto)
qed simp

lemma path_tail: "path_up g (x # stack) \<Longrightarrow> path_up g stack"
  by (cases stack) (simp_all add: path_up_def)

lemma path_from_member:
  "path_up g stack \<Longrightarrow> set stack \<subseteq> N \<Longrightarrow> t \<in> set stack \<Longrightarrow> c \<in> set (takeWhile (\<lambda>x. x \<noteq> t) stack) \<Longrightarrow>
    (t, c) \<in> (edges_in g N)\<^sup>*"
proof (induction stack)
  case (Cons x stack)
  then have t: "x \<noteq> t" "t \<in> set stack" by (auto split: if_splits)
  show ?case
  proof (cases "c = x")
    case True
    with path_to_top [OF Cons.prems(1,2,3)] show ?thesis by simp
  next
    case False
    with Cons t path_tail [OF Cons.prems(1)] show ?thesis by auto
  qed
qed simp

lemma members_on_cycle:
  assumes "path_up g (x # stack)" and "set (x # stack) \<subseteq> N" and "t \<in> set (x # stack)" and "t \<in> set (g x)"
    and "c \<in> set (cycle_members (x # stack) t)"
  shows "(c, c) \<in> (edges_in g N)\<^sup>+"
proof -
  have "set (takeWhile (\<lambda>y. y \<noteq> t) (x # stack)) \<subseteq> set (x # stack)" by (meson set_takeWhileD subsetI)
  with assms(3,5) have c: "c \<in> set (x # stack)" unfolding cycle_members_def set_append list.set by blast
  have up: "(c, x) \<in> (edges_in g N)\<^sup>*" using path_to_top [OF assms(1,2) c] by simp
  have down: "(t, c) \<in> (edges_in g N)\<^sup>*"
    using assms(5) path_from_member [OF assms(1-3), of c] unfolding cycle_members_def set_append list.set by blast
  have "(x, t) \<in> edges_in g N" using assms(2,4) by (simp add: edges_in_def)
  with up down show ?thesis by (meson rtrancl_into_trancl1 trancl_rtrancl_trancl)
qed

section \<open>A topological order has no cycle\<close>

lemma topological_closed: "topological g xs \<Longrightarrow> x \<in> set xs \<Longrightarrow> set (g x) \<subseteq> set xs"
  by (induction xs) auto

lemma topological_reach:
  assumes "(x, y) \<in> (edges_in g N)\<^sup>+" and "topological g xs" and "x \<in> set xs"
  shows "y \<in> set xs"
  using assms(1)
proof induction
  case (base z)
  then show ?case using topological_closed [OF assms(2,3)] by (auto simp: edges_in_def)
next
  case (step z w)
  then show ?case using topological_closed [OF assms(2), of z] by (auto simp: edges_in_def)
qed

lemma topological_acyclic: "topological g xs \<Longrightarrow> distinct xs \<Longrightarrow> x \<in> set xs \<Longrightarrow> (x, x) \<notin> (edges_in g N)\<^sup>+"
proof (induction xs)
  case (Cons y ys)
  show ?case
  proof (cases "x = y")
    case False
    with Cons show ?thesis by auto
  next
    case True
    show ?thesis
    proof
      assume cycle: "(x, x) \<in> (edges_in g N)\<^sup>+"
      then obtain z where z: "(x, z) \<in> edges_in g N" "(z, x) \<in> (edges_in g N)\<^sup>*" by (meson tranclD)
      then have "z \<in> set ys" using Cons.prems(1) True by (auto simp: edges_in_def)
      with z(2) have "x \<in> set ys"
        using topological_reach [of z x g N ys] Cons.prems(1) by (auto simp: rtrancl_eq_or_trancl)
      with True Cons.prems(2) show False by simp
    qed
  qed
qed simp

section \<open>The search\<close>

lemma search_push: "search_ok g N stack s \<Longrightarrow> x \<notin> set (fst s) \<Longrightarrow> search_ok g N (x # stack) s"
  by (auto simp: search_ok_def)

lemma fuel_left: "finite N \<Longrightarrow> card N \<le> n + length stack \<Longrightarrow> set stack \<subseteq> N \<Longrightarrow> distinct stack \<Longrightarrow> x \<in> N \<Longrightarrow> x \<notin> set stack \<Longrightarrow> n \<noteq> 0"
  using card_mono [of N "set (x # stack)"] distinct_card [of "x # stack"] by auto

definition target_step :: "('a \<Rightarrow> 'a list) \<Rightarrow> nat \<Rightarrow> 'a list \<Rightarrow> 'a \<Rightarrow> 'a list \<times> 'a list \<Rightarrow> 'a list \<times> 'a list" where
  "target_step g n stack t s =
    (if t \<in> set (fst s) then s
     else if t \<in> set stack then (fst s, cycle_members stack t @ snd s)
     else visit g n stack t s)"

lemma visit_Suc: "visit g (Suc n) stack x s =
    (let s' = fold (target_step g n (x # stack)) (g x) s in (x # fst s', snd s'))"
proof -
  have "(\<lambda>t (finished, cyclic). if t \<in> set finished then (finished, cyclic)
      else if t \<in> set (x # stack) then (finished, cycle_members (x # stack) t @ cyclic)
      else visit g n (x # stack) t (finished, cyclic)) = target_step g n (x # stack)"
    by (auto simp: target_step_def fun_eq_iff)
  then show ?thesis by (simp add: Let_def case_prod_beta)
qed

lemma visit_ok:
  assumes "finite N" and "\<forall>x\<in>N. set (g x) \<subseteq> N"
  shows "card N \<le> n + length stack \<Longrightarrow> set (x # stack) \<subseteq> N \<Longrightarrow> distinct (x # stack) \<Longrightarrow> path_up g (x # stack) \<Longrightarrow>
    search_ok g N stack s \<Longrightarrow> x \<notin> set (fst s) \<Longrightarrow>
    search_ok g N stack (visit g n stack x s) \<and> extends s (visit g n stack x s) \<and> x \<in> set (fst (visit g n stack x s))"
proof (induction n arbitrary: stack x s)
  case 0
  then show ?case using fuel_left [OF assms(1), of 0 stack x] by simp
next
  case (Suc n)
  let ?stack = "x # stack"
  have targets: "set ts \<subseteq> set (g x) \<Longrightarrow> search_ok g N ?stack s \<Longrightarrow>
      search_ok g N ?stack (fold (target_step g n ?stack) ts s) \<and> extends s (fold (target_step g n ?stack) ts s) \<and>
      (snd (fold (target_step g n ?stack) ts s) = [] \<longrightarrow> set ts \<subseteq> set (fst (fold (target_step g n ?stack) ts s)))" for ts s
  proof (induction ts arbitrary: s)
    case (Cons t ts)
    let ?s = "target_step g n ?stack t s"
    have t: "t \<in> set (g x)" "t \<in> N" using Cons.prems(1) assms(2) Suc.prems(2) by auto
    have step: "search_ok g N ?stack ?s \<and> extends s ?s \<and> (snd ?s = [] \<longrightarrow> t \<in> set (fst ?s))"
    proof (cases "t \<in> set (fst s)")
      case True
      with Cons.prems(2) show ?thesis by (simp add: target_step_def)
    next
      case new: False
      show ?thesis
      proof (cases "t \<in> set ?stack")
        case True
        have "\<forall>c\<in>set (cycle_members ?stack t). (c, c) \<in> (edges_in g N)\<^sup>+"
          using members_on_cycle [OF Suc.prems(4,2) True t(1)] by blast
        with Cons.prems(2) new True show ?thesis
          by (auto simp: target_step_def search_ok_def extends_def cycle_members_def)
      next
        case False
        have "card N \<le> n + length ?stack" "set (t # ?stack) \<subseteq> N" "distinct (t # ?stack)" "path_up g (t # ?stack)"
          using Suc.prems(1-4) t False by (simp_all add: path_up_def)
        from Suc.IH [OF this Cons.prems(2) new] new False show ?thesis by (simp add: target_step_def)
      qed
    qed
    have "set ts \<subseteq> set (g x)" using Cons.prems(1) by simp
    note rest = Cons.IH [OF this conjunct1 [OF step]]
    have "t \<in> set (fst (fold (target_step g n ?stack) ts ?s))"
      if "snd (fold (target_step g n ?stack) ts ?s) = []"
      using that rest step by (auto simp: extends_def)
    with rest step show ?case by (auto intro: extends_trans)
  qed simp
  let ?s = "fold (target_step g n ?stack) (g x) s"
  have finish: "search_ok g N ?stack ?s" "extends s ?s" "snd ?s = [] \<longrightarrow> set (g x) \<subseteq> set (fst ?s)"
    using targets [OF order_refl search_push [OF Suc.prems(5,6)]] by blast+
  then have "search_ok g N stack (x # fst ?s, snd ?s)" using Suc.prems(2,3) by (auto simp: search_ok_def)
  with finish(2) show ?case unfolding visit_Suc Let_def by (auto simp: extends_def)
qed

theorem cyclic_nodes_ok:
  assumes "distinct nodes" and "\<forall>x\<in>set nodes. set (g x) \<subseteq> set nodes"
  shows "set (cyclic_nodes g nodes) \<subseteq> {x. (x, x) \<in> (edges_in g (set nodes))\<^sup>+}"
    and "cyclic_nodes g nodes = [] \<longleftrightarrow> acyclic (edges_in g (set nodes))"
proof -
  let ?N = "set nodes" and ?step = "\<lambda>x s. if x \<in> set (fst s) then s else visit g (length nodes) [] x s"
  have code: "(\<lambda>x (finished, cyclic). if x \<in> set finished then (finished, cyclic)
      else visit g (length nodes) [] x (finished, cyclic)) = ?step" by (auto simp: fun_eq_iff)
  have run: "set xs \<subseteq> ?N \<Longrightarrow> search_ok g ?N [] s \<Longrightarrow>
      search_ok g ?N [] (fold ?step xs s) \<and> extends s (fold ?step xs s) \<and> set xs \<subseteq> set (fst (fold ?step xs s))" for xs s
  proof (induction xs arbitrary: s)
    case (Cons x xs)
    have step: "search_ok g ?N [] (?step x s) \<and> extends s (?step x s) \<and> x \<in> set (fst (?step x s))"
    proof (cases "x \<in> set (fst s)")
      case False
      have "card ?N \<le> length nodes + length []" "set [x] \<subseteq> ?N" "distinct [x]" "path_up g [x]"
        using Cons.prems(1) distinct_card [OF assms(1)] by (simp_all add: path_up_def)
      from visit_ok [OF finite_set assms(2) this Cons.prems(2) False] False show ?thesis by simp
    qed (use Cons.prems(2) in simp)
    have "set xs \<subseteq> ?N" using Cons.prems(1) by simp
    note rest = Cons.IH [OF this conjunct1 [OF step]]
    then have "x \<in> set (fst (fold ?step xs (?step x s)))" using step by (auto simp: extends_def)
    with rest step show ?case unfolding fold_simps by (auto intro: extends_trans)
  qed simp
  let ?s = "fold ?step nodes ([], [])"
  have final: "search_ok g ?N [] ?s" "?N \<subseteq> set (fst ?s)"
    using run [OF order_refl, of "([], [])"] by (simp_all add: search_ok_def)
  have nodes: "cyclic_nodes g nodes = snd ?s" by (simp add: cyclic_nodes_def code)
  show sound: "set (cyclic_nodes g nodes) \<subseteq> {x. (x, x) \<in> (edges_in g ?N)\<^sup>+}"
    using final(1) by (auto simp: nodes search_ok_def)
  have "acyclic (edges_in g ?N)" if "snd ?s = []"
  proof -
    have "topological g (fst ?s)" "distinct (fst ?s)" using final(1) that by (simp_all add: search_ok_def)
    note none = topological_acyclic [OF this]
    have "(x, x) \<notin> (edges_in g ?N)\<^sup>+" if "x \<in> ?N" for x
      using none that final(2) by (meson subsetD)
    moreover have "(x, x) \<in> (edges_in g ?N)\<^sup>+ \<Longrightarrow> x \<in> ?N" for x by (drule tranclD) (auto simp: edges_in_def)
    ultimately show ?thesis unfolding acyclic_def by blast
  qed
  moreover have "snd ?s = []" if "acyclic (edges_in g ?N)"
    using that sound unfolding nodes acyclic_def by (cases "snd ?s") auto
  ultimately show "cyclic_nodes g nodes = [] \<longleftrightarrow> acyclic (edges_in g ?N)" unfolding nodes by blast
qed

end
