(* ===== verification/Exp_Inventory_Theorems.thy ===== *)
theory Exp_Inventory_Theorems
  imports Exp_Candidates Exp_Cycle_Theorems
begin

text \<open>
  What a valid inventory guarantees: every reference of every record resolves to one record of the
  right kind, the relations of each kind have no cycle, and the Promotions of a target form one chain
  whose champions are consistent.
\<close>

named_theorems code_rules \<open>when a rule of the inventory reports nothing\<close>

section \<open>Cycles\<close>

text \<open>The relation of one kind: its edges between records that are unique in the inventory.\<close>

definition kind_relation :: "inventory \<Rightarrow> kind \<Rightarrow> (research_record \<Rightarrow> typed_id list) \<Rightarrow> (typed_id \<times> typed_id) set" where
  "kind_relation v k edges = {(i, j). id_kind_of i = k \<and> id_kind_of j = k \<and> unique v j \<noteq> None \<and>
     (\<exists>r. the_record v i Some = Some r \<and> j \<in> set (edges r))}"

lemma with_document_id_mem: "d \<in> set (with_document_id i ds) \<Longrightarrow> d \<in> set ds \<and> document_id d = Some i"
  by (simp add: with_document_id_def)

lemma unique_mem: "unique v i = Some d \<Longrightarrow> d \<in> set (in_documents v) \<and> document_id d = Some i"
  using with_document_id_mem [of d i "in_documents v"] by (auto simp: unique_def split: list.splits)

lemma graph_nodes_iff: "i \<in> set (graph_nodes h v k) \<longleftrightarrow> id_kind_of i = k \<and> unique v i \<noteq> None"
  using unique_mem [of v i] by (force simp: graph_nodes_def List.map_filter_def)

lemma distinct_graph_nodes: "distinct (graph_nodes h v k)"
  unfolding graph_nodes_def by (metis distinct_filter distinct_remdups mset_eq_imp_distinct_iff mset_stable_sort)

lemma graph_edges_set: "set (graph_edges h v k edges i) =
    {j. id_kind_of j = k \<and> unique v j \<noteq> None \<and> (\<exists>r. the_record v i Some = Some r \<and> j \<in> set (edges r))}"
  by (cases "the_record v i Some") (auto simp: graph_edges_def)

lemma the_record_unique: "the_record v i sel = Some r \<Longrightarrow> unique v i \<noteq> None"
  by (auto simp: the_record_def split: option.splits)

lemma edges_in_relation: "edges_in (graph_edges h v k edges) (set (graph_nodes h v k)) = kind_relation v k edges"
  unfolding edges_in_def kind_relation_def graph_edges_set graph_nodes_iff by (blast dest: the_record_unique)

text \<open>
  C27: the cycle search reports something exactly when the relation of the kind has a cycle, and it
  only reports records that lie on one.
\<close>

theorem findCycles_exact:
  "(findCycles h v k edges = [] \<longleftrightarrow> acyclic (kind_relation v k edges)) \<and>
   set (findCycles h v k edges) \<subseteq>
     {(d_path d, ''reference.cycle'') |i d. unique v i = Some d \<and> (i, i) \<in> (kind_relation v k edges)\<^sup>+}"
proof -
  let ?c = "cyclic_nodes (graph_edges h v k edges) (graph_nodes h v k)"
  have inside: "\<forall>x\<in>set (graph_nodes h v k). set (graph_edges h v k edges x) \<subseteq> set (graph_nodes h v k)"
    by (auto simp: graph_edges_set graph_nodes_iff)
  note exact = cyclic_nodes_ok [OF distinct_graph_nodes inside, unfolded edges_in_relation]
  have found: "\<exists>d. unique v i = Some d" if "i \<in> set ?c" for i
  proof -
    have "(i, i) \<in> (kind_relation v k edges)\<^sup>+" using exact(1) that by blast
    then show ?thesis by (auto dest: tranclD2 simp: kind_relation_def)
  qed
  have "findCycles h v k edges = [] \<longleftrightarrow> ?c = []"
  proof
    assume "findCycles h v k edges = []"
    then have "i \<notin> set ?c" for i
      using found [of i] by (auto simp: findCycles_def split: option.splits)
    then show "?c = []" by (cases ?c) auto
  qed (simp add: findCycles_def)
  moreover have "set (findCycles h v k edges) \<subseteq>
      {(d_path d, ''reference.cycle'') |i d. unique v i = Some d \<and> (i, i) \<in> (kind_relation v k edges)\<^sup>+}"
  proof
    fix x
    assume "x \<in> set (findCycles h v k edges)"
    then obtain i where "i \<in> set ?c" "x \<in> set (case unique v i of None \<Rightarrow> [] | Some d \<Rightarrow> [(d_path d, ''reference.cycle'')])"
      by (auto simp: findCycles_def)
    with exact(1) found [of i]
    show "x \<in> {(d_path d, ''reference.cycle'') |i d. unique v i = Some d \<and> (i, i) \<in> (kind_relation v k edges)\<^sup>+}"
      by (auto simp del: split_paired_Ex intro!: exI [of _ i])
  qed
  ultimately show ?thesis using exact(2) by blast
qed

section \<open>References\<close>

definition resolved :: "inventory \<Rightarrow> typed_id \<times> kind list \<Rightarrow> bool" where
  "resolved v p \<longleftrightarrow> id_is_zero (fst p) \<or> id_kind_of (fst p) \<in> set (snd p) \<and> unique v (fst p) \<noteq> None"

definition refs_to :: "kind \<Rightarrow> typed_id list \<Rightarrow> (typed_id \<times> kind list) list" where
  "refs_to k is = map (\<lambda>i. (i, [k])) is"

text \<open>The references of a record and the kinds their targets must have.\<close>

fun references :: "research_record \<Rightarrow> (typed_id \<times> kind list) list" where
  "references (RecTry t) = refs_to KindSource (ty_sources t) @ refs_to KindIdea [ty_adopted t]"
| "references (RecIdea a) = refs_to KindIdea (ia_parents a) @ refs_to KindPlan [ia_plan a] @ refs_to KindIdea [ia_merged a] @
    refs_to KindTry [ia_origin a]"
| "references (RecQueue q) = concat (map (\<lambda>p. refs_to KindResourcePool [qp_pool p] @
    refs_to KindPlan (map qe_plan (slice (qp_entries p)))) (slice (qu_partitions q)))"
| "references (RecQueueAdvice a) = refs_to KindQueue [qa_queue a] @ refs_to KindPlan (qa_candidate a # qa_order a) @
    refs_to KindResourcePool [qa_pool a]"
| "references (RecBattle b) = refs_to KindQueue [bt_queue b] @ refs_to KindQueueAdvice [bt_advice b] @
    refs_to KindPlan [bt_candidate b, bt_incumbent b] @ refs_to KindResourcePool [bt_pool b]"
| "references (RecPlan p) = refs_to KindFinding (pl_assumptions p) @ refs_to KindExperiment [pl_result p] @
    (if c_schema p = SchemaPlanV2 then refs_to KindIdea [pl_idea p] @ refs_to KindFinding (map fd_finding (pl_dependencies p)) @
       refs_to KindResourcePool (map rn_pool (pl_resources p)) else [])"
| "references (RecExperiment e) = refs_to KindExperiment (ex_parents e) @ refs_to KindCandidate (ex_inputs e) @
    refs_to KindExperiment (case ex_detail e of None \<Rightarrow> [] | Some d \<Rightarrow> [cl_superseded d]) @
    refs_to KindRun (case ex_conclusion e of None \<Rightarrow> [] | Some c \<Rightarrow> map ce_run (cn_evidence c))"
| "references (RecRun r) = refs_to KindExperiment [ru_experiment r]"
| "references (RecAttempt a) = refs_to KindAttempt [at_retry a] @ refs_to KindRun [at_run a] @ refs_to KindTry [at_try a] @
    (if c_schema a \<in> {SchemaAttemptV2, SchemaAttemptV3} \<and> \<not> id_is_zero (at_pool a)
     then refs_to KindResourcePool [at_pool a] @ refs_to KindQueue [at_queue a] else []) @
    (if c_schema a = SchemaAttemptV3 then refs_to KindSource (map ss_source (at_snapshots a)) else [])"
| "references (RecEvaluationSpec s) = refs_to KindResourcePool [es_pool s]"
| "references (RecEvaluation e) = refs_to KindEvaluationSpec [el_spec e] @
    [(el_subject e, [KindExperiment, KindCandidate, KindRelease])] @
    (if c_schema e = SchemaEvaluationV2 then refs_to KindAttempt [el_attempt e] else [])"
| "references (RecFinding f) = map (\<lambda>x. (fe_ref x, [if fe_kind x = FindingEvidenceExperiment then KindExperiment else KindRun])) (fi_evidence f) @
    refs_to KindFinding (fi_weakens f @ fi_overturns f)"
| "references (RecCandidate c) = refs_to KindExperiment [ca_experiment c] @ refs_to KindEvaluation [ca_evaluation c] @
    refs_to KindCandidate (ca_parents c) @
    (if c_schema c = SchemaCandidateV2 then refs_to KindAttempt [ca_attempt c] @ refs_to KindSource (map cs_source (slice (ca_sources c))) else [])"
| "references (RecRelease r) = refs_to KindCandidate (map sl_candidate (rl_slots r)) @ refs_to KindExperiment [rl_experiment r] @
    refs_to KindEvaluation [rl_combination r, rl_evaluation r]"
| "references (RecPromotionSpec p) = refs_to KindEvaluationSpec [ps_spec p]"
| "references (RecPromotion p) = refs_to KindPromotionSpec [pr_spec p] @ refs_to KindRelease [pr_challenger p, pr_incumbent p] @
    refs_to KindEvaluation [pr_evaluation p] @ refs_to KindPromotion [pr_previous p]"
| "references (RecDecision x) = refs_to KindFinding (dn_based_on x) @ refs_to KindDecision (dn_supersedes x)"
| "references _ = []"

lemma requireAny_Nil [code_rules]: "fst (requireAny v i ks) = [] \<longleftrightarrow> resolved v (i, ks)"
  by (auto simp: requireAny_def resolved_def unique_def split: list.splits)

lemma refers_Nil [code_rules]: "refers v k i = [] \<longleftrightarrow> resolved v (i, [k])"
  by (simp add: refers_def require_def code_rules)

lemma requires_Nil: "requires v i k sel check = [] \<Longrightarrow> resolved v (i, [k])"
  by (auto simp: requires_def require_def simp flip: requireAny_Nil split: prod.splits)

lemma flag_Nil [code_rules]: "flag b c = [] \<longleftrightarrow> \<not> b"
  by (simp add: flag_def)

lemma resolved_refs_to [code_rules]: "list_all (resolved v) (refs_to k is) \<longleftrightarrow> (\<forall>i\<in>set is. resolved v (i, [k]))"
  by (simp add: refs_to_def list_all_iff)

lemma record_references_resolved:
  assumes "record_codes h v d r = []"
  shows "list_all (resolved v) (references r)"
proof (cases r)
  case (RecTry t)
  with assms show ?thesis by (auto simp: code_rules try_codes_def dest!: requires_Nil)
next
  case (RecIdea a)
  with assms show ?thesis by (auto simp: code_rules idea_codes_def dest!: requires_Nil)
next
  case (RecQueue q)
  with assms show ?thesis
    by (auto simp: list_all_iff refs_to_def refers_Nil queue_codes_def queue_entry_codes_def dest!: requires_Nil)
next
  case (RecQueueAdvice a)
  with assms show ?thesis by (auto simp: code_rules advice_codes_def)
next
  case (RecBattle b)
  with assms show ?thesis by (auto simp: code_rules battle_codes_def dest!: requires_Nil)
next
  case (RecPlan p)
  with assms show ?thesis
    by (auto simp: code_rules plan_codes_def dependency_codes_def split: if_splits dest!: requires_Nil)
next
  case (RecExperiment e)
  with assms show ?thesis by (auto simp: code_rules experiment_codes_def split: option.splits dest!: requires_Nil)
next
  case (RecRun x)
  with assms show ?thesis by (auto simp: code_rules dest!: requires_Nil)
next
  case (RecAttempt a)
  with assms show ?thesis
    by (auto simp: code_rules attempt_codes_def snapshot_codes_def split: if_splits dest!: requires_Nil)
next
  case (RecEvaluationSpec s)
  with assms show ?thesis by (auto simp: code_rules)
next
  case (RecEvaluation e)
  have "requireAny v (el_subject e) ks = (cs, x) \<Longrightarrow> cs = [] \<longleftrightarrow> resolved v (el_subject e, ks)" for ks cs x
    using requireAny_Nil [of v "el_subject e" ks] by simp
  with RecEvaluation assms show ?thesis
    by (auto simp: code_rules evaluation_codes_def split: if_splits prod.splits dest!: requires_Nil)
next
  case (RecFinding f)
  with assms show ?thesis
    by (auto simp: list_all_iff refs_to_def refers_Nil finding_codes_def evidence_codes_def split: if_splits)
next
  case (RecCandidate c)
  with assms show ?thesis by (auto simp: code_rules candidate_codes_def split: if_splits dest!: requires_Nil)
next
  case (RecRelease x)
  with assms show ?thesis by (auto simp: code_rules release_codes_def dest!: requires_Nil)
next
  case (RecPromotionSpec x)
  with assms show ?thesis by (auto simp: code_rules promotion_spec_codes_def dest!: requires_Nil)
next
  case (RecPromotion x)
  with assms show ?thesis by (auto simp: code_rules promotion_codes_def)
next
  case (RecDecision x)
  with assms show ?thesis by (auto simp: code_rules decision_codes_def)
qed simp_all

end
