(* ===== verification/Exp_Control.thy ===== *)
theory Exp_Control
  imports Exp_Candidates
begin

text \<open>
  What the controller reads from an inventory (\<^verbatim>\<open>internal/record/control.go\<close>): the frontier of the
  Queues, the champions of the Promotion chains and the edges of the research graph.
\<close>

section \<open>The frontier\<close>

record frontier_entry =
  fr_queue :: typed_id
  fr_pool :: typed_id
  fr_lane :: research_lane
  fr_position :: nat
  fr_entry :: queue_entry

definition frontier_before :: "'h host_scheme \<Rightarrow> frontier_entry \<Rightarrow> frontier_entry \<Rightarrow> bool" where
  "frontier_before h a b \<longleftrightarrow>
    (if fr_queue a \<noteq> fr_queue b then id_string h (fr_queue a) < id_string h (fr_queue b)
     else if fr_pool a \<noteq> fr_pool b then id_string h (fr_pool a) < id_string h (fr_pool b)
     else lane_text (fr_lane a) < lane_text (fr_lane b))"

definition partition_heads :: "queue \<Rightarrow> frontier_entry list" where
  "partition_heads q =
    (if qu_paused q then []
     else List.map_filter (\<lambda>p. case slice (qp_entries p) of
         [] \<Rightarrow> None
       | e # _ \<Rightarrow> Some \<lparr>fr_queue = c_id q, fr_pool = qp_pool p, fr_lane = qp_lane p, fr_position = 0, fr_entry = e\<rparr>)
       (slice (qu_partitions q)))"

definition QueueFrontier :: "'h host_scheme \<Rightarrow> inventory \<Rightarrow> frontier_entry list" where
  "QueueFrontier h v =
    stable_sort (frontier_before h) (concat (map (\<lambda>(d, q). partition_heads q) (of_kind h v KindQueue rec_queue)))"

section \<open>Champions\<close>

record champion =
  cp_target :: string
  cp_release :: typed_id
  cp_promotion :: typed_id

text \<open>The maps keep the last Promotion of a key.\<close>

definition last_of :: "(document \<times> promotion) list \<Rightarrow> promotion option" where
  "last_of ps = (if ps = [] then None else Some (snd (last ps)))"

text \<open>The loop along one chain: fuel bounds its steps, and \<open>None\<close> is the loop that did not end.\<close>

fun champion_loop :: "(document \<times> promotion) list \<Rightarrow> nat \<Rightarrow> typed_id \<times> typed_id \<Rightarrow> promotion option \<Rightarrow> (typed_id \<times> typed_id) option" where
  "champion_loop ps n now None = Some now"
| "champion_loop ps 0 now (Some p) = None"
| "champion_loop ps (Suc n) now (Some p) =
    champion_loop ps n (if crowns p then (pr_challenger p, c_id p) else now) (last_of (followers_of ps (c_id p)))"

definition root_targets :: "(document \<times> promotion) list \<Rightarrow> string list" where
  "root_targets ps = stable_sort (<) (remdups (map (\<lambda>(d, p). pr_target p) (filter (\<lambda>(d, p). id_is_zero (pr_previous p)) ps)))"

definition target_champion :: "(document \<times> promotion) list \<Rightarrow> string \<Rightarrow> champion list option" where
  "target_champion ps t =
    map_option (\<lambda>(r, p). if id_is_zero r then [] else [\<lparr>cp_target = t, cp_release = r, cp_promotion = p\<rparr>])
      (champion_loop ps (length ps) (zero_id, zero_id) (last_of (roots_of ps t)))"

definition CurrentChampions :: "'h host_scheme \<Rightarrow> inventory \<Rightarrow> (diagnostic list, champion list option) result" where
  "CurrentChampions h v =
    (if \<not> Valid v then Inl (in_diagnostics v)
     else
      (let ps = of_kind h v KindPromotion rec_promotion; found = map (target_champion ps) (root_targets ps) in
       Inr (if None \<in> set found then None else Some (concat (map the found)))))"

section \<open>Edges\<close>

record research_edge =
  ed_from :: typed_id
  ed_to :: typed_id
  ed_relation :: string

definition from_each :: "typed_id list \<Rightarrow> typed_id \<Rightarrow> string \<Rightarrow> research_edge list" where
  "from_each is i relation = map (\<lambda>j. \<lparr>ed_from = j, ed_to = i, ed_relation = relation\<rparr>) is"

definition to_each :: "typed_id \<Rightarrow> typed_id list \<Rightarrow> string \<Rightarrow> research_edge list" where
  "to_each i is relation = map (\<lambda>j. \<lparr>ed_from = i, ed_to = j, ed_relation = relation\<rparr>) is"

fun record_edges :: "research_record \<Rightarrow> research_edge list" where
  "record_edges (RecTry t) = from_each (ty_sources t) (c_id t) ''declared_source'' @ to_each (c_id t) [ty_adopted t] ''adopts''"
| "record_edges (RecIdea a) =
    from_each (ia_parents a) (c_id a) ''derives'' @ to_each (c_id a) [ia_plan a] ''qualifies'' @
    to_each (c_id a) [ia_merged a] ''merges'' @ from_each [ia_origin a] (c_id a) ''originates''"
| "record_edges (RecQueue q) = concat (map (\<lambda>p. from_each [qp_pool p] (c_id q) ''partitions'' @
    from_each (map qe_plan (slice (qp_entries p))) (c_id q) ''queued'') (slice (qu_partitions q)))"
| "record_edges (RecQueueAdvice a) =
    from_each [qa_queue a] (c_id a) ''advises'' @ from_each [qa_candidate a] (c_id a) ''ranks'' @
    from_each [qa_pool a] (c_id a) ''prices''"
| "record_edges (RecBattle b) =
    from_each [bt_advice b] (c_id b) ''tests'' @ from_each [bt_candidate b] (c_id b) ''candidate'' @
    from_each [bt_incumbent b] (c_id b) ''incumbent''"
| "record_edges (RecPlan p) =
    from_each (pl_assumptions p) (c_id p) ''assumes'' @ from_each (map fd_finding (pl_dependencies p)) (c_id p) ''depends'' @
    to_each (c_id p) [pl_result p] ''starts''"
| "record_edges (RecExperiment e) =
    from_each (ex_parents e) (c_id e) ''follows'' @ from_each (ex_inputs e) (c_id e) ''combines'' @
    (case ex_detail e of None \<Rightarrow> [] | Some d \<Rightarrow> to_each (c_id e) [cl_superseded d] ''superseded_by'')"
| "record_edges (RecRun r) = from_each [ru_experiment r] (c_id r) ''contains''"
| "record_edges (RecAttempt a) =
    from_each [at_run a] (c_id a) ''attempts'' @ from_each [at_try a] (c_id a) ''attempts'' @
    from_each (map ss_source (at_snapshots a)) (c_id a) ''snapshots''"
| "record_edges (RecEvaluation e) =
    from_each [el_spec e] (c_id e) ''evaluates_with'' @ from_each [el_subject e] (c_id e) ''evaluated_by''"
| "record_edges (RecEvaluationSpec s) = from_each [es_pool s] (c_id s) ''budgeted_by''"
| "record_edges (RecFinding f) =
    from_each (map fe_ref (fi_evidence f)) (c_id f) ''supports'' @ to_each (c_id f) (fi_weakens f) ''weakens'' @
    to_each (c_id f) (fi_overturns f) ''overturns''"
| "record_edges (RecCandidate c) =
    from_each [ca_experiment c] (c_id c) ''produces'' @ from_each [ca_evaluation c] (c_id c) ''scientific_evidence'' @
    from_each [ca_attempt c] (c_id c) ''execution_evidence'' @
    from_each (map cs_source (slice (ca_sources c))) (c_id c) ''source_identity'' @ from_each (ca_parents c) (c_id c) ''follows''"
| "record_edges (RecRelease r) =
    concat (map (\<lambda>s. from_each [sl_candidate s] (c_id r) (''fills:'' @ sl_name s)) (rl_slots r)) @
    from_each [rl_experiment r] (c_id r) ''validates_combination'' @ from_each [rl_combination r] (c_id r) ''combination_evidence'' @
    from_each [rl_evaluation r] (c_id r) ''release_evidence''"
| "record_edges (RecPromotionSpec p) = from_each [ps_spec p] (c_id p) ''seals''"
| "record_edges (RecPromotion p) =
    from_each [pr_spec p] (c_id p) ''governs'' @ from_each [pr_previous p] (c_id p) ''next_promotion'' @
    from_each [pr_challenger p] (c_id p) ''challenges'' @ from_each [pr_evaluation p] (c_id p) ''promotion_evidence''"
| "record_edges (RecDecision x) =
    from_each (dn_based_on x) (c_id x) ''informs'' @ to_each (c_id x) (dn_supersedes x) ''supersedes''"
| "record_edges _ = []"

definition edge_before :: "'h host_scheme \<Rightarrow> research_edge \<Rightarrow> research_edge \<Rightarrow> bool" where
  "edge_before h a b \<longleftrightarrow>
    (if ed_from a \<noteq> ed_from b then id_string h (ed_from a) < id_string h (ed_from b)
     else if ed_to a \<noteq> ed_to b then id_string h (ed_to a) < id_string h (ed_to b)
     else ed_relation a < ed_relation b)"

definition edge_key :: "'h host_scheme \<Rightarrow> research_edge \<Rightarrow> string" where
  "edge_key h e = id_string h (ed_from e) @ [CHR 0x00] @ id_string h (ed_to e) @ [CHR 0x00] @ ed_relation e"

fun add_edges :: "'h host_scheme \<Rightarrow> string list \<Rightarrow> research_edge list \<Rightarrow> research_edge list" where
  "add_edges h seen [] = []"
| "add_edges h seen (e # es) =
    (if id_is_zero (ed_from e) \<or> id_is_zero (ed_to e) \<or> edge_key h e \<in> set seen then add_edges h seen es
     else e # add_edges h (edge_key h e # seen) es)"

definition ResearchEdges :: "'h host_scheme \<Rightarrow> inventory \<Rightarrow> research_edge list" where
  "ResearchEdges h v = stable_sort (edge_before h)
     (add_edges h [] (concat (map (\<lambda>d. case d_record d of None \<Rightarrow> [] | Some r \<Rightarrow> record_edges r) (in_documents v))))"

end
