(* ===== verification/Exp_Validate_Theorems.thy ===== *)
theory Exp_Validate_Theorems
  imports Exp_Validate_All
begin

text \<open>
  What the validators guarantee of an accepted record, and that their report does not depend on the
  iteration order of Go's maps.
\<close>

section \<open>Reading an accepted record\<close>

lemma Validate_accepts:
  "Validate rnd h (Some r) = [] \<longleftrightarrow>
    validateExtensions h (GetExtensions r) = [] \<and> KindForSchema (GetSchema r) = Inr (GetKind r) \<and>
    common_issues h r = [] \<and> specific_issues rnd h r = []"
  by (simp add: Validate_def)

lemma each_snoc: "each f (xs @ [x]) = each f xs @ f xs x"
proof -
  have "each_from before f (xs @ [x]) = each_from before f xs @ f (before @ xs) x" for before
    by (induction xs arbitrary: before) auto
  then show ?thesis by (simp add: each_def)
qed

lemma each_distinct_concat:
  assumes "each f xs = []"
    and "\<And>before x. f before x = [] \<Longrightarrow> distinct (k x) \<and> set (k x) \<inter> set (concat (map k before)) = {}"
  shows "distinct (concat (map k xs))"
  using assms(1)
proof (induction xs rule: rev_induct)
  case Nil
  then show ?case by simp
next
  case (snoc x xs)
  then have "distinct (concat (map k xs))" "f xs x = []" by (simp_all add: each_snoc)
  with assms(2) [of xs x] show ?case by auto
qed

lemma each_member: "each f xs = [] \<Longrightarrow> x \<in> set xs \<Longrightarrow> \<exists>before. f before x = []"
  by (auto simp: each_Nil in_set_conv_nth)

lemma reference_accepted:
  "validateReferenceKind h i k field = [] \<longleftrightarrow> \<not> id_is_zero i \<and> id_kind_of i = k \<and> IsNative h i"
  by (simp add: validateReferenceKind_def)

lemma within_lifetime_accepted:
  "within_lifetime t c field = [] \<longleftrightarrow>
     validUTC t \<and> t_instant (c_created c) \<le> t_instant t \<and> t_instant t \<le> t_instant (c_updated c)"
  by (auto simp: within_lifetime_def time_before_def time_after_def)

lemmas accepted = reference_accepted within_lifetime_accepted Let_def

section \<open>Queues\<close>

definition queue_plans :: "queue \<Rightarrow> typed_id list" where
  "queue_plans q = concat (map partition_plans (slice (qu_partitions q)))"

definition entry_ok :: "'h host_scheme \<Rightarrow> go_time \<Rightarrow> queue_entry \<Rightarrow> bool" where
  "entry_ok h updated e \<longleftrightarrow>
     \<not> id_is_zero (qe_plan e) \<and> id_kind_of (qe_plan e) = KindPlan \<and> IsNative h (qe_plan e) \<and>
     validDigest (qe_revision e) \<and> f_finite (qe_score e) \<and> validUTC (qe_inserted e) \<and>
     t_instant (qe_inserted e) \<le> t_instant updated"

lemma entry_accepted:
  "entry_issues h updated seen field e = [] \<longleftrightarrow> entry_ok h updated e \<and> qe_plan e \<notin> seen"
  by (auto simp: entry_issues_def entry_ok_def accepted time_after_def)

lemma lane_accepted: "validateLane l field = [] \<longleftrightarrow> l = LaneExploit \<or> l = LaneExplore"
  by (cases l) auto

definition partition_ok :: "'h check_host_scheme \<Rightarrow> go_time \<Rightarrow> queue_partition \<Rightarrow> bool" where
  "partition_ok h updated p \<longleftrightarrow>
     \<not> id_is_zero (qp_pool p) \<and> id_kind_of (qp_pool p) = KindResourcePool \<and> IsNative h (qp_pool p) \<and>
     (qp_lane p = LaneExploit \<or> qp_lane p = LaneExplore) \<and> qp_entries p \<noteq> None \<and>
     (\<forall>e \<in> set (slice (qp_entries p)). entry_ok h updated e)"

lemma seen_distinct:
  "(\<forall>i < length xs. k (xs ! i) \<notin> S \<union> k ` set (take i xs)) \<longleftrightarrow> distinct (map k xs) \<and> set (map k xs) \<inter> S = {}"
proof -
  have "distinct (map k xs) \<longleftrightarrow> (\<forall>i < length xs. k (xs ! i) \<notin> k ` set (take i xs))"
    by (subst distinct_by_prefix [symmetric]) (simp add: take_map)
  moreover have "set (map k xs) \<inter> S = {} \<longleftrightarrow> (\<forall>i < length xs. k (xs ! i) \<notin> S)"
    by (subst all_set_conv_all_nth [symmetric]) auto
  ultimately show ?thesis by blast
qed

lemma entries_accepted:
  "each (\<lambda>earlier e. entry_issues h updated (S \<union> qe_plan ` set earlier) (F earlier) e) xs = [] \<longleftrightarrow>
     (\<forall>e \<in> set xs. entry_ok h updated e) \<and> distinct (map qe_plan xs) \<and> set (map qe_plan xs) \<inter> S = {}"
  unfolding seen_distinct [symmetric] each_Nil entry_accepted all_set_conv_all_nth by blast

lemma partition_accepted:
  "partition_issues h updated before p = [] \<longleftrightarrow>
     partition_ok h updated p \<and> partition_key h p \<notin> partition_key h ` set before \<and>
     distinct (partition_plans p) \<and> set (partition_plans p) \<inter> set (concat (map partition_plans before)) = {}"
  unfolding partition_issues_def partition_ok_def accepted append_is_Nil_conv entries_accepted need_Nil lane_accepted
    partition_plans_def by blast

lemma queue_accepted:
  assumes "validateQueue h q = []"
  shows "distinct (queue_plans q)" and "distinct (map (\<lambda>p. (qp_pool p, qp_lane p)) (slice (qu_partitions q)))"
    and "qu_revision q \<noteq> 0" and "\<forall>p \<in> set (slice (qu_partitions q)). partition_ok h (c_updated q) p"
proof -
  have parts: "each (partition_issues h (c_updated q)) (slice (qu_partitions q)) = []"
    and "qu_revision q \<noteq> 0" using assms by (simp_all add: validateQueue_def)
  show "qu_revision q \<noteq> 0" by fact
  show "distinct (queue_plans q)"
    unfolding queue_plans_def using parts by (rule each_distinct_concat) (simp add: partition_accepted)
  have "distinct (map (partition_key h) (slice (qu_partitions q)))"
    using parts by (rule each_distinct) (simp add: partition_accepted)
  then show "distinct (map (\<lambda>p. (qp_pool p, qp_lane p)) (slice (qu_partitions q)))"
    by (auto simp: distinct_map inj_on_def partition_key_def)
  show "\<forall>p \<in> set (slice (qu_partitions q)). partition_ok h (c_updated q) p"
    using each_member [OF parts] partition_accepted by blast
qed

text \<open>
  C31: an accepted Queue orders each Plan once: no Plan occurs twice, in one partition or in two, no
  pool and lane have two partitions, the revision is positive, and every entry names a native Plan
  with a finite score and a UTC time not later than the Queue's own.
\<close>

theorem accepted_queue:
  assumes "Validate rnd h (Some (RecQueue q)) = []"
  shows "distinct (queue_plans q) \<and> distinct (map (\<lambda>p. (qp_pool p, qp_lane p)) (slice (qu_partitions q))) \<and>
    0 < qu_revision q \<and>
    (\<forall>p \<in> set (slice (qu_partitions q)). \<forall>e \<in> set (slice (qp_entries p)).
       id_kind_of (qe_plan e) = KindPlan \<and> IsNative h (qe_plan e) \<and> f_finite (qe_score e) \<and>
       t_offset (qe_inserted e) = 0 \<and> t_instant (qe_inserted e) \<le> t_instant (c_updated q))"
proof -
  have "validateQueue h q = []" using assms by (simp add: Validate_accepts)
  note q = queue_accepted [OF this]
  from q(4) have "\<forall>p \<in> set (slice (qu_partitions q)). \<forall>e \<in> set (slice (qp_entries p)). entry_ok h (c_updated q) e"
    by (simp add: partition_ok_def)
  with q(1-3) show ?thesis by (simp add: entry_ok_def validUTC_def word_gt_0)
qed

section \<open>Battles\<close>

definition forced_outcome :: "battle_choice \<Rightarrow> battle_choice \<Rightarrow> battle_outcome" where
  "forced_outcome ab ba =
    (if ab \<noteq> ba then BattleHumanReview
     else case ab of BattleChooseCandidate \<Rightarrow> BattleCandidateWins | BattleChooseIncumbent \<Rightarrow> BattleIncumbentWins | _ \<Rightarrow> BattleTie)"

lemma battle_verdict_accepted:
  "battle_verdict_issues b = [] \<longleftrightarrow>
     validateBattleChoice (bt_order_ab b) [] = [] \<and> validateBattleChoice (bt_order_ba b) [] = [] \<and>
     bt_outcome b = forced_outcome (bt_order_ab b) (bt_order_ba b)"
  by (cases "bt_order_ab b"; cases "bt_order_ba b"; cases "bt_outcome b")
    (simp_all add: battle_verdict_issues_def forced_outcome_def)

text \<open>
  The outcome of an accepted Battle is a function of its two order-swapped choices: they agree
  and it is theirs, or they disagree and it is left to a human. Battles are immutable and never pit
  a Plan against itself.
\<close>

theorem accepted_battle:
  assumes "Validate rnd h (Some (RecBattle b)) = []"
  shows "bt_outcome b = forced_outcome (bt_order_ab b) (bt_order_ba b) \<and>
    bt_candidate b \<noteq> bt_incumbent b \<and> time_equal (c_created b) (c_updated b)"
proof -
  have "validateBattle h b = []" using assms by (simp add: Validate_accepts)
  then have v: "battle_verdict_issues b = []" "bt_candidate b \<noteq> bt_incumbent b" "time_equal (c_created b) (c_updated b)"
    by (simp_all add: validateBattle_def validateImmutable_def)
  then show ?thesis by (simp add: battle_verdict_accepted)
qed

section \<open>Concrete records\<close>

definition zero_digest :: string where
  "zero_digest = ''sha256:'' @ replicate 64 CHR ''0''"

text \<open>A host whose classifier finds nothing and whose digests are constant.\<close>

definition open_checks :: check_host where
  "open_checks = host.extend std_host
     \<lparr>ch_text = (\<lambda>_. None), ch_material = (\<lambda>_. False), ch_sensitive = (\<lambda>_. False), ch_argv = (\<lambda>_. []),
      ch_redact = id, ch_locator = Inr, ch_uri = (\<lambda>_. None), ch_design = (\<lambda>_. Some zero_digest),
      ch_snapshot = (\<lambda>_. Some zero_digest), ch_reference = (\<lambda>_. Some 100)\<rparr>"

definition sample_common :: "schema \<Rightarrow> typed_id \<Rightarrow> common" where
  "sample_common s i = \<lparr>c_schema = s, c_id = i, c_title = ''t'', c_created = sample_stamp, c_updated = sample_stamp,
     c_aliases = [], c_tags = []\<rparr>"

definition sample_entry :: "8 word \<Rightarrow> queue_entry" where
  "sample_entry n = \<lparr>qe_plan = sample_id KindPlan n, qe_revision = zero_digest, qe_score = Fin 1,
     qe_inserted = sample_stamp, qe_pinned = False\<rparr>"

definition sample_record_queue :: queue where
  "sample_record_queue = common.extend (sample_common SchemaQueue (sample_id KindQueue 1))
    \<lparr>qu_revision = 1, qu_paused = False,
     qu_partitions = Some
      [\<lparr>qp_pool = sample_id KindResourcePool 2, qp_lane = LaneExploit, qp_entries = Some [sample_entry 3, sample_entry 4]\<rparr>,
       \<lparr>qp_pool = sample_id KindResourcePool 2, qp_lane = LaneExplore, qp_entries = Some [sample_entry 5]\<rparr>],
     qu_extensions = [(''org.b'', Some []), (''org.a'', Some [(''n'', OvInt 1)])]\<rparr>"

lemma sample_queue_accepted: "Validate Fin open_checks (Some (RecQueue sample_record_queue)) = []"
  by code_simp

definition sample_record_battle :: battle_record where
  "sample_record_battle = common.extend (sample_common SchemaBattle (sample_id KindBattle 1))
    \<lparr>bt_queue = sample_id KindQueue 1, bt_queue_revision = 1, bt_advice = zero_id, bt_candidate = sample_id KindPlan 3,
     bt_incumbent = sample_id KindPlan 4, bt_pool = sample_id KindResourcePool 2, bt_lane = LaneExploit,
     bt_order_ab = BattleChooseCandidate, bt_order_ba = BattleChooseIncumbent, bt_outcome = BattleHumanReview,
     bt_confidence = Fin (1/2), bt_rationale = ''r'', bt_extensions = []\<rparr>"

theorem accepted_queue_witness: "distinct (queue_plans sample_record_queue) \<and> length (queue_plans sample_record_queue) = 3"
  using accepted_queue [OF sample_queue_accepted]
  by (simp add: queue_plans_def sample_record_queue_def partition_plans_def common.defs)

theorem accepted_battle_witness:
  "bt_outcome sample_record_battle = forced_outcome (bt_order_ab sample_record_battle) (bt_order_ba sample_record_battle)"
proof -
  have "Validate Fin open_checks (Some (RecBattle sample_record_battle)) = []" by code_simp
  from accepted_battle [OF this] show ?thesis by blast
qed

end
