(* ===== verification/Exp_Validate_Work_Theorems.thy ===== *)
theory Exp_Validate_Work_Theorems
  imports Exp_Validate_Theorems
begin

text \<open>
  What acceptance guarantees of Experiments (lifecycle and the chain of design amendments) and of
  Attempts (ownership, snapshots and provenance), and the order-independence of the report.
\<close>

section \<open>Experiments\<close>

definition amendment_times :: "amendment list \<Rightarrow> int list" where
  "amendment_times as = map (\<lambda>a. t_instant (am_amended a)) as"

lemma amendment_loop_accepted:
  assumes "amendment_loop h updated n t new as = []"
  shows "successively (<) (t_instant t # amendment_times as) \<and>
    (\<forall>a \<in> set as. t_instant (am_amended a) \<le> t_instant updated \<and> validDigest (am_new a)) \<and>
    successively (\<lambda>a b. am_previous b = am_new a) as \<and>
    (0 < n \<and> as \<noteq> [] \<longrightarrow> am_previous (hd as) = new)"
  using assms
proof (induction as arbitrary: n t new)
  case Nil
  then show ?case by (simp add: amendment_times_def)
next
  case (Cons a as)
  then have here: "amendment_issues h updated (''amendments['' @ itoa n @ '']'') (0 < n) t new a = []"
    and rest: "amendment_loop h updated (Suc n) (am_amended a) (am_new a) as = []" by simp_all
  from here have a: "t_instant t < t_instant (am_amended a)" "t_instant (am_amended a) \<le> t_instant updated"
    "validDigest (am_new a)" "0 < n \<longrightarrow> am_previous a = new"
    by (auto simp: amendment_issues_def time_after_def split: if_splits)
  from Cons.IH [OF rest] a show ?case by (cases as) (auto simp: amendment_times_def)
qed

definition design_lock_ok :: "'h check_host_scheme \<Rightarrow> experiment_record \<Rightarrow> bool" where
  "design_lock_ok h e \<longleftrightarrow>
    (case de_locked (ex_design e) of
       None \<Rightarrow> de_digest (ex_design e) = [] \<and> ex_amendments e = []
     | Some t \<Rightarrow> t_instant (c_created e) \<le> t_instant t \<and> t_instant t \<le> t_instant (c_updated e) \<and>
         ch_design h (ex_design e) = Some (de_digest (ex_design e)) \<and>
         sorted_wrt (<) (t_instant t # amendment_times (ex_amendments e)) \<and>
         (\<forall>a \<in> set (ex_amendments e). t_instant (am_amended a) \<le> t_instant (c_updated e)) \<and>
         successively (\<lambda>a b. am_previous b = am_new a) (ex_amendments e) \<and>
         (ex_amendments e \<noteq> [] \<longrightarrow> am_new (last (ex_amendments e)) = de_digest (ex_design e)))"

lemma design_accepted:
  assumes "validateDesign h e = []"
  shows "design_lock_ok h e"
proof -
  have lock: "design_lock_issues h e = []"
    and loop: "amendment_loop h (c_updated e) 0 (case de_locked (ex_design e) of None \<Rightarrow> c_created e | Some t \<Rightarrow> t) [] (ex_amendments e) = []"
    and final: "ex_amendments e \<noteq> [] \<Longrightarrow> de_locked (ex_design e) \<noteq> None \<and> am_new (last (ex_amendments e)) = de_digest (ex_design e)"
    using assms by (auto simp: validateDesign_def Let_def split: if_splits)
  show ?thesis
  proof (cases "de_locked (ex_design e)")
    case None
    with lock final show ?thesis by (auto simp: design_lock_ok_def design_lock_issues_def)
  next
    case (Some t)
    have "within_lifetime t e ''design.design_locked_at'' = []" "ch_design h (ex_design e) = Some (de_digest (ex_design e))"
      using lock Some by (auto simp: design_lock_issues_def Let_def split: if_splits)
    with amendment_loop_accepted [OF loop] Some final show ?thesis
      by (simp add: design_lock_ok_def within_lifetime_accepted successively_conv_sorted_wrt transp_on_def)
  qed
qed

text \<open>
  C32: an accepted Experiment has the closure, verdict, conclusion and detail its lifecycle allows
  and no others, and its design history is a chain: without a lock there are no amendments; with
  one, the digest is the digest of the design as it stands, the amendments follow the lock in
  strictly increasing time within the record's lifetime, each starts from the digest the one before
  ended with, and the last one ends with the current digest.
\<close>

theorem accepted_experiment:
  assumes "Validate rnd h (Some (RecExperiment e)) = []"
  shows "lifecycle_fields e \<and> ex_lifecycle e \<in> {LifecyclePlanned, LifecycleActive, LifecycleClosed} \<and> design_lock_ok h e"
proof -
  have e: "validateExperiment h e = []" using assms by (simp add: Validate_accepts)
  then have "validateDesign h e = []" by (simp add: validateExperiment_def)
  with e design_accepted [OF this] show ?thesis
    by (cases "ex_lifecycle e") (simp_all add: validateExperiment_def)
qed

section \<open>Attempts\<close>

lemma src_key_nonempty:
  assumes "\<not> id_is_zero i" and "id_kind_of i = KindSource"
  shows "id_string h i \<noteq> []"
  using assms by (simp add: id_string_def)

definition snapshot_keys :: "'h host_scheme \<Rightarrow> source_snapshot list \<Rightarrow> string list" where
  "snapshot_keys h ss = map (\<lambda>s. id_string h (ss_source s)) ss"

lemma snapshot_loop_accepted:
  assumes "snapshot_loop h a before previous ss = []"
  shows "(previous \<noteq> [] \<longrightarrow> successively (<) (previous # snapshot_keys h ss)) \<and>
    successively (<) (snapshot_keys h ss) \<and>
    (\<forall>s \<in> set ss. (\<exists>field. validateSourceSnapshot h a s field = []) \<and>
       (ss_state s = SourceSnapshotDirty \<longrightarrow> \<not> id_is_zero (at_try a)))"
  using assms
proof (induction ss arbitrary: before previous)
  case Nil
  then show ?case by (simp add: snapshot_keys_def)
next
  case (Cons s ss)
  define key where "key = id_string h (ss_source s)"
  from Cons.prems have here: "snapshot_issues h a before previous s = []"
    and rest: "snapshot_loop h a (before @ [s]) (next_key previous key) ss = []"
    by (simp_all add: key_def)
  from here have s: "validateSourceSnapshot h a s (item_field ''source_snapshots'' before) = []"
    "\<not> (previous \<noteq> [] \<and> key \<le> previous)" "ss_state s = SourceSnapshotDirty \<longrightarrow> \<not> id_is_zero (at_try a)"
    by (auto simp: snapshot_issues_def Let_def key_def)
  then have "key \<noteq> []"
    using src_key_nonempty [of "ss_source s" h] by (simp add: validateSourceSnapshot_def reference_accepted key_def)
  moreover have "next_key previous key = key" using s(2) unfolding next_key_def by (rule if_not_P)
  ultimately have "successively (<) (key # snapshot_keys h ss)" "previous \<noteq> [] \<longrightarrow> previous < key"
    using Cons.IH [OF rest] s(2) by (auto simp: not_le)
  then show ?case
    using Cons.IH [OF rest] s by (cases ss) (auto simp: snapshot_keys_def key_def)
qed

definition provenance_matches :: "attempt \<Rightarrow> provenance \<Rightarrow> bool" where
  "provenance_matches a p \<longleftrightarrow>
    (\<exists>s \<in> set (at_snapshots a). ss_source s = at_execution a \<and> pv_commit p = ss_head s \<and>
       pv_dirty p = (ss_state s = SourceSnapshotDirty) \<and> pv_reproducibility p = ss_reproducibility s)"

lemma snapshot_clean:
  assumes "validateSourceSnapshot h a s field = []" and "ss_state s \<noteq> SourceSnapshotDirty"
  shows "ss_state s = SourceSnapshotClean \<and> ss_reproducibility s = ReproducibilityExact"
  using assms by (cases "ss_state s") (simp_all add: validateSourceSnapshot_def snapshot_state_issues_def)

lemma attempt_v3_accepted:
  assumes "attempt_v3_issues h a = []"
  shows "sorted_wrt (<) (snapshot_keys h (at_snapshots a))"
    and "\<forall>s \<in> set (at_snapshots a). ss_state s = SourceSnapshotDirty \<and> \<not> id_is_zero (at_try a) \<or>
      ss_state s = SourceSnapshotClean \<and> ss_reproducibility s = ReproducibilityExact"
    and "at_execution a \<in> ss_source ` set (at_snapshots a)"
    and "at_provenance a = Some p \<Longrightarrow> provenance_matches a p"
proof -
  have loop: "snapshot_loop h a [] [] (at_snapshots a) = []"
    and found: "list_ex (\<lambda>s. ss_source s = at_execution a) (at_snapshots a)"
    using assms by (auto simp: attempt_v3_issues_def Let_def reference_accepted)
  from snapshot_loop_accepted [OF loop] show "sorted_wrt (<) (snapshot_keys h (at_snapshots a))"
    using successively_conv_sorted_wrt [OF transp_on_less] by blast
  show "\<forall>s \<in> set (at_snapshots a). ss_state s = SourceSnapshotDirty \<and> \<not> id_is_zero (at_try a) \<or>
      ss_state s = SourceSnapshotClean \<and> ss_reproducibility s = ReproducibilityExact"
    using snapshot_loop_accepted [OF loop] snapshot_clean by blast
  show "at_execution a \<in> ss_source ` set (at_snapshots a)" using found by (auto simp: list_ex_iff intro: rev_image_eqI)
  assume p: "at_provenance a = Some p"
  obtain s where s: "List.find (\<lambda>s. ss_source s = at_execution a) (at_snapshots a) = Some s"
    using found by (cases "List.find (\<lambda>s. ss_source s = at_execution a) (at_snapshots a)") (auto simp: find_None_iff list_ex_iff)
  have "validateV3ProvenanceSnapshot a = []" using assms found p by (simp add: attempt_v3_issues_def Let_def)
  with find_Some_mem [OF s] show "provenance_matches a p"
    unfolding provenance_matches_def by (auto simp: validateV3ProvenanceSnapshot_def s p Let_def)
qed

lemma terminal_or_not: "isTerminalState s \<Longrightarrow> \<not> isNonterminalState s"
  by (auto simp: isTerminalState_def isNonterminalState_def)

text \<open>
  C33: an accepted v3 Attempt belongs to exactly one of a Run and a Try. Its snapshots are in strict
  order of their Sources (so none repeats) and include the execution Source; a dirty one occurs only
  under a Try, every other one is clean and exact, so evidence for a formal Run is always committed
  state; the provenance, when captured, is the snapshot of the execution Source. It has a terminal
  observation exactly when its state is terminal.
\<close>

theorem accepted_attempt:
  assumes "Validate rnd h (Some (RecAttempt a)) = []" and "c_schema a = SchemaAttemptV3"
  shows "(id_is_zero (at_run a) \<noteq> id_is_zero (at_try a)) \<and>
    sorted_wrt (<) (snapshot_keys h (at_snapshots a)) \<and>
    at_execution a \<in> ss_source ` set (at_snapshots a) \<and>
    (\<forall>s \<in> set (at_snapshots a). ss_state s = SourceSnapshotDirty \<and> \<not> id_is_zero (at_try a) \<or>
       ss_state s = SourceSnapshotClean \<and> ss_reproducibility s = ReproducibilityExact) \<and>
    (\<forall>p. at_provenance a = Some p \<longrightarrow> provenance_matches a p) \<and>
    (at_terminal a \<noteq> None) = isTerminalState (at_state a)"
proof -
  have v: "validateAttempt h a = []" using assms(1) by (simp add: Validate_accepts)
  then have v3: "attempt_v3_issues h a = []" and owner: "attempt_owner_issues h a = []"
    and observed: "(at_terminal a \<noteq> None) = isTerminalState (at_state a)"
    using assms(2) by (auto simp: validateAttempt_def validateAttemptVersion_def Let_def)
  from owner assms(2) have "id_is_zero (at_run a) \<noteq> id_is_zero (at_try a)"
    by (auto simp: attempt_owner_issues_def Let_def)
  with attempt_v3_accepted [OF v3] observed show ?thesis by blast
qed

section \<open>The report\<close>

lemma issue_before_total: "a \<noteq> b \<Longrightarrow> issue_before a b \<or> issue_before b a"
  by (cases a; cases b) (auto simp: issue_before_def)

lemma collected_sorted: "no_inversion issue_before (collected h is)"
  unfolding collected_def
proof (rule no_inversion_stable_sort [where A = UNIV])
qed (auto simp: issue_before_def)

lemma collected_cong:
  assumes "mset is = mset is'"
  shows "collected h is = collected h is'"
  by (rule no_inversion_unique [OF issue_before_total collected_sorted collected_sorted, where A = UNIV])
    (simp_all add: collected_def assms)

lemma mset_concat_map: "mset xs = mset ys \<Longrightarrow> mset (concat (map f xs)) = mset (concat (map f ys))"
  by (simp add: mset_concat flip: sum_mset_sum_list)

lemmas through_cases = option.case_cong schema.case_cong experiment_kind.case_cong if_cong try_state.case_cong
  finding_evidence_kind.case_cong experiment_lifecycle.case_cong experiment_closure.case_cong source_state.case_cong sum.case_cong

lemma attempt_extensions: "validateAttempt h (a\<lparr>at_extensions := e\<rparr>) = validateAttempt h a"
proof -
  have s: "validateSourceSnapshot h (a\<lparr>at_extensions := e\<rparr>) = validateSourceSnapshot h a"
    by (intro ext) (simp add: validateSourceSnapshot_def within_lifetime_def)
  have loop: "snapshot_loop h (a\<lparr>at_extensions := e\<rparr>) before previous ss = snapshot_loop h a before previous ss" for before previous ss
    by (induction ss arbitrary: before previous) (simp_all add: snapshot_issues_def s)
  have "attempt_v3_issues h (a\<lparr>at_extensions := e\<rparr>) = attempt_v3_issues h a"
    by (simp add: attempt_v3_issues_def loop validateV3ProvenanceSnapshot_def validateAttemptDispatch_def dispatch_fields_def cong: through_cases)
  moreover have "validateTerminal h (a\<lparr>at_extensions := e\<rparr>) = validateTerminal h a"
    "validateProvenance (a\<lparr>at_extensions := e\<rparr>) = validateProvenance a"
    by (intro ext; simp add: validateTerminal_def validateProvenance_def within_lifetime_def cong: through_cases)+
  moreover have "validateAttemptDispatch h (a\<lparr>at_extensions := e\<rparr>) = validateAttemptDispatch h a"
    "dispatch_fields (a\<lparr>at_extensions := e\<rparr>) = dispatch_fields a"
    by (intro ext | simp add: validateAttemptDispatch_def dispatch_fields_def)+
  ultimately show ?thesis
    by (simp add: validateAttempt_def validateAttemptVersion_def attempt_owner_issues_def cong: through_cases)
qed

lemma experiment_extensions: "validateExperiment h (x\<lparr>ex_extensions := e\<rparr>) = validateExperiment h x"
proof -
  have "validateDesign h (x\<lparr>ex_extensions := e\<rparr>) = validateDesign h x"
    by (simp add: validateDesign_def design_lock_issues_def validateExperimentVersion_def within_lifetime_def cong: through_cases)
  moreover have "validateConclusion h (x\<lparr>ex_extensions := e\<rparr>) = validateConclusion h x"
    by (intro ext) (simp add: validateConclusion_def within_lifetime_def cong: through_cases)
  ultimately show ?thesis by (simp add: validateExperiment_def lifecycle_fields_def cong: through_cases)
qed

lemma try_extensions: "validateTry h (x\<lparr>ty_extensions := e\<rparr>) = validateTry h x"
proof -
  have "validateTryConclusion h (x\<lparr>ty_extensions := e\<rparr>) = validateTryConclusion h x"
    "validateTryAbandonment h (x\<lparr>ty_extensions := e\<rparr>) = validateTryAbandonment h x"
    by (intro ext; simp add: validateTryConclusion_def validateTryAbandonment_def cong: through_cases)+
  then show ?thesis by (simp add: validateTry_def cong: through_cases)
qed

lemma finding_extensions:
  "hasMigrationExtension e = hasMigrationExtension (fi_extensions x) \<Longrightarrow>
     validateFinding h (x\<lparr>fi_extensions := e\<rparr>) = validateFinding h x"
  by (simp add: validateFinding_def cong: through_cases)

lemmas extension_free = validateProject_def validatePolicy_def shares_balanced_def validateSource_def within_lifetime_def
  validateIdea_def idea_plan_states_def validateResourcePool_def validateQueue_def validateQueueAdvice_def
  validateImmutable_def validateBattle_def battle_verdict_issues_def validatePlan_def validatePlanVersion_def
  validateRun_def validateEvaluationSpec_def validateEvaluation_def validateCandidate_def validateRelease_def
  validatePromotionSpec_def validatePromotion_def validateDecision_def attempt_extensions experiment_extensions
  try_extensions

lemma unchanged_by_extensions:
  assumes "mset e = mset (GetExtensions r)"
  shows "GetSchema (with_extensions e r) = GetSchema r" and "GetKind (with_extensions e r) = GetKind r"
    and "common_issues h (with_extensions e r) = common_issues h r"
    and "specific_issues rnd h (with_extensions e r) = specific_issues rnd h r"
proof -
  have m: "hasMigrationExtension e = hasMigrationExtension (GetExtensions r)"
    using mset_eq_setD [OF assms] by (simp add: hasMigrationExtension_def)
  show "GetSchema (with_extensions e r) = GetSchema r" "GetKind (with_extensions e r) = GetKind r"
    by (cases r; simp)+
  have "GetCommon (with_extensions e r) = GetCommon r" "GetKind (with_extensions e r) = GetKind r"
    by (cases r; simp add: common.truncate_def)+
  then show "common_issues h (with_extensions e r) = common_issues h r"
    by (simp add: common_issues_def validateCommon_def GetExtensions_with m split: option.split)
  show "specific_issues rnd h (with_extensions e r) = specific_issues rnd h r"
    using m by (cases r) (simp_all add: extension_free finding_extensions cong: through_cases)
qed

text \<open>
  C35: the report is deterministic although Go iterates maps in random order: whatever order the
  extension namespaces come in, the issues are the same list, and the list is sorted by field and
  then by code.
\<close>

theorem Validate_deterministic:
  assumes "mset e = mset (GetExtensions r)"
  shows "Validate rnd h (Some (with_extensions e r)) = Validate rnd h (Some r) \<and>
    sorted_wrt (\<lambda>a b. \<not> issue_before b a) (Validate rnd h (Some r))"
proof
  have "mset (validateExtensions h e) = mset (validateExtensions h (GetExtensions r))"
    unfolding validateExtensions_def by (rule mset_concat_map [OF assms])
  then show "Validate rnd h (Some (with_extensions e r)) = Validate rnd h (Some r)"
    unfolding Validate_def option.case GetExtensions_with unchanged_by_extensions [OF assms]
    by (intro collected_cong) simp
  show "sorted_wrt (\<lambda>a b. \<not> issue_before b a) (Validate rnd h (Some r))"
    using collected_sorted unfolding Validate_def no_inversion_def by blast
qed

section \<open>Concrete records\<close>

definition later :: "int \<Rightarrow> go_time" where
  "later n = GoTime (t_instant sample_stamp + n) 0"

definition sample_design :: design where
  "sample_design = \<lparr>de_question = ''q'', de_hypothesis = ''h'', de_kind = ExperimentSingleFactor, de_primary = ''f'',
     de_secondary = Some [], de_baseline = ''b'', de_comparability = ''c'', de_success = [''s''], de_rule = ''r'',
     de_locked = Some sample_stamp, de_digest = zero_digest\<rparr>"

definition sample_amendment :: "int \<Rightarrow> amendment" where
  "sample_amendment n = \<lparr>am_amended = later n, am_reason = ''why'', am_previous = zero_digest, am_new = zero_digest,
     am_changes = [''c'']\<rparr>"

definition sample_record_experiment :: experiment_record where
  "sample_record_experiment = common.extend (sample_common SchemaExperiment (sample_id KindExperiment 1)\<lparr>c_updated := later 100\<rparr>)
    \<lparr>ex_lifecycle = LifecycleActive, ex_closure = None, ex_verdict = None, ex_design = sample_design,
     ex_amendments = [sample_amendment 10, sample_amendment 20], ex_detail = None, ex_conclusion = None, ex_parents = [],
     ex_inputs = [], ex_extensions = []\<rparr>"

theorem accepted_experiment_witness:
  "lifecycle_fields sample_record_experiment \<and> design_lock_ok open_checks sample_record_experiment"
proof -
  have "Validate Fin open_checks (Some (RecExperiment sample_record_experiment)) = []" by code_simp
  from accepted_experiment [OF this] show ?thesis by blast
qed

definition sample_snapshot :: "8 word \<Rightarrow> source_snapshot" where
  "sample_snapshot n = \<lparr>ss_source = sample_id KindSource n, ss_subdir = ''.'', ss_policy = ''v1'', ss_captured = sample_stamp,
     ss_format = GitObjectSHA1, ss_base = replicate 40 CHR ''a'', ss_head = replicate 40 CHR ''b'', ss_changes = Some [],
     ss_state = SourceSnapshotClean, ss_dirty_digest = [], ss_dirty_summary = [], ss_digest = zero_digest,
     ss_reproducibility = ReproducibilityExact\<rparr>"

definition sample_record_attempt :: attempt where
  "sample_record_attempt = common.extend (sample_common SchemaAttemptV3 (sample_id KindAttempt 1))
    \<lparr>at_run = sample_id KindRun 2, at_try = zero_id, at_retry = zero_id, at_state = AttemptRunning, at_reason = [],
     at_runner = ''direct'', at_scheduler = ''pueue'', at_cwd = ''.'', at_argv = [''make''], at_execution = sample_id KindSource 4,
     at_snapshots = [sample_snapshot 3, sample_snapshot 4], at_refs = [], at_provenance = None, at_terminal = None,
     at_pool = zero_id, at_queue = zero_id, at_queue_revision = 0, at_lane = None, at_dispatch = [], at_base = [], at_head = [],
     at_changes = None, at_extensions = []\<rparr>"

theorem accepted_attempt_witness:
  "sorted_wrt (<) (snapshot_keys open_checks (at_snapshots sample_record_attempt)) \<and>
   at_execution sample_record_attempt \<in> ss_source ` set (at_snapshots sample_record_attempt)"
proof -
  have v: "Validate Fin open_checks (Some (RecAttempt sample_record_attempt)) = []" by code_simp
  have "c_schema sample_record_attempt = SchemaAttemptV3"
    by (simp add: sample_record_attempt_def common.defs sample_common_def)
  from accepted_attempt [OF v this] show ?thesis by blast
qed

theorem Validate_deterministic_witness:
  "Validate Fin open_checks (Some (with_extensions (rev (qu_extensions sample_record_queue)) (RecQueue sample_record_queue))) = []"
  using Validate_deterministic [of "rev (qu_extensions sample_record_queue)" "RecQueue sample_record_queue" Fin open_checks]
  by (simp add: sample_queue_accepted)

end
