(* ===== verification/Exp_Inventory_Valid.thy ===== *)
theory Exp_Inventory_Valid
  imports Exp_Inventory_Theorems Exp_Control Exp_Validate_Work_Theorems
begin

text \<open>
  What an inventory that reports nothing guarantees: its identifiers are unique, every reference
  resolves to a record of the right kind, the edges of the research graph join records of the
  inventory, and the order in which the candidate documents were given does not matter.
\<close>

section \<open>No diagnostics, no findings\<close>

text \<open>The inventories the code builds, with no diagnostic left.\<close>

definition checked :: "'h inventory_host_scheme \<Rightarrow> inventory \<Rightarrow> bool" where
  "checked h v \<longleftrightarrow> Valid v \<and> (\<exists>skip ds locations found. v = finalize h skip ds locations found)"

lemma insort_by_not_Nil [simp]: "insort_by lt x xs \<noteq> []"
  by (cases xs) auto

lemma sortDiagnostics_Nil [simp]: "sortDiagnostics xs = [] \<longleftrightarrow> xs = []"
  by (cases xs) (auto simp: sortDiagnostics_def)

lemma checked_rules:
  assumes "checked h v"
  shows "validateDuplicates v = []" "validateEvaluationMLflowOwnership h v = []" "validateRelationships h v = []"
    "validateTryClosureSemantics h v = []" "validateTryRetrySemantics h v = []" "validatePlanExperimentSemantics h v = []"
    "validatePromotionSemantics h v = []" "validateCycles h v = []" "singleton_diagnostics (in_documents v) = []"
proof -
  obtain skip ds locations found where v: "v = finalize h skip ds locations found" "in_diagnostics v = []"
    using assms by (auto simp: checked_def Valid_def)
  let ?w = "indexed (stable_sort by_path ds) locations"
  have "found @ problems h skip ?w = []" using v by (simp add: finalize_def Let_def)
  moreover from this have "v = ?w" using v(1) by (simp add: finalize_def Let_def indexed_def sortDiagnostics_def)
  ultimately have "problems h skip v = []" by simp
  then show "validateDuplicates v = []" "validateEvaluationMLflowOwnership h v = []" "validateRelationships h v = []"
    "validateTryClosureSemantics h v = []" "validateTryRetrySemantics h v = []" "validatePlanExperimentSemantics h v = []"
    "validatePromotionSemantics h v = []" "validateCycles h v = []" "singleton_diagnostics (in_documents v) = []"
    by (simp_all add: problems_def)
qed

lemma at_document_Nil [simp]: "at_document d codes = [] \<longleftrightarrow> codes = []"
  by (simp add: at_document_def)

lemma checked_record:
  assumes "checked h v" "d \<in> set (in_documents v)" "d_record d = Some r"
  shows "record_codes h v d r = []"
  using checked_rules(3) [OF assms(1)] assms(2,3) by (fastforce simp: validateRelationships_def)

lemma filter_twice:
  assumes "distinct xs" "x \<in> set xs" "y \<in> set xs" "x \<noteq> y" "P x" "P y"
  shows "2 \<le> length (filter P xs)"
proof -
  have "card {x, y} \<le> card (set (filter P xs))" using assms by (intro card_mono) auto
  also have "\<dots> \<le> length (filter P xs)" by (rule card_length)
  finally show ?thesis using assms(4) by simp
qed

lemma few_distinct: "(\<forall>k\<in>set xs. length (filter (\<lambda>x. x = k) xs) < 2) \<longleftrightarrow> distinct xs"
proof
  assume few: "\<forall>k\<in>set xs. length (filter (\<lambda>x. x = k) xs) < 2"
  have "length (filter (\<lambda>x. x = k) xs) < 2" for k
  proof (cases "k \<in> set xs")
    case False
    then have "filter (\<lambda>x. x = k) xs = []" by (auto simp: filter_empty_conv)
    then show ?thesis by simp
  qed (use few in blast)
  then show "distinct xs"
  proof (induction xs)
    case (Cons x xs)
    have "length (filter (\<lambda>z. z = y) xs) < 2" for y
      using Cons.prems [of y] by (auto split: if_splits)
    moreover have "filter (\<lambda>z. z = x) xs = []" using Cons.prems [of x] by simp
    ultimately show ?case using Cons.IH by (auto simp: filter_empty_conv)
  qed simp
qed (induction xs, auto simp: filter_empty_conv less_Suc_eq)

text \<open>No key is shared: the keys are distinct.\<close>

lemma shared_Nil: "shared keyed code = [] \<longleftrightarrow> distinct (map snd keyed)"
proof -
  have eq: "length (filter (\<lambda>(_, l). l = k) keyed) = length (filter (\<lambda>l. l = k) (map snd keyed))" for k
    by (induction keyed) auto
  show ?thesis unfolding shared_def eq few_distinct [symmetric] by (auto simp: flag_def split: if_splits)
qed

text \<open>Each identifier, alias and source key stands for one record.\<close>

lemma checked_unique:
  assumes "checked h v" "d \<in> set (in_documents v)" "document_id d = Some i"
  shows "unique v i = Some d"
proof -
  let ?keyed = "List.map_filter (\<lambda>d. map_option (Pair d) (document_id d)) (in_documents v)"
  have few: "length (filter (\<lambda>l. l = i) (map snd ?keyed)) < 2"
  proof (cases "i \<in> set (map snd ?keyed)")
    case True
    have "distinct (map snd ?keyed)"
      using checked_rules(1) [OF assms(1)] by (simp add: validateDuplicates_def shared_Nil)
    with True show ?thesis unfolding few_distinct [symmetric] by blast
  next
    case False
    then have "filter (\<lambda>l. l = i) (map snd ?keyed) = []" by (auto simp: filter_empty_conv)
    then show ?thesis by simp
  qed
  have "length (filter (\<lambda>l. l = i) (map snd (List.map_filter (\<lambda>d. map_option (Pair d) (document_id d)) ds))) =
      length (with_document_id i ds)" for ds
    by (induction ds) (auto simp: map_filter_simps with_document_id_def split: option.splits)
  with few have "length (with_document_id i (in_documents v)) < 2" by simp
  moreover have "d \<in> set (with_document_id i (in_documents v))" using assms(2,3) by (simp add: with_document_id_def)
  ultimately have "with_document_id i (in_documents v) = [d]"
    by (cases "with_document_id i (in_documents v)") (auto simp: less_Suc_eq)
  then show ?thesis by (simp add: unique_def)
qed

section \<open>References resolve\<close>

lemma valid_references:
  assumes "checked h v" and "d \<in> set (in_documents v)" and "d_record d = Some r"
    and "(i, kinds) \<in> set (references r)" and "\<not> id_is_zero i"
  shows "\<exists>t. unique v i = Some t \<and> id_kind_of i \<in> set kinds"
proof -
  have "resolved v (i, kinds)"
    using record_references_resolved [OF checked_record [OF assms(1-3)]] assms(4) by (auto simp: list_all_iff)
  then show ?thesis using assms(5) by (auto simp: resolved_def)
qed

text \<open>
  C25: in an inventory without diagnostics every reference a record makes is to exactly one record of
  the inventory, and its identifier has a kind the referring field allows.
\<close>

theorem valid_inventory_references:
  assumes "checked h v" and "d \<in> set (in_documents v)" and "d_record d = Some r"
    and "(i, kinds) \<in> set (references r)" and "\<not> id_is_zero i"
  shows "\<exists>t. t \<in> set (in_documents v) \<and> document_id t = Some i \<and> unique v i = Some t \<and> id_kind_of i \<in> set kinds"
  using valid_references [OF assms] unique_mem by blast

section \<open>Candidate inventories\<close>

lemma map_filter_mem: "y \<in> set (List.map_filter f xs) \<longleftrightarrow> (\<exists>x\<in>set xs. f x = Some y)"
  by (force simp: List.map_filter_def)

lemma finalize_documents [simp]: "in_documents (finalize h skip ds locations found) = stable_sort by_path ds"
  by (simp add: finalize_def Let_def indexed_def)

lemma candidate_document_accepts:
  "candidate_document rnd h imported d = (found, Some (d', l)) \<Longrightarrow>
    validation_codes rnd h imported d = [] \<and> d_record d' = d_record d \<and> d_path d' = d_path d \<and>
    ClassifyPath h (d_path d) = Canonical l"
  by (auto simp: candidate_document_def split: if_splits classified.splits sum.splits)

lemma candidate_records_accepted:
  assumes "d \<in> set (in_documents (InventoryFromDocuments rnd h documents))" and "d_record d = Some r"
  shows "Validate rnd h (Some r) = []"
proof -
  obtain kept duplicates where "first_paths [] documents = (kept, duplicates)" by fastforce
  with assms(1) obtain y where "y \<in> set (List.map_filter snd (map (candidate_document rnd h False) kept))" "d = fst y"
    by (auto simp: InventoryFromDocuments_def inventoryFromDocuments_def Let_def)
  then obtain x where "snd (candidate_document rnd h False x) = Some (d, snd y)"
    by (auto simp: map_filter_mem)
  then obtain found where "candidate_document rnd h False x = (found, Some (d, snd y))"
    by (metis prod.collapse)
  from candidate_document_accepts [OF this] assms(2) show ?thesis by (auto simp: validation_codes_def)
qed

lemma candidate_checked: "Valid (InventoryFromDocuments rnd h documents) \<Longrightarrow> checked h (InventoryFromDocuments rnd h documents)"
  by (auto simp: checked_def InventoryFromDocuments_def inventoryFromDocuments_def Let_def split: prod.splits)

section \<open>The research graph\<close>

definition joins :: "typed_id option \<Rightarrow> (typed_id \<times> kind list) list \<Rightarrow> research_edge \<Rightarrow> bool" where
  "joins own refs e \<longleftrightarrow> id_is_zero (ed_from e) \<or> id_is_zero (ed_to e) \<or>
     own = Some (ed_to e) \<and> ed_from e \<in> fst ` set refs \<or> own = Some (ed_from e) \<and> ed_to e \<in> fst ` set refs"

lemma joins_from: "list_all (joins own refs) (from_each is i relation) \<longleftrightarrow>
    (\<forall>j\<in>set is. id_is_zero j \<or> id_is_zero i \<or> own = Some i \<and> j \<in> fst ` set refs \<or> own = Some j \<and> i \<in> fst ` set refs)"
  by (simp add: list_all_iff from_each_def joins_def)

lemma joins_to: "list_all (joins own refs) (to_each i is relation) \<longleftrightarrow>
    (\<forall>j\<in>set is. id_is_zero i \<or> id_is_zero j \<or> own = Some j \<and> i \<in> fst ` set refs \<or> own = Some i \<and> j \<in> fst ` set refs)"
  by (simp add: list_all_iff to_each_def joins_def)

lemma refs_to_ids: "fst ` set (refs_to k is) = set is"
  by (force simp: refs_to_def)

lemma nonzero_id: "nonzero i = (if id_is_zero i then None else Some i)"
  by (simp add: nonzero_def)

text \<open>Fields of the newer schemas are empty in a record of an older one.\<close>

lemma older_plan: "Validate rnd h (Some (RecPlan p)) = [] \<Longrightarrow> c_schema p = SchemaPlanV2 \<or> pl_dependencies p = []"
  by (cases "c_schema p") (auto simp: Validate_accepts validatePlan_def validatePlanVersion_def Let_def)

lemma older_attempt: "Validate rnd h (Some (RecAttempt a)) = [] \<Longrightarrow> c_schema a = SchemaAttemptV3 \<or> at_snapshots a = []"
  by (cases "c_schema a") (auto simp: Validate_accepts validateAttempt_def validateAttemptVersion_def Let_def)

lemma older_candidate: "Validate rnd h (Some (RecCandidate c)) = [] \<Longrightarrow>
    c_schema c = SchemaCandidateV2 \<or> id_is_zero (ca_attempt c) \<and> ca_sources c = None"
  by (cases "c_schema c") (auto simp: Validate_accepts validateCandidate_def)

lemma list_all_concat_map: "list_all P (concat (map f xs)) \<longleftrightarrow> (\<forall>x\<in>set xs. list_all P (f x))"
  by (auto simp: list_all_iff)

lemma record_edges_join:
  assumes "Validate rnd h (Some r) = []"
  shows "list_all (joins (GetID r) (references r)) (record_edges r)"
proof -
  note rules = joins_from joins_to refs_to_ids nonzero_id image_Un image_UN list_all_concat_map
  show ?thesis
  proof (cases r)
    case (RecQueue q)
    then show ?thesis by (auto simp: rules)
  next
    case (RecExperiment e)
    then show ?thesis by (auto simp: rules split: option.splits)
  next
    case (RecPlan p)
    with assms older_plan [of rnd h p] show ?thesis
      by (cases "c_schema p = SchemaPlanV2") (auto simp: rules)
  next
    case (RecAttempt a)
    with assms older_attempt [of rnd h a] show ?thesis by (auto simp: rules)
  next
    case (RecCandidate c)
    with assms older_candidate [of rnd h c] show ?thesis
      by (cases "c_schema c = SchemaCandidateV2") (auto simp: rules slice_def split: option.splits)
  next
    case (RecFinding f)
    then show ?thesis by (force simp: rules)
  next
    case (RecRelease x)
    then show ?thesis by (auto simp: rules)
  qed (auto simp: rules)
qed

lemma record_edges_relation: "e \<in> set (add_edges h seen es) \<Longrightarrow> e \<in> set es \<and> \<not> id_is_zero (ed_from e) \<and> \<not> id_is_zero (ed_to e)"
  by (induction h seen es rule: add_edges.induct) (auto split: if_splits)

lemma edges_of_document:
  assumes "e \<in> set (add_edges h seen (concat (map (\<lambda>d. case d_record d of None \<Rightarrow> [] | Some r \<Rightarrow> record_edges r) ds)))"
  obtains d r where "d \<in> set ds" "d_record d = Some r" "e \<in> set (record_edges r)" "\<not> id_is_zero (ed_from e)" "\<not> id_is_zero (ed_to e)"
proof -
  from record_edges_relation [OF assms] obtain d where
    "d \<in> set ds" "e \<in> set (case d_record d of None \<Rightarrow> [] | Some r \<Rightarrow> record_edges r)"
    "\<not> id_is_zero (ed_from e)" "\<not> id_is_zero (ed_to e)" by auto
  with that show ?thesis by (cases "d_record d") auto
qed

lemma add_edges_fresh: "e \<in> set (add_edges h seen es) \<Longrightarrow> edge_key h e \<notin> set seen"
  by (induction h seen es rule: add_edges.induct) (auto split: if_splits)

lemma distinct_add_edges: "distinct (map (edge_key h) (add_edges h seen es))"
  by (induction h seen es rule: add_edges.induct) (auto dest: add_edges_fresh)

lemma document_id_record: "d_record d = Some r \<Longrightarrow> GetID r = Some i \<Longrightarrow> document_id d = Some i"
  by (simp add: document_id_def)

lemma distinct_stable_sort: "distinct (map f (stable_sort lt xs)) \<longleftrightarrow> distinct (map f xs)"
  by (metis distinct_map mset_eq_imp_distinct_iff mset_stable_sort set_stable_sort)

text \<open>
  C26: the research graph of a valid candidate inventory is closed: every edge joins two records of the
  inventory, each found under exactly one identifier, and no edge is listed twice.
\<close>

theorem ResearchEdges_closed:
  assumes "v = InventoryFromDocuments rnd h documents" and "Valid v"
  shows "distinct (ResearchEdges h v) \<and>
    (\<forall>e\<in>set (ResearchEdges h v). unique v (ed_from e) \<noteq> None \<and> unique v (ed_to e) \<noteq> None)"
proof
  show "distinct (ResearchEdges h v)"
    unfolding ResearchEdges_def by (metis distinct_add_edges distinct_map distinct_stable_sort)
next
  have checked: "checked h v" using candidate_checked assms by blast
  show "\<forall>e\<in>set (ResearchEdges h v). unique v (ed_from e) \<noteq> None \<and> unique v (ed_to e) \<noteq> None"
  proof
    fix e
    assume "e \<in> set (ResearchEdges h v)"
    then obtain d r where e: "d \<in> set (in_documents v)" "d_record d = Some r" "e \<in> set (record_edges r)"
      "\<not> id_is_zero (ed_from e)" "\<not> id_is_zero (ed_to e)"
      unfolding ResearchEdges_def set_stable_sort by (rule edges_of_document)
    have "Validate rnd h (Some r) = []"
      using candidate_records_accepted e(1,2) assms(1) by blast
    then have "joins (GetID r) (references r) e"
      using record_edges_join e(3) by (fastforce simp: list_all_iff)
    moreover have "unique v i \<noteq> None" if "i \<in> fst ` set (references r)" "\<not> id_is_zero i" for i
      using valid_references [OF checked e(1,2)] that by fastforce
    moreover have "unique v i \<noteq> None" if "GetID r = Some i" for i
      using checked_unique [OF checked e(1) document_id_record [OF e(2) that]] by simp
    ultimately show "unique v (ed_from e) \<noteq> None \<and> unique v (ed_to e) \<noteq> None"
      using e(4,5) by (auto simp: joins_def)
  qed
qed

section \<open>The order of the documents\<close>

lemma first_paths_distinct:
  "distinct (map d_path ds) \<Longrightarrow> set (map d_path ds) \<inter> set seen = {} \<Longrightarrow> first_paths seen ds = (ds, [])"
  by (induction seen ds rule: first_paths.induct) (auto split: prod.splits)

lemma sort_by_path_cong:
  assumes "mset ds = mset ds'" and "inj_on d_path (set ds)"
  shows "stable_sort by_path ds = stable_sort by_path ds'"
proof -
  have sets: "set ds = set ds'" using assms(1) by (metis set_mset_mset)
  show ?thesis
  proof (rule no_inversion_unique [where A = "set ds" and lt = by_path])
    show "no_inversion by_path (stable_sort by_path ds)"
      by (rule no_inversion_stable_sort [where A = "set ds"]) (auto simp: by_path_def)
    show "no_inversion by_path (stable_sort by_path ds')"
      by (rule no_inversion_stable_sort [where A = "set ds"]) (auto simp: by_path_def sets)
    show "by_path x y \<or> by_path y x" if "x \<in> set ds" "y \<in> set ds" "x \<noteq> y" for x y
      using inj_onD [OF assms(2) _ that(1,2)] that(3) unfolding by_path_def by (meson neqE)
  qed (simp_all add: assms(1))
qed

lemma sortDiagnostics_cong: "mset xs = mset ys \<Longrightarrow> sortDiagnostics xs = sortDiagnostics ys"
proof -
  assume "mset xs = mset ys"
  moreover have "no_inversion diagnostic_before (stable_sort diagnostic_before zs)" for zs
    by (rule no_inversion_stable_sort [where A = UNIV]) (auto simp: diagnostic_before_def split: if_splits)
  moreover have "diagnostic_before x y \<or> diagnostic_before y x" if "x \<noteq> y" for x y
    using that by (cases x; cases y) (auto simp: diagnostic_before_def)
  ultimately have "stable_sort diagnostic_before xs = stable_sort diagnostic_before ys"
    by (intro no_inversion_unique [where A = UNIV and lt = diagnostic_before]) auto
  then show ?thesis by (simp add: sortDiagnostics_def)
qed

lemma finalize_cong:
  assumes "mset ds = mset ds'" and "inj_on d_path (set ds)" and "mset found = mset found'" and "locations = locations'"
  shows "finalize h skip ds locations found = finalize h skip ds' locations' found'"
proof -
  have "sortDiagnostics (found @ ps) = sortDiagnostics (found' @ ps)" for ps
    by (rule sortDiagnostics_cong) (simp add: assms(3))
  then show ?thesis using sort_by_path_cong [OF assms(1,2)] by (simp add: finalize_def assms(4))
qed

lemma accepted_paths:
  assumes "(d, l) \<in> set (List.map_filter snd (map (candidate_document rnd h imported) ds))"
  obtains x where "x \<in> set ds" "d_path x = d_path d" "snd (candidate_document rnd h imported x) = Some (d, l)"
proof -
  from assms obtain x where x: "x \<in> set ds" "snd (candidate_document rnd h imported x) = Some (d, l)"
    by (auto simp: map_filter_mem)
  then have "d_path d = d_path x"
    using candidate_document_accepts [of rnd h imported x "fst (candidate_document rnd h imported x)" d l] by (metis prod.collapse)
  with x that show ?thesis by metis
qed

lemma accepted_distinct:
  "distinct (map d_path ds) \<Longrightarrow>
    distinct (map fst (map (\<lambda>(d, l). (d_path d, l)) (List.map_filter snd (map (candidate_document rnd h imported) ds))))"
proof (induction ds)
  case (Cons x ds)
  show ?case
  proof (cases "snd (candidate_document rnd h imported x)")
    case None
    then show ?thesis using Cons by (simp add: map_filter_simps)
  next
    case (Some y)
    have "d_path (fst y) \<notin> d_path ` fst ` set (List.map_filter snd (map (candidate_document rnd h imported) ds))"
    proof
      assume "d_path (fst y) \<in> d_path ` fst ` set (List.map_filter snd (map (candidate_document rnd h imported) ds))"
      then obtain d l where "(d, l) \<in> set (List.map_filter snd (map (candidate_document rnd h imported) ds))" "d_path (fst y) = d_path d"
        by auto
      then obtain z where "z \<in> set ds" "d_path z = d_path (fst y)" using accepted_paths by metis
      moreover have "d_path (fst y) = d_path x"
        using Some candidate_document_accepts [of rnd h imported x _ "fst y" "snd y"] by (metis prod.collapse)
      ultimately show False using Cons.prems by (metis distinct.simps(2) image_eqI list.set_map list.simps(9))
    qed
    then show ?thesis using Cons Some by (cases y) (auto simp: map_filter_simps image_image case_prod_beta)
  qed
qed (simp add: map_filter_simps)

text \<open>
  C28: the inventory built from candidate documents with different paths, its report included, does not
  depend on the order in which the documents are given.
\<close>

theorem InventoryFromDocuments_order:
  assumes "mset documents = mset documents'" and "distinct (map d_path documents)"
  shows "InventoryFromDocuments rnd h documents = InventoryFromDocuments rnd h documents'"
proof -
  let ?results = "map (candidate_document rnd h False)"
  let ?accepted = "\<lambda>ds. List.map_filter snd (?results ds)"
  have distinct': "distinct (map d_path documents')"
    using assms by (metis mset_eq_imp_distinct_iff mset_map)
  have same: "mset (?accepted documents) = mset (?accepted documents')"
    by (simp add: List.map_filter_def assms(1))
  let ?keyed = "\<lambda>ds. map (\<lambda>(d, l). (d_path d, l)) (?accepted ds)"
  have keys: "distinct (map fst (?keyed documents))" "distinct (map fst (?keyed documents'))"
    using accepted_distinct assms(2) distinct' by blast+
  have "set (?keyed documents) = set (?keyed documents')"
    using arg_cong [OF same, of set_mset] by (simp only: set_map set_mset_mset)
  then have locations: "map_of (?keyed documents) = map_of (?keyed documents')"
    using map_of_inject_set keys by blast
  have "inj_on d_path (set (map fst (?accepted documents)))"
    using keys(1) by (force simp: inj_on_def distinct_map)
  then show ?thesis
    using first_paths_distinct [OF assms(2), of "[]"] first_paths_distinct [OF distinct', of "[]"] locations same
    by (auto simp: InventoryFromDocuments_def inventoryFromDocuments_def Let_def assms(1) intro!: finalize_cong mset_concat_map)
qed

end
