(* ===== verification/Exp_Promotion_Theorems.thy ===== *)
theory Exp_Promotion_Theorems
  imports Exp_Inventory_Valid
begin

text \<open>
  The Promotion chains of an inventory without diagnostics. A chain is the relation \<open>reign\<close>: a root,
  then one Promotion after another, each with the champion in office when it was decided and the
  Promotion that put that champion in office.
\<close>

section \<open>Chains\<close>

inductive reign :: "(document \<times> promotion) list \<Rightarrow> (document \<times> promotion) list \<Rightarrow> document \<times> promotion \<Rightarrow>
    typed_id \<Rightarrow> promotion option \<Rightarrow> bool" for ps where
  start: "x \<in> set (roots_of ps t) \<Longrightarrow> reign ps [] x zero_id None"
| follow: "reign ps earlier x champion setting \<Longrightarrow> y \<in> set (followers_of ps (c_id (snd x))) \<Longrightarrow>
    reign ps (x # earlier) y (if crowns (snd x) then pr_challenger (snd x) else champion)
      (if crowns (snd x) then Some (snd x) else setting)"

text \<open>What the rules on Promotions leave: identifiers name one Promotion, chains do not fork, and a
  target has one root.\<close>

definition linear :: "(document \<times> promotion) list \<Rightarrow> bool" where
  "linear ps \<longleftrightarrow>
    (\<forall>x\<in>set ps. \<forall>y\<in>set ps. c_id (snd x) = c_id (snd y) \<and> \<not> id_is_zero (c_id (snd x)) \<longrightarrow> x = y) \<and>
    (\<forall>i. length (followers_of ps i) < 2) \<and> (\<forall>t. length (roots_of ps t) < 2)"

definition chained :: "(document \<times> promotion) list \<Rightarrow> bool" where
  "chained xs \<longleftrightarrow> successively (\<lambda>y x. pr_previous (snd y) = c_id (snd x) \<and> \<not> id_is_zero (c_id (snd x))) xs \<and>
    (xs \<noteq> [] \<longrightarrow> id_is_zero (pr_previous (snd (last xs))))"

lemma followers_mem: "y \<in> set (followers_of ps i) \<longleftrightarrow> y \<in> set ps \<and> pr_previous (snd y) = i \<and> \<not> id_is_zero i"
  by (auto simp: followers_of_def)

lemma roots_mem: "x \<in> set (roots_of ps t) \<longleftrightarrow> x \<in> set ps \<and> id_is_zero (pr_previous (snd x)) \<and> pr_target (snd x) = t"
  by (auto simp: roots_of_def)

lemma chained_Cons: "chained (y # x # xs) \<longleftrightarrow>
    pr_previous (snd y) = c_id (snd x) \<and> \<not> id_is_zero (c_id (snd x)) \<and> chained (x # xs)"
  by (auto simp: chained_def)

lemma chained_member:
  "chained xs \<Longrightarrow> z \<in> set xs \<Longrightarrow>
    id_is_zero (pr_previous (snd z)) \<or> (\<exists>w\<in>set (tl xs). pr_previous (snd z) = c_id (snd w))"
proof (induction xs)
  case (Cons x xs)
  then show ?case
    by (cases xs) (auto simp: chained_Cons chained_def)
qed simp

lemma chained_ids: "chained (x # xs) \<Longrightarrow> w \<in> set xs \<Longrightarrow> \<not> id_is_zero (c_id (snd w))"
proof (induction xs arbitrary: x)
  case (Cons y xs)
  then show ?case using Cons.IH [of y] by (auto simp: chained_Cons)
qed simp

lemma linear_id:
  "linear ps \<Longrightarrow> x \<in> set ps \<Longrightarrow> y \<in> set ps \<Longrightarrow> c_id (snd x) = c_id (snd y) \<Longrightarrow> \<not> id_is_zero (c_id (snd x)) \<Longrightarrow> x = y"
  unfolding linear_def by blast

lemma reign_invariant:
  assumes "reign ps earlier x champion setting" and "linear ps"
  shows "set (x # earlier) \<subseteq> set ps \<and> chained (x # earlier) \<and> distinct (map (c_id \<circ> snd) (x # earlier))"
  using assms(1)
proof induction
  case (start x t)
  then show ?case by (simp add: roots_mem chained_def)
next
  case (follow earlier x champion setting y)
  then have y: "y \<in> set ps" "pr_previous (snd y) = c_id (snd x)" "\<not> id_is_zero (c_id (snd x))"
    by (auto simp: followers_mem)
  with follow.IH have chain: "chained (y # x # earlier)" by (simp add: chained_Cons)
  have "c_id (snd y) \<noteq> c_id (snd z)" if z: "z \<in> set (x # earlier)" for z
  proof
    assume same: "c_id (snd y) = c_id (snd z)"
    then have "\<not> id_is_zero (c_id (snd z))" using chained_ids [OF chain z] by simp
    moreover have "z \<in> set ps" using z follow.IH by auto
    ultimately have "y = z" using linear_id [OF assms(2) y(1)] same by simp
    then obtain w where "w \<in> set earlier" "pr_previous (snd y) = c_id (snd w)"
      using chained_member [of "x # earlier" z] follow.IH z y(2,3) by auto
    moreover have "c_id (snd x) \<notin> (c_id \<circ> snd) ` set earlier" using follow.IH by simp
    ultimately show False using y(2) by (metis comp_apply imageI)
  qed
  with follow.IH y(1) chain show ?case by (auto simp: image_iff)
qed

lemma reign_length:
  assumes "reign ps earlier x champion setting" and "linear ps"
  shows "length earlier < length ps"
proof -
  have "distinct (x # earlier)" using reign_invariant [OF assms] distinct_map by blast
  then have "length (x # earlier) = card (set (x # earlier))" by (simp only: distinct_card)
  also have "\<dots> \<le> card (set ps)" using reign_invariant [OF assms] by (intro card_mono) auto
  also have "\<dots> \<le> length ps" by (rule card_length)
  finally show ?thesis by simp
qed

lemma single_list: "x \<in> set xs \<Longrightarrow> length xs < 2 \<Longrightarrow> xs = [x]"
  by (cases xs) (auto simp: less_Suc_eq)

lemma reign_root:
  assumes "reign ps earlier x champion setting"
  shows "last (x # earlier) \<in> set (roots_of ps (pr_target (snd (last (x # earlier)))))"
  using assms by induction (simp_all add: roots_mem)

section \<open>Every step is checked\<close>

text \<open>The walk from the root reaches each Promotion of the chain with the champion in office.\<close>

lemma walk_reaches:
  assumes "reign ps earlier x champion setting" and "linear ps"
    and "champion_walk ps (length ps) [] zero_id None (last (x # earlier)) = []"
  shows "champion_walk ps (length ps - length earlier) (map (c_id \<circ> snd) earlier) champion setting x = []"
  using assms(1,3)
proof induction
  case (follow earlier x champion setting y)
  obtain d p where x: "x = (d, p)" by (cases x)
  have "length earlier < length ps" using reign_length follow.hyps(1) assms(2) by blast
  then obtain n where n: "length ps - length earlier = Suc n" "n = length ps - length (x # earlier)"
    by (metis Suc_diff_Suc length_Cons)
  have fresh: "c_id p \<notin> set (map (c_id \<circ> snd) earlier)"
    using reign_invariant [OF follow.hyps(1) assms(2)] x by simp
  have next_one: "followers_of ps (c_id p) = [y]"
    using single_list [OF follow.hyps(2)] assms(2) x by (simp add: linear_def)
  have "champion_walk ps (length ps - length earlier) (map (c_id \<circ> snd) earlier) champion setting x = []"
    by (rule follow.IH) (use follow.prems in simp)
  then have "champion_walk ps (Suc n) (map (c_id \<circ> snd) earlier) champion setting (d, p) = []"
    unfolding n(1) x .
  then show ?case
    using fresh next_one n(2) by (auto simp: x comp_def split: if_splits)
qed simp

lemma walk_codes:
  assumes "champion_walk ps (Suc n) visited champion setting x = []" and "c_id (snd x) \<notin> set visited"
  shows "champion_codes (snd x) champion setting = []"
  using assms by (cases x) simp


section \<open>The chains of a checked inventory\<close>

definition promotions :: "'h inventory_host_scheme \<Rightarrow> inventory \<Rightarrow> (document \<times> promotion) list" where
  "promotions h v = of_kind h v KindPromotion rec_promotion"

lemma of_kind_mem: "x \<in> set (of_kind h v k sel) \<longleftrightarrow>
    fst x \<in> set (in_documents v) \<and> document_kind (fst x) = k \<and> view sel (fst x) = Some (snd x)"
  by (cases x) (auto simp: of_kind_def OfKind_def map_filter_mem)

lemma rec_promotion_Some: "view rec_promotion d = Some p \<longleftrightarrow> d_record d = Some (RecPromotion p)"
proof -
  have "rec_promotion r = Some p \<longleftrightarrow> r = RecPromotion p" for r by (cases r) auto
  then show ?thesis by (auto simp: view_def split: option.splits)
qed

lemma promotions_mem: "x \<in> set (promotions h v) \<longleftrightarrow> fst x \<in> set (in_documents v) \<and> d_record (fst x) = Some (RecPromotion (snd x))"
  by (auto simp: promotions_def of_kind_mem rec_promotion_Some document_kind_def)

lemma promotion_unique:
  assumes "checked h v" and "x \<in> set (promotions h v)" and "\<not> id_is_zero (c_id (snd x))"
  shows "unique v (c_id (snd x)) = Some (fst x)"
  using checked_unique [OF assms(1)] assms(2,3) document_id_record [of "fst x" "RecPromotion (snd x)"]
  by (auto simp: promotions_mem nonzero_id)

lemma few_keyed:
  assumes "distinct (map f xs)"
  shows "length (filter (\<lambda>x. f x = k) xs) < 2"
proof (cases "k \<in> set (map f xs)")
  case True
  with assms have "length (filter (\<lambda>y. y = k) (map f xs)) < 2" unfolding few_distinct [symmetric] by blast
  then show ?thesis by (simp add: filter_map comp_def)
next
  case False
  then have "filter (\<lambda>x. f x = k) xs = []" by (auto simp: filter_empty_conv)
  then show ?thesis by simp
qed

lemma promotions_linear:
  assumes "checked h v"
  shows "linear (promotions h v)"
  unfolding linear_def
proof (intro conjI allI ballI impI)
  fix x y
  assume xy: "x \<in> set (promotions h v)" "y \<in> set (promotions h v)"
    "c_id (snd x) = c_id (snd y) \<and> \<not> id_is_zero (c_id (snd x))"
  then have "fst x = fst y" using promotion_unique [OF assms] by (metis option.inject)
  with xy show "x = y" by (auto simp: promotions_mem intro: prod_eqI)
next
  have forks: "validatePromotionForks h v = []" using checked_rules(8) [OF assms] by (simp add: validateCycles_def)
  fix i
  have "distinct (map (pr_previous \<circ> snd) (filter (\<lambda>(d, p). \<not> id_is_zero (pr_previous p)) (promotions h v)))"
    using forks by (simp add: validatePromotionForks_def Let_def shared_Nil promotions_def case_prod_unfold comp_def)
  from few_keyed [OF this, of i] show "length (followers_of (promotions h v) i) < 2"
    by (simp add: followers_of_def case_prod_unfold)
next
  have forks: "validatePromotionForks h v = []" using checked_rules(8) [OF assms] by (simp add: validateCycles_def)
  fix t
  have "distinct (map (pr_target \<circ> snd) (filter (\<lambda>(d, p). id_is_zero (pr_previous p)) (promotions h v)))"
    using forks by (simp add: validatePromotionForks_def Let_def shared_Nil promotions_def case_prod_unfold comp_def)
  from few_keyed [OF this, of t] show "length (roots_of (promotions h v) t) < 2"
    by (simp add: roots_of_def case_prod_unfold)
qed


text \<open>The Promotion a checked one follows has the same target.\<close>

lemma follower_target:
  assumes "checked h v" and "x \<in> set (promotions h v)" and "y \<in> set (followers_of (promotions h v) (c_id (snd x)))"
  shows "pr_target (snd y) = pr_target (snd x)"
proof -
  have y: "y \<in> set (promotions h v)" "pr_previous (snd y) = c_id (snd x)" "\<not> id_is_zero (c_id (snd x))"
    using assms(3) by (simp_all add: followers_mem)
  have codes: "promotion_codes v (snd y) = []"
    using checked_record [OF assms(1)] y(1) by (fastforce simp: promotions_mem)
  then have "resolved v (c_id (snd x), [KindPromotion])" by (simp add: promotion_codes_def code_rules y(2))
  then have "id_kind_of (c_id (snd x)) = KindPromotion" using y(3) by (simp add: resolved_def)
  moreover have "with_document_id (c_id (snd x)) (in_documents v) = [fst x]"
    using promotion_unique [OF assms(1,2) y(3)] by (simp add: unique_def split: list.splits)
  ultimately have "target v (c_id (snd x)) KindPromotion rec_promotion = Some (snd x)"
    using assms(2) y(3) by (simp add: target_def require_def requireAny_def promotions_mem rec_promotion_Some)
  then show ?thesis using codes by (simp add: promotion_codes_def code_rules y(2))
qed

lemma reign_target:
  assumes "reign (promotions h v) earlier x champion setting" and "checked h v"
  shows "pr_target (snd x) = pr_target (snd (last (x # earlier)))"
  using assms(1)
proof induction
  case (follow earlier x champion setting y)
  have "x \<in> set (promotions h v)" using reign_invariant [OF follow.hyps(1) promotions_linear [OF assms(2)]] by simp
  then show ?case using follower_target [OF assms(2) _ follow.hyps(2)] follow.IH by simp
qed simp

lemma concat_map_Nil: "concat (map f xs) = [] \<Longrightarrow> x \<in> set xs \<Longrightarrow> f x = []"
  by simp

lemma root_target:
  assumes "x \<in> set (roots_of ps t)"
  shows "t \<in> set (map (\<lambda>(d, p). pr_target p) (filter (\<lambda>(d, p). id_is_zero (pr_previous p)) ps))"
  using assms unfolding roots_mem by (auto simp: case_prod_unfold image_iff) (metis prod.collapse)

lemma checked_walk:
  assumes "checked h v" and "x \<in> set (roots_of (promotions h v) t)"
  shows "champion_walk (promotions h v) (length (promotions h v)) [] zero_id None x = []"
proof -
  have one: "roots_of (promotions h v) t = [x]"
    using single_list [OF assms(2)] promotions_linear [OF assms(1)] by (simp add: linear_def)
  have "concat (map (\<lambda>t. case roots_of (promotions h v) t of
      [start] \<Rightarrow> champion_walk (promotions h v) (length (promotions h v)) [] zero_id None start | _ \<Rightarrow> [])
      (remdups (map (\<lambda>(d, p). pr_target p) (filter (\<lambda>(d, p). id_is_zero (pr_previous p)) (promotions h v))))) = []"
    using checked_rules(7) [OF assms(1)] unfolding validatePromotionSemantics_def Let_def promotions_def [symmetric]
    by (simp only: append_is_Nil_conv)
  from concat_map_Nil [OF this, of t] have "(case roots_of (promotions h v) t of
      [start] \<Rightarrow> champion_walk (promotions h v) (length (promotions h v)) [] zero_id None start | _ \<Rightarrow> []) = []"
    using root_target [OF assms(2)] by simp
  with one show ?thesis by simp
qed

definition lawful :: "promotion \<Rightarrow> typed_id \<Rightarrow> promotion option \<Rightarrow> bool" where
  "lawful p champion setting \<longleftrightarrow>
    pr_incumbent p = champion \<and>
    (pr_outcome p \<in> {PromotionAccepted, PromotionRejected} \<longrightarrow> pr_challenger p \<noteq> champion) \<and>
    (pr_outcome p = PromotionRolledBack \<longrightarrow> (\<exists>q. setting = Some q \<and> pr_challenger p = pr_incumbent q \<and> \<not> id_is_zero (pr_incumbent q)))"

lemma zero_is_zero [simp]: "id_is_zero zero_id"
  by (simp add: id_is_zero_def zero_id_def)

lemma champion_codes_lawful: "champion_codes p champion setting = [] \<Longrightarrow> lawful p champion setting"
  by (cases setting) (auto simp: champion_codes_def lawful_def flag_def rollback_target_def split: promotion_outcome.splits if_splits)

text \<open>
  C23: in an inventory without diagnostics every Promotion of a chain was decided against the champion
  then in office, never re-crowns that champion, and a rollback restores exactly the release that the
  Promotion which put the champion in office had replaced. No evaluation decides two Promotions.
\<close>

theorem promotion_chain_lawful:
  assumes "checked h v" and "reign (promotions h v) earlier x champion setting"
  shows "lawful (snd x) champion setting \<and> pr_target (snd x) = pr_target (snd (last (x # earlier))) \<and>
    (\<forall>y\<in>set (promotions h v). pr_evaluation (snd y) = pr_evaluation (snd x) \<and> \<not> id_is_zero (pr_evaluation (snd x)) \<longrightarrow> y = x)"
proof (intro conjI ballI impI)
  let ?ps = "promotions h v"
  note linear = promotions_linear [OF assms(1)]
  have walk: "champion_walk ?ps (length ?ps - length earlier) (map (c_id \<circ> snd) earlier) champion setting x = []"
    using walk_reaches [OF assms(2) linear] checked_walk [OF assms(1) reign_root [OF assms(2)]] by blast
  obtain n where "length ?ps - length earlier = Suc n"
    using reign_length [OF assms(2) linear] by (metis Suc_diff_Suc)
  moreover have "c_id (snd x) \<notin> set (map (c_id \<circ> snd) earlier)" using reign_invariant [OF assms(2) linear] by simp
  ultimately show "lawful (snd x) champion setting" using walk walk_codes champion_codes_lawful by metis
  show "pr_target (snd x) = pr_target (snd (last (x # earlier)))" by (rule reign_target [OF assms(2,1)])
  fix y
  assume y: "y \<in> set ?ps" "pr_evaluation (snd y) = pr_evaluation (snd x) \<and> \<not> id_is_zero (pr_evaluation (snd x))"
  have x: "x \<in> set ?ps" using reign_invariant [OF assms(2) linear] by simp
  have "distinct (map (pr_evaluation \<circ> snd) (filter (\<lambda>(d, p). \<not> id_is_zero (pr_evaluation p)) ?ps))"
    using checked_rules(7) [OF assms(1)]
    by (simp add: validatePromotionSemantics_def Let_def shared_Nil promotions_def case_prod_unfold comp_def)
  then have "inj_on (pr_evaluation \<circ> snd) (set (filter (\<lambda>(d, p). \<not> id_is_zero (pr_evaluation p)) ?ps))"
    by (simp only: distinct_map)
  from inj_onD [OF this, of y x] show "y = x" using x y by (simp add: case_prod_unfold)
qed


section \<open>Champions\<close>

definition held :: "promotion option \<Rightarrow> typed_id \<times> typed_id" where
  "held setting = (case setting of None \<Rightarrow> (zero_id, zero_id) | Some q \<Rightarrow> (pr_challenger q, c_id q))"

definition settled :: "promotion \<Rightarrow> promotion option \<Rightarrow> promotion option" where
  "settled p setting = (if crowns p then Some p else setting)"

lemma reign_champion: "reign ps earlier x champion setting \<Longrightarrow> champion = fst (held setting)"
  by (induction rule: reign.induct) (simp_all add: held_def)

lemma held_settled: "held (settled p setting) = (if crowns p then (pr_challenger p, c_id p) else held setting)"
  by (simp add: held_def settled_def)

text \<open>The loop passes through every Promotion of the chain of its root.\<close>

lemma loop_reaches:
  assumes "reign ps earlier x champion setting" and "linear ps"
  shows "champion_loop ps (length ps) (zero_id, zero_id) (Some (snd (last (x # earlier)))) =
    champion_loop ps (length ps - length earlier) (held setting) (Some (snd x))"
  using assms(1)
proof induction
  case (follow earlier x champion setting y)
  have "length earlier < length ps" using reign_length follow.hyps(1) assms(2) by blast
  then obtain n where n: "length ps - length earlier = Suc n" "n = length ps - length (x # earlier)"
    by (metis Suc_diff_Suc length_Cons)
  have next_one: "followers_of ps (c_id (snd x)) = [y]"
    using single_list [OF follow.hyps(2)] assms(2) by (simp add: linear_def)
  have "champion_loop ps (Suc n) (held setting) (Some (snd x)) =
      champion_loop ps n (held (settled (snd x) setting)) (Some (snd y))"
    by (simp add: next_one last_of_def held_settled)
  then show ?case using follow.IH n by (simp add: settled_def)
qed (simp add: held_def)

lemma loop_at_end:
  assumes "reign ps earlier x champion setting" and "linear ps" and "followers_of ps (c_id (snd x)) = []"
  shows "champion_loop ps (length ps) (zero_id, zero_id) (Some (snd (last (x # earlier)))) = Some (held (settled (snd x) setting))"
proof -
  obtain n where "length ps - length earlier = Suc n"
    using reign_length [OF assms(1,2)] by (metis Suc_diff_Suc)
  then show ?thesis using loop_reaches [OF assms(1,2)] assms(3) by (simp add: last_of_def held_settled)
qed

text \<open>Every chain has an end: it cannot be longer than the list of Promotions.\<close>

lemma chain_ends:
  assumes "reign ps earlier x champion setting" and "linear ps"
  obtains earlier' y champion' setting' where "reign ps earlier' y champion' setting'"
    "followers_of ps (c_id (snd y)) = []" "last (y # earlier') = last (x # earlier)"
  using assms(1)
proof (induction "length ps - length earlier" arbitrary: earlier x champion setting thesis rule: less_induct)
  case less
  show ?case
  proof (cases "followers_of ps (c_id (snd x))")
    case (Cons y ys)
    then have y: "y \<in> set (followers_of ps (c_id (snd x)))" by simp
    note reign = reign.follow [OF less.prems(2) y]
    have "length ps - length (x # earlier) < length ps - length earlier"
      using reign_length [OF less.prems(2) assms(2)] by simp
    from less.hyps [OF this _ reign] show ?thesis using less.prems(1) by (metis last_ConsR list.discI)
  qed (use less.prems in blast)
qed

text \<open>The last Promotion of a chain with its state: what the chain of a target leads to.\<close>

definition outcome_of :: "(document \<times> promotion) list \<Rightarrow> string \<Rightarrow> promotion option \<Rightarrow> bool" where
  "outcome_of ps t final \<longleftrightarrow>
    (\<exists>earlier x champion setting. reign ps earlier x champion setting \<and> followers_of ps (c_id (snd x)) = [] \<and>
      pr_target (snd x) = t \<and> final = settled (snd x) setting)"

lemma target_champion_ok:
  assumes "checked h v" and "t \<in> set (root_targets (promotions h v))"
  obtains final where "outcome_of (promotions h v) t final"
    "target_champion (promotions h v) t = Some (if id_is_zero (fst (held final)) then []
       else [\<lparr>cp_target = t, cp_release = fst (held final), cp_promotion = snd (held final)\<rparr>])"
    "\<And>final'. outcome_of (promotions h v) t final' \<Longrightarrow> held final' = held final"
proof -
  let ?ps = "promotions h v"
  note linear = promotions_linear [OF assms(1)]
  obtain x where x: "x \<in> set (roots_of ?ps t)"
    using assms(2) by (fastforce simp: root_targets_def roots_mem)
  have one: "roots_of ?ps t = [x]" using single_list [OF x] linear by (simp add: linear_def)
  have root: "last_of (roots_of ?ps t) = Some (snd x)" using one by (simp add: last_of_def)
  have worth: "champion_loop ?ps (length ?ps) (zero_id, zero_id) (last_of (roots_of ?ps t)) = Some (held final)"
    if out: "outcome_of ?ps t final" for final
  proof -
    obtain earlier y champion setting where y: "reign ?ps earlier y champion setting" "followers_of ?ps (c_id (snd y)) = []"
      "pr_target (snd y) = t" "final = settled (snd y) setting"
      using out unfolding outcome_of_def by blast
    have "last (y # earlier) \<in> set (roots_of ?ps t)" using reign_root [OF y(1)] reign_target [OF y(1) assms(1)] y(3) by simp
    then have "last (y # earlier) = x" using one by simp
    then show ?thesis using loop_at_end [OF y(1) linear y(2)] root y(4) by simp
  qed
  obtain earlier y champion setting where y: "reign ?ps earlier y champion setting" "followers_of ?ps (c_id (snd y)) = []" "last (y # earlier) = x"
    using chain_ends [OF reign.start [OF x] linear] by (metis last_ConsL)
  have "pr_target (snd y) = t" using reign_target [OF y(1) assms(1)] y(3) x by (simp add: roots_mem)
  then have final: "outcome_of ?ps t (settled (snd y) setting)" using y(1,2) unfolding outcome_of_def by blast
  show ?thesis
  proof (rule that [OF final])
    show "held final' = held (settled (snd y) setting)" if "outcome_of ?ps t final'" for final'
      using worth [OF that] worth [OF final] by simp
  qed (simp add: target_champion_def worth [OF final] case_prod_unfold)
qed

lemma outcome_target: "outcome_of ps t final \<Longrightarrow> checked h v \<Longrightarrow> ps = promotions h v \<Longrightarrow> t \<in> set (root_targets ps)"
proof -
  assume *: "outcome_of ps t final" "checked h v" "ps = promotions h v"
  then obtain earlier x champion setting where x: "reign ps earlier x champion setting" "pr_target (snd x) = t"
    unfolding outcome_of_def by blast
  then have "last (x # earlier) \<in> set (roots_of ps t)" using reign_root [OF x(1)] reign_target x *(2,3) by metis
  then show ?thesis using root_target by (simp add: root_targets_def)
qed

text \<open>
  C24: on an inventory without diagnostics the derivation of the current champions always returns, and
  it returns exactly the releases at the ends of the chains: a target is listed with the release that
  the last crowning Promotion of its chain put in office, and with that Promotion.
\<close>

theorem CurrentChampions_returns:
  assumes "checked h v"
  shows "\<exists>cs. CurrentChampions h v = Inr (Some cs) \<and>
    (\<forall>c. c \<in> set cs \<longleftrightarrow>
      (\<exists>q. outcome_of (promotions h v) (cp_target c) (Some q) \<and> cp_release c = pr_challenger q \<and>
        cp_promotion c = c_id q \<and> \<not> id_is_zero (pr_challenger q)))"
proof -
  let ?ps = "promotions h v"
  let ?found = "map (target_champion ?ps) (root_targets ?ps)"
  have all: "None \<notin> set ?found"
  proof
    assume "None \<in> set ?found"
    then obtain t where "t \<in> set (root_targets ?ps)" "target_champion ?ps t = None" by auto
    then show False using target_champion_ok [OF assms] by (metis option.distinct(1))
  qed
  have mem: "c \<in> set (concat (map the ?found)) \<longleftrightarrow>
      (\<exists>q. outcome_of ?ps (cp_target c) (Some q) \<and> cp_release c = pr_challenger q \<and> cp_promotion c = c_id q \<and>
        \<not> id_is_zero (pr_challenger q))" (is "?l \<longleftrightarrow> ?r") for c
  proof
    assume ?l
    then obtain t where t: "t \<in> set (root_targets ?ps)" "c \<in> set (the (target_champion ?ps t))" by auto
    obtain final where f: "outcome_of ?ps t final" "target_champion ?ps t = Some (if id_is_zero (fst (held final)) then []
        else [\<lparr>cp_target = t, cp_release = fst (held final), cp_promotion = snd (held final)\<rparr>])"
      using target_champion_ok [OF assms t(1)] by metis
    then obtain q where "final = Some q" using t(2) by (cases final) (auto simp: held_def)
    with f t(2) show ?r by (auto simp: held_def split: if_splits)
  next
    assume ?r
    then obtain q where q: "outcome_of ?ps (cp_target c) (Some q)" "cp_release c = pr_challenger q" "cp_promotion c = c_id q"
      "\<not> id_is_zero (pr_challenger q)" by blast
    have t: "cp_target c \<in> set (root_targets ?ps)" using outcome_target [OF q(1) assms refl] .
    obtain final where "target_champion ?ps (cp_target c) = Some (if id_is_zero (fst (held final)) then []
        else [\<lparr>cp_target = cp_target c, cp_release = fst (held final), cp_promotion = snd (held final)\<rparr>])"
      "held final = held (Some q)"
      using target_champion_ok [OF assms t] q(1) by metis
    then have "c \<in> set (the (target_champion ?ps (cp_target c)))" using q(2-) by (simp add: held_def [of "Some q"])
    with t show ?l by auto
  qed
  have "CurrentChampions h v = Inr (Some (concat (map the ?found)))"
    using assms all by (simp add: CurrentChampions_def checked_def Let_def promotions_def)
  with mem show ?thesis by blast
qed

end
