(* ===== verification/Exp_Normalize_Theorems.thy ===== *)
theory Exp_Normalize_Theorems
  imports Exp_Normalize Exp_Validate_Work_Theorems
begin

text \<open>
  The normal form is a fixed point: lowering is idempotent, a stable sort of a sorted list is the
  list, and what the normalisation changes is never what identifies a record.
\<close>

section \<open>Idempotent operations\<close>

locale idempotent =
  fixes f :: "'a \<Rightarrow> 'a"
  assumes twice [simp]: "f (f x) = f x"
begin

lemma twice_map: "map f (map f xs) = map f xs"
  by simp

lemma twice_option: "map_option f (map_option f x) = map_option f x"
  by (cases x) simp_all

end

interpretation utc_idem: idempotent utc
  by unfold_locales (simp add: utc_def time_is_zero_def)

interpretation sort_idem: idempotent "sort :: string list \<Rightarrow> string list"
  by unfold_locales (simp add: sorted_sort_id)

lemma stable_sort_fixed:
  "successively (\<lambda>x y. \<not> lt y x) xs \<Longrightarrow> stable_sort lt xs = xs"
proof (induction xs)
  case (Cons x xs)
  then have "stable_sort lt xs = xs" by (cases xs) simp_all
  with Cons.prems show ?case by (cases xs) simp_all
qed simp

lemma insort_by_adjacent:
  assumes "\<And>x y. lt x y \<Longrightarrow> \<not> lt y x"
  shows "successively (\<lambda>x y. \<not> lt y x) xs \<Longrightarrow> successively (\<lambda>x y. \<not> lt y x) (insort_by lt x xs)"
proof (induction xs)
  case (Cons y ys)
  then show ?case using assms by (cases ys) (auto split: if_splits)
qed simp

lemma stable_sort_adjacent:
  assumes "\<And>x y. lt x y \<Longrightarrow> \<not> lt y x"
  shows "successively (\<lambda>x y. \<not> lt y x) (stable_sort lt xs)"
  by (induction xs) (simp_all add: insort_by_adjacent [OF assms])

lemma stable_sort_twice:
  assumes "\<And>x y. lt x y \<Longrightarrow> \<not> lt y x"
  shows "stable_sort lt (stable_sort lt xs) = stable_sort lt xs"
  by (rule stable_sort_fixed) (rule stable_sort_adjacent [OF assms])

lemma insort_by_map:
  assumes "\<And>x y. lt (f x) (f y) = lt x y"
  shows "insort_by lt (f x) (map f xs) = map f (insort_by lt x xs)"
  by (induction xs) (simp_all add: assms)

lemma stable_sort_map:
  assumes "\<And>x y. lt (f x) (f y) = lt x y"
  shows "stable_sort lt (map f xs) = map f (stable_sort lt xs)"
  by (induction xs) (simp_all add: insort_by_map assms)

lemma by_id_asym: "by_id h f x y \<Longrightarrow> \<not> by_id h f y x"
  by (simp add: by_id_def)

lemma by_text_asym: "by_text f x y \<Longrightarrow> \<not> by_text f y x"
  by (simp add: by_text_def)

lemma partition_before_asym: "partition_before h x y \<Longrightarrow> \<not> partition_before h y x"
  by (auto simp: partition_before_def split: if_splits)

interpretation ids_idem: idempotent "stable_sort (by_id h f)" for h f
  by unfold_locales (rule stable_sort_twice, rule by_id_asym)

interpretation texts_idem: idempotent "stable_sort (by_text f)" for f
  by unfold_locales (rule stable_sort_twice, rule by_text_asym)

interpretation partitions_idem: idempotent "stable_sort (partition_before h)" for h
  by unfold_locales (rule stable_sort_twice, rule partition_before_asym)

section \<open>Lowering text\<close>

lemma lower_char_facts [simp]:
  "lower_char (lower_char c) = lower_char c" "byte (lower_char c) < 128 \<longleftrightarrow> byte c < 128"
  "cont (byte (lower_char c)) = cont (byte c)" "128 \<le> byte c \<Longrightarrow> lower_char c = c"
  by (auto simp: lower_char_def byte_char_of cont_def)

text \<open>A decoding depends on the continuation bytes after the first byte only.\<close>

lemma utf8_head_cont: "utf8_head (b # takeWhile cont bs) = utf8_head (b # bs)"
  by (cases bs; cases "tl bs"; cases "tl (tl bs)") (auto simp: list.case_eq_if split: list.splits)

lemma utf8_head_taken:
  assumes "utf8_head (b # bs) = Some (r, n)"
  shows "n \<le> length bs \<and> (\<forall>x \<in> set (take n bs). cont x) \<and> utf8_head (b # take n bs @ xs) = Some (r, n) \<and>
    (n = 0 \<longleftrightarrow> b < 128) \<and> n \<le> 3 \<and> (n = 0 \<longrightarrow> r = b) \<and> (n \<noteq> 0 \<longrightarrow> 128 \<le> r)"
  using assms
  by (cases bs; cases "tl bs"; cases "tl (tl bs)") (auto simp: cont_def split: if_splits list.splits)

definition head_of :: "char \<Rightarrow> string \<Rightarrow> (nat \<times> nat) option" where
  "head_of c s = utf8_head (byte c # map byte (take 3 s))"

lemma to_lower_Cons:
  "to_lower (c # s) = (case head_of c s of
     None \<Rightarrow> lower_char c # to_lower s
   | Some (r, n) \<Rightarrow> lower_chunk (Chunk True r (c # take n s)) @ to_lower (drop n s))"
  by (auto simp: to_lower_def head_of_def lower_chunk_def split: option.splits)

lemma to_lower_Nil [simp]: "to_lower [] = []"
  by (simp add: to_lower_def)

lemma takeWhile_take: "takeWhile P (take n xs) = take n (takeWhile P xs)"
  by (induction xs arbitrary: n) (auto simp: take_Cons split: nat.splits)

lemma head_of_cont:
  "head_of c s = utf8_head (byte c # map byte (take 3 (takeWhile (\<lambda>c. cont (byte c)) s)))"
proof -
  have "takeWhile cont (map byte (take 3 s)) = map byte (take 3 (takeWhile (\<lambda>c. cont (byte c)) s))"
    by (simp add: takeWhile_map comp_def takeWhile_take)
  then show ?thesis by (metis head_of_def utf8_head_cont)
qed

lemma head_of_lead: "head_of c s = Some p \<Longrightarrow> \<not> cont (byte c)"
  by (auto simp: head_of_def cont_def split: if_splits)

lemma head_of_Some:
  assumes "head_of c s = Some (r, n)"
  shows "n \<le> length s" "n = 0 \<longleftrightarrow> byte c < 128" "n = 0 \<Longrightarrow> r = byte c" "n \<noteq> 0 \<Longrightarrow> 128 \<le> r"
    "\<forall>x \<in> set (take n s). cont (byte x)" "head_of c (take n s @ t) = Some (r, n)"
proof -
  have facts: "n \<le> length (map byte (take 3 s))" "\<forall>x \<in> set (take n (map byte (take 3 s))). cont x" "n \<le> 3"
    "n = 0 \<longleftrightarrow> byte c < 128" "n = 0 \<Longrightarrow> r = byte c" "n \<noteq> 0 \<Longrightarrow> 128 \<le> r"
    "\<And>xs. utf8_head (byte c # take n (map byte (take 3 s)) @ xs) = Some (r, n)"
    using utf8_head_taken [OF assms [unfolded head_of_def]] by blast+
  have taken: "take n (map byte (take 3 s)) = map byte (take n s)"
    using facts(3) by (simp add: take_map min_def)
  show "n \<le> length s" "n = 0 \<longleftrightarrow> byte c < 128" "n = 0 \<Longrightarrow> r = byte c" "n \<noteq> 0 \<Longrightarrow> 128 \<le> r"
    using facts(1,4,5,6) by simp_all
  show "\<forall>x \<in> set (take n s). cont (byte x)" using facts(2) unfolding taken by simp
  have "map byte (take 3 (take n s @ t)) = map byte (take n s) @ map byte (take (3 - n) t)"
    using facts(1,3) by (simp add: min_absorb2)
  then show "head_of c (take n s @ t) = Some (r, n)"
    unfolding head_of_def using facts(7) [unfolded taken] by simp
qed

lemma head_of_None: "head_of c s = None \<Longrightarrow> 128 \<le> byte c"
  by (auto simp: head_of_def split: if_splits)

lemma to_lower_run: "takeWhile (\<lambda>c. cont (byte c)) (to_lower s) = takeWhile (\<lambda>c. cont (byte c)) s"
proof (induction s rule: utf8_chunks.induct)
  case (2 c s)
  show ?case
  proof (cases "head_of c s")
    case None
    moreover have "takeWhile (\<lambda>c. cont (byte c)) (to_lower s) = takeWhile (\<lambda>c. cont (byte c)) s"
      using 2(1) None by (simp add: head_of_def)
    ultimately show ?thesis using head_of_None [OF None] by (simp add: to_lower_Cons)
  next
    case (Some p)
    obtain r n where p: "p = (r, n)" by fastforce
    have "\<not> cont (byte CHR ''i'')" "\<not> cont (byte CHR ''k'')" by (simp_all add: cont_def byte_def)
    with Some p head_of_lead [OF Some] show ?thesis by (simp add: to_lower_Cons lower_chunk_def)
  qed
qed simp

lemma to_lower_ascii_Cons: "byte c < 128 \<Longrightarrow> to_lower (c # s) = lower_char c # to_lower s"
  by (simp add: to_lower_Cons head_of_def lower_chunk_def)

lemma to_lower_twice: "to_lower (to_lower s) = to_lower s"
proof (induction s rule: utf8_chunks.induct)
  case (2 c s)
  show ?case
  proof (cases "head_of c s")
    case None
    then have "head_of c (to_lower s) = None" by (simp add: head_of_cont to_lower_run)
    moreover have "lower_char c = c" using None head_of_None by simp
    moreover have "to_lower (to_lower s) = to_lower s" using 2(1) None by (simp add: head_of_def)
    ultimately show ?thesis using None by (simp add: to_lower_Cons)
  next
    case (Some p)
    obtain r n where p: "p = (r, n)" by fastforce
    note head = head_of_Some [OF Some [unfolded p]]
    have rest: "to_lower (to_lower (drop n s)) = to_lower (drop n s)"
      using 2(2) Some p by (simp add: head_of_def)
    have letters: "to_lower (''i'' @ t) = ''i'' @ to_lower t" "to_lower (''k'' @ t) = ''k'' @ to_lower t" for t
      by (simp_all add: to_lower_ascii_Cons byte_def lower_char_def)
    show ?thesis
    proof (cases "r = 304 \<or> r = 8490")
      case True
      then show ?thesis using Some p rest letters by (auto simp: to_lower_Cons lower_chunk_def)
    next
      case False
      show ?thesis
      proof (cases "n = 0")
        case True
        then show ?thesis using head rest Some p False
          by (simp add: to_lower_Cons [of c] lower_chunk_def to_lower_ascii_Cons)
      next
        case n: False
        have keep: "map lower_char (c # take n s) = c # take n s"
          using head n by (auto simp: cont_def intro!: map_idI)
        then have low: "to_lower (c # s) = c # take n s @ to_lower (drop n s)"
          using Some p False by (simp add: to_lower_Cons lower_chunk_def)
        have "to_lower (c # take n s @ to_lower (drop n s)) = c # take n s @ to_lower (drop n s)"
          using head(1,6) keep rest False by (simp add: to_lower_Cons lower_chunk_def)
        with low show ?thesis by simp
      qed
    qed
  qed
qed simp

interpretation lower_idem: idempotent to_lower
  by unfold_locales (rule to_lower_twice)

section \<open>The normal form\<close>

interpretation refs_idem: idempotent normalizeExternalRefs
  by unfold_locales (simp add: normalizeExternalRefs_def option.map_comp comp_def)

interpretation common_idem: idempotent normal_common
  by unfold_locales (simp add: normal_common_def)

lemma sorted_map_twice:
  assumes "idempotent f" and "\<And>x y. lt x y \<Longrightarrow> \<not> lt y x" and "\<And>x y. lt (f x) (f y) = lt x y"
  shows "map f (stable_sort lt (map f (stable_sort lt xs))) = map f (stable_sort lt xs)"
  by (simp add: stable_sort_map assms(3) stable_sort_twice [OF assms(2)] idempotent.twice [OF assms(1)])

interpretation entry_idem: idempotent normal_entry
  by unfold_locales (simp add: normal_entry_def)

interpretation dependency_idem: idempotent normal_dependency
  by unfold_locales (simp add: normal_dependency_def)

interpretation amendment_idem: idempotent normal_amendment
  by unfold_locales (simp add: normal_amendment_def)

interpretation snapshot_idem: idempotent normal_snapshot
  by unfold_locales (simp add: normal_snapshot_def)

interpretation provenance_idem: idempotent normal_provenance
  by unfold_locales (simp add: normal_provenance_def)

interpretation terminal_idem: idempotent normal_terminal
  by unfold_locales (simp add: normal_terminal_def option.map_comp comp_def)

interpretation candidate_source_idem: idempotent normal_candidate_source
  by unfold_locales (simp add: normal_candidate_source_def)

interpretation conclusion_idem: idempotent normal_conclusion
  by unfold_locales (simp add: normal_conclusion_def)

interpretation changes_idem: idempotent "\<lambda>xs. nilIfEmpty (sort_some xs)"
proof unfold_locales
  fix xs show "nilIfEmpty (sort_some (nilIfEmpty (sort_some xs))) = nilIfEmpty (sort_some xs)"
    by (cases xs) (auto simp: nilIfEmpty_def sort_some_def)
qed

lemma normal_lists_twice:
  "map normal_dependency (stable_sort (by_id h fd_finding) (map normal_dependency (stable_sort (by_id h fd_finding) ds))) =
     map normal_dependency (stable_sort (by_id h fd_finding) ds)"
  "map normal_snapshot (stable_sort (by_id h ss_source) (map normal_snapshot (stable_sort (by_id h ss_source) ss))) =
     map normal_snapshot (stable_sort (by_id h ss_source) ss)"
  "map normal_candidate_source (stable_sort (by_id h cs_source) (map normal_candidate_source (stable_sort (by_id h cs_source) cs))) =
     map normal_candidate_source (stable_sort (by_id h cs_source) cs)"
  by (rule sorted_map_twice, unfold_locales, simp, erule by_id_asym,
      simp add: by_id_def normal_dependency_def normal_snapshot_def normal_candidate_source_def)+

definition normal_partition :: "queue_partition \<Rightarrow> queue_partition" where
  "normal_partition p = p\<lparr>qp_entries := map_option (map normal_entry) (qp_entries p)\<rparr>"

interpretation partition_idem: idempotent normal_partition
  by unfold_locales (simp add: normal_partition_def option.map_comp comp_def)

lemma normal_partitions_twice:
  "map normal_partition (stable_sort (partition_before h) (map normal_partition (stable_sort (partition_before h) ps))) =
     map normal_partition (stable_sort (partition_before h) ps)"
  by (rule sorted_map_twice, unfold_locales, simp, erule partition_before_asym,
      simp add: partition_before_def normal_partition_def)

lemma normal_queue_partition: "normal_queue h r = r\<lparr>qu_partitions := map_option (\<lambda>ps.
    map normal_partition (stable_sort (partition_before h) ps)) (qu_partitions r)\<rparr>"
  by (simp add: normal_queue_def normal_partition_def [abs_def])

lemmas normal_defs = normal_common_def normal_policy_def normal_plan_def normal_try_def normal_experiment_def
  normal_run_def normal_attempt_def normal_candidate_def normal_queue_partition sortIDs_def

lemma map_option_twice: "(\<And>x. f (f x) = f x) \<Longrightarrow> map_option f (map_option f y) = map_option f y"
  by (cases y) simp_all

lemma normal_source_accepted:
  assumes "validateSource h s = []"
    and "so_key s' = so_key s" and "so_subdir s' = so_subdir s" and "so_locators s' = so_locators s"
  shows "normal_source h s' = s'\<lparr>so_retired := map_option utc (so_retired s')\<rparr>"
proof -
  have key: "NormalizeSourceKey (so_key s) = Some (so_key s)" and subdir: "NormalizeSourceSubdir h (so_subdir s) = Inr (so_subdir s)"
    using assms(1) unfolding validateSource_def by (auto split: sum.splits)
  have each_ok: "each (\<lambda>before locator.
      (case ch_locator h locator of
         Inl code \<Rightarrow> [(code, item_field ''locator_hints'' before)]
       | Inr normalized \<Rightarrow> need (normalized = locator) ''source.locator_normalized'' (item_field ''locator_hints'' before)) @
      need (locator \<notin> set before) ''record.set_duplicate'' (item_field ''locator_hints'' before)) (slice (so_locators s)) = []"
    using assms(1) unfolding validateSource_def by simp
  have "(case ch_locator h l of Inl _ \<Rightarrow> l | Inr l' \<Rightarrow> l') = l" if l: "l \<in> set (slice (so_locators s))" for l
    using each_member [OF each_ok l] by (auto split: sum.splits)
  then have "map_option (map (\<lambda>l. case ch_locator h l of Inl _ \<Rightarrow> l | Inr l' \<Rightarrow> l')) (so_locators s) = so_locators s"
    by (cases "so_locators s") (auto intro: map_idI)
  with key subdir show ?thesis by (simp add: normal_source_def assms(2-))
qed

lemma normal_source_twice:
  assumes "validateSource h r = []"
  shows "normal_source h (normal_common (normal_source h (normal_common r))) = normal_source h (normal_common r)"
proof -
  have n: "normal_source h (normal_common r) = (normal_common r)\<lparr>so_retired := map_option utc (so_retired r)\<rparr>"
    using normal_source_accepted [OF assms, of "normal_common r"] by (simp add: normal_common_def)
  let ?t = "(normal_common r)\<lparr>so_retired := map_option utc (so_retired r)\<rparr>"
  have "normal_common ?t = ?t" by (simp add: normal_common_def)
  moreover have "normal_source h ?t = ?t"
    using normal_source_accepted [OF assms, of ?t] by (simp add: normal_common_def utc_idem.twice_option)
  ultimately show ?thesis by (simp only: n)
qed

lemma Normalize_twice:
  assumes "Validate rnd h (Some r) = []"
  shows "Normalize h (Normalize h r) = Normalize h r"
proof (cases r)
  case (RecSource s)
  then have "validateSource h s = []" using assms by (simp add: Validate_accepts)
  with RecSource show ?thesis by (simp add: normal_source_twice)
next
  case (RecQueue q)
  then show ?thesis
    by (cases "qu_partitions q") (simp_all add: normal_defs normal_partitions_twice)
next
  case (RecCandidate c)
  then show ?thesis
    by (cases "ca_sources c"; cases "ca_changes c") (simp_all add: normal_defs normal_lists_twice sort_some_def)
qed (simp_all add: normal_defs normal_lists_twice utc_idem.twice_option provenance_idem.twice_option
  terminal_idem.twice_option conclusion_idem.twice_option changes_idem.twice option.map_comp comp_def)

lemma normal_fields [simp]:
  "c_schema (normal_common r) = c_schema r" "c_id (normal_common r) = c_id r"
  by (simp_all add: normal_common_def)

lemma Normalize_identity:
  "GetKind (Normalize h r) = GetKind r" "GetSchema (Normalize h r) = GetSchema r" "GetID (Normalize h r) = GetID r"
  "GetExtensions (Normalize h r) = GetExtensions r"
  by (cases r; simp add: normal_defs normal_source_def)+

text \<open>
  The normal form of an accepted record is a fixed point of the normalisation, whatever the host:
  normalising again changes nothing, so the bytes the store derives from it, and the revision it
  computes from them, do not depend on how often a record has been read and written; and the normal
  form is a record of the same kind, schema, identifier and extension tables.
\<close>

theorem Normalize_stable:
  assumes "Validate rnd h (Some r) = []"
  shows "Normalize h (Normalize h r) = Normalize h r \<and> GetKind (Normalize h r) = GetKind r \<and>
    GetSchema (Normalize h r) = GetSchema r \<and> GetID (Normalize h r) = GetID r \<and>
    GetExtensions (Normalize h r) = GetExtensions r"
  using Normalize_twice [OF assms] Normalize_identity by blast

theorem Normalize_stable_witness:
  "Normalize open_checks (Normalize open_checks (RecQueue sample_record_queue)) = Normalize open_checks (RecQueue sample_record_queue)"
  using Normalize_stable [OF sample_queue_accepted] by blast

text \<open>
  The normalisation of a subdirectory alone is not idempotent: space before a trailing slash survives
  the trimming, and the result is not a normal subdirectory any more.
\<close>

theorem NormalizeSourceSubdir_unstable:
  "NormalizeSourceSubdir open_checks ''a /'' = Inr ''a '' \<and> NormalizeSourceSubdir open_checks ''a '' = Inr ''a''"
  by code_simp

end
