(* ===== verification/Exp_Update_Theorems.thy ===== *)
theory Exp_Update_Theorems
  imports Exp_Update Exp_Validate_Work_Theorems "HOL-Library.Sublist"
begin

text \<open>
  What a record keeps over any sequence of accepted replacements. A step is a replacement that the
  rules accept between two records that validate (the store checks the whole candidate inventory
  before it writes).
\<close>

section \<open>Laws of histories\<close>

text \<open>Something that, once it holds, holds for good and fixes a view of the state.\<close>

locale settling =
  fixes step :: "'a \<Rightarrow> 'a \<Rightarrow> bool"
    and settled :: "'a \<Rightarrow> bool"
    and view :: "'a \<Rightarrow> 'b"
  assumes step_keeps: "step a b \<Longrightarrow> settled a \<Longrightarrow> settled b \<and> view b = view a"
begin

lemma keeps: "step\<^sup>*\<^sup>* a b \<Longrightarrow> settled a \<Longrightarrow> settled b \<and> view b = view a"
  by (induction rule: rtranclp_induct) (auto dest: step_keeps)

end

text \<open>A log that only grows.\<close>

locale growing =
  fixes step :: "'a \<Rightarrow> 'a \<Rightarrow> bool"
    and log_of :: "'a \<Rightarrow> 'b list"
  assumes step_extends: "step a b \<Longrightarrow> prefix (log_of a) (log_of b)"
begin

lemma extends: "step\<^sup>*\<^sup>* a b \<Longrightarrow> prefix (log_of a) (log_of b)"
  by (induction rule: rtranclp_induct) (auto dest: step_extends intro: prefix_order.trans)

end

section \<open>Accepted replacements\<close>

definition valid_document :: "(rat \<Rightarrow> go_float) \<Rightarrow> 'h update_host_scheme \<Rightarrow> document \<Rightarrow> bool" where
  "valid_document rnd h d \<longleftrightarrow> Validate rnd h (d_record d) = []"

definition replaces :: "(rat \<Rightarrow> go_float) \<Rightarrow> 'h update_host_scheme \<Rightarrow> document \<Rightarrow> document \<Rightarrow> bool" where
  "replaces rnd h d d' \<longleftrightarrow>
     valid_document rnd h d \<and> valid_document rnd h d' \<and> validateImmutableUpdate h d d' = None"

lemma replaces_records:
  assumes "replaces rnd h d d'"
  obtains r s c c' where "d_record d = Some r" "d_record d' = Some s" "GetCommon r = Some c" "GetCommon s = Some c'"
    "GetID r \<noteq> None" "GetID s = GetID r" "GetKind s = GetKind r" "GetSchema s = GetSchema r"
    "time_equal (c_created c) (c_created c')" "\<not> time_before (c_updated c') (c_updated c)"
    "immutable_record r \<Longrightarrow> deep_equal r s \<and> d_body d' = d_body d"
    "kind_update h r s (d_body d) (d_body d') = None"
    "Validate rnd h (Some r) = []" "Validate rnd h (Some s) = []"
proof -
  have u: "validateImmutableUpdate h d d' = None" and v: "Validate rnd h (d_record d) = []" "Validate rnd h (d_record d') = []"
    using assms by (simp_all add: replaces_def valid_document_def)
  from u obtain r s where rs: "d_record d = Some r" "d_record d' = Some s"
    by (auto simp: validateImmutableUpdate_def split: option.splits)
  from u rs obtain c c' where c: "GetCommon r = Some c" "GetCommon s = Some c'"
    by (auto simp: validateImmutableUpdate_def split: option.splits)
  from u v show thesis by (intro that [OF rs c]) (auto simp: validateImmutableUpdate_def rs c)
qed

section \<open>Identity\<close>

lemma bare_GetKind: "GetKind (bare r) = GetKind r"
  by (cases r) (simp_all add: bare_def)

lemma bare_immutable: "immutable_record (bare r) = immutable_record r"
  by (cases r) (simp_all add: bare_def)

lemma deep_equal_immutable: "deep_equal r s \<Longrightarrow> immutable_record s = immutable_record r"
  by (metis bare_immutable deep_equal_def)

definition identity_of :: "document \<Rightarrow> (typed_id option \<times> kind \<times> schema \<times> int option) option" where
  "identity_of d = map_option (\<lambda>r. (GetID r, GetKind r, GetSchema r, map_option (t_instant \<circ> c_created) (GetCommon r))) (d_record d)"

interpretation identity_settling: settling "replaces rnd h" "\<lambda>d. True" identity_of for rnd h
proof unfold_locales
  fix d d' assume "replaces rnd h d d'"
  then show "True \<and> identity_of d' = identity_of d"
    by (rule replaces_records) (simp add: identity_of_def time_equal_def)
qed

definition immutable_document :: "document \<Rightarrow> bool" where
  "immutable_document d \<longleftrightarrow> (\<exists>r. d_record d = Some r \<and> immutable_record r)"

definition content_of :: "document \<Rightarrow> research_record option \<times> string" where
  "content_of d = (map_option bare (d_record d), d_body d)"

interpretation content_settling: settling "replaces rnd h" immutable_document content_of for rnd h
proof unfold_locales
  fix d d' assume r: "replaces rnd h d d'" "immutable_document d"
  from r(1) show "immutable_document d' \<and> content_of d' = content_of d"
    by (rule replaces_records)
      (use r(2) deep_equal_immutable in \<open>auto simp: immutable_document_def content_of_def deep_equal_def\<close>)
qed


section \<open>Plans\<close>

definition plan_of :: "document \<Rightarrow> plan option" where
  "plan_of d = (case d_record d of Some (RecPlan p) \<Rightarrow> Some p | _ \<Rightarrow> None)"

definition plan_released :: "document \<Rightarrow> bool" where
  "plan_released d \<longleftrightarrow> (\<exists>p. plan_of d = Some p \<and> pl_state p \<in> {PlanStarted, PlanCompleted, PlanDropped})"

definition plan_view :: "document \<Rightarrow> research_record option" where
  "plan_view d = map_option (\<lambda>p. bare (RecPlan (preregistered p))) (plan_of d)"

lemma plan_of_Some: "plan_of d = Some p \<longleftrightarrow> d_record d = Some (RecPlan p)"
  by (auto simp: plan_of_def split: option.splits research_record.splits)

lemma replaces_plan:
  assumes "replaces rnd h d d'" and "plan_of d = Some p"
  obtains q where "plan_of d' = Some q" "validatePlanUpdate p q = None"
    "immutable_record (RecPlan p) \<Longrightarrow> deep_equal (RecPlan p) (RecPlan q)"
proof -
  have p: "d_record d = Some (RecPlan p)" using assms(2) by (simp add: plan_of_Some)
  from assms(1) show thesis
  proof (rule replaces_records)
    fix r s assume rs: "d_record d = Some r" "d_record d' = Some s" "kind_update h r s (d_body d) (d_body d') = None"
      and imm: "immutable_record r \<Longrightarrow> deep_equal r s \<and> d_body d' = d_body d"
    from rs p obtain q where "s = RecPlan q" by (auto split: research_record.splits)
    with rs p imm show thesis by (intro that) (auto simp: plan_of_Some)
  qed
qed

lemma bare_plan: "bare (RecPlan p) = RecPlan (p\<lparr>pl_extensions := []\<rparr>)"
  by (simp add: bare_def)

interpretation plan_settling: settling "replaces rnd h" plan_released plan_view for rnd h
proof unfold_locales
  fix d d' assume r: "replaces rnd h d d'" "plan_released d"
  then obtain p where p: "plan_of d = Some p" "pl_state p \<in> {PlanStarted, PlanCompleted, PlanDropped}"
    by (auto simp: plan_released_def)
  from r(1) p(1) show "plan_released d' \<and> plan_view d' = plan_view d"
  proof (rule replaces_plan)
    fix q assume q: "plan_of d' = Some q" "validatePlanUpdate p q = None"
      and imm: "immutable_record (RecPlan p) \<Longrightarrow> deep_equal (RecPlan p) (RecPlan q)"
    show "plan_released d' \<and> plan_view d' = plan_view d"
    proof (cases "pl_state p = PlanStarted")
      case True
      with q(2) have "plan_transition (pl_state p) (pl_state q)"
        "bare (RecPlan (preregistered p)) = bare (RecPlan (preregistered q))"
        by (simp_all add: validatePlanUpdate_def deep_equal_def)
      with True p q(1) show ?thesis by (auto simp: plan_released_def plan_view_def plan_transition_def)
    next
      case False
      with p(2) imm have "bare (RecPlan p) = bare (RecPlan q)" by (auto simp: deep_equal_def)
      then have "p\<lparr>pl_extensions := []\<rparr> = q\<lparr>pl_extensions := []\<rparr>" by (simp add: bare_plan)
      then have "pl_state q = pl_state p" "(preregistered p)\<lparr>pl_extensions := []\<rparr> = (preregistered q)\<lparr>pl_extensions := []\<rparr>"
        by (cases p; cases q; simp add: preregistered_def)+
      with p q(1) show ?thesis by (auto simp: plan_released_def plan_view_def bare_plan)
    qed
  qed
qed

text \<open>
  C17: a preregistration cannot be edited after the fact: once a Plan has left the queue (started,
  completed or dropped) everything in it but its state, its time of update and its extension tables
  is fixed over any sequence of accepted replacements; it never returns to the queue, and a
  completed or dropped Plan keeps its state.
\<close>

theorem plan_preregistration_fixed:
  assumes "(replaces rnd h)\<^sup>*\<^sup>* d d'" and "plan_of d = Some p" and "pl_state p \<in> {PlanStarted, PlanCompleted, PlanDropped}"
  shows "\<exists>q. plan_of d' = Some q \<and> pl_state q \<in> {PlanStarted, PlanCompleted, PlanDropped} \<and>
    (preregistered q)\<lparr>pl_extensions := []\<rparr> = (preregistered p)\<lparr>pl_extensions := []\<rparr> \<and>
    (pl_state p \<noteq> PlanStarted \<longrightarrow> pl_state q = pl_state p)"
proof -
  have p: "d_record d = Some (RecPlan p)" using assms(2) by (simp add: plan_of_Some)
  have "plan_released d" using assms(2,3) by (auto simp: plan_released_def)
  from plan_settling.keeps [OF assms(1) this] obtain q where q: "plan_of d' = Some q"
    "pl_state q \<in> {PlanStarted, PlanCompleted, PlanDropped}"
    "(preregistered q)\<lparr>pl_extensions := []\<rparr> = (preregistered p)\<lparr>pl_extensions := []\<rparr>"
    using assms(2) by (auto simp: plan_released_def plan_view_def bare_plan)
  have "pl_state q = pl_state p" if "pl_state p \<noteq> PlanStarted"
  proof -
    have "immutable_document d" using that assms(3) p by (auto simp: immutable_document_def)
    from content_settling.keeps [OF assms(1) this] have "bare (RecPlan q) = bare (RecPlan p)"
      using p q(1) by (auto simp: content_of_def plan_of_Some)
    then have "p\<lparr>pl_extensions := []\<rparr> = q\<lparr>pl_extensions := []\<rparr>" by (simp add: bare_plan)
    then show ?thesis by (cases p; cases q) simp
  qed
  with q show ?thesis by blast
qed

section \<open>Attempts\<close>

definition attempt_of :: "document \<Rightarrow> attempt option" where
  "attempt_of d = (case d_record d of Some (RecAttempt a) \<Rightarrow> Some a | _ \<Rightarrow> None)"

lemma attempt_of_Some: "attempt_of d = Some a \<longleftrightarrow> d_record d = Some (RecAttempt a)"
  by (auto simp: attempt_of_def split: option.splits research_record.splits)

lemma replaces_attempt:
  assumes "replaces rnd h d d'" and "attempt_of d = Some a"
  obtains b where "attempt_of d' = Some b" "validateAttemptUpdate h a b = None"
    "terminalAttemptState (at_state a) \<Longrightarrow> d_body d' = d_body d"
proof -
  have a: "d_record d = Some (RecAttempt a)" using assms(2) by (simp add: attempt_of_Some)
  from assms(1) show thesis
  proof (rule replaces_records)
    fix r s assume rs: "d_record d = Some r" "d_record d' = Some s" "kind_update h r s (d_body d) (d_body d') = None"
    from rs a obtain b where "s = RecAttempt b" by (auto split: research_record.splits)
    with rs a show thesis by (intro that) (auto simp: attempt_of_Some)
  qed
qed

lemmas attempt_update_facts = validateAttemptUpdate_def terminal_refinement_def allowedAttemptTransition_def

definition attempt_view :: "document \<Rightarrow> attempt option" where
  "attempt_view d = map_option registration (attempt_of d)"

interpretation registration_settling: settling "replaces rnd h" "\<lambda>d. attempt_of d \<noteq> None" attempt_view for rnd h
proof unfold_locales
  fix d d' assume r: "replaces rnd h d d'" "attempt_of d \<noteq> None"
  then obtain a where a: "attempt_of d = Some a" by blast
  from r(1) a show "attempt_of d' \<noteq> None \<and> attempt_view d' = attempt_view d"
    by (rule replaces_attempt) (simp add: validateAttemptUpdate_def attempt_view_def a)
qed

definition reference_log :: "document \<Rightarrow> external_ref list" where
  "reference_log d = (case attempt_of d of None \<Rightarrow> [] | Some a \<Rightarrow> map plain_ref (at_refs a))"

lemma same_refs_plain: "list_all2 same_ref xs ys \<Longrightarrow> map plain_ref xs = map plain_ref ys"
  by (induction rule: list_all2_induct) (simp_all add: same_ref_def)

interpretation reference_growing: growing "replaces rnd h" reference_log for rnd h
proof unfold_locales
  fix d d' assume r: "replaces rnd h d d'"
  show "prefix (reference_log d) (reference_log d')"
  proof (cases "attempt_of d")
    case (Some a)
    from r Some show ?thesis
    proof (rule replaces_attempt)
      fix b assume b: "attempt_of d' = Some b" "validateAttemptUpdate h a b = None"
      then have "map plain_ref (at_refs a) = map plain_ref (take (length (at_refs a)) (at_refs b))"
        by (intro same_refs_plain) (simp add: validateAttemptUpdate_def)
      then have "map plain_ref (at_refs a) = take (length (at_refs a)) (map plain_ref (at_refs b))" by (simp add: take_map)
      then show ?thesis using Some b(1) take_is_prefix by (metis reference_log_def option.simps(5))
    qed
  qed (simp add: reference_log_def)
qed

definition attempt_ended :: "document \<Rightarrow> bool" where
  "attempt_ended d \<longleftrightarrow> (\<exists>a. attempt_of d = Some a \<and> terminalAttemptState (at_state a))"

interpretation ended_settling: settling "replaces rnd h" attempt_ended d_body for rnd h
proof unfold_locales
  fix d d' assume r: "replaces rnd h d d'" "attempt_ended d"
  then obtain a where a: "attempt_of d = Some a" "terminalAttemptState (at_state a)" by (auto simp: attempt_ended_def)
  from r(1) a(1) show "attempt_ended d' \<and> d_body d' = d_body d"
    by (rule replaces_attempt) (use a(2) in \<open>auto simp: attempt_ended_def attempt_update_facts\<close>)
qed

definition outcome_known :: "document \<Rightarrow> bool" where
  "outcome_known d \<longleftrightarrow> (\<exists>a. attempt_of d = Some a \<and> terminalAttemptState (at_state a) \<and>
     at_terminal a \<noteq> None \<and> terminal_source a \<noteq> Some ''pueue'')"

definition outcome_view :: "document \<Rightarrow> (attempt_state \<times> string \<times> terminal option) option" where
  "outcome_view d = map_option (\<lambda>a. (at_state a, at_reason a, at_terminal a)) (attempt_of d)"

interpretation outcome_settling: settling "replaces rnd h" outcome_known outcome_view for rnd h
proof unfold_locales
  fix d d' assume r: "replaces rnd h d d'" "outcome_known d"
  then obtain a where a: "attempt_of d = Some a" "terminalAttemptState (at_state a)" "at_terminal a \<noteq> None"
    "terminal_source a \<noteq> Some ''pueue''" by (auto simp: outcome_known_def)
  from r(1) a(1) show "outcome_known d' \<and> outcome_view d' = outcome_view d"
  proof (rule replaces_attempt)
    fix b assume b: "attempt_of d' = Some b" "validateAttemptUpdate h a b = None"
    then have "at_state b = at_state a" "at_reason b = at_reason a" "at_terminal b = at_terminal a"
      using a by (auto simp: attempt_update_facts)
    with a b(1) show ?thesis by (simp add: outcome_known_def outcome_view_def terminal_source_def)
  qed
qed

lemma terminal_states: "isTerminalState s \<longleftrightarrow> terminalAttemptState s"
  by (simp add: isTerminalState_def terminalAttemptState_def)

text \<open>
  C16: an Attempt is evidence: over any sequence of accepted replacements its registration, its
  command, its snapshots, its provenance and its dispatch are fixed and its external references only
  grow; once it has ended it stays ended and keeps its Markdown body; and its state, its reason and its
  terminal observation then never change again, unless the observation came from the pueue
  scheduler, which may still be refined by the direct one.
\<close>

theorem attempt_outcome_final:
  assumes "(replaces rnd h)\<^sup>*\<^sup>* d d'" and "attempt_of d = Some a" and "valid_document rnd h d"
  shows "\<exists>b. attempt_of d' = Some b \<and> registration b = registration a \<and>
    prefix (map plain_ref (at_refs a)) (map plain_ref (at_refs b)) \<and>
    (terminalAttemptState (at_state a) \<longrightarrow> terminalAttemptState (at_state b) \<and> d_body d' = d_body d \<and>
      (terminal_source a \<noteq> Some ''pueue'' \<longrightarrow>
        at_state b = at_state a \<and> at_reason b = at_reason a \<and> at_terminal b = at_terminal a))"
proof -
  obtain b where b: "attempt_of d' = Some b" "registration b = registration a"
    using registration_settling.keeps [OF assms(1)] assms(2) by (auto simp: attempt_view_def)
  moreover have "prefix (map plain_ref (at_refs a)) (map plain_ref (at_refs b))"
    using reference_growing.extends [OF assms(1)] assms(2) b(1) by (simp add: reference_log_def)
  moreover have "terminalAttemptState (at_state b) \<and> d_body d' = d_body d" if "terminalAttemptState (at_state a)"
    using ended_settling.keeps [OF assms(1)] assms(2) b(1) that by (simp add: attempt_ended_def)
  moreover have "at_state b = at_state a \<and> at_reason b = at_reason a \<and> at_terminal b = at_terminal a"
    if "terminalAttemptState (at_state a)" "terminal_source a \<noteq> Some ''pueue''"
  proof -
    have "validateAttempt h a = []"
      using assms(2,3) by (simp add: valid_document_def attempt_of_Some Validate_accepts)
    then have "at_terminal a \<noteq> None" using that(1) by (auto simp: validateAttempt_def Let_def terminal_states)
    with that assms(2) have "outcome_known d" by (simp add: outcome_known_def)
    from outcome_settling.keeps [OF assms(1) this] show ?thesis using assms(2) b(1) by (simp add: outcome_view_def)
  qed
  ultimately show ?thesis by blast
qed

section \<open>Experiments\<close>

definition experiment_of :: "document \<Rightarrow> experiment_record option" where
  "experiment_of d = (case d_record d of Some (RecExperiment e) \<Rightarrow> Some e | _ \<Rightarrow> None)"

lemma experiment_of_Some: "experiment_of d = Some e \<longleftrightarrow> d_record d = Some (RecExperiment e)"
  by (auto simp: experiment_of_def split: option.splits research_record.splits)

lemma bare_experiment: "bare (RecExperiment e) = RecExperiment (e\<lparr>ex_extensions := []\<rparr>)"
  by (simp add: bare_def)

lemma valid_experiment: "Validate rnd h (Some (RecExperiment e)) = [] \<Longrightarrow> design_lock_ok h e"
  by (rule design_accepted) (simp add: Validate_accepts validateExperiment_def)

definition lifecycle_rank :: "experiment_record \<Rightarrow> nat" where
  "lifecycle_rank e = (case ex_lifecycle e of LifecycleActive \<Rightarrow> 1 | LifecycleClosed \<Rightarrow> 2 | _ \<Rightarrow> 0)"

text \<open>How a locked design may have developed from one record to a later one.\<close>

definition developed :: "experiment_record \<Rightarrow> experiment_record \<Rightarrow> bool" where
  "developed e f \<longleftrightarrow>
     (\<exists>xs. ex_amendments f = ex_amendments e @ xs \<and>
       amendment_chain (de_digest (ex_design e)) xs = Some (de_digest (ex_design f))) \<and>
     (\<exists>t t'. de_locked (ex_design e) = Some t \<and> de_locked (ex_design f) = Some t' \<and> time_equal t t') \<and>
     lifecycle_rank e \<le> lifecycle_rank f \<and>
     (ex_lifecycle e = LifecycleClosed \<longrightarrow> bare (RecExperiment f) = bare (RecExperiment e))"

lemma amendment_chain_append:
  "amendment_chain d (xs @ ys) = (case amendment_chain d xs of None \<Rightarrow> None | Some m \<Rightarrow> amendment_chain m ys)"
  by (induction xs arbitrary: d) auto

lemma developed_trans:
  assumes "developed e f" and "developed f g"
  shows "developed e g"
proof -
  obtain xs ys where xs: "ex_amendments f = ex_amendments e @ xs"
      "amendment_chain (de_digest (ex_design e)) xs = Some (de_digest (ex_design f))"
    and ys: "ex_amendments g = ex_amendments f @ ys"
      "amendment_chain (de_digest (ex_design f)) ys = Some (de_digest (ex_design g))"
    using assms by (auto simp: developed_def)
  then have "ex_amendments g = ex_amendments e @ (xs @ ys)"
    "amendment_chain (de_digest (ex_design e)) (xs @ ys) = Some (de_digest (ex_design g))"
    by (simp_all add: amendment_chain_append)
  moreover have "ex_lifecycle f = LifecycleClosed" if "ex_lifecycle e = LifecycleClosed"
  proof -
    have "f\<lparr>ex_extensions := []\<rparr> = e\<lparr>ex_extensions := []\<rparr>"
      using assms(1) that by (simp add: developed_def bare_experiment)
    then show ?thesis using that by (cases e; cases f) simp
  qed
  ultimately show ?thesis
    using assms unfolding developed_def time_equal_def by auto
qed

lemma developed_closed:
  assumes "deep_equal (RecExperiment e) (RecExperiment f)" and "de_locked (ex_design e) = Some t"
  shows "developed e f"
proof -
  have same: "e\<lparr>ex_extensions := []\<rparr> = f\<lparr>ex_extensions := []\<rparr>" using assms(1) by (simp add: deep_equal_def bare_experiment)
  then have "ex_amendments f = ex_amendments e" "ex_design f = ex_design e" "ex_lifecycle f = ex_lifecycle e"
    by (cases e; cases f; simp)+
  with same assms(2) show ?thesis by (simp add: developed_def bare_experiment lifecycle_rank_def time_equal_def)
qed

lemma developed_step:
  assumes u: "validateExperimentUpdate h e f = None" and e: "design_lock_ok h e" and f: "design_lock_ok h f"
    and lock: "de_locked (ex_design e) = Some t" and cycle: "ex_lifecycle f \<in> {LifecyclePlanned, LifecycleActive, LifecycleClosed}"
  shows "developed e f"
proof (cases "ex_lifecycle e = LifecycleClosed")
  case True
  with u lock show ?thesis by (intro developed_closed) (simp_all add: validateExperimentUpdate_def)
next
  case open_: False
  let ?new = "drop (length (ex_amendments e)) (ex_amendments f)"
  from u open_ have pre: "take (length (ex_amendments e)) (ex_amendments f) = ex_amendments e"
    and design: "design_update h e f = None"
    and order: "\<not> (ex_lifecycle e = LifecycleActive \<and> ex_lifecycle f = LifecyclePlanned)"
    by (simp_all add: validateExperimentUpdate_def)
  from design lock obtain t' where t': "de_locked (ex_design f) = Some t'" "time_equal t' t"
    by (auto simp: design_update_def split: option.splits)
  have digests: "ch_design h (ex_design e) = Some (de_digest (ex_design e))" "ch_design h (ex_design f) = Some (de_digest (ex_design f))"
    using e f lock t'(1) by (simp_all add: design_lock_ok_def)
  from design lock t' digests have "amendment_chain (de_digest (ex_design e)) ?new = Some (de_digest (ex_design f))"
    by (cases "?new = []") (auto simp: design_update_def Let_def split: option.splits)
  moreover have "ex_amendments f = ex_amendments e @ ?new" using pre by (metis append_take_drop_id)
  moreover have "lifecycle_rank e \<le> lifecycle_rank f"
    using order open_ cycle by (auto simp: lifecycle_rank_def split: experiment_lifecycle.split)
  ultimately show ?thesis using lock t' open_ by (auto simp: developed_def time_equal_def)
qed

lemma replaces_developed:
  assumes "replaces rnd h d d'" and "experiment_of d = Some e" and "de_locked (ex_design e) = Some t"
  obtains f where "experiment_of d' = Some f" "developed e f"
proof -
  have e: "d_record d = Some (RecExperiment e)" using assms(2) by (simp add: experiment_of_Some)
  from assms(1) show thesis
  proof (rule replaces_records)
    fix r s assume rs: "d_record d = Some r" "d_record d' = Some s" "kind_update h r s (d_body d) (d_body d') = None"
      and v: "Validate rnd h (Some r) = []" "Validate rnd h (Some s) = []"
    from rs e obtain f where f: "s = RecExperiment f" by (auto split: research_record.splits)
    have "ex_lifecycle f \<in> {LifecyclePlanned, LifecycleActive, LifecycleClosed}"
      using v(2) f by (cases "ex_lifecycle f") (simp_all add: Validate_accepts validateExperiment_def)
    with rs e f v assms(3) show thesis
      by (intro that) (auto simp: experiment_of_Some intro!: developed_step valid_experiment)
  qed
qed

text \<open>
  C18: the design of an Experiment has an honest history: once it is locked, any sequence of accepted
  replacements only appends amendments, each continues from the digest the one before ended with,
  the first from the digest of the design at the start and the last at the digest of the design as it
  stands, so a design that changed without an amendment is impossible; the time of the lock is fixed,
  the life cycle never goes back, and a closed Experiment does not change (extension tables aside).
\<close>

theorem design_history_append_only:
  assumes "(replaces rnd h)\<^sup>*\<^sup>* d d'" and "experiment_of d = Some e" and "valid_document rnd h d"
    and "de_locked (ex_design e) = Some t"
  shows "\<exists>f xs. experiment_of d' = Some f \<and> ex_amendments f = ex_amendments e @ xs \<and>
    amendment_chain (de_digest (ex_design e)) xs = Some (de_digest (ex_design f)) \<and>
    (xs = [] \<longrightarrow> ch_design h (ex_design f) = ch_design h (ex_design e)) \<and>
    map_option t_instant (de_locked (ex_design f)) = Some (t_instant t) \<and>
    lifecycle_rank e \<le> lifecycle_rank f \<and>
    (ex_lifecycle e = LifecycleClosed \<longrightarrow> f\<lparr>ex_extensions := []\<rparr> = e\<lparr>ex_extensions := []\<rparr>)"
proof -
  have "\<exists>f. experiment_of d' = Some f \<and> developed e f \<and> valid_document rnd h d'"
    using assms(1)
  proof (induction rule: rtranclp_induct)
    case base
    show ?case using assms(2-4) by (auto simp: developed_def time_equal_def)
  next
    case (step b c)
    then obtain f t' where f: "experiment_of b = Some f" "developed e f" "de_locked (ex_design f) = Some t'"
      by (auto simp: developed_def)
    obtain g where "experiment_of c = Some g" "developed f g" using replaces_developed [OF step(2) f(1,3)] .
    with f(2) step(2) show ?case using developed_trans by (auto simp: replaces_def)
  qed
  then obtain f where f: "experiment_of d' = Some f" "developed e f" "valid_document rnd h d'" by blast
  then obtain xs t' where xs: "ex_amendments f = ex_amendments e @ xs"
      "amendment_chain (de_digest (ex_design e)) xs = Some (de_digest (ex_design f))"
    and t': "de_locked (ex_design f) = Some t'" "time_equal t t'" "lifecycle_rank e \<le> lifecycle_rank f"
    using assms(4) by (auto simp: developed_def)
  have "design_lock_ok h e" "design_lock_ok h f"
    using assms(2,3) f by (auto simp: valid_document_def experiment_of_Some intro: valid_experiment)
  then have "ch_design h (ex_design f) = ch_design h (ex_design e)" if "xs = []"
    using that xs(2) assms(4) t'(1) by (simp add: design_lock_ok_def)
  with f xs t' show ?thesis by (auto simp: developed_def bare_experiment time_equal_def)
qed

section \<open>Tries\<close>

definition try_of :: "document \<Rightarrow> try_record option" where
  "try_of d = (case d_record d of Some (RecTry t) \<Rightarrow> Some t | _ \<Rightarrow> None)"

lemma try_of_Some: "try_of d = Some t \<longleftrightarrow> d_record d = Some (RecTry t)"
  by (auto simp: try_of_def split: option.splits research_record.splits)

lemma replaces_try:
  assumes "replaces rnd h d d'" and "try_of d = Some t"
  obtains u where "try_of d' = Some u" "validateTryUpdate h t u (d_body d) (d_body d') = None"
proof -
  have t: "d_record d = Some (RecTry t)" using assms(2) by (simp add: try_of_Some)
  from assms(1) show thesis
  proof (rule replaces_records)
    fix r s assume rs: "d_record d = Some r" "d_record d' = Some s" "kind_update h r s (d_body d) (d_body d') = None"
    from rs t obtain u where "s = RecTry u" by (auto split: research_record.splits)
    with rs t show thesis by (intro that) (auto simp: try_of_Some)
  qed
qed

definition plain_conclusion :: "try_record \<Rightarrow> try_conclusion option" where
  "plain_conclusion t = map_option (\<lambda>c. c\<lparr>tc_refs := map plain_ref (tc_refs c)\<rparr>) (ty_conclusion t)"

lemma bare_try: "bare (RecTry t) = RecTry (t\<lparr>ty_extensions := [], ty_conclusion := plain_conclusion t\<rparr>)"
  by (simp add: bare_def plain_conclusion_def)

lemma annotated_simps [simp]:
  "c_title (annotated t u) = c_title t" "c_aliases (annotated t u) = c_aliases t" "c_tags (annotated t u) = c_tags t"
  "ty_goal (annotated t u) = ty_goal t" "ty_sources (annotated t u) = ty_sources t" "ty_state (annotated t u) = ty_state t"
  "ty_conclusion (annotated t u) = ty_conclusion t" "ty_abandonment (annotated t u) = ty_abandonment t"
  "ty_adopted (annotated t u) = ty_adopted t" "c_updated (annotated t u) = c_updated t"
  by (simp_all add: annotated_def split: option.split)

lemma annotated_bare: "bare (RecTry (annotated t u)) = bare (RecTry t)"
  by (simp add: bare_try annotated_def plain_conclusion_def split: option.split)

lemma bare_try_fields:
  assumes "bare (RecTry t) = bare (RecTry u)"
  shows "ty_state u = ty_state t" "plain_conclusion u = plain_conclusion t"
  using assms by (cases t; cases u; simp add: bare_try plain_conclusion_def)+

definition try_view :: "document \<Rightarrow> ((string \<times> string list \<times> string list) \<times> string \<times> typed_id list \<times> string) option" where
  "try_view d = map_option (\<lambda>t. ((c_title t, c_aliases t, c_tags t), ty_goal t, ty_sources t, d_body d)) (try_of d)"

interpretation try_settling: settling "replaces rnd h" "\<lambda>d. try_of d \<noteq> None" try_view for rnd h
proof unfold_locales
  fix d d' assume r: "replaces rnd h d d'" "try_of d \<noteq> None"
  then obtain t where t: "try_of d = Some t" by blast
  from r(1) t show "try_of d' \<noteq> None \<and> try_view d' = try_view d"
    by (rule replaces_try) (simp add: validateTryUpdate_def Let_def try_view_def t)
qed

definition try_archived :: "document \<Rightarrow> bool" where
  "try_archived d \<longleftrightarrow> (\<exists>t. try_of d = Some t \<and> ty_state t \<in> {TryAbandoned, TryAdopted})"

interpretation archived_settling: settling "replaces rnd h" try_archived content_of for rnd h
proof unfold_locales
  fix d d' assume r: "replaces rnd h d d'" "try_archived d"
  then obtain t where t: "try_of d = Some t" "ty_state t \<in> {TryAbandoned, TryAdopted}" by (auto simp: try_archived_def)
  from r(1) t(1) show "try_archived d' \<and> content_of d' = content_of d"
  proof (rule replaces_try)
    fix u assume u: "try_of d' = Some u" "validateTryUpdate h t u (d_body d) (d_body d') = None"
    have "ty_state u = ty_state t"
      using u(2) t(2) by (auto simp: validateTryUpdate_def Let_def try_transition_def split: if_splits)
    with u(2) have "bare (RecTry t) = bare (RecTry u)" "d_body d' = d_body d"
      by (simp_all add: validateTryUpdate_def Let_def deep_equal_def annotated_bare)
    with t u(1) \<open>ty_state u = ty_state t\<close> show ?thesis
      by (auto simp: try_archived_def content_of_def try_of_Some)
  qed
qed

definition try_closed :: "document \<Rightarrow> bool" where
  "try_closed d \<longleftrightarrow> (\<exists>t. try_of d = Some t \<and> ty_state t \<in> {TryConcluded, TryAbandoned, TryAdopted})"

definition conclusion_view :: "document \<Rightarrow> try_conclusion option option" where
  "conclusion_view d = map_option plain_conclusion (try_of d)"

lemma try_closed_step:
  assumes u: "validateTryUpdate h t u b b' = None" and t: "ty_state t \<in> {TryConcluded, TryAbandoned, TryAdopted}"
  shows "ty_state u \<in> {TryConcluded, TryAbandoned, TryAdopted} \<and> plain_conclusion u = plain_conclusion t"
proof (cases "ty_state u = ty_state t")
  case True
  with u have "bare (RecTry t) = bare (RecTry u)"
    by (simp add: validateTryUpdate_def Let_def deep_equal_def annotated_bare)
  from bare_try_fields [OF this] t show ?thesis by simp
next
  case False
  then have "try_transition (annotated t u) u = None"
    using u by (simp add: validateTryUpdate_def Let_def split: if_splits)
  with t show ?thesis
    by (auto simp: try_transition_def plain_conclusion_def)
qed

interpretation conclusion_settling: settling "replaces rnd h" try_closed conclusion_view for rnd h
proof unfold_locales
  fix d d' assume r: "replaces rnd h d d'" "try_closed d"
  then obtain t where t: "try_of d = Some t" "ty_state t \<in> {TryConcluded, TryAbandoned, TryAdopted}" by (auto simp: try_closed_def)
  from r(1) t(1) show "try_closed d' \<and> conclusion_view d' = conclusion_view d"
  proof (rule replaces_try)
    fix u assume u: "try_of d' = Some u" "validateTryUpdate h t u (d_body d) (d_body d') = None"
    from try_closed_step [OF u(2) t(2)]
    have "ty_state u \<in> {TryConcluded, TryAbandoned, TryAdopted} \<and> plain_conclusion u = plain_conclusion t" .
    then show "try_closed d' \<and> conclusion_view d' = conclusion_view d"
      unfolding try_closed_def conclusion_view_def u(1) t(1) by simp
  qed
qed

text \<open>
  C19: a Try is closed once and its record of what was tried stays: over any sequence of accepted
  replacements its goal, Sources, title, tags and Markdown body are fixed; a closed Try is never
  reopened and keeps its conclusion; an abandoned or adopted one keeps everything (extension tables
  aside).
\<close>

theorem try_closed_once:
  assumes "(replaces rnd h)\<^sup>*\<^sup>* d d'" and "try_of d = Some t"
  shows "\<exists>u. try_of d' = Some u \<and> try_view d' = try_view d \<and>
    (ty_state t \<in> {TryConcluded, TryAbandoned, TryAdopted} \<longrightarrow>
       ty_state u \<in> {TryConcluded, TryAbandoned, TryAdopted} \<and> plain_conclusion u = plain_conclusion t) \<and>
    (ty_state t \<in> {TryAbandoned, TryAdopted} \<longrightarrow> bare (RecTry u) = bare (RecTry t))"
proof -
  obtain u where u: "try_of d' = Some u" "try_view d' = try_view d"
    using try_settling.keeps [OF assms(1)] assms(2) by auto
  have "ty_state u \<in> {TryConcluded, TryAbandoned, TryAdopted} \<and> plain_conclusion u = plain_conclusion t"
    if "ty_state t \<in> {TryConcluded, TryAbandoned, TryAdopted}"
    using conclusion_settling.keeps [OF assms(1)] that assms(2) u(1) by (simp add: try_closed_def conclusion_view_def)
  moreover have "bare (RecTry u) = bare (RecTry t)" if "ty_state t \<in> {TryAbandoned, TryAdopted}"
    using archived_settling.keeps [OF assms(1)] that assms(2) u(1)
    by (simp add: try_archived_def content_of_def try_of_Some)
  ultimately show ?thesis using u by blast
qed

section \<open>Concrete histories\<close>

definition open_updates :: update_host where
  "open_updates = check_host.extend open_checks
     \<lparr>uh_float = (\<lambda>_. None), uh_leaf = (\<lambda>_. None), uh_number = (\<lambda>_. Fin 0), uh_time = (\<lambda>_. None)\<rparr>"

definition document_of :: "research_record \<Rightarrow> document" where
  "document_of r = \<lparr>d_record = Some r, d_body = ''notes'', d_path = [], d_revision = []\<rparr>"

definition sample_decision :: "extensions \<Rightarrow> decision" where
  "sample_decision e = common.extend (sample_common SchemaDecision (sample_id KindDecision 1))
    \<lparr>dn_statement = ''s'', dn_based_on = [sample_id KindFinding 2], dn_action = ''a'', dn_effective = sample_stamp, dn_supersedes = [],
     dn_extensions = e\<rparr>"

definition sample_plan :: "int \<Rightarrow> plan_state \<Rightarrow> plan" where
  "sample_plan n s = common.extend (sample_common SchemaPlan (sample_id KindPlan 1)\<lparr>c_updated := later n\<rparr>)
    \<lparr>pl_priority = PriorityP1, pl_effort = EffortS, pl_state = s, pl_assumptions = [], pl_result = sample_id KindExperiment 2,
     pl_payoff = \<lparr>py_summary = ''s'', py_metric = ''m'', py_unit = ''u'', py_estimate = None\<rparr>, pl_idea = zero_id, pl_cluster = [],
     pl_classification = None, pl_dependencies = [], pl_resources = [], pl_utility = None, pl_extensions = []\<rparr>"

definition sample_reference :: external_ref where
  "sample_reference = \<lparr>er_role = ExternalTracker, er_provider = ''mlflow'', er_context = ''c'', er_native_kind = ''run'',
     er_native_id = ''1'', er_uri = [], er_observed = None, er_metadata = []\<rparr>"

definition sample_ended_attempt :: "int \<Rightarrow> external_ref list \<Rightarrow> attempt" where
  "sample_ended_attempt n refs = sample_record_attempt
     \<lparr>c_updated := later n, at_state := AttemptSucceeded, at_refs := refs,
      at_provenance := Some \<lparr>pv_captured = sample_stamp, pv_commit = replicate 40 CHR ''b'', pv_dirty = False, pv_dirty_digest = [],
        pv_config = zero_digest, pv_data = zero_digest, pv_environment = zero_digest, pv_reproducibility = ReproducibilityExact\<rparr>,
      at_terminal := Some \<lparr>tm_source = ''direct'', tm_observed = later 10, tm_started = None, tm_ended = later 10, tm_exit = Some 0,
        tm_signal = []\<rparr>\<rparr>"

definition sample_closed_try :: "int \<Rightarrow> bool \<Rightarrow> try_record" where
  "sample_closed_try n adopted = common.extend (sample_common SchemaTry (sample_id KindTry 1)\<lparr>c_updated := later n\<rparr>)
    \<lparr>ty_state = (if adopted then TryAdopted else TryConcluded), ty_goal = ''g'', ty_sources = [sample_id KindSource 2],
     ty_conclusion = Some \<lparr>tc_concluded = later 10, tc_summary = ''done'', tc_digests = [], tc_refs = []\<rparr>,
     ty_abandonment = None, ty_adopted = (if adopted then sample_id KindIdea 3 else zero_id), ty_extensions = []\<rparr>"

definition amended_experiment :: experiment_record where
  "amended_experiment = sample_record_experiment
     \<lparr>ex_amendments := ex_amendments sample_record_experiment @ [sample_amendment 30]\<rparr>"

text \<open>A one-step history, from its accepted records and the accepted replacement.\<close>

lemma one_replacement:
  assumes "Validate Fin open_updates (Some r) = []" and "Validate Fin open_updates (Some s) = []"
    and "validateImmutableUpdate open_updates (document_of r) (document_of s) = None"
  shows "(replaces Fin open_updates)\<^sup>*\<^sup>* (document_of r) (document_of s)"
  using assms by (intro r_into_rtranclp) (simp add: replaces_def valid_document_def document_of_def)


theorem plan_preregistration_fixed_witness:
  "\<exists>q. plan_of (document_of (RecPlan (sample_plan 20 PlanCompleted))) = Some q \<and> pl_state q \<noteq> PlanQueued \<and>
     pl_payoff q = pl_payoff (sample_plan 10 PlanStarted)"
proof -
  have v: "Validate Fin open_updates (Some (RecPlan (sample_plan 10 PlanStarted))) = []"
    "Validate Fin open_updates (Some (RecPlan (sample_plan 20 PlanCompleted))) = []"
    "validateImmutableUpdate open_updates (document_of (RecPlan (sample_plan 10 PlanStarted)))
      (document_of (RecPlan (sample_plan 20 PlanCompleted))) = None" by code_simp+
  have "plan_of (document_of (RecPlan (sample_plan 10 PlanStarted))) = Some (sample_plan 10 PlanStarted)"
    by (simp add: plan_of_Some document_of_def)
  moreover have "pl_state (sample_plan 10 PlanStarted) \<in> {PlanStarted, PlanCompleted, PlanDropped}"
    by (simp add: sample_plan_def common.defs)
  ultimately obtain q where q: "plan_of (document_of (RecPlan (sample_plan 20 PlanCompleted))) = Some q"
    "pl_state q \<in> {PlanStarted, PlanCompleted, PlanDropped}"
    "(preregistered q)\<lparr>pl_extensions := []\<rparr> = (preregistered (sample_plan 10 PlanStarted))\<lparr>pl_extensions := []\<rparr>"
    using plan_preregistration_fixed [OF one_replacement [OF v]] by blast
  from arg_cong [OF q(3), of pl_payoff] q(1,2) show ?thesis by (auto simp: preregistered_def)
qed

theorem attempt_outcome_final_witness:
  "\<exists>b. attempt_of (document_of (RecAttempt (sample_ended_attempt 20 [sample_reference]))) = Some b \<and>
     at_state b = AttemptSucceeded"
proof -
  have v: "Validate Fin open_updates (Some (RecAttempt (sample_ended_attempt 10 []))) = []"
    "Validate Fin open_updates (Some (RecAttempt (sample_ended_attempt 20 [sample_reference]))) = []"
    "validateImmutableUpdate open_updates (document_of (RecAttempt (sample_ended_attempt 10 [])))
      (document_of (RecAttempt (sample_ended_attempt 20 [sample_reference]))) = None" by code_simp+
  have "attempt_of (document_of (RecAttempt (sample_ended_attempt 10 []))) = Some (sample_ended_attempt 10 [])"
    "valid_document Fin open_updates (document_of (RecAttempt (sample_ended_attempt 10 [])))"
    using v(1) by (simp_all add: attempt_of_Some document_of_def valid_document_def)
  from attempt_outcome_final [OF one_replacement [OF v] this] show ?thesis
    by (auto simp: sample_ended_attempt_def terminalAttemptState_def terminal_source_def)
qed

theorem design_history_append_only_witness:
  "\<exists>f xs. experiment_of (document_of (RecExperiment amended_experiment)) = Some f \<and>
     ex_amendments f = ex_amendments sample_record_experiment @ xs \<and>
     amendment_chain zero_digest xs = Some (de_digest (ex_design f))"
proof -
  have v: "Validate Fin open_updates (Some (RecExperiment sample_record_experiment)) = []"
    "Validate Fin open_updates (Some (RecExperiment amended_experiment)) = []"
    "validateImmutableUpdate open_updates (document_of (RecExperiment sample_record_experiment))
      (document_of (RecExperiment amended_experiment)) = None" by code_simp+
  have "experiment_of (document_of (RecExperiment sample_record_experiment)) = Some sample_record_experiment"
    "valid_document Fin open_updates (document_of (RecExperiment sample_record_experiment))"
    using v(1) by (simp_all add: experiment_of_Some document_of_def valid_document_def)
  moreover have "de_locked (ex_design sample_record_experiment) = Some sample_stamp"
    "de_digest (ex_design sample_record_experiment) = zero_digest"
    by (simp_all add: sample_record_experiment_def sample_design_def common.defs)
  ultimately show ?thesis
    using design_history_append_only [OF one_replacement [OF v]] by fastforce
qed

theorem try_closed_once_witness:
  "\<exists>u. try_of (document_of (RecTry (sample_closed_try 20 True))) = Some u \<and>
     plain_conclusion u = plain_conclusion (sample_closed_try 10 False)"
proof -
  have v: "Validate Fin open_updates (Some (RecTry (sample_closed_try 10 False))) = []"
    "Validate Fin open_updates (Some (RecTry (sample_closed_try 20 True))) = []"
    "validateImmutableUpdate open_updates (document_of (RecTry (sample_closed_try 10 False)))
      (document_of (RecTry (sample_closed_try 20 True))) = None" by code_simp+
  have "try_of (document_of (RecTry (sample_closed_try 10 False))) = Some (sample_closed_try 10 False)"
    by (simp add: try_of_Some document_of_def)
  from try_closed_once [OF one_replacement [OF v] this] show ?thesis
    by (auto simp: sample_closed_try_def common.defs)
qed

end
