(* ===== verification/Exp_Envelope_Theorems.thy ===== *)
theory Exp_Envelope_Theorems
  imports Exp_Envelope Exp_Normalize_Theorems Exp_Update_Theorems
begin

text \<open>
  Encoding and decoding a record file. What the code relies on in the TOML library is the predicate
  \<open>front_codec\<close>: its output is text without a \<^verbatim>\<open>+++\<close> line, and writing again what was read from it
  gives the same text.
\<close>

definition front_codec :: "'h codec_host_scheme \<Rightarrow> bool" where
  "front_codec h \<longleftrightarrow>
    (\<forall>r t. eh_write h r = Some t \<longrightarrow>
       utf8_valid t \<and> CHR 0x0D \<notin> set t \<and> trim_space (butlast (final_newline t)) \<noteq> [] \<and>
       \<not> contains_str (final_newline t) closingDelimiter) \<and>
    (\<forall>r t r'. eh_write h r = Some t \<longrightarrow> Normalize h r = r \<longrightarrow> eh_read h (butlast (final_newline t)) = Inr r' \<longrightarrow>
       eh_write h (Normalize h r') = Some t)"

section \<open>UTF-8 text\<close>

lemma utf8_valid_Cons: "utf8_valid (c # s) \<longleftrightarrow> (\<exists>r n. head_of c s = Some (r, n) \<and> utf8_valid (drop n s))"
  by (auto simp: utf8_valid_def head_of_def split: option.splits)

lemma utf8_valid_append: "utf8_valid a \<Longrightarrow> utf8_valid b \<Longrightarrow> utf8_valid (a @ b)"
proof (induction a rule: utf8_chunks.induct)
  case (2 c s)
  from 2(3) obtain r n where head: "head_of c s = Some (r, n)" "utf8_valid (drop n s)"
    by (auto simp: utf8_valid_Cons)
  have "utf8_valid (drop n s @ b)" using 2(2) head 2(4) by (simp add: head_of_def)
  moreover have "n \<le> length s" "head_of c (take n s @ drop n s @ b) = Some (r, n)"
    using head_of_Some [OF head(1)] by blast+
  ultimately have "head_of c (s @ b) = Some (r, n)" "utf8_valid (drop n (s @ b))"
    by (simp_all flip: append_assoc)
  then show ?case by (auto simp: utf8_valid_Cons)
qed simp

section \<open>Finding the closing line\<close>

lemma final_newline_last: "\<exists>f. final_newline s = f @ [newline]"
  by (cases s rule: rev_cases) (auto simp: final_newline_def)

lemma final_newline_butlast: "butlast (final_newline s) @ [newline] = final_newline s"
  using final_newline_last [of s] by auto

lemma final_newline_id [simp]: "final_newline (f @ [newline]) = f @ [newline]"
  by (simp add: final_newline_def)

lemma final_newline_append: "s \<noteq> [] \<Longrightarrow> final_newline (f @ s) = f @ final_newline s"
  by (simp add: final_newline_def)

lemma delimiters: "closingDelimiter = newline # openingDelimiter" "length openingDelimiter = 4"
  "openingDelimiter = ''+++'' @ [newline]"
  by (simp_all add: closingDelimiter_def openingDelimiter_def Delimiter_def)

lemma closing_glue: "butlast (final_newline t) @ closingDelimiter @ s = final_newline t @ openingDelimiter @ s"
proof -
  have "f @ closingDelimiter @ s = (f @ [newline]) @ openingDelimiter @ s" for f by (simp add: delimiters(1))
  then show ?thesis by (simp only: final_newline_butlast)
qed

lemma has_prefix_iff: "has_prefix s p \<longleftrightarrow> (\<exists>t. s = p @ t)"
  by (auto simp: has_prefix_def) (metis append_take_drop_id)

lemma closing_here:
  assumes "\<not> contains_str (c # f @ [newline]) closingDelimiter"
  shows "\<not> has_prefix (c # f @ closingDelimiter @ rest) closingDelimiter"
proof
  assume p: "has_prefix (c # f @ closingDelimiter @ rest) closingDelimiter"
  consider "f = []" | a where "f = [a]" | a b where "f = [a, b]" | a b d g where "f = a # b # d # g"
    by (metis list.exhaust)
  then show False
  proof cases
    case 4
    with p have "has_prefix (c # f @ [newline]) closingDelimiter"
      by (cases g) (auto simp: has_prefix_def delimiters)
    with assms show False by simp
  qed (use p in \<open>auto simp: has_prefix_def delimiters\<close>)
qed

lemma index_of_closing:
  "\<not> contains_str (f @ [newline]) closingDelimiter \<Longrightarrow> index_of closingDelimiter (f @ closingDelimiter @ rest) = Some (length f)"
proof (induction f)
  case Nil
  then show ?case by (simp add: has_prefix_def delimiters)
next
  case (Cons c f)
  then have "index_of closingDelimiter (f @ closingDelimiter @ rest) = Some (length f)" by simp
  with closing_here [of c f rest] Cons.prems show ?case by simp
qed

section \<open>The encoding\<close>

definition stored_body :: "string \<Rightarrow> string" where
  "stored_body body = (if body = [] then [] else final_newline body)"

text \<open>The pieces of an encoded document.\<close>

lemma encode_pieces:
  assumes "encodeWithValidator h v d = Inr content"
  obtains r t where "d_record d = Some r" "v (Some r)" "v (Some (Normalize h r))" "eh_write h (Normalize h r) = Some t"
    "content = openingDelimiter @ butlast (final_newline t) @ closingDelimiter @ stored_body (d_body d)"
    "utf8_valid (d_body d)" "CHR 0x0D \<notin> set (d_body d)" "ch_text h (d_body d) = None"
proof -
  from assms obtain r t where r: "d_record d = Some r" "v (Some r)" "v (Some (Normalize h r))"
    "eh_write h (Normalize h r) = Some t" "utf8_valid (d_body d)" "CHR 0x0D \<notin> set (d_body d)" "ch_text h (d_body d) = None"
    and c: "content = final_newline (openingDelimiter @ final_newline t @ openingDelimiter @ d_body d)"
    by (auto simp: encodeWithValidator_def Let_def guarded_Inr_iff split: option.splits)
  note front = closing_glue [of t, symmetric]
  have end_of: "final_newline (u @ openingDelimiter) = u @ openingDelimiter" for u
    by (simp add: final_newline_def delimiters)
  have "content = openingDelimiter @ butlast (final_newline t) @ closingDelimiter @ stored_body (d_body d)"
  proof (cases "d_body d = []")
    case True
    then show ?thesis using c end_of [of "openingDelimiter @ final_newline t"] front [of "[]"]
      by (simp add: stored_body_def)
  next
    case False
    then show ?thesis using c by (simp add: stored_body_def final_newline_append front)
  qed
  with r that show thesis by blast
qed

lemma encode_of_pieces:
  assumes "encodeWithValidator h v d = Inr content" and "d_record d = Some r" and "eh_write h (Normalize h r) = Some t"
  shows "content = openingDelimiter @ butlast (final_newline t) @ closingDelimiter @ stored_body (d_body d)"
  using assms(1) by (rule encode_pieces) (use assms(2,3) in auto)

lemma encode_cong:
  assumes "d_record d = d_record e" and "d_body d = d_body e"
  shows "encodeWithValidator h v d = encodeWithValidator h v e"
  unfolding encodeWithValidator_def assms by (rule refl)

lemma stored_body_id [simp]: "stored_body (stored_body b) = stored_body b"
  using final_newline_last [of b] by (auto simp: stored_body_def)

lemma Split_encoded:
  assumes "utf8_valid t" "CHR 0x0D \<notin> set t" "trim_space (butlast (final_newline t)) \<noteq> []"
    and "\<not> contains_str (final_newline t) closingDelimiter"
    and "utf8_valid body" "CHR 0x0D \<notin> set body"
  shows "Split (openingDelimiter @ butlast (final_newline t) @ closingDelimiter @ stored_body body) =
    Inr (butlast (final_newline t), stored_body body)"
proof -
  let ?f = "butlast (final_newline t)"
  have index: "index_of closingDelimiter (?f @ closingDelimiter @ stored_body body) = Some (length ?f)"
    by (rule index_of_closing) (simp add: final_newline_butlast assms(4))
  have plain: "utf8_valid [newline]" "utf8_valid openingDelimiter"
    by (simp_all add: delimiters utf8_valid_ascii ascii_def byte_def)
  have set_f: "set (final_newline s) \<subseteq> insert newline (set s)" for s by (auto simp: final_newline_def)
  have ends: "utf8_valid (final_newline s)" if "utf8_valid s" for s
    using that plain by (auto simp: final_newline_def intro: utf8_valid_append)
  have stored: "utf8_valid (stored_body body)" "CHR 0x0D \<notin> set (stored_body body)"
    using assms(5,6) ends set_f [of body] by (auto simp: stored_body_def)
  note content = arg_cong [OF closing_glue [of t "stored_body body"], of "(@) openingDelimiter"]
  have valid: "utf8_valid (openingDelimiter @ ?f @ closingDelimiter @ stored_body body)"
    unfolding content using plain(2) ends [OF assms(1)] stored(1) by (simp add: utf8_valid_append)
  have no_cr: "CHR 0x0D \<notin> set (openingDelimiter @ ?f @ closingDelimiter @ stored_body body)"
    unfolding content using assms(2) set_f [of t] stored(2) by (auto simp: delimiters)
  have last_nl: "has_suffix (openingDelimiter @ ?f @ closingDelimiter @ stored_body body) [newline]"
  proof (cases "body = []")
    case True
    then show ?thesis by (simp add: has_suffix_def stored_body_def delimiters)
  next
    case False
    then obtain g where "stored_body body = g @ [newline]" using final_newline_last [of body] by (auto simp: stored_body_def)
    then show ?thesis by (simp add: has_suffix_def)
  qed
  show ?thesis
    using valid no_cr last_nl index assms(3)
    by (simp add: Split_def Let_def has_prefix_iff)
qed

text \<open>The pieces of a decoded document.\<close>

lemma decode_pieces:
  assumes "decodeWithValidator h v content = Inr d'" and "Split content = Inr (front, body)"
  obtains r encoded where "eh_read h front = Inr r" "v (Some r)" "ch_text h body = None"
    "encodeWithValidator h v \<lparr>d_record = Some r, d_body = body, d_path = [], d_revision = []\<rparr> = Inr encoded"
    "d' = \<lparr>d_record = Some r, d_body = body, d_path = [], d_revision = revisionPrefix @ eh_hash h encoded\<rparr>"
proof -
  from assms obtain r where r: "eh_read h front = Inr r" by (cases "eh_read h front") (simp_all add: decodeWithValidator_def)
  from assms r have "ch_text h body = None" "v (Some r)"
    by (auto simp: decodeWithValidator_def guarded_Inr_iff split: option.splits)
  moreover from calculation assms r obtain encoded where
      "encodeWithValidator h v \<lparr>d_record = Some r, d_body = body, d_path = [], d_revision = []\<rparr> = Inr encoded"
      "d' = \<lparr>d_record = Some r, d_body = body, d_path = [], d_revision = revisionPrefix @ eh_hash h encoded\<rparr>"
    by (auto simp: decodeWithValidator_def revisionWithEncoder_def andThen_Inr_iff)
  ultimately show thesis using r that by blast
qed


section \<open>A concrete file\<close>

definition sample_front :: string where
  "sample_front = ''id = 1'' @ [newline]"

text \<open>A host that writes and reads the front matter of one record.\<close>

definition sample_codec :: codec_host where
  "sample_codec = update_host.extend open_updates
     \<lparr>eh_read = (\<lambda>t. if t = butlast sample_front then Inr (Normalize open_checks (RecQueue sample_record_queue)) else Inl ''toml''),
      eh_write = (\<lambda>r. if r = Normalize open_checks (RecQueue sample_record_queue) then Some sample_front else None),
      eh_hash = (\<lambda>s. replicate 64 CHR ''0'')\<rparr>"

definition sample_file :: string where
  "sample_file = openingDelimiter @ sample_front @ openingDelimiter @ ''notes'' @ [newline]"

lemma front_codec_sample: "front_codec sample_codec"
proof -
  have "utf8_valid sample_front \<and> CHR 0x0D \<notin> set sample_front \<and> trim_space (butlast (final_newline sample_front)) \<noteq> [] \<and>
      \<not> contains_str (final_newline sample_front) closingDelimiter" by code_simp
  moreover have "eh_write sample_codec r = Some t \<Longrightarrow> r = Normalize open_checks (RecQueue sample_record_queue) \<and> t = sample_front"
    for r t
    by (simp add: sample_codec_def update_host.defs split: if_splits)
  moreover have "eh_read sample_codec s = Inr r \<Longrightarrow> r = Normalize open_checks (RecQueue sample_record_queue)" for s r
    by (simp add: sample_codec_def update_host.defs split: if_splits)
  moreover have "Normalize sample_codec (Normalize open_checks (RecQueue sample_record_queue)) =
      Normalize open_checks (RecQueue sample_record_queue)" by code_simp
  ultimately show ?thesis by (auto simp: front_codec_def)
qed


end
