(* ===== verification/Exp_Inventory_Samples.thy ===== *)
theory Exp_Inventory_Samples
  imports Exp_Promotion_Theorems Exp_Envelope_Theorems
begin

text \<open>
  Concrete inventories: a chain of three Promotions (a release is crowned, replaced, and restored by a
  rollback), and a candidate set with one Idea derived from another.
\<close>

section \<open>Evaluation of the fuelled loops\<close>

lemma champion_walk_code [code]:
  "champion_walk ps n visited champion setting x =
    (if n = 0 \<or> c_id (snd x) \<in> set visited then []
     else
       at_document (fst x) (champion_codes (snd x) champion setting) @
       (case followers_of ps (c_id (snd x)) of
          [y] \<Rightarrow> champion_walk ps (n - 1) (c_id (snd x) # visited) (if crowns (snd x) then pr_challenger (snd x) else champion)
            (if crowns (snd x) then Some (snd x) else setting) y
        | _ \<Rightarrow> []))"
proof -
  obtain d p where x: "x = (d, p)" by (cases x)
  show ?thesis
  proof (cases n)
    case (Suc m)
    show ?thesis unfolding Suc x diff_Suc_1 fst_conv snd_conv by simp
  qed simp
qed

lemma visit_code [code]:
  "visit g n stack x s =
    (if n = 0 then s
     else case fold (\<lambda>t (finished, cyclic).
        if t \<in> set finished then (finished, cyclic)
        else if t \<in> set (x # stack) then (finished, cycle_members (x # stack) t @ cyclic)
        else visit g (n - 1) (x # stack) t (finished, cyclic)) (g x) s of
       (finished, cyclic) \<Rightarrow> (x # finished, cyclic))"
proof (cases n)
  case (Suc m)
  show ?thesis unfolding Suc diff_Suc_1 by simp
qed simp

lemma champion_loop_code [code]:
  "champion_loop ps n now p =
    (case p of
       None \<Rightarrow> Some now
     | Some q \<Rightarrow> if n = 0 then None
         else champion_loop ps (n - 1) (if crowns q then (pr_challenger q, c_id q) else now) (last_of (followers_of ps (c_id q))))"
  by (cases n; cases p) simp_all

section \<open>A chain of Promotions\<close>

definition sample_inventory_host :: inventory_host where
  "sample_inventory_host = codec_host.extend (sample_codec
      \<lparr>eh_write := (\<lambda>_. Some sample_front), eh_hash := (\<lambda>_. replicate 64 CHR ''0'')\<rparr>)
     \<lparr>ih_contained = (\<lambda>_ _. None), ih_belief = (\<lambda>_ _ _. None), ih_imported = (\<lambda>_ _. [])\<rparr>"

definition sample_root :: document where
  "sample_root = \<lparr>d_record = Some (RecProject \<lparr>pj_schema = SchemaProject, pj_id = sample_uuid 9, pj_name = ''p'',
     pj_created = sample_stamp, pj_root = ''.'', pj_extensions = []\<rparr>), d_body = ''notes'', d_path = ProjectFile, d_revision = []\<rparr>"

definition sample_release :: "8 word \<Rightarrow> release" where
  "sample_release n = common.extend (sample_common SchemaRelease (sample_id KindRelease n))
    \<lparr>rl_target = ''api'', rl_version = ''1'', rl_state = ReleaseValidated, rl_slots = [], rl_experiment = zero_id,
     rl_combination = zero_id, rl_evaluation = zero_id, rl_extensions = []\<rparr>"

definition sample_promotion :: "8 word \<Rightarrow> promotion_outcome \<Rightarrow> typed_id \<Rightarrow> typed_id \<Rightarrow> typed_id \<Rightarrow> promotion" where
  "sample_promotion n outcome challenger incumbent previous = common.extend (sample_common SchemaPromotion (sample_id KindPromotion n))
    \<lparr>pr_target = ''api'', pr_spec = zero_id, pr_challenger = challenger, pr_incumbent = incumbent, pr_evaluation = zero_id,
     pr_outcome = outcome, pr_applied = sample_stamp, pr_previous = previous, pr_approved_by = ''me'', pr_extensions = []\<rparr>"

definition crowned_first :: promotion where
  "crowned_first = sample_promotion 3 PromotionAccepted (sample_id KindRelease 1) zero_id zero_id"

definition crowned_second :: promotion where
  "crowned_second = sample_promotion 4 PromotionAccepted (sample_id KindRelease 2) (sample_id KindRelease 1) (sample_id KindPromotion 3)"

definition rolled_back :: promotion where
  "rolled_back = sample_promotion 5 PromotionRolledBack (sample_id KindRelease 1) (sample_id KindRelease 2) (sample_id KindPromotion 4)"

definition at_path :: "string \<Rightarrow> research_record \<Rightarrow> document" where
  "at_path p r = (document_of r)\<lparr>d_path := p\<rparr>"

definition sample_chain :: inventory where
  "sample_chain = finalize sample_inventory_host False
     [sample_root, at_path ''a'' (RecRelease (sample_release 1)), at_path ''b'' (RecRelease (sample_release 2)),
      at_path ''c'' (RecPromotion crowned_first), at_path ''d'' (RecPromotion crowned_second),
      at_path ''e'' (RecPromotion rolled_back)] Map.empty []"

lemma sample_chain_checked: "checked sample_inventory_host sample_chain"
proof -
  have "in_diagnostics sample_chain = []" by code_simp
  then show ?thesis unfolding checked_def Valid_def sample_chain_def by blast
qed

lemma sample_promotions:
  "promotions sample_inventory_host sample_chain =
    [(at_path ''c'' (RecPromotion crowned_first), crowned_first), (at_path ''d'' (RecPromotion crowned_second), crowned_second),
     (at_path ''e'' (RecPromotion rolled_back), rolled_back)]"
  by code_simp

text \<open>The rollback restores the release the second Promotion had replaced.\<close>

theorem promotion_chain_lawful_witness:
  "\<exists>earlier champion setting. reign (promotions sample_inventory_host sample_chain) earlier
     (at_path ''e'' (RecPromotion rolled_back), rolled_back) champion setting \<and> lawful rolled_back champion setting"
proof -
  let ?ps = "promotions sample_inventory_host sample_chain"
  have "(at_path ''c'' (RecPromotion crowned_first), crowned_first) \<in> set (roots_of ?ps ''api'')"
    unfolding sample_promotions by code_simp
  note first = reign.start [OF this]
  have "(at_path ''d'' (RecPromotion crowned_second), crowned_second) \<in> set (followers_of ?ps (c_id crowned_first))"
    unfolding sample_promotions by code_simp
  note second = reign.follow [OF first, simplified, OF this]
  have "(at_path ''e'' (RecPromotion rolled_back), rolled_back) \<in> set (followers_of ?ps (c_id crowned_second))"
    unfolding sample_promotions by code_simp
  note third = reign.follow [OF second, simplified, OF this]
  from promotion_chain_lawful [OF sample_chain_checked third] third show ?thesis by auto
qed

theorem CurrentChampions_returns_witness:
  "\<exists>cs. CurrentChampions sample_inventory_host sample_chain = Inr (Some cs) \<and>
     map cp_release cs = [sample_id KindRelease 1] \<and> map cp_promotion cs = [sample_id KindPromotion 5]"
proof -
  obtain cs where "CurrentChampions sample_inventory_host sample_chain = Inr (Some cs)"
    using CurrentChampions_returns [OF sample_chain_checked] by blast
  moreover have "CurrentChampions sample_inventory_host sample_chain =
      Inr (Some [\<lparr>cp_target = ''api'', cp_release = sample_id KindRelease 1, cp_promotion = sample_id KindPromotion 5\<rparr>])"
    by code_simp
  ultimately show ?thesis by auto
qed

theorem valid_inventory_references_witness: "\<exists>t. unique sample_chain (sample_id KindRelease 2) = Some t"
proof -
  have d: "at_path ''e'' (RecPromotion rolled_back) \<in> set (in_documents sample_chain)" by code_simp
  have r: "d_record (at_path ''e'' (RecPromotion rolled_back)) = Some (RecPromotion rolled_back)" by code_simp
  have i: "(sample_id KindRelease 2, [KindRelease]) \<in> set (references (RecPromotion rolled_back))" by code_simp
  have n: "\<not> id_is_zero (sample_id KindRelease 2)" by code_simp
  from valid_inventory_references [OF sample_chain_checked d r i n] show ?thesis by blast
qed

section \<open>A candidate set\<close>

definition sample_idea :: "8 word \<Rightarrow> typed_id list \<Rightarrow> idea" where
  "sample_idea n parents = common.extend (sample_common SchemaIdea (sample_id KindIdea n))
    \<lparr>ia_state = IdeaProposed, ia_summary = ''s'', ia_proposed_by = ''me'', ia_cluster = ''c'',
     ia_classification = \<lparr>cf_domain = ''a'', cf_work = ''b'', cf_method = ''c'', cf_component = ''d'', cf_lane = LaneExplore,
       cf_risk = RiskLow, cf_horizon = HorizonShort, cf_origin = OriginHuman\<rparr>,
     ia_parents = parents, ia_plan = zero_id, ia_merged = zero_id, ia_origin = zero_id, ia_extensions = []\<rparr>"

definition new_document :: "research_record \<Rightarrow> document" where
  "new_document r = at_path (the (PathForNew sample_inventory_host (indexed [] Map.empty) (Some r))) r"

definition sample_candidate_documents :: "document list" where
  "sample_candidate_documents =
    [sample_root, new_document (RecIdea (sample_idea 1 [])), new_document (RecIdea (sample_idea 2 [sample_id KindIdea 1]))]"

lemma sample_candidates_valid: "Valid (InventoryFromDocuments Fin sample_inventory_host sample_candidate_documents)"
  by code_simp

text \<open>The one edge goes from the first Idea to the second.\<close>

theorem ResearchEdges_closed_witness:
  "ResearchEdges sample_inventory_host (InventoryFromDocuments Fin sample_inventory_host sample_candidate_documents) =
     [\<lparr>ed_from = sample_id KindIdea 1, ed_to = sample_id KindIdea 2, ed_relation = ''derives''\<rparr>] \<and>
   unique (InventoryFromDocuments Fin sample_inventory_host sample_candidate_documents) (sample_id KindIdea 1) \<noteq> None"
proof -
  have "ResearchEdges sample_inventory_host (InventoryFromDocuments Fin sample_inventory_host sample_candidate_documents) =
     [\<lparr>ed_from = sample_id KindIdea 1, ed_to = sample_id KindIdea 2, ed_relation = ''derives''\<rparr>]" by code_simp
  with ResearchEdges_closed [OF refl sample_candidates_valid] show ?thesis by simp
qed

theorem InventoryFromDocuments_order_witness:
  "InventoryFromDocuments Fin sample_inventory_host (rev sample_candidate_documents) =
   InventoryFromDocuments Fin sample_inventory_host sample_candidate_documents"
proof -
  have "distinct (map d_path sample_candidate_documents)" by code_simp
  then have "distinct (map d_path (rev sample_candidate_documents))" by (simp flip: rev_map)
  then show ?thesis by (rule InventoryFromDocuments_order [rotated]) simp
qed

end
