(* ===== verification/Exp_Atomic.thy ===== *)
theory Exp_Atomic
  imports Exp_Prelude
begin

text \<open>
  Publication of one file (\<^verbatim>\<open>internal/record/atomic.go\<close>): \<open>AtomicWriteRoot\<close> writes a temporary file
  and puts it in place by a no-clobber link or a compare-and-swap exchange.

  The world \<open>'w\<close> holds the file; \<open>rd\<close> reads its content (None when it is absent), \<open>wr\<close> puts new
  content in place. A \<open>boundary\<close> is what happens just before a named stage: the failure-injection
  hook and the check of the opened directories, during which other programs may change the world. It
  says whether the stage may go on, so a boundary that fails stands for a failed system call or a
  crash as well. Temporary names, file modes and inodes are not part of the world: the exchange and
  its roll-back are one step, and a file replaced by equal bytes is the same file.
\<close>

datatype atomic_stage = StageTempCreate | StageTempWrite | StageFileSync | StageRename | StageDirSync

datatype atomic_cause = AtomicStopped | ErrAtomicConflict | ErrExist

record publication_error =
  pe_stage :: atomic_stage
  pe_published :: bool
  pe_cause :: atomic_cause

type_synonym 'w boundary = "atomic_stage \<Rightarrow> 'w \<Rightarrow> bool \<times> 'w"

type_synonym 'w publication = "'w \<Rightarrow> publication_error option \<times> 'w"

definition publicationError :: "atomic_stage \<Rightarrow> bool \<Rightarrow> atomic_cause \<Rightarrow> publication_error option" where
  "publicationError stage published cause = Some \<lparr>pe_stage = stage, pe_published = published, pe_cause = cause\<rparr>"

definition runAtomicHook :: "'w boundary \<Rightarrow> atomic_stage \<Rightarrow> bool \<Rightarrow> 'w publication \<Rightarrow> 'w publication" where
  "runAtomicHook hook stage published rest w =
    (case hook stage w of
       (True, w') \<Rightarrow> rest w'
     | (False, w') \<Rightarrow> (publicationError stage published AtomicStopped, w'))"

text \<open>The destination must be absent for a create and hold the expected bytes for a replacement.\<close>

definition verifyDestinationAt :: "('w \<Rightarrow> string option) \<Rightarrow> string option \<Rightarrow> atomic_stage \<Rightarrow> bool \<Rightarrow> 'w publication \<Rightarrow> 'w publication" where
  "verifyDestinationAt rd expected stage published rest w =
    (if rd w = expected then rest w
     else (publicationError stage published (if expected = None then ErrExist else ErrAtomicConflict), w))"

definition AtomicWriteRoot ::
    "'w boundary \<Rightarrow> ('w \<Rightarrow> string option) \<Rightarrow> (string \<Rightarrow> 'w \<Rightarrow> 'w) \<Rightarrow> string option \<Rightarrow> string \<Rightarrow> 'w publication" where
  "AtomicWriteRoot hook rd wr expected content =
    verifyDestinationAt rd expected StageTempCreate False
   (runAtomicHook hook StageTempCreate False
   (runAtomicHook hook StageTempWrite False
   (runAtomicHook hook StageFileSync False
   (verifyDestinationAt rd expected StageRename False
   (runAtomicHook hook StageRename False
   (verifyDestinationAt rd expected StageRename False
   (\<lambda>w. runAtomicHook hook StageDirSync True
     (verifyDestinationAt rd (Some content) StageDirSync True (\<lambda>w. (None, w))) (wr content w))))))))"

definition publicationSucceeded :: "publication_error option \<Rightarrow> bool" where
  "publicationSucceeded e \<longleftrightarrow> (case e of None \<Rightarrow> False | Some p \<Rightarrow> pe_published p)"

section \<open>What other programs do at the boundaries\<close>

inductive interferes :: "'w boundary \<Rightarrow> 'w \<Rightarrow> 'w \<Rightarrow> bool" for hook where
  nothing: "interferes hook w w"
| something: "interferes hook w u \<Longrightarrow> hook stage u = (going_on, v) \<Longrightarrow> interferes hook w v"

declare interferes.nothing [intro, simp]

lemma interferes_step: "interferes hook v u \<Longrightarrow> hook stage w = (going_on, v) \<Longrightarrow> interferes hook w u"
  by (induction rule: interferes.induct) (auto intro: interferes.intros)

lemma interferes_trans: "interferes hook v u \<Longrightarrow> interferes hook w v \<Longrightarrow> interferes hook w u"
  by (induction rule: interferes.induct) (auto intro: interferes.intros)

inductive_cases interferesE: "interferes hook w u"

section \<open>Outcomes\<close>

text \<open>
  \<open>published_over rd wr expected content hook w w'\<close>: at some moment the file held exactly what the
  writer expected, and then the new content replaced it.
\<close>

definition published_over ::
    "('w \<Rightarrow> string option) \<Rightarrow> (string \<Rightarrow> 'w \<Rightarrow> 'w) \<Rightarrow> string option \<Rightarrow> string \<Rightarrow> 'w boundary \<Rightarrow> 'w \<Rightarrow> 'w \<Rightarrow> bool" where
  "published_over rd wr expected content hook w w' \<longleftrightarrow>
     (\<exists>u. interferes hook w u \<and> rd u = expected \<and> interferes hook (wr content u) w')"

definition outcome_ok ::
    "('w \<Rightarrow> string option) \<Rightarrow> (string \<Rightarrow> 'w \<Rightarrow> 'w) \<Rightarrow> string option \<Rightarrow> string \<Rightarrow> 'w boundary \<Rightarrow> 'w \<Rightarrow> 'w publication \<Rightarrow> bool" where
  "outcome_ok rd wr expected content hook w rest \<longleftrightarrow>
     (\<forall>v e w'. interferes hook w v \<longrightarrow> rest v = (e, w') \<longrightarrow>
       (if e = None \<or> publicationSucceeded e then published_over rd wr expected content hook w w' else interferes hook w w') \<and>
       (e = None \<longrightarrow> rd w' = Some content))"

lemma publicationError_facts [simp]:
  "publicationError s p c \<noteq> None" "\<exists>y. publicationError s p c = Some y" "publicationSucceeded (publicationError s p c) \<longleftrightarrow> p"
  by (simp_all add: publicationError_def publicationSucceeded_def)

lemma outcome_hook:
  assumes "outcome_ok rd wr expected content hook w rest"
  shows "outcome_ok rd wr expected content hook w (runAtomicHook hook s False rest)"
  unfolding outcome_ok_def
proof (intro allI impI)
  fix v e w' assume v: "interferes hook w v" "runAtomicHook hook s False rest v = (e, w')"
  obtain b u where hook: "hook s v = (b, u)" by fastforce
  with v(1) have "interferes hook w u" by (rule interferes.something)
  with assms v(2) hook show "(if e = None \<or> publicationSucceeded e then published_over rd wr expected content hook w w'
      else interferes hook w w') \<and> (e = None \<longrightarrow> rd w' = Some content)"
    unfolding outcome_ok_def by (cases b) (auto simp: runAtomicHook_def simp del: not_None_eq)
qed

lemma outcome_verify:
  assumes "outcome_ok rd wr expected content hook w rest"
  shows "outcome_ok rd wr expected content hook w (verifyDestinationAt rd expected s False rest)"
  using assms unfolding outcome_ok_def verifyDestinationAt_def by auto

lemma outcome_publish:
  "outcome_ok rd wr expected content hook w (verifyDestinationAt rd expected s False
     (\<lambda>w. runAtomicHook hook StageDirSync True (verifyDestinationAt rd (Some content) StageDirSync True (\<lambda>w. (None, w))) (wr content w)))"
  (is "outcome_ok _ _ _ _ _ _ ?rest")
  unfolding outcome_ok_def
proof (intro allI impI)
  fix v e w' assume v: "interferes hook w v" "?rest v = (e, w')"
  show "(if e = None \<or> publicationSucceeded e then published_over rd wr expected content hook w w' else interferes hook w w') \<and>
      (e = None \<longrightarrow> rd w' = Some content)"
  proof (cases "rd v = expected")
    case False
    with v show ?thesis by (auto simp: verifyDestinationAt_def)
  next
    case True
    obtain b u where hook: "hook StageDirSync (wr content v) = (b, u)" by fastforce
    then have u: "interferes hook (wr content v) u" by (rule interferes.something [OF interferes.nothing])
    from True v(1) u have over: "published_over rd wr expected content hook w u"
      by (auto simp: published_over_def)
    from True v(2) hook have "w' = u \<and> (e = None \<or> publicationSucceeded e) \<and> (e = None \<longrightarrow> rd u = Some content)"
      by (cases b; cases "rd u = Some content") (auto simp: verifyDestinationAt_def runAtomicHook_def simp del: not_None_eq)
    with over show ?thesis by simp
  qed
qed

lemma AtomicWriteRoot_outcome: "outcome_ok rd wr expected content hook w (AtomicWriteRoot hook rd wr expected content)"
  unfolding AtomicWriteRoot_def by (intro outcome_verify outcome_hook outcome_publish)

text \<open>Nobody else writes at a steady boundary; a quiet one also always goes on.\<close>

definition steady :: "'w boundary \<Rightarrow> bool" where
  "steady hook \<longleftrightarrow> (\<forall>s w. snd (hook s w) = w)"

definition quiet :: "'w boundary \<Rightarrow> bool" where
  "quiet hook \<longleftrightarrow> (\<forall>s w. hook s w = (True, w))"

lemma quiet_steady: "quiet hook \<Longrightarrow> steady hook"
  by (simp add: quiet_def steady_def)

lemma steady_interferes: "interferes hook w u \<Longrightarrow> steady hook \<Longrightarrow> u = w"
  by (induction rule: interferes.induct) (auto simp: steady_def, metis snd_conv)

text \<open>A file of the world: what is written is what is read.\<close>

locale file_cell =
  fixes rd :: "'w \<Rightarrow> string option"
    and wr :: "string \<Rightarrow> 'w \<Rightarrow> 'w"
  assumes rd_wr [simp]: "rd (wr content w) = Some content"
begin

lemma quiet_write:
  assumes "quiet hook"
  shows "AtomicWriteRoot hook rd wr expected content w =
    (if rd w = expected then (None, wr content w)
     else (publicationError StageTempCreate False (if expected = None then ErrExist else ErrAtomicConflict), w))"
  using assms by (simp add: AtomicWriteRoot_def verifyDestinationAt_def runAtomicHook_def quiet_def)

text \<open>A write that may crash at any of its stages: all or nothing.\<close>

lemma steady_write:
  assumes "AtomicWriteRoot hook rd wr expected content w = (e, w')" and "steady hook"
  shows "w' = w \<and> e \<noteq> None \<or> w' = wr content w \<and> rd w = expected"
proof -
  have "(if e = None \<or> publicationSucceeded e then published_over rd wr expected content hook w w' else interferes hook w w')"
    using AtomicWriteRoot_outcome [of rd wr expected content hook w] assms(1) unfolding outcome_ok_def by blast
  then show ?thesis using assms(2) by (auto simp: published_over_def split: if_splits dest!: steady_interferes)
qed

end


text \<open>A rival that creates the file just before the link.\<close>

definition rival :: "string option boundary" where
  "rival s w = (True, if s = StageRename then Some ''rival'' else w)"


end
