(* ===== verification/Exp_Journal.thy ===== *)
theory Exp_Journal
  imports Exp_Envelope Exp_Atomic "HOL-Library.AList"
begin

text \<open>
  The transaction journal and its recovery (\<^verbatim>\<open>internal/record/transaction_journal.go\<close>, with the
  types and hooks of \<^verbatim>\<open>transaction.go\<close> and \<open>ValidateRelativePOSIX\<close> of \<^verbatim>\<open>internal/pathx/pathx.go\<close>).

  The disk holds the canonical files and the two journal namespaces; a transaction directory has its
  journal, its staged files and the names of anything else found in it. Hooks and root checks are
  host fields that act on the canonical files: other programs may edit those at every boundary, and a
  boundary that fails stands for an error or a crash there. File modes, symbolic links, temporary
  files and \<open>fsync\<close> are not modelled.
\<close>

type_synonym files = "string \<Rightarrow> string option"

section \<open>Relative paths (pathx.go)\<close>

datatype path_error = ErrInvalidPath | ErrRoot | ErrTraversal

fun posix_components :: "string list \<Rightarrow> path_error option" where
  "posix_components [] = None"
| "posix_components (w # ws) =
    (if w = ''..'' then Some ErrTraversal else if w = [] \<or> w = ''.'' then Some ErrInvalidPath else posix_components ws)"

definition ValidateRelativePOSIX :: "string \<Rightarrow> bool \<Rightarrow> path_error option" where
  "ValidateRelativePOSIX value allowRoot =
    (if value = [] then Some ErrInvalidPath
     else if \<not> utf8_valid value \<or> CHR 0x00 \<in> set value then Some ErrInvalidPath
     else if CHR 0x5C \<in> set value then Some ErrInvalidPath
     else if has_prefix value ''/'' \<or> driveQualified value then Some ErrInvalidPath
     else if has_prefix (to_lower value) ''file:'' then Some ErrInvalidPath
     else if has_prefix value ''~'' then Some ErrInvalidPath
     else if value = ''.'' then (if allowRoot then None else Some ErrRoot)
     else if contains_str value ''//'' then Some ErrInvalidPath
     else case posix_components (split_on CHR ''/'' value) of
       Some e \<Rightarrow> Some e
     | None \<Rightarrow> if path_clean value \<noteq> value then Some ErrInvalidPath else None)"

section \<open>Journals\<close>

datatype tx_operation = TransactionCreate | TransactionReplace | TransactionDelete | TransactionOperationOther string

datatype tx_stage = StageTransactionDirectoryCreate | StageTransactionTempCreate | StageTransactionTempWrite
  | StageTransactionFileSync | StageTransactionStagedDirSync | StageTransactionJournalPublish
  | StageTransactionJournalDirSync | StageTransactionCanonicalCreate | StageTransactionCanonicalCAS
  | StageTransactionCanonicalDelete | StageTransactionCanonicalSync | StageTransactionCommitMark

record journal_entry =
  je_path :: string
  je_operation :: tx_operation
  je_old :: string
  je_new :: string
  je_staged :: string
  je_staged_hash :: string

record journal =
  jn_schema :: string
  jn_id :: string
  jn_project :: uuid
  jn_worktree :: string
  jn_operation :: string
  jn_created :: go_time
  jn_phase :: string
  jn_entries :: "journal_entry list"

definition transactionSchemaV1 :: string where "transactionSchemaV1 = ''exp.transaction/v1''"
definition transactionSchemaV2 :: string where "transactionSchemaV2 = ''exp.transaction/v2''"
definition transactionPhasePrepared :: string where "transactionPhasePrepared = ''prepared''"
definition transactionPhaseCommitted :: string where "transactionPhaseCommitted = ''committed''"
definition absentHash :: string where "absentHash = ''absent''"
definition maxTransactionJournalSize :: nat where "maxTransactionJournalSize = 2 ^ 20"
definition maxTransactionEntries :: nat where "maxTransactionEntries = 4096"
definition maxTransactionDirectories :: nat where "maxTransactionDirectories = 8192"
definition committedJournalRetention :: nat where "committedJournalRetention = 256"

definition exactHash :: "'h codec_host_scheme \<Rightarrow> string \<Rightarrow> string" where
  "exactHash h content = ''sha256:'' @ eh_hash h content"

definition validExactHash :: "string \<Rightarrow> bool" where
  "validExactHash value \<longleftrightarrow> has_prefix value ''sha256:'' \<and> length value = 7 + 64 \<and> value = to_lower value \<and> hex_pairs (drop 7 value)"

text \<open>\<open>transactionOperationPattern\<close>: words of lower-case letters and digits, the first starting with a
  letter, joined by dots, underscores and dashes.\<close>

definition valid_operation :: "string \<Rightarrow> bool" where
  "valid_operation value \<longleftrightarrow>
     list_all (\<lambda>w. w \<noteq> [] \<and> list_all lower_alnum w) (split_by (\<lambda>c. c \<in> {CHR ''.'', CHR ''_'', CHR ''-''}) value) \<and>
     value \<noteq> [] \<and> 97 \<le> byte (hd value) \<and> length value \<le> 64"

section \<open>The disk\<close>

record tx_dir =
  td_journal :: "string option"
  td_staged :: "(string \<times> string) list option"
  td_other :: "string list"

datatype tx_namespace = TransactionsV1 | TransactionsV2

record disk =
  dk_files :: files
  dk_transactions :: "tx_namespace \<Rightarrow> (string \<times> tx_dir) list"
  dk_reserved :: "string list"

record tx_host = codec_host +
  th_encode_journal :: "journal \<Rightarrow> string"
  th_decode_journal :: "string \<Rightarrow> journal option"
  th_scope :: "(string \<times> bool) option"

text \<open>What happens at the boundaries during one run: the hooks and the checks of the opened roots.\<close>

record tx_env =
  th_hook :: "tx_stage \<Rightarrow> string \<Rightarrow> string \<Rightarrow> files \<Rightarrow> bool \<times> files"
  th_atomic :: "atomic_stage \<Rightarrow> string \<Rightarrow> files \<Rightarrow> bool \<times> files"
  th_verify :: "atomic_stage \<Rightarrow> string \<Rightarrow> files \<Rightarrow> bool \<times> files"

section \<open>Actions on the disk\<close>

datatype tx_error = ErrInvalidTransaction | ErrUnsupportedTransaction | ErrTransactionRecoveryRequired
  | TransactionConflictError string string string string string
  | TransactionHookError tx_stage | TransactionPublication publication_error
  | TransactionAtomicConflict | TransactionRead | TransactionPath | TransactionRecord string
  | TransactionReference research_error | TransactionExists | TransactionRevision
  | TransactionImmutable string | TransactionInventory "(string \<times> string) list" | TransactionCollision

type_synonym 'a action = "disk \<Rightarrow> (tx_error, 'a) result \<times> disk"

definition give :: "'a \<Rightarrow> 'a action" where
  "give a d = (Inr a, d)"

definition stop :: "tx_error \<Rightarrow> 'a action" where
  "stop e d = (Inl e, d)"

definition perform :: "'a action \<Rightarrow> ('a \<Rightarrow> 'b action) \<Rightarrow> 'b action" where
  "perform m f d = (case m d of (Inl e, d') \<Rightarrow> (Inl e, d') | (Inr a, d') \<Rightarrow> f a d')"

definition ensure :: "bool \<Rightarrow> tx_error \<Rightarrow> 'a action \<Rightarrow> 'a action" where
  "ensure ok e rest = (if ok then rest else stop e)"

definition look :: "(disk \<Rightarrow> 'a action) \<Rightarrow> 'a action" where
  "look f d = f d d"

fun perform_each :: "('a \<Rightarrow> unit action) \<Rightarrow> 'a list \<Rightarrow> unit action" where
  "perform_each f [] = give ()"
| "perform_each f (x # xs) = perform (f x) (\<lambda>_. perform_each f xs)"

definition on_files :: "(files \<Rightarrow> bool \<times> files) \<Rightarrow> disk \<Rightarrow> bool \<times> disk" where
  "on_files f d = (case f (dk_files d) of (going_on, fs) \<Rightarrow> (going_on, d\<lparr>dk_files := fs\<rparr>))"

definition runTransactionHook :: "tx_env \<Rightarrow> tx_stage \<Rightarrow> string \<Rightarrow> string \<Rightarrow> unit action" where
  "runTransactionHook v stage i relative d =
    (case on_files (th_hook v stage i relative) d of
       (True, d') \<Rightarrow> (Inr (), d')
     | (False, d') \<Rightarrow> (Inl (TransactionHookError stage), d'))"

definition published :: "disk publication \<Rightarrow> unit action" where
  "published write d = (case write d of (None, d') \<Rightarrow> (Inr (), d') | (Some e, d') \<Rightarrow> (Inl (TransactionPublication e), d'))"

section \<open>Destinations\<close>

definition validateCanonicalTransactionPath :: "'h tx_host_scheme \<Rightarrow> string \<Rightarrow> bool" where
  "validateCanonicalTransactionPath h relative \<longleftrightarrow>
     ValidateRelativePOSIX relative False = None \<and>
     (case ClassifyPath h relative of Canonical l \<Rightarrow> lo_kind l \<noteq> KindProject | _ \<Rightarrow> False) \<and>
     path_clean relative \<notin> set generatedProjectionNames"

text \<open>The hash and the bytes of a destination; \<open>absentHash\<close> when there is no file.\<close>

definition canonicalDestinationState :: "'h tx_host_scheme \<Rightarrow> string \<Rightarrow> (string \<times> string option) action" where
  "canonicalDestinationState h relative =
    ensure (validateCanonicalTransactionPath h relative) TransactionPath
   (look (\<lambda>d. case dk_files d relative of
      None \<Rightarrow> give (absentHash, None)
    | Some content \<Rightarrow> ensure (length content \<le> MaxRecordBytes) TransactionRead (give (exactHash h content, Some content))))"

definition read_file :: "string \<Rightarrow> disk \<Rightarrow> string option" where
  "read_file relative d = dk_files d relative"

definition write_file :: "string \<Rightarrow> string \<Rightarrow> disk \<Rightarrow> disk" where
  "write_file relative content d = d\<lparr>dk_files := (dk_files d)(relative \<mapsto> content)\<rparr>"

definition canonicalTransactionAtomicHook :: "tx_env \<Rightarrow> string \<Rightarrow> string \<Rightarrow> disk boundary" where
  "canonicalTransactionAtomicHook v i relative stage d =
    (case on_files (th_atomic v stage relative) d of
       (False, d') \<Rightarrow> (False, d')
     | (True, d') \<Rightarrow>
         if stage = StageDirSync then on_files (th_hook v StageTransactionCanonicalSync i relative) d' else (True, d'))"

definition removeCanonicalTransactionEntry :: "tx_env \<Rightarrow> string \<Rightarrow> string \<Rightarrow> string option \<Rightarrow> unit action" where
  "removeCanonicalTransactionEntry v i relative expected =
    look (\<lambda>d. case dk_files d relative of
      None \<Rightarrow> stop TransactionRead
    | Some content \<Rightarrow>
        ensure (length content \<le> MaxRecordBytes) TransactionRead
       (ensure (expected = Some content) TransactionAtomicConflict
         (\<lambda>d. runTransactionHook v StageTransactionCanonicalSync i relative (d\<lparr>dk_files := (dk_files d)(relative := None)\<rparr>))))"

section \<open>Publication\<close>

record prepared_transaction =
  pt_namespace :: tx_namespace
  pt_journal :: journal
  pt_bytes :: string
  pt_entries :: "(journal_entry \<times> string) list"
  pt_documents :: "document list"

definition conflict :: "journal \<Rightarrow> journal_entry \<Rightarrow> string \<Rightarrow> 'a action" where
  "conflict j e observed = stop (TransactionConflictError (jn_id j) (je_path e) (je_old e) (je_new e) observed)"

definition apply_entry :: "tx_env \<Rightarrow> string \<Rightarrow> journal_entry \<times> string \<Rightarrow> string option \<Rightarrow> unit action" where
  "apply_entry v i p current =
    (case p of (e, content) \<Rightarrow>
      let write = (\<lambda>expected. published (AtomicWriteRoot (canonicalTransactionAtomicHook v i (je_path e))
        (read_file (je_path e)) (write_file (je_path e)) expected content)) in
      case je_operation e of
        TransactionCreate \<Rightarrow> perform (runTransactionHook v StageTransactionCanonicalCreate i (je_path e)) (\<lambda>_. write None)
      | TransactionReplace \<Rightarrow> perform (runTransactionHook v StageTransactionCanonicalCAS i (je_path e)) (\<lambda>_. write current)
      | TransactionDelete \<Rightarrow> perform (runTransactionHook v StageTransactionCanonicalDelete i (je_path e))
          (\<lambda>_. removeCanonicalTransactionEntry v i (je_path e) current)
      | TransactionOperationOther _ \<Rightarrow> stop ErrUnsupportedTransaction)"

definition publish_entry :: "'h tx_host_scheme \<Rightarrow> tx_env \<Rightarrow> journal \<Rightarrow> journal_entry \<times> string \<Rightarrow> unit action" where
  "publish_entry h v j p =
    (case p of (e, content) \<Rightarrow>
      perform (canonicalDestinationState h (je_path e)) (\<lambda>(observed, current).
        if observed = je_new e then give ()
        else if observed \<noteq> je_old e then conflict j e observed
        else
          perform (apply_entry v (jn_id j) p current) (\<lambda>_.
          perform (canonicalDestinationState h (je_path e)) (\<lambda>(after, _).
            if after = je_new e then give () else conflict j e after))))"

definition read_journal :: "tx_namespace \<Rightarrow> string \<Rightarrow> disk \<Rightarrow> string option" where
  "read_journal ns i d = (case map_of (dk_transactions d ns) i of None \<Rightarrow> None | Some t \<Rightarrow> td_journal t)"

definition tx_dir_of :: "tx_namespace \<Rightarrow> string \<Rightarrow> disk \<Rightarrow> tx_dir" where
  "tx_dir_of ns i d = (case map_of (dk_transactions d ns) i of
     None \<Rightarrow> \<lparr>td_journal = None, td_staged = None, td_other = []\<rparr> | Some t \<Rightarrow> t)"

definition set_tx_dir :: "tx_namespace \<Rightarrow> string \<Rightarrow> tx_dir \<Rightarrow> disk \<Rightarrow> disk" where
  "set_tx_dir ns i t d = d\<lparr>dk_transactions := (dk_transactions d)(ns := AList.update i t (dk_transactions d ns))\<rparr>"

definition write_journal :: "tx_namespace \<Rightarrow> string \<Rightarrow> string \<Rightarrow> disk \<Rightarrow> disk" where
  "write_journal ns i content d = set_tx_dir ns i ((tx_dir_of ns i d)\<lparr>td_journal := Some content\<rparr>) d"

definition verify_roots :: "tx_env \<Rightarrow> string \<Rightarrow> disk boundary" where
  "verify_roots v relative stage = on_files (th_verify v stage relative)"

definition encodeTransactionJournal :: "'h tx_host_scheme \<Rightarrow> journal \<Rightarrow> (tx_error, string) result" where
  "encodeTransactionJournal h j =
    (let content = th_encode_journal h j in
     if maxTransactionJournalSize < length content then Inl ErrInvalidTransaction else Inr content)"

definition committed_journal :: "journal \<Rightarrow> journal" where
  "committed_journal j = j\<lparr>jn_phase := transactionPhaseCommitted\<rparr>"

definition markTransactionCommitted :: "'h tx_host_scheme \<Rightarrow> tx_env \<Rightarrow> prepared_transaction \<Rightarrow> unit action" where
  "markTransactionCommitted h v t =
    (let ns = pt_namespace t; i = jn_id (pt_journal t) in
     look (\<lambda>d. case read_journal ns i d of
       None \<Rightarrow> stop TransactionRead
     | Some current \<Rightarrow>
         ensure (length current \<le> maxTransactionJournalSize) TransactionRead
        (ensure (pt_bytes t \<noteq> [] \<and> current = pt_bytes t) ErrInvalidTransaction
        (case encodeTransactionJournal h (committed_journal (pt_journal t)) of
           Inl e \<Rightarrow> stop e
         | Inr committed \<Rightarrow>
             perform (runTransactionHook v StageTransactionCommitMark i ''journal.toml'') (\<lambda>_.
               published (AtomicWriteRoot (verify_roots v ''journal.toml'') (read_journal ns i) (write_journal ns i)
                 (Some current) committed))))))"

definition publishPreparedTransactionLocked :: "'h tx_host_scheme \<Rightarrow> tx_env \<Rightarrow> prepared_transaction \<Rightarrow> unit action" where
  "publishPreparedTransactionLocked h v t =
    ensure (jn_phase (pt_journal t) = transactionPhasePrepared) ErrInvalidTransaction
   (perform (perform_each (publish_entry h v (pt_journal t)) (pt_entries t)) (\<lambda>_. markTransactionCommitted h v t))"

section \<open>Loading journals\<close>

definition ParseUUID :: "'h host_scheme \<Rightarrow> string \<Rightarrow> uuid option" where
  "ParseUUID h value =
    (case h_uuid_parse h value of
       None \<Rightarrow> None
     | Some u \<Rightarrow> if h_uuid_text h u = value \<and> validateUUID h u [7, 5] = None then Some u else None)"

definition native_name :: "'h host_scheme \<Rightarrow> string \<Rightarrow> bool" where
  "native_name h value \<longleftrightarrow>
     (case ParseUUID h value of None \<Rightarrow> False
      | Some u \<Rightarrow> u \<noteq> nil_uuid \<and> h_uuid_rfc4122 h u \<and> h_uuid_version h u = 7)"

definition valid_entry :: "journal_entry \<Rightarrow> bool" where
  "valid_entry e \<longleftrightarrow>
    (case je_operation e of
       TransactionCreate \<Rightarrow> je_old e = absentHash \<and> validExactHash (je_new e) \<and> je_staged e \<noteq> [] \<and> je_staged_hash e = je_new e
     | TransactionReplace \<Rightarrow>
         validExactHash (je_old e) \<and> validExactHash (je_new e) \<and> je_staged e \<noteq> [] \<and> je_staged_hash e = je_new e
     | TransactionDelete \<Rightarrow>
         validExactHash (je_old e) \<and> je_new e = absentHash \<and> je_staged e = [] \<and> je_staged_hash e = absentHash
     | TransactionOperationOther _ \<Rightarrow> False)"

fun valid_entries :: "'h tx_host_scheme \<Rightarrow> string \<Rightarrow> journal_entry list \<Rightarrow> bool" where
  "valid_entries h previous [] \<longleftrightarrow> True"
| "valid_entries h previous (e # es) \<longleftrightarrow>
     validateCanonicalTransactionPath h (je_path e) \<and> \<not> (previous \<noteq> [] \<and> je_path e \<le> previous) \<and>
     valid_entry e \<and> valid_entries h (je_path e) es"

definition validateTransactionJournal :: "'h tx_host_scheme \<Rightarrow> journal \<Rightarrow> string \<Rightarrow> string \<Rightarrow> uuid \<Rightarrow> bool" where
  "validateTransactionJournal h j expectedSchema directoryID projectID \<longleftrightarrow>
     jn_schema j = expectedSchema \<and> expectedSchema \<in> {transactionSchemaV1, transactionSchemaV2} \<and>
     native_name h (jn_id j) \<and> jn_id j = directoryID \<and> jn_project j = projectID \<and>
     (expectedSchema = transactionSchemaV1 \<longrightarrow> jn_worktree j = []) \<and>
     (expectedSchema = transactionSchemaV2 \<longrightarrow> validExactHash (jn_worktree j)) \<and>
     valid_operation (jn_operation j) \<and> \<not> time_is_zero (jn_created j) \<and> t_offset (jn_created j) = 0 \<and>
     jn_phase j \<in> {transactionPhasePrepared, transactionPhaseCommitted} \<and>
     jn_entries j \<noteq> [] \<and> length (jn_entries j) \<le> maxTransactionEntries \<and> valid_entries h [] (jn_entries j)"

definition staged_name :: "nat \<Rightarrow> string" where
  "staged_name n = (let s = itoa n in replicate (4 - length s) CHR ''0'' @ s)"

text \<open>The staged bytes of the entries, in order, with the documents they hold.\<close>

fun load_entries :: "(rat \<Rightarrow> go_float) \<Rightarrow> 'h tx_host_scheme \<Rightarrow> (string \<times> string) list \<Rightarrow> nat \<Rightarrow> journal_entry list \<Rightarrow>
    ((journal_entry \<times> string) list \<times> document list) option" where
  "load_entries rnd h staged n [] = Some ([], [])"
| "load_entries rnd h staged n (e # es) =
    (if je_operation e = TransactionDelete then
       map_option (\<lambda>(ps, ds). ((e, []) # ps, ds)) (load_entries rnd h staged (Suc n) es)
     else if je_staged e \<noteq> staged_name n then None
     else case map_of staged (staged_name n) of
       None \<Rightarrow> None
     | Some content \<Rightarrow>
         if MaxRecordBytes < length content \<or> exactHash h content \<noteq> je_staged_hash e then None
         else case verifyStagedDocument rnd h (je_path e) content of
           Inl _ \<Rightarrow> None
         | Inr document \<Rightarrow>
             map_option (\<lambda>(ps, ds). ((e, content) # ps, document # ds)) (load_entries rnd h staged (Suc n) es))"

fun expected_staged :: "nat \<Rightarrow> journal_entry list \<Rightarrow> string list" where
  "expected_staged n [] = []"
| "expected_staged n (e # es) =
    (if je_operation e = TransactionDelete then expected_staged (Suc n) es
     else staged_name n # expected_staged (Suc n) es)"

text \<open>A transaction of another worktree is skipped: \<open>Inr None\<close>.\<close>

definition loadOneTransaction :: "(rat \<Rightarrow> go_float) \<Rightarrow> 'h tx_host_scheme \<Rightarrow> tx_namespace \<Rightarrow> string \<Rightarrow> string \<Rightarrow> tx_dir \<Rightarrow>
    uuid \<Rightarrow> string \<Rightarrow> bool \<Rightarrow> (tx_error, prepared_transaction option) result" where
  "loadOneTransaction rnd h ns schema directoryID t projectID worktreeID allowLegacyPrepared =
    (case (td_journal t, td_staged t) of
       (Some bytes, Some staged) \<Rightarrow>
         guarded (td_other t = [] \<and> length bytes \<le> maxTransactionJournalSize) ErrUnsupportedTransaction
        (case th_decode_journal h bytes of
           None \<Rightarrow> Inl ErrUnsupportedTransaction
         | Some j \<Rightarrow>
             guarded (validateTransactionJournal h j schema directoryID projectID) ErrUnsupportedTransaction
            (if schema = transactionSchemaV1 \<and> jn_phase j = transactionPhasePrepared \<and> \<not> allowLegacyPrepared
             then Inl ErrUnsupportedTransaction
             else if schema \<noteq> transactionSchemaV1 \<and> jn_worktree j \<noteq> worktreeID then Inr None
             else case load_entries rnd h staged 0 (jn_entries j) of
               None \<Rightarrow> Inl ErrUnsupportedTransaction
             | Some (ps, ds) \<Rightarrow>
                 guarded (length staged = length (expected_staged 0 (jn_entries j)) \<and>
                     set (map fst staged) \<subseteq> set (expected_staged 0 (jn_entries j))) ErrUnsupportedTransaction
                   (Inr (Some \<lparr>pt_namespace = ns, pt_journal = j, pt_bytes = bytes, pt_entries = ps, pt_documents = ds\<rparr>))))
     | _ \<Rightarrow> Inl ErrUnsupportedTransaction)"

fun load_each :: "(string \<times> tx_dir \<Rightarrow> (tx_error, prepared_transaction option) result) \<Rightarrow> (string \<times> tx_dir) list \<Rightarrow>
    (tx_error, prepared_transaction list) result" where
  "load_each f [] = Inr []"
| "load_each f (p # ps) =
    andThen (f p) (\<lambda>loaded. andThen (load_each f ps) (\<lambda>rest.
      Inr (case loaded of None \<Rightarrow> rest | Some t \<Rightarrow> t # rest)))"

definition by_name :: "string \<times> 'a \<Rightarrow> string \<times> 'a \<Rightarrow> bool" where
  "by_name a b \<longleftrightarrow> fst a < fst b"

definition loadTransactionJournals :: "(rat \<Rightarrow> go_float) \<Rightarrow> 'h tx_host_scheme \<Rightarrow> tx_namespace \<Rightarrow> string \<Rightarrow> disk \<Rightarrow> uuid \<Rightarrow>
    string \<Rightarrow> bool \<Rightarrow> (tx_error, prepared_transaction list) result" where
  "loadTransactionJournals rnd h ns schema d projectID worktreeID allowLegacyPrepared =
    (let entries = stable_sort by_name (dk_transactions d ns) in
     guarded (length entries \<le> maxTransactionDirectories) ErrUnsupportedTransaction
    (andThen (load_each (\<lambda>(name, t).
        if native_name h name then loadOneTransaction rnd h ns schema name t projectID worktreeID allowLegacyPrepared
        else Inl ErrUnsupportedTransaction) entries) (\<lambda>loaded.
     Inr (stable_sort (\<lambda>s t. jn_id (pt_journal s) < jn_id (pt_journal t)) loaded))))"

definition canonicalProjectID :: "(rat \<Rightarrow> go_float) \<Rightarrow> 'h tx_host_scheme \<Rightarrow> disk \<Rightarrow> (tx_error, uuid) result" where
  "canonicalProjectID rnd h d =
    (case dk_files d ProjectFile of
       None \<Rightarrow> Inl TransactionRead
     | Some content \<Rightarrow>
         guarded (length content \<le> MaxRecordBytes) TransactionRead
        (case decodeCanonicalDocument rnd h content of
           Inl code \<Rightarrow> Inl (TransactionRecord code)
         | Inr document \<Rightarrow> (case d_record document of
             Some (RecProject p) \<Rightarrow> if pj_id p = nil_uuid then Inl ErrInvalidTransaction else Inr (pj_id p)
           | _ \<Rightarrow> Inl ErrInvalidTransaction)))"

section \<open>Recovery\<close>

definition remove_tx_dir :: "tx_namespace \<Rightarrow> string \<Rightarrow> disk \<Rightarrow> disk" where
  "remove_tx_dir ns i d = d\<lparr>dk_transactions := (dk_transactions d)(ns := AList.delete i (dk_transactions d ns))\<rparr>"

text \<open>A directory without a journal was never durable: its staged files are garbage.\<close>

definition cleanup_one :: "'h tx_host_scheme \<Rightarrow> tx_namespace \<Rightarrow> string \<times> tx_dir \<Rightarrow> unit action" where
  "cleanup_one h ns p =
    (case p of (name, t) \<Rightarrow>
      if \<not> native_name h name \<or> td_journal t \<noteq> None then give ()
      else ensure (td_other t = []) TransactionRead (\<lambda>d. (Inr (), remove_tx_dir ns name d)))"

definition cleanupUnjournaledTransactions :: "'h tx_host_scheme \<Rightarrow> tx_namespace \<Rightarrow> unit action" where
  "cleanupUnjournaledTransactions h ns =
    look (\<lambda>d. perform_each (cleanup_one h ns) (stable_sort by_name (dk_transactions d ns)))"

definition pruneCommittedTransactions :: "tx_namespace \<Rightarrow> journal list \<Rightarrow> nat \<Rightarrow> disk \<Rightarrow> disk" where
  "pruneCommittedTransactions ns loaded keep d =
    (let committed = stable_sort (\<lambda>a b. jn_id a < jn_id b) (filter (\<lambda>j. jn_phase j = transactionPhaseCommitted) loaded) in
     fold (\<lambda>j. remove_tx_dir ns (jn_id j)) (take (length committed - keep) committed) d)"

definition is_prepared :: "prepared_transaction \<Rightarrow> bool" where
  "is_prepared t \<longleftrightarrow> jn_phase (pt_journal t) = transactionPhasePrepared"

definition check_entry :: "'h tx_host_scheme \<Rightarrow> journal \<Rightarrow> journal_entry \<times> string \<Rightarrow> unit action" where
  "check_entry h j p =
    perform (canonicalDestinationState h (je_path (fst p))) (\<lambda>(observed, _).
      if observed \<noteq> je_old (fst p) \<and> observed \<noteq> je_new (fst p) then conflict j (fst p) observed else give ())"

definition check_transaction :: "'h tx_host_scheme \<Rightarrow> prepared_transaction \<Rightarrow> unit action" where
  "check_transaction h t = perform_each (check_entry h (pt_journal t)) (pt_entries t)"

definition from_result :: "(tx_error, 'a) result \<Rightarrow> 'a action" where
  "from_result r d = (r, d)"

text \<open>After the loop every loaded transaction is committed.\<close>

definition recoverPreparedTransactionsLocked :: "(rat \<Rightarrow> go_float) \<Rightarrow> 'h tx_host_scheme \<Rightarrow> tx_env \<Rightarrow> unit action" where
  "recoverPreparedTransactionsLocked rnd h v =
    perform (cleanupUnjournaledTransactions h TransactionsV1) (\<lambda>_.
    perform (cleanupUnjournaledTransactions h TransactionsV2) (\<lambda>_.
    perform (look (\<lambda>d. from_result (canonicalProjectID rnd h d))) (\<lambda>projectID.
    (case th_scope h of
       None \<Rightarrow> stop ErrUnsupportedTransaction
     | Some (worktreeID, allowLegacy) \<Rightarrow>
         perform (look (\<lambda>d. from_result
           (loadTransactionJournals rnd h TransactionsV1 transactionSchemaV1 d projectID worktreeID allowLegacy))) (\<lambda>legacy.
         perform (look (\<lambda>d. from_result
           (loadTransactionJournals rnd h TransactionsV2 transactionSchemaV2 d projectID worktreeID allowLegacy))) (\<lambda>current.
         let prepared = filter is_prepared (legacy @ current) in
         perform (perform_each (check_transaction h) prepared) (\<lambda>_.
         perform (perform_each (publishPreparedTransactionLocked h v) prepared) (\<lambda>_.
         (\<lambda>d. (Inr (),
           pruneCommittedTransactions TransactionsV2 (map (committed_journal \<circ> pt_journal) current) committedJournalRetention
          (pruneCommittedTransactions TransactionsV1 (map (committed_journal \<circ> pt_journal) legacy) committedJournalRetention d)))))))))))"

end
