(* ===== verification/Exp_Journal_Theorems.thy ===== *)
theory Exp_Journal_Theorems
  imports Exp_Journal Exp_Envelope_Theorems
begin

text \<open>
  What recovery promises. \<open>crash_only\<close> runs may stop at any boundary but nobody edits canonical files
  behind them; in an \<open>undisturbed\<close> run no boundary fails either. \<open>intact\<close> says that the journals on
  the disk can be loaded, and \<open>pending\<close> lists the prepared transactions among them.

  The lemmas follow the code from the inside out: actions, one publication step, the entries of a
  transaction, the commit mark, clean-up, loading and pruning. The properties are that recovery
  changes nothing when a destination has an unrelated edit, that it only ever replaces the old state
  of a destination by its staged new state, and that it rolls forward through any number of crashes.
\<close>

section \<open>Boundaries\<close>

definition crash_only :: "tx_env \<Rightarrow> bool" where
  "crash_only v \<longleftrightarrow> (\<forall>s i p fs. snd (th_hook v s i p fs) = fs) \<and> (\<forall>s p fs. snd (th_atomic v s p fs) = fs) \<and>
     (\<forall>s p fs. snd (th_verify v s p fs) = fs)"

definition undisturbed :: "tx_env \<Rightarrow> bool" where
  "undisturbed v \<longleftrightarrow> (\<forall>s i p fs. th_hook v s i p fs = (True, fs)) \<and> (\<forall>s p fs. th_atomic v s p fs = (True, fs)) \<and>
     (\<forall>s p fs. th_verify v s p fs = (True, fs))"

lemma undisturbed_crash_only: "undisturbed v \<Longrightarrow> crash_only v"
  by (simp add: undisturbed_def crash_only_def)

lemma on_files_kept: "(\<And>fs. snd (f fs) = fs) \<Longrightarrow> on_files f d = (fst (f (dk_files d)), d)"
  by (metis (no_types, lifting) disk.surjective disk.update_convs(1) on_files_def prod.case_eq_if)

lemma hook_outcome:
  "crash_only v \<Longrightarrow> runTransactionHook v s i p d = (r, d') \<Longrightarrow> d' = d"
  by (auto simp: runTransactionHook_def crash_only_def on_files_kept split: bool.splits)

lemma hook_undisturbed [simp]: "undisturbed v \<Longrightarrow> runTransactionHook v s i p d = (Inr (), d)"
  by (simp add: runTransactionHook_def undisturbed_def on_files_kept)

lemma steady_hooks:
  assumes "crash_only v"
  shows "steady (canonicalTransactionAtomicHook v i p)" "steady (verify_roots v p)"
  using assms by (auto simp: steady_def crash_only_def canonicalTransactionAtomicHook_def verify_roots_def on_files_kept
      split: bool.splits prod.splits)

lemma undisturbed_hooks:
  assumes "undisturbed v"
  shows "quiet (canonicalTransactionAtomicHook v i p)" "quiet (verify_roots v p)"
  using assms by (auto simp: quiet_def undisturbed_def canonicalTransactionAtomicHook_def verify_roots_def on_files_kept)

section \<open>The cells of the disk\<close>

interpretation cell: file_cell "read_file p" "write_file p" for p
  by unfold_locales (simp add: read_file_def write_file_def)

interpretation journal_file: file_cell "read_journal ns i" "write_journal ns i" for ns i
  by unfold_locales (simp add: read_journal_def write_journal_def set_tx_dir_def update_conv)

section \<open>Actions\<close>

lemma action_simps [simp]:
  "give a d = (Inr a, d)" "stop e d = (Inl e, d)" "look f d = f d d" "ensure True e m = m" "ensure False e m = stop e"
  "from_result r d = (r, d)"
  by (simp_all add: give_def stop_def look_def ensure_def from_result_def)

lemma perform_Inr: "m d = (Inr a, d') \<Longrightarrow> perform m f d = f a d'"
  by (simp add: perform_def)

lemma perform_Inl: "m d = (Inl e, d') \<Longrightarrow> perform m f d = (Inl e, d')"
  by (simp add: perform_def)

lemma perform_cases:
  assumes "perform m f d = (r, d')"
  obtains (stopped) e where "m d = (Inl e, d')" "r = Inl e"
  | (went_on) a d1 where "m d = (Inr a, d1)" "f a d1 = (r, d')"
  using assms by (auto simp: perform_def split: prod.splits sum.splits)

lemma perform_each_idle: "(\<And>x. x \<in> set xs \<Longrightarrow> f x d = (Inr (), d)) \<Longrightarrow> perform_each f xs d = (Inr (), d)"
  by (induction xs) (auto simp: perform_Inr)

lemma perform_hook:
  "crash_only v \<Longrightarrow> perform (runTransactionHook v s i p) f d =
    (if fst (th_hook v s i p (dk_files d)) then f () d else (Inl (TransactionHookError s), d))"
  by (simp add: perform_def runTransactionHook_def crash_only_def on_files_kept)

section \<open>Destinations\<close>

definition state_hash :: "'h tx_host_scheme \<Rightarrow> string option \<Rightarrow> string" where
  "state_hash h content = (case content of None \<Rightarrow> absentHash | Some c \<Rightarrow> exactHash h c)"

definition sized :: "string option \<Rightarrow> bool" where
  "sized content \<longleftrightarrow> (case content of None \<Rightarrow> True | Some c \<Rightarrow> length c \<le> MaxRecordBytes)"

definition put :: "string \<Rightarrow> string option \<Rightarrow> disk \<Rightarrow> disk" where
  "put p content d = d\<lparr>dk_files := (dk_files d)(p := content)\<rparr>"

lemma hashes_present [simp]: "exactHash h c \<noteq> absentHash" "absentHash \<noteq> exactHash h c" "\<not> validExactHash absentHash"
  by (simp_all add: exactHash_def absentHash_def validExactHash_def has_prefix_def)

lemma state_hash_absent [simp]: "state_hash h c = absentHash \<longleftrightarrow> c = None" "absentHash = state_hash h c \<longleftrightarrow> c = None"
  by (auto simp: state_hash_def split: option.splits)

lemma canonicalDestinationState_run:
  "canonicalDestinationState h p d =
    (if \<not> validateCanonicalTransactionPath h p then (Inl TransactionPath, d)
     else if sized (dk_files d p) then (Inr (state_hash h (dk_files d p), dk_files d p), d) else (Inl TransactionRead, d))"
  by (auto simp: canonicalDestinationState_def sized_def state_hash_def ensure_def split: option.splits)

text \<open>An entry with its staged bytes, as it was loaded, and the state it leads to.\<close>

definition final_state :: "journal_entry \<times> string \<Rightarrow> string option" where
  "final_state p = (if je_operation (fst p) = TransactionDelete then None else Some (snd p))"

definition staged_ok :: "'h tx_host_scheme \<Rightarrow> journal_entry \<times> string \<Rightarrow> bool" where
  "staged_ok h p \<longleftrightarrow> validateCanonicalTransactionPath h (je_path (fst p)) \<and> valid_entry (fst p) \<and>
     (je_operation (fst p) \<noteq> TransactionDelete \<longrightarrow> exactHash h (snd p) = je_staged_hash (fst p) \<and> length (snd p) \<le> MaxRecordBytes)"

lemma staged_final:
  assumes "staged_ok h p"
  shows "state_hash h (final_state p) = je_new (fst p)" "sized (final_state p)"
  using assms by (auto simp: staged_ok_def final_state_def valid_entry_def state_hash_def sized_def split: tx_operation.splits)

lemma remove_steady:
  assumes "removeCanonicalTransactionEntry v i q expected d = (r, d')" and "crash_only v"
  shows "(d' = d \<and> r \<noteq> Inr ()) \<or> d' = put q None d"
  using assms by (auto simp: removeCanonicalTransactionEntry_def ensure_def put_def split: option.splits if_splits
      dest!: hook_outcome)

lemma published_cases:
  assumes "published publication d = (r, d')" and "\<And>e. publication d = (e, d') \<Longrightarrow> d' = d \<and> e \<noteq> None \<or> d' = x \<and> P"
  shows "(d' = d \<and> r \<noteq> Inr ()) \<or> d' = x"
  using assms by (cases "publication d") (auto simp: published_def split: option.splits)

lemma published_steady:
  "published (AtomicWriteRoot hook (read_file q) (write_file q) expected content) d = (r, d') \<Longrightarrow> steady hook \<Longrightarrow>
    (d' = d \<and> r \<noteq> Inr ()) \<or> d' = put q (Some content) d"
  unfolding put_def write_file_def [symmetric] by (erule published_cases) (rule cell.steady_write)

lemma apply_entry_steady:
  assumes "apply_entry v i p current d = (r, d')" and "crash_only v"
  shows "(d' = d \<and> r \<noteq> Inr ()) \<or> d' = put (je_path (fst p)) (final_state p) d"
  using assms(1) steady_hooks(1) [OF assms(2)] remove_steady [OF _ assms(2)] published_steady
  by (auto simp: apply_entry_def final_state_def perform_hook [OF assms(2)] split: prod.splits tx_operation.splits if_splits)

lemma publish_entry_steady:
  assumes "publish_entry h v j p d = (r, d')" and "crash_only v"
  shows "(d' = d \<or> d' = put (je_path (fst p)) (final_state p) d \<and> state_hash h (dk_files d (je_path (fst p))) = je_old (fst p)) \<and>
    (r = Inr () \<longrightarrow> state_hash h (dk_files d' (je_path (fst p))) = je_new (fst p) \<and> sized (dk_files d' (je_path (fst p))))"
  using assms
  by (auto simp: publish_entry_def conflict_def canonicalDestinationState_run split: prod.splits if_splits
      elim!: perform_cases dest!: apply_entry_steady)

text \<open>Undisturbed, an entry whose destination is in its old or its new state goes through.\<close>

lemma apply_entry_undisturbed:
  assumes "undisturbed v" and "staged_ok h p" and "sized (dk_files d (je_path (fst p)))"
    and "state_hash h (dk_files d (je_path (fst p))) = je_old (fst p)"
  shows "apply_entry v i p (dk_files d (je_path (fst p))) d = (Inr (), put (je_path (fst p)) (final_state p) d)"
proof (cases "je_operation (fst p)")
  case TransactionCreate
  moreover from this assms(2,4) have "dk_files d (je_path (fst p)) = None"
    by (simp add: staged_ok_def valid_entry_def)
  ultimately show ?thesis using assms(1) undisturbed_hooks(1) [OF assms(1)]
    by (auto simp: apply_entry_def final_state_def perform_Inr published_def cell.quiet_write put_def read_file_def write_file_def
        split: prod.splits)
next
  case TransactionReplace
  then show ?thesis using assms(1) undisturbed_hooks(1) [OF assms(1)]
    by (auto simp: apply_entry_def final_state_def perform_Inr published_def cell.quiet_write put_def read_file_def write_file_def
        split: prod.splits)
next
  case TransactionDelete
  moreover have "state_hash h (dk_files d (je_path (fst p))) \<noteq> absentHash"
    using TransactionDelete assms(2,4) by (auto simp: staged_ok_def valid_entry_def simp del: state_hash_absent)
  ultimately obtain c where "dk_files d (je_path (fst p)) = Some c" by auto
  with TransactionDelete assms(1,3) show ?thesis
    by (auto simp: apply_entry_def final_state_def perform_Inr removeCanonicalTransactionEntry_def ensure_def put_def sized_def
        split: prod.splits)
next
  case (TransactionOperationOther x)
  with assms(2) show ?thesis by (simp add: staged_ok_def valid_entry_def)
qed

lemma publish_entry_undisturbed:
  assumes "undisturbed v" and "staged_ok h p" and "sized (dk_files d (je_path (fst p)))"
    and "state_hash h (dk_files d (je_path (fst p))) \<in> {je_old (fst p), je_new (fst p)}"
  shows "fst (publish_entry h v j p d) = Inr ()"
proof (cases "state_hash h (dk_files d (je_path (fst p))) = je_new (fst p)")
  case True
  with assms show ?thesis
    by (auto simp: publish_entry_def perform_Inr canonicalDestinationState_run staged_ok_def split: prod.splits)
next
  case False
  with assms staged_final [OF assms(2)] apply_entry_undisturbed [OF assms(1-3)] show ?thesis
    by (auto simp: publish_entry_def perform_Inr canonicalDestinationState_run staged_ok_def put_def split: prod.splits)
qed

section \<open>Whole transactions\<close>

definition entry_path :: "journal_entry \<times> string \<Rightarrow> string" where
  "entry_path p = je_path (fst p)"

text \<open>A destination is ready when recovery may go on with it, and done when it has its new state.\<close>

definition entry_done :: "'h tx_host_scheme \<Rightarrow> disk \<Rightarrow> journal_entry \<times> string \<Rightarrow> bool" where
  "entry_done h d p \<longleftrightarrow> state_hash h (dk_files d (entry_path p)) = je_new (fst p) \<and> sized (dk_files d (entry_path p))"

definition entry_ready :: "'h tx_host_scheme \<Rightarrow> disk \<Rightarrow> journal_entry \<times> string \<Rightarrow> bool" where
  "entry_ready h d p \<longleftrightarrow>
     state_hash h (dk_files d (entry_path p)) \<in> {je_old (fst p), je_new (fst p)} \<and> sized (dk_files d (entry_path p))"

definition moved :: "'h tx_host_scheme \<Rightarrow> (journal_entry \<times> string) list \<Rightarrow> disk \<Rightarrow> disk \<Rightarrow> bool" where
  "moved h ps d d' \<longleftrightarrow> dk_transactions d' = dk_transactions d \<and> dk_reserved d' = dk_reserved d \<and>
     (\<forall>q. dk_files d' q = dk_files d q \<or>
       (\<exists>p\<in>set ps. entry_path p = q \<and> state_hash h (dk_files d q) = je_old (fst p) \<and> dk_files d' q = final_state p))"

lemma moved_refl [simp]: "moved h ps d d"
  by (simp add: moved_def)

lemma moved_other: "moved h ps d d' \<Longrightarrow> q \<notin> entry_path ` set ps \<Longrightarrow> dk_files d' q = dk_files d q"
  unfolding moved_def by blast

lemma moved_Cons:
  assumes "moved h [p] d d1" and "moved h ps d1 d'" and "entry_path p \<notin> entry_path ` set ps"
  shows "moved h (p # ps) d d'"
proof -
  have here: "dk_files d' (entry_path p) = dk_files d1 (entry_path p)"
    by (rule moved_other [OF assms(2,3)])
  have there: "q \<noteq> entry_path p \<Longrightarrow> dk_files d1 q = dk_files d q" for q
    by (rule moved_other [OF assms(1)]) simp
  have "dk_files d' q = dk_files d q \<or>
      (\<exists>x\<in>set (p # ps). entry_path x = q \<and> state_hash h (dk_files d q) = je_old (fst x) \<and> dk_files d' q = final_state x)" for q
  proof (cases "q = entry_path p")
    case True
    have "dk_files d1 q = dk_files d q \<or> entry_path p = q \<and> state_hash h (dk_files d q) = je_old (fst p) \<and> dk_files d1 q = final_state p"
      using assms(1) by (auto simp: moved_def)
    with True here show ?thesis by auto
  next
    case False
    have "dk_files d' q = dk_files d1 q \<or>
        (\<exists>x\<in>set ps. entry_path x = q \<and> state_hash h (dk_files d1 q) = je_old (fst x) \<and> dk_files d' q = final_state x)"
      using assms(2) by (simp add: moved_def)
    with there [OF False] show ?thesis by auto
  qed
  with assms(1,2) show ?thesis by (simp add: moved_def)
qed

lemma publish_entry_moved:
  "publish_entry h v j p d = (r, d') \<Longrightarrow> crash_only v \<Longrightarrow> moved h [p] d d' \<and> (r = Inr () \<longrightarrow> entry_done h d' p)"
  by (drule (1) publish_entry_steady) (auto simp: moved_def put_def entry_done_def entry_path_def split: if_splits)

lemma publish_entries_steady:
  assumes "perform_each (publish_entry h v j) ps d = (r, d')" and "crash_only v" and "distinct (map entry_path ps)"
  shows "moved h ps d d' \<and> (r = Inr () \<longrightarrow> (\<forall>p\<in>set ps. entry_done h d' p))"
  using assms(1,3)
proof (induction ps arbitrary: d)
  case (Cons p ps)
  from Cons.prems(1) show ?case unfolding perform_each.simps
  proof (cases rule: perform_cases)
    case (stopped e)
    with publish_entry_moved [OF stopped(1) assms(2)] show ?thesis by (auto simp: moved_def)
  next
    case (went_on u d1)
    note first = publish_entry_moved [OF went_on(1) assms(2)]
    have rest: "moved h ps d1 d' \<and> (r = Inr () \<longrightarrow> (\<forall>p\<in>set ps. entry_done h d' p))"
      using Cons.prems(2) went_on(2) by (intro Cons.IH) simp_all
    have apart: "entry_path p \<notin> entry_path ` set ps" using Cons.prems(2) by simp
    with first rest moved_Cons have "moved h (p # ps) d d'" by blast
    moreover have "entry_done h d' p"
      using first moved_other [OF conjunct1 [OF rest] apart] by (simp add: entry_done_def)
    ultimately show ?thesis using rest by simp
  qed
qed simp

lemma publish_entries_undisturbed:
  assumes "undisturbed v" and "distinct (map entry_path ps)" and "\<forall>p\<in>set ps. staged_ok h p \<and> entry_ready h d p"
  shows "fst (perform_each (publish_entry h v j) ps d) = Inr ()"
  using assms(2,3)
proof (induction ps arbitrary: d)
  case (Cons p ps)
  obtain d1 where run: "publish_entry h v j p d = (Inr (), d1)"
    using publish_entry_undisturbed [OF assms(1), of h p d j] Cons.prems(2)
    by (cases "publish_entry h v j p d") (auto simp: entry_ready_def entry_path_def)
  then have "moved h [p] d d1"
    using publish_entry_moved undisturbed_crash_only [OF assms(1)] by blast
  note first = this
  have "entry_ready h d1 x" if x: "x \<in> set ps" for x
  proof -
    have "entry_path x \<noteq> entry_path p" using x Cons.prems(1) by (simp, metis image_eqI)
    then have "dk_files d1 (entry_path x) = dk_files d (entry_path x)" by (intro moved_other [OF first]) simp
    with x Cons.prems(2) show ?thesis by (simp add: entry_ready_def)
  qed
  then have "fst (perform_each (publish_entry h v j) ps d1) = Inr ()"
    using Cons.prems by (intro Cons.IH) simp_all
  with run show ?case by (simp add: perform_Inr)
qed simp

text \<open>The commit mark.\<close>

definition marked :: "'h tx_host_scheme \<Rightarrow> prepared_transaction \<Rightarrow> disk \<Rightarrow> disk" where
  "marked h t = write_journal (pt_namespace t) (jn_id (pt_journal t)) (th_encode_journal h (committed_journal (pt_journal t)))"

definition journaled :: "disk \<Rightarrow> prepared_transaction \<Rightarrow> bool" where
  "journaled d t \<longleftrightarrow> read_journal (pt_namespace t) (jn_id (pt_journal t)) d = Some (pt_bytes t)"

definition fits :: "'h tx_host_scheme \<Rightarrow> prepared_transaction \<Rightarrow> bool" where
  "fits h t \<longleftrightarrow> pt_bytes t \<noteq> [] \<and> length (pt_bytes t) \<le> maxTransactionJournalSize \<and>
     length (th_encode_journal h (committed_journal (pt_journal t))) \<le> maxTransactionJournalSize"

lemma mark_published:
  "published (AtomicWriteRoot (verify_roots v q) (read_journal ns i) (write_journal ns i) expected content) d = (r, d') \<Longrightarrow>
    crash_only v \<Longrightarrow> (d' = d \<and> r \<noteq> Inr ()) \<or> d' = write_journal ns i content d"
  by (erule published_cases) (rule journal_file.steady_write [OF _ steady_hooks(2)])

lemma commit_steady:
  assumes "markTransactionCommitted h v t d = (r, d')" and "crash_only v"
  shows "(d' = d \<and> r \<noteq> Inr ()) \<or> (d' = marked h t d \<and> journaled d t \<and> fits h t)"
  using assms mark_published [OF _ assms(2)]
  by (auto simp: markTransactionCommitted_def Let_def ensure_def encodeTransactionJournal_def marked_def
      journaled_def fits_def perform_hook split: option.splits if_splits)

lemma commit_undisturbed:
  assumes "undisturbed v" and "journaled d t" and "fits h t"
  shows "markTransactionCommitted h v t d = (Inr (), marked h t d)"
  using assms undisturbed_hooks(2) [OF assms(1)]
  by (auto simp: markTransactionCommitted_def Let_def ensure_def encodeTransactionJournal_def published_def marked_def
      journaled_def fits_def perform_Inr journal_file.quiet_write split: option.splits prod.splits)

lemma publish_steady:
  assumes "publishPreparedTransactionLocked h v t d = (r, d')" and "crash_only v" and "distinct (map entry_path (pt_entries t))"
  obtains d1 where "moved h (pt_entries t) d d1" and "d' = d1 \<and> r \<noteq> Inr () \<or>
    d' = marked h t d1 \<and> journaled d1 t \<and> fits h t \<and> (\<forall>p\<in>set (pt_entries t). entry_done h d1 p)"
proof (cases "jn_phase (pt_journal t) = transactionPhasePrepared")
  case False
  with assms(1) that [of d] show thesis by (auto simp: publishPreparedTransactionLocked_def)
next
  case True
  with assms(1) have "perform (perform_each (publish_entry h v (pt_journal t)) (pt_entries t)) (\<lambda>_. markTransactionCommitted h v t) d = (r, d')"
    by (simp add: publishPreparedTransactionLocked_def)
  then show thesis
  proof (cases rule: perform_cases)
    case (stopped e)
    with publish_entries_steady [OF stopped(1) assms(2,3)] that [of d'] show thesis by auto
  next
    case (went_on u d1)
    with publish_entries_steady [OF went_on(1) assms(2,3)] commit_steady [OF went_on(2) assms(2)] that [of d1]
    show thesis by auto
  qed
qed

lemma publish_undisturbed:
  assumes "undisturbed v" and "distinct (map entry_path (pt_entries t))" and "is_prepared t"
    and "\<forall>p\<in>set (pt_entries t). staged_ok h p \<and> entry_ready h d p" and "journaled d t" and "fits h t"
  shows "fst (publishPreparedTransactionLocked h v t d) = Inr ()"
proof -
  obtain d1 where run: "perform_each (publish_entry h v (pt_journal t)) (pt_entries t) d = (Inr (), d1)"
    using publish_entries_undisturbed [OF assms(1,2,4), of "pt_journal t"] by (metis prod.collapse)
  then have "dk_transactions d1 = dk_transactions d"
    using publish_entries_steady [OF run undisturbed_crash_only [OF assms(1)] assms(2)] by (simp add: moved_def)
  then have "journaled d1 t" using assms(5) by (simp add: journaled_def read_journal_def)
  from commit_undisturbed [OF assms(1) this assms(6)] run assms(3) show ?thesis
    by (simp add: publishPreparedTransactionLocked_def is_prepared_def perform_Inr)
qed

section \<open>Clean-up and pruning drop directories\<close>

definition drop_dirs :: "(tx_namespace \<Rightarrow> string set) \<Rightarrow> disk \<Rightarrow> disk" where
  "drop_dirs names d = d\<lparr>dk_transactions := (\<lambda>ns. filter (\<lambda>p. fst p \<notin> names ns) (dk_transactions d ns))\<rparr>"

lemma drop_dirs_simps [simp]:
  "dk_files (drop_dirs names d) = dk_files d" "dk_reserved (drop_dirs names d) = dk_reserved d"
  "dk_transactions (drop_dirs names d) ns = filter (\<lambda>p. fst p \<notin> names ns) (dk_transactions d ns)"
  by (simp_all add: drop_dirs_def)

lemma drop_dirs_twice: "drop_dirs m (drop_dirs n d) = drop_dirs (\<lambda>ns. n ns \<union> m ns) d"
  by (simp add: drop_dirs_def conj_commute)

lemma drop_none [simp]: "drop_dirs (\<lambda>ns. {}) d = d"
  by (simp add: drop_dirs_def)

lemma remove_tx_dir_drop: "remove_tx_dir ns i = drop_dirs (\<lambda>n. if n = ns then {i} else {})"
  by (rule ext) (auto simp: remove_tx_dir_def drop_dirs_def AList.delete_eq fun_eq_iff case_prod_beta'
      intro!: filter_cong arg_cong [of _ _ "\<lambda>f. dk_transactions_update (\<lambda>_. f) _"])

lemma fold_remove: "fold (\<lambda>j. remove_tx_dir ns (f j)) js d = drop_dirs (\<lambda>n. if n = ns then f ` set js else {}) d"
  by (induction js arbitrary: d) (auto simp: remove_tx_dir_drop drop_dirs_twice fun_eq_iff cong: if_cong
      intro!: arg_cong [of _ _ "\<lambda>n. drop_dirs n _"])

lemma prune_drop: "\<exists>names. \<forall>d. pruneCommittedTransactions ns loaded keep d = drop_dirs names d"
  unfolding pruneCommittedTransactions_def Let_def fold_remove by blast

text \<open>The names of the directories without a journal.\<close>

definition unjournaled :: "disk \<Rightarrow> tx_namespace \<Rightarrow> string set" where
  "unjournaled d ns = fst ` {p \<in> set (dk_transactions d ns). td_journal (snd p) = None}"

lemma cleanup_each:
  assumes "\<forall>p\<in>set xs. td_journal (snd p) = None \<longrightarrow> native_name h (fst p) \<and> td_other (snd p) = []"
  shows "perform_each (cleanup_one h ns) xs d =
    (Inr (), drop_dirs (\<lambda>n. if n = ns then fst ` {p \<in> set xs. td_journal (snd p) = None} else {}) d)"
  using assms
proof (induction xs arbitrary: d)
  case Nil
  then show ?case by (simp add: if_distrib cong: if_cong)
next
  case (Cons p xs)
  have names: "{q \<in> set (p # xs). td_journal (snd q) = None} =
      (if td_journal (snd p) = None then insert p {q \<in> set xs. td_journal (snd q) = None} else {q \<in> set xs. td_journal (snd q) = None})"
    by auto
  have "cleanup_one h ns p d = (Inr (), drop_dirs (\<lambda>n. if n = ns \<and> td_journal (snd p) = None then {fst p} else {}) d)"
    using Cons.prems by (auto simp: cleanup_one_def remove_tx_dir_drop split: prod.splits cong: if_cong)
  with Cons show ?case unfolding names
    by (auto simp: perform_Inr drop_dirs_twice fun_eq_iff intro!: arg_cong [of _ _ "\<lambda>n. drop_dirs n d"])
qed

section \<open>Loading\<close>

definition schema_of :: "tx_namespace \<Rightarrow> string" where
  "schema_of ns = (case ns of TransactionsV1 \<Rightarrow> transactionSchemaV1 | TransactionsV2 \<Rightarrow> transactionSchemaV2)"

type_synonym scope = "string \<times> bool"

definition load_dir :: "(rat \<Rightarrow> go_float) \<Rightarrow> 'h tx_host_scheme \<Rightarrow> uuid \<Rightarrow> scope \<Rightarrow> tx_namespace \<Rightarrow> string \<times> tx_dir \<Rightarrow>
    (tx_error, prepared_transaction option) result" where
  "load_dir rnd h pid s ns p =
    (case p of (name, t) \<Rightarrow>
      if native_name h name then loadOneTransaction rnd h ns (schema_of ns) name t pid (fst s) (snd s)
      else Inl ErrUnsupportedTransaction)"

definition loaded_dir :: "(rat \<Rightarrow> go_float) \<Rightarrow> 'h tx_host_scheme \<Rightarrow> uuid \<Rightarrow> scope \<Rightarrow> tx_namespace \<Rightarrow> string \<times> tx_dir \<Rightarrow>
    prepared_transaction option" where
  "loaded_dir rnd h pid s ns p = (case load_dir rnd h pid s ns p of Inl _ \<Rightarrow> None | Inr loaded \<Rightarrow> loaded)"

definition intact_dir :: "(rat \<Rightarrow> go_float) \<Rightarrow> 'h tx_host_scheme \<Rightarrow> uuid \<Rightarrow> scope \<Rightarrow> tx_namespace \<Rightarrow> string \<times> tx_dir \<Rightarrow> bool" where
  "intact_dir rnd h pid s ns p \<longleftrightarrow>
    (if td_journal (snd p) = None then native_name h (fst p) \<and> td_other (snd p) = []
     else case load_dir rnd h pid s ns p of Inl _ \<Rightarrow> False | Inr _ \<Rightarrow> True)"

definition intact_in :: "(rat \<Rightarrow> go_float) \<Rightarrow> 'h tx_host_scheme \<Rightarrow> uuid \<Rightarrow> scope \<Rightarrow> disk \<Rightarrow> tx_namespace \<Rightarrow> bool" where
  "intact_in rnd h pid s d ns \<longleftrightarrow>
    distinct (map fst (dk_transactions d ns)) \<and> length (dk_transactions d ns) \<le> maxTransactionDirectories \<and>
    list_all (intact_dir rnd h pid s ns) (dk_transactions d ns)"

definition intact :: "(rat \<Rightarrow> go_float) \<Rightarrow> 'h tx_host_scheme \<Rightarrow> uuid \<Rightarrow> scope \<Rightarrow> disk \<Rightarrow> bool" where
  "intact rnd h pid s d \<longleftrightarrow> th_scope h = Some s \<and> canonicalProjectID rnd h d = Inr pid \<and>
     intact_in rnd h pid s d TransactionsV1 \<and> intact_in rnd h pid s d TransactionsV2"

definition loaded_in :: "(rat \<Rightarrow> go_float) \<Rightarrow> 'h tx_host_scheme \<Rightarrow> uuid \<Rightarrow> scope \<Rightarrow> disk \<Rightarrow> tx_namespace \<Rightarrow> prepared_transaction list" where
  "loaded_in rnd h pid s d ns = List.map_filter (loaded_dir rnd h pid s ns) (dk_transactions d ns)"

definition pending :: "(rat \<Rightarrow> go_float) \<Rightarrow> 'h tx_host_scheme \<Rightarrow> uuid \<Rightarrow> scope \<Rightarrow> disk \<Rightarrow> prepared_transaction list" where
  "pending rnd h pid s d =
     filter is_prepared (loaded_in rnd h pid s d TransactionsV1 @ loaded_in rnd h pid s d TransactionsV2)"

lemma intact_in_all: "intact rnd h pid s d \<Longrightarrow> intact_in rnd h pid s d ns"
  by (cases ns) (simp_all add: intact_def)

lemma map_filter_mset: "mset xs = mset ys \<Longrightarrow> mset (List.map_filter f xs) = mset (List.map_filter f ys)"
  by (simp add: List.map_filter_def mset_map mset_filter)

lemma load_each_ok:
  "list_all (\<lambda>p. \<exists>x. f p = Inr x) ps \<Longrightarrow>
    load_each f ps = Inr (List.map_filter (\<lambda>p. case f p of Inl _ \<Rightarrow> None | Inr loaded \<Rightarrow> loaded) ps)"
  by (induction ps) (auto simp: List.map_filter_simps split: option.splits)

lemma unjournaled_not_loaded: "td_journal (snd p) = None \<Longrightarrow> \<exists>e. load_dir rnd h pid s ns p = Inl e"
  by (auto simp: load_dir_def loadOneTransaction_def split: prod.splits)

lemma intact_dir_loads: "td_journal (snd p) \<noteq> None \<Longrightarrow> intact_dir rnd h pid s ns p \<longleftrightarrow> (\<exists>x. load_dir rnd h pid s ns p = Inr x)"
  by (auto simp: intact_dir_def split: sum.splits)

lemma loads_ok:
  assumes "intact_in rnd h pid s d ns" and "unjournaled d ns = {}"
  obtains ts where "loadTransactionJournals rnd h ns (schema_of ns) d pid (fst s) (snd s) = Inr ts"
    and "mset ts = mset (loaded_in rnd h pid s d ns)"
proof -
  let ?es = "stable_sort by_name (dk_transactions d ns)"
  have code: "(\<lambda>(name, t). if native_name h name then loadOneTransaction rnd h ns (schema_of ns) name t pid (fst s) (snd s)
      else Inl ErrUnsupportedTransaction) = load_dir rnd h pid s ns"
    by (simp add: load_dir_def fun_eq_iff)
  have "list_all (\<lambda>p. \<exists>x. load_dir rnd h pid s ns p = Inr x) ?es"
    using assms intact_dir_loads [of _ rnd h pid s ns] by (force simp: intact_in_def list_all_iff unjournaled_def)
  from load_each_ok [OF this] have "load_each (load_dir rnd h pid s ns) ?es = Inr (List.map_filter (loaded_dir rnd h pid s ns) ?es)"
    by (simp add: loaded_dir_def [abs_def])
  with assms(1) have "loadTransactionJournals rnd h ns (schema_of ns) d pid (fst s) (snd s) =
      Inr (stable_sort (\<lambda>s t. jn_id (pt_journal s) < jn_id (pt_journal t)) (List.map_filter (loaded_dir rnd h pid s ns) ?es))"
    unfolding loadTransactionJournals_def Let_def code by (simp add: intact_in_def)
  moreover have "mset (List.map_filter (loaded_dir rnd h pid s ns) ?es) = mset (loaded_in rnd h pid s d ns)"
    unfolding loaded_in_def by (rule map_filter_mset) simp
  ultimately show thesis using that by simp
qed

lemma distinct_map_filter: "distinct (map f xs) \<Longrightarrow> distinct (map f (filter P xs))"
  by (induction xs) auto

lemma intact_drop:
  assumes "intact rnd h pid s d"
  shows "intact rnd h pid s (drop_dirs names d)"
proof -
  have "intact_in rnd h pid s (drop_dirs names d) ns" for ns
    using intact_in_all [OF assms, of ns] order.trans [OF length_filter_le, of "dk_transactions d ns" maxTransactionDirectories]
    by (auto simp: intact_in_def list_all_iff distinct_map_filter)
  with assms show ?thesis by (simp add: intact_def canonicalProjectID_def)
qed

lemma map_filter_dropped: "(\<And>x. x \<in> set xs \<Longrightarrow> \<not> P x \<Longrightarrow> f x = None) \<Longrightarrow> List.map_filter f (filter P xs) = List.map_filter f xs"
  by (induction xs) (auto simp: List.map_filter_simps split: option.splits)

lemma loaded_unjournaled: "td_journal (snd p) = None \<Longrightarrow> loaded_dir rnd h pid s ns p = None"
  using unjournaled_not_loaded [of p rnd h pid s ns] by (auto simp: loaded_dir_def)

lemma distinct_fst_same: "distinct (map fst xs) \<Longrightarrow> p \<in> set xs \<Longrightarrow> q \<in> set xs \<Longrightarrow> fst p = fst q \<Longrightarrow> p = q"
  by (simp add: distinct_map inj_on_def)

lemma pending_cleaned:
  assumes "intact rnd h pid s d"
  shows "pending rnd h pid s (drop_dirs (unjournaled d) d) = pending rnd h pid s d"
    and "unjournaled (drop_dirs (unjournaled d) d) ns = {}"
proof -
  have "loaded_in rnd h pid s (drop_dirs (unjournaled d) d) ns = loaded_in rnd h pid s d ns" for ns
  proof -
    have "distinct (map fst (dk_transactions d ns))" using intact_in_all [OF assms] by (simp add: intact_in_def)
    then have "loaded_dir rnd h pid s ns p = None" if "p \<in> set (dk_transactions d ns)" "\<not> fst p \<notin> unjournaled d ns" for p
      using that distinct_fst_same [of "dk_transactions d ns" p] by (auto simp: unjournaled_def intro!: loaded_unjournaled)
    then show ?thesis unfolding loaded_in_def drop_dirs_simps by (rule map_filter_dropped)
  qed
  then show "pending rnd h pid s (drop_dirs (unjournaled d) d) = pending rnd h pid s d" by (simp add: pending_def)
  show "unjournaled (drop_dirs (unjournaled d) d) ns = {}" by (force simp: unjournaled_def)
qed

lemma cleanup_ok:
  assumes "intact rnd h pid s d"
  shows "cleanupUnjournaledTransactions h ns d = (Inr (), drop_dirs (\<lambda>n. if n = ns then unjournaled d ns else {}) d)"
proof -
  have "\<forall>p\<in>set (dk_transactions d ns). td_journal (snd p) = None \<longrightarrow> native_name h (fst p) \<and> td_other (snd p) = []"
    using intact_in_all [OF assms, of ns] by (auto simp: intact_in_def list_all_iff intact_dir_def split: if_splits)
  then show ?thesis unfolding cleanupUnjournaledTransactions_def
    using cleanup_each [of "stable_sort by_name (dk_transactions d ns)" h ns d]
    by (simp add: unjournaled_def cong: if_cong)
qed

lemma both_cleanups:
  assumes "intact rnd h pid s d"
  shows "perform (cleanupUnjournaledTransactions h TransactionsV1) (\<lambda>_. perform (cleanupUnjournaledTransactions h TransactionsV2) f) d =
    f () (drop_dirs (unjournaled d) d)"
proof -
  let ?d = "drop_dirs (\<lambda>n. if n = TransactionsV1 then unjournaled d TransactionsV1 else {}) d"
  have "unjournaled ?d TransactionsV2 = unjournaled d TransactionsV2" by (simp add: unjournaled_def)
  then have second: "cleanupUnjournaledTransactions h TransactionsV2 ?d =
      (Inr (), drop_dirs (\<lambda>n. if n = TransactionsV2 then unjournaled d TransactionsV2 else {}) ?d)"
    using cleanup_ok [OF intact_drop [OF assms]] by metis
  have "(if n = TransactionsV1 then unjournaled d TransactionsV1 else {}) \<union>
      (if n = TransactionsV2 then unjournaled d TransactionsV2 else {}) = unjournaled d n" for n
    by (cases n) auto
  then show ?thesis using cleanup_ok [OF assms, of TransactionsV1] second by (simp add: perform_Inr drop_dirs_twice)
qed

lemma recover_run:
  assumes "intact rnd h pid s d"
  obtains ts names where "mset ts = mset (pending rnd h pid s d)"
    and "recoverPreparedTransactionsLocked rnd h v d =
      perform (perform_each (check_transaction h) ts) (\<lambda>_. perform (perform_each (publishPreparedTransactionLocked h v) ts)
        (\<lambda>_ d. (Inr (), drop_dirs names d))) (drop_dirs (unjournaled d) d)"
proof -
  let ?d = "drop_dirs (unjournaled d) d"
  have ok: "intact rnd h pid s ?d" by (rule intact_drop [OF assms])
  obtain legacy where legacy: "loadTransactionJournals rnd h TransactionsV1 transactionSchemaV1 ?d pid (fst s) (snd s) = Inr legacy"
      "mset legacy = mset (loaded_in rnd h pid s ?d TransactionsV1)"
    using loads_ok [OF intact_in_all [OF ok, of TransactionsV1] pending_cleaned(2) [OF assms]] by (auto simp: schema_of_def)
  obtain current where current: "loadTransactionJournals rnd h TransactionsV2 transactionSchemaV2 ?d pid (fst s) (snd s) = Inr current"
      "mset current = mset (loaded_in rnd h pid s ?d TransactionsV2)"
    using loads_ok [OF intact_in_all [OF ok, of TransactionsV2] pending_cleaned(2) [OF assms]] by (auto simp: schema_of_def)
  obtain n1 n2 where prune: "\<And>d. pruneCommittedTransactions TransactionsV1 (map (committed_journal \<circ> pt_journal) legacy) committedJournalRetention d = drop_dirs n1 d"
      "\<And>d. pruneCommittedTransactions TransactionsV2 (map (committed_journal \<circ> pt_journal) current) committedJournalRetention d = drop_dirs n2 d"
    using prune_drop by metis
  obtain worktree allow where s: "s = (worktree, allow)" by fastforce
  have scope: "th_scope h = Some s" and id: "canonicalProjectID rnd h ?d = Inr pid"
    using ok by (simp_all add: intact_def)
  show thesis
  proof (rule that [of "filter is_prepared (legacy @ current)" "\<lambda>ns. n1 ns \<union> n2 ns"])
    show "mset (filter is_prepared (legacy @ current)) = mset (pending rnd h pid s d)"
      using legacy(2) current(2) pending_cleaned(1) [OF assms] by (metis mset_append mset_filter pending_def)
    show "recoverPreparedTransactionsLocked rnd h v d =
      perform (perform_each (check_transaction h) (filter is_prepared (legacy @ current)))
        (\<lambda>_. perform (perform_each (publishPreparedTransactionLocked h v) (filter is_prepared (legacy @ current)))
        (\<lambda>_ d. (Inr (), drop_dirs (\<lambda>ns. n1 ns \<union> n2 ns) d))) ?d"
      unfolding recoverPreparedTransactionsLocked_def both_cleanups [OF assms] scope
      by (use legacy(1) current(1) in \<open>simp add: s perform_Inr id prune drop_dirs_twice Let_def\<close>)
  qed
qed

section \<open>What was loaded\<close>

lemma load_entries_ok:
  "load_entries rnd h staged n es = Some (ps, ds) \<Longrightarrow> map fst ps = es \<and>
    (\<forall>p\<in>set ps. je_operation (fst p) \<noteq> TransactionDelete \<longrightarrow>
      exactHash h (snd p) = je_staged_hash (fst p) \<and> length (snd p) \<le> MaxRecordBytes)"
  by (induction es arbitrary: n ps ds) (fastforce split: if_splits option.splits sum.splits)+

lemma transaction_path_facts [simp]:
  "\<not> validateCanonicalTransactionPath h []" "\<not> validateCanonicalTransactionPath h ProjectFile"
  by (simp_all add: validateCanonicalTransactionPath_def ValidateRelativePOSIX_def ClassifyPath_def ProjectFile_def)

lemma valid_entries_facts:
  "valid_entries h previous es \<Longrightarrow>
    (\<forall>e\<in>set es. validateCanonicalTransactionPath h (je_path e) \<and> valid_entry e \<and> (previous \<noteq> [] \<longrightarrow> previous < je_path e)) \<and>
    distinct (map je_path es)"
proof (induction es arbitrary: previous)
  case (Cons e es)
  then have "je_path e \<noteq> []" by auto
  with Cons show ?case by (fastforce simp: not_le)
qed simp

text \<open>A loaded transaction: its journal is on the disk and its entries are staged.\<close>

definition well_loaded :: "'h tx_host_scheme \<Rightarrow> prepared_transaction \<Rightarrow> bool" where
  "well_loaded h t \<longleftrightarrow> (\<forall>p\<in>set (pt_entries t). staged_ok h p) \<and> distinct (map entry_path (pt_entries t)) \<and>
     ProjectFile \<notin> entry_path ` set (pt_entries t)"

lemma loaded_facts:
  assumes "load_dir rnd h pid s ns (name, td) = Inr (Some t)"
  shows "pt_namespace t = ns \<and> jn_id (pt_journal t) = name \<and> td_journal td = Some (pt_bytes t) \<and> well_loaded h t"
proof -
  obtain bytes staged ps ds where t: "td_journal td = Some bytes" "pt_bytes t = bytes" "pt_namespace t = ns" "pt_entries t = ps"
    and j: "validateTransactionJournal h (pt_journal t) (schema_of ns) name pid"
    and ps: "load_entries rnd h staged 0 (jn_entries (pt_journal t)) = Some (ps, ds)"
    using assms by (auto simp: load_dir_def loadOneTransaction_def guarded_Inr_iff Let_def split: if_splits option.splits)
  have entries: "valid_entries h [] (jn_entries (pt_journal t))" and name: "jn_id (pt_journal t) = name"
    using j by (simp_all add: validateTransactionJournal_def)
  have fst_ps: "map fst ps = jn_entries (pt_journal t)" using load_entries_ok [OF ps] by blast
  have paths: "map entry_path ps = map je_path (jn_entries (pt_journal t))"
    unfolding fst_ps [symmetric] by (simp add: entry_path_def)
  have "staged_ok h p" if p: "p \<in> set ps" for p
  proof -
    have "fst p \<in> set (jn_entries (pt_journal t))" using p unfolding fst_ps [symmetric] by simp
    with valid_entries_facts [OF entries] load_entries_ok [OF ps] p show ?thesis by (auto simp: staged_ok_def)
  qed
  moreover have "distinct (map entry_path ps)" unfolding paths using valid_entries_facts [OF entries] by blast
  moreover have "ProjectFile \<noteq> entry_path p" if "p \<in> set ps" for p
    using calculation(1) [OF that] transaction_path_facts(2) by (metis entry_path_def staged_ok_def)
  ultimately show ?thesis using t name by (auto simp: well_loaded_def)
qed

lemma pending_iff:
  "t \<in> set (pending rnd h pid s d) \<longleftrightarrow>
    is_prepared t \<and> (\<exists>ns p. p \<in> set (dk_transactions d ns) \<and> load_dir rnd h pid s ns p = Inr (Some t))"
proof -
  have "t \<in> set (loaded_in rnd h pid s d ns) \<longleftrightarrow> (\<exists>p. p \<in> set (dk_transactions d ns) \<and> load_dir rnd h pid s ns p = Inr (Some t))" for ns
    by (force simp: loaded_in_def List.map_filter_def loaded_dir_def split: sum.splits)
  moreover have "(\<exists>ns. Q ns) \<longleftrightarrow> Q TransactionsV1 \<or> Q TransactionsV2" for Q by (metis tx_namespace.exhaust)
  ultimately show ?thesis by (auto simp: pending_def)
qed

lemma pending_facts:
  assumes "intact rnd h pid s d" and "t \<in> set (pending rnd h pid s d)"
  shows "is_prepared t" "well_loaded h t" "journaled d t"
proof -
  obtain ns name td where p: "(name, td) \<in> set (dk_transactions d ns)" "load_dir rnd h pid s ns (name, td) = Inr (Some t)"
    using assms(2) unfolding pending_iff by (metis prod.collapse)
  note facts = loaded_facts [OF p(2)]
  show "is_prepared t" using assms(2) by (simp add: pending_iff)
  show "well_loaded h t" using facts by blast
  have "map_of (dk_transactions d ns) name = Some td"
    using intact_in_all [OF assms(1), of ns] p(1) by (simp add: intact_in_def map_of_eq_Some_iff)
  with facts show "journaled d t" by (auto simp: journaled_def read_journal_def)
qed

lemma check_entry_run:
  "check_entry h j p d = (if validateCanonicalTransactionPath h (je_path (fst p)) \<and> entry_ready h d p then (Inr (), d) else (fst (check_entry h j p d), d))"
  "\<not> entry_ready h d p \<Longrightarrow> fst (check_entry h j p d) \<noteq> Inr ()"
  by (auto simp: check_entry_def perform_def canonicalDestinationState_run entry_ready_def entry_path_def conflict_def)

lemma perform_each_stop:
  assumes "\<And>x. x \<in> set xs \<Longrightarrow> snd (f x d) = d" and "x \<in> set xs" and "fst (f x d) \<noteq> Inr ()"
  shows "\<exists>e. perform_each f xs d = (Inl e, d)"
  using assms
proof (induction xs)
  case (Cons y ys)
  obtain r where r: "f y d = (r, d)" using Cons.prems(1) by (metis list.set_intros(1) prod.collapse)
  show ?case
  proof (cases r)
    case (Inl e)
    with r show ?thesis by (auto simp: perform_Inl)
  next
    case (Inr u)
    with r Cons.prems(2,3) have "x \<in> set ys" by auto
    with Cons r Inr show ?thesis by (auto simp: perform_Inr)
  qed
qed simp

lemma perform_each_same: "(\<And>x. x \<in> set xs \<Longrightarrow> snd (f x d) = d) \<Longrightarrow> snd (perform_each f xs d) = d"
proof (induction xs)
  case (Cons y ys)
  then have "snd (f y d) = d" by simp
  then obtain r where "f y d = (r, d)" by (metis prod.collapse)
  with Cons show ?case by (cases r) (auto simp: perform_Inr perform_Inl)
qed simp

lemma check_transaction_same: "snd (check_transaction h t d) = d"
  unfolding check_transaction_def
  by (rule perform_each_same) (auto simp: check_entry_def perform_def canonicalDestinationState_run conflict_def)

lemma checks_stop:
  assumes "t \<in> set ts" and "p \<in> set (pt_entries t)" and "\<not> entry_ready h d p"
  shows "\<exists>e. perform_each (check_transaction h) ts d = (Inl e, d)"
proof -
  have "snd (check_entry h j q d) = d" for j q
    by (auto simp: check_entry_def perform_def canonicalDestinationState_run conflict_def)
  then have "\<exists>e. check_transaction h t d = (Inl e, d)" unfolding check_transaction_def
    by (rule perform_each_stop [OF _ assms(2)]) (rule check_entry_run(2) [OF assms(3)])
  then show ?thesis by (intro perform_each_stop [OF check_transaction_same assms(1)]) auto
qed

lemma map_of_filter_key: "map_of (filter (\<lambda>p. fst p \<notin> N) xs) i = (if i \<in> N then None else map_of xs i)"
  by (induction xs) auto

lemma read_journal_cleaned:
  assumes "intact rnd h pid s d"
  shows "read_journal ns i (drop_dirs (unjournaled d) d) = read_journal ns i d"
proof (cases "i \<in> unjournaled d ns")
  case True
  then obtain td where td: "(i, td) \<in> set (dk_transactions d ns)" "td_journal td = None" by (auto simp: unjournaled_def)
  have "map_of (dk_transactions d ns) i = Some td"
    using td(1) intact_in_all [OF assms, of ns] by (simp add: intact_in_def map_of_eq_Some_iff)
  with True td(2) show ?thesis by (simp add: read_journal_def map_of_filter_key)
qed (simp add: read_journal_def map_of_filter_key)

text \<open>
  C22: recovery refuses to touch anything when an unrelated edit is in the way: if the destination of
  even one entry of one prepared transaction is neither in its recorded old state nor in its new
  state, then the run fails and, whatever other programs and crashes do at its boundaries, no
  canonical file and no journal has been changed by it.
\<close>

theorem recovery_refuses_unrelated_edit:
  assumes "intact rnd h pid s d" and "t \<in> set (pending rnd h pid s d)" and "p \<in> set (pt_entries t)" and "\<not> entry_ready h d p"
    and "recoverPreparedTransactionsLocked rnd h v d = (r, d')"
  shows "r \<noteq> Inr () \<and> dk_files d' = dk_files d \<and> (\<forall>ns i. read_journal ns i d' = read_journal ns i d)"
proof -
  let ?d = "drop_dirs (unjournaled d) d"
  obtain ts names where ts: "mset ts = mset (pending rnd h pid s d)"
    and run: "recoverPreparedTransactionsLocked rnd h v d =
      perform (perform_each (check_transaction h) ts) (\<lambda>_. perform (perform_each (publishPreparedTransactionLocked h v) ts)
        (\<lambda>_ d. (Inr (), drop_dirs names d))) ?d"
    by (rule recover_run [OF assms(1)])
  have "t \<in> set ts" using assms(2) ts by (metis set_mset_mset)
  then obtain e where stopped: "perform_each (check_transaction h) ts ?d = (Inl e, ?d)"
    using checks_stop [of t ts p h ?d] assms(3,4) by (auto simp: entry_ready_def)
  have "read_journal ns i ?d = read_journal ns i d" for ns i
    by (rule read_journal_cleaned [OF assms(1)])
  with stopped run assms(5) show ?thesis by (auto simp: perform_Inl)
qed

section \<open>Rolling forward\<close>

text \<open>A transaction whose commit mark can be written and read back.\<close>

definition committable :: "'h tx_host_scheme \<Rightarrow> prepared_transaction \<Rightarrow> bool" where
  "committable h t \<longleftrightarrow> fits h t \<and>
     th_decode_journal h (th_encode_journal h (committed_journal (pt_journal t))) = Some (committed_journal (pt_journal t))"

lemma committed_journal_fields [simp]:
  "jn_phase (committed_journal j) = transactionPhaseCommitted" "jn_worktree (committed_journal j) = jn_worktree j"
  "jn_entries (committed_journal j) = jn_entries j" "transactionPhaseCommitted \<noteq> transactionPhasePrepared"
  by (simp_all add: committed_journal_def transactionPhaseCommitted_def transactionPhasePrepared_def)

lemma validate_committed: "validateTransactionJournal h j schema i pid \<Longrightarrow> validateTransactionJournal h (committed_journal j) schema i pid"
  by (auto simp: validateTransactionJournal_def) (auto simp: committed_journal_def)

lemma load_committed:
  assumes "load_dir rnd h pid s ns (name, td) = Inr (Some t)" and "committable h t"
  shows "\<exists>u. load_dir rnd h pid s ns (name, td\<lparr>td_journal := Some (th_encode_journal h (committed_journal (pt_journal t)))\<rparr>) = Inr (Some u) \<and>
    \<not> is_prepared u"
proof -
  let ?j = "pt_journal t"
  have name: "native_name h name" and load: "loadOneTransaction rnd h ns (schema_of ns) name td pid (fst s) (snd s) = Inr (Some t)"
    using assms(1) by (simp_all add: load_dir_def split: if_splits)
  obtain bytes staged ps ds where td: "td_journal td = Some bytes" "td_staged td = Some staged" "td_other td = []"
    and j: "validateTransactionJournal h ?j (schema_of ns) name pid"
    and worktree: "\<not> (schema_of ns \<noteq> transactionSchemaV1 \<and> jn_worktree ?j \<noteq> fst s)"
    and ps: "load_entries rnd h staged 0 (jn_entries ?j) = Some (ps, ds)"
    and staged: "length staged = length (expected_staged 0 (jn_entries ?j))" "set (map fst staged) \<subseteq> set (expected_staged 0 (jn_entries ?j))"
    using load by (auto simp: loadOneTransaction_def guarded_Inr_iff split: if_splits option.splits)
  have small: "length (th_encode_journal h (committed_journal ?j)) \<le> maxTransactionJournalSize"
    and decodes: "th_decode_journal h (th_encode_journal h (committed_journal ?j)) = Some (committed_journal ?j)"
    using assms(2) by (simp_all add: committable_def fits_def)
  show ?thesis unfolding load_dir_def prod.case using name
    by (simp add: loadOneTransaction_def td small decodes validate_committed [OF j] worktree ps staged [simplified] is_prepared_def del: de_Morgan_conj)
qed

lemma update_in_place:
  "distinct (map fst xs) \<Longrightarrow> i \<in> fst ` set xs \<Longrightarrow> AList.update i y xs = map (\<lambda>p. if fst p = i then (i, y) else p) xs"
proof (induction xs)
  case (Cons x xs)
  have "i \<notin> fst ` set xs \<Longrightarrow> map (\<lambda>p. if fst p = i then (i, y) else p) xs = xs" by (rule map_idI) force
  with Cons show ?case by (cases x) auto
qed simp

lemma marked_dirs:
  assumes "intact rnd h pid s d" and "t \<in> set (pending rnd h pid s d)"
  obtains td where "(jn_id (pt_journal t), td) \<in> set (dk_transactions d (pt_namespace t))"
    and "load_dir rnd h pid s (pt_namespace t) (jn_id (pt_journal t), td) = Inr (Some t)"
    and "dk_transactions (marked h t d) = (dk_transactions d)(pt_namespace t :=
      map (\<lambda>p. if fst p = jn_id (pt_journal t)
        then (jn_id (pt_journal t), td\<lparr>td_journal := Some (th_encode_journal h (committed_journal (pt_journal t)))\<rparr>) else p)
        (dk_transactions d (pt_namespace t)))"
proof -
  obtain ns name td where p: "(name, td) \<in> set (dk_transactions d ns)" "load_dir rnd h pid s ns (name, td) = Inr (Some t)"
    using assms(2) unfolding pending_iff by (metis prod.collapse)
  have t: "ns = pt_namespace t" "name = jn_id (pt_journal t)" using loaded_facts [OF p(2)] by simp_all
  have dist: "distinct (map fst (dk_transactions d ns))" using intact_in_all [OF assms(1), of ns] by (simp add: intact_in_def)
  have "tx_dir_of ns name d = td" using p(1) dist by (simp add: tx_dir_of_def map_of_is_SomeI)
  moreover have "name \<in> fst ` set (dk_transactions d ns)" using p(1) by force
  ultimately have "dk_transactions (marked h t d) = (dk_transactions d)(ns := map (\<lambda>p. if fst p = name
        then (name, td\<lparr>td_journal := Some (th_encode_journal h (committed_journal (pt_journal t)))\<rparr>) else p) (dk_transactions d ns))"
    using dist by (simp add: marked_def write_journal_def set_tx_dir_def t [symmetric] update_in_place)
  with p that show thesis unfolding t by blast
qed

lemma canonicalProjectID_cong: "dk_files d' ProjectFile = dk_files d ProjectFile \<Longrightarrow> canonicalProjectID rnd h d' = canonicalProjectID rnd h d"
  by (simp add: canonicalProjectID_def)

lemma marked_files [simp]: "dk_files (marked h t d) = dk_files d"
  by (simp add: marked_def write_journal_def set_tx_dir_def)

lemma intact_marked:
  assumes "intact rnd h pid s d" and "t \<in> set (pending rnd h pid s d)" and "committable h t"
  shows "intact rnd h pid s (marked h t d)"
    and "u \<in> set (pending rnd h pid s (marked h t d)) \<Longrightarrow> u \<in> set (pending rnd h pid s d) \<and> u \<noteq> t"
proof -
  let ?i = "jn_id (pt_journal t)" and ?m = "pt_namespace t"
  let ?new = "\<lambda>td. (?i, td\<lparr>td_journal := Some (th_encode_journal h (committed_journal (pt_journal t)))\<rparr>)"
  obtain td where mem: "(?i, td) \<in> set (dk_transactions d ?m)"
    and load: "load_dir rnd h pid s ?m (?i, td) = Inr (Some t)"
    and dirs: "dk_transactions (marked h t d) = (dk_transactions d)(?m := map (\<lambda>p. if fst p = ?i then ?new td else p) (dk_transactions d ?m))"
    by (rule marked_dirs [OF assms(1,2)])
  obtain u0 where u0: "load_dir rnd h pid s ?m (?new td) = Inr (Some u0)" "\<not> is_prepared u0"
    using load_committed [OF load assms(3)] by blast
  have new: "intact_dir rnd h pid s ?m (?new td)" using u0 by (simp add: intact_dir_def)
  have keys: "fst \<circ> (\<lambda>p. if fst p = ?i then ?new td else p) = fst" by (simp add: fun_eq_iff)
  have "intact_in rnd h pid s (marked h t d) ns" for ns
    using intact_in_all [OF assms(1), of ns] new by (auto simp: intact_in_def dirs list_all_iff keys)
  with assms(1) show "intact rnd h pid s (marked h t d)"
    by (simp add: intact_def canonicalProjectID_cong [of "marked h t d" d])
  assume u: "u \<in> set (pending rnd h pid s (marked h t d))"
  then obtain ns p where p: "p \<in> set (dk_transactions (marked h t d) ns)" "load_dir rnd h pid s ns p = Inr (Some u)" "is_prepared u"
    by (auto simp: pending_iff)
  have "\<not> (ns = ?m \<and> fst p = ?i)" using p u0 by (auto simp: dirs split: if_splits)
  moreover from this have "p \<in> set (dk_transactions d ns)" using p(1) by (auto simp: dirs split: if_splits)
  ultimately show "u \<in> set (pending rnd h pid s d) \<and> u \<noteq> t"
    using p(2,3) loaded_facts [of rnd h pid s ns "fst p" "snd p" u] unfolding pending_iff by (metis prod.collapse)
qed

lemma intact_moved:
  assumes "intact rnd h pid s d" and "moved h ps d d'" and "ProjectFile \<notin> entry_path ` set ps"
  shows "intact rnd h pid s d'" "pending rnd h pid s d' = pending rnd h pid s d"
  using assms(1) canonicalProjectID_cong [OF moved_other [OF assms(2,3)], of rnd h] assms(2)
  by (simp_all add: intact_def intact_in_def pending_def loaded_in_def moved_def)

text \<open>Where the run of one transaction may be, seen from the disk it started on.\<close>

definition rolling :: "(rat \<Rightarrow> go_float) \<Rightarrow> 'h tx_host_scheme \<Rightarrow> uuid \<Rightarrow> scope \<Rightarrow> disk \<Rightarrow> prepared_transaction \<Rightarrow> disk \<Rightarrow> bool" where
  "rolling rnd h pid s d0 t d \<longleftrightarrow> intact rnd h pid s d \<and>
     (\<forall>q. dk_files d q = dk_files d0 q \<or>
       (\<exists>p\<in>set (pt_entries t). entry_path p = q \<and> state_hash h (dk_files d0 q) = je_old (fst p) \<and> dk_files d q = final_state p)) \<and>
     (pending rnd h pid s d = [t] \<or> pending rnd h pid s d = [] \<and> (\<forall>p\<in>set (pt_entries t). entry_done h d p))"

lemma same_path: "well_loaded h t \<Longrightarrow> p \<in> set (pt_entries t) \<Longrightarrow> q \<in> set (pt_entries t) \<Longrightarrow> entry_path p = entry_path q \<Longrightarrow> p = q"
  by (simp add: well_loaded_def distinct_map inj_on_def)

lemma rolling_ready:
  assumes "rolling rnd h pid s d0 t d" and "well_loaded h t" and "\<forall>p\<in>set (pt_entries t). entry_ready h d0 p" and "p \<in> set (pt_entries t)"
  shows "entry_ready h d p"
proof -
  have "staged_ok h p" using assms(2,4) by (simp add: well_loaded_def)
  moreover have "dk_files d (entry_path p) = dk_files d0 (entry_path p) \<or> dk_files d (entry_path p) = final_state p"
    using assms(1) same_path [OF assms(2) _ assms(4)] unfolding rolling_def by blast
  ultimately show ?thesis using assms(3,4) staged_final [of h p] by (auto simp: entry_ready_def)
qed

lemma rolling_moved:
  assumes "rolling rnd h pid s d0 t d" and "well_loaded h t" and "pending rnd h pid s d = [t]" and "moved h (pt_entries t) d d'"
  shows "rolling rnd h pid s d0 t d'" "pending rnd h pid s d' = [t]"
proof -
  have "ProjectFile \<notin> entry_path ` set (pt_entries t)" using assms(2) by (simp add: well_loaded_def)
  note kept = intact_moved [OF _ assms(4) this, of rnd pid s]
  show "pending rnd h pid s d' = [t]" using kept assms(1,3) by (simp add: rolling_def)
  have "dk_files d' q = dk_files d0 q \<or>
      (\<exists>p\<in>set (pt_entries t). entry_path p = q \<and> state_hash h (dk_files d0 q) = je_old (fst p) \<and> dk_files d' q = final_state p)" for q
  proof -
    have now: "dk_files d q = dk_files d0 q \<or>
        (\<exists>p\<in>set (pt_entries t). entry_path p = q \<and> state_hash h (dk_files d0 q) = je_old (fst p) \<and> dk_files d q = final_state p)"
      using assms(1) by (simp add: rolling_def)
    have "dk_files d' q = dk_files d q \<or>
        (\<exists>p\<in>set (pt_entries t). entry_path p = q \<and> state_hash h (dk_files d q) = je_old (fst p) \<and> dk_files d' q = final_state p)"
      using assms(4) by (simp add: moved_def)
    with now show ?thesis using same_path [OF assms(2)] by metis
  qed
  then show "rolling rnd h pid s d0 t d'" using kept assms(1,3) by (simp add: rolling_def)
qed

lemma rolling_marked:
  assumes "rolling rnd h pid s d0 t d" and "pending rnd h pid s d = [t]" and "committable h t" and "\<forall>p\<in>set (pt_entries t). entry_done h d p"
  shows "rolling rnd h pid s d0 t (marked h t d)" "pending rnd h pid s (marked h t d) = []"
proof -
  have t: "intact rnd h pid s d" "t \<in> set (pending rnd h pid s d)" using assms(1,2) by (simp_all add: rolling_def)
  have "set (pending rnd h pid s (marked h t d)) = {}" using intact_marked(2) [OF t assms(3)] assms(2) by fastforce
  then show "pending rnd h pid s (marked h t d) = []" by simp
  with assms(1,4) intact_marked(1) [OF t assms(3)] show "rolling rnd h pid s d0 t (marked h t d)"
    by (simp add: rolling_def entry_done_def)
qed

lemma pending_drop: "set (pending rnd h pid s (drop_dirs names d)) \<subseteq> set (pending rnd h pid s d)"
  unfolding subset_iff pending_iff drop_dirs_simps set_filter mem_Collect_eq by blast

lemma rolling_drop:
  assumes "rolling rnd h pid s d0 t d" and "pending rnd h pid s d = []"
  shows "rolling rnd h pid s d0 t (drop_dirs names d)" "pending rnd h pid s (drop_dirs names d) = []"
proof -
  show "pending rnd h pid s (drop_dirs names d) = []" using pending_drop [of rnd h pid s names d] assms(2) by simp
  with assms show "rolling rnd h pid s d0 t (drop_dirs names d)" by (simp add: rolling_def intact_drop entry_done_def)
qed

lemma rolling_cleaned:
  assumes "rolling rnd h pid s d0 t d"
  shows "rolling rnd h pid s d0 t (drop_dirs (unjournaled d) d)"
  using assms pending_cleaned(1) [of rnd h pid s d] by (simp add: rolling_def intact_drop entry_done_def)

lemma rolling_checks:
  assumes "rolling rnd h pid s d0 t d" and "well_loaded h t" and "\<forall>p\<in>set (pt_entries t). entry_ready h d0 p"
  shows "perform_each (check_transaction h) [t] d = (Inr (), d)"
proof -
  have "check_entry h (pt_journal t) p d = (Inr (), d)" if p: "p \<in> set (pt_entries t)" for p
  proof -
    have "validateCanonicalTransactionPath h (je_path (fst p))" using assms(2) p by (auto simp: well_loaded_def staged_ok_def)
    with rolling_ready [OF assms p] show ?thesis using check_entry_run(1) [of h "pt_journal t" p d] by simp
  qed
  then have "check_transaction h t d = (Inr (), d)" unfolding check_transaction_def by (rule perform_each_idle)
  then show ?thesis by (simp add: perform_Inr)
qed

lemma rolling_step:
  assumes "rolling rnd h pid s d0 t d" and "well_loaded h t" and "committable h t" and "\<forall>p\<in>set (pt_entries t). entry_ready h d0 p"
    and "crash_only v" and "recoverPreparedTransactionsLocked rnd h v d = (r, d')"
  shows "rolling rnd h pid s d0 t d'" "r = Inr () \<Longrightarrow> pending rnd h pid s d' = []" "undisturbed v \<Longrightarrow> r = Inr ()"
proof -
  let ?d = "drop_dirs (unjournaled d) d"
  have ok: "intact rnd h pid s d" using assms(1) by (simp add: rolling_def)
  obtain ts names where ts: "mset ts = mset (pending rnd h pid s d)"
    and run: "recoverPreparedTransactionsLocked rnd h v d =
      perform (perform_each (check_transaction h) ts) (\<lambda>_. perform (perform_each (publishPreparedTransactionLocked h v) ts)
        (\<lambda>_ d. (Inr (), drop_dirs names d))) ?d"
    by (rule recover_run [OF ok])
  note start = rolling_cleaned [OF assms(1)] and same = pending_cleaned(1) [OF ok]
  have "rolling rnd h pid s d0 t d' \<and> (r = Inr () \<longrightarrow> pending rnd h pid s d' = []) \<and> (undisturbed v \<longrightarrow> r = Inr ())"
  proof (cases "pending rnd h pid s d = []")
    case True
    with ts run assms(6) have "r = Inr ()" "d' = drop_dirs names ?d" by (auto simp: perform_Inr)
    with rolling_drop [OF start, of names] True same show ?thesis by simp
  next
    case False
    then have one: "pending rnd h pid s d = [t]" using assms(1) by (simp add: rolling_def)
    then have "ts = [t]" using ts by simp
    obtain r1 d2 where publish: "publishPreparedTransactionLocked h v t ?d = (r1, d2)" by fastforce
    have outcome: "(r, d') = (case r1 of Inl e \<Rightarrow> (Inl e, d2) | Inr _ \<Rightarrow> (Inr (), drop_dirs names d2))"
      using run assms(6) rolling_checks [OF start assms(2,4)] publish unfolding \<open>ts = [t]\<close>
      by (auto simp: perform_def split: sum.splits)
    have dist: "distinct (map entry_path (pt_entries t))" using assms(2) by (simp add: well_loaded_def)
    obtain d1 where d1: "moved h (pt_entries t) ?d d1" and ends: "d2 = d1 \<and> r1 \<noteq> Inr () \<or>
        d2 = marked h t d1 \<and> journaled d1 t \<and> fits h t \<and> (\<forall>p\<in>set (pt_entries t). entry_done h d1 p)"
      by (rule publish_steady [OF publish assms(5) dist])
    note moved = rolling_moved [OF start assms(2) _ d1] and marked = rolling_marked [OF rolling_moved [OF start assms(2) _ d1] assms(3)]
    have d2: "rolling rnd h pid s d0 t d2 \<and> (r1 = Inr () \<longrightarrow> pending rnd h pid s d2 = [])"
      using ends moved marked one same by auto
    have "r1 = Inr ()" if "undisturbed v"
    proof -
      have "t \<in> set (pending rnd h pid s ?d)" "intact rnd h pid s ?d" using one same intact_drop [OF ok] by simp_all
      then have "is_prepared t" "journaled ?d t" using pending_facts by blast+
      moreover have "\<forall>p\<in>set (pt_entries t). staged_ok h p \<and> entry_ready h ?d p"
        using rolling_ready [OF start assms(2,4)] assms(2) by (simp add: well_loaded_def)
      ultimately show ?thesis
        using publish_undisturbed [OF that dist, of h ?d] publish assms(3) by (auto simp: committable_def)
    qed
    with d2 outcome rolling_drop [of rnd h pid s d0 t d2 names] show ?thesis by (auto split: sum.splits)
  qed
  then show "rolling rnd h pid s d0 t d'" "r = Inr () \<Longrightarrow> pending rnd h pid s d' = []" "undisturbed v \<Longrightarrow> r = Inr ()" by blast+
qed

text \<open>Any number of recovery runs, each of which may crash.\<close>

inductive recovery_runs :: "(rat \<Rightarrow> go_float) \<Rightarrow> 'h tx_host_scheme \<Rightarrow> disk \<Rightarrow> disk \<Rightarrow> bool" for rnd h where
  no_run: "recovery_runs rnd h d d"
| one_more: "recovery_runs rnd h d d1 \<Longrightarrow> crash_only v \<Longrightarrow> recoverPreparedTransactionsLocked rnd h v d1 = (r, d2) \<Longrightarrow>
    recovery_runs rnd h d d2"

lemma recovery_runs_rolling:
  assumes "recovery_runs rnd h d d1" and "intact rnd h pid s d" and "pending rnd h pid s d = [t]" and "committable h t"
    and "\<forall>p\<in>set (pt_entries t). entry_ready h d p"
  shows "rolling rnd h pid s d t d1"
  using assms
proof (induction rule: recovery_runs.induct)
  case no_run
  then show ?case by (simp add: rolling_def)
next
  case (one_more d d1 v r d2)
  have "well_loaded h t" using pending_facts(2) [OF one_more.prems(1)] one_more.prems(2) by simp
  from rolling_step(1) [OF one_more.IH [OF one_more.prems] this one_more.prems(3,4) one_more.hyps(2,3)] show ?case .
qed

text \<open>
  C21: a prepared transaction is never lost and never half done: after any number of recovery runs
  that each crash at an arbitrary boundary, in the middle of the entries or around the commit mark,
  the next undisturbed run returns successfully, every destination of the transaction has the new
  state its journal records, no other canonical file has changed since the transaction was prepared,
  no prepared transaction is left, and a further run changes no file.
\<close>

theorem recovery_rolls_forward:
  assumes "intact rnd h pid s d" and "pending rnd h pid s d = [t]" and "committable h t"
    and "\<forall>p\<in>set (pt_entries t). entry_ready h d p" and "recovery_runs rnd h d d1" and "undisturbed v"
  shows "\<exists>d2. recoverPreparedTransactionsLocked rnd h v d1 = (Inr (), d2) \<and>
    (\<forall>p\<in>set (pt_entries t). state_hash h (dk_files d2 (entry_path p)) = je_new (fst p)) \<and>
    (\<forall>q. q \<notin> entry_path ` set (pt_entries t) \<longrightarrow> dk_files d2 q = dk_files d q) \<and>
    pending rnd h pid s d2 = [] \<and> dk_files (snd (recoverPreparedTransactionsLocked rnd h v d2)) = dk_files d2"
proof -
  have t: "well_loaded h t" using pending_facts(2) [OF assms(1)] assms(2) by simp
  note v = undisturbed_crash_only [OF assms(6)]
  have rolling: "rolling rnd h pid s d t d1" by (rule recovery_runs_rolling [OF assms(5,1-4)])
  obtain r d2 where run: "recoverPreparedTransactionsLocked rnd h v d1 = (r, d2)" by fastforce
  note step = rolling_step [OF rolling t assms(3,4) v run]
  then have r: "r = Inr ()" and none: "pending rnd h pid s d2 = []" using assms(6) by simp_all
  have d2: "intact rnd h pid s d2" "\<forall>p\<in>set (pt_entries t). entry_done h d2 p"
    using step(1) none by (simp_all add: rolling_def)
  obtain ts names where ts: "mset ts = mset (pending rnd h pid s d2)"
    and again: "recoverPreparedTransactionsLocked rnd h v d2 =
      perform (perform_each (check_transaction h) ts) (\<lambda>_. perform (perform_each (publishPreparedTransactionLocked h v) ts)
        (\<lambda>_ d. (Inr (), drop_dirs names d))) (drop_dirs (unjournaled d2) d2)"
    by (rule recover_run [OF d2(1)])
  have "dk_files (snd (recoverPreparedTransactionsLocked rnd h v d2)) = dk_files d2"
    using again ts none by (simp add: perform_Inr)
  moreover have "dk_files d2 q = dk_files d q" if "q \<notin> entry_path ` set (pt_entries t)" for q
    using step(1) that unfolding rolling_def by blast
  ultimately show ?thesis using run r none d2(2) by (auto simp: entry_done_def)
qed


section \<open>A concrete disk\<close>

definition sample_project :: project where
  "sample_project = \<lparr>pj_schema = SchemaProject, pj_id = sample_uuid 9, pj_name = ''p'', pj_created = sample_stamp, pj_root = ''.'',
     pj_extensions = []\<rparr>"

definition sample_project_file :: string where
  "sample_project_file = openingDelimiter @ ''kind = 1'' @ [newline] @ openingDelimiter @ ''notes'' @ [newline]"

definition sample_transaction_id :: string where
  "sample_transaction_id = ''01234567-0aab-7cde-8f01-020304050607''"

definition sample_path :: string where
  "sample_path = ''queues/queue_01234567-01ab-7cde-8f01-020304050607-t.md''"

definition sample_hash :: "string \<Rightarrow> string" where
  "sample_hash s = replicate 64 (if s = sample_file then CHR ''1'' else CHR ''2'')"

definition sample_journal :: journal where
  "sample_journal = \<lparr>jn_schema = transactionSchemaV2, jn_id = sample_transaction_id, jn_project = sample_uuid 9,
     jn_worktree = ''sha256:'' @ replicate 64 CHR ''3'', jn_operation = ''queue.delete'', jn_created = sample_stamp,
     jn_phase = transactionPhasePrepared,
     jn_entries = [\<lparr>je_path = sample_path, je_operation = TransactionDelete, je_old = ''sha256:'' @ replicate 64 CHR ''1'',
       je_new = absentHash, je_staged = [], je_staged_hash = absentHash\<rparr>]\<rparr>"

text \<open>A host that knows two records, two files and two journals; the transaction removes a file.\<close>

definition sample_tx_host :: tx_host where
  "sample_tx_host = codec_host.extend (sample_codec
      \<lparr>eh_read := (\<lambda>t. if t = ''kind = 1'' then Inr (RecProject sample_project) else eh_read sample_codec t),
       eh_write := (\<lambda>r. if r = RecProject sample_project then Some ''kind = 1'' else eh_write sample_codec r),
       eh_hash := sample_hash\<rparr>)
     \<lparr>th_encode_journal = (\<lambda>j. jn_phase j),
      th_decode_journal = (\<lambda>s. if s = ''prepared'' then Some sample_journal
        else if s = ''committed'' then Some (committed_journal sample_journal) else None),
      th_scope = Some (''sha256:'' @ replicate 64 CHR ''3'', False)\<rparr>"

definition sample_disk :: "string option \<Rightarrow> disk" where
  "sample_disk content = \<lparr>dk_files = (\<lambda>q. if q = ProjectFile then Some sample_project_file else if q = sample_path then content else None),
     dk_transactions = (\<lambda>ns. if ns = TransactionsV1 then []
       else [(sample_transaction_id, \<lparr>td_journal = Some ''prepared'', td_staged = Some [], td_other = []\<rparr>),
             (''01234567-0bab-7cde-8f01-020304050607'', \<lparr>td_journal = None, td_staged = Some [(''0000'', ''half'')], td_other = []\<rparr>)]),
     dk_reserved = []\<rparr>"

definition sample_pid :: uuid where "sample_pid = sample_uuid 9"

definition sample_scope :: scope where "sample_scope = (''sha256:'' @ replicate 64 CHR ''3'', False)"

text \<open>A run that crashes just before the commit mark, and an undisturbed one.\<close>

definition halting :: tx_env where
  "halting = \<lparr>th_hook = (\<lambda>s i q fs. (s \<noteq> StageTransactionCommitMark, fs)), th_atomic = (\<lambda>s q fs. (True, fs)),
     th_verify = (\<lambda>s q fs. (True, fs))\<rparr>"

definition calm :: tx_env where
  "calm = \<lparr>th_hook = (\<lambda>s i q fs. (True, fs)), th_atomic = (\<lambda>s q fs. (True, fs)), th_verify = (\<lambda>s q fs. (True, fs))\<rparr>"

lemma sample_runs: "crash_only halting" "undisturbed calm"
  by (simp_all add: crash_only_def undisturbed_def halting_def calm_def)

lemma sample_disk_intact: "intact Fin sample_tx_host sample_pid sample_scope (sample_disk c)"
proof -
  have "intact Fin sample_tx_host sample_pid sample_scope (sample_disk None)" by code_simp
  then show ?thesis by (simp add: intact_def intact_in_def canonicalProjectID_def sample_disk_def)
qed

theorem recovery_rolls_forward_witness:
  "\<exists>d1 d2. recoverPreparedTransactionsLocked Fin sample_tx_host halting (sample_disk (Some sample_file)) = (Inl (TransactionHookError StageTransactionCommitMark), d1) \<and>
     recoverPreparedTransactionsLocked Fin sample_tx_host calm d1 = (Inr (), d2) \<and>
     dk_files d2 sample_path = None \<and>
     dk_files d2 ProjectFile = Some sample_project_file"
proof -
  let ?d = "sample_disk (Some sample_file)" and ?h = sample_tx_host
  have "case pending Fin ?h sample_pid sample_scope ?d of
      [t] \<Rightarrow> committable ?h t \<and> list_all (entry_ready ?h ?d) (pt_entries t) \<and> map entry_path (pt_entries t) = [sample_path] \<and>
        map (je_new \<circ> fst) (pt_entries t) = [absentHash]
    | _ \<Rightarrow> False" by code_simp
  then obtain t where t: "pending Fin ?h sample_pid sample_scope ?d = [t]" "committable ?h t"
      "\<forall>p\<in>set (pt_entries t). entry_ready ?h ?d p" "map entry_path (pt_entries t) = [sample_path]"
      "map (je_new \<circ> fst) (pt_entries t) = [absentHash]"
    by (auto simp: list_all_iff split: list.splits)
  have "case recoverPreparedTransactionsLocked Fin ?h halting ?d of
      (Inl e, d1) \<Rightarrow> e = TransactionHookError StageTransactionCommitMark | _ \<Rightarrow> False" by code_simp
  then obtain d1 where d1: "recoverPreparedTransactionsLocked Fin ?h halting ?d = (Inl (TransactionHookError StageTransactionCommitMark), d1)"
    by (auto split: prod.splits sum.splits)
  have runs: "recovery_runs Fin ?h ?d d1" by (rule one_more [OF no_run sample_runs(1) d1])
  have "\<exists>p. pt_entries t = [p] \<and> entry_path p = sample_path \<and> je_new (fst p) = absentHash"
    using t(4,5) by (cases "pt_entries t") auto
  moreover have "ProjectFile \<noteq> sample_path" "dk_files ?d ProjectFile = Some sample_project_file"
    by (simp_all add: ProjectFile_def sample_path_def sample_disk_def)
  ultimately show ?thesis
    using recovery_rolls_forward [OF sample_disk_intact t(1-3) runs sample_runs(2)] d1 by auto
qed

theorem recovery_refuses_unrelated_edit_witness:
  "\<exists>r d'. recoverPreparedTransactionsLocked Fin sample_tx_host calm (sample_disk (Some ''edited'')) = (r, d') \<and>
     r \<noteq> Inr () \<and> dk_files d' sample_path = Some ''edited''"
proof -
  let ?d = "sample_disk (Some ''edited'')" and ?h = sample_tx_host
  have "list_ex (\<lambda>t. list_ex (\<lambda>p. \<not> entry_ready ?h ?d p) (pt_entries t)) (pending Fin ?h sample_pid sample_scope ?d)" by code_simp
  then obtain t p where t: "t \<in> set (pending Fin ?h sample_pid sample_scope ?d)" "p \<in> set (pt_entries t)" "\<not> entry_ready ?h ?d p"
    by (auto simp: list_ex_iff)
  obtain r d' where run: "recoverPreparedTransactionsLocked Fin ?h calm ?d = (r, d')" by fastforce
  have "dk_files ?d sample_path = Some ''edited''" by (simp add: sample_disk_def sample_path_def ProjectFile_def)
  with run recovery_refuses_unrelated_edit [OF sample_disk_intact t run] show ?thesis by auto
qed

text \<open>A host whose journals have exactly the size of the limit while they are prepared.\<close>

definition full_host :: tx_host where
  "full_host = sample_tx_host\<lparr>th_encode_journal := (\<lambda>j. replicate (if jn_phase j = transactionPhasePrepared
     then maxTransactionJournalSize else Suc maxTransactionJournalSize) CHR ''x'')\<rparr>"


end
