(* ===== verification/Exp_Layout_Theorems.thy ===== *)
theory Exp_Layout_Theorems
  imports Exp_Layout
begin

text \<open>
  What the layout promises: the path allocated for a new record is canonical, and reading it back
  gives the kind and the identity of the record.
\<close>

section \<open>The text of identifiers\<close>

text \<open>The layout also relies on the length of a printed UUID.\<close>

locale uuid_layout = uuid_library +
  assumes text_length: "length u = 16 \<Longrightarrow> length (text_of u) = 36"
begin

lemma text_chars: "length u = 16 \<Longrightarrow> list_all uuid_char (text_of u)"
  using text_hex [of u] by (auto simp: list_all_iff uuid_char_def)

end

definition host_layout :: "'h host_scheme \<Rightarrow> bool" where
  "host_layout h \<longleftrightarrow> uuid_layout (h_uuid_parse h) (h_uuid_text h) (h_uuid_version h) (h_uuid_rfc4122 h)"

interpretation std_layout: uuid_layout "h_uuid_parse std_host" "h_uuid_text std_host"
  "h_uuid_version std_host" "h_uuid_rfc4122 std_host"
  by unfold_locales (use std_text_shape in \<open>simp add: std_host_def\<close>)

lemma host_layout_std: "host_layout std_host"
  by (simp add: host_layout_def std_layout.uuid_layout_axioms)

lemma host_layout_uuids: "host_layout h \<Longrightarrow> host_uuids h"
  by (simp add: host_layout_def host_uuids_def uuid_layout_def)

lemma id_text:
  assumes "host_layout h" and "id_wf h i" and "IDPrefix (id_kind_of i) = Inr prefix"
  obtains t where "id_string h i = prefix @ t" "length t = 36" "list_all uuid_char t"
proof -
  have "length (id_uuid i) = 16" using assms(2) by (simp add: id_wf_def)
  then have "length (h_uuid_text h (id_uuid i)) = 36" "list_all uuid_char (h_uuid_text h (id_uuid i))"
    using uuid_layout.text_length uuid_layout.text_chars assms(1) unfolding host_layout_def by blast+
  with assms(3) id_wf_valid [OF assms(2)] show thesis by (intro that) (simp_all add: id_string_def)
qed

lemma ParseIDForKind_text:
  assumes "host_layout h" and "id_wf h i"
  shows "ParseIDForKind h (id_string h i) (id_kind_of i) = Inr i"
  using ParseID_id_string_aux [OF host_layout_uuids [OF assms(1)] assms(2)] by (simp add: ParseIDForKind_def)

section \<open>Plain components\<close>

definition plain :: "string \<Rightarrow> bool" where
  "plain w \<longleftrightarrow> w \<notin> {[], ''.'', ''..''} \<and> CHR ''/'' \<notin> set w \<and> CHR 0x5C \<notin> set w"

lemma split_on_plain: "CHR ''/'' \<notin> set w \<Longrightarrow> split_on CHR ''/'' w = [w]"
  by (induction w) (auto simp: split_on_def)

lemma split_join_plain: "ws \<noteq> [] \<Longrightarrow> list_all plain ws \<Longrightarrow> split_on CHR ''/'' (join_with CHR ''/'' ws) = ws"
proof (induction ws)
  case (Cons w ws)
  then show ?case
    using split_on_plain [of w] by (cases ws) (auto simp: plain_def split_by_append_sep join_with_Cons)
qed simp

lemma plain_components: "list_all plain ws \<Longrightarrow> component_code ws = None"
  by (auto simp: component_code_None_iff list_all_iff plain_def)

lemma set_join_with: "set (join_with sep ws) \<subseteq> insert sep (\<Union> (set ` set ws))"
  by (induction sep ws rule: join_with.induct) auto

lemma join_plain_head:
  assumes "ws \<noteq> []" "list_all plain ws"
  shows "\<not> has_prefix (join_with CHR ''/'' ws) ''/''" "CHR 0x5C \<notin> set (join_with CHR ''/'' ws)"
proof -
  show "\<not> has_prefix (join_with CHR ''/'' ws) ''/''"
    using assms by (cases ws; cases "tl ws"; cases "hd ws") (auto simp: plain_def has_prefix_def)
  show "CHR 0x5C \<notin> set (join_with CHR ''/'' ws)"
    using set_join_with [of "CHR ''/''" ws] assms(2) by (auto simp: list_all_iff plain_def)
qed

lemma path_join_plain: "ws \<noteq> [] \<Longrightarrow> list_all plain ws \<Longrightarrow> path_join ws = join_with CHR ''/'' ws"
proof -
  assume ws: "ws \<noteq> []" "list_all plain ws"
  then have "filter (\<lambda>p. p \<noteq> []) ws = ws" by (auto simp: filter_id_conv list_all_iff plain_def)
  with ws path_clean_proper [of "join_with CHR ''/'' ws"] show ?thesis
    by (simp add: path_join_def split_join_plain plain_components join_plain_head)
qed

text \<open>A path of two or more plain components is read by its components.\<close>

lemma ClassifyPath_plain:
  assumes "list_all plain (dir # w # ws)"
  shows "ClassifyPath h (join_with CHR ''/'' (dir # w # ws)) =
    (case map_of flatLayouts dir of
       Some (k, prefix) \<Rightarrow>
         if ws = [] then classify_flat h (join_with CHR ''/'' (dir # w # ws)) dir k prefix w
         else if dir = SourcesDir then Unrelated else Misplaced
     | None \<Rightarrow> classify_owned h (join_with CHR ''/'' (dir # w # ws)) dir (w # ws))"
proof -
  let ?p = "join_with CHR ''/'' (dir # w # ws)"
  have parts: "split_on CHR ''/'' ?p = dir # w # ws" using split_join_plain assms by blast
  have "?p \<noteq> q" if "split_on CHR ''/'' q = [x]" for q x
    using that parts by auto
  moreover have "split_on CHR ''/'' q = [q]" if "q \<in> {ProjectFile, PolicyFile} \<union> set generatedProjectionNames \<union> {[]}" for q
    using that by (auto simp: ProjectFile_def PolicyFile_def generatedProjectionNames_def split_on_def)
  ultimately have other: "?p \<notin> {ProjectFile, PolicyFile} \<union> set generatedProjectionNames \<union> {[]}" by blast
  have "path_clean ?p = ?p"
    using path_clean_proper [of ?p] parts plain_components [OF assms] join_plain_head [OF _ assms] by simp
  with other parts join_plain_head [OF _ assms] show ?thesis
    unfolding ClassifyPath_def by (auto split: list.split option.split prod.split)
qed

section \<open>File and directory names\<close>

definition safe :: "string \<Rightarrow> bool" where
  "safe w \<longleftrightarrow> CHR ''/'' \<notin> set w \<and> CHR 0x5C \<notin> set w"

lemma safe_append [simp]: "safe (v @ w) \<longleftrightarrow> safe v \<and> safe w"
  by (auto simp: safe_def)

lemma safe_Cons [simp]: "safe (c # w) \<longleftrightarrow> c \<noteq> CHR ''/'' \<and> c \<noteq> CHR 0x5C \<and> safe w" "safe []"
  by (auto simp: safe_def)

lemma safe_plain: "safe w \<Longrightarrow> 2 < length w \<Longrightarrow> plain w"
  by (auto simp: safe_def plain_def)

lemma safe_uuid: "list_all uuid_char t \<Longrightarrow> safe t"
  by (auto simp: safe_def list_all_iff uuid_char_def lower_hex_def byte_def)

lemma safe_slug: "validSlug s \<Longrightarrow> safe s"
  using slug_run_chars by (fastforce simp: safe_def validSlug_run slug_char_def lower_alnum_def byte_def)

lemma safe_prefix: "IDPrefix k = Inr p \<Longrightarrow> safe p"
  by (cases k) auto

lemma Slug_valid: "validSlug (Slug title fallback)"
proof -
  have "validSlug ''record''" by (simp add: validSlug_def split_on_def word_of_def lower_alnum_def byte_def)
  then show ?thesis by (simp add: Slug_def Let_def)
qed

lemma name_head_text: "length t = 36 \<Longrightarrow> list_all uuid_char t \<Longrightarrow> name_head p (p @ t)"
  by (simp add: name_head_def)

lemma name_match_text:
  assumes "length t = 36" "list_all uuid_char t" "validSlug s"
  shows "name_match p (p @ t @ ''-'' @ s @ ''.md'') = Some (p @ t, s)"
  using assms by (simp add: name_match_def name_head_text has_prefix_def has_suffix_def)

lemma attempt_name_text:
  assumes "length t = 36" "list_all uuid_char t"
  shows "attempt_name (''att_'' @ t @ ''.md'') = Some (''att_'' @ t)"
proof -
  have "take 40 (''att_'' @ t @ ''.md'') = ''att_'' @ t" "drop 40 (''att_'' @ t @ ''.md'') = ''.md''"
    using assms(1) by simp_all
  then show ?thesis using name_head_text [OF assms, of "''att_''"] by (simp add: attempt_name_def)
qed

lemma takeWhile_hex: "list_all lower_hex x \<Longrightarrow> takeWhile (\<lambda>c. c \<noteq> CHR ''-'') (x @ CHR ''-'' # s) = x"
  by (induction x) (auto dest: lower_hex_not_dash)

lemma dir_match_text:
  assumes "list_all lower_hex x" "8 \<le> length x" "length x \<le> 32" "validSlug s"
  shows "dir_match p (p @ x @ ''-'' @ s) = Some (x, s)"
  using assms takeWhile_hex [OF assms(1), of s] by (simp add: dir_match_def has_prefix_def)

section \<open>Reading allocated paths back\<close>

lemma classify_flat_path:
  assumes h: "host_layout h" and i: "id_wf h i" and layout: "map_of flatLayouts dir = Some (id_kind_of i, prefix)"
    and "IDPrefix (id_kind_of i) = Inr prefix" and "plain dir" and s: "validSlug s"
    and p: "p = path_join [dir, id_string h i @ ''-'' @ s @ ''.md'']"
  shows "ClassifyPath h p =
    Canonical (no_location\<lparr>lo_relative := p, lo_slug := s, lo_kind := id_kind_of i, lo_id := i\<rparr>)"
proof -
  from id_text [OF h i assms(4)] obtain t where t: "id_string h i = prefix @ t" "length t = 36" "list_all uuid_char t" .
  let ?name = "prefix @ t @ ''-'' @ s @ ''.md''"
  have "plain ?name"
    using safe_prefix [OF assms(4)] safe_uuid [OF t(3)] safe_slug [OF s] t(2) by (intro safe_plain) simp_all
  with assms(5) have plain: "list_all plain [dir, ?name]" by simp
  then have "ClassifyPath h p = classify_flat h p dir (id_kind_of i) prefix ?name"
    using ClassifyPath_plain [OF plain] path_join_plain [OF _ plain] layout p t(1) by simp
  also have "\<dots> = with_id h (id_string h i) (id_kind_of i) (no_location\<lparr>lo_relative := p, lo_slug := s\<rparr>)"
    using name_match_text [OF t(2,3) s, of prefix] t(1) by (simp add: classify_flat_def)
  finally show ?thesis using ParseIDForKind_text [OF h i] by (simp add: with_id_def)
qed

text \<open>What a canonical owner directory looks like.\<close>

lemma dir_match_Some:
  assumes "dir_match p d = Some (x, s)"
  shows "d = p @ x @ ''-'' @ s" "list_all lower_hex x" "8 \<le> length x" "length x \<le> 32" "validSlug s"
proof -
  let ?rest = "drop (length p) d" and ?hex = "takeWhile (\<lambda>c. c \<noteq> CHR ''-'') (drop (length p) d)"
  let ?slug = "drop (length ?hex) ?rest"
  from assms have d: "has_prefix d p" "has_prefix ?slug ''-''" "x = ?hex" "s = drop 1 ?slug"
    and "list_all lower_hex x" "8 \<le> length x" "length x \<le> 32" "validSlug s"
    by (auto simp: dir_match_def Let_def split: if_splits)
  then show "list_all lower_hex x" "8 \<le> length x" "length x \<le> 32" "validSlug s" by simp_all
  have "?rest = ?hex @ ?slug" by (metis takeWhile_eq_take append_take_drop_id)
  moreover have "?slug = ''-'' @ drop 1 ?slug" "d = p @ ?rest"
    using d(1,2) by (metis append_take_drop_id has_prefix_def length_Cons list.size(3) One_nat_def)+
  ultimately show "d = p @ x @ ''-'' @ s" using d(3,4) by metis
qed

lemma dir_match_plain: "dir_match p d = Some (x, s) \<Longrightarrow> safe p \<Longrightarrow> plain d"
  using dir_match_Some [of p d x s] safe_slug [of s] safe_uuid [of x]
  by (intro safe_plain) (auto simp: list_all_iff uuid_char_def)

lemma with_id_dirs:
  "with_id h t k base = Canonical l \<Longrightarrow>
     lo_experiment_dir l = lo_experiment_dir base \<and> lo_try_dir l = lo_try_dir base"
  by (auto simp: with_id_def split: sum.splits)

lemma classify_nested_dirs:
  "classify_nested h b base rest = Canonical l \<Longrightarrow>
     lo_experiment_dir l = lo_experiment_dir base \<and> lo_try_dir l = lo_try_dir base"
  by (auto simp: classify_nested_def split: if_splits option.splits dest: with_id_dirs)

lemma classify_owned_dirs:
  assumes "classify_owned h p dir rest = Canonical l"
  shows "lo_experiment_dir l \<noteq> [] \<Longrightarrow> dir_match ''e-'' (lo_experiment_dir l) \<noteq> None"
    and "lo_try_dir l \<noteq> [] \<Longrightarrow> dir_match ''t-'' (lo_try_dir l) \<noteq> None"
  using assms
  by (auto simp: classify_owned_def no_location_def split: option.splits if_splits dest!: classify_nested_dirs)

lemma ClassifyPath_dirs:
  assumes "ClassifyPath h p = Canonical l"
  shows "lo_experiment_dir l \<noteq> [] \<Longrightarrow> dir_match ''e-'' (lo_experiment_dir l) \<noteq> None"
    and "lo_try_dir l \<noteq> [] \<Longrightarrow> dir_match ''t-'' (lo_try_dir l) \<noteq> None"
proof -
  have flat: "lo_experiment_dir l = [] \<and> lo_try_dir l = []"
    if "classify_flat h p dir k prefix name = Canonical l" for dir k prefix name
    using that by (auto simp: classify_flat_def no_location_def split: option.splits if_splits dest!: with_id_dirs)
  have "(lo_experiment_dir l = [] \<and> lo_try_dir l = []) \<or> (\<exists>dir rest. classify_owned h p dir rest = Canonical l)"
    using assms flat unfolding ClassifyPath_def
    by (fastforce simp: no_location_def split: if_splits list.splits option.splits)
  then show "lo_experiment_dir l \<noteq> [] \<Longrightarrow> dir_match ''e-'' (lo_experiment_dir l) \<noteq> None"
    and "lo_try_dir l \<noteq> [] \<Longrightarrow> dir_match ''t-'' (lo_try_dir l) \<noteq> None"
    using classify_owned_dirs by blast+
qed

lemma not_flat: "map_of flatLayouts (''e-'' @ x) = None" "map_of flatLayouts (''t-'' @ x) = None"
  by (simp_all add: flatLayouts_def)

text \<open>Paths under an Experiment or a Try directory.\<close>

lemma classify_owned_path:
  assumes d: "dir_match ''e-'' d = Some (x, s)" and ws: "ws \<noteq> []" "list_all plain ws" and p: "p = path_join (d # ws)"
  shows "ClassifyPath h p = classify_nested h True
    (no_location\<lparr>lo_relative := p, lo_slug := s, lo_experiment_dir := d, lo_experiment_prefix := x\<rparr>) ws"
proof -
  obtain w ws' where ws': "ws = w # ws'" using ws(1) by (cases ws) auto
  have plain: "list_all plain (d # w # ws')" using dir_match_plain [OF d] ws ws' by simp
  have "map_of flatLayouts d = None" using dir_match_Some(1) [OF d] not_flat by simp
  with d show ?thesis
    using ClassifyPath_plain [OF plain] path_join_plain [OF _ plain] p ws' by (simp add: classify_owned_def)
qed

lemma classify_try_path:
  assumes d: "dir_match ''t-'' d = Some (x, s)" and ws: "ws \<noteq> []" "list_all plain ws" and p: "p = path_join (d # ws)"
  shows "ClassifyPath h p = classify_nested h False
    (no_location\<lparr>lo_relative := p, lo_slug := s, lo_try_dir := d, lo_try_prefix := x\<rparr>) ws"
proof -
  obtain w ws' where ws': "ws = w # ws'" using ws(1) by (cases ws) auto
  have plain: "list_all plain (d # w # ws')" using dir_match_plain [OF d] ws ws' by simp
  have "map_of flatLayouts d = None" "dir_match ''e-'' d = None"
    using dir_match_Some(1) [OF d] not_flat by (simp_all add: dir_match_def has_prefix_def)
  with d show ?thesis
    using ClassifyPath_plain [OF plain] path_join_plain [OF _ plain] p ws' by (simp add: classify_owned_def)
qed

lemma plain_fixed: "plain ''REPORT.md''" "plain ''TRY.md''" "plain ''runs''" "plain ''attempts''"
  by (simp_all add: plain_def)

section \<open>The path of a new record\<close>

definition allocated :: "'h host_scheme \<Rightarrow> research_record \<Rightarrow> string \<Rightarrow> bool" where
  "allocated h r p \<longleftrightarrow>
     (\<exists>l. ClassifyPath h p = Canonical l \<and> lo_relative l = p \<and> (\<forall>d. d_record d = Some r \<longrightarrow> ValidateDocumentPath h l d))"

lemma allocated_flat:
  assumes "host_layout h" "id_wf h (c_id c)" "GetID r = Some (c_id c)" "id_kind_of (c_id c) = GetKind r"
    and "\<exists>prefix. map_of flatLayouts dir = Some (GetKind r, prefix) \<and> IDPrefix (GetKind r) = Inr prefix" "plain dir"
    and "GetKind r \<notin> {KindExperiment, KindTry}"
  shows "allocated h r (flat_path h dir fallback c)"
  using classify_flat_path [of h "c_id c" dir _ "Slug (c_title c) fallback"] assms Slug_valid
  by (auto simp: allocated_def flat_path_def ValidateDocumentPath_def document_kind_def document_id_def)

lemma to_lower_ascii: "ascii s \<Longrightarrow> to_lower s = map lower_char s"
proof -
  assume s: "ascii s"
  then have "\<forall>c \<in> set s. lower_chunk (Chunk True (byte c) [c]) = [lower_char c]"
    by (auto simp: lower_chunk_def ascii_def list_all_iff)
  then have "map lower_chunk (map (\<lambda>c. Chunk True (byte c) [c]) s) = map (\<lambda>c. [lower_char c]) s" by simp
  with s show ?thesis unfolding to_lower_def by (simp add: utf8_chunks_ascii concat_map_single del: map_map)
qed

lemma lower_upper_hex: "lower_hex c \<Longrightarrow> lower_char (upper_char c) = c"
  by (subst byte_inject [symmetric]) (use byte_less [of c] in \<open>auto simp: lower_char_def byte_upper_char lower_hex_def byte_char_of\<close>)

lemma to_lower_upper_hex:
  assumes "list_all lower_hex x"
  shows "to_lower (map upper_char x) = x"
proof -
  have "ascii (map upper_char x)"
    using assms by (auto simp: ascii_def list_all_iff byte_upper_char lower_hex_def split: if_splits)
  then show ?thesis using assms by (simp add: to_lower_ascii map_idI lower_upper_hex list_all_iff)
qed

lemma experiment_code_prefix:
  assumes "host_layout h" "id_wf h i" "id_kind_of i = KindExperiment" and "experiment_code h v i = Some x"
  shows "\<exists>n. 8 \<le> n \<and> n \<le> 32 \<and> x = take n (UUIDHex h i)"
proof -
  have hex: "length (UUIDHex h i) = 32" "list_all lower_hex (UUIDHex h i)"
    using UUIDHex_props [OF host_layout_uuids [OF assms(1)]] assms(2) by (simp_all add: id_wf_def)
  obtain code where "DisplayCode h i (map (\<lambda>d. \<lparr>rc_id = (case document_id d of None \<Rightarrow> zero_id | Some j \<Rightarrow> j), rc_aliases = []\<rparr>)
      (OfKind h v KindExperiment)) = Inr code" and x: "x = to_lower (trim_prefix code ''E-'')"
    using assms(4) by (auto simp: experiment_code_def split: sum.splits)
  from DisplayCode_Inr [OF this(1)] obtain n where n: "8 \<le> n" "n \<le> 32"
    and code: "code = ''E-'' @ map upper_char (take n (UUIDHex h i))"
    using hex(1) assms(3) by (auto simp: take_map)
  have "list_all lower_hex (take n (UUIDHex h i))" using hex(2) by (auto simp: list_all_iff dest: in_set_takeD)
  then have "x = take n (UUIDHex h i)" using x by (simp add: code to_lower_upper_hex del: append_Cons append_Nil)
  with n show ?thesis by blast
qed

lemma owner_dir_Some:
  assumes "\<And>q l. in_locations v q = Some l \<Longrightarrow> ClassifyPath h q = Canonical l" and "owner_dir v i f = Some d"
  shows "\<exists>q l. ClassifyPath h q = Canonical l \<and> f l = d \<and> d \<noteq> []"
  using assms by (auto simp: owner_dir_def Location_def split: sum.splits option.splits if_splits)

lemma plain_record_name:
  assumes "host_layout h" "id_wf h i" "IDPrefix (id_kind_of i) = Inr prefix"
  obtains t where "id_string h i = prefix @ t" "length t = 36" "list_all uuid_char t" "plain (prefix @ t @ ''.md'')"
    "\<And>s. validSlug s \<Longrightarrow> plain (prefix @ t @ ''-'' @ s @ ''.md'')"
proof -
  from id_text [OF assms] obtain t where t: "id_string h i = prefix @ t" "length t = 36" "list_all uuid_char t" .
  show thesis
    by (rule that [OF t]; rule safe_plain)
      (use t safe_prefix [OF assms(3)] safe_uuid [OF t(3)] safe_slug in simp_all)
qed

lemma allocated_run:
  assumes h: "host_layout h" and i: "id_wf h (c_id r)" "id_kind_of (c_id r) = KindRun" "GetID (RecRun r) = Some (c_id r)"
    and d: "dir_match ''e-'' d = Some (x, s)"
  shows "allocated h (RecRun r) (path_join [d, ''runs'', id_string h (c_id r) @ ''-'' @ Slug (c_title r) ''run'' @ ''.md''])"
proof -
  obtain t where t: "id_string h (c_id r) = ''run_'' @ t" "length t = 36" "list_all uuid_char t"
    and plain: "\<And>s. validSlug s \<Longrightarrow> plain (''run_'' @ t @ ''-'' @ s @ ''.md'')"
    using plain_record_name [OF h i(1), of "''run_''"] i(2) by auto
  let ?s = "Slug (c_title r) ''run''"
  have ws: "list_all plain [''runs'', ''run_'' @ t @ ''-'' @ ?s @ ''.md'']"
    using plain [OF Slug_valid] plain_fixed by simp
  show ?thesis
    using classify_owned_path [OF d _ ws refl, of h] name_match_text [OF t(2,3) Slug_valid, of "''run_''" "c_title r" "''run''"]
      ParseIDForKind_text [OF h i(1)] i(2,3) t(1)
    by (auto simp: allocated_def classify_nested_def with_id_def ValidateDocumentPath_def document_kind_def document_id_def)
qed

lemma allocated_attempt:
  assumes h: "host_layout h" and i: "id_wf h (c_id r)" "id_kind_of (c_id r) = KindAttempt" "GetID (RecAttempt r) = Some (c_id r)"
    and d: "dir_match ''e-'' d = Some (x, s) \<or> dir_match ''t-'' d = Some (x, s)"
  shows "allocated h (RecAttempt r) (path_join [d, ''attempts'', id_string h (c_id r) @ ''.md''])"
proof -
  obtain t where t: "id_string h (c_id r) = ''att_'' @ t" "length t = 36" "list_all uuid_char t" "plain (''att_'' @ t @ ''.md'')"
    using plain_record_name [OF h i(1), of "''att_''"] i(2) by auto
  have ws: "list_all plain [''attempts'', ''att_'' @ t @ ''.md'']" using t(4) plain_fixed by simp
  from d show ?thesis
  proof
    assume "dir_match ''e-'' d = Some (x, s)"
    from classify_owned_path [OF this _ ws refl, of h] show ?thesis
      using attempt_name_text [OF t(2,3)] ParseIDForKind_text [OF h i(1)] i(2,3) t(1)
      by (auto simp: allocated_def classify_nested_def with_id_def ValidateDocumentPath_def document_kind_def document_id_def)
  next
    assume "dir_match ''t-'' d = Some (x, s)"
    from classify_try_path [OF this _ ws refl, of h] show ?thesis
      using attempt_name_text [OF t(2,3)] ParseIDForKind_text [OF h i(1)] i(2,3) t(1)
      by (auto simp: allocated_def classify_nested_def with_id_def ValidateDocumentPath_def document_kind_def document_id_def)
  qed
qed

lemma allocated_try:
  assumes h: "host_layout h" and i: "id_wf h (c_id r)" "GetID (RecTry r) = Some (c_id r)"
  shows "allocated h (RecTry r) (path_join [''t-'' @ UUIDHex h (c_id r) @ ''-'' @ Slug (c_title r) ''try'', ''TRY.md''])"
proof -
  have "length (UUIDHex h (c_id r)) = 32" "list_all lower_hex (UUIDHex h (c_id r))"
    using UUIDHex_props [OF host_layout_uuids [OF h]] i(1) by (simp_all add: id_wf_def)
  then have d: "dir_match ''t-'' (''t-'' @ UUIDHex h (c_id r) @ ''-'' @ Slug (c_title r) ''try'') =
      Some (UUIDHex h (c_id r), Slug (c_title r) ''try'')"
    by (intro dir_match_text Slug_valid) simp_all
  have "list_all plain [''TRY.md'']" using plain_fixed by simp
  from classify_try_path [OF d _ this refl, of h] i show ?thesis
    by (auto simp: allocated_def classify_nested_def ValidateDocumentPath_def document_kind_def document_id_def has_prefix_def)
qed

lemma allocated_experiment:
  assumes h: "host_layout h" and i: "id_wf h (c_id r)" "id_kind_of (c_id r) = KindExperiment" "GetID (RecExperiment r) = Some (c_id r)"
    and x: "experiment_code h v (c_id r) = Some x"
  shows "allocated h (RecExperiment r) (path_join [''e-'' @ x @ ''-'' @ Slug (c_title r) ''experiment'', ''REPORT.md''])"
proof -
  obtain n where n: "8 \<le> n" "n \<le> 32" "x = take n (UUIDHex h (c_id r))" using experiment_code_prefix [OF h i(1,2) x] by blast
  moreover have "length (UUIDHex h (c_id r)) = 32" "list_all lower_hex (UUIDHex h (c_id r))"
    using UUIDHex_props [OF host_layout_uuids [OF h]] i(1) by (simp_all add: id_wf_def)
  ultimately have hex: "list_all lower_hex x" "8 \<le> length x" "length x \<le> 32" "has_prefix (UUIDHex h (c_id r)) x"
    by (auto simp: list_all_iff has_prefix_def dest: in_set_takeD)
  have "list_all plain [''REPORT.md'']" using plain_fixed by simp
  from classify_owned_path [OF dir_match_text [OF hex(1-3) Slug_valid] _ this refl, of h] i(3) hex(4) show ?thesis
    by (auto simp: allocated_def classify_nested_def ValidateDocumentPath_def document_kind_def document_id_def)
qed

lemmas layout_simps = flatLayouts_def plain_def SourcesDir_def

lemma nonzero_Some: "nonzero j = Some i \<longleftrightarrow> j = i \<and> \<not> id_is_zero i"
  by (auto simp: nonzero_def)

lemma PathForNew_allocated:
  assumes h: "host_layout h" and i: "GetID r = Some i" "id_wf h i" "id_kind_of i = GetKind r"
    and loc: "\<And>q l. in_locations v q = Some l \<Longrightarrow> ClassifyPath h q = Canonical l"
    and p: "PathForNew h v (Some r) = Some p"
  shows "allocated h r p"
proof -
  have path: "path_of h v r = Some p" using p i by (auto simp: PathForNew_def split: if_splits)
  have own: "\<exists>x s. dir_match ''e-'' d = Some (x, s)" if "owner_dir v j lo_experiment_dir = Some d" for j d
    using owner_dir_Some [OF loc that] ClassifyPath_dirs(1) by force
  have own_try: "\<exists>x s. dir_match ''t-'' d = Some (x, s)" if "owner_dir v j lo_try_dir = Some d" for j d
    using owner_dir_Some [OF loc that] ClassifyPath_dirs(2) by force
  show ?thesis
  proof (cases r)
    case (RecRun x)
    with path i obtain d where d: "owner_dir v (ru_experiment x) lo_experiment_dir = Some d" "c_id x = i"
      "p = path_join [d, ''runs'', id_string h (c_id x) @ ''-'' @ Slug (c_title x) ''run'' @ ''.md'']"
      by (auto simp: nonzero_Some)
    show ?thesis using allocated_run [OF h, of x] own [OF d(1)] d(2,3) i RecRun by auto
  next
    case (RecAttempt x)
    with path i obtain d where d: "owner_dir v (at_try x) lo_try_dir = Some d \<or> owner_dir v (at_run x) lo_experiment_dir = Some d"
      "c_id x = i" "p = path_join [d, ''attempts'', id_string h (c_id x) @ ''.md'']"
      by (auto simp: nonzero_Some split: if_splits)
    from d(1) own own_try obtain y s where "dir_match ''e-'' d = Some (y, s) \<or> dir_match ''t-'' d = Some (y, s)" by metis
    then show ?thesis using allocated_attempt [OF h, of x] d(2,3) i RecAttempt by auto
  next
    case (RecTry x)
    then show ?thesis using path i allocated_try [OF h, of x] by (simp add: nonzero_Some)
  next
    case (RecExperiment x)
    then show ?thesis using path i allocated_experiment [OF h, of x v] by (auto simp: nonzero_Some)
  qed (use path i in \<open>auto simp: nonzero_Some layout_simps intro!: allocated_flat h\<close>)
qed

text \<open>
  C20: paths and records agree: the path allocated for a new record is canonical, it is read back as
  a path of the record's kind, and the identity it encodes (the identifier, or for an Experiment or
  a Try a prefix of its hexadecimal digits) is the record's, so the layout check accepts it.
\<close>

theorem PathForNew_canonical:
  assumes "host_layout h" and "GetID r = Some i" and "id_wf h i" and "id_kind_of i = GetKind r"
    and "\<And>q l. in_locations v q = Some l \<Longrightarrow> ClassifyPath h q = Canonical l"
    and "PathForNew h v (Some r) = Some p" and "d_record d = Some r"
  shows "\<exists>l. ClassifyPath h p = Canonical l \<and> lo_relative l = p \<and> ValidateDocumentPath h l d"
  using PathForNew_allocated [OF assms(1-6)] assms(7) unfolding allocated_def by blast

definition empty_inventory :: inventory where
  "empty_inventory = \<lparr>in_project = None, in_policy = None, in_documents = [], in_diagnostics = [], in_locations = (\<lambda>_. None)\<rparr>"

definition sample_try :: try_record where
  "sample_try = \<lparr>c_schema = SchemaTry, c_id = sample_id KindTry 1, c_title = ''A Try, 2nd!'', c_created = sample_stamp,
     c_updated = sample_stamp, c_aliases = [], c_tags = [], ty_state = TryOpen, ty_goal = ''g'', ty_sources = [],
     ty_conclusion = None, ty_abandonment = None, ty_adopted = zero_id, ty_extensions = []\<rparr>"

theorem PathForNew_canonical_witness:
  "PathForNew std_host empty_inventory (Some (RecTry sample_try)) =
     Some ''t-0123456701ab7cde8f01020304050607-a-try-2nd/TRY.md'' \<and>
   (\<exists>l. ClassifyPath std_host ''t-0123456701ab7cde8f01020304050607-a-try-2nd/TRY.md'' = Canonical l \<and>
      ValidateDocumentPath std_host l \<lparr>d_record = Some (RecTry sample_try), d_body = [], d_path = [], d_revision = []\<rparr>)"
proof -
  have path: "PathForNew std_host empty_inventory (Some (RecTry sample_try)) =
      Some ''t-0123456701ab7cde8f01020304050607-a-try-2nd/TRY.md''" by code_simp
  have wf: "id_wf std_host (sample_id KindTry 1)"
    using sample_not_nil [of 1]
    by (simp add: id_wf_def id_kind_def sample_id_def IsNative_def std_host_def id_is_zero_def)
      (simp add: sample_uuid_def)
  have "GetID (RecTry sample_try) = Some (sample_id KindTry 1)"
    using sample_not_nil [of 1] by (simp add: sample_try_def nonzero_def id_is_zero_def sample_id_def)
  from PathForNew_canonical [OF host_layout_std this wf _ _ path,
      of "\<lparr>d_record = Some (RecTry sample_try), d_body = [], d_path = [], d_revision = []\<rparr>"] path
  show ?thesis by (auto simp: sample_id_def empty_inventory_def)
qed

end
