(* ===== verification/Exp_Op_Control_Theorems.thy ===== *)
theory Exp_Op_Control_Theorems
  imports Exp_Op_Submit_Theorems
begin

text \<open>
  Leadership and control: leases exclude other holders and fence superseded ones, the dispatch
  gate, what happens at and after the expiry of a lease, the pause switch, idempotent operations
  and the hash chain of the events.
\<close>

section \<open>Leases\<close>

lemma lease_lookup: "leases_ok rows \<Longrightarrow> lookup_row le_subject k rows = Some r \<longleftrightarrow> r \<in> set rows \<and> le_subject r = k"
  by (intro lookup_row_iff) (simp add: leases_ok_def)

lemma write_lease_lookup:
  assumes "leases_ok rows"
  shows "lookup_row le_subject k (write_lease l rows) = (if k = le_subject l then Some l else lookup_row le_subject k rows)"
proof (cases "list_ex (\<lambda>r. le_subject r = le_subject l) rows")
  case True
  then have "write_lease l rows = update_where (\<lambda>r. le_subject r = le_subject l) (\<lambda>_. l) rows"
    by (simp only: write_lease_def if_True)
  moreover have "lookup_row le_subject k (update_where (\<lambda>r. le_subject r = le_subject l) (\<lambda>_. l) rows) =
      (if k = le_subject l then (if \<exists>r \<in> set rows. le_subject r = k then Some l else None) else lookup_row le_subject k rows)"
    unfolding update_where_def lookup_row_def by (induction rows) auto
  moreover have "\<exists>r \<in> set rows. le_subject r = le_subject l" using True by (simp only: list_ex_iff)
  ultimately show ?thesis by simp
next
  case False
  then have "write_lease l rows = rows @ [l]" by (simp only: write_lease_def if_False)
  moreover have "lookup_row le_subject (le_subject l) rows = None"
    using False by (simp add: lookup_row_def find_None_iff_all list_ex_iff)
  ultimately show ?thesis by (auto simp: lookup_row_append split: option.splits)
qed

lemma AcquireLease_Inr:
  assumes "AcquireLease h clock subject holder ttl s = Inr (l, s1)"
  shows "le_subject l = subject \<and> le_holder l = holder \<and> le_updated l = op_utc clock \<and>
    le_expires l = op_utc (time_add (op_utc clock) ttl) \<and>
    st_leases s1 = write_lease l (st_leases s) \<and> st_runtime s1 = st_runtime s \<and> 0 < ttl \<and>
    le_token l = (case lookup_row le_subject subject (st_leases s) of None \<Rightarrow> 1 | Some r \<Rightarrow> le_token r + 1) \<and>
    (\<forall>r. lookup_row le_subject subject (st_leases s) = Some r \<longrightarrow>
       le_holder r = holder \<or> \<not> time_after (le_expires r) (op_utc clock))"
  using assms append_event_table(3)
  by (auto simp: AcquireLease_def Let_def appendEventTx_def store_event_def result_iffs split: option.splits)

lemma rows_affected_lease:
  assumes "leases_ok rows"
  shows "rows_affected (lease_matches l) rows = 1 \<longleftrightarrow> (\<exists>r \<in> set rows. lease_matches l r)"
    and "rows_affected (dispatch_matches l now) rows = 1 \<longleftrightarrow> (\<exists>r \<in> set rows. dispatch_matches l now r)"
  by (rule rows_affected_one_iff [where key = le_subject and k = "le_subject l"];
      use assms in \<open>simp add: leases_ok_def lease_matches_def dispatch_matches_def\<close>)+

text \<open>
  C12: while a lease is unexpired no other holder can acquire its subject; a lease that is acquired
  carries a token above the one it replaces, and from then on every lease value of the subject with
  another holder or token is fenced: it can neither be renewed nor released, and a dispatch under
  it fails before the scheduler is called.
\<close>

theorem AcquireLease_excludes_and_fences:
  assumes "reachable_store h s"
  shows "case AcquireLease h clock subject holder ttl s of
      Inl e \<Rightarrow> True
    | Inr (l, s1) \<Rightarrow>
        (\<forall>r \<in> set (st_leases s). le_subject r = subject \<longrightarrow>
          le_token r < le_token l \<and> (le_holder r \<noteq> holder \<longrightarrow> \<not> time_after (le_expires r) (op_utc clock))) \<and>
        (\<forall>old. le_subject old = subject \<and> (le_holder old \<noteq> holder \<or> le_token old \<noteq> le_token l) \<longrightarrow>
          RenewLease later old ttl s1 = Inl ErrFenced \<and> ReleaseLease old s1 = Inl ErrFenced \<and>
          WithDispatchLease later old ttl (Some act) s1 w = (Inl ErrFenced, w))"
proof (cases "AcquireLease h clock subject holder ttl s")
  case (Inl e)
  then show ?thesis by simp
next
  case (Inr v)
  obtain l s1 where v: "v = (l, s1)" by (cases v)
  note run = Inr [unfolded v]
  have ok: "store_ok h s" using reachable_ok [OF assms] .
  have leases: "leases_ok (st_leases s)" "leases_ok (st_leases s1)"
    using ok acquire.keeps [OF ok run] by (simp_all add: store_ok_def)
  note l = AcquireLease_Inr [OF run]
  have row: "lookup_row le_subject subject (st_leases s1) = Some l"
    using l write_lease_lookup [OF leases(1)] by simp
  have nomatch: "\<not> lease_matches old r" if "le_subject old = subject" "le_holder old \<noteq> holder \<or> le_token old \<noteq> le_token l"
    "r \<in> set (st_leases s1)" for old r
  proof
    assume "lease_matches old r"
    then have "le_subject r = subject" "le_holder r = le_holder old" "le_token r = le_token old"
      using that(1) by (simp_all add: lease_matches_def)
    moreover from this have "r = l" using that(3) row lease_lookup [OF leases(2)] by (metis option.inject)
    ultimately show False using that(2) l by metis
  qed
  have fenced: "rows_affected (lease_matches old) (st_leases s1) = 0" "rows_affected (dispatch_matches old n) (st_leases s1) = 0"
    if "le_subject old = subject" "le_holder old \<noteq> holder \<or> le_token old \<noteq> le_token l" for old n
    using nomatch [OF that] by (simp_all add: rows_affected_0 dispatch_matches_def)
  have before: "le_token r < le_token l \<and> (le_holder r \<noteq> holder \<longrightarrow> \<not> time_after (le_expires r) (op_utc clock))"
    if "r \<in> set (st_leases s)" "le_subject r = subject" for r
  proof -
    have "lookup_row le_subject subject (st_leases s) = Some r" using that lease_lookup [OF leases(1)] by blast
    with l have "le_token l = le_token r + 1" "le_holder r = holder \<or> \<not> time_after (le_expires r) (op_utc clock)"
      by simp_all
    then show ?thesis by auto
  qed
  have "0 < ttl" using l by blast
  then have "RenewLease later old ttl s1 = Inl ErrFenced \<and> ReleaseLease old s1 = Inl ErrFenced \<and>
      WithDispatchLease later old ttl (Some act) s1 w = (Inl ErrFenced, w)"
    if "le_subject old = subject" "le_holder old \<noteq> holder \<or> le_token old \<noteq> le_token l" for old
    using fenced [OF that] by (simp add: RenewLease_def ReleaseLease_def WithDispatchLease_def Let_def)
  with before show ?thesis unfolding Inr v by simp
qed

definition led_store :: op_store where
  "led_store = after (AcquireLease plain_host sample_clock ''daemon'' ''A'' 60000000000) initial_store"

lemma led_reachable: "reachable_store plain_host led_store"
  unfolding led_store_def by (intro reach_step [OF reach_initial] step_acquire)

definition led_lease :: lease where
  "led_lease = \<lparr>le_subject = ''daemon'', le_holder = ''A'', le_token = 1,
     le_expires = GoTime 63000000060000000000 0, le_updated = sample_clock\<rparr>"

lemma led_acquire: "AcquireLease plain_host sample_clock ''daemon'' ''A'' 60000000000 initial_store = Inr (led_lease, led_store)"
proof -
  have "validateIdentifier ''daemon''" "validateIdentifier ''A''" by code_simp+
  then have "\<exists>s1. AcquireLease plain_host sample_clock ''daemon'' ''A'' 60000000000 initial_store = Inr (led_lease, s1)"
    by (simp add: AcquireLease_def initial_store_def lookup_row_def appendEventTx_def store_event_def led_lease_def Let_def
        sample_clock_def op_utc_def time_is_zero_def time_add_def)
  then show ?thesis by (auto simp: led_store_def after_def)
qed

lemma led_leases: "st_leases led_store = [led_lease]" and led_running: "\<not> rs_paused (st_runtime led_store)"
  using AcquireLease_Inr [OF led_acquire] by (simp_all add: initial_store_def write_lease_def)

definition stale_lease :: "int \<Rightarrow> lease" where
  "stale_lease n = \<lparr>le_subject = ''daemon'', le_holder = ''A'', le_token = n, le_expires = zero_time, le_updated = zero_time\<rparr>"

theorem AcquireLease_excludes_and_fences_witness:
  "ReleaseLease (stale_lease 7) led_store = Inl ErrFenced"
proof -
  have "le_subject (stale_lease 7) = ''daemon'' \<and> (le_holder (stale_lease 7) \<noteq> ''A'' \<or> le_token (stale_lease 7) \<noteq> le_token led_lease)"
    by (simp add: stale_lease_def led_lease_def)
  moreover note AcquireLease_excludes_and_fences [OF reach_initial, where clock = sample_clock and subject = "''daemon''"
      and holder = "''A''" and ttl = 60000000000 and h = plain_host and later = zero_time
      and act = "\<lambda>_. (None, ())" and w = "()", unfolded led_acquire sum.case prod.case]
  ultimately show ?thesis by blast
qed

section \<open>The dispatch gate\<close>



lemma after_runtime:
  "(\<And>v s'. run s = Inr (v, s') \<Longrightarrow> st_runtime s' = st_runtime s) \<Longrightarrow> st_runtime (after run s) = st_runtime s"
  by (cases "run s") (auto simp: after_def)

lemma append_runtime: "appendEventTx h now ety aty aid payload s = Inr s' \<Longrightarrow> st_runtime s' = st_runtime s"
  by (auto simp: appendEventTx_def store_event_def guarded_Inr_iff)

lemmas store_operation_defs = BeginOperation_def SetOperationState_def AcquireLease_def RenewLease_def
  ReleaseLease_def EnqueueJob_def ClaimJob_def ClaimJobByID_def claim_one_def RenewJobClaim_def FinishJob_def
  SetJobExternalRefs_def MarkJobReconciled_def AddOutbox_def SetOutboxState_def RecordObservation_def
  RecordDispatch_def RecordDispatchOnce_def publish_intent_def claim_for_submission_def

lemma submit_runtime:
  assumes "PrepareSubmission h clock input holder ttl factory s = Inr (v, s')"
  shows "st_runtime s' = st_runtime s"
  using assms
proof (rule PrepareSubmission_stages)
  fix rows and added :: bool and job job' s2 intent item fresh
  assume "claim_for_submission holder (op_utc (time_add (op_utc clock) ttl)) (op_utc clock) job (s\<lparr>st_jobs := rows\<rparr>) = Inr (job', s2)"
    and "publish_intent h (op_utc clock) job' intent s2 = Inr ((item, fresh), s')"
  then show ?thesis
    by (auto simp: claim_for_submission_def claim_one_def publish_intent_def Let_def result_iffs
        split: job_state.splits option.splits prod.splits)
qed

lemma step_runtime:
  assumes "store_step h s s'"
  shows "st_runtime s' = st_runtime s \<or> (\<exists>clock paused reason. SetPaused clock paused reason s = Inr (st_runtime s', s'))"
  using assms
proof (cases rule: store_step.cases)
  case (step_pause clock paused reason)
  show ?thesis
  proof (cases "SetPaused clock paused reason s")
    case (Inl e)
    with step_pause show ?thesis by (simp add: after_def)
  next
    case (Inr v)
    then have "v = (st_runtime s', s')" using step_pause
      by (auto simp: after_def SetPaused_def Let_def guarded_Inr_iff)
    with Inr show ?thesis by blast
  qed
next
  case (step_submit clock jinput holder ttl factory)
  then show ?thesis using submit_runtime by (simp add: after_runtime)
next
  case (step_dispatch clock l ttl act w)
  then show ?thesis
    by (auto intro!: after_runtime simp: WithDispatchLease_def Let_def split: option.splits if_splits prod.splits)
qed (auto intro!: after_runtime simp: store_operation_defs Let_def result_iffs append_runtime
    split: option.splits prod.splits list.splits sum.splits if_splits dest!: append_runtime)

lemma resumed_in_between:
  assumes "store_run h s1 s2" and "rs_paused (st_runtime s1)" and "\<not> rs_paused (st_runtime s2)"
  shows "\<exists>t t' clock reason. store_run h s1 t \<and> SetPaused clock False reason t = Inr (st_runtime t', t') \<and> store_run h t' s2"
  using assms
proof (induction rule: rtranclp_induct)
  case base
  then show ?case by simp
next
  case (step t u)
  show ?case
  proof (cases "rs_paused (st_runtime t)")
    case True
    with step.prems step_runtime [OF step.hyps(2)] obtain clock paused reason
      where set: "SetPaused clock paused reason t = Inr (st_runtime u, u)" by metis
    have "paused = False" using set step.prems(2) by (auto simp: SetPaused_def Let_def guarded_Inr_iff)
    with set have "SetPaused clock False reason t = Inr (st_runtime u, u)" by simp
    with step.hyps(1) show ?thesis by (meson rtranclp.rtrancl_refl)
  next
    case False
    with step obtain t0 t' clock reason where "store_run h s1 t0" "SetPaused clock False reason t0 = Inr (st_runtime t', t')"
      "store_run h t' t" by blast
    with step.hyps(2) show ?thesis by (meson rtranclp.rtrancl_into_rtrancl)
  qed
qed

text \<open>
  A successful pause is not followed by a submission: if dispatch was paused in some database
  and the gate lets a submission through in a later one, somebody resumed dispatch in between.
\<close>

theorem pause_stops_dispatch:
  assumes "SetPaused clock True reason s = Inr (rs, s1)" and "store_run h s1 s2"
    and "fst (WithDispatchLease clock2 l ttl (Some act) s2 w) = Inr v"
  shows "\<exists>t t' clock' reason'. store_run h s1 t \<and> SetPaused clock' False reason' t = Inr (st_runtime t', t') \<and> store_run h t' s2"
proof (rule resumed_in_between [OF assms(2)])
  show "rs_paused (st_runtime s1)" using assms(1) by (auto simp: SetPaused_def Let_def guarded_Inr_iff)
  show "\<not> rs_paused (st_runtime s2)" using assms(3) by (auto simp: WithDispatchLease_def Let_def split: if_splits)
qed

definition paused_store :: op_store where
  "paused_store = led_store\<lparr>st_runtime := \<lparr>rs_paused = True, rs_reason = ''maintenance'', rs_updated = sample_clock\<rparr>\<rparr>"

definition resumed_store :: op_store where
  "resumed_store = led_store\<lparr>st_runtime := \<lparr>rs_paused = False, rs_reason = [], rs_updated = sample_clock\<rparr>\<rparr>"

lemma sample_utc [simp]: "op_utc sample_clock = sample_clock"
  by (simp add: sample_clock_def op_utc_def)

lemma switches:
  "SetPaused sample_clock True ''maintenance'' led_store = Inr (st_runtime paused_store, paused_store)"
  "SetPaused sample_clock False [] paused_store = Inr (st_runtime resumed_store, resumed_store)"
  by (simp_all add: SetPaused_def Let_def paused_store_def resumed_store_def)

lemma led_dispatches: "dispatch_matches (stale_lease 1) sample_clock led_lease"
proof -
  have "format_time sample_clock < format_time (le_expires led_lease)"
    by (rule format_time_later) (simp_all add: sample_clock_def led_lease_def text_range_def time_seconds_def)
  then show ?thesis by (simp add: dispatch_matches_def lease_matches_def stale_lease_def led_lease_def)
qed

theorem pause_stops_dispatch_witness:
  "\<exists>t t' clock' reason'. store_run plain_host paused_store t \<and>
     SetPaused clock' False reason' t = Inr (st_runtime t', t') \<and> store_run plain_host t' resumed_store"
proof -
  have "after (SetPaused sample_clock False []) paused_store = resumed_store" by (simp add: after_def switches)
  then have two: "store_run plain_host paused_store resumed_store"
    using step_pause [of plain_host paused_store sample_clock False "[]"] by auto
  have "fst (WithDispatchLease sample_clock (stale_lease 1) 1000 (Some (\<lambda>n :: nat. (Some 5, Suc n))) resumed_store 0) \<in> range Inr"
    using led_dispatches by (simp add: WithDispatchLease_def Let_def rows_affected_def resumed_store_def led_leases)
  then obtain v where "fst (WithDispatchLease sample_clock (stale_lease 1) 1000 (Some (\<lambda>n :: nat. (Some 5, Suc n))) resumed_store 0) = Inr v"
    by blast
  from pause_stops_dispatch [OF switches(1) two this] show ?thesis .
qed

text \<open>
  A former leader is stopped once the clock has left the second in which its lease expired: if
  the lease of the database expired in an earlier whole second, a dispatch under it is fenced.
\<close>

theorem expired_lease_fenced_next_second:
  assumes "reachable_store h s" and "0 < ttl"
    and "\<And>r. r \<in> set (st_leases s) \<Longrightarrow> lease_matches l r \<Longrightarrow>
        text_range (le_expires r) \<and> time_seconds (le_expires r) < time_seconds (op_utc clock)"
    and "text_range (op_utc clock)"
  shows "WithDispatchLease clock l ttl (Some act) s w = (Inl ErrFenced, w)"
proof -
  have leases: "leases_ok (st_leases s)" using reachable_ok [OF assms(1)] by (simp add: store_ok_def)
  have "\<not> dispatch_matches l (op_utc clock) r" if "r \<in> set (st_leases s)" for r
    using format_time_later [OF _ assms(4)] assms(3) [OF that] by (auto simp: dispatch_matches_def dest: less_asym)
  then show ?thesis
    using assms(2) rows_affected_lease(2) [OF leases, of l "op_utc clock"]
    by (simp add: WithDispatchLease_def Let_def)
qed

theorem expired_lease_fenced_next_second_witness:
  "WithDispatchLease (GoTime 63000000062000000000 0) (stale_lease 1) 1000 (Some (\<lambda>n :: nat. (Some 5, Suc n))) led_store 0 =
     (Inl ErrFenced, 0)"
  by (rule expired_lease_fenced_next_second [OF led_reachable])
    (simp_all add: led_leases led_lease_def text_range_def time_seconds_def op_utc_def time_is_zero_def)

text \<open>
  C37: within that second it is not stopped: a lease that expired on a whole second is still accepted
  by the gate up to the end of that second, because the stored text of the expiry, written without
  a fraction, sorts after the text of every later instant of the second.
\<close>

theorem expired_lease_still_dispatches:
  assumes "reachable_store h s" and "0 < ttl" and "r \<in> set (st_leases s)" and "lease_matches l r"
    and "text_range (le_expires r)" and "text_range (op_utc clock)" and "time_before (le_expires r) (op_utc clock)"
    and "time_seconds (le_expires r) = time_seconds (op_utc clock)"
    and "micros (le_expires r) mod 1000000 = 0" and "micros (le_expires r) < micros (op_utc clock)"
    and "\<not> rs_paused (st_runtime s)" and "act w = (Some task, w')"
  shows "\<exists>v. WithDispatchLease clock l ttl (Some act) s w = (Inr v, w')"
proof -
  have leases: "leases_ok (st_leases s)" using reachable_ok [OF assms(1)] by (simp add: store_ok_def)
  have "dispatch_matches l (op_utc clock) r"
    using format_time_whole_last [OF assms(5-10)] assms(4) by (simp add: dispatch_matches_def)
  then show ?thesis
    using assms(2,3,11,12) rows_affected_lease(2) [OF leases, of l "op_utc clock"]
    by (auto simp: WithDispatchLease_def Let_def)
qed

theorem expired_lease_still_dispatches_witness:
  "\<exists>v. WithDispatchLease (GoTime 63000000060500000000 0) (stale_lease 1) 1000 (Some (\<lambda>n :: nat. (Some 5, Suc n))) led_store 0 = (Inr v, 1)"
  by (rule expired_lease_still_dispatches [OF led_reachable, where r = led_lease and task = 5])
    (simp_all add: led_leases led_running led_lease_def stale_lease_def lease_matches_def text_range_def
      time_seconds_def op_utc_def time_is_zero_def time_before_def micros_def)

text \<open>
  C39: tokens are not unique over time: releasing a lease deletes its row, so the next acquisition
  of the subject by the same holder starts again at the same token, and a lease value from before
  a hand-over that was fenced becomes valid again.
\<close>

theorem lease_token_reused:
  assumes "reachable_store h s" and "lookup_row le_subject subject (st_leases s) = None"
    and "AcquireLease h clock1 subject holder ttl s = Inr (l1, s1)"
    and "AcquireLease h clock2 subject holder ttl s1 = Inr (l2, s2)"
    and "ReleaseLease l2 s2 = Inr ((), s3)"
    and "AcquireLease h clock3 subject holder ttl s3 = Inr (l3, s4)"
  shows "RenewLease clock4 l1 ttl s2 = Inl ErrFenced \<and> (\<exists>v. RenewLease clock4 l1 ttl s4 = Inr v)"
proof -
  have ok: "store_ok h s" using reachable_ok [OF assms(1)] .
  have ok1: "store_ok h s1" using acquire.keeps [OF ok assms(3)] by blast
  have ok2: "store_ok h s2" using acquire.keeps [OF ok1 assms(4)] by blast
  have ok3: "store_ok h s3" using release.keeps [OF ok2 assms(5)] by blast
  have ok4: "store_ok h s4" using acquire.keeps [OF ok3 assms(6)] by blast
  have tables: "leases_ok (st_leases s)" "leases_ok (st_leases s1)" "leases_ok (st_leases s2)"
    "leases_ok (st_leases s3)" "leases_ok (st_leases s4)"
    using ok ok1 ok2 ok3 ok4 by (simp_all add: store_ok_def)
  note l1 = AcquireLease_Inr [OF assms(3)] and l2 = AcquireLease_Inr [OF assms(4)] and l3 = AcquireLease_Inr [OF assms(6)]
  have ttl: "0 < ttl" using l1 by blast
  have t1: "le_token l1 = 1" using l1 assms(2) by simp
  have r1: "lookup_row le_subject subject (st_leases s1) = Some l1" using l1 write_lease_lookup [OF tables(1)] by simp
  have t2: "le_token l2 = 2" using l2 r1 t1 by simp
  have r2: "lookup_row le_subject subject (st_leases s2) = Some l2" using l2 write_lease_lookup [OF tables(2)] by simp
  have only: "r = l2" if "r \<in> set (st_leases s2)" "le_subject r = subject" for r
    using that r2 lease_lookup [OF tables(3)] by (metis option.inject)
  then have "subject \<notin> le_subject ` set (st_leases s3)"
    using assms(5) by (auto simp: ReleaseLease_def guarded_Inr_iff lease_matches_def)
  then have "lookup_row le_subject subject (st_leases s3) = None" by (simp add: lookup_row_None)
  then have t3: "le_token l3 = 1" using l3 by simp
  have r4: "lookup_row le_subject subject (st_leases s4) = Some l3" using l3 write_lease_lookup [OF tables(4)] by simp
  then have "l3 \<in> set (st_leases s4)" using lookup_row_Some by metis
  moreover have "lease_matches l1 l3" using l1 l3 t1 t3 by (simp add: lease_matches_def)
  ultimately have "rows_affected (lease_matches l1) (st_leases s4) = 1"
    using rows_affected_lease(1) [OF tables(5)] by blast
  moreover have "\<not> lease_matches l1 r" if "r \<in> set (st_leases s2)" for r
  proof
    assume m: "lease_matches l1 r"
    then have "r = l2" using only that l1 by (simp add: lease_matches_def)
    with m t1 t2 show False by (simp add: lease_matches_def)
  qed
  then have "rows_affected (lease_matches l1) (st_leases s2) = 0" by (simp add: rows_affected_0)
  ultimately show ?thesis using ttl by (simp add: RenewLease_def Let_def)
qed

text \<open>Acquisitions of one subject by one holder, with the texts their events are made of.\<close>

definition sample_event :: "string \<Rightarrow> go_time \<Rightarrow> string \<Rightarrow> event" where
  "sample_event prev now eid = seal_event plain_host prev now ''lease.acquired'' ''lease'' ''daemon'' ''{}'' eid"

definition sample_lease :: "int \<Rightarrow> go_time \<Rightarrow> lease" where
  "sample_lease token now = \<lparr>le_subject = ''daemon'', le_holder = ''A'', le_token = token,
     le_expires = op_utc (time_add now 60000000000), le_updated = now\<rparr>"

lemma acquire_sample:
  assumes "previous_hash s = prev" and "event_identifier plain_host prev now ''lease.acquired'' ''daemon'' ''{}'' = eid"
    and "op_utc now = now" and "st_leases s = rows" and "rows = [] \<and> token = 0 \<or> (\<exists>t. rows = [sample_lease token t])"
    and "st_events s = es" and "eid \<notin> ev_id ` set es" and "ev_hash (sample_event prev now eid) \<notin> ev_hash ` set es"
  shows "AcquireLease plain_host now ''daemon'' ''A'' 60000000000 s =
    Inr (sample_lease (token + 1) now, s\<lparr>st_leases := [sample_lease (token + 1) now], st_events := es @ [sample_event prev now eid]\<rparr>)"
proof -
  have valid: "validateIdentifier ''daemon''" "validateIdentifier ''A''" by code_simp+
  have json: "oh_lease_json plain_host l = ''{}''" for l by (simp add: plain_host_def)
  have "ev_id (sample_event prev now eid) = eid" by (simp add: sample_event_def seal_event_def)
  then have fresh: "\<not> list_ex (\<lambda>x. ev_id x = ev_id (sample_event prev now eid) \<or> ev_hash x = ev_hash (sample_event prev now eid)) es"
    using assms(7,8) unfolding list_ex_iff by (metis image_eqI)
  have prev: "previous_hash (s\<lparr>st_leases := q\<rparr>) = prev" for q
    unfolding assms(1) [symmetric] by (simp add: previous_hash_def)
  have append: "appendEventTx plain_host now ''lease.acquired'' ''lease'' ''daemon'' ''{}'' (s\<lparr>st_leases := q\<rparr>) =
      Inr (s\<lparr>st_leases := q, st_events := es @ [sample_event prev now eid]\<rparr>)" for q
    using fresh assms(6) by (simp add: appendEventTx_def prev assms(2) flip: sample_event_def) (simp add: store_event_def)
  show ?thesis
    using assms(5) by (elim disjE exE conjE)
      (simp_all add: AcquireLease_def Let_def valid assms(3,4) json append lookup_row_def write_lease_def update_where_def sample_lease_def)
qed

theorem lease_token_reused_witness:
  "\<exists>s2 s4 v. RenewLease sample_clock (sample_lease 1 sample_clock) 60000000000 s2 = Inl ErrFenced \<and>
     RenewLease sample_clock (sample_lease 1 sample_clock) 60000000000 s4 = Inr v"
proof -
  define now2 now3 where "now2 = GoTime 63000000001000000000 0" and "now3 = GoTime 63000000002500000000 0"
  have utc: "op_utc now2 = now2" "op_utc now3 = now3" by (simp_all add: now2_def now3_def op_utc_def)
  define e1 where "e1 = sample_event [] sample_clock ''lease.acquired:daemon:2e''"
  define e2 where "e2 = sample_event ''sha256:71'' now2 ''lease.acquired:daemon:37''"
  define e3 where "e3 = sample_event ''sha256:7a'' now3 ''lease.acquired:daemon:39''"
  have ids: "ev_id e1 = ''lease.acquired:daemon:2e''" "ev_id e2 = ''lease.acquired:daemon:37''"
    by (simp_all add: e1_def e2_def sample_event_def seal_event_def)
  have hashes: "ev_hash e1 = ''sha256:71''" "ev_hash e2 = ''sha256:7a''" "ev_hash e3 = ''sha256:7c''"
    unfolding e1_def e2_def e3_def now2_def now3_def by code_simp+
  have eids: "event_identifier plain_host [] sample_clock ''lease.acquired'' ''daemon'' ''{}'' = ''lease.acquired:daemon:2e''"
    "event_identifier plain_host ''sha256:71'' now2 ''lease.acquired'' ''daemon'' ''{}'' = ''lease.acquired:daemon:37''"
    "event_identifier plain_host ''sha256:7a'' now3 ''lease.acquired'' ''daemon'' ''{}'' = ''lease.acquired:daemon:39''"
    unfolding now2_def now3_def by code_simp+
  define s1 where "s1 = initial_store\<lparr>st_leases := [sample_lease 1 sample_clock], st_events := [e1]\<rparr>"
  define s2 where "s2 = initial_store\<lparr>st_leases := [sample_lease 2 now2], st_events := [e1, e2]\<rparr>"
  define s3 where "s3 = initial_store\<lparr>st_leases := [], st_events := [e1, e2]\<rparr>"
  define s4 where "s4 = initial_store\<lparr>st_leases := [sample_lease 1 now3], st_events := [e1, e2, e3]\<rparr>"
  have a1: "AcquireLease plain_host sample_clock ''daemon'' ''A'' 60000000000 initial_store = Inr (sample_lease 1 sample_clock, s1)"
    using acquire_sample [OF _ eids(1), of initial_store "[]" 0 "[]"]
    by (simp add: initial_store_def previous_hash_def s1_def e1_def)
  have a2: "AcquireLease plain_host now2 ''daemon'' ''A'' 60000000000 s1 = Inr (sample_lease 2 now2, s2)"
    using acquire_sample [OF _ eids(2) utc(1), of s1 "[sample_lease 1 sample_clock]" 1 "[e1]"] hashes ids
    by (auto simp: s1_def s2_def previous_hash_def simp flip: e2_def)
  have a3: "ReleaseLease (sample_lease 2 now2) s2 = Inr ((), s3)"
    by (simp add: ReleaseLease_def s2_def s3_def rows_affected_def lease_matches_def)
  have a4: "AcquireLease plain_host now3 ''daemon'' ''A'' 60000000000 s3 = Inr (sample_lease 1 now3, s4)"
    using acquire_sample [OF _ eids(3) utc(2), of s3 "[]" 0 "[e1, e2]"] hashes ids
    by (auto simp: s3_def s4_def previous_hash_def simp flip: e3_def)
  have "lookup_row le_subject ''daemon'' (st_leases initial_store) = None" by (simp add: initial_store_def lookup_row_def)
  from lease_token_reused [OF reach_initial this a1 a2 a3 a4, of sample_clock] show ?thesis by blast
qed

end
