(* ===== verification/Exp_Op_Event_Theorems.thy ===== *)
theory Exp_Op_Event_Theorems
  imports Exp_Op_Control_Theorems
begin

text \<open>
  The hash chain of the events commits to their history, idempotent operations are created once,
  and the job table refines an abstract machine with three states per job.
\<close>

section \<open>Framing\<close>

lemma sep_unique:
  "c \<notin> set a \<Longrightarrow> c \<notin> set b \<Longrightarrow> a @ c # x = b @ c # y \<longleftrightarrow> a = b \<and> x = y"
proof (induction a arbitrary: b)
  case Nil
  then show ?case by (cases b) auto
next
  case (Cons d a)
  then show ?case by (cases b) auto
qed

definition digit_value :: "nat \<Rightarrow> char \<Rightarrow> nat" where
  "digit_value acc c = 10 * acc + (byte c - 48)"

lemma byte_digit: "n < 10 \<Longrightarrow> byte (digit_char n) = 48 + n"
  by (simp add: byte_def digit_char_def)

lemma digit_step: "n < 10 \<Longrightarrow> digit_value acc (digit_char n) = 10 * acc + n"
  by (simp add: digit_value_def byte_digit)

lemma itoa_value: "foldl digit_value 0 (itoa n) = n"
proof (induction n rule: itoa.induct)
  case (1 n)
  then show ?case by (subst itoa.simps) (simp add: digit_step)
qed

lemma itoa_inject: "itoa m = itoa n \<Longrightarrow> m = n"
  by (metis itoa_value)

lemma itoa_no_nul: "CHR 0x00 \<notin> set (itoa n)"
proof (induction n rule: itoa.induct)
  case (1 n)
  have "digit_char (n mod 10) \<noteq> CHR 0x00" using byte_digit [of "n mod 10"] by (auto simp: byte_def)
  then show ?case using 1 by (subst itoa.simps) (auto simp: not_less)
qed

lemma framed_Cons: "framed (p # ps) = itoa (length p) @ CHR 0x00 # p @ framed ps"
  by (simp add: framed_def nul_def)

lemma framed_inject: "framed ps = framed qs \<Longrightarrow> ps = qs"
proof (induction ps arbitrary: qs)
  case Nil
  then show ?case by (cases qs) (auto simp: framed_def nul_def)
next
  case (Cons p ps)
  then obtain q qs' where qs: "qs = q # qs'" by (cases qs) (auto simp: framed_def nul_def)
  from Cons.prems have "itoa (length p) = itoa (length q) \<and> p @ framed ps = q @ framed qs'"
    unfolding qs framed_Cons by (simp only: sep_unique [OF itoa_no_nul itoa_no_nul])
  then have "length p = length q" "p @ framed ps = q @ framed qs'" by (auto dest: itoa_inject)
  then have "p = q" "framed ps = framed qs'" by simp_all
  with Cons.IH show ?case by (simp add: qs)
qed

lemma hex_char_inject: "m < 16 \<Longrightarrow> n < 16 \<Longrightarrow> hex_char m = hex_char n \<Longrightarrow> m = n"
proof -
  assume mn: "m < 16" "n < 16" and eq: "hex_char m = hex_char n"
  have "byte (hex_char k) = (if k < 10 then 48 + k else 87 + k)" if "k < 16" for k
    using that by (simp add: byte_def hex_char_def)
  from this [OF mn(1)] this [OF mn(2)] eq
  have "(if m < 10 then 48 + m else 87 + m) = (if n < 10 then 48 + n else 87 + n)" by metis
  with mn show "m = n" by (simp split: if_splits)
qed

lemma byte_lt: "byte c < 256"
  by (simp add: byte_def)

lemma hex_encode_inject: "hex_encode a = hex_encode b \<Longrightarrow> a = b"
proof (induction a arbitrary: b)
  case Nil
  then show ?case by (cases b) (auto simp: hex_encode_def)
next
  case (Cons c a)
  then obtain d b' where b: "b = d # b'" by (cases b) (auto simp: hex_encode_def)
  from Cons.prems have "hex_char (byte c div 16) = hex_char (byte d div 16)"
    "hex_char (byte c mod 16) = hex_char (byte d mod 16)" "hex_encode a = hex_encode b'"
    by (simp_all add: b hex_encode_def)
  moreover have "byte c div 16 < 16" "byte d div 16 < 16" using byte_lt [of c] byte_lt [of d] by simp_all
  ultimately have "byte c div 16 = byte d div 16" "byte c mod 16 = byte d mod 16" "a = b'"
    using hex_char_inject Cons.IH by (simp_all add: hex_char_inject)
  then have "byte c = byte d" by (metis div_mult_mod_eq)
  then show ?case using \<open>a = b'\<close> byte_inject by (simp add: b)
qed

text \<open>
  The length-prefixed framing under the event hash is injective: two lists of parts with the
  same bytes are the same list, so no two different events are hashed from the same text.
\<close>

theorem framed_injective: "framed ps = framed qs \<longleftrightarrow> ps = qs"
  using framed_inject by blast

section \<open>The chain commits to the history\<close>

definition hashed_text :: "event \<Rightarrow> string" where
  "hashed_text e = framed (event_parts (ev_previous e) (ev_id e) (ev_type e) (ev_aggregate_type e)
     (ev_aggregate_id e) (ev_created e) (ev_payload e))"

text \<open>What an event says: everything but the precise instant, which is stored as its text.\<close>

definition event_content :: "event \<Rightarrow> string list" where
  "event_content e = [ev_id e, ev_type e, ev_aggregate_type e, ev_aggregate_id e, ev_payload e,
     format_time (ev_created e), ev_previous e, ev_hash e]"

lemma event_hash: "event_ok h e \<Longrightarrow> ev_hash e = ''sha256:'' @ hex_encode (oh_sha256 h (hashed_text e))"
  by (simp add: event_ok_def hashed_text_def)

lemma same_hash_same_content:
  assumes "event_ok h e" and "event_ok h e'" and "inj_on (oh_sha256 h) {hashed_text e, hashed_text e'}"
    and "ev_hash e = ev_hash e'"
  shows "event_content e = event_content e'"
proof -
  have "oh_sha256 h (hashed_text e) = oh_sha256 h (hashed_text e')"
    using assms(4) unfolding event_hash [OF assms(1)] event_hash [OF assms(2)] same_append_eq by (rule hex_encode_inject)
  then have "hashed_text e = hashed_text e'" by (rule inj_onD [OF assms(3)]) simp_all
  then have "event_parts (ev_previous e) (ev_id e) (ev_type e) (ev_aggregate_type e) (ev_aggregate_id e) (ev_created e) (ev_payload e) =
      event_parts (ev_previous e') (ev_id e') (ev_type e') (ev_aggregate_type e') (ev_aggregate_id e') (ev_created e') (ev_payload e')"
    unfolding hashed_text_def by (rule framed_inject)
  with assms(4) show ?thesis unfolding event_parts_def event_content_def by simp
qed

lemma chain_commits:
  assumes "chain_from [] es" and "chain_from [] es'" and "\<forall>e \<in> set es. event_ok h e" and "\<forall>e \<in> set es'. event_ok h e"
    and "inj_on (oh_sha256 h) (hashed_text ` (set es \<union> set es'))"
    and "es \<noteq> []" and "es' \<noteq> []" and "ev_hash (last es) = ev_hash (last es')"
  shows "map event_content es = map event_content es'"
  using assms
proof (induction es arbitrary: es' rule: rev_induct)
  case Nil
  then show ?case by simp
next
  case (snoc e es)
  obtain f fs where es': "es' = fs @ [f]" using snoc.prems(7) by (cases es' rule: rev_cases) auto
  have inj: "inj_on (oh_sha256 h) {hashed_text e, hashed_text f}"
    using snoc.prems(5) by (rule inj_on_subset) (auto simp: es')
  have content: "event_content e = event_content f"
    using same_hash_same_content [OF _ _ inj] snoc.prems by (simp add: es')
  then have prev: "ev_previous e = ev_previous f" by (simp add: event_content_def)
  have chain: "chain_from [] es" "ev_previous e = (if es = [] then [] else ev_hash (last es))"
    "chain_from [] fs" "ev_previous f = (if fs = [] then [] else ev_hash (last fs))"
    using snoc.prems(1,2) by (simp_all add: es' chain_from_append)
  have nonempty: "ev_hash x \<noteq> []" if "x \<in> set es \<union> set fs" for x
    using that snoc.prems(3,4) event_hash by (auto simp: es')
  show ?case
  proof (cases "es = []")
    case True
    then have "fs = []" using chain(2,4) prev nonempty by (metis UnI2 last_in_set)
    with True content show ?thesis by (simp add: es')
  next
    case False
    then have fs: "fs \<noteq> []" using chain(2,4) prev nonempty by (metis UnI1 last_in_set)
    have "map event_content es = map event_content fs"
    proof (rule snoc.IH [OF chain(1,3) _ _ _ False fs])
      show "inj_on (oh_sha256 h) (hashed_text ` (set es \<union> set fs))"
        using snoc.prems(5) by (rule inj_on_subset) (auto simp: es')
      show "ev_hash (last es) = ev_hash (last fs)" using chain(2,4) prev False fs by simp
    qed (use snoc.prems(3,4) in \<open>simp_all add: es'\<close>)
    with content show ?thesis by (simp add: es')
  qed
qed

lemma AcquireLease_event:
  assumes "AcquireLease h clock subject holder ttl s = Inr (l, s1)"
  shows "\<exists>e. st_events s1 = st_events s @ [e]"
proof -
  have append: "appendEventTx h now ety aty aid payload t = Inr t' \<Longrightarrow> \<exists>e. st_events t' = st_events t @ [e]"
    for now ety aty aid payload t t'
    by (auto simp: appendEventTx_def store_event_def guarded_Inr_iff)
  obtain now payload q where "appendEventTx h now ''lease.acquired'' ''lease'' subject payload (s\<lparr>st_leases := q\<rparr>) = Inr s1"
    using assms by (auto simp: AcquireLease_def Let_def result_iffs)
  from append [OF this] show ?thesis by simp
qed

text \<open>
  C36: the last hash commits to the whole history: if SHA-256 has no collision among the texts that
  were hashed, two databases whose last events have the same hash have the same events, one by
  one, in content and order.
\<close>

theorem last_hash_commits:
  assumes "reachable_store h s" and "reachable_store h t" and "st_events s \<noteq> []" and "st_events t \<noteq> []"
    and "inj_on (oh_sha256 h) (hashed_text ` (set (st_events s) \<union> set (st_events t)))"
    and "previous_hash s = previous_hash t"
  shows "map event_content (st_events s) = map event_content (st_events t)"
proof -
  have "events_ok h (st_events s)" "events_ok h (st_events t)"
    using reachable_ok [OF assms(1)] reachable_ok [OF assms(2)] by (simp_all add: store_ok_def)
  then show ?thesis
    using assms(3-6) by (intro chain_commits [of _ _ h]) (simp_all add: events_ok_def previous_hash_def)
qed

theorem last_hash_commits_witness:
  "length (st_events led_store) = length (st_events (after (SetPaused sample_clock True []) led_store))"
proof -
  have events: "\<exists>e. st_events led_store = [e]"
    using AcquireLease_event [OF led_acquire] by (simp add: initial_store_def)
  have same: "st_events (after (SetPaused sample_clock True []) led_store) = st_events led_store"
    by (simp add: after_def SetPaused_def Let_def)
  have "map event_content (st_events led_store) = map event_content (st_events (after (SetPaused sample_clock True []) led_store))"
  proof (rule last_hash_commits [OF led_reachable])
    show "reachable_store plain_host (after (SetPaused sample_clock True []) led_store)"
      by (intro reach_step [OF led_reachable] step_pause)
    show "inj_on (oh_sha256 plain_host) (hashed_text ` (set (st_events led_store) \<union>
        set (st_events (after (SetPaused sample_clock True []) led_store))))"
      using events same by auto
  qed (use events same in \<open>auto simp: previous_hash_def\<close>)
  then show ?thesis by (metis length_map)
qed

section \<open>Idempotent operations\<close>

lemma operations_lookup: "operations_ok rows \<Longrightarrow> lookup_row op_key k rows = Some r \<longleftrightarrow> r \<in> set rows \<and> op_key r = k"
  by (intro lookup_row_iff) (simp add: operations_ok_def)

lemma new_operation_fields [simp]:
  "op_key (new_operation input now) = op_key input" "op_id (new_operation input now) = op_id input"
  "sameOperationInput (new_operation input now) input"
  by (simp_all add: new_operation_def operation_input.defs sameOperationInput_def)

lemma BeginOperation_row:
  assumes run: "BeginOperation h clock input s = Inr ((r, dup), s1)"
  obtains payload where "validateOperationInput input" "normalizeJSON h (op_payload input) = Some payload"
    "lookup_row op_key (op_key input) (st_operations s1) = Some r" "sameOperationInput r (input\<lparr>op_payload := payload\<rparr>)"
proof -
  have append: "appendEventTx h now ety aty aid payload t = Inr t' \<Longrightarrow> st_operations t' = st_operations t"
    for now ety aty aid payload t t'
    by (auto simp: appendEventTx_def store_event_def guarded_Inr_iff)
  obtain payload where p: "validateOperationInput input" "normalizeJSON h (op_payload input) = Some payload"
    using run by (auto simp: BeginOperation_def guarded_Inr_iff split: option.splits)
  let ?row = "new_operation (input\<lparr>op_payload := payload\<rparr>) (op_utc clock)"
  obtain rows added where rows: "insert_new op_key op_id ?row (st_operations s) = Inr (rows, added)"
    using run p by (auto simp: BeginOperation_def Let_def andThen_Inr_iff)
  have read: "lookup_row op_key (op_key input) rows = Some r" and ops: "st_operations s1 = rows"
    and same: "added \<or> sameOperationInput r (input\<lparr>op_payload := payload\<rparr>)"
    using run p rows
    by (cases added; auto simp: BeginOperation_def Let_def operationByKey_def result_iffs dest: append split: option.splits)+
  have "added \<Longrightarrow> r = ?row"
    using lookup_insert_new [OF rows] read by simp
  then have "sameOperationInput r (input\<lparr>op_payload := payload\<rparr>)" using same by auto
  with that p read ops show thesis by metis
qed

text \<open>
  Beginning an operation is idempotent: after a success and any further execution the same
  request finds the same operation, reports the duplicate and writes nothing (no second event); a
  valid request that reuses the key for something else is refused.
\<close>

theorem BeginOperation_idempotent:
  assumes "reachable_store h s" and "BeginOperation h clock input s = Inr ((r, dup), s1)" and "store_run h s1 s2"
  shows "(\<exists>r2. BeginOperation h later input s2 = Inr ((r2, True), s2) \<and> sameOperationInput r r2 \<and> op_created r2 = op_created r) \<and>
    (op_key other = op_key input \<and> validateOperationInput other \<and> normalizeJSON h (op_payload other) = Some p \<and>
       \<not> sameOperationInput r (other\<lparr>op_payload := p\<rparr>) \<longrightarrow>
       BeginOperation h later other s2 = Inl ErrConflict)"
proof -
  have ok: "store_ok h s" using reachable_ok [OF assms(1)] .
  have ok1: "store_ok h s1" using begin_op.keeps [OF ok assms(2)] by blast
  have ok2: "store_ok h s2" "store_le s1 s2" using store_run_keeps [OF assms(3) ok1] by simp_all
  from BeginOperation_row [OF assms(2)] obtain payload where
    r: "validateOperationInput input" "normalizeJSON h (op_payload input) = Some payload"
      "lookup_row op_key (op_key input) (st_operations s1) = Some r" "sameOperationInput r (input\<lparr>op_payload := payload\<rparr>)" .
  have "r \<in> set (st_operations s1)" "op_key r = op_key input" using lookup_row_Some [OF r(3)] by simp_all
  then obtain r2 where r2: "r2 \<in> set (st_operations s2)" "sameOperationInput r r2" "op_created r2 = op_created r"
    using ok2(2) unfolding store_le_def operations_le_def by blast
  have "op_key r2 = op_key input" using r2(2) \<open>op_key r = op_key input\<close> by (simp add: sameOperationInput_def)
  then have found: "lookup_row op_key (op_key input) (st_operations s2) = Some r2"
    using r2(1) operations_lookup ok2(1) unfolding store_ok_def by blast
  have insert: "insert_new op_key op_id (new_operation i now) (st_operations s2) = Inr (st_operations s2, False)"
    if "op_key i = op_key input" for i now
    by (rule insert_new_present [where r = r2]) (use that found in simp)
  have same: "sameOperationInput r2 i \<longleftrightarrow> sameOperationInput r i" for i :: operation_input
    using r2(2) by (auto simp: sameOperationInput_def)
  have "BeginOperation h later input s2 = Inr ((r2, True), s2)"
    using r found insert [of "input\<lparr>op_payload := payload\<rparr>"] same
    by (simp add: BeginOperation_def Let_def operationByKey_def)
  moreover have "BeginOperation h later other s2 = Inl ErrConflict"
    if "op_key other = op_key input" "validateOperationInput other" "normalizeJSON h (op_payload other) = Some p"
      "\<not> sameOperationInput r (other\<lparr>op_payload := p\<rparr>)"
    using that found insert [of "other\<lparr>op_payload := p\<rparr>"] same
    by (simp add: BeginOperation_def Let_def operationByKey_def)
  ultimately show ?thesis using r2(2,3) by blast
qed

definition sample_operation :: operation_input where
  "sample_operation = \<lparr>op_id = ''op-1'', op_kind = ''tick'', op_subject = ''p'', op_key = ''k'', op_snapshot = [], op_payload = []\<rparr>"

theorem BeginOperation_idempotent_witness:
  "\<exists>r s1 r2. BeginOperation plain_host sample_clock sample_operation initial_store = Inr ((r, False), s1) \<and>
     BeginOperation plain_host zero_time sample_operation s1 = Inr ((r2, True), s1)"
proof -
  have "validateOperationInput sample_operation" unfolding sample_operation_def by code_simp
  moreover have "normalizeJSON plain_host (op_payload sample_operation) = Some ''{}''"
    by (simp add: normalizeJSON_def sample_operation_def)
  ultimately have "\<exists>r s1. BeginOperation plain_host sample_clock sample_operation initial_store = Inr ((r, False), s1)"
    by (simp add: BeginOperation_def Let_def operationByKey_def insert_new_def initial_store_def lookup_row_def
        appendEventTx_def store_event_def)
  then obtain r s1 where run: "BeginOperation plain_host sample_clock sample_operation initial_store = Inr ((r, False), s1)"
    by blast
  from BeginOperation_idempotent [OF reach_initial run rtranclp.rtrancl_refl] run show ?thesis by blast
qed

end
