(* ===== verification/Exp_Op_Refinement.thy ===== *)
theory Exp_Op_Refinement
  imports Exp_Op_Control_Theorems
begin

text \<open>
  The abstract job queue and its refinement by the database: a job is absent, queued, claimed by a
  holder, or done with a result, and only four moves exist. The view of the database forgets tokens,
  leases, bindings, payloads and the other tables; every operation of the store is a sequence of
  moves on it.
\<close>

section \<open>The abstract queue\<close>

datatype job_view = VQueued | VClaimed string | VDone job_state string

type_synonym queue_view = "string \<Rightarrow> job_view option"

inductive queue_move :: "queue_view \<Rightarrow> queue_view \<Rightarrow> bool" where
  move_enqueue: "m i = None \<Longrightarrow> queue_move m (m(i \<mapsto> VQueued))"
| move_claim: "m i = Some VQueued \<Longrightarrow> holder \<noteq> [] \<Longrightarrow> queue_move m (m(i \<mapsto> VClaimed holder))"
| move_finish: "m i = Some (VClaimed holder) \<Longrightarrow> job_finished st \<Longrightarrow> queue_move m (m(i \<mapsto> VDone st res))"

inductive_cases queue_moveE: "queue_move m m'"

abbreviation queue_moves :: "queue_view \<Rightarrow> queue_view \<Rightarrow> bool" where
  "queue_moves \<equiv> queue_move\<^sup>*\<^sup>*"

section \<open>The view of the database\<close>

definition job_view_of :: "job_row \<Rightarrow> job_view" where
  "job_view_of r = (if j_state r = JobQueued then VQueued
     else if j_state r = JobRunning then VClaimed (j_claimed_by r) else VDone (j_state r) (j_result r))"

definition table_view :: "job_row list \<Rightarrow> queue_view" where
  "table_view rows = (\<lambda>i. map_option job_view_of (lookup_row j_id i rows))"

definition queue_of :: "op_store \<Rightarrow> queue_view" where
  "queue_of s = table_view (st_jobs s)"

lemma table_view_row: "jobs_ok rows \<Longrightarrow> r \<in> set rows \<Longrightarrow> table_view rows (j_id r) = Some (job_view_of r)"
  using jobs_lookup_id [of rows "j_id r" r] by (simp add: table_view_def)

lemma table_view_append:
  "j_id row \<notin> j_id ` set rows \<Longrightarrow> table_view (rows @ [row]) = (table_view rows)(j_id row \<mapsto> job_view_of row)"
proof
  fix i
  assume new: "j_id row \<notin> j_id ` set rows"
  then have "lookup_row j_id (j_id row) rows = None" by (simp add: lookup_row_None)
  then show "table_view (rows @ [row]) i = ((table_view rows)(j_id row \<mapsto> job_view_of row)) i"
    by (auto simp: table_view_def lookup_row_append split: option.splits)
qed

lemma lookup_update: "(\<And>x. j_id (upd x) = j_id x) \<Longrightarrow>
    lookup_row j_id k (update_where hit upd rows) = map_option (\<lambda>r. if hit r then upd r else r) (lookup_row j_id k rows)"
  by (rule keeps_column.lookup [OF keeps_column.intro])

text \<open>An update that leaves the view of every row alone.\<close>

lemma silent_update:
  assumes "\<And>x. j_id (upd x) = j_id x" and "\<And>x. hit x \<Longrightarrow> job_view_of (upd x) = job_view_of x"
  shows "table_view (update_where hit upd rows) = table_view rows"
  unfolding table_view_def by (rule ext) (auto simp: lookup_update [of upd, OF assms(1)] assms(2) option.map_comp
      intro!: option.map_cong)

text \<open>An update of the rows of one identifier moves that identifier, or nothing.\<close>

lemma moving_update:
  assumes jobs: "jobs_ok rows" and id: "\<And>x. j_id (upd x) = j_id x" and one: "\<And>x. hit x \<Longrightarrow> j_id x = i"
    and move: "\<And>r. r \<in> set rows \<Longrightarrow> hit r \<Longrightarrow>
        queue_move (table_view rows) ((table_view rows)(i \<mapsto> job_view_of (upd r)))"
  shows "queue_moves (table_view rows) (table_view (update_where hit upd rows))"
proof (cases "\<exists>r \<in> set rows. hit r")
  case True
  then obtain r where r: "r \<in> set rows" "hit r" by blast
  have "table_view (update_where hit upd rows) = (table_view rows)(i \<mapsto> job_view_of (upd r))"
  proof
    fix k
    have "lookup_row j_id i rows = Some r" using r one jobs_lookup_id [OF jobs] by blast
    moreover have "\<not> hit q" if "lookup_row j_id k rows = Some q" "k \<noteq> i" for q
      using that one lookup_row_Some by metis
    ultimately show "table_view (update_where hit upd rows) k = ((table_view rows)(i \<mapsto> job_view_of (upd r))) k"
      using r(2) by (cases "lookup_row j_id k rows") (auto simp: table_view_def lookup_update [of upd, OF id])
  qed
  then show ?thesis using move [OF r] by (metis r_into_rtranclp)
next
  case False
  then have "update_where hit upd rows = rows" by (intro update_where_none) blast
  then show ?thesis by simp
qed

lemma claim_moves:
  assumes "jobs_ok rows" and "holder \<noteq> []" and "\<And>x. hit x \<Longrightarrow> j_id x = i \<and> j_state x = JobQueued"
  shows "queue_moves (table_view rows) (table_view (update_where hit (claim_update holder expires now) rows))"
proof (rule moving_update [OF assms(1), where i = i])
  fix r
  assume r: "r \<in> set rows" "hit r"
  then have "table_view rows i = Some VQueued"
    using table_view_row [OF assms(1) r(1)] assms(3) by (simp add: job_view_of_def)
  then show "queue_move (table_view rows) ((table_view rows)(i \<mapsto> job_view_of (claim_update holder expires now r)))"
    using move_claim [of "table_view rows" i holder] assms(2) by (simp add: job_view_of_def)
qed (use assms(3) in auto)

lemma insert_moves:
  assumes "insert_new j_key j_id (new_job input now) rows = Inr (rows', added)"
  shows "queue_moves (table_view rows) (table_view rows')"
proof (cases added)
  case True
  have rows: "rows' = rows @ [new_job input now]" and new: "j_id (new_job input now) \<notin> j_id ` set rows"
    using insert_new_cases [OF assms] True by (auto simp: image_iff)
  then have "table_view rows (j_id (new_job input now)) = None" by (simp add: table_view_def lookup_row_None)
  then have "queue_move (table_view rows) (table_view rows')"
    unfolding rows table_view_append [OF new]
    using move_enqueue [of "table_view rows" "j_id (new_job input now)"] by (simp add: job_view_of_def new_job_fields)
  then show ?thesis by blast
next
  case False
  then show ?thesis using insert_new_cases [OF assms] by simp
qed

lemma after_moves:
  "(\<And>v s'. run s = Inr (v, s') \<Longrightarrow> queue_moves (queue_of s) (queue_of s')) \<Longrightarrow>
     queue_moves (queue_of s) (queue_of (after run s))"
  by (cases "run s") (auto simp: after_def)

lemma after_same_jobs:
  "(\<And>v s'. run s = Inr (v, s') \<Longrightarrow> st_jobs s' = st_jobs s) \<Longrightarrow> queue_moves (queue_of s) (queue_of (after run s))"
  by (rule after_moves) (simp add: queue_of_def)

section \<open>Every operation is a sequence of moves\<close>

lemma EnqueueJob_moves: "EnqueueJob h clock input s = Inr (v, s') \<Longrightarrow> queue_moves (queue_of s) (queue_of s')"
  unfolding EnqueueJob_def Let_def queue_of_def
  by (auto simp: result_iffs intro: insert_moves split: option.splits prod.splits)

lemma claim_one_moves:
  assumes "jobs_ok (st_jobs s)" and "holder \<noteq> []" and "claim_one i holder expires now s = (n, s')"
  shows "queue_moves (queue_of s) (queue_of s')"
proof -
  have "s' = s\<lparr>st_jobs := update_where (\<lambda>r. j_id r = i \<and> claimable r) (claim_update holder expires now) (st_jobs s)\<rparr>"
    using assms(3) by (simp add: claim_one_def)
  then show ?thesis
    unfolding queue_of_def using claim_moves [OF assms(1,2), of "\<lambda>r. j_id r = i \<and> claimable r" i]
    by (simp add: claimable_def)
qed

lemma ClaimJob_moves:
  assumes "jobs_ok (st_jobs s)" and run: "ClaimJob clock pool lane holder ttl s = Inr (v, s')"
  shows "queue_moves (queue_of s) (queue_of s')"
  using ClaimJob_row [OF assms(1) run]
proof cases
  case (1 r)
  then show ?thesis
    unfolding queue_of_def
    using claim_moves [OF assms(1), of holder "\<lambda>x. j_id x = j_id r \<and> j_state x = JobQueued" "j_id r"] by simp
qed

lemma ClaimJobByID_moves:
  assumes "jobs_ok (st_jobs s)" and run: "ClaimJobByID clock i holder ttl s = Inr (v, s')"
  shows "queue_moves (queue_of s) (queue_of s')"
proof -
  obtain n s1 where one: "claim_one i holder (op_utc (time_add (op_utc clock) ttl)) (op_utc clock) s = (n, s1)"
    by fastforce
  with run have "s' = s1" "holder \<noteq> []"
    using validateIdentifier_nonempty unfolding ClaimJobByID_def Let_def
    by (auto simp: result_iffs split: if_splits)
  with claim_one_moves [OF assms(1) _ one] show ?thesis by simp
qed

lemma FinishJob_moves:
  assumes jobs: "jobs_ok (st_jobs s)" and run: "FinishJob h clock i token state res message s = Inr (v, s')"
  shows "queue_moves (queue_of s) (queue_of s')"
proof -
  from run obtain n where state: "job_finished state"
    and s': "s' = s\<lparr>st_jobs := update_where (\<lambda>r. j_id r = i \<and> j_token r = token \<and> j_state r = JobRunning)
      (finish_update state n message (op_utc clock)) (st_jobs s)\<rparr>"
    unfolding FinishJob_def Let_def
    by (auto simp: result_iffs job_finished_def split: option.splits if_splits sum.splits)
  have "queue_moves (table_view (st_jobs s)) (table_view (update_where (\<lambda>r. j_id r = i \<and> j_token r = token \<and> j_state r = JobRunning)
      (finish_update state n message (op_utc clock)) (st_jobs s)))"
  proof (rule moving_update [OF jobs, where i = i])
    fix r
    assume r: "r \<in> set (st_jobs s)" "j_id r = i \<and> j_token r = token \<and> j_state r = JobRunning"
    then have "table_view (st_jobs s) i = Some (VClaimed (j_claimed_by r))"
      using table_view_row [OF jobs r(1)] by (simp add: job_view_of_def)
    from move_finish [of "table_view (st_jobs s)" i, OF this state, of n]
    show "queue_move (table_view (st_jobs s))
        ((table_view (st_jobs s))(i \<mapsto> job_view_of (finish_update state n message (op_utc clock) r)))"
      using finished_neq [OF state] by (simp add: job_view_of_def)
  qed simp_all
  then show ?thesis by (simp add: queue_of_def s')
qed

text \<open>Renewals, bindings and bookkeeping move nothing.\<close>

lemma silent_moves:
  assumes "s' = s\<lparr>st_jobs := update_where hit upd (st_jobs s)\<rparr>" and "\<And>x. j_id (upd x) = j_id x"
    and "\<And>x. hit x \<Longrightarrow> job_view_of (upd x) = job_view_of x"
  shows "queue_moves (queue_of s) (queue_of s')"
  using silent_update [of upd hit "st_jobs s", OF assms(2,3)] by (simp add: assms(1) queue_of_def)

lemma RenewJobClaim_moves: "RenewJobClaim clock i token holder ttl s = Inr (v, s') \<Longrightarrow> queue_moves (queue_of s) (queue_of s')"
  unfolding RenewJobClaim_def Let_def
  by (auto simp: result_iffs renew_update_def job_view_of_def intro!: silent_moves)

lemma SetJobExternalRefs_moves:
  "SetJobExternalRefs h clock i token task run s = Inr (v, s') \<Longrightarrow> queue_moves (queue_of s) (queue_of s')"
  unfolding SetJobExternalRefs_def Let_def
  by (auto simp: result_iffs refs_update_def job_view_of_def intro!: silent_moves split: if_splits sum.splits)

lemma MarkJobReconciled_moves: "MarkJobReconciled i token s = Inr (v, s') \<Longrightarrow> queue_moves (queue_of s) (queue_of s')"
  unfolding MarkJobReconciled_def Let_def
  by (auto simp: result_iffs job_view_of_def intro!: silent_moves)

lemma RecordDispatchOnce_moves:
  assumes "RecordDispatchOnce h clock i pool lane units s = Inr (v, s')"
  shows "queue_moves (queue_of s) (queue_of s')"
proof -
  have "table_view (update_where (unaccounted i) account_row (st_jobs s)) = table_view (st_jobs s)"
    by (rule silent_update) (simp_all add: account_row_def job_view_of_def)
  then show ?thesis by (simp add: queue_of_def RecordDispatchOnce_Inr(1) [OF assms])
qed

lemma PrepareSubmission_moves:
  assumes ok: "store_ok h s" and run: "PrepareSubmission h clock input holder ttl factory s = Inr (v, s')"
  shows "queue_moves (queue_of s) (queue_of s')"
  using run
proof (rule PrepareSubmission_stages)
  fix payload rows added job job' s2 intent item fresh
  assume valid: "validateJobInput input" and holder: "holder \<noteq> []"
    and rows: "insert_new j_key j_id (new_job (default_job_input (input\<lparr>j_payload := payload\<rparr>)) (op_utc clock)) (st_jobs s) = Inr (rows, added)"
    and claim: "claim_for_submission holder (op_utc (time_add (op_utc clock) ttl)) (op_utc clock) job (s\<lparr>st_jobs := rows\<rparr>) = Inr (job', s2)"
    and publish: "publish_intent h (op_utc clock) job' intent s2 = Inr ((item, fresh), s')"
  let ?s1 = "s\<lparr>st_jobs := rows\<rparr>"
  have jobs: "jobs_ok (st_jobs ?s1)"
    using insert_job_table(1) [OF rows ok_jobs [OF ok] new_job_ok [OF valid] new_job_fields(2)] by simp
  have "queue_moves (queue_of s) (queue_of ?s1)" using insert_moves [OF rows] by (simp add: queue_of_def)
  also have "queue_moves (queue_of ?s1) (queue_of s2)"
  proof (cases "j_state job = JobQueued")
    case True
    obtain n s1 where one: "claim_one (j_id job) holder (op_utc (time_add (op_utc clock) ttl)) (op_utc clock) ?s1 = (n, s1)"
      by fastforce
    with claim True have "s2 = s1" by (auto simp: claim_for_submission_def result_iffs)
    with claim_one_moves [OF jobs holder one] show ?thesis by simp
  next
    case False
    with claim have "s2 = ?s1" by (cases "j_state job") (auto simp: claim_for_submission_def result_iffs)
    then show ?thesis by simp
  qed
  also have "queue_of s2 = queue_of s'"
    using publish by (auto simp: queue_of_def publish_intent_def Let_def result_iffs split: option.splits prod.splits)
  finally show ?thesis .
qed

lemma append_jobs: "appendEventTx h now ety aty aid payload s = Inr s' \<Longrightarrow> st_jobs s' = st_jobs s"
  by (auto simp: appendEventTx_def store_event_def guarded_Inr_iff)

lemma step_moves:
  assumes "store_step h s s'" and ok: "store_ok h s"
  shows "queue_moves (queue_of s) (queue_of s')"
  using assms(1)
proof (cases rule: store_step.cases)
  case (step_enqueue clock jinput)
  then show ?thesis using EnqueueJob_moves by (simp add: after_moves)
next
  case (step_claim clock pool lane holder ttl)
  then show ?thesis using ClaimJob_moves [OF ok_jobs [OF ok]] by (simp add: after_moves)
next
  case (step_claim_id clock i holder ttl)
  then show ?thesis using ClaimJobByID_moves [OF ok_jobs [OF ok]] by (simp add: after_moves)
next
  case (step_renew_claim clock i token holder ttl)
  then show ?thesis using RenewJobClaim_moves by (simp add: after_moves)
next
  case (step_submit clock jinput holder ttl factory)
  then show ?thesis using PrepareSubmission_moves [OF ok] by (simp add: after_moves)
next
  case (step_finish clock i token state res message)
  then show ?thesis using FinishJob_moves [OF ok_jobs [OF ok]] by (simp add: after_moves)
next
  case (step_bind clock i token task run)
  then show ?thesis by (auto intro: after_moves SetJobExternalRefs_moves)
next
  case (step_mark i token)
  then show ?thesis by (auto intro: after_moves MarkJobReconciled_moves)
next
  case (step_record_once clock i pool lane units)
  then show ?thesis using RecordDispatchOnce_moves by (simp add: after_moves)
next
  case (step_dispatch clock l ttl act w)
  then show ?thesis
    by (auto intro!: after_same_jobs simp: WithDispatchLease_def Let_def split: option.splits if_splits prod.splits)
qed (auto intro!: after_same_jobs simp: store_operation_defs SetPaused_def Let_def result_iffs append_jobs
    split: option.splits prod.splits if_splits dest!: append_jobs)

text \<open>
  C8: the database refines the abstract queue: whatever operations run, in any order and with any
  failures, the visible states of the jobs change only by the three moves: a new job is queued, a
  queued job is claimed by a named holder, a claimed job is done with one result.
\<close>

theorem store_refines_queue:
  assumes "store_run h initial_store s"
  shows "queue_moves Map.empty (queue_of s)"
  using assms
proof (induction rule: rtranclp_induct)
  case base
  have "queue_of initial_store = Map.empty" by (simp add: queue_of_def table_view_def initial_store_def lookup_row_def)
  then show ?case by simp
next
  case (step s s')
  have "store_ok h s" using store_run_keeps [OF step.hyps(1) initial_store_ok] by blast
  from step_moves [OF step.hyps(2) this] step.IH show ?case by (rule rtranclp_trans [rotated])
qed

theorem store_refines_queue_witness:
  "queue_moves Map.empty (queue_of finished_store) \<and> queue_of finished_store ''job-1'' = Some (VDone JobSucceeded ''{}'')"
proof
  have "store_run plain_host initial_store queued_store"
    unfolding queued_store_def by (intro r_into_rtranclp step_enqueue)
  also have "store_run plain_host queued_store running_store"
    unfolding running_store_def by (intro r_into_rtranclp step_claim)
  also note finished_later
  finally show "queue_moves Map.empty (queue_of finished_store)" by (rule store_refines_queue)
  show "queue_of finished_store ''job-1'' = Some (VDone JobSucceeded ''{}'')" by code_simp
qed

end
