(* ===== verification/Exp_Ranking.thy ===== *)
theory Exp_Ranking
  imports Exp_Text
begin

text \<open>
  Expected-value scoring and pairwise insertion (\<^verbatim>\<open>internal/ranking/ranking.go\<close>). The rounding
  of double arithmetic is the argument \<open>rnd\<close>; the judge, an external agent, is an argument that
  takes the outside world to an answer (None for an error) and the world after it.
\<close>

datatype ranking_error = ErrInterval | ErrScoreInput | ErrAdvice | ErrChallengerAbsent
  | ErrNoJudge | ErrJudge | ErrBattle

section \<open>Scoring\<close>

record interval =
  iv_low :: go_float
  iv_high :: go_float

definition interval_valid :: "go_float \<Rightarrow> go_float \<Rightarrow> interval \<Rightarrow> bool" where
  "interval_valid minimum maximum v \<longleftrightarrow>
     f_finite (iv_low v) \<and> f_finite (iv_high v) \<and> \<not> f_less (iv_high v) (iv_low v) \<and>
     \<not> f_less (iv_low v) minimum \<and> \<not> f_less maximum (iv_high v)"

definition Midpoint :: "(rat \<Rightarrow> go_float) \<Rightarrow> interval \<Rightarrow> go_float" where
  "Midpoint rnd v = f_div rnd (f_add rnd (iv_low v) (iv_high v)) (Fin 2)"

record assessment =
  as_probability :: interval
  as_gain :: interval
  as_information :: go_float
  as_unblock :: go_float
  as_downside :: go_float
  as_pool_hours :: go_float
  as_confidence :: go_float
  as_age_hours :: go_float
  as_rationale :: string

record weights =
  w_information :: go_float
  w_unblock :: go_float
  w_downside :: go_float
  w_aging :: go_float
  w_cost_floor :: go_float
  w_max_age :: go_float

definition DefaultWeights :: "(rat \<Rightarrow> go_float) \<Rightarrow> weights" where
  "DefaultWeights rnd = \<lparr>w_information = Fin 1, w_unblock = Fin 1, w_downside = Fin 1,
     w_aging = rnd (1 / 1000), w_cost_floor = rnd (5 / 100), w_max_age = rnd (1 / 10)\<rparr>"

text \<open>The guards of \<^verbatim>\<open>Score\<close>, in the order of the code.\<close>

definition score_input :: "assessment \<Rightarrow> (ranking_error, unit) result" where
  "score_input v =
    guarded (interval_valid (Fin 0) (Fin 1) (as_probability v)) ErrInterval
     (guarded (interval_valid (Fin (- 1000000000000)) (Fin 1000000000000) (as_gain v)) ErrInterval
      (guarded (list_all (\<lambda>n. f_finite n \<and> \<not> f_less n f_zero)
                 [as_information v, as_unblock v, as_downside v, as_pool_hours v, as_confidence v, as_age_hours v])
        ErrScoreInput
       (guarded (\<not> f_less f_one (as_confidence v)) ErrScoreInput (Inr ()))))"

definition cost_floor :: "(rat \<Rightarrow> go_float) \<Rightarrow> weights \<Rightarrow> go_float" where
  "cost_floor rnd w =
     (if f_le (w_cost_floor w) f_zero then w_cost_floor (DefaultWeights rnd) else w_cost_floor w)"

definition score_value :: "(rat \<Rightarrow> go_float) \<Rightarrow> weights \<Rightarrow> assessment \<Rightarrow> go_float" where
  "score_value rnd w v =
    (let expected = f_mul rnd (Midpoint rnd (as_probability v)) (Midpoint rnd (as_gain v));
         numerator = f_sub rnd
           (f_add rnd (f_add rnd expected (f_mul rnd (w_information w) (as_information v)))
              (f_mul rnd (w_unblock w) (as_unblock v)))
           (f_mul rnd (w_downside w) (as_downside v));
         base = f_div rnd numerator (f_max (as_pool_hours v) (cost_floor rnd w));
         age_bonus = f_min (w_max_age w) (f_mul rnd (as_age_hours v) (w_aging w))
     in f_add rnd base age_bonus)"

definition Score :: "(rat \<Rightarrow> go_float) \<Rightarrow> weights \<Rightarrow> assessment \<Rightarrow> (ranking_error, go_float) result" where
  "Score rnd w v = andThen (score_input v) (\<lambda>_. Inr (score_value rnd w v))"

section \<open>Advice\<close>

record candidate =
  cd_id :: string
  cd_revision :: string
  cd_title :: string
  cd_brief :: string
  cd_score :: go_float
  cd_assess :: assessment

record advice =
  ad_schema :: string
  ad_suggested :: "string list"
  ad_rationales :: "(string \<times> string) list"
  ad_confidence :: go_float

definition AdviceSchema :: string where "AdviceSchema = ''exp.agent.advice/v1''"
definition BattleSchema :: string where "BattleSchema = ''exp.agent.battle/v1''"

definition confidence_valid :: "go_float \<Rightarrow> bool" where
  "confidence_valid c \<longleftrightarrow> f_finite c \<and> \<not> f_less c f_zero \<and> \<not> f_less f_one c"

text \<open>The loop over the suggestions: \<open>want\<close> are the candidates' identifiers, \<open>seen\<close> the suggestions so far.\<close>

fun advice_loop :: "string list \<Rightarrow> string list \<Rightarrow> string list \<Rightarrow> (ranking_error, string list) result" where
  "advice_loop want seen [] = Inr seen"
| "advice_loop want seen (i # rest) =
     (if i \<notin> set want then Inl ErrAdvice else if i \<in> set seen then Inl ErrAdvice
      else advice_loop want (i # seen) rest)"

definition advice_validate :: "candidate list \<Rightarrow> advice \<Rightarrow> (ranking_error, unit) result" where
  "advice_validate candidates a =
    guarded (ad_schema a = AdviceSchema \<and> confidence_valid (ad_confidence a)) ErrAdvice
     (guarded (list_all (\<lambda>c. cd_id c \<noteq> []) candidates) ErrAdvice
       (andThen (advice_loop (map cd_id candidates) [] (ad_suggested a)) (\<lambda>seen.
         guarded (length seen = card (set (map cd_id candidates))) ErrAdvice (Inr ()))))"

fun position_of :: "string \<Rightarrow> string list \<Rightarrow> nat option" where
  "position_of i [] = None"
| "position_of i (x # xs) = (if x = i then Some 0 else map_option Suc (position_of i xs))"

definition ProvisionalIndex :: "advice \<Rightarrow> candidate list \<Rightarrow> string \<Rightarrow> (ranking_error, nat) result" where
  "ProvisionalIndex a candidates challenger =
    andThen (advice_validate candidates a) (\<lambda>_.
      case position_of challenger (ad_suggested a) of None \<Rightarrow> Inl ErrChallengerAbsent | Some n \<Rightarrow> Inr n)"

section \<open>Battles\<close>

datatype battle_verdict = VerdictWinner | VerdictTie | VerdictAbstain | VerdictOther string

record battle_judgment =
  jd_schema :: string
  jd_verdict :: battle_verdict
  jd_winner :: string
  jd_confidence :: go_float
  jd_rationale :: string

definition judgment_valid :: "string \<Rightarrow> string \<Rightarrow> battle_judgment \<Rightarrow> bool" where
  "judgment_valid left right j \<longleftrightarrow>
    jd_schema j = BattleSchema \<and> confidence_valid (jd_confidence j) \<and>
    (case jd_verdict j of
       VerdictWinner \<Rightarrow> jd_winner j = left \<or> jd_winner j = right
     | VerdictTie \<Rightarrow> jd_winner j = []
     | VerdictAbstain \<Rightarrow> jd_winner j = []
     | VerdictOther _ \<Rightarrow> False)"

definition needs_human :: string where "needs_human = ''needs_human''"
definition tie_outcome :: string where "tie_outcome = ''tie''"

definition consistentOutcome :: "battle_judgment \<Rightarrow> battle_judgment \<Rightarrow> go_float \<Rightarrow> string" where
  "consistentOutcome forward reverse minimum =
    (if f_less (jd_confidence forward) minimum \<or> f_less (jd_confidence reverse) minimum \<or>
        jd_verdict forward = VerdictAbstain \<or> jd_verdict reverse = VerdictAbstain then needs_human
     else if jd_verdict forward = VerdictTie \<and> jd_verdict reverse = VerdictTie then tie_outcome
     else if jd_verdict forward = VerdictWinner \<and> jd_verdict reverse = VerdictWinner \<and>
        jd_winner forward = jd_winner reverse then jd_winner forward
     else needs_human)"

record pair_audit =
  pa_challenger :: string
  pa_incumbent :: string
  pa_forward :: battle_judgment
  pa_reverse :: battle_judgment
  pa_outcome :: string

record insert_result =
  ir_order :: "candidate list"
  ir_position :: int
  ir_applied :: bool
  ir_needs_human :: bool
  ir_reason :: string
  ir_audits :: "pair_audit list"

record insert_options =
  io_minimum :: go_float
  io_tie_incumbent :: bool

type_synonym 'w judge = "'w \<Rightarrow> candidate \<Rightarrow> candidate \<Rightarrow> battle_judgment option \<times> 'w"

section \<open>Insertion\<close>

text \<open>One order-swapped comparison: its audit (or the error), and the world after it.\<close>

definition judged :: "candidate \<Rightarrow> candidate \<Rightarrow> go_float \<Rightarrow> battle_judgment \<Rightarrow> battle_judgment \<Rightarrow> (ranking_error, pair_audit) result" where
  "judged challenger incumbent minimum forward reverse =
    guarded (judgment_valid (cd_id challenger) (cd_id incumbent) forward \<and>
             judgment_valid (cd_id incumbent) (cd_id challenger) reverse) ErrBattle
     (Inr \<lparr>pa_challenger = cd_id challenger, pa_incumbent = cd_id incumbent, pa_forward = forward,
           pa_reverse = reverse, pa_outcome = consistentOutcome forward reverse minimum\<rparr>)"

definition compare_pair ::
  "'w judge \<Rightarrow> go_float \<Rightarrow> candidate \<Rightarrow> candidate \<Rightarrow> 'w \<Rightarrow> (ranking_error, pair_audit) result \<times> 'w" where
  "compare_pair judge minimum challenger incumbent w =
    (case judge w challenger incumbent of
       (None, w1) \<Rightarrow> (Inl ErrJudge, w1)
     | (Some forward, w1) \<Rightarrow>
        (case judge w1 incumbent challenger of
           (None, w2) \<Rightarrow> (Inl ErrJudge, w2)
         | (Some reverse, w2) \<Rightarrow> (judged challenger incumbent minimum forward reverse, w2)))"

text \<open>The outcome of a loop: an error, an undecided battle, or the order and position it stopped at.\<close>

datatype placement = Failed ranking_error | Undecided | Placed "candidate list" nat

definition swap_at :: "nat \<Rightarrow> 'a list \<Rightarrow> 'a list" where
  "swap_at p xs = xs[p := xs ! Suc p, Suc p := xs ! p]"

fun climb ::
  "'w judge \<Rightarrow> go_float \<Rightarrow> candidate \<Rightarrow> nat \<Rightarrow> candidate list \<Rightarrow> pair_audit list \<Rightarrow> 'w \<Rightarrow> placement \<times> pair_audit list \<times> 'w" where
  "climb judge minimum c 0 order audits w = (Placed order 0, audits, w)"
| "climb judge minimum c (Suc p) order audits w =
    (case compare_pair judge minimum c (order ! p) w of
       (Inl e, w1) \<Rightarrow> (Failed e, audits, w1)
     | (Inr audit, w1) \<Rightarrow>
        (if pa_outcome audit = needs_human then (Undecided, audits @ [audit], w1)
         else if pa_outcome audit \<noteq> cd_id c then (Placed order (Suc p), audits @ [audit], w1)
         else climb judge minimum c p (swap_at p order) (audits @ [audit]) w1))"

function descend ::
  "'w judge \<Rightarrow> go_float \<Rightarrow> bool \<Rightarrow> candidate \<Rightarrow> nat \<Rightarrow> candidate list \<Rightarrow> pair_audit list \<Rightarrow> 'w \<Rightarrow>
     placement \<times> pair_audit list \<times> 'w" where
  "descend judge minimum tie_first c p order audits w =
    (if Suc p < length order then
      (case compare_pair judge minimum c (order ! Suc p) w of
         (Inl e, w1) \<Rightarrow> (Failed e, audits, w1)
       | (Inr audit, w1) \<Rightarrow>
          (if pa_outcome audit = needs_human then (Undecided, audits @ [audit], w1)
           else if pa_outcome audit = cd_id c then (Placed order p, audits @ [audit], w1)
           else if pa_outcome audit = tie_outcome then
             (if tie_first then descend judge minimum tie_first c (Suc p) (swap_at p order) (audits @ [audit]) w1
              else (Placed order p, audits @ [audit], w1))
           else if pa_outcome audit = cd_id (order ! Suc p) then
             descend judge minimum tie_first c (Suc p) (swap_at p order) (audits @ [audit]) w1
           else (Placed order p, audits @ [audit], w1)))
     else (Placed order p, audits, w))"
  by pat_completeness auto
termination
  by (relation "measure (\<lambda>(_, _, _, _, p, order, _, _). length order - p)") (auto simp: swap_at_def)

declare descend.simps [simp del]

definition undecided_reason :: string where
  "undecided_reason = ''order-swapped battle disagreed or lacked confidence''"

definition insert_outcome ::
  "candidate list \<Rightarrow> placement \<times> pair_audit list \<times> 'w \<Rightarrow> (ranking_error, insert_result) result \<times> 'w" where
  "insert_outcome queue r =
    (case r of
       (Failed e, _, w) \<Rightarrow> (Inl e, w)
     | (Undecided, audits, w) \<Rightarrow>
         (Inr \<lparr>ir_order = queue, ir_position = -1, ir_applied = False, ir_needs_human = True,
               ir_reason = undecided_reason, ir_audits = audits\<rparr>, w)
     | (Placed order p, audits, w) \<Rightarrow>
         (Inr \<lparr>ir_order = order, ir_position = int p, ir_applied = True, ir_needs_human = False,
               ir_reason = [], ir_audits = audits\<rparr>, w))"

definition clamp :: "int \<Rightarrow> candidate list \<Rightarrow> nat" where
  "clamp provisional queue = min (nat provisional) (length queue)"

definition minimum_confidence :: "(rat \<Rightarrow> go_float) \<Rightarrow> insert_options \<Rightarrow> go_float" where
  "minimum_confidence rnd options =
     (if f_le (io_minimum options) f_zero then rnd (6 / 10) else io_minimum options)"

definition place ::
  "'w judge \<Rightarrow> go_float \<Rightarrow> bool \<Rightarrow> candidate \<Rightarrow> nat \<Rightarrow> candidate list \<Rightarrow> 'w \<Rightarrow> placement \<times> pair_audit list \<times> 'w" where
  "place judge minimum tie_first c p order w =
    (case climb judge minimum c p order [] w of
       (Placed order1 p1, audits, w1) \<Rightarrow> descend judge minimum tie_first c p1 order1 audits w1
     | r \<Rightarrow> r)"

definition Insert ::
  "(rat \<Rightarrow> go_float) \<Rightarrow> candidate list \<Rightarrow> candidate \<Rightarrow> int \<Rightarrow> 'w judge option \<Rightarrow> insert_options \<Rightarrow> 'w \<Rightarrow>
     (ranking_error, insert_result) result \<times> 'w" where
  "Insert rnd queue c provisional judge options w =
    (case judge of None \<Rightarrow> (Inl ErrNoJudge, w)
     | Some j \<Rightarrow>
        (let p = clamp provisional queue; order = take p queue @ c # drop p queue in
         insert_outcome queue
           (place j (minimum_confidence rnd options) (io_tie_incumbent options) c p order w)))"

section \<open>Ordering by score\<close>

definition score_before :: "candidate \<Rightarrow> candidate \<Rightarrow> bool" where
  "score_before a b \<longleftrightarrow>
     (if f_eq (cd_score a) (cd_score b) then cd_id a < cd_id b else f_less (cd_score b) (cd_score a))"

definition ByScore :: "candidate list \<Rightarrow> candidate list" where
  "ByScore candidates = stable_sort score_before candidates"

end
