(* ===== verification/Exp_Ranking_Theorems.thy ===== *)
theory Exp_Ranking_Theorems
  imports Exp_Ranking
begin

text \<open>
  What \<^verbatim>\<open>internal/ranking\<close> promises the queue: insertion never reorders the incumbents and stops
  at a locally stable place, scores are monotone in their inputs, and the order by score does not
  depend on the order of its input.
\<close>

section \<open>Insertion\<close>

definition inserted :: "'a list \<Rightarrow> 'a \<Rightarrow> nat \<Rightarrow> 'a list" where
  "inserted q c p = take p q @ c # drop p q"

lemma length_inserted [simp]: "length (inserted q c p) = Suc (length q)"
  by (simp add: inserted_def)

lemma inserted_above: "p < length q \<Longrightarrow> inserted q c (Suc p) ! p = q ! p"
  by (simp add: inserted_def nth_append)

lemma inserted_below: "p < length q \<Longrightarrow> inserted q c p ! Suc p = q ! p"
  by (simp add: inserted_def nth_append)

lemma swap_pair: "length xs = p \<Longrightarrow> swap_at p (xs @ x # y # ys) = xs @ y # x # ys"
  by (simp add: swap_at_def nth_append list_update_append)

lemma inserted_split:
  assumes "p < length q"
  shows "inserted q c (Suc p) = take p q @ q ! p # c # drop (Suc p) q"
    and "inserted q c p = take p q @ c # q ! p # drop (Suc p) q"
  using assms by (simp_all add: inserted_def take_Suc_conv_app_nth Cons_nth_drop_Suc)

lemma swap_up: "p < length q \<Longrightarrow> swap_at p (inserted q c (Suc p)) = inserted q c p"
  unfolding inserted_split by (rule swap_pair) simp

lemma swap_down: "p < length q \<Longrightarrow> swap_at p (inserted q c p) = inserted q c (Suc p)"
  unfolding inserted_split by (rule swap_pair) simp

definition decided :: "pair_audit \<Rightarrow> bool" where
  "decided a \<longleftrightarrow> pa_outcome a \<noteq> needs_human"

lemma decided_fold: "list_all (\<lambda>a. pa_outcome a \<noteq> needs_human) audits = list_all decided audits"
  by (simp add: list_all_iff decided_def)

text \<open>What a loop may have done to the order and the audits: the challenger stands at one place among
  the unchanged incumbents, and only the last battle of an undecided run is undecided.\<close>

fun placement_ok :: "candidate list \<Rightarrow> candidate \<Rightarrow> nat \<Rightarrow> nat \<Rightarrow> placement \<Rightarrow> pair_audit list \<Rightarrow> bool" where
  "placement_ok q c lo hi (Failed e) audits = list_all decided audits"
| "placement_ok q c lo hi Undecided audits =
     (audits \<noteq> [] \<and> list_all decided (butlast audits) \<and> \<not> decided (last audits))"
| "placement_ok q c lo hi (Placed order p) audits =
     (order = inserted q c p \<and> lo \<le> p \<and> p \<le> hi \<and> list_all decided audits)"

lemma climb_step:
  assumes "p < length q"
  shows "climb judge m c (Suc p) (inserted q c (Suc p)) audits w =
    (case compare_pair judge m c (q ! p) w of
       (Inl e, w1) \<Rightarrow> (Failed e, audits, w1)
     | (Inr a, w1) \<Rightarrow>
        (if \<not> decided a then (Undecided, audits @ [a], w1)
         else if pa_outcome a = cd_id c then climb judge m c p (inserted q c p) (audits @ [a]) w1
         else (Placed (inserted q c (Suc p)) (Suc p), audits @ [a], w1)))"
  using assms by (auto simp: inserted_above swap_up decided_def split: prod.splits sum.splits)

lemma climb_ok:
  assumes "p \<le> length q" and "list_all decided audits" and "climb judge m c p (inserted q c p) audits w = (r, audits', w')"
  shows "placement_ok q c 0 p r audits' \<and> length audits' \<le> length audits + p"
  using assms
proof (induction p arbitrary: audits w)
  case 0
  then show ?case by auto
next
  case (Suc p)
  then have p: "p < length q" by simp
  obtain x w1 where cmp: "compare_pair judge m c (q ! p) w = (x, w1)" by fastforce
  show ?case
  proof (cases x)
    case (Inl e)
    with Suc.prems cmp show ?thesis by (auto simp: climb_step [OF p] simp del: climb.simps)
  next
    case (Inr audit)
    consider "\<not> decided audit" | "decided audit" "pa_outcome audit \<noteq> cd_id c"
      | "decided audit" "pa_outcome audit = cd_id c" by blast
    then show ?thesis
    proof cases
      case 3
      with Suc.prems(3) cmp Inr
      have "climb judge m c p (inserted q c p) (audits @ [audit]) w1 = (r, audits', w')"
        by (simp add: climb_step [OF p] del: climb.simps)
      from Suc.IH [OF _ _ this] p Suc.prems(2) 3
      show ?thesis by (cases r) auto
    qed (use Suc.prems cmp Inr in \<open>auto simp: climb_step [OF p] simp del: climb.simps\<close>)
  qed
qed

text \<open>The second loop, one step at a time over the incumbents below.\<close>

lemma descend_end: "\<not> p < length q \<Longrightarrow> descend judge m t c p (inserted q c p) audits w = (Placed (inserted q c p) p, audits, w)"
  by (subst descend.simps) simp

definition passes :: "bool \<Rightarrow> candidate \<Rightarrow> candidate \<Rightarrow> pair_audit \<Rightarrow> bool" where
  "passes t c x a \<longleftrightarrow> pa_outcome a \<noteq> cd_id c \<and> (if pa_outcome a = tie_outcome then t else pa_outcome a = cd_id x)"

lemma descend_step:
  assumes "p < length q"
  shows "descend judge m t c p (inserted q c p) audits w =
    (case compare_pair judge m c (q ! p) w of
       (Inl e, w1) \<Rightarrow> (Failed e, audits, w1)
     | (Inr a, w1) \<Rightarrow>
        (if \<not> decided a then (Undecided, audits @ [a], w1)
         else if passes t c (q ! p) a then descend judge m t c (Suc p) (inserted q c (Suc p)) (audits @ [a]) w1
         else (Placed (inserted q c p) p, audits @ [a], w1)))"
  using assms
  by (subst descend.simps)
    (auto simp: inserted_below swap_down decided_def passes_def split: prod.splits sum.splits)

lemma descend_ok:
  assumes "p \<le> length q" and "list_all decided audits"
    and "descend judge m t c p (inserted q c p) audits w = (r, audits', w')"
  shows "placement_ok q c p (length q) r audits' \<and> length audits' + p \<le> length audits + length q"
  using assms
proof (induction "length q - p" arbitrary: p audits w)
  case 0
  then show ?case by (auto simp: descend_end)
next
  case (Suc n)
  then have p: "p < length q" by simp
  obtain x w1 where cmp: "compare_pair judge m c (q ! p) w = (x, w1)" by fastforce
  show ?case
  proof (cases x)
    case (Inl e)
    with Suc.prems cmp show ?thesis by (auto simp: descend_step [OF p])
  next
    case (Inr a)
    consider "\<not> decided a" | "decided a" "\<not> passes t c (q ! p) a" | "decided a" "passes t c (q ! p) a" by blast
    then show ?thesis
    proof cases
      case 3
      with Suc.prems(3) cmp Inr
      have run: "descend judge m t c (Suc p) (inserted q c (Suc p)) (audits @ [a]) w1 = (r, audits', w')"
        by (simp add: descend_step [OF p])
      have "n = length q - Suc p" using Suc.hyps(2) by simp
      from Suc.hyps(1) [OF this _ _ run] p Suc.prems(2) 3(1)
      have "placement_ok q c (Suc p) (length q) r audits' \<and> length audits' + p \<le> length audits + length q" by simp
      then show ?thesis by (cases r) auto
    qed (use Suc.prems cmp Inr p in \<open>auto simp: descend_step [OF p]\<close>)
  qed
qed

lemma place_ok:
  assumes "p \<le> length q" and "place judge m t c p (inserted q c p) w = (r, audits, w')"
  shows "placement_ok q c 0 (length q) r audits \<and> length audits \<le> 2 * length q"
proof -
  obtain r1 audits1 w1 where up: "climb judge m c p (inserted q c p) [] w = (r1, audits1, w1)" by (metis prod_cases3)
  from climb_ok [OF assms(1) _ up] have ok: "placement_ok q c 0 p r1 audits1" "length audits1 \<le> p" by simp_all
  show ?thesis
  proof (cases r1)
    case (Placed order1 p1)
    with ok have o: "order1 = inserted q c p1" "p1 \<le> length q" "list_all decided audits1" using assms(1) by simp_all
    with assms(2) up Placed have "descend judge m t c p1 (inserted q c p1) audits1 w1 = (r, audits, w')"
      by (simp add: place_def)
    from descend_ok [OF o(2,3) this] ok(2) assms(1) show ?thesis by (cases r) auto
  qed (use assms up ok in \<open>auto simp: place_def\<close>)
qed

text \<open>A judge without memory: the two orders of a pair determine the outcome.\<close>

definition steady :: "(candidate \<Rightarrow> candidate \<Rightarrow> battle_judgment option) \<Rightarrow> 'w judge" where
  "steady f w a b = (f a b, w)"

definition battle :: "(candidate \<Rightarrow> candidate \<Rightarrow> battle_judgment option) \<Rightarrow> go_float \<Rightarrow> candidate \<Rightarrow> candidate \<Rightarrow>
    (ranking_error, pair_audit) result" where
  "battle f m c x = fst (compare_pair (steady f) m c x ())"

definition battle_result :: "(candidate \<Rightarrow> candidate \<Rightarrow> battle_judgment option) \<Rightarrow> go_float \<Rightarrow> candidate \<Rightarrow> candidate \<Rightarrow> string option" where
  "battle_result f m c x = (case battle f m c x of Inl _ \<Rightarrow> None | Inr a \<Rightarrow> Some (pa_outcome a))"

lemma compare_steady: "compare_pair (steady f) m c x w = (battle f m c x, w)"
  by (auto simp: battle_def compare_pair_def steady_def split: option.splits)

lemma battle_outcome_cases:
  assumes "battle f m c x = Inr a" and "decided a"
  shows "pa_outcome a = tie_outcome \<or> pa_outcome a = cd_id c \<or> pa_outcome a = cd_id x"
  using assms
  by (auto simp: battle_def compare_pair_def steady_def judged_def guarded_def judgment_valid_def consistentOutcome_def
      decided_def split: option.splits if_splits battle_verdict.splits)

definition stable_above :: "(candidate \<Rightarrow> candidate \<Rightarrow> battle_judgment option) \<Rightarrow> go_float \<Rightarrow> candidate list \<Rightarrow> candidate \<Rightarrow> nat \<Rightarrow> bool" where
  "stable_above f m q c p \<longleftrightarrow> 0 < p \<longrightarrow> battle_result f m c (q ! (p - 1)) \<noteq> Some (cd_id c)"

lemma climb_stable:
  assumes "p \<le> length q" and "climb (steady f) m c p (inserted q c p) audits w = (Placed order s, audits', w')"
  shows "order = inserted q c s \<and> s \<le> length q \<and> stable_above f m q c s"
  using assms
proof (induction p arbitrary: audits w)
  case 0
  then show ?case by (auto simp: stable_above_def)
next
  case (Suc p)
  then have p: "p < length q" by simp
  from Suc.prems(2) obtain a where a: "battle f m c (q ! p) = Inr a" "decided a"
    unfolding climb_step [OF p] compare_steady by (auto split: sum.splits if_splits)
  show ?case
  proof (cases "pa_outcome a = cd_id c")
    case True
    with Suc.prems(2) a have "climb (steady f) m c p (inserted q c p) (audits @ [a]) w = (Placed order s, audits', w')"
      unfolding climb_step [OF p] compare_steady by simp
    from Suc.IH [OF _ this] p show ?thesis by simp
  next
    case False
    with Suc.prems(2) a have "order = inserted q c (Suc p)" "s = Suc p" unfolding climb_step [OF p] compare_steady by auto
    with False a p show ?thesis by (simp add: stable_above_def battle_result_def)
  qed
qed

lemma descend_stable:
  assumes "p \<le> length q" and "stable_above f m q c p"
    and "descend (steady f) m t c p (inserted q c p) audits w = (Placed order s, audits', w')"
  shows "order = inserted q c s \<and> s \<le> length q \<and> stable_above f m q c s \<and>
    (s < length q \<longrightarrow> (\<exists>a. battle f m c (q ! s) = Inr a \<and> decided a \<and> \<not> passes t c (q ! s) a))"
  using assms
proof (induction "length q - p" arbitrary: p audits w)
  case 0
  then show ?case by (auto simp: descend_end)
next
  case (Suc n)
  then have p: "p < length q" by simp
  from Suc.prems(3) obtain a where a: "battle f m c (q ! p) = Inr a" "decided a"
    unfolding descend_step [OF p] compare_steady by (auto split: sum.splits if_splits)
  show ?case
  proof (cases "passes t c (q ! p) a")
    case True
    with Suc.prems(3) a
    have run: "descend (steady f) m t c (Suc p) (inserted q c (Suc p)) (audits @ [a]) w = (Placed order s, audits', w')"
      unfolding descend_step [OF p] compare_steady by simp
    have "stable_above f m q c (Suc p)" using True a by (simp add: stable_above_def battle_result_def passes_def)
    moreover have "n = length q - Suc p" using Suc.hyps(2) by simp
    ultimately show ?thesis using Suc.hyps(1) [OF _ _ _ run] p by simp
  next
    case False
    with Suc.prems a show ?thesis unfolding descend_step [OF p] compare_steady by auto
  qed
qed

lemma place_stable:
  assumes "p \<le> length q" and "place (steady f) m t c p (inserted q c p) w = (Placed order s, audits, w')"
  shows "order = inserted q c s \<and> s \<le> length q \<and> stable_above f m q c s \<and>
    (s < length q \<longrightarrow> (\<exists>a. battle f m c (q ! s) = Inr a \<and> decided a \<and> \<not> passes t c (q ! s) a))"
proof -
  obtain r1 audits1 w1 where up: "climb (steady f) m c p (inserted q c p) [] w = (r1, audits1, w1)" by (metis prod_cases3)
  with assms(2) obtain order1 p1 where r1: "r1 = Placed order1 p1" by (cases r1) (auto simp: place_def)
  have o: "order1 = inserted q c p1" "p1 \<le> length q" "stable_above f m q c p1"
    using climb_stable [OF assms(1) up [unfolded r1]] by simp_all
  with assms(2) up r1 have "descend (steady f) m t c p1 (inserted q c p1) audits1 w1 = (Placed order s, audits, w')"
    by (simp add: place_def)
  from descend_stable [OF o(2,3) this] show ?thesis .
qed

lemma Insert_placement:
  assumes "Insert rnd q c provisional judge options w = (Inr r, w')"
  obtains j p audits pl where "judge = Some j" "p \<le> length q"
    "place j (minimum_confidence rnd options) (io_tie_incumbent options) c p (inserted q c p) w = (pl, audits, w')"
    "insert_outcome q (pl, audits, w') = (Inr r, w')"
proof -
  from assms obtain j where j: "judge = Some j" by (cases judge) (auto simp: Insert_def)
  obtain pl audits w2 where run: "place j (minimum_confidence rnd options) (io_tie_incumbent options) c
      (clamp provisional q) (inserted q c (clamp provisional q)) w = (pl, audits, w2)" by (metis prod_cases3)
  with assms j have out: "insert_outcome q (pl, audits, w2) = (Inr r, w')"
    by (simp add: Insert_def Let_def inserted_def)
  then have "w2 = w'" by (cases pl) (auto simp: insert_outcome_def)
  with j run out show thesis by (intro that) (auto simp: clamp_def)
qed

text \<open>
  C34: whatever the judge answers, and even when it answers differently every time, insertion does
  not reorder the incumbents: an applied result is the queue with the challenger put in at the
  reported position, an undecided one is the queue itself, and at most two battles per incumbent
  are fought. It is applied exactly when every battle was decided.
\<close>

theorem Insert_keeps_incumbents:
  assumes "Insert rnd q c provisional judge options w = (Inr r, w')"
  shows "(if ir_applied r
          then \<exists>p \<le> length q. ir_position r = int p \<and> ir_order r = take p q @ c # drop p q
          else ir_order r = q \<and> ir_position r = - 1) \<and>
    ir_needs_human r = (\<not> ir_applied r) \<and>
    ir_applied r = list_all (\<lambda>a. pa_outcome a \<noteq> needs_human) (ir_audits r) \<and>
    length (ir_audits r) \<le> 2 * length q"
proof -
  obtain j p audits pl where p: "p \<le> length q"
    and run: "place j (minimum_confidence rnd options) (io_tie_incumbent options) c p (inserted q c p) w = (pl, audits, w')"
    and out: "insert_outcome q (pl, audits, w') = (Inr r, w')"
    using Insert_placement [OF assms] by metis
  from place_ok [OF p run] have ok: "placement_ok q c 0 (length q) pl audits" "length audits \<le> 2 * length q" by simp_all
  show ?thesis
  proof (cases pl)
    case Undecided
    with ok(1) have "audits \<noteq> []" "\<not> decided (last audits)" by simp_all
    then have "\<not> list_all (\<lambda>a. pa_outcome a \<noteq> needs_human) audits"
      using last_in_set unfolding decided_def list_all_iff by blast
    with Undecided out ok(2) show ?thesis by (auto simp: insert_outcome_def)
  next
    case (Placed order s)
    with out ok show ?thesis by (auto simp: insert_outcome_def inserted_def decided_fold)
  qed (use out in \<open>simp add: insert_outcome_def\<close>)
qed

text \<open>
  With a judge whose answers depend only on the pair it is shown, an applied insertion ends at
  a locally stable place: the challenger does not beat the incumbent right above it, and it beats
  the one right below it, or ties with it where ties do not favour incumbents.
\<close>

theorem Insert_locally_stable:
  assumes "Insert rnd q c provisional (Some (steady f)) options w = (Inr r, w')" and "ir_applied r"
    and "m = minimum_confidence rnd options"
  shows "\<exists>p \<le> length q. ir_position r = int p \<and> ir_order r = take p q @ c # drop p q \<and>
    (0 < p \<longrightarrow> battle_result f m c (q ! (p - 1)) \<noteq> Some (cd_id c)) \<and>
    (p < length q \<longrightarrow> battle_result f m c (q ! p) = Some (cd_id c) \<or>
        battle_result f m c (q ! p) = Some tie_outcome \<and> \<not> io_tie_incumbent options)"
proof -
  obtain p audits pl where p: "p \<le> length q"
    and run: "place (steady f) m (io_tie_incumbent options) c p (inserted q c p) w = (pl, audits, w')"
    and out: "insert_outcome q (pl, audits, w') = (Inr r, w')"
    using Insert_placement [OF assms(1)] assms(3) by (metis option.sel)
  from out assms(2) obtain order s where pl: "pl = Placed order s" by (cases pl) (auto simp: insert_outcome_def)
  from place_stable [OF p run [unfolded pl]]
  have stable: "order = inserted q c s" "s \<le> length q" "stable_above f m q c s"
    and below: "s < length q \<longrightarrow> (\<exists>a. battle f m c (q ! s) = Inr a \<and> decided a \<and> \<not> passes (io_tie_incumbent options) c (q ! s) a)"
    by blast+
  have "s < length q \<longrightarrow> battle_result f m c (q ! s) = Some (cd_id c) \<or>
        battle_result f m c (q ! s) = Some tie_outcome \<and> \<not> io_tie_incumbent options"
    using below battle_outcome_cases by (fastforce simp: passes_def battle_result_def split: if_splits)
  with stable out pl show ?thesis
    by (auto simp: insert_outcome_def inserted_def stable_above_def intro!: exI [of _ s])
qed

section \<open>Advice\<close>

lemma advice_loop_Inr:
  "advice_loop want seen xs = Inr ys \<Longrightarrow> distinct seen \<Longrightarrow>
     ys = rev xs @ seen \<and> set xs \<subseteq> set want \<and> distinct ys"
  by (induction want seen xs rule: advice_loop.induct) (auto split: if_splits)

lemma position_of_Some: "position_of i xs = Some n \<Longrightarrow> n < length xs \<and> xs ! n = i"
  by (induction xs arbitrary: n) (auto split: if_splits)

lemma advice_ranks_all:
  assumes "advice_validate candidates a = Inr ()"
  shows "distinct (ad_suggested a)" and "set (ad_suggested a) = cd_id ` set candidates"
proof -
  from assms obtain seen where loop: "advice_loop (map cd_id candidates) [] (ad_suggested a) = Inr seen"
    and card: "length seen = card (cd_id ` set candidates)"
    by (auto simp: advice_validate_def result_iffs)
  from advice_loop_Inr [OF loop] have d: "distinct (ad_suggested a)" "set (ad_suggested a) \<subseteq> cd_id ` set candidates"
    "length seen = length (ad_suggested a)" by auto
  then show "distinct (ad_suggested a)" "set (ad_suggested a) = cd_id ` set candidates"
    using card by (simp_all add: card_subset_eq distinct_card)
qed

section \<open>Scores\<close>

text \<open>The order of doubles up to NaN, and the rounding modes of IEEE arithmetic: monotone, and exact at zero.\<close>

definition nle :: "go_float \<Rightarrow> go_float \<Rightarrow> bool" where
  "nle x y \<longleftrightarrow> x = NaN \<or> y = NaN \<or> f_le x y"

definition rounds :: "(rat \<Rightarrow> go_float) \<Rightarrow> bool" where
  "rounds rnd \<longleftrightarrow> (\<forall>a b. a \<le> b \<longrightarrow> f_le (rnd a) (rnd b)) \<and> rnd 0 = Fin 0"

definition scale :: "go_float \<Rightarrow> bool" where
  "scale k \<longleftrightarrow> f_finite k \<and> \<not> f_less k f_zero"

lemma f_le_simps [simp]:
  "f_le (Fin a) (Fin b) \<longleftrightarrow> a \<le> b" "f_le x PosInf \<longleftrightarrow> x \<noteq> NaN" "f_le NegInf x \<longleftrightarrow> x \<noteq> NaN"
  "\<not> f_le NaN x" "\<not> f_le x NaN" "\<not> f_le PosInf (Fin a)" "\<not> f_le (Fin a) NegInf" "\<not> f_le PosInf NegInf"
  by (cases x; auto simp: f_le_def)+

lemma nle_simps [simp]:
  "nle NaN x" "nle x NaN" "nle x PosInf" "nle NegInf x" "nle (Fin a) (Fin b) \<longleftrightarrow> a \<le> b"
  "\<not> nle PosInf (Fin a)" "\<not> nle (Fin a) NegInf" "\<not> nle PosInf NegInf"
  by (auto simp: nle_def)

lemma nle_refl [simp]: "nle x x"
  by (cases x) auto

lemma nle_not_less: "nle x y \<Longrightarrow> \<not> f_less y x"
  by (cases x; cases y) auto

lemma rounds_nle: "rounds rnd \<Longrightarrow> a \<le> b \<Longrightarrow> nle (rnd a) (rnd b)"
  by (simp add: rounds_def nle_def)

lemma nle_add: "rounds rnd \<Longrightarrow> nle x x' \<Longrightarrow> nle y y' \<Longrightarrow> nle (f_add rnd x y) (f_add rnd x' y')"
  by (cases x; cases x'; cases y; cases y') (auto intro: rounds_nle add_mono)

lemma nle_neg: "nle x y \<Longrightarrow> nle (f_neg y) (f_neg x)"
  by (cases x; cases y) auto

lemma scale_Fin: "scale k \<longleftrightarrow> (\<exists>a. k = Fin a \<and> 0 \<le> a)"
  by (cases k) (auto simp: scale_def f_zero_def not_less)

lemma f_inf_simps [simp]: "f_inf 0 = NaN" "0 < s \<Longrightarrow> f_inf s = PosInf" "s < 0 \<Longrightarrow> f_inf s = NegInf"
  by (auto simp: f_inf_def)

lemma f_mul_commute: "f_mul rnd x y = f_mul rnd y x"
  by (cases x; cases y) (simp_all add: mult.commute)

lemma nle_mul_left:
  assumes "rounds rnd" and "scale k" and "nle x y"
  shows "nle (f_mul rnd k x) (f_mul rnd k y)"
proof -
  from assms(2) obtain a where k: "k = Fin a" and a: "0 \<le> a" by (auto simp: scale_Fin)
  show ?thesis
  proof (cases "a = 0")
    case True
    with k assms(1) show ?thesis by (cases x; cases y) (simp_all add: rounds_def)
  next
    case False
    with k a assms(1,3) show ?thesis by (cases x; cases y) (auto intro: rounds_nle mult_left_mono)
  qed
qed

lemma nle_mul_right: "rounds rnd \<Longrightarrow> scale k \<Longrightarrow> nle x y \<Longrightarrow> nle (f_mul rnd x k) (f_mul rnd y k)"
  using nle_mul_left by (simp add: f_mul_commute [of rnd x] f_mul_commute [of rnd y])

lemma nle_min: "nle x y \<Longrightarrow> nle (f_min c x) (f_min c y)"
  by (cases x; cases y; cases c) (auto simp: f_min_def)

lemma nle_div:
  assumes "rounds rnd" and "nle x y" and "\<not> f_less d f_zero"
  shows "nle (f_div rnd x d) (f_div rnd y d)"
  using assms
  by (cases x; cases y; cases d) (auto simp: f_inf_def f_zero_def sgn_if not_less intro: rounds_nle divide_right_mono divide_nonpos_nonneg divide_nonneg_nonneg)

definition weights_ok :: "weights \<Rightarrow> bool" where
  "weights_ok w \<longleftrightarrow> scale (w_information w) \<and> scale (w_unblock w) \<and> scale (w_downside w) \<and> scale (w_aging w)"

lemma divisor_sign:
  assumes "rounds rnd"
  shows "\<not> f_less (f_max hours (cost_floor rnd w)) f_zero"
proof -
  have "nle (Fin 0) (rnd (5 / 100))" using assms rounds_nle [OF assms, of 0 "5 / 100"] by (simp add: rounds_def)
  then have "\<not> f_less (cost_floor rnd w) f_zero"
    by (cases "w_cost_floor w"; cases "rnd (5 / 100)") (auto simp: cost_floor_def DefaultWeights_def f_zero_def)
  then show ?thesis by (cases hours; cases "cost_floor rnd w") (auto simp: f_max_def f_zero_def)
qed

lemma score_value_mono:
  assumes r: "rounds rnd" and w: "weights_ok w"
    and same: "as_probability v' = as_probability v" "as_gain v' = as_gain v" "as_pool_hours v' = as_pool_hours v"
    and better: "nle (as_information v) (as_information v')" "nle (as_unblock v) (as_unblock v')"
      "nle (as_downside v') (as_downside v)" "nle (as_age_hours v) (as_age_hours v')"
  shows "nle (score_value rnd w v) (score_value rnd w v')"
  using w unfolding score_value_def Let_def same f_sub_def weights_ok_def
  by (intro nle_add nle_div nle_min nle_neg nle_mul_left [OF r] nle_mul_right [OF r] r divisor_sign nle_refl better) simp_all

text \<open>
  Scores follow their inputs: a plan that promises more information, unblocks more, risks less
  or has waited longer, and is otherwise the same, never scores less, whatever monotone rounding
  the arithmetic has (infinities and NaN included).
\<close>

theorem Score_monotone:
  assumes "rounds rnd" and "weights_ok w"
    and "Score rnd w v = Inr s" and "Score rnd w v' = Inr s'"
    and "as_probability v' = as_probability v" and "as_gain v' = as_gain v" and "as_pool_hours v' = as_pool_hours v"
    and "f_le (as_information v) (as_information v')" and "f_le (as_unblock v) (as_unblock v')"
    and "f_le (as_downside v') (as_downside v)" and "f_le (as_age_hours v) (as_age_hours v')"
  shows "\<not> f_less s' s"
proof -
  have "nle s s'"
    using score_value_mono [OF assms(1,2,5-7)] assms(3,4,8-) by (auto simp: Score_def result_iffs nle_def)
  then show ?thesis by (rule nle_not_less)
qed

section \<open>The order by score\<close>

definition scores_comparable :: "candidate list \<Rightarrow> bool" where
  "scores_comparable cs \<longleftrightarrow> (\<forall>c \<in> set cs. cd_score c \<noteq> NaN)"

lemma score_before_asym:
  "cd_score a \<noteq> NaN \<Longrightarrow> cd_score b \<noteq> NaN \<Longrightarrow> score_before a b \<Longrightarrow> \<not> score_before b a"
  by (cases "cd_score a"; cases "cd_score b") (auto simp: score_before_def split: if_splits)

lemma score_before_total:
  "cd_score a \<noteq> NaN \<Longrightarrow> cd_score b \<noteq> NaN \<Longrightarrow> cd_id a \<noteq> cd_id b \<Longrightarrow> score_before a b \<or> score_before b a"
  by (cases "cd_score a"; cases "cd_score b") (auto simp: score_before_def split: if_splits)

lemma score_not_after_trans:
  "cd_score a \<noteq> NaN \<Longrightarrow> cd_score b \<noteq> NaN \<Longrightarrow> cd_score c \<noteq> NaN \<Longrightarrow>
     \<not> score_before b a \<Longrightarrow> \<not> score_before c b \<Longrightarrow> \<not> score_before c a"
  by (cases "cd_score a"; cases "cd_score b"; cases "cd_score c") (auto simp: score_before_def split: if_splits)

lemma ByScore_sorted:
  assumes "scores_comparable cs"
  shows "no_inversion score_before (ByScore cs)"
  unfolding ByScore_def
proof (rule no_inversion_stable_sort)
  show "set cs \<subseteq> {c. cd_score c \<noteq> NaN}" using assms by (auto simp: scores_comparable_def)
  show "\<And>a b. a \<in> {c. cd_score c \<noteq> NaN} \<Longrightarrow> b \<in> {c. cd_score c \<noteq> NaN} \<Longrightarrow> score_before a b \<Longrightarrow> \<not> score_before b a"
    using score_before_asym by simp
  show "\<And>a b c. a \<in> {c. cd_score c \<noteq> NaN} \<Longrightarrow> b \<in> {c. cd_score c \<noteq> NaN} \<Longrightarrow> c \<in> {c. cd_score c \<noteq> NaN} \<Longrightarrow>
      \<not> score_before b a \<Longrightarrow> \<not> score_before c b \<Longrightarrow> \<not> score_before c a"
    by (rule score_not_after_trans) simp_all
qed

lemma distinct_ids_total:
  assumes "scores_comparable cs" and "distinct (map cd_id cs)" and "a \<in> set cs" and "b \<in> set cs" and "a \<noteq> b"
  shows "score_before a b \<or> score_before b a"
proof -
  have "cd_id a \<noteq> cd_id b" using assms(2-) by (metis distinct_map inj_on_def)
  with assms(1,3,4) show ?thesis using score_before_total [of a b] by (auto simp: scores_comparable_def)
qed

text \<open>
  The order by score is a function of the set of candidates: it is a permutation of its input
  in which no candidate comes before one that scores higher, or equally with a smaller identifier,
  and any other order of the same candidates sorts to the same list.
\<close>

theorem ByScore_canonical:
  assumes "scores_comparable cs" and "distinct (map cd_id cs)" and "mset cs = mset cs'"
  shows "ByScore cs = ByScore cs' \<and> mset (ByScore cs) = mset cs \<and>
    sorted_wrt (\<lambda>a b. \<not> score_before b a) (ByScore cs)"
proof -
  have sets: "set cs = set cs'" using assms(3) by (metis set_mset_mset)
  have sorted: "no_inversion score_before (ByScore cs)" "no_inversion score_before (ByScore cs')"
    using ByScore_sorted assms(1) sets by (simp_all add: scores_comparable_def)
  have "ByScore cs = ByScore cs'"
    by (rule no_inversion_unique [OF distinct_ids_total [OF assms(1,2)] sorted])
      (auto simp: ByScore_def assms(3))
  moreover have "mset (ByScore cs) = mset cs" by (simp add: ByScore_def)
  ultimately show ?thesis using sorted(1) unfolding no_inversion_def by blast
qed

section \<open>Concrete runs\<close>

definition sample_assessment :: assessment where
  "sample_assessment = \<lparr>as_probability = \<lparr>iv_low = Fin (1/2), iv_high = Fin (1/2)\<rparr>,
     as_gain = \<lparr>iv_low = Fin 4, iv_high = Fin 4\<rparr>, as_information = Fin 1, as_unblock = Fin 0,
     as_downside = Fin 1, as_pool_hours = Fin 2, as_confidence = Fin 1, as_age_hours = Fin 10, as_rationale = []\<rparr>"

definition sample_candidate :: "string \<Rightarrow> rat \<Rightarrow> candidate" where
  "sample_candidate i s = \<lparr>cd_id = i, cd_revision = [], cd_title = [], cd_brief = [], cd_score = Fin s,
     cd_assess = sample_assessment\<rparr>"

text \<open>A judge that prefers the higher score, and calls equal scores a tie.\<close>

definition score_judge :: "candidate \<Rightarrow> candidate \<Rightarrow> battle_judgment option" where
  "score_judge a b = Some \<lparr>jd_schema = BattleSchema,
     jd_verdict = (if f_eq (cd_score a) (cd_score b) then VerdictTie else VerdictWinner),
     jd_winner = (if f_eq (cd_score a) (cd_score b) then [] else if f_less (cd_score a) (cd_score b) then cd_id b else cd_id a),
     jd_confidence = Fin 1, jd_rationale = []\<rparr>"

definition sample_queue :: "candidate list" where
  "sample_queue = [sample_candidate ''a'' 9, sample_candidate ''b'' 7, sample_candidate ''c'' 5]"

definition sample_options :: insert_options where
  "sample_options = \<lparr>io_minimum = Fin (1/2), io_tie_incumbent = True\<rparr>"

definition sample_insert :: "int \<Rightarrow> insert_result" where
  "sample_insert provisional =
    (case fst (Insert Fin sample_queue (sample_candidate ''n'' 7) provisional (Some (steady score_judge)) sample_options ()) of
       Inr r \<Rightarrow> r)"

lemma sample_insert_run:
  "Insert Fin sample_queue (sample_candidate ''n'' 7) 3 (Some (steady score_judge)) sample_options () =
     (Inr (sample_insert 3), ()) \<and> ir_applied (sample_insert 3) \<and> ir_position (sample_insert 3) = 2"
  by code_simp

theorem Insert_keeps_incumbents_witness:
  "length (ir_audits (sample_insert 3)) \<le> 6 \<and> ir_order (sample_insert 3) = take 2 sample_queue @ sample_candidate ''n'' 7 # drop 2 sample_queue"
proof -
  have "length sample_queue = 3" by (simp add: sample_queue_def)
  with Insert_keeps_incumbents [OF sample_insert_run [THEN conjunct1]] sample_insert_run
  show ?thesis by auto
qed

theorem Insert_locally_stable_witness:
  "battle_result score_judge (Fin (1/2)) (sample_candidate ''n'' 7) (sample_queue ! 2) = Some ''n'' \<and>
   battle_result score_judge (Fin (1/2)) (sample_candidate ''n'' 7) (sample_queue ! 1) \<noteq> Some ''n''"
proof -
  have m: "Fin (1/2) = minimum_confidence Fin sample_options" by (simp add: minimum_confidence_def sample_options_def f_zero_def)
  have "length sample_queue = 3" "cd_id (sample_candidate ''n'' 7) = ''n''" "io_tie_incumbent sample_options"
    by (simp_all add: sample_queue_def sample_candidate_def sample_options_def)
  with Insert_locally_stable [OF sample_insert_run [THEN conjunct1] _ m] sample_insert_run
  show ?thesis by fastforce
qed

theorem Score_monotone_witness:
  "\<not> f_less (Fin (101 / 100 + 1 / 2)) (Fin (101 / 100))"
proof -
  define v where "v = sample_assessment\<lparr>as_unblock := Fin 0\<rparr>"
  define v' where "v' = sample_assessment\<lparr>as_unblock := Fin 1\<rparr>"
  have v: "Score Fin (DefaultWeights Fin) v = Inr (Fin (101 / 100))" unfolding v_def by code_simp
  have v': "Score Fin (DefaultWeights Fin) v' = Inr (Fin (101 / 100 + 1 / 2))" unfolding v'_def by code_simp
  have "rounds Fin" by (simp add: rounds_def)
  moreover have "weights_ok (DefaultWeights Fin)" by (simp add: weights_ok_def DefaultWeights_def scale_def f_zero_def)
  ultimately show ?thesis
    by (rule Score_monotone [OF _ _ v v']) (simp_all add: v_def v'_def sample_assessment_def)
qed

theorem ByScore_canonical_witness:
  "ByScore sample_queue = ByScore (rev sample_queue) \<and> sorted_wrt (\<lambda>a b. \<not> score_before b a) (ByScore sample_queue)"
proof -
  have "scores_comparable sample_queue" "distinct (map cd_id sample_queue)"
    by (simp_all add: scores_comparable_def sample_queue_def sample_candidate_def)
  from ByScore_canonical [OF this, of "rev sample_queue"] show ?thesis by fastforce
qed

end
