(* ===== verification/Spec2Isabelle.thy ===== *)
theory Spec2Isabelle
  imports Exp_Controller_Samples Exp_Inventory_Samples Exp_Journal_Theorems Exp_Layout_Theorems Exp_Op_Event_Theorems Exp_Op_Refinement Exp_Ranking_Theorems
begin

text \<open>
  \<^bold>\<open>exp-cli: a verification development.\<close>

  exp-cli keeps a research project as Markdown records under Git (Ideas, Plans, Experiments, Runs, Attempts,
  Findings, Decisions, Tries, Queues, Evaluations, Candidates, Releases, Promotions and others) and runs the
  planned work through an external scheduler. Its core has four parts. The record model says which records and
  which changes of a record are legal. The record store encodes them, places them in a canonical tree, checks the
  whole inventory and publishes a set of files through a journalled transaction. The operational store is a
  SQLite database of jobs, leases, intents and events. The controller loops over both: it asks the canonical
  records what to run, submits it to the scheduler at most once and reconciles what ended. Paths below are
  relative to \<^verbatim>\<open>src/internal/\<close>.

  \<^bold>\<open>Conventions.\<close> Strings are byte lists (\<^verbatim>\<open>Exp_Prelude\<close>), so \<open><\<close> on them is Go's order. A time is an instant
  in nanoseconds with a zone offset, a float an IEEE special or a rational. A Go error is the left side of a sum
  or an \<open>option\<close>, a validator the list of issues it adds, in order. A nil slice and an empty one are one list: the
  code tells them apart only when it encodes. A struct is a \<open>record\<close>, an enumeration over strings a
  \<open>datatype\<close> with a constructor for unknown texts where the code accepts them.

  What is not in the repository is a parameter, a field of a host record: the UUID library (\<open>host\<close>), SHA-256, the
  TOML and JSON codecs, time parsing and number printing of the standard library (\<open>update_host\<close>,
  \<open>codec_host\<close>, \<open>op_host\<close>, \<open>tx_host\<close>), the rounding of float arithmetic, and the scheduler. So are
  pure classifiers and digests of the repository that the development does not open: the safe-text and
  argument checks of \<^verbatim>\<open>safex\<close>, the URL and locator checks, the design, snapshot and belief digests, the
  check that a path stays in its root, and the archive checks of an imported project. Theorems hold for every
  value of these parameters, save for the laws they name (\<open>uuid_library\<close>, \<open>front_codec\<close> and the like).

  \<^bold>\<open>The record model\<close> (\<^verbatim>\<open>research/\<close>). \<^verbatim>\<open>Exp_Kinds\<close>, \<^verbatim>\<open>Exp_Ids\<close>: kinds, schemas, typed identifiers and the
  resolution of references (\<^verbatim>\<open>kind.go\<close>, \<^verbatim>\<open>id.go\<close>, \<^verbatim>\<open>resolve.go\<close>). \<^verbatim>\<open>Exp_Text\<close>: slugs, names and committed paths
  (\<^verbatim>\<open>policy.go\<close>). \<^verbatim>\<open>Exp_Records\<close>: the records (\<^verbatim>\<open>models.go\<close>, \<^verbatim>\<open>control_models.go\<close>). \<^verbatim>\<open>Exp_Checks\<close> and the
  \<^verbatim>\<open>Exp_Validate\<close> theories: the issue collector and a validator per kind (\<^verbatim>\<open>validate.go\<close>, \<^verbatim>\<open>control_validate.go\<close>).
  Lemmas: identifiers round-trip, committed paths stay inside their root, what acceptance of a Queue,
  Experiment, Attempt or Battle guarantees, and that a report does not depend on the order of Go's maps.

  \<^bold>\<open>The record store\<close> (\<^verbatim>\<open>record/\<close>). \<^verbatim>\<open>Exp_Layout\<close>: paths and identities of documents (\<^verbatim>\<open>layout.go\<close>).
  \<^verbatim>\<open>Exp_Normalize\<close>, \<^verbatim>\<open>Exp_Envelope\<close>: the normal form (\<^verbatim>\<open>research/normalize.go\<close>) and the file format
  (\<^verbatim>\<open>frontmatter.go\<close>, \<^verbatim>\<open>migration_codec.go\<close>). \<^verbatim>\<open>Exp_Update\<close>: the rules for replacing a record (\<^verbatim>\<open>store.go\<close>, \<^verbatim>\<open>exploration_update.go\<close>,
  \<^verbatim>\<open>transaction.go\<close>); \<^verbatim>\<open>Exp_Update_Theorems\<close> lifts them to any sequence of replacements with two locales,
  \<open>settling\<close> (a fact that never changes once true) and \<open>growing\<close> (a list that only grows).
  \<^verbatim>\<open>Exp_Inventory\<close>, \<^verbatim>\<open>Exp_Relations\<close>, \<^verbatim>\<open>Exp_Graph\<close>, \<^verbatim>\<open>Exp_Candidates\<close>, \<^verbatim>\<open>Exp_Control\<close>: the candidate inventory,
  its relationship rules, cycle search, Promotion chains, report, and what the controller reads from it
  (\<^verbatim>\<open>inventory.go\<close>, \<^verbatim>\<open>control.go\<close>). \<^verbatim>\<open>Exp_Atomic\<close>, \<^verbatim>\<open>Exp_Journal\<close>: the publication of one file and the journal
  of a transaction with its recovery (\<^verbatim>\<open>atomic.go\<close>, \<^verbatim>\<open>transaction_journal.go\<close>), where hooks let other programs
  act, or the process stop, at every boundary. Lemmas: files round-trip, a new path is read back as its record,
  evidence and outcomes are permanent, an inventory without diagnostics has resolved references, acyclic
  relations and lawful Promotion chains, a publication never overwrites what it has not inspected, and recovery
  completes a prepared transaction after any number of crashes, or changes nothing when it meets an unrelated edit.

  \<^bold>\<open>The operational store\<close> (\<^verbatim>\<open>operation/\<close>). \<^verbatim>\<open>Exp_Op_Table\<close>: SQL statements over tables as lists of rows.
  \<^verbatim>\<open>Exp_Clock\<close>: RFC3339 texts and their comparison. \<^verbatim>\<open>Exp_Op_Types\<close>, \<^verbatim>\<open>Exp_Op_Store\<close>, \<^verbatim>\<open>Exp_Op_Jobs\<close>: every
  operation of \<^verbatim>\<open>store_sqlite.go\<close>. A transaction is one step; an error leaves the database as it was. The
  locale \<open>store_operation\<close> (\<^verbatim>\<open>Exp_Op_Steps\<close>) is the contract of an operation (it keeps the database well formed
  and moves it forward only), interpreted for each of them; the theorems about executions rest on it, down
  to the refinement of an abstract job queue (\<^verbatim>\<open>Exp_Op_Refinement\<close>).

  \<^bold>\<open>Ranking\<close> (\<^verbatim>\<open>ranking/\<close>). \<^verbatim>\<open>Exp_Ranking\<close>: expected-value scores over a rounding parameter, and pairwise insertion
  with any judge.

  \<^bold>\<open>The scheduling loop\<close> (\<^verbatim>\<open>controller/\<close>). \<^verbatim>\<open>Exp_Controller\<close>: one tick and their repetition (\<^verbatim>\<open>controller.go\<close>, with the
  replay of a worker's terminal marker of \<^verbatim>\<open>worker/runner.go\<close>) as actions on a world: the operational store, the
  canonical records and the scheduler behind their interfaces, the clock, and the effects left before the
  process is killed. \<^verbatim>\<open>Exp_Controller_Logic\<close> has the rules for these actions and the locale \<open>quiet_operation\<close>, which
  extends \<open>store_operation\<close>; \<^verbatim>\<open>Exp_Controller_Steps\<close> the locale \<open>tick_invariant\<close>, from whose laws a condition holds
  across a whole run. Lemmas: the daemon only executes the store, submits nothing while it is paused, submits a
  job at most once over ticks killed anywhere, stays within the capacity of a pool, and its pass over a pool ends.

  \<^bold>\<open>Loops and fuel.\<close> Where the Go loop is not structural the model has fuel, proved sufficient: the cycle search
  (\<open>visit\<close>: its stack never repeats a node, so the number of nodes is enough), the derivation of champions
  (\<open>champion_loop\<close>: a chain of a valid inventory repeats no Promotion, and an invalid one may loop, which is
  the value \<open>None\<close>) and the pass over a pool (\<open>dispatch_loop\<close>: each round that submits uses a free unit).
  Running out is a value of its own, never a result. The pages of an outbox recovery are bounded by the code.

  \<^bold>\<open>Witnesses.\<close> A theorem with hypotheses is applied to a concrete database, journal, record or inventory;
  \<^verbatim>\<open>Exp_Inventory_Samples\<close> holds the inventories, among them a chain of three Promotions with a rollback, and
  \<^verbatim>\<open>Exp_Controller_Samples\<close> a daemon killed between a submission and its record, and restarted.

  \<^bold>\<open>Not modelled.\<close> The command line and terminal interface, project discovery, skill installation, configuration
  and trust files, the platform layer, Git, source snapshots and workspaces are mostly calls of the operating
  system or of Git. The providers (Pueue, MLflow, agents, search) are adapters of external commands. Of the
  worker only the replay of a terminal marker is modelled; the rest starts and watches processes. The
  control plane adapter, the lifecycle and queue services, the Try runtime, the projection, the migration of
  harness v0 trees and the safe-text classifier are left out: they compose the record store with the parts
  above. Within the modelled files, the PROJECT manifest names for each component what is left out.
\<close>

end
